(* ===== verification/VTN_Prelude.thy ===== *)
theory VTN_Prelude
  imports Main "HOL-Library.Word" "HOL-Library.Monad_Syntax"
begin

text \<open>
  Shared vocabulary of the development: the machine integers of the C++ sources, the named
  collections of simplification rules, and the few generic facts on options, sets and words that
  the component theories use.

  A call of the program is a function on an explicit state. A call that may fail to return (a
  \<open>PFC_VERIFY\<close> that stops the process, a thread that stays blocked on a condition variable, a
  dereference of an end iterator) has an option result, where \<open>None\<close> means that the call does
  not return; such calls are composed with the option monad.
\<close>

section \<open>Machine integers\<close>

type_synonym u8 = "8 word"
type_synonym u32 = "32 word"
type_synonym u64 = "64 word"

definition UINT32_MAX :: u32 where
  "UINT32_MAX = 0xFFFFFFFF"

section \<open>Collections\<close>

named_theorems rwlock_defs "definitions of the read/write lock"
named_theorems tclock_defs "definitions of the operations of TcLock"
named_theorems tcdb_defs "definitions of the database handler"
named_theorems tcmsg_defs "definitions of the message layer"
named_theorems tcoper_defs "definitions of the operation handlers"

section \<open>Generic facts\<close>

lemma UINT32_MAX_neq_0 [simp]: "UINT32_MAX \<noteq> 0" "0 \<noteq> UINT32_MAX"
  by (simp_all add: UINT32_MAX_def)

lemma UINT32_MAX_plus_1: "UINT32_MAX + 1 = 0"
  by (simp add: UINT32_MAX_def)

lemma unat_UINT32_MAX: "unat UINT32_MAX = 2 ^ 32 - 1"
  by (simp add: UINT32_MAX_def)

lemma card_insert_new:
  "finite S \<Longrightarrow> x \<notin> S \<Longrightarrow> (of_nat (card (insert x S)) :: 'a :: semiring_1) = of_nat (card S) + 1"
  by (simp add: add.commute)

lemma card_remove_old:
  assumes "finite S" "x \<in> S"
  shows "(of_nat (card S) :: 'a :: ring_1) = of_nat (card (S - {x})) + 1"
proof -
  have "card S = Suc (card (S - {x}))"
    using assms by (metis card_Suc_Diff1)
  then show ?thesis by (simp add: add.commute)
qed

lemma unat_of_nat_small: "n < 2 ^ LENGTH('a :: len) \<Longrightarrow> unat (of_nat n :: 'a word) = n"
  by (simp add: unat_of_nat)

lemma of_nat_lessI: "n < m \<Longrightarrow> m < 2 ^ LENGTH('a :: len) \<Longrightarrow> \<not> (of_nat m :: 'a word) < of_nat n"
  by (simp add: word_less_nat_alt unat_of_nat_small)

lemma unat_inc:
  assumes "(i :: 'a :: len word) < n"
  shows "unat (i + 1) = unat i + 1"
proof -
  have "unat i + 1 \<le> unat n" using assms by (simp add: word_less_nat_alt)
  also have "unat n < 2 ^ LENGTH('a)" by (rule unsigned_less)
  finally show ?thesis by (simp add: unat_word_ariths)
qed

end
