(* ===== verification/TC_Types.thy ===== *)
theory TC_Types
  imports VTN_Prelude
begin

text \<open>
  The enumerations of the transaction coordinator (\<open>modules/tc/include/tc_module_data.hh\<close>,
  \<open>tc_lock.hh\<close>), one datatype each, with the constructors of the source.
\<close>

datatype TcState = TC_INIT | TC_ACT | TC_SBY | TC_STOP | TC_ACT_FAIL

datatype TcOperation =
    TC_OPERATION_NONE
  | TC_ACQUIRE_CONFIG_SESSION
  | TC_RELEASE_CONFIG_SESSION
  | TC_FORCE_ACQUIRE_CONFIG_SESSION
  | TC_ACQUIRE_READ_SESSION
  | TC_RELEASE_READ_SESSION
  | TC_ACQUIRE_WRITE_SESSION
  | TC_RELEASE_WRITE_SESSION
  | TC_AUTO_SAVE_ENABLE
  | TC_AUTO_SAVE_DISABLE
  | TC_AUTO_SAVE_GET
  | TC_ACQUIRE_READ_LOCK_FOR_STATE_TRANSITION
  | TC_RELEASE_READ_LOCK_FOR_STATE_TRANSITION

datatype TcWriteOperation =
    TC_WRITE_NONE
  | TC_AUDIT_USER
  | TC_AUDIT_DRIVER
  | TC_COMMIT
  | TC_ABORT_CANDIDATE_CONFIG
  | TC_CLEAR_STARTUP_CONFIG
  | TC_SAVE_STARTUP_CONFIG

datatype TcNotifyOperation = TC_NOTIFY_NONE | TC_NOTIFY_ACQUIRE | TC_NOTIFY_RELEASE

datatype TcSessionOperationProgress =
    TC_NO_OPERATION_PROGRESS
  | TC_CONFIG_COMMIT_PROGRESS
  | TC_WRITE_AUDIT_USER_PROGRESS
  | TC_WRITE_AUDIT_DRIVER_PROGRESS
  | TC_CONFIG_NOTIFY_ACQUIRE_PROGRESS
  | TC_CONFIG_NOTIFY_RELEASE_PROGRESS
  | TC_CONFIG_NO_NOTIFY_PROGRESS
  | TC_READ_PROGRESS
  | TC_WRITE_ABORT_CANDIDATE_CONFIG_PROGRESS
  | TC_WRITE_SAVE_STARTUP_CONFIG_PROGRESS
  | TC_WRITE_CLEAR_STARTUP_CONFIG_PROGRESS
  | TC_INVALID_OPERATION_PROGRESS

datatype TcLockRet =
    TC_LOCK_SUCCESS
  | TC_LOCK_NO_CONFIG_SESSION_EXIST
  | TC_LOCK_NOT_ACQUIRED
  | TC_LOCK_INVALID_CONFIG_ID
  | TC_LOCK_INVALID_OPERATION
  | TC_LOCK_INVALID_SESSION_ID
  | TC_LOCK_INVALID_UNC_STATE
  | TC_LOCK_ALREADY_ACQUIRED
  | TC_LOCK_BUSY
  | TC_LOCK_OPERATION_NOT_ALLOWED
  | TC_LOCK_INVALID_PARAMS
  | TC_LOCK_FAILURE

text \<open>The fixed session identifiers of the database management and launcher commands.\<close>

definition USESS_ID_DB_MGMT :: u32 where
  "USESS_ID_DB_MGMT = 128"

definition USESS_ID_LAUNCHER :: u32 where
  "USESS_ID_LAUNCHER = 129"

end
