(* ===== verification/TC_Ipc.thy ===== *)
theory TC_Ipc
  imports TC_Types "HOL-Library.State_Monad"
begin

text \<open>
  The IPC layer as the transaction coordinator uses it: the enumerations of the messages
  (\<open>include/uncxx/tclib/tclib_defs.hh\<close>, \<open>include/unc/tc/external/tc_services.h\<close>) and the
  session wrappers of \<open>libs/libtc_common\<close>.

  The PFC transport is not modelled; its answers are a parameter, a record of functions from the
  history of all previous calls to the answer of the next one, so that a call may fail at any time
  and in any way. Every call appends one event to the history; the theorems speak about
  the history, that is, about which message was delivered to which daemon in which order.
\<close>

section \<open>Enumerations\<close>

datatype TcUtilRet = TCUTIL_RET_SUCCESS | TCUTIL_RET_FAILURE | TCUTIL_RET_FATAL

datatype TcMsgOperType =
    MSG_NONE | MSG_NOTIFY_CONFIGID | MSG_SETUP | MSG_SETUP_COMPLETE
  | MSG_COMMIT_TRANS_START | MSG_COMMIT_VOTE | MSG_COMMIT_DRIVER_VOTE | MSG_COMMIT_VOTE_DRIVER_RESULT
  | MSG_COMMIT_GLOBAL | MSG_COMMIT_DRIVER_GLOBAL | MSG_COMMIT_GLOBAL_DRIVER_RESULT | MSG_COMMIT_TRANS_END
  | MSG_AUDIT_START | MSG_AUDIT_TRANS_START | MSG_AUDIT_VOTE | MSG_AUDIT_DRIVER_VOTE
  | MSG_AUDIT_VOTE_DRIVER_RESULT | MSG_AUDIT_GLOBAL | MSG_AUDIT_DRIVER_GLOBAL
  | MSG_AUDIT_GLOBAL_DRIVER_RESULT | MSG_AUDIT_TRANS_END | MSG_AUDIT_END
  | MSG_SAVE_CONFIG | MSG_CLEAR_CONFIG | MSG_ABORT_CANDIDATE | MSG_AUDITDB
  | MSG_COMMIT_ABORT | MSG_AUDIT_ABORT | MSG_GET_DRIVERID | MSG_CONTROLLER_TYPE
  | MSG_AUTOSAVE_ENABLE | MSG_AUTOSAVE_DISABLE | MSG_MAX

text \<open>The value of an operation type as it is sent, in the order of the enumeration.\<close>

definition all_opertypes :: "TcMsgOperType list" where
  "all_opertypes =
     [MSG_NONE, MSG_NOTIFY_CONFIGID, MSG_SETUP, MSG_SETUP_COMPLETE,
      MSG_COMMIT_TRANS_START, MSG_COMMIT_VOTE, MSG_COMMIT_DRIVER_VOTE, MSG_COMMIT_VOTE_DRIVER_RESULT,
      MSG_COMMIT_GLOBAL, MSG_COMMIT_DRIVER_GLOBAL, MSG_COMMIT_GLOBAL_DRIVER_RESULT, MSG_COMMIT_TRANS_END,
      MSG_AUDIT_START, MSG_AUDIT_TRANS_START, MSG_AUDIT_VOTE, MSG_AUDIT_DRIVER_VOTE,
      MSG_AUDIT_VOTE_DRIVER_RESULT, MSG_AUDIT_GLOBAL, MSG_AUDIT_DRIVER_GLOBAL,
      MSG_AUDIT_GLOBAL_DRIVER_RESULT, MSG_AUDIT_TRANS_END, MSG_AUDIT_END,
      MSG_SAVE_CONFIG, MSG_CLEAR_CONFIG, MSG_ABORT_CANDIDATE, MSG_AUDITDB,
      MSG_COMMIT_ABORT, MSG_AUDIT_ABORT, MSG_GET_DRIVERID, MSG_CONTROLLER_TYPE,
      MSG_AUTOSAVE_ENABLE, MSG_AUTOSAVE_DISABLE, MSG_MAX]"

definition opertype_value :: "TcMsgOperType \<Rightarrow> u8" where
  "opertype_value oper = of_nat (length (takeWhile (\<lambda>x. x \<noteq> oper) all_opertypes))"

datatype TcLibServiceId =
    TCLIB_NOTIFY_SESSION_CONFIG | TCLIB_COMMIT_TRANSACTION | TCLIB_COMMIT_DRV_VOTE_GLOBAL
  | TCLIB_COMMIT_DRV_RESULT | TCLIB_COMMIT_GLOBAL_ABORT | TCLIB_AUDIT_TRANSACTION
  | TCLIB_AUDIT_DRV_VOTE_GLOBAL | TCLIB_AUDIT_DRV_RESULT | TCLIB_AUDIT_GLOBAL_ABORT
  | TCLIB_SAVE_CONFIG | TCLIB_CLEAR_STARTUP | TCLIB_USER_ABORT | TCLIB_SETUP
  | TCLIB_SETUP_COMPLETE | TCLIB_GET_DRIVERID | TCLIB_AUDIT_CONFIG | TCLIB_CONTROLLER_TYPE
  | TCLIB_AUTOSAVE_ENABLE | TCLIB_AUTOSAVE_DISABLE

text \<open>Answers of a daemon (\<open>TcCommonRet\<close>), the other small enumerations by value.\<close>

abbreviation TC_SUCCESS :: u32 where "TC_SUCCESS \<equiv> 0"
abbreviation TC_FAILURE :: u32 where "TC_FAILURE \<equiv> 1"
abbreviation TC_SIMPLIFIED_AUDIT :: u32 where "TC_SIMPLIFIED_AUDIT \<equiv> 2"

abbreviation TC_COMMIT_VOTE_PHASE :: u8 where "TC_COMMIT_VOTE_PHASE \<equiv> 0"
abbreviation TC_COMMIT_GLOBAL_COMMIT_PHASE :: u8 where "TC_COMMIT_GLOBAL_COMMIT_PHASE \<equiv> 1"
abbreviation TC_AUDIT_VOTE_PHASE :: u8 where "TC_AUDIT_VOTE_PHASE \<equiv> 2"
abbreviation TC_AUDIT_GLOBAL_COMMIT_PHASE :: u8 where "TC_AUDIT_GLOBAL_COMMIT_PHASE \<equiv> 3"

abbreviation COMMIT_VOTE_REQUEST :: u8 where "COMMIT_VOTE_REQUEST \<equiv> 1"
abbreviation AUDIT_VOTE_REQUEST :: u8 where "AUDIT_VOTE_REQUEST \<equiv> 2"

abbreviation TRANS_END_FAILURE :: u8 where "TRANS_END_FAILURE \<equiv> 0"
abbreviation TRANS_END_SUCCESS :: u8 where "TRANS_END_SUCCESS \<equiv> 1"

abbreviation TC_AUDIT_FAILURE :: u8 where "TC_AUDIT_FAILURE \<equiv> 0"
abbreviation TC_AUDIT_SUCCESS :: u8 where "TC_AUDIT_SUCCESS \<equiv> 1"
abbreviation TC_SIMPLIFIED_AUDIT_SUCCESS :: u8 where "TC_SIMPLIFIED_AUDIT_SUCCESS \<equiv> 2"

datatype TcDaemonName =
    TC_NONE | TC_UPLL | TC_UPPL | TC_DRV_OPENFLOW | TC_DRV_OVERLAY | TC_DRV_POLC | TC_DRV_ODL

type_synonym TcChannelNameMap = "TcDaemonName \<rightharpoonup> string"

section \<open>Sessions and the history of calls\<close>

text \<open>
  A value in an IPC message; a string may be null, a structure has the name of its definition and its
  bytes.
\<close>

datatype ipc_val =
    IpcU8 u8
  | IpcU32 u32
  | IpcU64 u64
  | IpcI32 "32 word"
  | IpcStr "string option"
  | IpcStruct string "u8 list"
  | IpcOther

record csess =
  cs_channel :: string
  cs_service :: TcLibServiceId
  cs_args :: "ipc_val list"
  cs_resp :: "ipc_val list"

datatype tc_event =
    EvOpen string TcLibServiceId
  | EvTimeout
  | EvAdd ipc_val
  | EvInvoke string TcLibServiceId "ipc_val list" u32 u32
  | EvForward
  | EvOdbc
  | EvSql string bool
  | EvLock
  | EvSignal u32
  | EvPost u32 u32
  | EvTask string u32
  | EvAlarm string

type_synonym history = "tc_event list"

text \<open>
  The transport. An error number 0 means that the call succeeded; \<open>invoke_res\<close> gives the error
  number, the answer code of the daemon and the values of its answer.
\<close>

record ipc_env =
  altopen :: "history \<Rightarrow> u32 \<times> u32"
  settimeout_err :: "history \<Rightarrow> u32"
  addoutput_err :: "history \<Rightarrow> u32"
  invoke_res :: "history \<Rightarrow> csess \<Rightarrow> u32 \<times> u32 \<times> ipc_val list"
  forward_err :: "history \<Rightarrow> u32"

text \<open>A transport in which every call succeeds and every daemon answers \<open>TC_SUCCESS\<close>.\<close>

definition good_env :: ipc_env where
  "good_env = \<lparr>altopen = \<lambda>_. (0, 1), settimeout_err = \<lambda>_. 0, addoutput_err = \<lambda>_. 0,
     invoke_res = \<lambda>_ _. (0, TC_SUCCESS, []), forward_err = \<lambda>_. 0\<rparr>"

text \<open>Most error numbers are stored in a \<open>uint8_t\<close> before they are tested.\<close>

definition err8 :: "u32 \<Rightarrow> bool" where
  "err8 e \<longleftrightarrow> (ucast e :: u8) \<noteq> 0"

section \<open>Client session wrappers\<close>

definition create_tc_client_session ::
  "ipc_env \<Rightarrow> string \<Rightarrow> TcLibServiceId \<Rightarrow> bool \<Rightarrow> history \<Rightarrow> csess option \<times> history" where
  "create_tc_client_session env channel_name service_id infinite_timeout h =
     (let (err, conn) = altopen env h; h1 = h @ [EvOpen channel_name service_id]
      in if err \<noteq> 0 \<or> conn = 0 then (None, h1)
         else let cs = \<lparr>cs_channel = channel_name, cs_service = service_id, cs_args = [], cs_resp = []\<rparr>
              in if infinite_timeout
                 then if settimeout_err env h1 \<noteq> 0 then (None, h1 @ [EvTimeout])
                      else (Some cs, h1 @ [EvTimeout])
                 else (Some cs, h1))"

text \<open>
  \<open>set_uint8\<close>, \<open>set_uint32\<close>, \<open>set_uint64\<close> and \<open>set_string\<close> differ only in the value they
  append.
\<close>

definition clnt_set ::
  "ipc_env \<Rightarrow> ipc_val \<Rightarrow> csess option \<Rightarrow> history \<Rightarrow> TcUtilRet \<times> csess option \<times> history" where
  "clnt_set env v csess h =
     (case csess of
        None \<Rightarrow> (TCUTIL_RET_FAILURE, None, h)
      | Some cs \<Rightarrow>
          if err8 (addoutput_err env h) then (TCUTIL_RET_FATAL, Some cs, h @ [EvAdd v])
          else (TCUTIL_RET_SUCCESS, Some (cs\<lparr>cs_args := cs_args cs @ [v]\<rparr>), h @ [EvAdd v]))"

definition tc_session_invoke ::
  "ipc_env \<Rightarrow> csess option \<Rightarrow> history \<Rightarrow> TcUtilRet \<times> u32 \<times> csess option \<times> history" where
  "tc_session_invoke env csess h =
     (case csess of
        None \<Rightarrow> (TCUTIL_RET_FAILURE, 0, None, h)
      | Some cs \<Rightarrow>
          let (err, resp, vals) = invoke_res env h cs;
              h1 = h @ [EvInvoke (cs_channel cs) (cs_service cs) (cs_args cs) err resp]
          in if err8 err then (TCUTIL_RET_FATAL, resp, Some cs, h1)
             else (TCUTIL_RET_SUCCESS, resp, Some (cs\<lparr>cs_resp := vals\<rparr>), h1))"

text \<open>Reading a value of an answer, by its index.\<close>

definition clnt_get_uint8 :: "csess option \<Rightarrow> u32 \<Rightarrow> TcUtilRet \<times> u8 option" where
  "clnt_get_uint8 csess index =
     (case csess of
        None \<Rightarrow> (TCUTIL_RET_FAILURE, None)
      | Some cs \<Rightarrow>
          let arg_count = of_nat (length (cs_resp cs)) :: u32
          in if index > arg_count then (TCUTIL_RET_FAILURE, None)
             else if unat index \<ge> length (cs_resp cs) then (TCUTIL_RET_FATAL, None)
             else case cs_resp cs ! unat index of
                    IpcU8 x \<Rightarrow> (TCUTIL_RET_SUCCESS, Some x)
                  | _ \<Rightarrow> (TCUTIL_RET_FAILURE, None))"

definition clnt_get_uint32 :: "csess option \<Rightarrow> u32 \<Rightarrow> TcUtilRet \<times> u32 option" where
  "clnt_get_uint32 csess index =
     (case csess of
        None \<Rightarrow> (TCUTIL_RET_FAILURE, None)
      | Some cs \<Rightarrow>
          let arg_count = of_nat (length (cs_resp cs)) :: u32
          in if index > arg_count then (TCUTIL_RET_FAILURE, None)
             else if unat index \<ge> length (cs_resp cs) then (TCUTIL_RET_FATAL, None)
             else case cs_resp cs ! unat index of
                    IpcU32 x \<Rightarrow> (TCUTIL_RET_SUCCESS, Some x)
                  | _ \<Rightarrow> (TCUTIL_RET_FAILURE, None))"

definition clnt_get_uint64 :: "csess option \<Rightarrow> u32 \<Rightarrow> TcUtilRet \<times> u64 option" where
  "clnt_get_uint64 csess index =
     (case csess of
        None \<Rightarrow> (TCUTIL_RET_FAILURE, None)
      | Some cs \<Rightarrow>
          let arg_count = of_nat (length (cs_resp cs)) :: u32
          in if index > arg_count then (TCUTIL_RET_FAILURE, None)
             else if unat index \<ge> length (cs_resp cs) then (TCUTIL_RET_FATAL, None)
             else case cs_resp cs ! unat index of
                    IpcU64 x \<Rightarrow> (TCUTIL_RET_SUCCESS, Some x)
                  | _ \<Rightarrow> (TCUTIL_RET_FAILURE, None))"

definition clnt_get_string :: "csess option \<Rightarrow> u32 \<Rightarrow> TcUtilRet \<times> string option" where
  "clnt_get_string csess index =
     (case csess of
        None \<Rightarrow> (TCUTIL_RET_FAILURE, None)
      | Some cs \<Rightarrow>
          let arg_count = of_nat (length (cs_resp cs)) :: u32
          in if index > arg_count then (TCUTIL_RET_FAILURE, None)
             else if unat index \<ge> length (cs_resp cs) then (TCUTIL_RET_FAILURE, None)
             else case cs_resp cs ! unat index of
                    IpcStr (Some x) \<Rightarrow> (TCUTIL_RET_SUCCESS, Some x)
                  | IpcStr None \<Rightarrow> (TCUTIL_RET_FATAL, None)
                  | _ \<Rightarrow> (TCUTIL_RET_FAILURE, None))"

section \<open>Server session wrappers\<close>

text \<open>
  The session of the user who sent the request: its arguments and the answer written so far.
\<close>

record ssess =
  ss_args :: "ipc_val list"
  ss_out :: "ipc_val list"

definition srv_get_uint32 :: "ssess option \<Rightarrow> u32 \<Rightarrow> TcUtilRet \<times> u32 option" where
  "srv_get_uint32 ssess index =
     (case ssess of
        None \<Rightarrow> (TCUTIL_RET_FAILURE, None)
      | Some ss \<Rightarrow>
          let arg_count = of_nat (length (ss_args ss)) :: u32
          in if index > arg_count then (TCUTIL_RET_FAILURE, None)
             else if unat index \<ge> length (ss_args ss) then (TCUTIL_RET_FATAL, None)
             else case ss_args ss ! unat index of
                    IpcU32 x \<Rightarrow> (TCUTIL_RET_SUCCESS, Some x)
                  | _ \<Rightarrow> (TCUTIL_RET_FAILURE, None))"

definition srv_get_int32 :: "ssess option \<Rightarrow> u32 \<Rightarrow> TcUtilRet \<times> 32 word option" where
  "srv_get_int32 ssess index =
     (case ssess of
        None \<Rightarrow> (TCUTIL_RET_FAILURE, None)
      | Some ss \<Rightarrow>
          let arg_count = of_nat (length (ss_args ss)) :: u32
          in if index > arg_count then (TCUTIL_RET_FAILURE, None)
             else if unat index \<ge> length (ss_args ss) then (TCUTIL_RET_FATAL, None)
             else case ss_args ss ! unat index of
                    IpcI32 x \<Rightarrow> (TCUTIL_RET_SUCCESS, Some x)
                  | _ \<Rightarrow> (TCUTIL_RET_FAILURE, None))"

definition srv_get_uint8 :: "ssess option \<Rightarrow> u32 \<Rightarrow> TcUtilRet \<times> u8 option" where
  "srv_get_uint8 ssess index =
     (case ssess of
        None \<Rightarrow> (TCUTIL_RET_FAILURE, None)
      | Some ss \<Rightarrow>
          let arg_count = of_nat (length (ss_args ss)) :: u32
          in if index > arg_count then (TCUTIL_RET_FAILURE, None)
             else if unat index \<ge> length (ss_args ss) then (TCUTIL_RET_FATAL, None)
             else case ss_args ss ! unat index of
                    IpcU8 x \<Rightarrow> (TCUTIL_RET_SUCCESS, Some x)
                  | _ \<Rightarrow> (TCUTIL_RET_FAILURE, None))"

definition srv_get_string :: "ssess option \<Rightarrow> u32 \<Rightarrow> TcUtilRet \<times> string option" where
  "srv_get_string ssess index =
     (case ssess of
        None \<Rightarrow> (TCUTIL_RET_FAILURE, None)
      | Some ss \<Rightarrow>
          let arg_count = of_nat (length (ss_args ss)) :: u32
          in if index > arg_count then (TCUTIL_RET_FAILURE, None)
             else if unat index \<ge> length (ss_args ss) then (TCUTIL_RET_FATAL, None)
             else case ss_args ss ! unat index of
                    IpcStr (Some x) \<Rightarrow> (TCUTIL_RET_SUCCESS, Some x)
                  | _ \<Rightarrow> (TCUTIL_RET_FAILURE, None))"

definition srv_get_uint64 :: "ssess option \<Rightarrow> u32 \<Rightarrow> TcUtilRet \<times> u64 option" where
  "srv_get_uint64 ssess index =
     (case ssess of
        None \<Rightarrow> (TCUTIL_RET_FAILURE, None)
      | Some ss \<Rightarrow>
          let arg_count = of_nat (length (ss_args ss)) :: u32
          in if index > arg_count then (TCUTIL_RET_FAILURE, None)
             else if unat index \<ge> length (ss_args ss) then (TCUTIL_RET_FATAL, None)
             else case ss_args ss ! unat index of
                    IpcU64 x \<Rightarrow> (TCUTIL_RET_SUCCESS, Some x)
                  | _ \<Rightarrow> (TCUTIL_RET_FAILURE, None))"

text \<open>A structure can be read only by the definition with which it was written.\<close>

definition srv_get_struct :: "ssess option \<Rightarrow> u32 \<Rightarrow> string \<Rightarrow> TcUtilRet \<times> u8 list option" where
  "srv_get_struct ssess index def =
     (case ssess of
        None \<Rightarrow> (TCUTIL_RET_FAILURE, None)
      | Some ss \<Rightarrow>
          let arg_count = of_nat (length (ss_args ss)) :: u32
          in if index > arg_count then (TCUTIL_RET_FAILURE, None)
             else if unat index \<ge> length (ss_args ss) then (TCUTIL_RET_FATAL, None)
             else case ss_args ss ! unat index of
                    IpcStruct name x \<Rightarrow>
                      if name = def then (TCUTIL_RET_SUCCESS, Some x) else (TCUTIL_RET_FATAL, None)
                  | _ \<Rightarrow> (TCUTIL_RET_FAILURE, None))"

text \<open>\<open>set_uint8\<close>, \<open>set_uint32\<close>, \<open>set_uint64\<close>, \<open>set_string\<close> and \<open>set_struct\<close>.\<close>

definition srv_set ::
  "ipc_env \<Rightarrow> ipc_val \<Rightarrow> ssess option \<Rightarrow> history \<Rightarrow> TcUtilRet \<times> ssess option \<times> history" where
  "srv_set env v ssess h =
     (case ssess of
        None \<Rightarrow> (TCUTIL_RET_FAILURE, None, h)
      | Some ss \<Rightarrow>
          if err8 (addoutput_err env h) then (TCUTIL_RET_FATAL, Some ss, h @ [EvAdd v])
          else (TCUTIL_RET_SUCCESS, Some (ss\<lparr>ss_out := ss_out ss @ [v]\<rparr>), h @ [EvAdd v]))"

definition set_srv_timeout :: "ipc_env \<Rightarrow> ssess option \<Rightarrow> history \<Rightarrow> TcUtilRet \<times> history" where
  "set_srv_timeout env ssess h =
     (case ssess of
        None \<Rightarrow> (TCUTIL_RET_FAILURE, h)
      | Some ss \<Rightarrow>
          if settimeout_err env h \<noteq> 0 then (TCUTIL_RET_FAILURE, h @ [EvTimeout])
          else (TCUTIL_RET_SUCCESS, h @ [EvTimeout]))"

end
