(* ===== verification/TC_Msg.thy ===== *)
theory TC_Msg
  imports TC_Ipc "HOL-Library.Char_ord" "HOL-Library.List_Lexorder"
begin

text \<open>
  The messages of the transaction coordinator to the daemons that do not belong to the two-phase
  protocol, \<open>modules/tc/tcmsg.cc\<close>: classes \<open>TcMsg\<close>, \<open>TcMsgAutoSave\<close>, \<open>TcMsgSetUp\<close>,
  \<open>TcMsgNotifyConfigId\<close>, \<open>TcMsgToStartupDB\<close> and \<open>TcMsgAuditDB\<close>. A message object is one
  record with the members of all subclasses; the methods are programs of the state monad
  over it, written like the source with an early return for every error.
\<close>

section \<open>State\<close>

datatype TcOperRet =
    TCOPER_RET_SUCCESS
  | TCOPER_RET_FAILURE
  | TCOPER_RET_FATAL
  | TCOPER_RET_ABORT
  | TCOPER_RET_NO_DRIVER
  | TCOPER_RET_UNKNOWN
  | TCOPER_RET_SIMPLIFIED_AUDIT

text \<open>The enumerations that arrive over the wire keep their value.\<close>

abbreviation TC_OP_CONFIG_ACQUIRE :: u32 where "TC_OP_CONFIG_ACQUIRE \<equiv> 0"
abbreviation TC_OP_CONFIG_RELEASE :: u32 where "TC_OP_CONFIG_RELEASE \<equiv> 1"
abbreviation TC_OP_CONFIG_ACQUIRE_TIMED :: u32 where "TC_OP_CONFIG_ACQUIRE_TIMED \<equiv> 2"
abbreviation TC_OP_CONFIG_ACQUIRE_FORCE :: u32 where "TC_OP_CONFIG_ACQUIRE_FORCE \<equiv> 3"
abbreviation TC_OP_CANDIDATE_COMMIT :: u32 where "TC_OP_CANDIDATE_COMMIT \<equiv> 4"
abbreviation TC_OP_CANDIDATE_ABORT :: u32 where "TC_OP_CANDIDATE_ABORT \<equiv> 5"
abbreviation TC_OP_RUNNING_SAVE :: u32 where "TC_OP_RUNNING_SAVE \<equiv> 6"
abbreviation TC_OP_CLEAR_STARTUP :: u32 where "TC_OP_CLEAR_STARTUP \<equiv> 7"
abbreviation TC_OP_READ_ACQUIRE :: u32 where "TC_OP_READ_ACQUIRE \<equiv> 8"
abbreviation TC_OP_READ_RELEASE :: u32 where "TC_OP_READ_RELEASE \<equiv> 9"
abbreviation TC_OP_AUTOSAVE_GET :: u32 where "TC_OP_AUTOSAVE_GET \<equiv> 10"
abbreviation TC_OP_AUTOSAVE_ENABLE :: u32 where "TC_OP_AUTOSAVE_ENABLE \<equiv> 11"
abbreviation TC_OP_AUTOSAVE_DISABLE :: u32 where "TC_OP_AUTOSAVE_DISABLE \<equiv> 12"
abbreviation TC_OP_USER_AUDIT :: u32 where "TC_OP_USER_AUDIT \<equiv> 13"
abbreviation TC_OP_DRIVER_AUDIT :: u32 where "TC_OP_DRIVER_AUDIT \<equiv> 14"
abbreviation TC_OP_INVALID :: u32 where "TC_OP_INVALID \<equiv> 15"

abbreviation UNC_DT_INVALID :: u32 where "UNC_DT_INVALID \<equiv> 0"
abbreviation UNC_DT_CANDIDATE :: u32 where "UNC_DT_CANDIDATE \<equiv> 2"
abbreviation UNC_DT_RUNNING :: u32 where "UNC_DT_RUNNING \<equiv> 3"
abbreviation UNC_DT_STARTUP :: u32 where "UNC_DT_STARTUP \<equiv> 4"

abbreviation UNC_CT_UNKNOWN :: u32 where "UNC_CT_UNKNOWN \<equiv> 0"
abbreviation UNC_CT_PFC :: u32 where "UNC_CT_PFC \<equiv> 1"
abbreviation UNC_CT_VNP :: u32 where "UNC_CT_VNP \<equiv> 2"
abbreviation UNC_CT_POLC :: u32 where "UNC_CT_POLC \<equiv> 3"
abbreviation UNC_CT_VAN :: u32 where "UNC_CT_VAN \<equiv> 4"
abbreviation UNC_CT_ODC :: u32 where "UNC_CT_ODC \<equiv> 5"

text \<open>
  The members of a message. \<open>msg_driverinfo\<close> is the map from driver types to controllers, as a
  list sorted by key, in the order in which the source iterates over it; \<open>msg_local\<close> is the
  session that a method keeps in a local variable.
\<close>

record TcMsg =
  msg_session_id :: u32
  msg_opertype :: TcMsgOperType
  msg_channel_names :: TcChannelNameMap
  msg_sess :: "csess option"
  msg_upll_sess :: "csess option"
  msg_uppl_sess :: "csess option"
  msg_local :: "csess option"
  msg_audit_result :: u8
  msg_trans_result :: u8
  msg_notifyorder :: "TcDaemonName list"
  msg_abort_on_fail :: "TcDaemonName list"
  msg_autosave_enabled :: bool
  msg_config_id :: u32
  msg_target_db :: u32
  msg_fail_oper :: u32
  msg_driverinfo :: "(u32 \<times> string list) list"
  msg_driver_set :: "u32 set"
  msg_driverset_map :: "TcDaemonName \<rightharpoonup> u32 set"
  msg_controller_id :: string
  msg_driver_id :: u32
  msg_reconnect :: bool
  msg_simplified :: bool
  msg_user_audit :: bool
  msg_commit_number :: u64
  msg_commit_date :: u64
  msg_commit_application :: string
  msg_history :: history

definition TcMsg_new :: "u32 \<Rightarrow> TcMsgOperType \<Rightarrow> TcChannelNameMap \<Rightarrow> history \<Rightarrow> TcMsg" where
  "TcMsg_new sess_id oper daemon_names h =
     \<lparr>msg_session_id = sess_id, msg_opertype = oper, msg_channel_names = daemon_names,
      msg_sess = None, msg_upll_sess = None, msg_uppl_sess = None, msg_local = None,
      msg_audit_result = TC_AUDIT_SUCCESS, msg_trans_result = TRANS_END_SUCCESS,
      msg_notifyorder = [], msg_abort_on_fail = [], msg_autosave_enabled = False, msg_config_id = 0,
      msg_target_db = UNC_DT_INVALID, msg_fail_oper = TC_OP_INVALID,
      msg_driverinfo = [], msg_driver_set = {}, msg_driverset_map = Map.empty,
      msg_controller_id = '''', msg_driver_id = UNC_CT_UNKNOWN, msg_reconnect = False,
      msg_simplified = False, msg_user_audit = False, msg_commit_number = 0, msg_commit_date = 0,
      msg_commit_application = '''', msg_history = h\<rparr>"

type_synonym 'a msg_prog = "(TcMsg, 'a) state"

section \<open>Sessions of a message\<close>

datatype slot = Sess | Upll | Uppl | Local

definition slot_get :: "slot \<Rightarrow> TcMsg \<Rightarrow> csess option" where
  "slot_get t m =
     (case t of Sess \<Rightarrow> msg_sess m | Upll \<Rightarrow> msg_upll_sess m
      | Uppl \<Rightarrow> msg_uppl_sess m | Local \<Rightarrow> msg_local m)"

definition slot_put :: "slot \<Rightarrow> csess option \<Rightarrow> TcMsg \<Rightarrow> TcMsg" where
  "slot_put t cs m =
     (case t of Sess \<Rightarrow> m\<lparr>msg_sess := cs\<rparr> | Upll \<Rightarrow> m\<lparr>msg_upll_sess := cs\<rparr>
      | Uppl \<Rightarrow> m\<lparr>msg_uppl_sess := cs\<rparr> | Local \<Rightarrow> m\<lparr>msg_local := cs\<rparr>)"

definition msg_create :: "ipc_env \<Rightarrow> slot \<Rightarrow> string \<Rightarrow> TcLibServiceId \<Rightarrow> bool \<Rightarrow> bool msg_prog" where
  "msg_create env t ch svc infinite_timeout =
     State (\<lambda>m. let (cs, h) = create_tc_client_session env ch svc infinite_timeout (msg_history m)
                in (cs \<noteq> None, slot_put t cs (m\<lparr>msg_history := h\<rparr>)))"

definition msg_set :: "ipc_env \<Rightarrow> slot \<Rightarrow> ipc_val \<Rightarrow> TcUtilRet msg_prog" where
  "msg_set env t v =
     State (\<lambda>m. let (r, cs, h) = clnt_set env v (slot_get t m) (msg_history m)
                in (r, slot_put t cs (m\<lparr>msg_history := h\<rparr>)))"

definition msg_invoke :: "ipc_env \<Rightarrow> slot \<Rightarrow> (TcUtilRet \<times> u32) msg_prog" where
  "msg_invoke env t =
     State (\<lambda>m. let (r, resp, cs, h) = tc_session_invoke env (slot_get t m) (msg_history m)
                in ((r, resp), slot_put t cs (m\<lparr>msg_history := h\<rparr>)))"

definition msg_close :: "slot \<Rightarrow> unit msg_prog" where
  "msg_close t = State (\<lambda>m. ((), slot_put t None m))"

definition msg_timeout :: "ipc_env \<Rightarrow> unit msg_prog" where
  "msg_timeout env = State (\<lambda>m. ((), m\<lparr>msg_history := msg_history m @ [EvTimeout]\<rparr>))"

text \<open>Values appended one after the other, up to the first failure.\<close>

primrec msg_sets :: "ipc_env \<Rightarrow> slot \<Rightarrow> ipc_val list \<Rightarrow> TcUtilRet msg_prog" where
  "msg_sets env t [] = State_Monad.return TCUTIL_RET_SUCCESS"
| "msg_sets env t (v # vs) =
     do { r \<leftarrow> msg_set env t v;
          if r \<noteq> TCUTIL_RET_SUCCESS then State_Monad.return r else msg_sets env t vs }"

section \<open>Class TcMsg\<close>

text \<open>\<open>CreateInstance\<close> gives no object for the types that have no class.\<close>

definition CreateInstance ::
  "u32 \<Rightarrow> TcMsgOperType \<Rightarrow> TcChannelNameMap \<Rightarrow> history \<Rightarrow> TcMsg option" where
  "CreateInstance sess_id oper daemon_names h =
     (if oper \<in> {MSG_NOTIFY_CONFIGID, MSG_SETUP_COMPLETE, MSG_SETUP, MSG_COMMIT_TRANS_START,
                 MSG_COMMIT_TRANS_END, MSG_COMMIT_VOTE, MSG_COMMIT_GLOBAL, MSG_AUDIT_START,
                 MSG_AUDIT_TRANS_START, MSG_AUDIT_TRANS_END, MSG_AUDIT_END, MSG_AUDIT_VOTE,
                 MSG_AUDIT_GLOBAL, MSG_SAVE_CONFIG, MSG_CLEAR_CONFIG, MSG_ABORT_CANDIDATE,
                 MSG_AUDITDB, MSG_GET_DRIVERID, MSG_AUTOSAVE_ENABLE, MSG_AUTOSAVE_DISABLE}
      then Some (TcMsg_new sess_id oper daemon_names h) else None)"

definition GetChannelName :: "TcDaemonName \<Rightarrow> TcMsg \<Rightarrow> string" where
  "GetChannelName daemon_id m =
     (case msg_channel_names m daemon_id of Some channel \<Rightarrow> channel | None \<Rightarrow> '''')"

definition MapTcDriverId :: "u32 \<Rightarrow> TcDaemonName" where
  "MapTcDriverId driver_id =
     (if driver_id = UNC_CT_PFC then TC_DRV_OPENFLOW
      else if driver_id = UNC_CT_VNP then TC_DRV_OVERLAY
      else if driver_id = UNC_CT_ODC then TC_DRV_ODL
      else if driver_id = UNC_CT_POLC then TC_DRV_POLC
      else TC_NONE)"

definition SetAuditResult :: "u8 \<Rightarrow> TcMsg \<Rightarrow> TcOperRet \<times> TcMsg" where
  "SetAuditResult result m =
     (if result = TC_AUDIT_SUCCESS \<or> result = TC_AUDIT_FAILURE
      then (TCOPER_RET_SUCCESS, m\<lparr>msg_audit_result := result\<rparr>) else (TCOPER_RET_FAILURE, m))"

definition SetTransResult :: "u8 \<Rightarrow> TcMsg \<Rightarrow> TcOperRet \<times> TcMsg" where
  "SetTransResult result m =
     (if result = TRANS_END_SUCCESS \<or> result = TRANS_END_FAILURE
      then (TCOPER_RET_SUCCESS, m\<lparr>msg_trans_result := result\<rparr>) else (TCOPER_RET_FAILURE, m))"

definition RespondToTc :: "u32 \<Rightarrow> TcOperRet" where
  "RespondToTc resp =
     (if resp = TC_SUCCESS then TCOPER_RET_SUCCESS
      else if resp = TC_FAILURE then TCOPER_RET_FAILURE else TCOPER_RET_UNKNOWN)"

definition ReturnUtilResp :: "TcUtilRet \<Rightarrow> TcOperRet" where
  "ReturnUtilResp ret =
     (case ret of
        TCUTIL_RET_SUCCESS \<Rightarrow> TCOPER_RET_SUCCESS
      | TCUTIL_RET_FAILURE \<Rightarrow> TCOPER_RET_FAILURE
      | TCUTIL_RET_FATAL \<Rightarrow> TCOPER_RET_FATAL)"

text \<open>\<open>PFC_VERIFY\<close> stops the process; the call then does not return.\<close>

definition ValidateAuditDBAttributes :: "u32 \<Rightarrow> u32 \<Rightarrow> TcOperRet option" where
  "ValidateAuditDBAttributes data_base operation =
     (if operation \<in> {TC_OP_CANDIDATE_COMMIT, TC_OP_USER_AUDIT, TC_OP_DRIVER_AUDIT}
      then if data_base = UNC_DT_RUNNING then Some TCOPER_RET_SUCCESS else None
      else if operation = TC_OP_CANDIDATE_ABORT
      then if data_base = UNC_DT_CANDIDATE then Some TCOPER_RET_SUCCESS else None
      else if operation \<in> {TC_OP_RUNNING_SAVE, TC_OP_CLEAR_STARTUP}
      then if data_base = UNC_DT_STARTUP then Some TCOPER_RET_SUCCESS else None
      else if operation = TC_OP_INVALID
      then if data_base = UNC_DT_INVALID then Some TCOPER_RET_SUCCESS else None
      else Some TCOPER_RET_FAILURE)"

text \<open>
  Forwarding the answer of a daemon to the user's session: \<open>forwardTo\<close> copies the values from
  index 0 up to, and without, index \<open>to_index\<close>.
\<close>

definition ForwardResponseInternal ::
  "ipc_env \<Rightarrow> csess \<Rightarrow> bool \<Rightarrow> ssess \<times> history \<Rightarrow> TcOperRet \<times> ssess \<times> history" where
  "ForwardResponseInternal env clnt_sess decr_resp st =
     (let (ss, h) = st; respcount = of_nat (length (cs_resp clnt_sess)) :: u32
      in if respcount = 0 then (TCOPER_RET_SUCCESS, ss, h)
         else let to_index = (if decr_resp then respcount - 1 else respcount)
              in if forward_err env h \<noteq> 0 then (TCOPER_RET_FATAL, ss, h @ [EvForward])
                 else (TCOPER_RET_SUCCESS,
                       ss\<lparr>ss_out := ss_out ss @ take (unat to_index) (cs_resp clnt_sess)\<rparr>,
                       h @ [EvForward]))"

definition forward_slot ::
  "ipc_env \<Rightarrow> csess option \<Rightarrow> bool \<Rightarrow> ssess \<times> history \<Rightarrow> TcOperRet \<times> ssess \<times> history" where
  "forward_slot env cs decr st =
     (case cs of None \<Rightarrow> (TCOPER_RET_SUCCESS, st) | Some c \<Rightarrow> ForwardResponseInternal env c decr st)"

definition ForwardResponseToVTN ::
  "ipc_env \<Rightarrow> TcMsg \<Rightarrow> ssess \<times> history \<Rightarrow> TcOperRet \<times> ssess \<times> history" where
  "ForwardResponseToVTN env m st =
     (let decr = (msg_opertype m = MSG_AUDIT_GLOBAL);
          (r1, st1) = forward_slot env (msg_sess m) False st
      in if r1 \<noteq> TCOPER_RET_SUCCESS then (TCOPER_RET_FATAL, st1)
         else let (r2, st2) = forward_slot env (msg_upll_sess m) decr st1
              in if r2 \<noteq> TCOPER_RET_SUCCESS then (TCOPER_RET_FATAL, st2)
                 else let (r3, st3) = forward_slot env (msg_uppl_sess m) decr st2
                      in if r3 \<noteq> TCOPER_RET_SUCCESS then (TCOPER_RET_FATAL, st3)
                         else (TCOPER_RET_SUCCESS, st3))"

section \<open>The notification loop\<close>

text \<open>
  The loop over the daemons is the same in all the simple messages: look up the channel, open a
  session, append the arguments, invoke, and stop at the first daemon that answers with a failure.
  \<open>args\<close> is \<open>None\<close> when the method finds its session or configuration identifier invalid after
  it has opened the session; \<open>retime\<close> and \<open>close_on_error\<close> are the two points in which the
  auto-save message differs.
\<close>

primrec notify_loop ::
  "ipc_env \<Rightarrow> TcLibServiceId \<Rightarrow> bool \<Rightarrow> bool \<Rightarrow> bool \<Rightarrow> ipc_val list option \<Rightarrow>
   TcDaemonName list \<Rightarrow> u32 \<Rightarrow> TcOperRet msg_prog" where
  "notify_loop env svc infinite_timeout retime close_on_error args [] resp =
     do { State_Monad.update (\<lambda>m. m\<lparr>msg_notifyorder := []\<rparr>);
          State_Monad.return (RespondToTc resp) }"
| "notify_loop env svc infinite_timeout retime close_on_error args (d # ds) resp =
     do { m \<leftarrow> State_Monad.get;
          if GetChannelName d m = '''' then State_Monad.return TCOPER_RET_FAILURE
          else do {
            ok \<leftarrow> msg_create env Sess (GetChannelName d m) svc infinite_timeout;
            if \<not> ok then State_Monad.return TCOPER_RET_FATAL
            else do {
              (if retime then msg_timeout env else State_Monad.return ());
              case args of
                None \<Rightarrow> State_Monad.return TCOPER_RET_FAILURE
              | Some vs \<Rightarrow>
                  do { r \<leftarrow> msg_sets env Sess vs;
                       if r \<noteq> TCUTIL_RET_SUCCESS then State_Monad.return (ReturnUtilResp r)
                       else do {
                         (r, resp1) \<leftarrow> msg_invoke env Sess;
                         if r \<noteq> TCUTIL_RET_SUCCESS
                         then do { (if close_on_error then msg_close Sess else State_Monad.return ());
                                   State_Monad.return (ReturnUtilResp r) }
                         else do {
                           msg_close Sess;
                           if resp1 = TC_FAILURE
                           then do { State_Monad.update (\<lambda>m. m\<lparr>msg_notifyorder := []\<rparr>);
                                     State_Monad.return (RespondToTc resp1) }
                           else notify_loop env svc infinite_timeout retime close_on_error args ds resp1 } } } } } }"

definition push_notify :: "TcDaemonName list \<Rightarrow> TcDaemonName list msg_prog" where
  "push_notify ds =
     do { State_Monad.update (\<lambda>m. m\<lparr>msg_notifyorder := msg_notifyorder m @ ds\<rparr>);
          m \<leftarrow> State_Monad.get;
          State_Monad.return (msg_notifyorder m) }"

section \<open>The simple messages\<close>

definition TcMsgAutoSave_Execute :: "ipc_env \<Rightarrow> TcOperRet msg_prog" where
  "TcMsgAutoSave_Execute env =
     do { ds \<leftarrow> push_notify [TC_UPLL, TC_UPPL];
          m \<leftarrow> State_Monad.get;
          let args = Some [IpcU32 (msg_session_id m)];
          if msg_opertype m = MSG_AUTOSAVE_ENABLE
          then notify_loop env TCLIB_AUTOSAVE_ENABLE True True True args ds 0
          else if msg_opertype m = MSG_AUTOSAVE_DISABLE
          then notify_loop env TCLIB_AUTOSAVE_DISABLE True True True args ds 0
          else State_Monad.return TCOPER_RET_FAILURE }"

definition TcMsgSetUp_SetData :: "bool \<Rightarrow> TcMsg \<Rightarrow> TcMsg" where
  "TcMsgSetUp_SetData autosave_enabled m = m\<lparr>msg_autosave_enabled := autosave_enabled\<rparr>"

definition TcMsgSetUp_Execute :: "ipc_env \<Rightarrow> TcOperRet msg_prog" where
  "TcMsgSetUp_Execute env =
     do { m \<leftarrow> State_Monad.get;
          let args = Some [IpcU8 (if msg_autosave_enabled m then 1 else 0)];
          if msg_opertype m = MSG_SETUP
          then do { ds \<leftarrow> push_notify [TC_UPLL, TC_UPPL];
                    notify_loop env TCLIB_SETUP True False False args ds 0 }
          else if msg_opertype m = MSG_SETUP_COMPLETE
          then do { ds \<leftarrow> push_notify [TC_UPLL, TC_UPPL];
                    notify_loop env TCLIB_SETUP_COMPLETE True False False args ds 0 }
          else State_Monad.return TCOPER_RET_FAILURE }"

definition TcMsgNotifyConfigId_SetData :: "u32 \<Rightarrow> TcMsg \<Rightarrow> TcMsg" where
  "TcMsgNotifyConfigId_SetData config_id m = m\<lparr>msg_config_id := config_id\<rparr>"

definition TcMsgNotifyConfigId_Execute :: "ipc_env \<Rightarrow> TcOperRet msg_prog" where
  "TcMsgNotifyConfigId_Execute env =
     do { ds \<leftarrow> push_notify [TC_UPLL, TC_UPPL];
          m \<leftarrow> State_Monad.get;
          notify_loop env TCLIB_NOTIFY_SESSION_CONFIG False False False
            (Some [IpcU32 (msg_session_id m), IpcU32 (msg_config_id m)]) ds 0 }"

definition TcMsgToStartupDB_Execute :: "ipc_env \<Rightarrow> TcOperRet msg_prog" where
  "TcMsgToStartupDB_Execute env =
     do { State_Monad.update (\<lambda>m. m\<lparr>msg_notifyorder := []\<rparr>);
          ds \<leftarrow> push_notify [TC_UPLL, TC_UPPL];
          m \<leftarrow> State_Monad.get;
          let args = (if msg_session_id m > 0 then Some [IpcU32 (msg_session_id m)] else None);
          if msg_opertype m = MSG_SAVE_CONFIG
          then notify_loop env TCLIB_SAVE_CONFIG True False False args ds 0
          else if msg_opertype m = MSG_CLEAR_CONFIG
          then notify_loop env TCLIB_CLEAR_STARTUP True False False args ds 0
          else State_Monad.return TCOPER_RET_FAILURE }"

definition TcMsgAuditDB_SetData :: "u32 \<Rightarrow> u32 \<Rightarrow> TcMsg \<Rightarrow> TcMsg" where
  "TcMsgAuditDB_SetData target_db fail_oper m =
     m\<lparr>msg_target_db := target_db, msg_fail_oper := fail_oper\<rparr>"

definition TcMsgAuditDB_Execute :: "ipc_env \<Rightarrow> TcOperRet option msg_prog" where
  "TcMsgAuditDB_Execute env =
     do { m \<leftarrow> State_Monad.get;
          case ValidateAuditDBAttributes (msg_target_db m) (msg_fail_oper m) of
            None \<Rightarrow> State_Monad.return None
          | Some v \<Rightarrow>
              if v \<noteq> TCOPER_RET_SUCCESS then State_Monad.return (Some TCOPER_RET_FAILURE)
              else do {
                ds \<leftarrow> push_notify [TC_UPPL, TC_UPLL];
                r \<leftarrow> notify_loop env TCLIB_AUDIT_CONFIG True False False
                  (Some [IpcU8 (ucast (msg_target_db m)), IpcU8 (ucast (msg_fail_oper m))]) ds 0;
                State_Monad.return (Some r) } }"

end
