(* ===== verification/TC_MsgCommit.thy ===== *)
theory TC_MsgCommit
  imports TC_Msg
begin

text \<open>
  The messages of the two-phase commit, \<open>modules/tc/tcmsg_commit.cc\<close>: classes
  \<open>TcMsgCommit\<close>, \<open>AbortCandidateDB\<close>, \<open>CommitTransaction\<close> and \<open>TwoPhaseCommit\<close>.
\<close>

section \<open>Class TcMsgCommit\<close>

definition TcMsgCommit_SetData :: "u32 \<Rightarrow> TcMsg \<Rightarrow> TcMsg" where
  "TcMsgCommit_SetData config_id m = m\<lparr>msg_config_id := config_id\<rparr>"

definition ids_valid :: "TcMsg \<Rightarrow> bool" where
  "ids_valid m \<longleftrightarrow> msg_session_id m > 0 \<and> msg_config_id m > 0"

primrec abort_loop :: "ipc_env \<Rightarrow> TcDaemonName list \<Rightarrow> u32 \<Rightarrow> TcOperRet msg_prog" where
  "abort_loop env [] resp = State_Monad.return (RespondToTc resp)"
| "abort_loop env (d # ds) resp =
     do { m \<leftarrow> State_Monad.get;
          ok \<leftarrow> msg_create env Local (GetChannelName d m) TCLIB_COMMIT_GLOBAL_ABORT True;
          if \<not> ok then State_Monad.return TCOPER_RET_FATAL
          else do {
            r \<leftarrow> msg_set env Local (IpcU8 (opertype_value MSG_COMMIT_ABORT));
            if r \<noteq> TCUTIL_RET_SUCCESS
            then do { msg_close Local; State_Monad.return (ReturnUtilResp r) }
            else if \<not> ids_valid m then State_Monad.return TCOPER_RET_FAILURE
            else do {
              r \<leftarrow> msg_sets env Local [IpcU32 (msg_session_id m), IpcU32 (msg_config_id m),
                                       IpcU8 COMMIT_VOTE_REQUEST];
              if r \<noteq> TCUTIL_RET_SUCCESS
              then do { msg_close Local; State_Monad.return (ReturnUtilResp r) }
              else do {
                (r, resp1) \<leftarrow> msg_invoke env Local;
                msg_close Local;
                if r \<noteq> TCUTIL_RET_SUCCESS then State_Monad.return (ReturnUtilResp r)
                else if resp1 = TC_FAILURE then State_Monad.return (RespondToTc resp1)
                else abort_loop env ds resp1 } } } }"

definition SendAbortRequest :: "ipc_env \<Rightarrow> TcDaemonName list \<Rightarrow> TcOperRet msg_prog" where
  "SendAbortRequest env abort_on_fail =
     do { m \<leftarrow> State_Monad.get;
          if msg_opertype m \<noteq> MSG_COMMIT_VOTE then State_Monad.return TCOPER_RET_FAILURE
          else abort_loop env abort_on_fail 0 }"

text \<open>The transaction end is sent to the daemons in the reverse order of their start.\<close>

primrec trans_end_loop :: "ipc_env \<Rightarrow> TcDaemonName list \<Rightarrow> u32 \<Rightarrow> TcOperRet msg_prog" where
  "trans_end_loop env [] resp = State_Monad.return (RespondToTc resp)"
| "trans_end_loop env (d # ds) resp =
     do { m \<leftarrow> State_Monad.get;
          if GetChannelName d m = '''' then State_Monad.return TCOPER_RET_FAILURE
          else do {
            ok \<leftarrow> msg_create env Local (GetChannelName d m) TCLIB_COMMIT_TRANSACTION True;
            if \<not> ok then State_Monad.return TCOPER_RET_FATAL
            else do {
              r \<leftarrow> msg_set env Local (IpcU8 (opertype_value MSG_COMMIT_TRANS_END));
              if r \<noteq> TCUTIL_RET_SUCCESS
              then do { msg_close Local; State_Monad.return (ReturnUtilResp r) }
              else if \<not> ids_valid m
              then do { msg_close Local; State_Monad.return TCOPER_RET_FAILURE }
              else do {
                r \<leftarrow> msg_sets env Local [IpcU32 (msg_session_id m), IpcU32 (msg_config_id m),
                                         IpcU8 TRANS_END_FAILURE];
                if r \<noteq> TCUTIL_RET_SUCCESS
                then do { msg_close Local; State_Monad.return (ReturnUtilResp r) }
                else do {
                  (r, resp1) \<leftarrow> msg_invoke env Local;
                  msg_close Local;
                  if r \<noteq> TCUTIL_RET_SUCCESS then State_Monad.return (ReturnUtilResp r)
                  else if resp1 = TC_FAILURE then State_Monad.return (RespondToTc resp1)
                  else trans_end_loop env ds resp1 } } } } }"

definition SendTransEndRequest :: "ipc_env \<Rightarrow> TcDaemonName list \<Rightarrow> TcOperRet msg_prog" where
  "SendTransEndRequest env abort_on_fail = trans_end_loop env (rev abort_on_fail) 0"

section \<open>Class AbortCandidateDB\<close>

definition AbortCandidateDB_Execute :: "ipc_env \<Rightarrow> TcOperRet msg_prog" where
  "AbortCandidateDB_Execute env =
     do { ds \<leftarrow> push_notify [TC_UPLL, TC_UPPL];
          m \<leftarrow> State_Monad.get;
          notify_loop env TCLIB_USER_ABORT True False False
            (if ids_valid m then Some [IpcU32 (msg_session_id m), IpcU32 (msg_config_id m)] else None)
            ds 0 }"

section \<open>Class CommitTransaction\<close>

definition CommitTransaction_SendRequest :: "ipc_env \<Rightarrow> string \<Rightarrow> TcOperRet msg_prog" where
  "CommitTransaction_SendRequest env channel_name =
     do { m \<leftarrow> State_Monad.get;
          ok \<leftarrow> msg_create env Sess channel_name TCLIB_COMMIT_TRANSACTION True;
          if \<not> ok then State_Monad.return TCOPER_RET_FATAL
          else do {
            r \<leftarrow> msg_sets env Sess
                  ([IpcU8 (opertype_value (msg_opertype m)), IpcU32 (msg_session_id m),
                    IpcU32 (msg_config_id m)] @
                   (if msg_opertype m = MSG_COMMIT_TRANS_END then [IpcU8 (msg_trans_result m)] else []));
            if r \<noteq> TCUTIL_RET_SUCCESS then State_Monad.return (ReturnUtilResp r)
            else do {
              (r, resp) \<leftarrow> msg_invoke env Sess;
              if r \<noteq> TCUTIL_RET_SUCCESS then State_Monad.return (ReturnUtilResp r)
              else do {
                ret_val \<leftarrow>
                  (if resp = TC_SUCCESS then State_Monad.return TCOPER_RET_SUCCESS
                   else if resp = TC_FAILURE \<and> msg_opertype m = MSG_COMMIT_TRANS_START
                   then do {
                     State_Monad.update (\<lambda>m. m\<lparr>msg_trans_result := TRANS_END_FAILURE\<rparr>);
                     if msg_abort_on_fail m = [] then State_Monad.return TCOPER_RET_ABORT
                     else do {
                       e \<leftarrow> SendTransEndRequest env (msg_abort_on_fail m);
                       State_Monad.return
                         (if e = TCOPER_RET_SUCCESS then TCOPER_RET_ABORT else TCOPER_RET_FATAL) } }
                   else if resp = TC_FAILURE \<and> msg_opertype m = MSG_COMMIT_TRANS_END
                   then State_Monad.return TCOPER_RET_FATAL
                   else State_Monad.return TCOPER_RET_SUCCESS);
                (if ret_val = TCOPER_RET_SUCCESS then msg_close Sess else State_Monad.return ());
                State_Monad.return ret_val } } } }"

primrec transaction_loop ::
  "ipc_env \<Rightarrow> TcDaemonName list \<Rightarrow> TcOperRet \<Rightarrow> TcOperRet msg_prog" where
  "transaction_loop env [] ret_val =
     do { State_Monad.update (\<lambda>m. m\<lparr>msg_abort_on_fail := [], msg_notifyorder := []\<rparr>);
          State_Monad.return ret_val }"
| "transaction_loop env (d # ds) ret_val =
     do { m \<leftarrow> State_Monad.get;
          if GetChannelName d m = '''' then transaction_loop env ds ret_val
          else do {
            ret \<leftarrow> CommitTransaction_SendRequest env (GetChannelName d m);
            if ret \<noteq> TCOPER_RET_SUCCESS then State_Monad.return ret
            else do {
              State_Monad.update (\<lambda>m. m\<lparr>msg_abort_on_fail := msg_abort_on_fail m @ [d]\<rparr>);
              transaction_loop env ds ret } } }"

definition CommitTransaction_Execute :: "ipc_env \<Rightarrow> TcOperRet msg_prog" where
  "CommitTransaction_Execute env =
     do { m \<leftarrow> State_Monad.get;
          if msg_session_id m = 0 \<or> msg_config_id m = 0 then State_Monad.return TCOPER_RET_FAILURE
          else if msg_opertype m = MSG_COMMIT_TRANS_START
          then do { ds \<leftarrow> push_notify [TC_DRV_ODL, TC_DRV_OPENFLOW, TC_DRV_OVERLAY, TC_DRV_POLC,
                                       TC_UPLL, TC_UPPL];
                    transaction_loop env ds TCOPER_RET_SUCCESS }
          else if msg_opertype m = MSG_COMMIT_TRANS_END
          then do { ds \<leftarrow> push_notify [TC_UPPL, TC_UPLL, TC_DRV_POLC, TC_DRV_OVERLAY,
                                       TC_DRV_OPENFLOW, TC_DRV_ODL];
                    transaction_loop env ds TCOPER_RET_SUCCESS }
          else State_Monad.return TCOPER_RET_FAILURE }"

section \<open>Class TwoPhaseCommit: controllers\<close>

text \<open>The map from driver types to controllers, kept sorted by key.\<close>

primrec driverinfo_insert :: "u32 \<Rightarrow> string list \<Rightarrow> (u32 \<times> string list) list \<Rightarrow> (u32 \<times> string list) list" where
  "driverinfo_insert k v [] = [(k, v)]"
| "driverinfo_insert k v (p # ps) =
     (if k < fst p then (k, v) # p # ps
      else if k = fst p then p # ps
      else p # driverinfo_insert k v ps)"

definition driverinfo_erase :: "u32 \<Rightarrow> (u32 \<times> string list) list \<Rightarrow> (u32 \<times> string list) list" where
  "driverinfo_erase k ps = filter (\<lambda>p. fst p \<noteq> k) ps"

text \<open>\<open>std::list::merge\<close> of two sorted lists.\<close>

fun list_merge :: "string list \<Rightarrow> string list \<Rightarrow> string list" where
  "list_merge [] ys = ys"
| "list_merge xs [] = xs"
| "list_merge (x # xs) (y # ys) =
     (if y < x then y # list_merge (x # xs) ys else x # list_merge xs (y # ys))"

definition add_controllers :: "u32 \<Rightarrow> string list \<Rightarrow> (u32 \<times> string list) list \<Rightarrow> (u32 \<times> string list) list" where
  "add_controllers driver_type controllers info =
     (case map_of info driver_type of
        None \<Rightarrow> driverinfo_insert driver_type controllers info
      | Some temp_list \<Rightarrow>
          driverinfo_insert driver_type
            (remdups_adj (list_merge (sort controllers) (sort temp_list)))
            (driverinfo_erase driver_type info))"

text \<open>\<open>controller_loop\<close> reads the names of one driver, \<open>driver_loop\<close> the drivers of an answer.\<close>

primrec controller_loop :: "csess option \<Rightarrow> nat \<Rightarrow> u32 \<Rightarrow> string list \<Rightarrow> TcUtilRet \<times> u32 \<times> string list" where
  "controller_loop cs 0 idx controllers = (TCUTIL_RET_SUCCESS, idx, controllers)"
| "controller_loop cs (Suc n) idx controllers =
     (let idx = idx + 1; (r, v) = clnt_get_string cs idx
      in case v of
           None \<Rightarrow> (r, idx, controllers)
         | Some controller_id \<Rightarrow> controller_loop cs n idx (controllers @ [controller_id]))"

primrec driver_loop :: "csess option \<Rightarrow> nat \<Rightarrow> u32 \<Rightarrow> TcOperRet msg_prog" where
  "driver_loop cs 0 idx = State_Monad.return TCOPER_RET_SUCCESS"
| "driver_loop cs (Suc n) idx =
     (let idx = idx + 1; (r, v) = clnt_get_uint8 cs idx
      in case v of
           None \<Rightarrow> State_Monad.return (ReturnUtilResp r)
         | Some driver_id \<Rightarrow>
             do { let driver_type = (ucast driver_id :: u32);
                  State_Monad.update (\<lambda>m. m\<lparr>msg_driver_set := insert driver_type (msg_driver_set m)\<rparr>);
                  let idx = idx + 1;
                  let (r, v) = clnt_get_uint8 cs idx;
                  case v of
                    None \<Rightarrow> State_Monad.return (ReturnUtilResp r)
                  | Some controller_count \<Rightarrow>
                      do { let (r, idx, controllers) = controller_loop cs (unat controller_count) idx [];
                           if r \<noteq> TCUTIL_RET_SUCCESS then State_Monad.return (ReturnUtilResp r)
                           else do {
                             State_Monad.update (\<lambda>m. m\<lparr>msg_driverinfo :=
                               add_controllers driver_type controllers (msg_driverinfo m)\<rparr>);
                             driver_loop cs n idx } } })"

definition GetControllerInfo :: "csess option \<Rightarrow> TcOperRet msg_prog" where
  "GetControllerInfo cs =
     (let (r, v) = clnt_get_uint8 cs 0
      in case v of
           None \<Rightarrow> State_Monad.return (ReturnUtilResp r)
         | Some driver_count \<Rightarrow> driver_loop cs (unat driver_count) 0)"

section \<open>Class TwoPhaseCommit: results of the drivers\<close>

definition SetSessionToForwardDriverResult :: "ipc_env \<Rightarrow> slot \<Rightarrow> TcOperRet msg_prog" where
  "SetSessionToForwardDriverResult env t =
     do { m \<leftarrow> State_Monad.get;
          if msg_opertype m \<noteq> MSG_COMMIT_VOTE \<and> msg_opertype m \<noteq> MSG_COMMIT_GLOBAL
          then State_Monad.return TCOPER_RET_FAILURE
          else do {
            let (oper, phase) = (if msg_opertype m = MSG_COMMIT_VOTE
              then (MSG_COMMIT_VOTE_DRIVER_RESULT, TC_COMMIT_VOTE_PHASE)
              else (MSG_COMMIT_GLOBAL_DRIVER_RESULT, TC_COMMIT_GLOBAL_COMMIT_PHASE));
            r \<leftarrow> msg_set env t (IpcU8 (opertype_value oper));
            if r \<noteq> TCUTIL_RET_SUCCESS then State_Monad.return (ReturnUtilResp r)
            else if \<not> ids_valid m then State_Monad.return TCOPER_RET_FAILURE
            else do {
              r \<leftarrow> msg_sets env t [IpcU32 (msg_session_id m), IpcU32 (msg_config_id m), IpcU8 phase];
              State_Monad.return (ReturnUtilResp r) } } }"

definition CreateSessionsToForwardDriverResult :: "ipc_env \<Rightarrow> TcOperRet msg_prog" where
  "CreateSessionsToForwardDriverResult env =
     do { m \<leftarrow> State_Monad.get;
          ok \<leftarrow> msg_create env Upll (GetChannelName TC_UPLL m) TCLIB_COMMIT_DRV_RESULT True;
          if \<not> ok then State_Monad.return TCOPER_RET_FATAL
          else do {
            r \<leftarrow> SetSessionToForwardDriverResult env Upll;
            if r \<noteq> TCOPER_RET_SUCCESS then State_Monad.return TCOPER_RET_FAILURE
            else do {
              ok \<leftarrow> msg_create env Uppl (GetChannelName TC_UPPL m) TCLIB_COMMIT_DRV_RESULT True;
              if \<not> ok then State_Monad.return TCOPER_RET_FATAL
              else do {
                r \<leftarrow> SetSessionToForwardDriverResult env Uppl;
                State_Monad.return
                  (if r \<noteq> TCOPER_RET_SUCCESS then TCOPER_RET_FAILURE else TCOPER_RET_SUCCESS) } } } }"

definition HandleDriverResultResponse :: "ipc_env \<Rightarrow> slot \<Rightarrow> TcOperRet msg_prog" where
  "HandleDriverResultResponse env t =
     do { (r, resp) \<leftarrow> msg_invoke env t;
          m \<leftarrow> State_Monad.get;
          if r \<noteq> TCUTIL_RET_SUCCESS then State_Monad.return (ReturnUtilResp r)
          else if resp = TC_FAILURE \<and> msg_opertype m = MSG_COMMIT_VOTE
          then do {
            State_Monad.update (\<lambda>m. m\<lparr>msg_trans_result := TRANS_END_FAILURE\<rparr>);
            e \<leftarrow> SendAbortRequest env (msg_abort_on_fail m);
            State_Monad.return
              (if e = TCOPER_RET_SUCCESS then TCOPER_RET_ABORT else TCOPER_RET_FATAL) }
          else if resp = TC_FAILURE \<and> msg_opertype m = MSG_COMMIT_GLOBAL
          then State_Monad.return TCOPER_RET_FATAL
          else State_Monad.return TCOPER_RET_SUCCESS }"

text \<open>A driver that is not present is answered for: its controllers get a fixed result.\<close>

abbreviation DRIVER_NOT_PRESENT_CODE :: u32 where "DRIVER_NOT_PRESENT_CODE \<equiv> 200"

primrec set_both :: "ipc_env \<Rightarrow> ipc_val list \<Rightarrow> TcUtilRet msg_prog" where
  "set_both env [] = State_Monad.return TCUTIL_RET_SUCCESS"
| "set_both env (v # vs) =
     do { r \<leftarrow> msg_set env Upll v;
          if r \<noteq> TCUTIL_RET_SUCCESS then State_Monad.return r
          else do {
            r \<leftarrow> msg_set env Uppl v;
            if r \<noteq> TCUTIL_RET_SUCCESS then State_Monad.return r else set_both env vs } }"

primrec dummy_loop :: "ipc_env \<Rightarrow> string list \<Rightarrow> TcOperRet msg_prog" where
  "dummy_loop env [] = State_Monad.return TCOPER_RET_SUCCESS"
| "dummy_loop env (c # cs) =
     do { r \<leftarrow> set_both env [IpcStr (Some c), IpcU32 DRIVER_NOT_PRESENT_CODE, IpcU32 0,
                             IpcU64 0, IpcU64 0, IpcStr (Some '''')];
          if r \<noteq> TCUTIL_RET_SUCCESS then State_Monad.return (ReturnUtilResp r)
          else dummy_loop env cs }"

definition HandleDriverNotPresent :: "ipc_env \<Rightarrow> u32 \<Rightarrow> TcOperRet msg_prog" where
  "HandleDriverNotPresent env driver =
     do { m \<leftarrow> State_Monad.get;
          case map_of (msg_driverinfo m) driver of
            None \<Rightarrow> State_Monad.return TCOPER_RET_FAILURE
          | Some ctrl_list \<Rightarrow> dummy_loop env ctrl_list }"

text \<open>\<open>forward\<close> appends all values of the driver's answer to the session of UPLL or UPPL.\<close>

definition msg_forward :: "ipc_env \<Rightarrow> slot \<Rightarrow> bool msg_prog" where
  "msg_forward env t =
     State (\<lambda>m. let h = msg_history m; m1 = m\<lparr>msg_history := h @ [EvForward]\<rparr>
                in case (slot_get t m, msg_sess m) of
                     (Some d, Some s) \<Rightarrow>
                       if forward_err env h \<noteq> 0 then (False, m1)
                       else (True, slot_put t (Some (d\<lparr>cs_args := cs_args d @ cs_resp s\<rparr>)) m1)
                   | _ \<Rightarrow> (False, m1))"

section \<open>Class TwoPhaseCommit: requests\<close>

text \<open>What the source does with the answer of one driver, and whether it goes on.\<close>

definition handle_driver_response :: "ipc_env \<Rightarrow> u32 \<Rightarrow> TcDaemonName \<Rightarrow> u32 \<Rightarrow> TcOperRet msg_prog" where
  "handle_driver_response env driver tc_driverid resp =
     do { m \<leftarrow> State_Monad.get;
          if resp = TC_SUCCESS
          then do {
            let dmndrvinfo = (case msg_driverset_map m TC_UPLL of None \<Rightarrow> {} | Some s \<Rightarrow> s);
            (if msg_driverset_map m TC_UPLL = None
             then State_Monad.update (\<lambda>m. m\<lparr>msg_driverset_map := (msg_driverset_map m)(TC_UPLL \<mapsto> {})\<rparr>)
             else State_Monad.return ());
            ok \<leftarrow> (if driver \<in> dmndrvinfo then msg_forward env Upll else State_Monad.return True);
            if \<not> ok then State_Monad.return TCOPER_RET_FATAL
            else do {
              ok \<leftarrow> (if driver \<in> dmndrvinfo then msg_forward env Uppl else State_Monad.return True);
              if \<not> ok then State_Monad.return TCOPER_RET_FATAL
              else do {
                State_Monad.update (\<lambda>m. m\<lparr>msg_abort_on_fail := msg_abort_on_fail m @ [tc_driverid]\<rparr>);
                State_Monad.return TCOPER_RET_SUCCESS } } }
          else if resp = TC_FAILURE \<and> msg_opertype m = MSG_COMMIT_VOTE
          then do {
            State_Monad.update (\<lambda>m. m\<lparr>msg_trans_result := TRANS_END_FAILURE\<rparr>);
            e \<leftarrow> SendAbortRequest env (msg_abort_on_fail m);
            if e = TCOPER_RET_SUCCESS
            then do {
              State_Monad.update (\<lambda>m. m\<lparr>msg_abort_on_fail := [], msg_driverinfo := []\<rparr>);
              State_Monad.return TCOPER_RET_ABORT }
            else do {
              State_Monad.update (\<lambda>m. m\<lparr>msg_abort_on_fail := []\<rparr>);
              State_Monad.return TCOPER_RET_FATAL } }
          else if resp = TC_FAILURE \<and> msg_opertype m = MSG_COMMIT_GLOBAL
          then State_Monad.return TCOPER_RET_FATAL
          else State_Monad.return TCOPER_RET_SUCCESS }"

primrec driver_request_loop :: "ipc_env \<Rightarrow> TcMsgOperType \<Rightarrow> (u32 \<times> string list) list \<Rightarrow> TcOperRet msg_prog" where
  "driver_request_loop env oper [] = State_Monad.return TCOPER_RET_SUCCESS"
| "driver_request_loop env oper (p # ps) =
     do { m \<leftarrow> State_Monad.get;
          let tc_driverid = MapTcDriverId (fst p);
          if tc_driverid = TC_NONE then State_Monad.return TCOPER_RET_FATAL
          else if GetChannelName tc_driverid m = ''''
          then do {
            r \<leftarrow> HandleDriverNotPresent env (fst p);
            if r \<noteq> TCOPER_RET_SUCCESS then State_Monad.return TCOPER_RET_FATAL
            else driver_request_loop env oper ps }
          else do {
            ok \<leftarrow> msg_create env Sess (GetChannelName tc_driverid m) TCLIB_COMMIT_DRV_VOTE_GLOBAL True;
            if \<not> ok then State_Monad.return TCOPER_RET_FATAL
            else do {
              r \<leftarrow> msg_set env Sess (IpcU8 (opertype_value oper));
              if r \<noteq> TCUTIL_RET_SUCCESS then State_Monad.return (ReturnUtilResp r)
              else if \<not> ids_valid m then State_Monad.return TCOPER_RET_FAILURE
              else do {
                r \<leftarrow> msg_sets env Sess
                      ([IpcU32 (msg_session_id m), IpcU32 (msg_config_id m),
                        IpcU8 (of_nat (length (snd p)))] @ map (\<lambda>c. IpcStr (Some c)) (snd p));
                if r \<noteq> TCUTIL_RET_SUCCESS then State_Monad.return (ReturnUtilResp r)
                else do {
                  (r, resp) \<leftarrow> msg_invoke env Sess;
                  if r \<noteq> TCUTIL_RET_SUCCESS then State_Monad.return (ReturnUtilResp r)
                  else do {
                    ret_val \<leftarrow> handle_driver_response env (fst p) tc_driverid resp;
                    if ret_val = TCOPER_RET_SUCCESS
                    then do { msg_close Sess; driver_request_loop env oper ps }
                    else State_Monad.return ret_val } } } } } }"

definition SendRequestToDriver :: "ipc_env \<Rightarrow> TcOperRet msg_prog" where
  "SendRequestToDriver env =
     do { m \<leftarrow> State_Monad.get;
          let oper = (if msg_opertype m = MSG_COMMIT_VOTE then MSG_COMMIT_DRIVER_VOTE
                      else if msg_opertype m = MSG_COMMIT_GLOBAL then MSG_COMMIT_DRIVER_GLOBAL
                      else MSG_NONE);
          r \<leftarrow> CreateSessionsToForwardDriverResult env;
          if r \<noteq> TCOPER_RET_SUCCESS then State_Monad.return TCOPER_RET_FAILURE
          else do {
            r \<leftarrow> driver_request_loop env oper (msg_driverinfo m);
            if r \<noteq> TCOPER_RET_SUCCESS then State_Monad.return r
            else do {
              r \<leftarrow> HandleDriverResultResponse env Upll;
              if r \<noteq> TCOPER_RET_SUCCESS then State_Monad.return r
              else HandleDriverResultResponse env Uppl } } }"

definition TwoPhaseCommit_SendRequest :: "ipc_env \<Rightarrow> string \<Rightarrow> TcOperRet msg_prog" where
  "TwoPhaseCommit_SendRequest env channel_name =
     do { m \<leftarrow> State_Monad.get;
          ok \<leftarrow> msg_create env Sess channel_name TCLIB_COMMIT_TRANSACTION True;
          if \<not> ok then State_Monad.return TCOPER_RET_FATAL
          else do {
            r \<leftarrow> msg_sets env Sess [IpcU8 (opertype_value (msg_opertype m)),
                                    IpcU32 (msg_session_id m), IpcU32 (msg_config_id m)];
            if r \<noteq> TCUTIL_RET_SUCCESS then State_Monad.return (ReturnUtilResp r)
            else do {
              (r, resp) \<leftarrow> msg_invoke env Sess;
              if r \<noteq> TCUTIL_RET_SUCCESS then State_Monad.return (ReturnUtilResp r)
              else do {
                m1 \<leftarrow> State_Monad.get;
                let respcount = (case msg_sess m1 of None \<Rightarrow> 0 | Some cs \<Rightarrow> length (cs_resp cs));
                if resp = TC_SUCCESS \<and> respcount > 0
                then do {
                  i \<leftarrow> GetControllerInfo (msg_sess m1);
                  if i \<noteq> TCOPER_RET_SUCCESS then State_Monad.return TCOPER_RET_FAILURE
                  else do { msg_close Sess; State_Monad.return TCOPER_RET_SUCCESS } }
                else if resp = TC_FAILURE \<and> msg_opertype m = MSG_COMMIT_VOTE
                then do {
                  State_Monad.update (\<lambda>m. m\<lparr>msg_trans_result := TRANS_END_FAILURE\<rparr>);
                  if msg_abort_on_fail m = [] then State_Monad.return TCOPER_RET_ABORT
                  else do {
                    e \<leftarrow> SendAbortRequest env (msg_abort_on_fail m);
                    State_Monad.update (\<lambda>m. m\<lparr>msg_abort_on_fail := []\<rparr>);
                    State_Monad.return
                      (if e = TCOPER_RET_SUCCESS then TCOPER_RET_ABORT else TCOPER_RET_FATAL) } }
                else if resp = TC_FAILURE \<and> msg_opertype m = MSG_COMMIT_GLOBAL
                then State_Monad.return TCOPER_RET_FATAL
                else do { msg_close Sess; State_Monad.return TCOPER_RET_SUCCESS } } } } }"

text \<open>The first phase: UPLL and UPPL are asked, and tell which controllers are concerned.\<close>

primrec two_phase_loop :: "ipc_env \<Rightarrow> TcDaemonName list \<Rightarrow> TcOperRet msg_prog" where
  "two_phase_loop env [] = State_Monad.return TCOPER_RET_SUCCESS"
| "two_phase_loop env (d # ds) =
     do { m \<leftarrow> State_Monad.get;
          if GetChannelName d m = '''' then State_Monad.return TCOPER_RET_FAILURE
          else do {
            r \<leftarrow> TwoPhaseCommit_SendRequest env (GetChannelName d m);
            if r \<noteq> TCOPER_RET_SUCCESS
            then do { State_Monad.update (\<lambda>m. m\<lparr>msg_abort_on_fail := []\<rparr>); State_Monad.return r }
            else do {
              State_Monad.update (\<lambda>m. m\<lparr>msg_abort_on_fail := msg_abort_on_fail m @ [d]\<rparr>);
              State_Monad.update (\<lambda>m.
                if msg_driver_set m \<noteq> {}
                then m\<lparr>msg_driverset_map :=
                         (if msg_driverset_map m d = None
                          then (msg_driverset_map m)(d \<mapsto> msg_driver_set m) else msg_driverset_map m),
                       msg_driver_set := {}\<rparr>
                else m);
              two_phase_loop env ds } } }"

definition TwoPhaseCommit_Execute :: "ipc_env \<Rightarrow> TcOperRet msg_prog" where
  "TwoPhaseCommit_Execute env =
     do { m \<leftarrow> State_Monad.get;
          if msg_session_id m = 0 \<or> msg_config_id m = 0 then State_Monad.return TCOPER_RET_FAILURE
          else do {
            ds \<leftarrow> push_notify [TC_UPLL, TC_UPPL];
            r \<leftarrow> two_phase_loop env ds;
            if r \<noteq> TCOPER_RET_SUCCESS then State_Monad.return r
            else do {
              m \<leftarrow> State_Monad.get;
              if msg_driverinfo m = []
              then do {
                r \<leftarrow> CreateSessionsToForwardDriverResult env;
                if r \<noteq> TCOPER_RET_SUCCESS then State_Monad.return TCOPER_RET_FAILURE
                else do {
                  r \<leftarrow> HandleDriverResultResponse env Upll;
                  if r \<noteq> TCOPER_RET_SUCCESS then State_Monad.return TCOPER_RET_FAILURE
                  else do {
                    r \<leftarrow> HandleDriverResultResponse env Uppl;
                    if r \<noteq> TCOPER_RET_SUCCESS then State_Monad.return TCOPER_RET_FAILURE
                    else do {
                      State_Monad.update (\<lambda>m. m\<lparr>msg_abort_on_fail := []\<rparr>);
                      State_Monad.return TCOPER_RET_SUCCESS } } } }
              else do {
                r \<leftarrow> SendRequestToDriver env;
                State_Monad.update (\<lambda>m. m\<lparr>msg_abort_on_fail := [], msg_driverset_map := Map.empty,
                                        msg_notifyorder := []\<rparr>);
                State_Monad.return r } } } }"

end
