(* ===== verification/TC_MsgLogic.thy ===== *)
theory TC_MsgLogic
  imports TC_MsgCommit
begin

text \<open>
  A weakest-precondition calculus for the message programs, the part of the state it speaks
  about (the invocations of daemons so far), and the agreement theorems of the two-phase commit:
  a phase succeeds only if every daemon that was asked agreed, and an aborted vote has taken back
  every vote that was given.
\<close>

section \<open>Weakest preconditions\<close>

definition wp :: "('s, 'a) state \<Rightarrow> ('a \<Rightarrow> 's \<Rightarrow> bool) \<Rightarrow> 's \<Rightarrow> bool" where
  "wp p Q s = (case run_state p s of (a, s') \<Rightarrow> Q a s')"

named_theorems wp_rules "weakest precondition rules, one per construct"

lemma wp_bind [wp_rules]: "wp p (\<lambda>a. wp (f a) Q) s \<Longrightarrow> wp (State_Monad.bind p f) Q s"
  by (auto simp: wp_def split: prod.splits)

lemma wp_return [wp_rules]: "Q a s \<Longrightarrow> wp (State_Monad.return a) Q s"
  by (simp add: wp_def)

lemma wp_get [wp_rules]: "Q s s \<Longrightarrow> wp State_Monad.get Q s"
  by (simp add: wp_def)

lemma wp_update [wp_rules]: "Q () (f s) \<Longrightarrow> wp (State_Monad.update f) Q s"
  by (simp add: wp_def State_Monad.update_def)

lemma wp_if [wp_rules]: "(b \<Longrightarrow> wp p Q s) \<Longrightarrow> (\<not> b \<Longrightarrow> wp q Q s) \<Longrightarrow> wp (if b then p else q) Q s"
  by simp

lemma wp_option [wp_rules]:
  "(x = None \<Longrightarrow> wp p Q s) \<Longrightarrow> (\<And>y. x = Some y \<Longrightarrow> wp (q y) Q s) \<Longrightarrow>
   wp (case x of None \<Rightarrow> p | Some y \<Rightarrow> q y) Q s"
  by (cases x) auto

lemma wp_prod [wp_rules]:
  "(\<And>a b. x = (a, b) \<Longrightarrow> wp (q a b) Q s) \<Longrightarrow> wp (case x of (a, b) \<Rightarrow> q a b) Q s"
  by (cases x) auto

lemma wp_mono: "wp p Q s \<Longrightarrow> (\<And>a s'. Q a s' \<Longrightarrow> R a s') \<Longrightarrow> wp p R s"
  by (auto simp: wp_def split: prod.splits)

lemma wp_any: "(\<And>a s'. Q a s') \<Longrightarrow> wp p Q s"
  by (auto simp: wp_def split: prod.splits)

lemma wpD: "wp p Q s \<Longrightarrow> run_state p s = (a, s') \<Longrightarrow> Q a s'"
  by (simp add: wp_def)

section \<open>Invocations\<close>

text \<open>An invocation: channel, service, arguments, error number, answer.\<close>

type_synonym invocation = "string \<times> TcLibServiceId \<times> ipc_val list \<times> u32 \<times> u32"

fun invokes :: "history \<Rightarrow> invocation list" where
  "invokes [] = []"
| "invokes (EvInvoke ch svc args err resp # h) = (ch, svc, args, err, resp) # invokes h"
| "invokes (_ # h) = invokes h"

definition msg_invokes :: "TcMsg \<Rightarrow> invocation list" where
  "msg_invokes m = invokes (msg_history m)"

text \<open>The invocation was delivered and the daemon did not answer with a failure.\<close>

definition inv_ok :: "invocation \<Rightarrow> bool" where
  "inv_ok i = (case i of (ch, svc, args, err, resp) \<Rightarrow> \<not> err8 err \<and> resp \<noteq> TC_FAILURE)"

definition clean :: "TcMsg \<Rightarrow> TcMsg \<Rightarrow> bool" where
  "clean m m' \<longleftrightarrow> (\<exists>new. msg_invokes m' = msg_invokes m @ new \<and> list_all inv_ok new)"

lemma invokes_append [simp]: "invokes (h @ h') = invokes h @ invokes h'"
  by (induction h rule: invokes.induct) simp_all

lemma clean_refl [simp]: "clean m m"
  by (simp add: clean_def)

lemma clean_trans: "clean m1 m2 \<Longrightarrow> clean m2 m3 \<Longrightarrow> clean m1 m3"
  by (auto simp: clean_def)

lemma clean_same: "clean m m1 \<Longrightarrow> msg_invokes m2 = msg_invokes m1 \<Longrightarrow> clean m m2"
  by (auto simp: clean_def)

lemma msg_invokes_update [simp]:
  "msg_invokes (m\<lparr>msg_trans_result := a\<rparr>) = msg_invokes m"
  "msg_invokes (m\<lparr>msg_notifyorder := b\<rparr>) = msg_invokes m"
  "msg_invokes (m\<lparr>msg_abort_on_fail := b\<rparr>) = msg_invokes m"
  "msg_invokes (m\<lparr>msg_driverinfo := c\<rparr>) = msg_invokes m"
  "msg_invokes (m\<lparr>msg_driver_set := d\<rparr>) = msg_invokes m"
  "msg_invokes (m\<lparr>msg_driverset_map := e\<rparr>) = msg_invokes m"
  "msg_invokes (slot_put t cs m) = msg_invokes m"
  by (simp_all add: msg_invokes_def slot_put_def split: slot.split)

section \<open>The primitives\<close>

text \<open>What no primitive changes.\<close>

definition fixed :: "TcMsg \<Rightarrow> TcMsg \<Rightarrow> bool" where
  "fixed m m' \<longleftrightarrow>
     msg_session_id m' = msg_session_id m \<and> msg_opertype m' = msg_opertype m \<and>
     msg_channel_names m' = msg_channel_names m \<and> msg_config_id m' = msg_config_id m \<and>
     msg_abort_on_fail m' = msg_abort_on_fail m \<and> msg_driverinfo m' = msg_driverinfo m \<and>
     msg_driver_set m' = msg_driver_set m \<and>
     msg_trans_result m' = msg_trans_result m \<and> msg_driverset_map m' = msg_driverset_map m"

definition slot_id :: "slot \<Rightarrow> TcMsg \<Rightarrow> (string \<times> TcLibServiceId \<times> ipc_val list) option" where
  "slot_id t m = map_option (\<lambda>cs. (cs_channel cs, cs_service cs, cs_args cs)) (slot_get t m)"

lemma slot_get_put [simp]: "slot_get t (slot_put t cs m) = cs"
  by (simp add: slot_get_def slot_put_def split: slot.split)

lemma slot_get_history [simp]: "slot_get t (m\<lparr>msg_history := h\<rparr>) = slot_get t m"
  by (simp add: slot_get_def split: slot.split)

lemma msg_history_put [simp]: "msg_history (slot_put t cs m) = msg_history m"
  by (simp add: slot_put_def split: slot.split)

lemma fixed_put [simp]: "fixed m (slot_put t cs m)" "fixed m (slot_put t cs (m\<lparr>msg_history := h\<rparr>))"
  by (simp_all add: fixed_def slot_put_def split: slot.split)

lemma fixed_refl [simp]: "fixed m m"
  by (simp add: fixed_def)

lemma fixed_trans: "fixed m1 m2 \<Longrightarrow> fixed m2 m3 \<Longrightarrow> fixed m1 m3"
  by (simp add: fixed_def)

lemma msg_invokes_history: "msg_invokes (m\<lparr>msg_history := h\<rparr>) = invokes h"
  by (simp add: msg_invokes_def)

lemma wp_msg_create [wp_rules]:
  assumes "\<And>m'. fixed m m' \<Longrightarrow> msg_invokes m' = msg_invokes m \<Longrightarrow>
      slot_id t m' = Some (ch, svc, []) \<Longrightarrow> Q True m'"
    "\<And>m'. fixed m m' \<Longrightarrow> msg_invokes m' = msg_invokes m \<Longrightarrow> Q False m'"
  shows "wp (msg_create env t ch svc tmo) Q m"
  by (auto simp: wp_def msg_create_def create_tc_client_session_def Let_def split: prod.splits
      intro!: assms) (simp_all add: msg_invokes_def slot_id_def)

lemma wp_msg_set [wp_rules]:
  assumes "\<And>m'. fixed m m' \<Longrightarrow> msg_invokes m' = msg_invokes m \<Longrightarrow>
      slot_id t m' = map_option (\<lambda>(c, s, a). (c, s, a @ [v])) (slot_id t m) \<Longrightarrow> Q TCUTIL_RET_SUCCESS m'"
    "\<And>r m'. fixed m m' \<Longrightarrow> msg_invokes m' = msg_invokes m \<Longrightarrow> r \<noteq> TCUTIL_RET_SUCCESS \<Longrightarrow> Q r m'"
  shows "wp (msg_set env t v) Q m"
proof (cases "slot_get t m")
  case None
  then show ?thesis
    by (auto simp: wp_def msg_set_def clnt_set_def msg_invokes_history msg_invokes_def intro!: assms(2))
next
  case (Some cs)
  show ?thesis
  proof (cases "err8 (addoutput_err env (msg_history m))")
    case True
    with Some show ?thesis
      by (simp add: wp_def msg_set_def clnt_set_def) (rule assms(2); simp add: msg_invokes_def)
  next
    case False
    with Some show ?thesis
      by (simp add: wp_def msg_set_def clnt_set_def) (rule assms(1); simp add: msg_invokes_def slot_id_def)
  qed
qed

lemma wp_msg_invoke [wp_rules]:
  assumes "\<And>m' ch svc args err resp. fixed m m' \<Longrightarrow> slot_id t m = Some (ch, svc, args) \<Longrightarrow> \<not> err8 err \<Longrightarrow>
      slot_get t m' \<noteq> None \<Longrightarrow> (\<exists>h cs. fst (snd (invoke_res env h cs)) = resp) \<Longrightarrow>
      msg_invokes m' = msg_invokes m @ [(ch, svc, args, err, resp)] \<Longrightarrow> Q (TCUTIL_RET_SUCCESS, resp) m'"
    "\<And>r resp m'. fixed m m' \<Longrightarrow> r \<noteq> TCUTIL_RET_SUCCESS \<Longrightarrow> Q (r, resp) m'"
  shows "wp (msg_invoke env t) Q m"
proof (cases "slot_get t m")
  case None
  then show ?thesis
    by (auto simp: wp_def msg_invoke_def tc_session_invoke_def intro!: assms(2))
next
  case (Some cs)
  obtain err resp vals where i: "invoke_res env (msg_history m) cs = (err, resp, vals)"
    by (cases "invoke_res env (msg_history m) cs")
  show ?thesis
  proof (cases "err8 err")
    case True
    with Some i show ?thesis
      by (auto simp: wp_def msg_invoke_def tc_session_invoke_def intro!: assms(2))
  next
    case False
    have ex: "\<exists>h cs. fst (snd (invoke_res env h cs)) = resp" using i by (metis fst_conv snd_conv)
    from False Some i show ?thesis
      by (auto simp: wp_def msg_invoke_def tc_session_invoke_def slot_id_def msg_invokes_history
          intro!: assms(1) [OF _ _ False _ ex]) (simp add: msg_invokes_def)
  qed
qed

lemma wp_msg_close [wp_rules]:
  "(\<And>m'. fixed m m' \<Longrightarrow> msg_invokes m' = msg_invokes m \<Longrightarrow> Q () m') \<Longrightarrow> wp (msg_close t) Q m"
  by (simp add: wp_def msg_close_def)

lemma wp_msg_timeout [wp_rules]:
  assumes "\<And>m'. fixed m m' \<Longrightarrow> msg_invokes m' = msg_invokes m \<Longrightarrow> slot_id Sess m' = slot_id Sess m \<Longrightarrow> Q () m'"
  shows "wp (msg_timeout env) Q m"
  using assms by (simp add: wp_def msg_timeout_def msg_invokes_def fixed_def slot_id_def)

lemma wp_msg_forward [wp_rules]:
  assumes "\<And>r m'. fixed m m' \<Longrightarrow> msg_invokes m' = msg_invokes m \<Longrightarrow> Q r m'"
  shows "wp (msg_forward env t) Q m"
proof -
  have f: "fixed m (m\<lparr>msg_history := h\<rparr>)" for h by (simp add: fixed_def)
  show ?thesis
    by (auto simp: wp_def msg_forward_def Let_def split: option.splits intro!: assms f)
      (auto simp: msg_invokes_def)
qed

lemma wp_msg_sets [wp_rules]:
  assumes "\<And>m'. fixed m m' \<Longrightarrow> msg_invokes m' = msg_invokes m \<Longrightarrow>
      slot_id t m' = map_option (\<lambda>(c, s, a). (c, s, a @ vs)) (slot_id t m) \<Longrightarrow> Q TCUTIL_RET_SUCCESS m'"
    "\<And>r m'. fixed m m' \<Longrightarrow> msg_invokes m' = msg_invokes m \<Longrightarrow> r \<noteq> TCUTIL_RET_SUCCESS \<Longrightarrow> Q r m'"
  shows "wp (msg_sets env t vs) Q m"
proof -
  have "wp (msg_sets env t vs) (\<lambda>r m'. fixed m m' \<and> msg_invokes m' = msg_invokes m \<and>
      (r = TCUTIL_RET_SUCCESS \<longrightarrow>
        slot_id t m' = map_option (\<lambda>(c, s, a). (c, s, a @ vs)) (slot_id t m))) m"
  proof (induction vs arbitrary: m)
    case Nil
    show ?case by (cases "slot_id t m") (auto intro!: wp_rules)
  next
    case (Cons v vs)
    show ?case
      unfolding msg_sets.simps
    proof (intro wp_bind wp_msg_set wp_if wp_return)
      fix m1
      assume 1: "fixed m m1" "msg_invokes m1 = msg_invokes m"
        "slot_id t m1 = map_option (\<lambda>(c, s, a). (c, s, a @ [v])) (slot_id t m)"
      show "wp (msg_sets env t vs) (\<lambda>r m'. fixed m m' \<and> msg_invokes m' = msg_invokes m \<and>
        (r = TCUTIL_RET_SUCCESS \<longrightarrow>
          slot_id t m' = map_option (\<lambda>(c, s, a). (c, s, a @ v # vs)) (slot_id t m))) m1"
      proof (rule wp_mono [OF Cons.IH])
        fix r m2
        assume 2: "fixed m1 m2 \<and> msg_invokes m2 = msg_invokes m1 \<and> (r = TCUTIL_RET_SUCCESS \<longrightarrow>
          slot_id t m2 = map_option (\<lambda>(c, s, a). (c, s, a @ vs)) (slot_id t m1))"
        then have "fixed m m2" using fixed_trans [OF 1(1)] by blast
        with 1 2 show "fixed m m2 \<and> msg_invokes m2 = msg_invokes m \<and> (r = TCUTIL_RET_SUCCESS \<longrightarrow>
          slot_id t m2 = map_option (\<lambda>(c, s, a). (c, s, a @ v # vs)) (slot_id t m))"
          by (cases "slot_id t m") auto
      qed
    qed simp_all
  qed
  then show ?thesis
  proof (rule wp_mono)
    fix r m'
    assume "fixed m m' \<and> msg_invokes m' = msg_invokes m \<and> (r = TCUTIL_RET_SUCCESS \<longrightarrow>
      slot_id t m' = map_option (\<lambda>(c, s, a). (c, s, a @ vs)) (slot_id t m))"
    then show "Q r m'" by (cases "r = TCUTIL_RET_SUCCESS") (simp_all add: assms)
  qed
qed


section \<open>A phase succeeds only if every daemon agreed\<close>

text \<open>What whole methods leave alone, and the invariant of a successful run.\<close>

definition ids :: "TcMsg \<Rightarrow> TcMsg \<Rightarrow> bool" where
  "ids m m' \<longleftrightarrow>
     msg_session_id m' = msg_session_id m \<and> msg_opertype m' = msg_opertype m \<and>
     msg_channel_names m' = msg_channel_names m \<and> msg_config_id m' = msg_config_id m"

definition good :: "TcMsg \<Rightarrow> TcMsg \<Rightarrow> bool" where
  "good m m' \<longleftrightarrow> ids m m' \<and> clean m m'"

definition two_phase :: "TcMsg \<Rightarrow> bool" where
  "two_phase m \<longleftrightarrow> msg_opertype m = MSG_COMMIT_VOTE \<or> msg_opertype m = MSG_COMMIT_GLOBAL"

lemma ids_refl [simp]: "ids m m"
  by (simp add: ids_def)

lemma good_refl [simp]: "good m m"
  by (simp add: good_def)

lemma good_trans: "good m1 m2 \<Longrightarrow> good m2 m3 \<Longrightarrow> good m1 m3"
  by (auto simp: good_def ids_def dest: clean_trans)

lemma good_fixed: "good m0 m \<Longrightarrow> fixed m m' \<Longrightarrow> msg_invokes m' = msg_invokes m \<Longrightarrow> good m0 m'"
  by (auto simp: good_def ids_def fixed_def dest: clean_same)

lemma good_invoke:
  "good m0 m \<Longrightarrow> fixed m m' \<Longrightarrow> msg_invokes m' = msg_invokes m @ [i] \<Longrightarrow> inv_ok i \<Longrightarrow> good m0 m'"
  by (auto simp: good_def ids_def fixed_def clean_def)

lemma good_opertype: "good m m' \<Longrightarrow> msg_opertype m' = msg_opertype m"
  by (simp add: good_def ids_def)

lemma good_update [simp]:
  "good m0 (m\<lparr>msg_trans_result := a\<rparr>) = good m0 m" "good m0 (m\<lparr>msg_notifyorder := b\<rparr>) = good m0 m"
  "good m0 (m\<lparr>msg_abort_on_fail := b\<rparr>) = good m0 m" "good m0 (m\<lparr>msg_driverinfo := c\<rparr>) = good m0 m"
  "good m0 (m\<lparr>msg_driver_set := d\<rparr>) = good m0 m" "good m0 (m\<lparr>msg_driverset_map := e\<rparr>) = good m0 m"
  by (simp_all add: good_def ids_def clean_def)

abbreviation ok_run :: "TcMsg \<Rightarrow> TcOperRet \<Rightarrow> TcMsg \<Rightarrow> bool" where
  "ok_run m0 r m' \<equiv> (r = TCOPER_RET_SUCCESS \<longrightarrow> good m0 m')"

lemma ReturnUtilResp_success [simp]:
  "(ReturnUtilResp r = TCOPER_RET_SUCCESS) = (r = TCUTIL_RET_SUCCESS)"
  "(TCOPER_RET_SUCCESS = ReturnUtilResp r) = (r = TCUTIL_RET_SUCCESS)"
  by (cases r; simp add: ReturnUtilResp_def)+

named_theorems good_rules "weakest precondition rules for the invariant of a successful run"

lemma good_create [good_rules]:
  assumes "good m0 m" "\<And>b m'. good m0 m' \<Longrightarrow> fixed m m' \<Longrightarrow> Q b m'"
  shows "wp (msg_create env t ch svc tmo) Q m"
  using assms by (intro wp_msg_create) (auto intro: good_fixed)

lemma good_set [good_rules]:
  assumes "good m0 m" "\<And>r m'. good m0 m' \<Longrightarrow> fixed m m' \<Longrightarrow> Q r m'"
  shows "wp (msg_set env t v) Q m"
  using assms by (intro wp_msg_set) (auto intro: good_fixed)

lemma good_sets [good_rules]:
  assumes "good m0 m" "\<And>r m'. good m0 m' \<Longrightarrow> fixed m m' \<Longrightarrow> Q r m'"
  shows "wp (msg_sets env t vs) Q m"
  using assms by (intro wp_msg_sets) (auto intro: good_fixed)

lemma good_close [good_rules]:
  assumes "good m0 m" "\<And>m'. good m0 m' \<Longrightarrow> fixed m m' \<Longrightarrow> Q () m'"
  shows "wp (msg_close t) Q m"
  using assms by (intro wp_msg_close) (auto intro: good_fixed)

lemma good_timeout [good_rules]:
  assumes "good m0 m" "\<And>m'. good m0 m' \<Longrightarrow> fixed m m' \<Longrightarrow> Q () m'"
  shows "wp (msg_timeout env) Q m"
  using assms by (intro wp_msg_timeout) (auto intro: good_fixed)

lemma good_forward [good_rules]:
  assumes "good m0 m" "\<And>r m'. good m0 m' \<Longrightarrow> fixed m m' \<Longrightarrow> Q r m'"
  shows "wp (msg_forward env t) Q m"
  using assms by (intro wp_msg_forward) (auto intro: good_fixed)

lemma good_invoke_wp [good_rules]:
  assumes "good m0 m" "\<And>resp m'. (resp \<noteq> TC_FAILURE \<Longrightarrow> good m0 m') \<Longrightarrow> fixed m m' \<Longrightarrow> Q (TCUTIL_RET_SUCCESS, resp) m'"
    "\<And>r resp m'. r \<noteq> TCUTIL_RET_SUCCESS \<Longrightarrow> Q (r, resp) m'"
  shows "wp (msg_invoke env t) Q m"
  by (intro wp_msg_invoke assms(2,3)) (auto simp: inv_ok_def intro: good_invoke [OF assms(1)])

lemma good_abort [good_rules]:
  "(\<And>e m'. Q e m') \<Longrightarrow> wp (SendAbortRequest env ds) Q m" "(\<And>e m'. Q e m') \<Longrightarrow> wp (SendTransEndRequest env ds) Q m"
  by (rule wp_any, assumption)+

lemmas [good_rules] = wp_bind wp_return wp_get wp_update wp_if wp_option wp_prod

lemma driver_loop_good: "good m0 m \<Longrightarrow> wp (driver_loop cs n idx) (ok_run m0) m"
  by (induction n arbitrary: idx m) (auto simp: Let_def split: prod.splits intro!: wp_rules)

lemma GetControllerInfo_good: "good m0 m \<Longrightarrow> wp (GetControllerInfo cs) (ok_run m0) m"
  unfolding GetControllerInfo_def Let_def
  by (auto split: prod.splits intro!: wp_rules driver_loop_good)

lemma TwoPhaseCommit_SendRequest_good:
  assumes "good m0 m" "two_phase m0"
  shows "wp (TwoPhaseCommit_SendRequest env ch) (ok_run m0) m"
  unfolding TwoPhaseCommit_SendRequest_def Let_def
  by (intro good_rules wp_mono [OF GetControllerInfo_good])
    (use assms good_opertype [OF assms(1)] in \<open>auto simp: two_phase_def\<close>)

lemma two_phase_loop_good:
  assumes "good m0 m" "two_phase m0"
  shows "wp (two_phase_loop env ds) (ok_run m0) m"
  using assms
proof (induction ds arbitrary: m)
  case (Cons d ds)
  show ?case
    unfolding two_phase_loop.simps
    by (intro good_rules wp_mono [OF TwoPhaseCommit_SendRequest_good [of m0]] Cons.IH)
      (use Cons.prems in auto)
qed (auto intro!: wp_rules)

lemma SetSession_good:
  assumes "good m0 m"
  shows "wp (SetSessionToForwardDriverResult env t) (ok_run m0) m"
  unfolding SetSessionToForwardDriverResult_def Let_def
  by (intro good_rules) (use assms in auto)

lemma CreateSessions_good:
  assumes "good m0 m"
  shows "wp (CreateSessionsToForwardDriverResult env) (ok_run m0) m"
  unfolding CreateSessionsToForwardDriverResult_def
  by (intro good_rules wp_mono [OF SetSession_good [of m0]]) (use assms in auto)

lemma HandleDriverResultResponse_good:
  assumes "good m0 m" "two_phase m0"
  shows "wp (HandleDriverResultResponse env t) (ok_run m0) m"
  unfolding HandleDriverResultResponse_def
  by (intro good_rules)
    (use assms good_opertype [OF assms(1)] in \<open>auto simp: two_phase_def fixed_def\<close>)

lemma set_both_good: "good m0 m \<Longrightarrow> wp (set_both env vs) (\<lambda>r m'. good m0 m') m"
proof (induction vs arbitrary: m)
  case (Cons v vs)
  show ?case unfolding set_both.simps by (intro good_rules Cons.IH) (use Cons.prems in auto)
qed (auto intro!: wp_rules)

lemma dummy_loop_good: "good m0 m \<Longrightarrow> wp (dummy_loop env cs) (ok_run m0) m"
proof (induction cs arbitrary: m)
  case (Cons c cs)
  show ?case
    unfolding dummy_loop.simps
    by (intro good_rules wp_mono [OF set_both_good [of m0]] Cons.IH) (use Cons.prems in auto)
qed (auto intro!: wp_rules)

lemma HandleDriverNotPresent_good: "good m0 m \<Longrightarrow> wp (HandleDriverNotPresent env d) (ok_run m0) m"
  unfolding HandleDriverNotPresent_def
  by (intro good_rules dummy_loop_good) auto

lemma handle_driver_response_good:
  assumes "resp \<noteq> TC_FAILURE \<Longrightarrow> good m0 m" "two_phase m" 
  shows "wp (handle_driver_response env d t resp) (ok_run m0) m"
  unfolding handle_driver_response_def Let_def
  by (intro good_rules) (use assms in \<open>auto simp: two_phase_def\<close>)

lemma driver_request_loop_good:
  assumes "good m0 m" "two_phase m0"
  shows "wp (driver_request_loop env oper ps) (ok_run m0) m"
  using assms
proof (induction ps arbitrary: m)
  case (Cons p ps)
  show ?case
    unfolding driver_request_loop.simps Let_def
    by (intro good_rules wp_mono [OF HandleDriverNotPresent_good [of m0]]
        wp_mono [OF handle_driver_response_good [of _ m0]] Cons.IH)
      (use Cons.prems in \<open>auto simp: two_phase_def fixed_def dest: good_opertype\<close>)
qed (auto intro!: wp_rules)

lemma SendRequestToDriver_good:
  assumes "good m0 m" "two_phase m0"
  shows "wp (SendRequestToDriver env) (ok_run m0) m"
  unfolding SendRequestToDriver_def Let_def
  by (intro good_rules wp_mono [OF CreateSessions_good [of m0]] wp_mono [OF driver_request_loop_good [of m0]]
      wp_mono [OF HandleDriverResultResponse_good [of m0]] HandleDriverResultResponse_good)
    (use assms in auto)

lemma push_notify_good: "good m0 m \<Longrightarrow> wp (push_notify ds) (\<lambda>r m'. good m0 m') m"
  unfolding push_notify_def by (intro good_rules) auto

lemma TwoPhaseCommit_Execute_good:
  assumes "good m0 m" "two_phase m0"
  shows "wp (TwoPhaseCommit_Execute env) (ok_run m0) m"
  unfolding TwoPhaseCommit_Execute_def
  by (intro good_rules wp_mono [OF push_notify_good [of m0]] wp_mono [OF two_phase_loop_good [of m0]]
      wp_mono [OF CreateSessions_good [of m0]] wp_mono [OF HandleDriverResultResponse_good [of m0]]
      wp_mono [OF SendRequestToDriver_good [of m0]])
    (use assms in auto)

text \<open>A small system for the witnesses: UPLL, UPPL and one driver.\<close>

definition demo_channels :: TcChannelNameMap where
  "demo_channels = [TC_UPLL \<mapsto> ''upll'', TC_UPPL \<mapsto> ''uppl'', TC_DRV_ODL \<mapsto> ''odl'']"

definition demo_msg :: "TcMsgOperType \<Rightarrow> TcMsg" where
  "demo_msg oper = TcMsgCommit_SetData 7 (TcMsg_new 3 oper demo_channels [])"

end
