(* ===== verification/TC_MsgVote.thy ===== *)
theory TC_MsgVote
  imports TC_MsgLogic
begin

text \<open>
  The withdrawal of votes: when the vote of a two-phase commit ends in an abort, the daemons and
  drivers that had voted for the commit, and only those, have been told to abort, in the order in
  which they voted.
\<close>

section \<open>Votes and withdrawals\<close>

definition yes_vote :: "invocation \<Rightarrow> bool" where
  "yes_vote i \<longleftrightarrow> inv_ok i \<and>
     (fst (snd i) = TCLIB_COMMIT_TRANSACTION \<or> fst (snd i) = TCLIB_COMMIT_DRV_VOTE_GLOBAL)"

definition withdrawal :: "invocation \<Rightarrow> bool" where
  "withdrawal i \<longleftrightarrow> inv_ok i \<and> fst (snd i) = TCLIB_COMMIT_GLOBAL_ABORT"

text \<open>The daemons answer with one of the two codes the commit knows.\<close>

definition binary_answers :: "ipc_env \<Rightarrow> bool" where
  "binary_answers env \<longleftrightarrow>
     (\<forall>h cs. fst (snd (invoke_res env h cs)) = TC_SUCCESS \<or> fst (snd (invoke_res env h cs)) = TC_FAILURE)"

text \<open>The sessions to UPLL and UPPL that are kept during the vote are those for the results.\<close>

definition drv :: "TcMsg \<Rightarrow> bool" where
  "drv m \<longleftrightarrow> (\<forall>t cs. t = Upll \<or> t = Uppl \<longrightarrow> slot_get t m = Some cs \<longrightarrow> cs_service cs = TCLIB_COMMIT_DRV_RESULT)"

definition votes :: "TcMsg \<Rightarrow> string list \<Rightarrow> TcMsg \<Rightarrow> bool" where
  "votes m0 extra m \<longleftrightarrow>
     ids m0 m \<and> drv m \<and>
     (\<exists>new. msg_invokes m = msg_invokes m0 @ new \<and> filter withdrawal new = [] \<and>
        map fst (filter yes_vote new) =
          map (\<lambda>d. GetChannelName d m0) (msg_abort_on_fail m) @ extra)"

definition withdrawn :: "TcMsg \<Rightarrow> TcMsg \<Rightarrow> bool" where
  "withdrawn m0 m \<longleftrightarrow>
     (\<exists>new. msg_invokes m = msg_invokes m0 @ new \<and>
        map fst (filter withdrawal new) = map fst (filter yes_vote new))"

definition vote_run :: "TcMsg \<Rightarrow> string list \<Rightarrow> TcOperRet \<Rightarrow> TcMsg \<Rightarrow> bool" where
  "vote_run m0 extra r m' \<longleftrightarrow>
     (r = TCOPER_RET_SUCCESS \<longrightarrow> votes m0 extra m') \<and> (r = TCOPER_RET_ABORT \<longrightarrow> withdrawn m0 m')"

lemma wp_conj: "wp p Q s \<Longrightarrow> wp p R s \<Longrightarrow> wp p (\<lambda>a s'. Q a s' \<and> R a s') s"
  by (auto simp: wp_def split: prod.splits)

lemma ReturnUtilResp_not_abort [simp]: "ReturnUtilResp r \<noteq> TCOPER_RET_ABORT"
  by (cases r) (simp_all add: ReturnUtilResp_def)

lemma votes_opertype: "votes m0 xs m \<Longrightarrow> msg_opertype m = msg_opertype m0"
  by (simp add: votes_def ids_def)

lemma votes_channel: "votes m0 xs m \<Longrightarrow> GetChannelName d m = GetChannelName d m0"
  by (simp add: votes_def ids_def GetChannelName_def)

lemma drv_update [simp]:
  "drv (m\<lparr>msg_trans_result := a\<rparr>) = drv m" "drv (m\<lparr>msg_notifyorder := b\<rparr>) = drv m"
  "drv (m\<lparr>msg_abort_on_fail := b\<rparr>) = drv m" "drv (m\<lparr>msg_driverinfo := c\<rparr>) = drv m"
  "drv (m\<lparr>msg_driver_set := d\<rparr>) = drv m" "drv (m\<lparr>msg_driverset_map := e\<rparr>) = drv m"
  "drv (m\<lparr>msg_history := h\<rparr>) = drv m"
  by (auto simp: drv_def slot_get_def split: slot.splits)

lemma drv_put:
  "drv m \<Longrightarrow> (\<And>cs'. cs = Some cs' \<Longrightarrow> t = Upll \<or> t = Uppl \<Longrightarrow> cs_service cs' = TCLIB_COMMIT_DRV_RESULT) \<Longrightarrow>
   drv (slot_put t cs m)"
  by (auto simp: drv_def slot_get_def slot_put_def split: slot.splits)

lemma drv_get: "drv m \<Longrightarrow> slot_get t m = Some cs \<Longrightarrow> t = Upll \<or> t = Uppl \<Longrightarrow> cs_service cs = TCLIB_COMMIT_DRV_RESULT"
  by (auto simp: drv_def)

lemma votes_update [simp]:
  "votes m0 xs (m\<lparr>msg_trans_result := a\<rparr>) = votes m0 xs m"
  "votes m0 xs (m\<lparr>msg_notifyorder := b\<rparr>) = votes m0 xs m"
  "votes m0 xs (m\<lparr>msg_driverinfo := c\<rparr>) = votes m0 xs m"
  "votes m0 xs (m\<lparr>msg_driver_set := d\<rparr>) = votes m0 xs m"
  "votes m0 xs (m\<lparr>msg_driverset_map := e\<rparr>) = votes m0 xs m"
  by (simp_all add: votes_def ids_def)

lemma votes_record:
  "votes m0 [GetChannelName d m0] m \<Longrightarrow>
   votes m0 [] (m\<lparr>msg_abort_on_fail := msg_abort_on_fail m @ [d]\<rparr>)"
  "votes m0 [GetChannelName d m0] m \<Longrightarrow>
   votes m0 [] (m\<lparr>msg_driverset_map := e, msg_abort_on_fail := msg_abort_on_fail m @ [d]\<rparr>)"
  by (auto simp: votes_def ids_def)

section \<open>The primitives\<close>

lemma drv_create:
  "drv m \<Longrightarrow> (t = Upll \<or> t = Uppl \<longrightarrow> svc = TCLIB_COMMIT_DRV_RESULT) \<Longrightarrow>
   wp (msg_create env t ch svc tmo) (\<lambda>r m'. drv m') m"
  by (auto simp: wp_def msg_create_def create_tc_client_session_def Let_def split: prod.splits intro!: drv_put)

lemma drv_set: "drv m \<Longrightarrow> wp (msg_set env t v) (\<lambda>r m'. drv m') m"
  by (auto simp: wp_def msg_set_def clnt_set_def split: prod.splits option.splits if_splits
      intro!: drv_put dest: drv_get)

lemma drv_invoke: "drv m \<Longrightarrow> wp (msg_invoke env t) (\<lambda>r m'. drv m') m"
  by (auto simp: wp_def msg_invoke_def tc_session_invoke_def Let_def split: prod.splits option.splits if_splits
      intro!: drv_put dest: drv_get)

lemma drv_forward: "drv m \<Longrightarrow> wp (msg_forward env t) (\<lambda>r m'. drv m') m"
  by (auto simp: wp_def msg_forward_def Let_def split: option.splits intro!: drv_put dest: drv_get)

lemma drv_sets: "drv m \<Longrightarrow> wp (msg_sets env t vs) (\<lambda>r m'. drv m') m"
proof (induction vs arbitrary: m)
  case (Cons v vs)
  show ?case
    unfolding msg_sets.simps
    by (intro wp_bind wp_mono [OF drv_set [OF Cons.prems]] wp_if wp_return Cons.IH)
qed (auto intro!: wp_rules)

lemma votes_same:
  "votes m0 xs m \<Longrightarrow> fixed m m' \<Longrightarrow> msg_invokes m' = msg_invokes m \<Longrightarrow> drv m' \<Longrightarrow> votes m0 xs m'"
  by (auto simp: votes_def ids_def fixed_def)

lemma votes_drv: "votes m0 xs m \<Longrightarrow> drv m"
  by (simp add: votes_def)

lemma votes_other:
  "votes m0 xs m \<Longrightarrow> fixed m m' \<Longrightarrow> msg_invokes m' = msg_invokes m @ [i] \<Longrightarrow>
   drv m' \<Longrightarrow> \<not> yes_vote i \<Longrightarrow> \<not> withdrawal i \<Longrightarrow> votes m0 xs m'"
  by (auto simp: votes_def ids_def fixed_def)

lemma votes_yes:
  "votes m0 [] m \<Longrightarrow> fixed m m' \<Longrightarrow> msg_invokes m' = msg_invokes m @ [i] \<Longrightarrow>
   drv m' \<Longrightarrow> yes_vote i \<Longrightarrow> \<not> withdrawal i \<Longrightarrow> votes m0 [fst i] m'"
  by (auto simp: votes_def ids_def fixed_def)

text \<open>A step that is not an invocation keeps every statement on the votes so far.\<close>

definition keeps :: "TcMsg \<Rightarrow> TcMsg \<Rightarrow> bool" where
  "keeps m m' \<longleftrightarrow> fixed m m' \<and> (\<forall>m0 xs. votes m0 xs m \<longrightarrow> votes m0 xs m')"

lemma keepsD: "keeps m m' \<Longrightarrow> votes m0 xs m \<Longrightarrow> votes m0 xs m'"
  by (simp add: keeps_def)

lemma keeps_fixed: "keeps m m' \<Longrightarrow> fixed m m'"
  by (simp add: keeps_def)

lemma keepsI: "fixed m m' \<Longrightarrow> msg_invokes m' = msg_invokes m \<Longrightarrow> (drv m \<Longrightarrow> drv m') \<Longrightarrow> keeps m m'"
  by (auto simp: keeps_def dest: votes_drv intro: votes_same)

named_theorems vote_rules "weakest precondition rules for the invariant of a vote"

lemma wp_imp_conj: "wp p Q s \<Longrightarrow> (P \<Longrightarrow> wp p R s) \<Longrightarrow> wp p (\<lambda>a s'. Q a s' \<and> (P \<longrightarrow> R a s')) s"
  by (auto simp: wp_def split: prod.splits)

lemma vote_create [vote_rules]:
  assumes "t = Upll \<or> t = Uppl \<longrightarrow> svc = TCLIB_COMMIT_DRV_RESULT"
    "\<And>m'. keeps m m' \<Longrightarrow> slot_id t m' = Some (ch, svc, []) \<Longrightarrow> Q True m'" "\<And>m'. Q False m'"
  shows "wp (msg_create env t ch svc tmo) Q m"
proof -
  have "wp (msg_create env t ch svc tmo) (\<lambda>r m'. (r \<longrightarrow> fixed m m' \<and> msg_invokes m' = msg_invokes m \<and>
      slot_id t m' = Some (ch, svc, [])) \<and> (drv m \<longrightarrow> drv m')) m"
    by (intro wp_imp_conj wp_msg_create drv_create assms(1)) simp_all
  then show ?thesis
    by (rule wp_mono) (metis (full_types) assms(2,3) keepsI)
qed

lemma vote_sets [vote_rules]:
  assumes "\<And>m'. keeps m m' \<Longrightarrow>
      slot_id t m' = map_option (\<lambda>(c, s, a). (c, s, a @ vs)) (slot_id t m) \<Longrightarrow> Q TCUTIL_RET_SUCCESS m'"
    "\<And>r m'. r \<noteq> TCUTIL_RET_SUCCESS \<Longrightarrow> Q r m'"
  shows "wp (msg_sets env t vs) Q m"
proof -
  have "wp (msg_sets env t vs) (\<lambda>r m'. (r = TCUTIL_RET_SUCCESS \<longrightarrow> fixed m m' \<and> msg_invokes m' = msg_invokes m \<and>
      slot_id t m' = map_option (\<lambda>(c, s, a). (c, s, a @ vs)) (slot_id t m)) \<and> (drv m \<longrightarrow> drv m')) m"
    by (rule wp_imp_conj [OF wp_msg_sets drv_sets]) blast+
  then show ?thesis
  proof (rule wp_mono)
    fix r m'
    assume "(r = TCUTIL_RET_SUCCESS \<longrightarrow> fixed m m' \<and> msg_invokes m' = msg_invokes m \<and>
      slot_id t m' = map_option (\<lambda>(c, s, a). (c, s, a @ vs)) (slot_id t m)) \<and> (drv m \<longrightarrow> drv m')"
    then show "Q r m'"
      by (cases "r = TCUTIL_RET_SUCCESS") (simp_all add: assms keepsI)
  qed
qed

lemma msg_set_sets: "wp (msg_sets env t [v]) Q m \<Longrightarrow> wp (msg_set env t v) Q m"
  by (auto simp: wp_def split: prod.splits if_splits)

lemma vote_set [vote_rules]:
  assumes "\<And>m'. keeps m m' \<Longrightarrow>
      slot_id t m' = map_option (\<lambda>(c, s, a). (c, s, a @ [v])) (slot_id t m) \<Longrightarrow> Q TCUTIL_RET_SUCCESS m'"
    "\<And>r m'. r \<noteq> TCUTIL_RET_SUCCESS \<Longrightarrow> Q r m'"
  shows "wp (msg_set env t v) Q m"
  by (intro msg_set_sets vote_sets) (use assms in auto)

lemma vote_close [vote_rules]: "(\<And>m'. keeps m m' \<Longrightarrow> Q () m') \<Longrightarrow> wp (msg_close t) Q m"
proof -
  have "keeps m (slot_put t None m)" by (rule keepsI) (auto intro: drv_put)
  then show "(\<And>m'. keeps m m' \<Longrightarrow> Q () m') \<Longrightarrow> wp (msg_close t) Q m"
    by (simp add: wp_def msg_close_def)
qed

lemma vote_forward [vote_rules]: "(\<And>r m'. keeps m m' \<Longrightarrow> Q r m') \<Longrightarrow> wp (msg_forward env t) Q m"
proof -
  have "wp (msg_forward env t) (\<lambda>r m'. (fixed m m' \<and> msg_invokes m' = msg_invokes m) \<and> (drv m \<longrightarrow> drv m')) m"
    by (intro wp_imp_conj wp_msg_forward drv_forward) simp_all
  then show "(\<And>r m'. keeps m m' \<Longrightarrow> Q r m') \<Longrightarrow> wp (msg_forward env t) Q m"
    by (elim wp_mono) (auto intro: keepsI)
qed

lemma vote_invoke:
  assumes "votes m0 xs m" "binary_answers env"
    "\<And>m' ch svc args err resp. fixed m m' \<Longrightarrow> slot_id t m = Some (ch, svc, args) \<Longrightarrow> \<not> err8 err \<Longrightarrow>
      resp = TC_SUCCESS \<or> resp = TC_FAILURE \<Longrightarrow>
      msg_invokes m' = msg_invokes m @ [(ch, svc, args, err, resp)] \<Longrightarrow> drv m' \<Longrightarrow> Q (TCUTIL_RET_SUCCESS, resp) m'"
    "\<And>r resp m'. r \<noteq> TCUTIL_RET_SUCCESS \<Longrightarrow> Q (r, resp) m'"
  shows "wp (msg_invoke env t) Q m"
proof -
  have "wp (msg_invoke env t) (\<lambda>(r, resp) m'. (r = TCUTIL_RET_SUCCESS \<longrightarrow>
      fixed m m' \<and> (resp = TC_SUCCESS \<or> resp = TC_FAILURE) \<and>
      (\<exists>ch svc args err. slot_id t m = Some (ch, svc, args) \<and> \<not> err8 err \<and>
        msg_invokes m' = msg_invokes m @ [(ch, svc, args, err, resp)]))) m"
    using assms(2) by (intro wp_msg_invoke) (auto simp: binary_answers_def)
  from wp_conj [OF this drv_invoke [OF votes_drv [OF assms(1)]]] show ?thesis
  proof (rule wp_mono)
    fix a m'
    assume "(case a of (r, resp) \<Rightarrow> \<lambda>m'. (r = TCUTIL_RET_SUCCESS \<longrightarrow>
      fixed m m' \<and> (resp = TC_SUCCESS \<or> resp = TC_FAILURE) \<and>
      (\<exists>ch svc args err. slot_id t m = Some (ch, svc, args) \<and> \<not> err8 err \<and>
        msg_invokes m' = msg_invokes m @ [(ch, svc, args, err, resp)]))) m' \<and> drv m'"
    then show "Q a m'"
      by (cases a; cases "fst a = TCUTIL_RET_SUCCESS") (auto intro: assms(3,4))
  qed
qed

lemmas [vote_rules] = wp_bind wp_return wp_get wp_update wp_if wp_option wp_prod

section \<open>Withdrawing\<close>

text \<open>An abort request that reports success has reached every daemon of its list.\<close>

lemma RespondToTc_success [simp]: "(RespondToTc r = TCOPER_RET_SUCCESS) = (r = TC_SUCCESS)"
  by (simp add: RespondToTc_def)

definition aborts :: "TcMsg \<Rightarrow> string list \<Rightarrow> TcMsg \<Rightarrow> bool" where
  "aborts m chs m' \<longleftrightarrow>
     (\<exists>new. msg_invokes m' = msg_invokes m @ new \<and> filter yes_vote new = [] \<and>
        map fst (filter withdrawal new) = chs)"

lemma aborts_trans: "aborts m xs m1 \<Longrightarrow> aborts m1 ys m2 \<Longrightarrow> aborts m (xs @ ys) m2"
  by (auto simp: aborts_def)

lemma aborts_refl [simp]: "aborts m [] m"
  by (auto simp: aborts_def)

lemma aborts_one:
  "msg_invokes m' = msg_invokes m @ [(ch, TCLIB_COMMIT_GLOBAL_ABORT, args, err, resp)] \<Longrightarrow>
   \<not> err8 err \<Longrightarrow> resp \<noteq> TC_FAILURE \<Longrightarrow> aborts m [ch] m'"
  by (auto simp: aborts_def yes_vote_def withdrawal_def inv_ok_def)

lemma fixed_channel: "fixed m m' \<Longrightarrow> GetChannelName d m' = GetChannelName d m"
  by (simp add: fixed_def GetChannelName_def)

lemma abort_loop_withdraws:
  "wp (abort_loop env ds resp)
     (\<lambda>r m'. r = TCOPER_RET_SUCCESS \<longrightarrow> aborts m (map (\<lambda>d. GetChannelName d m) ds) m') m"
proof (induction ds arbitrary: m resp)
  case (Cons d ds)
  have step: "wp (abort_loop env ds resp')
      (\<lambda>r m'. r = TCOPER_RET_SUCCESS \<longrightarrow> aborts m (GetChannelName d m # map (\<lambda>d. GetChannelName d m) ds) m') m1"
    if "fixed m m1" "aborts m [GetChannelName d m] m1" for m1 resp'
    using that fixed_channel [OF that(1)] aborts_trans [OF that(2)]
    by (intro wp_mono [OF Cons.IH]) fastforce
  show ?case
    unfolding abort_loop.simps
    by (intro wp_rules) (simp_all add: RespondToTc_def, blast intro: step fixed_trans aborts_one)
qed (auto intro!: wp_rules)

lemma SendAbortRequest_withdraws:
  "wp (SendAbortRequest env ds)
     (\<lambda>r m'. r = TCOPER_RET_SUCCESS \<longrightarrow> aborts m (map (\<lambda>d. GetChannelName d m) ds) m') m"
  unfolding SendAbortRequest_def
  by (intro wp_rules abort_loop_withdraws) simp_all

lemma withdrawnI:
  assumes "votes m0 [] m" "aborts m (map (\<lambda>d. GetChannelName d m) (msg_abort_on_fail m)) m'"
  shows "withdrawn m0 m'"
proof -
  have "map (\<lambda>d. GetChannelName d m) (msg_abort_on_fail m) = map (\<lambda>d. GetChannelName d m0) (msg_abort_on_fail m)"
    using votes_channel [OF assms(1)] by simp
  then show ?thesis
    using assms by (auto simp: votes_def withdrawn_def aborts_def)
qed

lemma withdrawn_update [simp]:
  "withdrawn m0 (m\<lparr>msg_abort_on_fail := b\<rparr>) = withdrawn m0 m"
  "withdrawn m0 (m\<lparr>msg_driverinfo := c\<rparr>) = withdrawn m0 m"
  "withdrawn m0 (m\<lparr>msg_driverset_map := e\<rparr>) = withdrawn m0 m"
  "withdrawn m0 (m\<lparr>msg_notifyorder := n\<rparr>) = withdrawn m0 m"
  "withdrawn m0 (m\<lparr>msg_trans_result := a\<rparr>) = withdrawn m0 m"
  by (simp_all add: withdrawn_def)

lemma withdrawn_none: "votes m0 [] m \<Longrightarrow> msg_abort_on_fail m = [] \<Longrightarrow> withdrawn m0 m"
  by (auto simp: votes_def withdrawn_def)

lemma vote_abort:
  assumes "votes m0 [] m" "msg_abort_on_fail m = ds" "\<And>m'. withdrawn m0 m' \<Longrightarrow> Q TCOPER_RET_SUCCESS m'"
    "\<And>r m'. r \<noteq> TCOPER_RET_SUCCESS \<Longrightarrow> Q r m'"
  shows "wp (SendAbortRequest env ds) Q m"
proof (rule wp_mono [OF SendAbortRequest_withdraws])
  fix r m'
  assume "r = TCOPER_RET_SUCCESS \<longrightarrow> aborts m (map (\<lambda>d. GetChannelName d m) ds) m'"
  then show "Q r m'"
    by (cases "r = TCOPER_RET_SUCCESS") (use assms(2) in \<open>auto intro: assms(3,4) withdrawnI [OF assms(1)]\<close>)
qed

section \<open>The methods of a vote\<close>

lemma slot_id_drv:
  "drv m \<Longrightarrow> t = Upll \<or> t = Uppl \<Longrightarrow> slot_id t m = Some (ch, svc, args) \<Longrightarrow> svc = TCLIB_COMMIT_DRV_RESULT"
  by (auto simp: slot_id_def dest: drv_get)

lemma vote_invoke_result:
  assumes "votes m0 xs m" "binary_answers env" "t = Upll \<or> t = Uppl"
    "\<And>m' resp. votes m0 xs m' \<Longrightarrow> resp = TC_SUCCESS \<or> resp = TC_FAILURE \<Longrightarrow> Q (TCUTIL_RET_SUCCESS, resp) m'"
    "\<And>r resp m'. r \<noteq> TCUTIL_RET_SUCCESS \<Longrightarrow> Q (r, resp) m'"
  shows "wp (msg_invoke env t) Q m"
  using slot_id_drv [OF votes_drv [OF assms(1)] assms(3)]
  by (intro vote_invoke [OF assms(1,2)] assms(4,5))
    (auto intro!: votes_other [OF assms(1)] simp: yes_vote_def withdrawal_def)

text \<open>An invocation over the main session is a vote or the refusal to give one.\<close>

lemma vote_invoke_main:
  assumes "votes m0 [] m" "binary_answers env"
    "fst (snd (the (slot_id Sess m))) \<in> {TCLIB_COMMIT_TRANSACTION, TCLIB_COMMIT_DRV_VOTE_GLOBAL}"
    "\<And>m'. votes m0 [fst (the (slot_id Sess m))] m' \<Longrightarrow> fixed m m' \<Longrightarrow> Q (TCUTIL_RET_SUCCESS, TC_SUCCESS) m'"
    "\<And>m'. votes m0 [] m' \<Longrightarrow> fixed m m' \<Longrightarrow> Q (TCUTIL_RET_SUCCESS, TC_FAILURE) m'"
    "\<And>r resp m'. r \<noteq> TCUTIL_RET_SUCCESS \<Longrightarrow> Q (r, resp) m'"
  shows "wp (msg_invoke env Sess) Q m"
proof (rule vote_invoke [OF assms(1,2)])
  fix m' ch svc args err and resp :: u32
  assume *: "fixed m m'" "slot_id Sess m = Some (ch, svc, args)" "\<not> err8 err"
    "resp = TC_SUCCESS \<or> resp = TC_FAILURE"
    "msg_invokes m' = msg_invokes m @ [(ch, svc, args, err, resp)]" "drv m'"
  have "resp = TC_SUCCESS \<Longrightarrow> votes m0 [ch] m'"
    using votes_yes [OF assms(1) *(1,5,6)] * assms(3) by (auto simp: yes_vote_def withdrawal_def inv_ok_def)
  moreover have "resp = TC_FAILURE \<Longrightarrow> votes m0 [] m'"
    using votes_other [OF assms(1) *(1,5,6)] by (auto simp: yes_vote_def withdrawal_def inv_ok_def)
  ultimately show "Q (TCUTIL_RET_SUCCESS, resp) m'"
    using *(1,2,4) assms(4,5) by auto
qed (rule assms(6))

lemma driver_loop_votes: "votes m0 xs m \<Longrightarrow> wp (driver_loop cs n idx) (\<lambda>r m'. votes m0 xs m') m"
  by (induction n arbitrary: idx m) (auto simp: Let_def split: prod.splits intro!: wp_rules)

lemma GetControllerInfo_votes: "votes m0 xs m \<Longrightarrow> wp (GetControllerInfo cs) (\<lambda>r m'. votes m0 xs m') m"
  unfolding GetControllerInfo_def Let_def
  by (auto split: prod.splits intro!: wp_rules driver_loop_votes)

lemma HandleDriverResultResponse_votes:
  assumes "votes m0 [] m" "binary_answers env" "t = Upll \<or> t = Uppl" "msg_opertype m0 = MSG_COMMIT_VOTE"
  shows "wp (HandleDriverResultResponse env t) (vote_run m0 []) m"
  unfolding HandleDriverResultResponse_def
  by (intro vote_rules vote_invoke_result [OF assms(1,2,3)])
    (use assms(4) in \<open>auto simp: vote_run_def votes_opertype intro!: vote_abort wp_return\<close>)

lemma TwoPhaseCommit_SendRequest_votes:
  assumes "votes m0 [] m" "binary_answers env" "msg_opertype m0 = MSG_COMMIT_VOTE"
  shows "wp (TwoPhaseCommit_SendRequest env ch) (vote_run m0 [ch]) m"
  unfolding TwoPhaseCommit_SendRequest_def Let_def
  by (intro vote_rules vote_invoke_main [of m0] wp_mono [OF GetControllerInfo_votes [of m0 "[ch]"]]
      vote_abort [of m0])
    (use assms votes_opertype [OF assms(1)] in
      \<open>auto simp: vote_run_def keeps_def fixed_def intro: withdrawn_none\<close>)

lemma two_phase_loop_votes:
  assumes "votes m0 [] m" "binary_answers env" "msg_opertype m0 = MSG_COMMIT_VOTE"
  shows "wp (two_phase_loop env ds) (vote_run m0 []) m"
  using assms(1)
proof (induction ds arbitrary: m)
  case (Cons d ds)
  show ?case
    unfolding two_phase_loop.simps
    by (intro vote_rules wp_mono [OF TwoPhaseCommit_SendRequest_votes [OF Cons.prems assms(2,3)]] Cons.IH)
      (use votes_channel [OF Cons.prems] in \<open>auto simp: vote_run_def dest: votes_record\<close>)
qed (auto simp: vote_run_def intro!: wp_return)

lemma SetSession_votes:
  assumes "votes m0 [] m"
  shows "wp (SetSessionToForwardDriverResult env t) (\<lambda>r m'. r = TCOPER_RET_SUCCESS \<longrightarrow> votes m0 [] m') m"
  unfolding SetSessionToForwardDriverResult_def Let_def
  by (intro vote_rules) (use assms in \<open>auto dest: keepsD\<close>)

lemma CreateSessions_votes:
  assumes "votes m0 [] m"
  shows "wp (CreateSessionsToForwardDriverResult env) (\<lambda>r m'. r = TCOPER_RET_SUCCESS \<longrightarrow> votes m0 [] m') m"
  unfolding CreateSessionsToForwardDriverResult_def
  by (intro vote_rules wp_mono [OF SetSession_votes [of m0]]) (use assms in \<open>auto dest: keepsD\<close>)

lemma set_both_votes: "votes m0 [] m \<Longrightarrow> wp (set_both env vs) (\<lambda>r m'. r = TCUTIL_RET_SUCCESS \<longrightarrow> votes m0 [] m') m"
proof (induction vs arbitrary: m)
  case (Cons v vs)
  show ?case unfolding set_both.simps by (intro vote_rules Cons.IH) (use Cons.prems in \<open>auto dest: keepsD\<close>)
qed (auto intro!: wp_rules)

lemma dummy_loop_votes:
  "votes m0 [] m \<Longrightarrow> wp (dummy_loop env cs) (\<lambda>r m'. r = TCOPER_RET_SUCCESS \<longrightarrow> votes m0 [] m') m"
proof (induction cs arbitrary: m)
  case (Cons c cs)
  show ?case
    unfolding dummy_loop.simps
    by (intro vote_rules wp_mono [OF set_both_votes [OF Cons.prems]] Cons.IH) auto
qed (auto intro!: wp_rules)

lemma HandleDriverNotPresent_votes:
  "votes m0 [] m \<Longrightarrow> wp (HandleDriverNotPresent env d) (\<lambda>r m'. r = TCOPER_RET_SUCCESS \<longrightarrow> votes m0 [] m') m"
  unfolding HandleDriverNotPresent_def
  by (intro vote_rules dummy_loop_votes) auto

text \<open>The answer of a driver is either recorded with the votes or leads to their withdrawal.\<close>

lemma handle_driver_response_votes:
  assumes "resp = TC_SUCCESS \<Longrightarrow> votes m0 [GetChannelName d m0] m" "resp = TC_FAILURE \<Longrightarrow> votes m0 [] m"
    "resp = TC_SUCCESS \<or> resp = TC_FAILURE" "msg_opertype m0 = MSG_COMMIT_VOTE"
  shows "wp (handle_driver_response env driver d resp) (vote_run m0 []) m"
  unfolding handle_driver_response_def Let_def
  by (intro vote_rules vote_abort [of m0])
    (use assms in \<open>auto simp: vote_run_def votes_opertype dest: keepsD intro!: votes_record\<close>)

lemma driver_request_loop_votes:
  assumes "votes m0 [] m" "binary_answers env" "msg_opertype m0 = MSG_COMMIT_VOTE"
  shows "wp (driver_request_loop env oper ps) (vote_run m0 []) m"
  using assms(1)
proof (induction ps arbitrary: m)
  case (Cons p ps)
  show ?case
    unfolding driver_request_loop.simps Let_def
    by (intro vote_rules wp_mono [OF HandleDriverNotPresent_votes [of m0]] vote_invoke_main [of m0]
        wp_mono [OF handle_driver_response_votes [of _ m0]] Cons.IH)
      (use Cons.prems assms(2,3) votes_channel [OF Cons.prems] in \<open>auto simp: vote_run_def dest: keepsD\<close>)
qed (auto simp: vote_run_def intro!: wp_return)

lemma SendRequestToDriver_votes:
  assumes "votes m0 [] m" "binary_answers env" "msg_opertype m0 = MSG_COMMIT_VOTE"
  shows "wp (SendRequestToDriver env) (vote_run m0 []) m"
  unfolding SendRequestToDriver_def Let_def
  by (intro vote_rules wp_mono [OF CreateSessions_votes [of m0]]
      wp_mono [OF driver_request_loop_votes [of m0]] HandleDriverResultResponse_votes
      wp_mono [OF HandleDriverResultResponse_votes [of m0]])
    (use assms in \<open>auto simp: vote_run_def\<close>)

lemma push_notify_votes: "votes m0 [] m \<Longrightarrow> wp (push_notify ds) (\<lambda>r m'. votes m0 [] m') m"
  unfolding push_notify_def by (intro wp_rules) auto

lemma TwoPhaseCommit_Execute_votes:
  assumes "votes m [] m" "binary_answers env" "msg_opertype m = MSG_COMMIT_VOTE"
  shows "wp (TwoPhaseCommit_Execute env) (\<lambda>r m'. r = TCOPER_RET_ABORT \<longrightarrow> withdrawn m m') m"
  unfolding TwoPhaseCommit_Execute_def
  by (intro vote_rules wp_mono [OF push_notify_votes [of m]] wp_mono [OF two_phase_loop_votes [of m]]
      wp_mono [OF CreateSessions_votes [of m]] wp_mono [OF HandleDriverResultResponse_votes [of m]]
      wp_mono [OF SendRequestToDriver_votes [of m]])
    (use assms in \<open>auto simp: vote_run_def\<close>)

text \<open>A refusing environment, for the witnesses: UPPL votes against the commit.\<close>

definition refuse_env :: ipc_env where
  "refuse_env = good_env\<lparr>invoke_res := \<lambda>h cs.
     (0, if cs_channel cs = ''uppl'' \<and> cs_service cs = TCLIB_COMMIT_TRANSACTION then TC_FAILURE else TC_SUCCESS, [])\<rparr>"

lemma binary_refuse_env: "binary_answers refuse_env"
  by (simp add: binary_answers_def refuse_env_def)

text \<open>C12: When the vote of a commit ends in an abort, every daemon and driver that had voted for the
  commit has been told to abort, nobody else has, and in the order in which they voted: the
  withdrawals that were delivered are exactly the votes that were given. The daemons are assumed
  to answer with one of the codes \<open>TC_SUCCESS\<close> and \<open>TC_FAILURE\<close>, as their interface says.\<close>

theorem vote_abort_withdraws:
  assumes "binary_answers env"
    "m = TcMsgCommit_SetData config_id (TcMsg_new session_id MSG_COMMIT_VOTE names h)"
    "run_state (TwoPhaseCommit_Execute env) m = (TCOPER_RET_ABORT, m')"
  shows "\<exists>new. msg_invokes m' = msg_invokes m @ new \<and>
    map fst (filter withdrawal new) = map fst (filter yes_vote new)"
proof -
  have "votes m [] m" "msg_opertype m = MSG_COMMIT_VOTE"
    by (auto simp: assms(2) votes_def drv_def slot_get_def TcMsgCommit_SetData_def TcMsg_new_def
        split: slot.splits)
  from wpD [OF TwoPhaseCommit_Execute_votes [OF this(1) assms(1) this(2)] assms(3)]
  show ?thesis by (simp add: withdrawn_def)
qed

theorem vote_abort_withdraws_witness:
  "fst (run_state (TwoPhaseCommit_Execute refuse_env) (demo_msg MSG_COMMIT_VOTE)) = TCOPER_RET_ABORT \<and>
   (\<exists>new. msg_invokes (snd (run_state (TwoPhaseCommit_Execute refuse_env) (demo_msg MSG_COMMIT_VOTE))) =
      msg_invokes (demo_msg MSG_COMMIT_VOTE) @ new \<and>
      map fst (filter withdrawal new) = map fst (filter yes_vote new))"
proof -
  have r: "fst (run_state (TwoPhaseCommit_Execute refuse_env) (demo_msg MSG_COMMIT_VOTE)) = TCOPER_RET_ABORT"
    by code_simp
  then show ?thesis
    using vote_abort_withdraws [OF binary_refuse_env demo_msg_def] by (metis prod.collapse)
qed

end
