(* ===== verification/TC_MsgTrans.thy ===== *)
theory TC_MsgTrans
  imports TC_MsgVote
begin

text \<open>
  The start and the end of a transaction, and the simple notifications: a start that succeeds has
  started every daemon that is present, a start that is aborted has ended every daemon it had
  started, in the reverse order, and a notification that succeeds has reached UPLL and UPPL.
\<close>

section \<open>Starting and ending\<close>

definition request :: "TcMsgOperType \<Rightarrow> invocation \<Rightarrow> bool" where
  "request oper i \<longleftrightarrow>
     (case i of (ch, svc, args, err, resp) \<Rightarrow>
        svc = TCLIB_COMMIT_TRANSACTION \<and> take 1 args = [IpcU8 (opertype_value oper)] \<and> inv_ok i)"

abbreviation reached :: "TcMsgOperType \<Rightarrow> invocation list \<Rightarrow> string list" where
  "reached oper new \<equiv> map fst (filter (request oper) new)"

definition present :: "TcMsg \<Rightarrow> TcDaemonName \<Rightarrow> bool" where
  "present m d \<longleftrightarrow> GetChannelName d m \<noteq> ''''"

definition started :: "TcMsg \<Rightarrow> string list \<Rightarrow> TcMsg \<Rightarrow> bool" where
  "started m0 extra m \<longleftrightarrow>
     ids m0 m \<and>
     (\<exists>new. msg_invokes m = msg_invokes m0 @ new \<and> reached MSG_COMMIT_TRANS_END new = [] \<and>
        reached MSG_COMMIT_TRANS_START new = map (\<lambda>d. GetChannelName d m0) (msg_abort_on_fail m) @ extra)"

definition ended :: "TcMsg \<Rightarrow> TcMsg \<Rightarrow> bool" where
  "ended m0 m \<longleftrightarrow>
     (\<exists>new. msg_invokes m = msg_invokes m0 @ new \<and>
        reached MSG_COMMIT_TRANS_END new = rev (reached MSG_COMMIT_TRANS_START new))"

lemma opertype_values [simp]:
  "opertype_value MSG_COMMIT_TRANS_START = 4" "opertype_value MSG_COMMIT_TRANS_END = 11"
  by code_simp+

lemma request_opertype:
  "request oper (ch, TCLIB_COMMIT_TRANSACTION, IpcU8 (opertype_value oper') # args, err, resp) \<longleftrightarrow>
     opertype_value oper' = opertype_value oper \<and> \<not> err8 err \<and> resp \<noteq> TC_FAILURE"
  by (auto simp: request_def inv_ok_def)

section \<open>The end request\<close>

definition ends :: "TcMsg \<Rightarrow> string list \<Rightarrow> TcMsg \<Rightarrow> bool" where
  "ends m chs m' \<longleftrightarrow>
     (\<exists>new. msg_invokes m' = msg_invokes m @ new \<and> reached MSG_COMMIT_TRANS_START new = [] \<and>
        reached MSG_COMMIT_TRANS_END new = chs)"

lemma ends_trans: "ends m xs m1 \<Longrightarrow> ends m1 ys m2 \<Longrightarrow> ends m (xs @ ys) m2"
  by (auto simp: ends_def)

lemma ends_refl [simp]: "ends m [] m"
  by (auto simp: ends_def)

lemma ends_one:
  "msg_invokes m' = msg_invokes m @
     [(ch, TCLIB_COMMIT_TRANSACTION, IpcU8 (opertype_value MSG_COMMIT_TRANS_END) # args, err, resp)] \<Longrightarrow>
   \<not> err8 err \<Longrightarrow> resp \<noteq> TC_FAILURE \<Longrightarrow> ends m [ch] m'"
  by (auto simp: ends_def request_def inv_ok_def)

lemma trans_end_loop_ends:
  "wp (trans_end_loop env ds resp)
     (\<lambda>r m'. r = TCOPER_RET_SUCCESS \<longrightarrow> ends m (map (\<lambda>d. GetChannelName d m) ds) m') m"
proof (induction ds arbitrary: m resp)
  case (Cons d ds)
  have step: "wp (trans_end_loop env ds resp')
      (\<lambda>r m'. r = TCOPER_RET_SUCCESS \<longrightarrow> ends m (GetChannelName d m # map (\<lambda>d. GetChannelName d m) ds) m') m1"
    if "fixed m m1" "ends m [GetChannelName d m] m1" for m1 resp'
    using that fixed_channel [OF that(1)] ends_trans [OF that(2)]
    by (intro wp_mono [OF Cons.IH]) fastforce
  show ?case
    unfolding trans_end_loop.simps
    by (intro wp_rules)
      (simp_all add: RespondToTc_def del: opertype_values, blast intro: step fixed_trans ends_one)
qed (auto intro!: wp_rules)

lemma SendTransEndRequest_ends:
  "wp (SendTransEndRequest env ds)
     (\<lambda>r m'. r = TCOPER_RET_SUCCESS \<longrightarrow> ends m (rev (map (\<lambda>d. GetChannelName d m) ds)) m') m"
  unfolding SendTransEndRequest_def rev_map by (rule trans_end_loop_ends)

lemma endedI:
  assumes "started m0 [] m" "ends m (rev (map (\<lambda>d. GetChannelName d m) (msg_abort_on_fail m))) m'"
  shows "ended m0 m'"
proof -
  have "GetChannelName d m = GetChannelName d m0" for d
    using assms(1) by (simp add: started_def ids_def GetChannelName_def)
  then show ?thesis
    using assms by (auto simp: started_def ended_def ends_def)
qed

lemma ended_none: "started m0 [] m \<Longrightarrow> msg_abort_on_fail m = [] \<Longrightarrow> ended m0 m"
  by (auto simp: started_def ended_def)

section \<open>The requests of a transaction\<close>

definition trans_run :: "TcMsg \<Rightarrow> string list \<Rightarrow> TcOperRet \<Rightarrow> TcMsg \<Rightarrow> bool" where
  "trans_run m0 extra r m' \<longleftrightarrow>
     (r = TCOPER_RET_SUCCESS \<longrightarrow> started m0 extra m') \<and> (r = TCOPER_RET_ABORT \<longrightarrow> ended m0 m')"

lemma started_same:
  "started m0 xs m \<Longrightarrow> fixed m m' \<Longrightarrow> msg_invokes m' = msg_invokes m \<Longrightarrow> started m0 xs m'"
  by (auto simp: started_def ids_def fixed_def)

lemma started_update [simp]: "started m0 xs (m\<lparr>msg_trans_result := a\<rparr>) = started m0 xs m"
  by (simp add: started_def ids_def)

lemma started_invoke:
  assumes "started m0 [] m" "fixed m m'"
    "msg_invokes m' = msg_invokes m @
      [(ch, TCLIB_COMMIT_TRANSACTION, IpcU8 (opertype_value MSG_COMMIT_TRANS_START) # args, err, resp)]"
    "\<not> err8 err"
  shows "started m0 (if resp = TC_FAILURE then [] else [ch]) m'"
  using assms by (auto simp: started_def ids_def fixed_def request_def inv_ok_def)

lemma CommitTransaction_SendRequest_started:
  assumes "started m0 [] m" "msg_opertype m0 = MSG_COMMIT_TRANS_START"
  shows "wp (CommitTransaction_SendRequest env ch) (\<lambda>r m'. trans_run m0 [ch] r m' \<and>
    (r = TCOPER_RET_SUCCESS \<longrightarrow> msg_abort_on_fail m' = msg_abort_on_fail m)) m"
proof -
  have o: "msg_opertype m = MSG_COMMIT_TRANS_START" using assms by (simp add: started_def ids_def)
  have s: "started m0 (if resp = TC_FAILURE then [] else [ch]) m3"
    "msg_abort_on_fail m3 = msg_abort_on_fail m"
    if "fixed m m1" "fixed m1 m2" "fixed m2 m3" "\<not> err8 err" "msg_invokes m3 = msg_invokes m @
      [(ch, TCLIB_COMMIT_TRANSACTION, IpcU8 (opertype_value MSG_COMMIT_TRANS_START) # args, err, resp)]"
    for m1 m2 m3 args err resp
    using started_invoke [OF assms(1) fixed_trans [OF fixed_trans [OF that(1,2)] that(3)] that(5,4)] that(1-3)
    by (simp_all add: fixed_def)
  have t: "started m0 [ch] m4" "msg_abort_on_fail m4 = msg_abort_on_fail m"
    if "fixed m m1" "fixed m1 m2" "fixed m2 m3" "fixed m3 m4" "\<not> err8 err"
      "msg_invokes m4 = msg_invokes m @
      [(ch, TCLIB_COMMIT_TRANSACTION, IpcU8 (opertype_value MSG_COMMIT_TRANS_START) # args, err, resp)]"
      "resp \<noteq> TC_FAILURE"
    for m1 m2 m3 m4 args err resp
    using s(1) [OF that(1,2) fixed_trans [OF that(3,4)] that(5,6)] that by (simp_all add: fixed_def)
  show ?thesis
    unfolding CommitTransaction_SendRequest_def
    by (intro wp_rules wp_mono [OF SendTransEndRequest_ends])
      (auto simp: o trans_run_def simp del: opertype_values dest: s intro: t
        intro!: ended_none endedI [of m0 "m\<lparr>msg_trans_result := TRANS_END_FAILURE\<rparr>" for m] split: if_splits)
qed

section \<open>The transaction\<close>

text \<open>The same request to every daemon that is present, in the order of the list.\<close>

definition started_all :: "TcMsg \<Rightarrow> TcDaemonName list \<Rightarrow> TcMsg \<Rightarrow> bool" where
  "started_all m0 ds m \<longleftrightarrow>
     (\<exists>new. msg_invokes m = msg_invokes m0 @ new \<and> reached MSG_COMMIT_TRANS_END new = [] \<and>
        reached MSG_COMMIT_TRANS_START new = map (\<lambda>d. GetChannelName d m0) ds)"

lemma started_record:
  "started m0 [GetChannelName d m0] m \<Longrightarrow> msg_abort_on_fail m = ds \<Longrightarrow>
   started m0 [] (m\<lparr>msg_abort_on_fail := ds @ [d]\<rparr>)"
  by (auto simp: started_def ids_def)

lemma started_channel: "started m0 xs m \<Longrightarrow> GetChannelName d m = GetChannelName d m0"
  by (simp add: started_def ids_def GetChannelName_def)

lemma transaction_loop_starts:
  assumes "started m0 [] m" "msg_opertype m0 = MSG_COMMIT_TRANS_START" "ret = TCOPER_RET_SUCCESS"
  shows "wp (transaction_loop env ds ret) (\<lambda>r m'.
      (r = TCOPER_RET_SUCCESS \<longrightarrow> started_all m0 (msg_abort_on_fail m @ filter (present m0) ds) m') \<and>
      (r = TCOPER_RET_ABORT \<longrightarrow> ended m0 m')) m"
  using assms(1,3)
proof (induction ds arbitrary: m ret)
  case Nil
  then show ?case
    by (auto intro!: wp_rules simp: started_def started_all_def)
next
  case (Cons d ds)
  have ch: "GetChannelName d m = GetChannelName d m0" by (rule started_channel [OF Cons.prems(1)])
  show ?case
    unfolding transaction_loop.simps
    by (intro wp_rules wp_mono [OF CommitTransaction_SendRequest_started [OF Cons.prems(1) assms(2)]]
        wp_mono [OF Cons.IH])
      (simp_all add: Cons.prems trans_run_def ch started_record present_def)
qed



end
