(* ===== verification/TC_MsgAudit.thy ===== *)
theory TC_MsgAudit
  imports TC_MsgCommit
begin

text \<open>
  The messages of the audit, \<open>modules/tc/tcmsg_audit.cc\<close>: classes \<open>TcMsgAudit\<close>,
  \<open>GetDriverId\<close>, \<open>AuditTransaction\<close> and \<open>TwoPhaseAudit\<close>. The controller information is decoded by
  the same code as in the commit (\<open>GetControllerInfo\<close>).
\<close>

section \<open>Class TcMsgAudit\<close>

definition TcMsgAudit_SetData :: "string \<Rightarrow> u32 \<Rightarrow> TcMsg \<Rightarrow> TcMsg" where
  "TcMsgAudit_SetData controller_id driver_id m =
     m\<lparr>msg_controller_id := controller_id, msg_driver_id := driver_id\<rparr>"

definition driver_valid :: "TcMsg \<Rightarrow> bool" where
  "driver_valid m \<longleftrightarrow> UNC_CT_PFC \<le> msg_driver_id m \<and> msg_driver_id m \<le> UNC_CT_ODC"

definition audit_valid :: "TcMsg \<Rightarrow> bool" where
  "audit_valid m \<longleftrightarrow> driver_valid m \<and> msg_controller_id m \<noteq> ''''"

text \<open>
  The header of an abort or end request: the arguments are appended one after the other; the
  session is closed when appending fails, and left open when the driver or the controller is
  found invalid on the way.
\<close>

definition audit_header :: "ipc_env \<Rightarrow> TcMsgOperType \<Rightarrow> ipc_val \<Rightarrow> TcOperRet msg_prog" where
  "audit_header env oper result =
     do { m \<leftarrow> State_Monad.get;
          r \<leftarrow> msg_sets env Local [IpcU8 (opertype_value oper), IpcU32 (msg_session_id m)];
          if r \<noteq> TCUTIL_RET_SUCCESS
          then do { msg_close Local; State_Monad.return (ReturnUtilResp r) }
          else if \<not> driver_valid m then State_Monad.return TCOPER_RET_FAILURE
          else do {
            r \<leftarrow> msg_set env Local (IpcU8 (ucast (msg_driver_id m)));
            if r \<noteq> TCUTIL_RET_SUCCESS
            then do { msg_close Local; State_Monad.return (ReturnUtilResp r) }
            else if msg_controller_id m = '''' then State_Monad.return TCOPER_RET_FAILURE
            else do {
              r \<leftarrow> msg_sets env Local [IpcStr (Some (msg_controller_id m)), result];
              if r \<noteq> TCUTIL_RET_SUCCESS
              then do { msg_close Local; State_Monad.return (ReturnUtilResp r) }
              else State_Monad.return TCOPER_RET_SUCCESS } } }"

primrec audit_abort_loop :: "ipc_env \<Rightarrow> TcDaemonName list \<Rightarrow> u32 \<Rightarrow> TcOperRet msg_prog" where
  "audit_abort_loop env [] resp = State_Monad.return (RespondToTc resp)"
| "audit_abort_loop env (d # ds) resp =
     do { m \<leftarrow> State_Monad.get;
          ok \<leftarrow> msg_create env Local (GetChannelName d m) TCLIB_AUDIT_GLOBAL_ABORT True;
          if \<not> ok then State_Monad.return TCOPER_RET_FATAL
          else do {
            r \<leftarrow> audit_header env MSG_AUDIT_ABORT (IpcU8 AUDIT_VOTE_REQUEST);
            if r \<noteq> TCOPER_RET_SUCCESS then State_Monad.return r
            else do {
              (r, resp1) \<leftarrow> msg_invoke env Local;
              msg_close Local;
              if r \<noteq> TCUTIL_RET_SUCCESS then State_Monad.return (ReturnUtilResp r)
              else if resp1 = TC_FAILURE then State_Monad.return (RespondToTc resp1)
              else audit_abort_loop env ds resp1 } } }"

definition Audit_SendAbortRequest :: "ipc_env \<Rightarrow> TcDaemonName list \<Rightarrow> TcOperRet msg_prog" where
  "Audit_SendAbortRequest env abort_on_fail =
     do { m \<leftarrow> State_Monad.get;
          if msg_opertype m \<noteq> MSG_AUDIT_VOTE then State_Monad.return TCOPER_RET_FAILURE
          else audit_abort_loop env abort_on_fail 0 }"

primrec audit_end_loop ::
  "ipc_env \<Rightarrow> TcMsgOperType \<Rightarrow> TcDaemonName list \<Rightarrow> u32 \<Rightarrow> TcOperRet msg_prog" where
  "audit_end_loop env oper [] resp = State_Monad.return (RespondToTc resp)"
| "audit_end_loop env oper (d # ds) resp =
     do { m \<leftarrow> State_Monad.get;
          if GetChannelName d m = '''' then State_Monad.return TCOPER_RET_FAILURE
          else do {
            ok \<leftarrow> msg_create env Local (GetChannelName d m) TCLIB_AUDIT_TRANSACTION True;
            if \<not> ok then State_Monad.return TCOPER_RET_FATAL
            else do {
              r \<leftarrow> audit_header env oper
                    (IpcU8 (if oper = MSG_AUDIT_TRANS_END then msg_trans_result m else msg_audit_result m));
              if r \<noteq> TCOPER_RET_SUCCESS then State_Monad.return r
              else do {
                (r, resp1) \<leftarrow> msg_invoke env Local;
                msg_close Local;
                if r \<noteq> TCUTIL_RET_SUCCESS then State_Monad.return (ReturnUtilResp r)
                else if resp1 = TC_FAILURE then State_Monad.return (RespondToTc resp1)
                else audit_end_loop env oper ds resp1 } } } }"

definition SendAuditTransEndRequest ::
  "ipc_env \<Rightarrow> TcDaemonName list \<Rightarrow> TcMsgOperType \<Rightarrow> TcOperRet msg_prog" where
  "SendAuditTransEndRequest env abort_on_fail oper =
     (if oper \<noteq> MSG_AUDIT_TRANS_END \<and> oper \<noteq> MSG_AUDIT_END then State_Monad.return TCOPER_RET_FAILURE
      else audit_end_loop env oper (rev abort_on_fail) 0)"

section \<open>Class GetDriverId\<close>

definition GetDriverId_Execute :: "ipc_env \<Rightarrow> TcOperRet msg_prog" where
  "GetDriverId_Execute env =
     do { m \<leftarrow> State_Monad.get;
          ok \<leftarrow> msg_create env Sess (GetChannelName TC_UPPL m) TCLIB_GET_DRIVERID False;
          if \<not> ok then State_Monad.return TCOPER_RET_FATAL
          else do {
            r \<leftarrow> msg_set env Sess (IpcStr (Some (msg_controller_id m)));
            if r \<noteq> TCUTIL_RET_SUCCESS then State_Monad.return (ReturnUtilResp r)
            else do {
              (r, resp) \<leftarrow> msg_invoke env Sess;
              if r \<noteq> TCUTIL_RET_SUCCESS then State_Monad.return (ReturnUtilResp r)
              else do {
                State_Monad.update (\<lambda>m. m\<lparr>msg_driver_id := resp\<rparr>);
                State_Monad.return TCOPER_RET_SUCCESS } } } }"

definition GetDriverId_GetResult :: "TcMsg \<Rightarrow> u32" where
  "GetDriverId_GetResult m = msg_driver_id m"

section \<open>Class AuditTransaction\<close>

definition IsUserAudit :: "bool \<Rightarrow> TcMsg \<Rightarrow> TcMsg" where
  "IsUserAudit user_audit m = m\<lparr>msg_user_audit := user_audit\<rparr>"

definition SetReconnect :: "bool \<Rightarrow> TcMsg \<Rightarrow> TcMsg" where
  "SetReconnect force_reconnect m = m\<lparr>msg_reconnect := force_reconnect\<rparr>"

definition SetCommitInfo :: "u64 \<Rightarrow> u64 \<Rightarrow> string \<Rightarrow> TcMsg \<Rightarrow> TcMsg" where
  "SetCommitInfo commit_number commit_date commit_application m =
     m\<lparr>msg_commit_number := commit_number, msg_commit_date := commit_date,
       msg_commit_application := commit_application\<rparr>"

definition SetSimplifiedAudit :: "bool \<Rightarrow> TcMsg \<Rightarrow> TcMsg" where
  "SetSimplifiedAudit simplified_audit m = m\<lparr>msg_simplified := simplified_audit\<rparr>"

text \<open>The arguments of a request; what follows the controller depends on the operation.\<close>

definition audit_args :: "TcMsg \<Rightarrow> ipc_val list" where
  "audit_args m =
     [IpcU8 (opertype_value (msg_opertype m)), IpcU32 (msg_session_id m),
      IpcU8 (ucast (msg_driver_id m)), IpcStr (Some (msg_controller_id m))] @
     (if msg_opertype m = MSG_AUDIT_START
      then [IpcU8 (if msg_reconnect m then 1 else 0), IpcU8 (if msg_simplified m then 1 else 0),
            IpcU64 (msg_commit_number m), IpcU64 (msg_commit_date m),
            IpcStr (Some (msg_commit_application m))] else []) @
     (if msg_opertype m = MSG_AUDIT_TRANS_END then [IpcU8 (msg_trans_result m)] else []) @
     (if msg_opertype m = MSG_AUDIT_END then [IpcU8 (msg_audit_result m)] else [])"

text \<open>The commit information that the driver sends with its answer to an audit start.\<close>

definition read_commit_info :: "TcMsg \<Rightarrow> TcUtilRet \<times> TcMsg" where
  "read_commit_info m =
     (let cs = msg_sess m; respcount = (case cs of None \<Rightarrow> 0 | Some c \<Rightarrow> length (cs_resp c))
      in if respcount < 6 then (TCUTIL_RET_SUCCESS, m)
         else case clnt_get_uint64 cs 3 of
           (r, None) \<Rightarrow> (r, m)
         | (_, Some commit_number) \<Rightarrow>
             (case clnt_get_uint64 cs 4 of
                (r, None) \<Rightarrow> (r, m)
              | (_, Some commit_date) \<Rightarrow>
                  (case clnt_get_string cs 5 of
                     (r, None) \<Rightarrow> (r, m)
                   | (_, Some commit_application) \<Rightarrow>
                       (TCUTIL_RET_SUCCESS, SetCommitInfo commit_number commit_date commit_application m))))"

text \<open>What the source makes of the answer of a daemon.\<close>

definition handle_audit_response :: "ipc_env \<Rightarrow> u32 \<Rightarrow> TcOperRet msg_prog" where
  "handle_audit_response env resp =
     do { m \<leftarrow> State_Monad.get;
          if resp = TC_SUCCESS then State_Monad.return TCOPER_RET_SUCCESS
          else if resp = TC_SIMPLIFIED_AUDIT \<and> msg_opertype m = MSG_AUDIT_START
          then do {
            State_Monad.update (\<lambda>m. if msg_user_audit m then m else SetSimplifiedAudit True m);
            State_Monad.return TCOPER_RET_SUCCESS }
          else if resp = TC_FAILURE \<and> msg_opertype m = MSG_AUDIT_START
          then do {
            State_Monad.update (\<lambda>m. m\<lparr>msg_audit_result := TC_AUDIT_FAILURE\<rparr>);
            if msg_abort_on_fail m = [] then State_Monad.return TCOPER_RET_ABORT
            else do {
              e \<leftarrow> SendAuditTransEndRequest env (msg_abort_on_fail m) MSG_AUDIT_END;
              State_Monad.update (\<lambda>m. m\<lparr>msg_abort_on_fail := []\<rparr>);
              State_Monad.return
                (if e = TCOPER_RET_SUCCESS then TCOPER_RET_ABORT
                 else if e = TCOPER_RET_FAILURE then TCOPER_RET_FATAL else e) } }
          else if resp = TC_FAILURE \<and> msg_opertype m = MSG_AUDIT_TRANS_START
          then do {
            State_Monad.update (\<lambda>m. m\<lparr>msg_audit_result := TC_AUDIT_FAILURE,
                                      msg_trans_result := TRANS_END_FAILURE\<rparr>);
            if msg_abort_on_fail m = [] then State_Monad.return TCOPER_RET_ABORT
            else do {
              e \<leftarrow> SendAuditTransEndRequest env (msg_abort_on_fail m) MSG_AUDIT_TRANS_END;
              State_Monad.update (\<lambda>m. m\<lparr>msg_abort_on_fail := []\<rparr>);
              State_Monad.return
                (if e \<noteq> TCOPER_RET_SUCCESS then TCOPER_RET_FATAL else TCOPER_RET_ABORT) } }
          else if resp = TC_FAILURE \<and>
                  (msg_opertype m = MSG_AUDIT_END \<or> msg_opertype m = MSG_AUDIT_TRANS_END)
          then do {
            State_Monad.update (\<lambda>m. m\<lparr>msg_audit_result := TC_AUDIT_FAILURE\<rparr>);
            State_Monad.return TCOPER_RET_FATAL }
          else State_Monad.return TCOPER_RET_SUCCESS }"

definition AuditTransaction_SendRequest :: "ipc_env \<Rightarrow> string \<Rightarrow> TcOperRet msg_prog" where
  "AuditTransaction_SendRequest env channel_name =
     do { m \<leftarrow> State_Monad.get;
          ok \<leftarrow> msg_create env Sess channel_name TCLIB_AUDIT_TRANSACTION True;
          if \<not> ok then State_Monad.return TCOPER_RET_FATAL
          else do {
            r \<leftarrow> msg_sets env Sess (audit_args m);
            if r \<noteq> TCUTIL_RET_SUCCESS then State_Monad.return (ReturnUtilResp r)
            else do {
              (r, resp) \<leftarrow> msg_invoke env Sess;
              if r \<noteq> TCUTIL_RET_SUCCESS then State_Monad.return (ReturnUtilResp r)
              else do {
                r \<leftarrow> (if (resp = TC_SIMPLIFIED_AUDIT \<or> resp = TC_SUCCESS) \<and> msg_opertype m = MSG_AUDIT_START
                      then State read_commit_info else State_Monad.return TCUTIL_RET_SUCCESS);
                if r \<noteq> TCUTIL_RET_SUCCESS then State_Monad.return (ReturnUtilResp r)
                else do {
                  ret_val \<leftarrow> handle_audit_response env resp;
                  (if ret_val = TCOPER_RET_SUCCESS \<or> ret_val = TCOPER_RET_SIMPLIFIED_AUDIT
                   then msg_close Sess else State_Monad.return ());
                  State_Monad.return ret_val } } } } }"

primrec audit_transaction_loop ::
  "ipc_env \<Rightarrow> TcDaemonName list \<Rightarrow> TcOperRet \<Rightarrow> TcOperRet msg_prog" where
  "audit_transaction_loop env [] ret_val =
     do { State_Monad.update (\<lambda>m. m\<lparr>msg_abort_on_fail := [], msg_notifyorder := []\<rparr>);
          State_Monad.return ret_val }"
| "audit_transaction_loop env (d # ds) ret_val =
     do { m \<leftarrow> State_Monad.get;
          if GetChannelName d m = ''''
          then if msg_opertype m = MSG_AUDIT_START
               then do { State_Monad.update (\<lambda>m. m\<lparr>msg_abort_on_fail := [], msg_notifyorder := []\<rparr>);
                         State_Monad.return TCOPER_RET_NO_DRIVER }
               else audit_transaction_loop env ds ret_val
          else do {
            ret \<leftarrow> AuditTransaction_SendRequest env (GetChannelName d m);
            if ret \<noteq> TCOPER_RET_SUCCESS then State_Monad.return ret
            else do {
              m1 \<leftarrow> State_Monad.get;
              State_Monad.update (\<lambda>m. m\<lparr>msg_abort_on_fail := msg_abort_on_fail m @ [d]\<rparr>);
              audit_transaction_loop env ds
                (if msg_simplified m1 then TCOPER_RET_SIMPLIFIED_AUDIT else ret) } } }"

definition AuditTransaction_Execute :: "ipc_env \<Rightarrow> TcOperRet msg_prog" where
  "AuditTransaction_Execute env =
     do { m \<leftarrow> State_Monad.get;
          let tc_driverid = MapTcDriverId (msg_driver_id m);
          if \<not> audit_valid m then State_Monad.return TCOPER_RET_FAILURE
          else if msg_opertype m = MSG_AUDIT_START
          then do { ds \<leftarrow> push_notify [tc_driverid, TC_UPPL, TC_UPLL];
                    audit_transaction_loop env ds TCOPER_RET_SUCCESS }
          else if msg_opertype m = MSG_AUDIT_END
          then do { ds \<leftarrow> push_notify [TC_UPPL, TC_UPLL, tc_driverid];
                    audit_transaction_loop env ds TCOPER_RET_SUCCESS }
          else if msg_opertype m = MSG_AUDIT_TRANS_START
          then do { ds \<leftarrow> push_notify [TC_DRV_ODL, TC_DRV_POLC, TC_UPLL, TC_UPPL];
                    audit_transaction_loop env ds TCOPER_RET_SUCCESS }
          else if msg_opertype m = MSG_AUDIT_TRANS_END
          then do { ds \<leftarrow> push_notify [TC_UPPL, TC_UPLL, TC_DRV_POLC, TC_DRV_OVERLAY,
                                       TC_DRV_OPENFLOW, TC_DRV_ODL];
                    audit_transaction_loop env ds TCOPER_RET_SUCCESS }
          else State_Monad.return TCOPER_RET_FAILURE }"

section \<open>Class TwoPhaseAudit\<close>

definition Audit_SetSessionToForwardDriverResult :: "ipc_env \<Rightarrow> slot \<Rightarrow> TcOperRet msg_prog" where
  "Audit_SetSessionToForwardDriverResult env t =
     do { m \<leftarrow> State_Monad.get;
          if msg_opertype m \<noteq> MSG_AUDIT_VOTE \<and> msg_opertype m \<noteq> MSG_AUDIT_GLOBAL
          then State_Monad.return TCOPER_RET_FAILURE
          else do {
            let (oper, phase) = (if msg_opertype m = MSG_AUDIT_VOTE
              then (MSG_AUDIT_VOTE_DRIVER_RESULT, TC_AUDIT_VOTE_PHASE)
              else (MSG_AUDIT_GLOBAL_DRIVER_RESULT, TC_AUDIT_GLOBAL_COMMIT_PHASE));
            r \<leftarrow> msg_sets env t [IpcU8 (opertype_value oper), IpcU32 (msg_session_id m),
                                 IpcStr (Some (msg_controller_id m)), IpcU8 phase];
            State_Monad.return (ReturnUtilResp r) } }"

definition Audit_CreateSessionsToForwardDriverResult :: "ipc_env \<Rightarrow> TcOperRet msg_prog" where
  "Audit_CreateSessionsToForwardDriverResult env =
     do { m \<leftarrow> State_Monad.get;
          ok \<leftarrow> msg_create env Upll (GetChannelName TC_UPLL m) TCLIB_AUDIT_DRV_RESULT True;
          if \<not> ok then State_Monad.return TCOPER_RET_FATAL
          else do {
            r \<leftarrow> Audit_SetSessionToForwardDriverResult env Upll;
            if r \<noteq> TCOPER_RET_SUCCESS then State_Monad.return TCOPER_RET_FAILURE
            else do {
              ok \<leftarrow> msg_create env Uppl (GetChannelName TC_UPPL m) TCLIB_AUDIT_DRV_RESULT True;
              if \<not> ok then State_Monad.return TCOPER_RET_FATAL
              else do {
                r \<leftarrow> Audit_SetSessionToForwardDriverResult env Uppl;
                State_Monad.return
                  (if r \<noteq> TCOPER_RET_SUCCESS then TCOPER_RET_FAILURE else TCOPER_RET_SUCCESS) } } } }"

text \<open>
  The audit result is the conjunction of the results of the daemons; each is the last value
  of an answer.
\<close>

definition read_audit_result :: "slot \<Rightarrow> TcMsg \<Rightarrow> TcUtilRet \<times> TcMsg" where
  "read_audit_result t m =
     (let cs = slot_get t m; respcount = (case cs of None \<Rightarrow> 0 | Some c \<Rightarrow> of_nat (length (cs_resp c))) :: u32
      in case clnt_get_uint8 cs (respcount - 1) of
           (r, None) \<Rightarrow> (r, m)
         | (r, Some audit_ret) \<Rightarrow>
             (TCUTIL_RET_SUCCESS,
              m\<lparr>msg_audit_result := (if msg_audit_result m \<noteq> 0 \<and> audit_ret \<noteq> 0 then 1 else 0)\<rparr>))"

definition Audit_HandleDriverResultResponse :: "ipc_env \<Rightarrow> slot \<Rightarrow> TcOperRet msg_prog" where
  "Audit_HandleDriverResultResponse env t =
     do { (r, resp) \<leftarrow> msg_invoke env t;
          m \<leftarrow> State_Monad.get;
          if r \<noteq> TCUTIL_RET_SUCCESS then State_Monad.return (ReturnUtilResp r)
          else do {
            r \<leftarrow> (if msg_opertype m = MSG_AUDIT_GLOBAL \<and> resp = TC_SUCCESS
                  then State (read_audit_result t) else State_Monad.return TCUTIL_RET_SUCCESS);
            if r \<noteq> TCUTIL_RET_SUCCESS then State_Monad.return (ReturnUtilResp r)
            else if resp = TC_FAILURE \<and> msg_opertype m = MSG_AUDIT_VOTE
            then do {
              State_Monad.update (\<lambda>m. m\<lparr>msg_trans_result := TRANS_END_FAILURE,
                                        msg_audit_result := TC_AUDIT_FAILURE\<rparr>);
              e \<leftarrow> Audit_SendAbortRequest env (msg_abort_on_fail m);
              State_Monad.return
                (if e = TCOPER_RET_SUCCESS then TCOPER_RET_ABORT else TCOPER_RET_FATAL) }
            else if resp = TC_FAILURE \<and> msg_opertype m = MSG_AUDIT_GLOBAL
            then do {
              State_Monad.update (\<lambda>m. m\<lparr>msg_audit_result := TC_AUDIT_FAILURE\<rparr>);
              State_Monad.return TCOPER_RET_FATAL }
            else State_Monad.return TCOPER_RET_SUCCESS } }"

definition audit_driver_response :: "ipc_env \<Rightarrow> u32 \<Rightarrow> TcDaemonName \<Rightarrow> u32 \<Rightarrow> TcOperRet msg_prog" where
  "audit_driver_response env driver tc_driverid resp =
     do { m \<leftarrow> State_Monad.get;
          if resp = TC_SUCCESS
          then do {
            let dmndrvinfo = (case msg_driverset_map m TC_UPLL of None \<Rightarrow> {} | Some s \<Rightarrow> s);
            (if msg_driverset_map m TC_UPLL = None
             then State_Monad.update (\<lambda>m. m\<lparr>msg_driverset_map := (msg_driverset_map m)(TC_UPLL \<mapsto> {})\<rparr>)
             else State_Monad.return ());
            ok \<leftarrow> (if driver \<in> dmndrvinfo then msg_forward env Upll else State_Monad.return True);
            if \<not> ok then State_Monad.return TCOPER_RET_FATAL
            else do {
              ok \<leftarrow> (if driver \<in> dmndrvinfo then msg_forward env Uppl else State_Monad.return True);
              if \<not> ok then State_Monad.return TCOPER_RET_FATAL
              else do {
                State_Monad.update (\<lambda>m. m\<lparr>msg_abort_on_fail := msg_abort_on_fail m @ [tc_driverid]\<rparr>);
                State_Monad.return TCOPER_RET_SUCCESS } } }
          else if resp = TC_FAILURE \<and> msg_opertype m = MSG_AUDIT_VOTE
          then do {
            State_Monad.update (\<lambda>m. m\<lparr>msg_trans_result := TRANS_END_FAILURE,
                                      msg_audit_result := TC_AUDIT_FAILURE\<rparr>);
            e \<leftarrow> Audit_SendAbortRequest env (msg_abort_on_fail m);
            if e = TCOPER_RET_SUCCESS
            then do {
              State_Monad.update (\<lambda>m. m\<lparr>msg_abort_on_fail := [], msg_driverinfo := []\<rparr>);
              State_Monad.return TCOPER_RET_ABORT }
            else do {
              State_Monad.update (\<lambda>m. m\<lparr>msg_abort_on_fail := []\<rparr>);
              State_Monad.return TCOPER_RET_FATAL } }
          else if resp = TC_FAILURE \<and> msg_opertype m = MSG_AUDIT_GLOBAL
          then do {
            State_Monad.update (\<lambda>m. m\<lparr>msg_audit_result := TC_AUDIT_FAILURE\<rparr>);
            State_Monad.return TCOPER_RET_FATAL }
          else State_Monad.return TCOPER_RET_SUCCESS }"

text \<open>
  The channel of a driver is looked up without a test for its presence: \<open>None\<close> is the
  dereference of the end iterator, after which the source defines nothing.
\<close>

primrec audit_driver_request_loop ::
  "ipc_env \<Rightarrow> TcMsgOperType \<Rightarrow> (u32 \<times> string list) list \<Rightarrow> TcOperRet option msg_prog" where
  "audit_driver_request_loop env oper [] = State_Monad.return (Some TCOPER_RET_SUCCESS)"
| "audit_driver_request_loop env oper (p # ps) =
     do { m \<leftarrow> State_Monad.get;
          let tc_driverid = MapTcDriverId (fst p);
          if tc_driverid = TC_NONE then State_Monad.return (Some TCOPER_RET_FATAL)
          else case msg_channel_names m tc_driverid of
            None \<Rightarrow> State_Monad.return None
          | Some channel_name \<Rightarrow>
              do { ok \<leftarrow> msg_create env Sess channel_name TCLIB_AUDIT_DRV_VOTE_GLOBAL True;
                   if \<not> ok then State_Monad.return (Some TCOPER_RET_FATAL)
                   else do {
                     r \<leftarrow> msg_sets env Sess
                           ([IpcU8 (opertype_value oper), IpcU32 (msg_session_id m),
                             IpcStr (Some (msg_controller_id m)), IpcU8 (of_nat (length (snd p)))] @
                            map (\<lambda>c. IpcStr (Some c)) (snd p));
                     if r \<noteq> TCUTIL_RET_SUCCESS then State_Monad.return (Some (ReturnUtilResp r))
                     else do {
                       (r, resp) \<leftarrow> msg_invoke env Sess;
                       if r \<noteq> TCUTIL_RET_SUCCESS then State_Monad.return (Some (ReturnUtilResp r))
                       else do {
                         ret_val \<leftarrow> audit_driver_response env (fst p) tc_driverid resp;
                         if ret_val = TCOPER_RET_SUCCESS
                         then do { msg_close Sess; audit_driver_request_loop env oper ps }
                         else State_Monad.return (Some ret_val) } } } } }"

definition Audit_SendRequestToDriver :: "ipc_env \<Rightarrow> TcOperRet option msg_prog" where
  "Audit_SendRequestToDriver env =
     do { m \<leftarrow> State_Monad.get;
          let oper = (if msg_opertype m = MSG_AUDIT_VOTE then MSG_AUDIT_DRIVER_VOTE
                      else if msg_opertype m = MSG_AUDIT_GLOBAL then MSG_AUDIT_DRIVER_GLOBAL
                      else MSG_NONE);
          r \<leftarrow> Audit_CreateSessionsToForwardDriverResult env;
          if r \<noteq> TCOPER_RET_SUCCESS then State_Monad.return (Some TCOPER_RET_FAILURE)
          else do {
            r \<leftarrow> audit_driver_request_loop env oper (msg_driverinfo m);
            if r \<noteq> Some TCOPER_RET_SUCCESS then State_Monad.return r
            else do {
              r \<leftarrow> Audit_HandleDriverResultResponse env Upll;
              if r \<noteq> TCOPER_RET_SUCCESS then State_Monad.return (Some r)
              else do {
                r \<leftarrow> Audit_HandleDriverResultResponse env Uppl;
                State_Monad.return (Some r) } } } }"

definition TwoPhaseAudit_SendRequest :: "ipc_env \<Rightarrow> string \<Rightarrow> TcOperRet msg_prog" where
  "TwoPhaseAudit_SendRequest env channel_name =
     do { m \<leftarrow> State_Monad.get;
          ok \<leftarrow> msg_create env Sess channel_name TCLIB_AUDIT_TRANSACTION True;
          if \<not> ok then State_Monad.return TCOPER_RET_FATAL
          else do {
            r \<leftarrow> msg_sets env Sess [IpcU8 (opertype_value (msg_opertype m)), IpcU32 (msg_session_id m),
                                    IpcU8 (ucast (msg_driver_id m)), IpcStr (Some (msg_controller_id m))];
            if r \<noteq> TCUTIL_RET_SUCCESS then State_Monad.return (ReturnUtilResp r)
            else do {
              (r, resp) \<leftarrow> msg_invoke env Sess;
              if r \<noteq> TCUTIL_RET_SUCCESS then State_Monad.return (ReturnUtilResp r)
              else do {
                m1 \<leftarrow> State_Monad.get;
                let respcount = (case msg_sess m1 of None \<Rightarrow> 0 | Some cs \<Rightarrow> length (cs_resp cs));
                r \<leftarrow> (if msg_opertype m = MSG_AUDIT_GLOBAL \<and> resp = TC_SUCCESS
                      then State (read_audit_result Sess) else State_Monad.return TCUTIL_RET_SUCCESS);
                if r \<noteq> TCUTIL_RET_SUCCESS then State_Monad.return (ReturnUtilResp r)
                else if resp = TC_SUCCESS \<and> respcount > 1
                then do {
                  i \<leftarrow> GetControllerInfo (msg_sess m1);
                  if i \<noteq> TCOPER_RET_SUCCESS then State_Monad.return TCOPER_RET_FAILURE
                  else do { msg_close Sess; State_Monad.return TCOPER_RET_SUCCESS } }
                else if resp = TC_FAILURE \<and> msg_opertype m = MSG_AUDIT_VOTE
                then do {
                  State_Monad.update (\<lambda>m. m\<lparr>msg_trans_result := TRANS_END_FAILURE,
                                            msg_audit_result := TC_AUDIT_FAILURE\<rparr>);
                  if msg_abort_on_fail m = [] then State_Monad.return TCOPER_RET_ABORT
                  else do {
                    e \<leftarrow> Audit_SendAbortRequest env (msg_abort_on_fail m);
                    State_Monad.update (\<lambda>m. m\<lparr>msg_abort_on_fail := []\<rparr>);
                    State_Monad.return
                      (if e = TCOPER_RET_SUCCESS then TCOPER_RET_ABORT else TCOPER_RET_FATAL) } }
                else if resp = TC_FAILURE \<and> msg_opertype m = MSG_AUDIT_GLOBAL
                then do {
                  State_Monad.update (\<lambda>m. m\<lparr>msg_audit_result := TC_AUDIT_FAILURE\<rparr>);
                  State_Monad.return TCOPER_RET_FATAL }
                else do { msg_close Sess; State_Monad.return TCOPER_RET_SUCCESS } } } } }"

primrec two_phase_audit_loop :: "ipc_env \<Rightarrow> TcDaemonName list \<Rightarrow> TcOperRet msg_prog" where
  "two_phase_audit_loop env [] = State_Monad.return TCOPER_RET_SUCCESS"
| "two_phase_audit_loop env (d # ds) =
     do { m \<leftarrow> State_Monad.get;
          if GetChannelName d m = '''' then State_Monad.return TCOPER_RET_FAILURE
          else do {
            r \<leftarrow> TwoPhaseAudit_SendRequest env (GetChannelName d m);
            if r \<noteq> TCOPER_RET_SUCCESS
            then do { State_Monad.update (\<lambda>m. m\<lparr>msg_abort_on_fail := []\<rparr>); State_Monad.return r }
            else do {
              State_Monad.update (\<lambda>m. m\<lparr>msg_abort_on_fail := msg_abort_on_fail m @ [d]\<rparr>);
              State_Monad.update (\<lambda>m.
                if msg_driver_set m \<noteq> {}
                then m\<lparr>msg_driverset_map :=
                         (if msg_driverset_map m d = None
                          then (msg_driverset_map m)(d \<mapsto> msg_driver_set m) else msg_driverset_map m),
                       msg_driver_set := {}\<rparr>
                else m);
              two_phase_audit_loop env ds } } }"

definition TwoPhaseAudit_Execute :: "ipc_env \<Rightarrow> TcOperRet option msg_prog" where
  "TwoPhaseAudit_Execute env =
     do { State_Monad.update (\<lambda>m. m\<lparr>msg_notifyorder := []\<rparr>);
          m \<leftarrow> State_Monad.get;
          if \<not> audit_valid m then State_Monad.return (Some TCOPER_RET_FAILURE)
          else do {
            ds \<leftarrow> push_notify [TC_UPLL, TC_UPPL];
            r \<leftarrow> two_phase_audit_loop env ds;
            if r \<noteq> TCOPER_RET_SUCCESS then State_Monad.return (Some r)
            else do {
              m \<leftarrow> State_Monad.get;
              if msg_driverinfo m = []
              then do {
                r \<leftarrow> Audit_CreateSessionsToForwardDriverResult env;
                if r \<noteq> TCOPER_RET_SUCCESS then State_Monad.return (Some TCOPER_RET_FAILURE)
                else do {
                  r \<leftarrow> Audit_HandleDriverResultResponse env Upll;
                  if r \<noteq> TCOPER_RET_SUCCESS then State_Monad.return (Some TCOPER_RET_FAILURE)
                  else do {
                    r \<leftarrow> Audit_HandleDriverResultResponse env Uppl;
                    if r \<noteq> TCOPER_RET_SUCCESS then State_Monad.return (Some TCOPER_RET_FAILURE)
                    else do {
                      State_Monad.update (\<lambda>m. m\<lparr>msg_abort_on_fail := []\<rparr>);
                      State_Monad.return (Some TCOPER_RET_SUCCESS) } } } }
              else do {
                r \<leftarrow> Audit_SendRequestToDriver env;
                State_Monad.update (\<lambda>m. m\<lparr>msg_abort_on_fail := [], msg_driverset_map := Map.empty,
                                        msg_notifyorder := []\<rparr>);
                State_Monad.return r } } } }"

end
