(* ===== verification/TC_MsgTrace.thy ===== *)
theory TC_MsgTrace
  imports TC_MsgTrans TC_MsgAudit
begin

text \<open>
  What every message program does to the history, whatever its class: it only appends, and only
  events of the transport. The proofs are by the structure of the programs: one closure rule for each
  construct and one line for each method. In the same way the answers of the commit messages
  are bounded: they never give \<open>TCOPER_RET_UNKNOWN\<close>, which the operations would take for a
  success.
\<close>

section \<open>Programs that only use the transport\<close>

definition transport_event :: "tc_event \<Rightarrow> bool" where
  "transport_event e =
     (case e of
        EvOpen _ _ \<Rightarrow> True | EvTimeout \<Rightarrow> True | EvAdd _ \<Rightarrow> True | EvInvoke _ _ _ _ _ \<Rightarrow> True
      | EvForward \<Rightarrow> True | _ \<Rightarrow> False)"

definition extends :: "history \<Rightarrow> history \<Rightarrow> bool" where
  "extends h h' \<longleftrightarrow> (\<exists>new. h' = h @ new \<and> list_all transport_event new)"

definition transports :: "'a msg_prog \<Rightarrow> bool" where
  "transports p \<longleftrightarrow> (\<forall>m. extends (msg_history m) (msg_history (snd (run_state p m))))"

lemma extends_refl [simp]: "extends h h"
  by (simp add: extends_def)

lemma extends_trans: "extends h1 h2 \<Longrightarrow> extends h2 h3 \<Longrightarrow> extends h1 h3"
  by (auto simp: extends_def)

lemma extends_snoc [simp]: "transport_event e \<Longrightarrow> extends h (h @ [e])"
  "transport_event e \<Longrightarrow> transport_event e' \<Longrightarrow> extends h (h @ [e, e'])"
  by (simp_all add: extends_def)

named_theorems transport_rules "closure of the programs that only use the transport"

lemma transports_bind [transport_rules]:
  "transports p \<Longrightarrow> (\<And>a. transports (f a)) \<Longrightarrow> transports (State_Monad.bind p f)"
  unfolding transports_def by (auto split: prod.splits) (metis extends_trans snd_conv)

lemma transports_return [transport_rules]: "transports (State_Monad.return a)"
  by (simp add: transports_def)

lemma transports_get [transport_rules]: "transports State_Monad.get"
  by (simp add: transports_def)

lemma transports_state [transport_rules]:
  "(\<And>m. msg_history (snd (f m)) = msg_history m) \<Longrightarrow> transports (State f)"
  by (simp add: transports_def)

lemma transports_update [transport_rules]:
  "(\<And>m. msg_history (f m) = msg_history m) \<Longrightarrow> transports (State_Monad.update f)"
  by (simp add: transports_def State_Monad.update_def)

lemma transports_if [transport_rules]:
  "(b \<Longrightarrow> transports p) \<Longrightarrow> (\<not> b \<Longrightarrow> transports q) \<Longrightarrow> transports (if b then p else q)"
  by simp

lemma transports_option [transport_rules]:
  "transports p \<Longrightarrow> (\<And>y. transports (q y)) \<Longrightarrow> transports (case x of None \<Rightarrow> p | Some y \<Rightarrow> q y)"
  by (cases x) auto

lemma transports_prod [transport_rules]:
  "(\<And>a b. transports (q a b)) \<Longrightarrow> transports (case x of (a, b) \<Rightarrow> q a b)"
  by (cases x) auto

lemma transports_map [transport_rules]: "transports p \<Longrightarrow> transports (map_state f p)"
  by (cases p) (auto simp: transports_def split: prod.splits)

lemma transports_create [transport_rules]: "transports (msg_create env t ch svc tmo)"
  by (auto simp: transports_def msg_create_def create_tc_client_session_def transport_event_def Let_def
      split: prod.splits)

lemma transports_set [transport_rules]: "transports (msg_set env t v)"
  by (auto simp: transports_def msg_set_def clnt_set_def transport_event_def split: option.splits)

lemma transports_invoke [transport_rules]: "transports (msg_invoke env t)"
  by (auto simp: transports_def msg_invoke_def tc_session_invoke_def transport_event_def Let_def
      split: option.splits prod.splits)

lemma transports_close [transport_rules]: "transports (msg_close t)"
  by (simp add: transports_def msg_close_def)

lemma transports_timeout [transport_rules]: "transports (msg_timeout env)"
  by (simp add: transports_def msg_timeout_def transport_event_def)

lemma transports_forward [transport_rules]: "transports (msg_forward env t)"
  by (auto simp: transports_def msg_forward_def transport_event_def Let_def split: option.splits)

lemma transports_sets [transport_rules]: "transports (msg_sets env t vs)"
  by (induction vs) (auto intro!: transport_rules)

section \<open>The messages\<close>

lemma transports_notify [transport_rules]:
  "transports (push_notify ds)"
  "transports (notify_loop env svc tmo retime close args ds resp)"
proof -
  show "transports (push_notify ds)" unfolding push_notify_def by (intro transport_rules) simp
  show "transports (notify_loop env svc tmo retime close args ds resp)"
  proof (induction ds arbitrary: resp)
    case (Cons d ds)
    show ?case unfolding notify_loop.simps by (intro transport_rules Cons.IH) simp_all
  qed (unfold notify_loop.simps, intro transport_rules, simp)
qed

lemma transports_simple [transport_rules]:
  "transports (TcMsgAutoSave_Execute env)" "transports (TcMsgSetUp_Execute env)"
  "transports (TcMsgNotifyConfigId_Execute env)" "transports (TcMsgToStartupDB_Execute env)"
  "transports (TcMsgAuditDB_Execute env)" "transports (AbortCandidateDB_Execute env)"
  unfolding TcMsgAutoSave_Execute_def TcMsgSetUp_Execute_def TcMsgNotifyConfigId_Execute_def
    TcMsgToStartupDB_Execute_def TcMsgAuditDB_Execute_def AbortCandidateDB_Execute_def Let_def
  by (intro transport_rules; simp)+

lemma transports_trans_end [transport_rules]: "transports (SendTransEndRequest env ds)"
proof -
  have "transports (trans_end_loop env ds resp)" for ds resp
  proof (induction ds arbitrary: resp)
    case (Cons d ds)
    show ?case unfolding trans_end_loop.simps by (intro transport_rules Cons.IH)
  qed (simp add: transport_rules)
  then show ?thesis by (simp add: SendTransEndRequest_def)
qed

lemma transports_abort [transport_rules]: "transports (SendAbortRequest env ds)"
proof -
  have "transports (abort_loop env ds resp)" for ds resp
  proof (induction ds arbitrary: resp)
    case (Cons d ds)
    show ?case unfolding abort_loop.simps by (intro transport_rules Cons.IH)
  qed (simp add: transport_rules)
  then show ?thesis unfolding SendAbortRequest_def by (intro transport_rules)
qed

lemma transports_transaction [transport_rules]: "transports (CommitTransaction_Execute env)"
proof -
  have 1: "transports (CommitTransaction_SendRequest env ch)" for ch
    unfolding CommitTransaction_SendRequest_def by (intro transport_rules) simp
  have 2: "transports (transaction_loop env ds ret)" for ds ret
  proof (induction ds arbitrary: ret)
    case (Cons d ds)
    show ?case unfolding transaction_loop.simps by (intro transport_rules 1 Cons.IH) simp
  qed (unfold transaction_loop.simps, intro transport_rules, simp)
  show ?thesis unfolding CommitTransaction_Execute_def by (intro transport_rules 2)
qed

lemma transports_controllers [transport_rules]: "transports (GetControllerInfo cs)"
proof -
  have "transports (driver_loop cs n idx)" for n idx
  proof (induction n arbitrary: idx)
    case (Suc n)
    show ?case unfolding driver_loop.simps Let_def by (intro transport_rules Suc.IH) simp_all
  qed (simp add: transport_rules)
  then show ?thesis unfolding GetControllerInfo_def Let_def by (intro transport_rules)
qed

lemma transports_driver_result [transport_rules]:
  "transports (CreateSessionsToForwardDriverResult env)" "transports (HandleDriverResultResponse env t)"
  unfolding CreateSessionsToForwardDriverResult_def SetSessionToForwardDriverResult_def
    HandleDriverResultResponse_def Let_def
  by (intro transport_rules; simp)+

lemma transports_not_present [transport_rules]: "transports (HandleDriverNotPresent env d)"
proof -
  have 1: "transports (set_both env vs)" for vs
    by (induction vs) (auto intro!: transport_rules)
  have "transports (dummy_loop env cs)" for cs
  proof (induction cs)
    case (Cons c cs)
    show ?case unfolding dummy_loop.simps by (intro transport_rules 1 Cons.IH)
  qed (simp add: transport_rules)
  then show ?thesis unfolding HandleDriverNotPresent_def by (intro transport_rules)
qed

lemma transports_drivers [transport_rules]: "transports (SendRequestToDriver env)"
proof -
  have 1: "transports (handle_driver_response env d t resp)" for d t resp
    unfolding handle_driver_response_def Let_def by (intro transport_rules) simp_all
  have "transports (driver_request_loop env oper ps)" for oper ps
  proof (induction ps)
    case (Cons p ps)
    show ?case unfolding driver_request_loop.simps Let_def by (intro transport_rules 1 Cons.IH)
  qed (simp add: transport_rules)
  then show ?thesis unfolding SendRequestToDriver_def Let_def by (intro transport_rules)
qed

lemma transports_two_phase [transport_rules]: "transports (TwoPhaseCommit_Execute env)"
proof -
  have 1: "transports (TwoPhaseCommit_SendRequest env ch)" for ch
    unfolding TwoPhaseCommit_SendRequest_def Let_def by (intro transport_rules) simp_all
  have "transports (two_phase_loop env ds)" for ds
  proof (induction ds)
    case (Cons d ds)
    show ?case unfolding two_phase_loop.simps by (intro transport_rules 1 Cons.IH) simp_all
  qed (simp add: transport_rules)
  then show ?thesis unfolding TwoPhaseCommit_Execute_def Let_def by (intro transport_rules) simp_all
qed

section \<open>The messages of an audit\<close>

lemma transports_audit_end [transport_rules]:
  "transports (SendAuditTransEndRequest env ds oper)" "transports (Audit_SendAbortRequest env ds)"
proof -
  have 1: "transports (audit_header env oper result)" for oper result
    unfolding audit_header_def by (intro transport_rules)
  have 2: "transports (audit_end_loop env oper ds resp)" for oper ds resp
  proof (induction ds arbitrary: resp)
    case (Cons d ds)
    show ?case unfolding audit_end_loop.simps by (intro transport_rules 1 Cons.IH)
  qed (simp add: transport_rules)
  have 3: "transports (audit_abort_loop env ds resp)" for ds resp
  proof (induction ds arbitrary: resp)
    case (Cons d ds)
    show ?case unfolding audit_abort_loop.simps by (intro transport_rules 1 Cons.IH)
  qed (simp add: transport_rules)
  show "transports (SendAuditTransEndRequest env ds oper)" "transports (Audit_SendAbortRequest env ds)"
    unfolding SendAuditTransEndRequest_def Audit_SendAbortRequest_def by (intro transport_rules 2 3)+
qed

lemma read_history [simp]:
  "msg_history (snd (read_commit_info m)) = msg_history m"
  "msg_history (snd (read_audit_result t m)) = msg_history m"
  by (auto simp: read_commit_info_def read_audit_result_def SetCommitInfo_def Let_def split: prod.splits option.splits)

lemma transports_audit_transaction [transport_rules]:
  "transports (AuditTransaction_Execute env)" "transports (GetDriverId_Execute env)"
proof -
  have 0: "transports (handle_audit_response env resp)" for resp
    unfolding handle_audit_response_def
    by (intro transport_rules) (simp_all add: SetSimplifiedAudit_def)
  have 1: "transports (AuditTransaction_SendRequest env ch)" for ch
    unfolding AuditTransaction_SendRequest_def by (intro transport_rules 0) simp
  have 2: "transports (audit_transaction_loop env ds ret)" for ds ret
  proof (induction ds arbitrary: ret)
    case (Cons d ds)
    show ?case unfolding audit_transaction_loop.simps by (intro transport_rules 1 Cons.IH) simp_all
  qed (unfold audit_transaction_loop.simps, intro transport_rules, simp)
  show "transports (AuditTransaction_Execute env)"
    unfolding AuditTransaction_Execute_def Let_def by (intro transport_rules 2)
  show "transports (GetDriverId_Execute env)"
    unfolding GetDriverId_Execute_def by (intro transport_rules) simp
qed

lemma transports_audit_result [transport_rules]:
  "transports (Audit_CreateSessionsToForwardDriverResult env)" "transports (Audit_HandleDriverResultResponse env t)"
  unfolding Audit_CreateSessionsToForwardDriverResult_def Audit_SetSessionToForwardDriverResult_def
    Audit_HandleDriverResultResponse_def Let_def
  by (intro transport_rules; simp)+

lemma transports_audit_drivers [transport_rules]: "transports (Audit_SendRequestToDriver env)"
proof -
  have 1: "transports (audit_driver_response env d t resp)" for d t resp
    unfolding audit_driver_response_def Let_def by (intro transport_rules) simp_all
  have "transports (audit_driver_request_loop env oper ps)" for oper ps
  proof (induction ps)
    case (Cons p ps)
    show ?case unfolding audit_driver_request_loop.simps Let_def by (intro transport_rules 1 Cons.IH)
  qed (simp add: transport_rules)
  then show ?thesis unfolding Audit_SendRequestToDriver_def Let_def by (intro transport_rules)
qed

lemma transports_two_phase_audit [transport_rules]: "transports (TwoPhaseAudit_Execute env)"
proof -
  have 1: "transports (TwoPhaseAudit_SendRequest env ch)" for ch
    unfolding TwoPhaseAudit_SendRequest_def Let_def by (intro transport_rules) simp_all
  have "transports (two_phase_audit_loop env ds)" for ds
  proof (induction ds)
    case (Cons d ds)
    show ?case unfolding two_phase_audit_loop.simps by (intro transport_rules 1 Cons.IH) simp_all
  qed (simp add: transport_rules)
  then show ?thesis unfolding TwoPhaseAudit_Execute_def Let_def by (intro transport_rules) simp_all
qed

section \<open>The answers of the commit messages\<close>

definition answers :: "'a set \<Rightarrow> 'a msg_prog \<Rightarrow> bool" where
  "answers R p \<longleftrightarrow> (\<forall>m. fst (run_state p m) \<in> R)"

definition commit_rets :: "TcOperRet set" where
  "commit_rets = {TCOPER_RET_SUCCESS, TCOPER_RET_FAILURE, TCOPER_RET_FATAL, TCOPER_RET_ABORT}"

named_theorems answer_rules "closure rules for the answers of a program"

lemma answers_bind [answer_rules]: "(\<And>a. answers R (f a)) \<Longrightarrow> answers R (State_Monad.bind p f)"
  by (auto simp: answers_def split: prod.splits)

lemma answers_return [answer_rules]: "a \<in> R \<Longrightarrow> answers R (State_Monad.return a)"
  by (simp add: answers_def)

lemma answers_if [answer_rules]:
  "(b \<Longrightarrow> answers R p) \<Longrightarrow> (\<not> b \<Longrightarrow> answers R q) \<Longrightarrow> answers R (if b then p else q)"
  by simp

lemma answers_option [answer_rules]:
  "answers R p \<Longrightarrow> (\<And>y. answers R (q y)) \<Longrightarrow> answers R (case x of None \<Rightarrow> p | Some y \<Rightarrow> q y)"
  by (cases x) auto

lemma answers_prod [answer_rules]:
  "(\<And>a b. answers R (q a b)) \<Longrightarrow> answers R (case x of (a, b) \<Rightarrow> q a b)"
  by (cases x) auto

text \<open>The result of a sub-program that is passed on.\<close>

lemma answers_pass:
  "answers R p \<Longrightarrow> (\<And>a. a \<in> R \<Longrightarrow> answers R (f a)) \<Longrightarrow> answers R (State_Monad.bind p f)"
  unfolding answers_def by (auto split: prod.splits) (metis fst_conv)

lemma commit_rets_simps [simp]:
  "ReturnUtilResp r \<in> commit_rets" "TCOPER_RET_SUCCESS \<in> commit_rets" "TCOPER_RET_FAILURE \<in> commit_rets"
  "TCOPER_RET_FATAL \<in> commit_rets" "TCOPER_RET_ABORT \<in> commit_rets"
  by (cases r; simp add: ReturnUtilResp_def commit_rets_def) (simp_all add: commit_rets_def)

lemma CommitTransaction_answers: "answers commit_rets (CommitTransaction_Execute env)"
proof -
  have 1: "answers commit_rets (CommitTransaction_SendRequest env ch)" for ch
    unfolding CommitTransaction_SendRequest_def
    by (intro answer_rules answers_pass [where p = "if _ then State_Monad.return TCOPER_RET_SUCCESS else _"]) simp_all
  have 2: "answers commit_rets (transaction_loop env ds ret)" if "ret \<in> commit_rets" for ds ret
    using that
  proof (induction ds arbitrary: ret)
    case (Cons d ds)
    show ?case
      unfolding transaction_loop.simps
      by (intro answers_bind [where p = State_Monad.get] answers_if Cons.IH Cons.prems answers_pass [OF 1] answer_rules)
  qed (auto intro!: answer_rules)
  show ?thesis unfolding CommitTransaction_Execute_def by (intro answer_rules 2) simp_all
qed

lemma HandleDriverResult_answers: "answers commit_rets (HandleDriverResultResponse env t)"
  unfolding HandleDriverResultResponse_def by (intro answer_rules) simp_all

lemma SendRequestToDriver_answers: "answers commit_rets (SendRequestToDriver env)"
proof -
  have 1: "answers commit_rets (handle_driver_response env d t resp)" for d t resp
    unfolding handle_driver_response_def Let_def by (intro answer_rules) simp_all
  have 2: "answers commit_rets (driver_request_loop env oper ps)" for oper ps
  proof (induction ps)
    case (Cons p ps)
    show ?case
      unfolding driver_request_loop.simps Let_def
      by (intro answers_pass [OF 1] answer_rules Cons.IH) simp_all
  qed (simp add: answer_rules)
  show ?thesis
    unfolding SendRequestToDriver_def Let_def
    by (intro answers_pass [OF 2] answers_pass [OF HandleDriverResult_answers] HandleDriverResult_answers answer_rules)
      simp_all
qed

lemma TwoPhaseCommit_answers: "answers commit_rets (TwoPhaseCommit_Execute env)"
proof -
  have 1: "answers commit_rets (TwoPhaseCommit_SendRequest env ch)" for ch
    unfolding TwoPhaseCommit_SendRequest_def Let_def by (intro answer_rules) simp_all
  have 2: "answers commit_rets (two_phase_loop env ds)" for ds
  proof (induction ds)
    case (Cons d ds)
    show ?case
      unfolding two_phase_loop.simps
      by (intro answers_pass [OF 1] answer_rules Cons.IH) simp_all
  qed (simp add: answer_rules)
  show ?thesis
    unfolding TwoPhaseCommit_Execute_def Let_def
    by (intro answers_pass [OF 2] answers_pass [OF SendRequestToDriver_answers] answer_rules) simp_all
qed

section \<open>A transaction message succeeds only if every daemon agreed\<close>

lemma CommitTransaction_Execute_good:
  assumes "good m0 m" "msg_opertype m0 = MSG_COMMIT_TRANS_START \<or> msg_opertype m0 = MSG_COMMIT_TRANS_END"
  shows "wp (CommitTransaction_Execute env) (ok_run m0) m"
proof -
  have 1: "wp (CommitTransaction_SendRequest env ch) (ok_run m0) m" if "good m0 m" for ch m
    unfolding CommitTransaction_SendRequest_def
    by (intro good_rules) (use that assms(2) good_opertype [OF that] in \<open>auto split: if_splits\<close>)
  have 2: "wp (transaction_loop env ds ret) (ok_run m0) m" if "good m0 m" for ds ret m
    using that
  proof (induction ds arbitrary: m ret)
    case (Cons d ds)
    show ?case
      unfolding transaction_loop.simps
      by (intro good_rules wp_mono [OF 1] Cons.IH) (use Cons.prems in auto)
  qed (auto intro!: good_rules)
  show ?thesis
    unfolding CommitTransaction_Execute_def
    by (intro good_rules wp_mono [OF push_notify_good [of m0]] 2) (use assms in auto)
qed

end
