(* ===== verification/TC_MsgAsk.thy ===== *)
theory TC_MsgAsk
  imports TC_MsgTrace
begin

text \<open>
  Who takes part in a phase of the commit: a message that reports success has asked every
  participant of its phase, and every one of them agreed.
\<close>

section \<open>Participants\<close>

definition channel :: "TcChannelNameMap \<Rightarrow> TcDaemonName \<Rightarrow> string" where
  "channel names d = (case names d of Some c \<Rightarrow> c | None \<Rightarrow> '''')"

text \<open>
  UPLL and UPPL vote and commit; the transaction is started and ended at every daemon and driver
  that has a channel.
\<close>

definition participants :: "TcChannelNameMap \<Rightarrow> TcMsgOperType \<Rightarrow> string list" where
  "participants names oper =
     (if oper = MSG_COMMIT_VOTE \<or> oper = MSG_COMMIT_GLOBAL then [channel names TC_UPLL, channel names TC_UPPL]
      else if oper = MSG_COMMIT_TRANS_START \<or> oper = MSG_COMMIT_TRANS_END
      then filter (\<lambda>c. c \<noteq> '''') (map (channel names)
             [TC_DRV_ODL, TC_DRV_OPENFLOW, TC_DRV_OVERLAY, TC_DRV_POLC, TC_UPLL, TC_UPPL])
      else [])"

lemma GetChannelName_channel: "GetChannelName d m = channel (msg_channel_names m) d"
  by (simp add: GetChannelName_def channel_def)

section \<open>Reaching\<close>

text \<open>The channels at which a request of this type was delivered and not refused.\<close>

definition agreeing :: "TcMsgOperType \<Rightarrow> invocation list \<Rightarrow> string set" where
  "agreeing oper new = set (reached oper new)"

lemma agreeing_simps [simp]:
  "agreeing oper [] = {}" "agreeing oper (xs @ ys) = agreeing oper xs \<union> agreeing oper ys"
  "agreeing oper [(ch, TCLIB_COMMIT_TRANSACTION, IpcU8 (opertype_value oper) # args, err, resp)] =
     (if \<not> err8 err \<and> resp \<noteq> TC_FAILURE then {ch} else {})"
  by (auto simp: agreeing_def request_def inv_ok_def simp del: set_filter)

definition reaches :: "TcMsgOperType \<Rightarrow> TcMsg \<Rightarrow> string set \<Rightarrow> TcMsg \<Rightarrow> bool" where
  "reaches oper m chs m' \<longleftrightarrow>
     (\<exists>new. msg_invokes m' = msg_invokes m @ new \<and> chs \<subseteq> agreeing oper new)"

lemma reaches_refl [simp]: "reaches oper m {} m"
  by (simp add: reaches_def)

lemma reaches_trans: "reaches oper m xs m1 \<Longrightarrow> reaches oper m1 ys m2 \<Longrightarrow> reaches oper m (xs \<union> ys) m2"
  unfolding reaches_def by auto

lemma reaches_clean: "reaches oper m chs m1 \<Longrightarrow> clean m1 m2 \<Longrightarrow> reaches oper m chs m2"
  unfolding reaches_def clean_def by auto

lemma reaches_one:
  "msg_invokes m' = msg_invokes m @ [(ch, TCLIB_COMMIT_TRANSACTION, IpcU8 (opertype_value oper) # args, err, resp)] \<Longrightarrow>
   \<not> err8 err \<Longrightarrow> resp \<noteq> TC_FAILURE \<Longrightarrow> reaches oper m {ch} m'"
  by (simp add: reaches_def)

lemma reaches_update [simp]:
  "reaches oper m chs (m'\<lparr>msg_trans_result := a\<rparr>) = reaches oper m chs m'"
  "reaches oper m chs (m'\<lparr>msg_notifyorder := b\<rparr>) = reaches oper m chs m'"
  "reaches oper m chs (m'\<lparr>msg_abort_on_fail := b\<rparr>) = reaches oper m chs m'"
  "reaches oper m chs (m'\<lparr>msg_driver_set := d\<rparr>) = reaches oper m chs m'"
  "reaches oper m chs (m'\<lparr>msg_driverset_map := e\<rparr>) = reaches oper m chs m'"
  by (simp_all add: reaches_def)

lemma transports_reaches:
  assumes "transports p" "reaches oper m0 chs m"
  shows "wp p (\<lambda>r m'. reaches oper m0 chs m') m"
proof -
  obtain new where "msg_history (snd (run_state p m)) = msg_history m @ new"
    using assms(1) by (auto simp: transports_def extends_def)
  with assms(2) show ?thesis
    by (auto simp: wp_def reaches_def msg_invokes_def split: prod.splits)
qed

text \<open>A request that succeeded has reached its daemon.\<close>

definition asks :: "TcMsg \<Rightarrow> string set \<Rightarrow> TcOperRet \<Rightarrow> TcMsg \<Rightarrow> bool" where
  "asks m chs r m' \<longleftrightarrow> (r = TCOPER_RET_SUCCESS \<longrightarrow> ids m m' \<and> reaches (msg_opertype m) m chs m')"

lemma asks_step:
  assumes "ids m m1 \<and> reaches (msg_opertype m) m xs m1" "asks m1 ys r m'"
  shows "asks m (xs \<union> ys) r m'"
  using assms by (auto simp: asks_def ids_def intro: reaches_trans)

lemma fixed_ids: "fixed m m' \<Longrightarrow> ids m m'"
  by (simp add: fixed_def ids_def)

lemma ids_trans: "ids m1 m2 \<Longrightarrow> ids m2 m3 \<Longrightarrow> ids m1 m3"
  by (simp add: ids_def)

lemma asks_fail [simp]: "r \<noteq> TCOPER_RET_SUCCESS \<Longrightarrow> asks m chs r m'"
  by (simp add: asks_def)

lemma asks_one:
  assumes "msg_invokes m4 = msg_invokes m @
       [(ch, TCLIB_COMMIT_TRANSACTION, IpcU8 (opertype_value oper) # args, err, resp)]" "msg_opertype m = oper"
    "\<not> err8 err" "resp \<noteq> TC_FAILURE" "fixed m m1" "fixed m1 m2" "fixed m2 m3" "fixed m3 m4"
  shows "asks m {ch} TCOPER_RET_SUCCESS m4"
  using assms(2,5-8) reaches_one [OF assms(1,3,4)] by (simp add: asks_def fixed_def ids_def)

lemma asks_mono: "asks m A r m' \<Longrightarrow> B \<subseteq> A \<Longrightarrow> asks m B r m'"
  unfolding asks_def reaches_def by blast

lemma CommitTransaction_SendRequest_asks:
  "msg_opertype m \<in> {MSG_COMMIT_TRANS_START, MSG_COMMIT_TRANS_END} \<Longrightarrow>
   wp (CommitTransaction_SendRequest env ch) (asks m {ch}) m"
  unfolding CommitTransaction_SendRequest_def
  by (intro wp_rules wp_any [of _ "SendTransEndRequest env _"])
    (auto simp del: opertype_values intro: asks_one split: if_splits)

lemma asks_good: "asks m chs TCOPER_RET_SUCCESS m1 \<Longrightarrow> (r = TCOPER_RET_SUCCESS \<longrightarrow> good m1 m') \<Longrightarrow> asks m chs r m'"
  by (auto simp: asks_def good_def intro: reaches_clean ids_trans)

lemma TwoPhaseCommit_SendRequest_asks:
  assumes "two_phase m"
  shows "wp (TwoPhaseCommit_SendRequest env ch) (asks m {ch}) m"
proof -
  have step: "asks m {ch} TCOPER_RET_SUCCESS m5"
    if "msg_invokes m3 = msg_invokes m @
         [(ch, TCLIB_COMMIT_TRANSACTION, IpcU8 (opertype_value oper) # args, err, resp)]" "msg_opertype m = oper"
      "\<not> err8 err" "resp \<noteq> TC_FAILURE" "good m3 m4" "fixed m4 m5" "msg_invokes m5 = msg_invokes m4"
      "fixed m m1" "fixed m1 m2" "fixed m2 m3" for m1 m2 m3 m4 m5 args err resp oper
    using asks_good [OF asks_one [OF that(1-4,8-10) fixed_refl]] good_fixed [OF that(5-7)] by blast
  show ?thesis
    unfolding TwoPhaseCommit_SendRequest_def Let_def
    by (intro wp_rules wp_any [of _ "SendAbortRequest env _"] wp_mono [OF GetControllerInfo_good [OF good_refl]])
      (use assms in \<open>auto simp: two_phase_def intro: asks_one step\<close>)
qed

section \<open>The loops\<close>

lemma asks_update:
  "asks m chs r m1 \<Longrightarrow> ids m1 m' \<Longrightarrow> msg_invokes m' = msg_invokes m1 \<Longrightarrow> asks m chs r m'"
  by (auto simp: asks_def reaches_def intro: ids_trans)

text \<open>The daemons of a list that have a channel.\<close>

definition named :: "TcChannelNameMap \<Rightarrow> TcDaemonName list \<Rightarrow> string set" where
  "named names ds = {c \<in> channel names ` set ds. c \<noteq> ''''}"

lemma named_simps [simp]:
  "named names [] = {}" "channel names d = '''' \<Longrightarrow> named names (d # ds) = named names ds"
  "channel names d \<noteq> '''' \<Longrightarrow> named names (d # ds) = insert (channel names d) (named names ds)"
  by (auto simp: named_def)

lemma named_filter: "set (filter (\<lambda>c. c \<noteq> '''') (map (channel names) ds)) = named names ds"
  by (auto simp: named_def)

lemma named_rev: "named names (rev ds) = named names ds"
  by (simp add: named_def)

lemma transaction_loop_asks:
  assumes "msg_opertype m \<in> {MSG_COMMIT_TRANS_START, MSG_COMMIT_TRANS_END}"
  shows "wp (transaction_loop env ds TCOPER_RET_SUCCESS) (asks m (named (msg_channel_names m) ds)) m"
  using assms
proof (induction ds arbitrary: m)
  case Nil
  then show ?case by (auto simp: asks_def reaches_def ids_def intro!: wp_rules)
next
  case (Cons d ds)
  have step: "wp (transaction_loop env ds TCOPER_RET_SUCCESS)
      (asks m (insert (GetChannelName d m) (named (msg_channel_names m) ds))) (m1\<lparr>msg_abort_on_fail := x\<rparr>)"
    if "asks m {GetChannelName d m} TCOPER_RET_SUCCESS m1" for m1 x
  proof -
    let ?m1 = "m1\<lparr>msg_abort_on_fail := x\<rparr>"
    have 1: "ids m ?m1 \<and> reaches (msg_opertype m) m {GetChannelName d m} ?m1"
      using that by (simp add: asks_def ids_def)
    then have "msg_opertype ?m1 = msg_opertype m" "msg_channel_names ?m1 = msg_channel_names m"
      by (simp_all add: ids_def)
    with Cons.prems have "wp (transaction_loop env ds TCOPER_RET_SUCCESS) (asks ?m1 (named (msg_channel_names m) ds)) ?m1"
      using Cons.IH [of ?m1] by simp
    then show ?thesis by (rule wp_mono) (drule asks_step [OF 1], simp)
  qed
  show ?case
    unfolding transaction_loop.simps
    by (intro wp_bind wp_get wp_return wp_update wp_if wp_mono [OF CommitTransaction_SendRequest_asks [OF Cons.prems]])
      (use step Cons.IH [OF Cons.prems] in \<open>auto simp: GetChannelName_channel simp del: transaction_loop.simps\<close>)
qed

lemma two_phase_loop_asks:
  assumes "two_phase m"
  shows "wp (two_phase_loop env ds) (asks m (channel (msg_channel_names m) ` set ds)) m"
  using assms
proof (induction ds arbitrary: m)
  case Nil
  then show ?case by (auto simp: asks_def intro!: wp_rules)
next
  case (Cons d ds)
  have step: "wp (two_phase_loop env ds) (asks m (channel (msg_channel_names m) ` set (d # ds))) m2"
    if "asks m {GetChannelName d m} TCOPER_RET_SUCCESS m1" "ids m1 m2" "msg_invokes m2 = msg_invokes m1" for m1 m2
  proof -
    from asks_update [OF that] have 1: "ids m m2 \<and> reaches (msg_opertype m) m {GetChannelName d m} m2"
      by (simp add: asks_def)
    then have m2: "two_phase m2" "msg_channel_names m2 = msg_channel_names m"
      using Cons.prems by (simp_all add: ids_def two_phase_def)
    show ?thesis
      using asks_step [OF 1] m2(2) by (intro wp_mono [OF Cons.IH [OF m2(1)]]) (simp add: GetChannelName_channel)
  qed
  show ?case
    unfolding two_phase_loop.simps
    by (intro wp_bind wp_get wp_return wp_update wp_if wp_mono [OF TwoPhaseCommit_SendRequest_asks [OF Cons.prems]])
      (auto simp: ids_def intro!: step [simplified])
qed

section \<open>A phase of the commit\<close>

lemma push_notify_run:
  "wp (push_notify ds) Q m = Q (msg_notifyorder m @ ds) (m\<lparr>msg_notifyorder := msg_notifyorder m @ ds\<rparr>)"
  by (simp add: wp_def push_notify_def State_Monad.update_def)

lemma push_notifyI: "msg_notifyorder m = [] \<Longrightarrow> Q ds (m\<lparr>msg_notifyorder := ds\<rparr>) \<Longrightarrow> wp (push_notify ds) Q m"
  by (simp add: push_notify_run)

lemma asks_from:
  "asks (m\<lparr>msg_notifyorder := ds\<rparr>) chs r m' = asks m chs r m'"
  by (simp add: asks_def ids_def reaches_def)

lemma CommitTransaction_asks:
  assumes "msg_opertype m \<in> {MSG_COMMIT_TRANS_START, MSG_COMMIT_TRANS_END}" "msg_notifyorder m = []"
  shows "wp (CommitTransaction_Execute env) (asks m (set (participants (msg_channel_names m) (msg_opertype m)))) m"
proof -
  let ?ds = "[TC_DRV_ODL, TC_DRV_OPENFLOW, TC_DRV_OVERLAY, TC_DRV_POLC, TC_UPLL, TC_UPPL]"
  have p: "set (participants (msg_channel_names m) (msg_opertype m)) = named (msg_channel_names m) ?ds"
    unfolding named_filter [symmetric]
    using assms(1) by (elim insertE emptyE) (simp_all only: participants_def TcMsgOperType.distinct simp_thms if_True if_False)
  have loop: "wp (transaction_loop env ds TCOPER_RET_SUCCESS) (asks m (named (msg_channel_names m) ds)) (m\<lparr>msg_notifyorder := ds\<rparr>)" for ds
    using transaction_loop_asks [of "m\<lparr>msg_notifyorder := ds\<rparr>" env ds] assms(1) by (simp add: asks_from [abs_def])
  show ?thesis
    unfolding CommitTransaction_Execute_def p
    by (intro wp_bind wp_get wp_if wp_return)
      (use loop [of ?ds] loop [of "rev ?ds", unfolded named_rev] in
        \<open>simp_all add: push_notify_run assms(2) del: transaction_loop.simps named_simps\<close>)
qed

lemma TwoPhaseCommit_asks:
  assumes "two_phase m" "msg_notifyorder m = []"
  shows "wp (TwoPhaseCommit_Execute env)
    (\<lambda>r m'. r = TCOPER_RET_SUCCESS \<longrightarrow> reaches (msg_opertype m) m (set (participants (msg_channel_names m) (msg_opertype m))) m') m"
proof -
  let ?chs = "set (participants (msg_channel_names m) (msg_opertype m))"
  have loop: "wp (two_phase_loop env [TC_UPLL, TC_UPPL]) (asks m ?chs) (m\<lparr>msg_notifyorder := [TC_UPLL, TC_UPPL]\<rparr>)"
    using two_phase_loop_asks [of "m\<lparr>msg_notifyorder := [TC_UPLL, TC_UPPL]\<rparr>" env "[TC_UPLL, TC_UPPL]"] assms(1)
    by (auto simp: asks_from [abs_def] participants_def two_phase_def)
  have tail: "wp p (\<lambda>r m'. r = TCOPER_RET_SUCCESS \<longrightarrow> reaches (msg_opertype m) m ?chs m') m1"
    if "asks m ?chs TCOPER_RET_SUCCESS m1" "transports p" for p m1
    using that(1) by (intro wp_mono [OF transports_reaches [OF that(2), of "msg_opertype m" m ?chs]]) (simp_all add: asks_def)
  show ?thesis
    unfolding TwoPhaseCommit_Execute_def
    apply (rule wp_bind, rule wp_get, rule wp_if, rule wp_return, simp)
    apply (rule wp_bind, rule push_notifyI [OF assms(2)], rule wp_bind, rule wp_mono [OF loop])
    apply (rule wp_if, rule wp_return, simp)
    apply (rule tail, simp, intro transport_rules, simp_all)
    done
qed

text \<open>C2: A phase of the two-phase commit, the vote as well as the global commit, reports success only
  if UPLL and UPPL were both asked and agreed, and every other daemon and driver that was asked in it
  was reached and did not answer with a failure, whatever the transport and the daemons do.\<close>

theorem phase_success_is_unanimous:
  assumes "two_phase m" "msg_notifyorder m = []" "run_state (TwoPhaseCommit_Execute env) m = (TCOPER_RET_SUCCESS, m')"
  shows "\<exists>new. msg_invokes m' = msg_invokes m @ new \<and> list_all inv_ok new \<and>
    {channel (msg_channel_names m) TC_UPLL, channel (msg_channel_names m) TC_UPPL} \<subseteq> agreeing (msg_opertype m) new"
  using wpD [OF TwoPhaseCommit_Execute_good [of m m env] assms(3)] wpD [OF TwoPhaseCommit_asks [OF assms(1,2)] assms(3)] assms(1)
  by (auto simp: good_def clean_def reaches_def participants_def two_phase_def)

theorem phase_success_is_unanimous_witness:
  "fst (run_state (TwoPhaseCommit_Execute good_env) (demo_msg MSG_COMMIT_GLOBAL)) = TCOPER_RET_SUCCESS \<and>
   (\<exists>new. msg_invokes (snd (run_state (TwoPhaseCommit_Execute good_env) (demo_msg MSG_COMMIT_GLOBAL))) =
      msg_invokes (demo_msg MSG_COMMIT_GLOBAL) @ new \<and> list_all inv_ok new \<and> {''upll'', ''uppl''} \<subseteq> agreeing MSG_COMMIT_GLOBAL new)"
proof -
  have m: "two_phase (demo_msg MSG_COMMIT_GLOBAL)" "msg_notifyorder (demo_msg MSG_COMMIT_GLOBAL) = []"
    "msg_opertype (demo_msg MSG_COMMIT_GLOBAL) = MSG_COMMIT_GLOBAL"
    "msg_channel_names (demo_msg MSG_COMMIT_GLOBAL) = demo_channels"
    by (simp_all add: two_phase_def demo_msg_def TcMsgCommit_SetData_def TcMsg_new_def)
  have "fst (run_state (TwoPhaseCommit_Execute good_env) (demo_msg MSG_COMMIT_GLOBAL)) = TCOPER_RET_SUCCESS"
    by code_simp
  moreover from this have "run_state (TwoPhaseCommit_Execute good_env) (demo_msg MSG_COMMIT_GLOBAL) =
      (TCOPER_RET_SUCCESS, snd (run_state (TwoPhaseCommit_Execute good_env) (demo_msg MSG_COMMIT_GLOBAL)))"
    by (metis prod.collapse)
  from phase_success_is_unanimous [OF m(1,2) this] have "\<exists>new.
      msg_invokes (snd (run_state (TwoPhaseCommit_Execute good_env) (demo_msg MSG_COMMIT_GLOBAL))) =
      msg_invokes (demo_msg MSG_COMMIT_GLOBAL) @ new \<and> list_all inv_ok new \<and> {''upll'', ''uppl''} \<subseteq> agreeing MSG_COMMIT_GLOBAL new"
    by (simp add: m channel_def demo_channels_def)
  ultimately show ?thesis by blast
qed

end
