(* ===== verification/TC_RWLock.thy ===== *)
theory TC_RWLock
  imports TC_Types
begin

text \<open>
  The read/write lock of the transaction coordinator, class \<open>TcReadWriteLock\<close> of
  \<open>modules/tc/include/tc_module_data.hh\<close>. All its methods run with the global mutex held, so
  each is one atomic step on the record below. \<open>rw_broadcasts\<close> counts the calls of
  \<open>rw_cond.broadcast()\<close>: the condition variable has no other observable state.

  The lock works in one of two modes, fixed at start-up by \<open>init\<close>: in the exclusive mode
  readers and the writer share the counter \<open>rw_owner\<close>; in the simultaneous mode the readers
  are counted by \<open>r_owner\<close>, the writer holds \<open>w_owner\<close>, and only the reads of the database
  management and launcher sessions exclude the writer.
\<close>

section \<open>State\<close>

record TcReadWriteLock =
  rw_owner :: u32
  r_owner :: u32
  r_db_mgmt_session :: bool
  r_launcher_session :: bool
  w_owner :: u32
  r_waiter :: u32
  w_session_id :: u32
  w_waiter :: u32
  w_operation :: TcWriteOperation
  db_mgmt_session_id :: u32
  launcher_session_id :: u32
  is_simultaneous_read_write_allowed :: bool
  rw_broadcasts :: nat

definition RW_OWNER_WRLOCKED :: u32 where
  "RW_OWNER_WRLOCKED = UINT32_MAX"

definition TcReadWriteLock_new :: TcReadWriteLock where
  "TcReadWriteLock_new =
     \<lparr>rw_owner = 0, r_owner = 0, r_db_mgmt_session = False, r_launcher_session = False,
      w_owner = 0, r_waiter = 0, w_session_id = 0, w_waiter = 0, w_operation = TC_WRITE_NONE,
      db_mgmt_session_id = 0, launcher_session_id = 0,
      is_simultaneous_read_write_allowed = True, rw_broadcasts = 0\<rparr>"

section \<open>Methods\<close>

definition rw_init :: "u32 \<Rightarrow> u32 \<Rightarrow> bool \<Rightarrow> TcReadWriteLock \<Rightarrow> TcReadWriteLock" where [rwlock_defs]:
  "rw_init db_mgmt_sess_id launcher_sess_id is_allowed l =
     l\<lparr>db_mgmt_session_id := db_mgmt_sess_id,
       launcher_session_id := launcher_sess_id,
       is_simultaneous_read_write_allowed := is_allowed\<rparr>"

definition isReadAlwaysSucess :: "u32 \<Rightarrow> TcReadWriteLock \<Rightarrow> bool" where [rwlock_defs]:
  "isReadAlwaysSucess sid l \<longleftrightarrow>
     sid \<noteq> db_mgmt_session_id l \<and> sid \<noteq> launcher_session_id l \<and>
     is_simultaneous_read_write_allowed l"

definition isWaiting :: "TcReadWriteLock \<Rightarrow> bool" where [rwlock_defs]:
  "isWaiting l \<longleftrightarrow> r_waiter l \<noteq> 0 \<or> w_waiter l \<noteq> 0"

definition wakeUp :: "TcReadWriteLock \<Rightarrow> TcReadWriteLock" where [rwlock_defs]:
  "wakeUp l = (if isWaiting l then l\<lparr>rw_broadcasts := rw_broadcasts l + 1\<rparr> else l)"

text \<open>
  \<open>waitForRead\<close> and \<open>waitForWrite\<close> count the waiting thread, release the mutex, and count
  it out again once woken. The two halves are separate here, since other threads run between
  them.
\<close>

definition waitForRead_enter :: "TcReadWriteLock \<Rightarrow> TcReadWriteLock" where [rwlock_defs]:
  "waitForRead_enter l = l\<lparr>r_waiter := r_waiter l + 1\<rparr>"

definition waitForRead_leave :: "TcReadWriteLock \<Rightarrow> TcReadWriteLock" where [rwlock_defs]:
  "waitForRead_leave l = l\<lparr>r_waiter := r_waiter l - 1\<rparr>"

definition waitForWrite_enter :: "TcReadWriteLock \<Rightarrow> TcReadWriteLock" where [rwlock_defs]:
  "waitForWrite_enter l = l\<lparr>w_waiter := w_waiter l + 1\<rparr>"

definition waitForWrite_leave :: "TcReadWriteLock \<Rightarrow> TcReadWriteLock" where [rwlock_defs]:
  "waitForWrite_leave l = l\<lparr>w_waiter := w_waiter l - 1\<rparr>"

definition canReadLock :: "u32 \<Rightarrow> TcReadWriteLock \<Rightarrow> bool" where [rwlock_defs]:
  "canReadLock sid l \<longleftrightarrow>
     (if is_simultaneous_read_write_allowed l
      then (if sid = db_mgmt_session_id l \<or> sid = launcher_session_id l
            then w_owner l \<noteq> RW_OWNER_WRLOCKED \<and> w_waiter l = 0
            else True)
      else rw_owner l \<noteq> RW_OWNER_WRLOCKED \<and> w_waiter l = 0)"

definition setReader :: "u32 \<Rightarrow> TcReadWriteLock \<Rightarrow> TcReadWriteLock" where [rwlock_defs]:
  "setReader sid l =
     (if is_simultaneous_read_write_allowed l
      then (let l1 = l\<lparr>r_owner := r_owner l + 1\<rparr>
            in if sid = db_mgmt_session_id l1 then l1\<lparr>r_db_mgmt_session := True\<rparr>
               else if sid = launcher_session_id l1 then l1\<lparr>r_launcher_session := True\<rparr>
               else l1)
      else l\<lparr>rw_owner := rw_owner l + 1\<rparr>)"

definition canWriteLock :: "TcReadWriteLock \<Rightarrow> bool" where [rwlock_defs]:
  "canWriteLock l \<longleftrightarrow>
     (if is_simultaneous_read_write_allowed l
      then \<not> r_db_mgmt_session l \<and> \<not> r_launcher_session l \<and> w_owner l = 0
      else rw_owner l = 0)"

definition clearWriter :: "TcReadWriteLock \<Rightarrow> TcReadWriteLock" where [rwlock_defs]:
  "clearWriter l = l\<lparr>w_session_id := 0, w_operation := TC_WRITE_NONE\<rparr>"

definition setWriter :: "u32 \<Rightarrow> TcWriteOperation \<Rightarrow> TcReadWriteLock \<Rightarrow> TcReadWriteLock" where [rwlock_defs]:
  "setWriter sid wop l =
     (let l1 = (if is_simultaneous_read_write_allowed l
                then l\<lparr>w_owner := RW_OWNER_WRLOCKED\<rparr>
                else l\<lparr>rw_owner := RW_OWNER_WRLOCKED\<rparr>)
      in l1\<lparr>w_session_id := sid, w_operation := wop\<rparr>)"

definition isWriteHeld :: "TcReadWriteLock \<Rightarrow> bool" where [rwlock_defs]:
  "isWriteHeld l \<longleftrightarrow>
     (if is_simultaneous_read_write_allowed l
      then w_owner l = RW_OWNER_WRLOCKED
      else rw_owner l = RW_OWNER_WRLOCKED)"

definition isWriteHeld_by :: "u32 \<Rightarrow> TcReadWriteLock \<Rightarrow> bool" where [rwlock_defs]:
  "isWriteHeld_by sid l \<longleftrightarrow> isWriteHeld l \<and> w_session_id l = sid"

definition tryLock_read :: "u32 \<Rightarrow> TcReadWriteLock \<Rightarrow> bool \<times> TcReadWriteLock" where [rwlock_defs]:
  "tryLock_read sid l = (if canReadLock sid l then (True, setReader sid l) else (False, l))"

definition tryLock_write ::
  "u32 \<Rightarrow> TcWriteOperation \<Rightarrow> TcReadWriteLock \<Rightarrow> bool \<times> TcReadWriteLock" where [rwlock_defs]:
  "tryLock_write sid wop l = (if canWriteLock l then (True, setWriter sid wop l) else (False, l))"

definition unlock_read :: "u32 \<Rightarrow> TcReadWriteLock \<Rightarrow> TcReadWriteLock" where [rwlock_defs]:
  "unlock_read sid l =
     (if is_simultaneous_read_write_allowed l
      then (let l1 = (if sid = db_mgmt_session_id l then l\<lparr>r_db_mgmt_session := False\<rparr>
                      else if sid = launcher_session_id l then l\<lparr>r_launcher_session := False\<rparr>
                      else l);
                l2 = l1\<lparr>r_owner := r_owner l1 - 1\<rparr>
            in if r_owner l2 = 0 then wakeUp l2 else l2)
      else (let l1 = l\<lparr>rw_owner := rw_owner l - 1\<rparr>
            in if rw_owner l1 = 0 then wakeUp l1 else l1))"

definition unlock_write ::
  "u32 \<Rightarrow> TcWriteOperation \<Rightarrow> TcReadWriteLock \<Rightarrow> bool \<times> TcReadWriteLock" where [rwlock_defs]:
  "unlock_write sid wop l =
     (if \<not> isWriteHeld_by sid l \<or> w_operation l \<noteq> wop then (False, l)
      else (True, wakeUp ((clearWriter l)\<lparr>rw_owner := 0, w_owner := 0\<rparr>)))"

section \<open>The write lock as an interface\<close>

text \<open>
  What a client of an exclusive write lock relies on: an acquisition that succeeds finds the lock
  free and records its owner, and only a release with the owner's session and operation frees it.
\<close>

locale write_lock =
  fixes held :: "'l \<Rightarrow> bool"
    and owner :: "'l \<Rightarrow> u32 \<times> TcWriteOperation"
    and try_acquire :: "u32 \<Rightarrow> TcWriteOperation \<Rightarrow> 'l \<Rightarrow> bool \<times> 'l"
    and release :: "u32 \<Rightarrow> TcWriteOperation \<Rightarrow> 'l \<Rightarrow> bool \<times> 'l"
  assumes acquire_free: "try_acquire s w l = (True, l') \<Longrightarrow> \<not> held l"
    and acquire_owner: "try_acquire s w l = (True, l') \<Longrightarrow> held l' \<and> owner l' = (s, w)"
    and acquire_fail: "try_acquire s w l = (False, l') \<Longrightarrow> l' = l"
    and release_owner: "release s w l = (True, l') \<Longrightarrow> held l \<and> owner l = (s, w)"
    and release_free: "release s w l = (True, l') \<Longrightarrow> \<not> held l'"
    and release_fail: "release s w l = (False, l') \<Longrightarrow> l' = l"
    and release_possible: "held l \<Longrightarrow> owner l = (s, w) \<Longrightarrow> fst (release s w l)"
begin

lemma acquire_excludes:
  assumes "try_acquire s w l = (True, l1)"
  shows "fst (try_acquire s' w' l1) = False"
proof (rule ccontr)
  assume "fst (try_acquire s' w' l1) \<noteq> False"
  then obtain l2 where "try_acquire s' w' l1 = (True, l2)"
    by (cases "try_acquire s' w' l1") auto
  then have "\<not> held l1" by (rule acquire_free)
  with acquire_owner [OF assms] show False by simp
qed

lemma foreign_release_fails:
  assumes "held l" and "owner l \<noteq> (s, w)"
  shows "release s w l = (False, l)"
proof (cases "release s w l")
  case (Pair b l')
  show ?thesis
  proof (cases b)
    case True
    with Pair release_owner [of s w l l'] assms show ?thesis by simp
  next
    case False
    with Pair release_fail [of s w l l'] show ?thesis by simp
  qed
qed

lemma acquire_release:
  assumes "try_acquire s w l = (True, l1)"
  obtains l2 where "release s w l1 = (True, l2)" and "\<not> held l2"
proof -
  from acquire_owner [OF assms] have "fst (release s w l1)"
    using release_possible by blast
  then obtain l2 where "release s w l1 = (True, l2)"
    by (cases "release s w l1") auto
  with that release_free show thesis by blast
qed

end

interpretation rw: write_lock isWriteHeld "\<lambda>l. (w_session_id l, w_operation l)"
  tryLock_write unlock_write
  by unfold_locales
    (auto simp: rwlock_defs RW_OWNER_WRLOCKED_def Let_def split: if_splits)

end
