(* ===== verification/TC_Lock.thy ===== *)
theory TC_Lock
  imports TC_RWLock
begin

text \<open>
  Class \<open>TcLock\<close> (\<open>modules/tc/tc_lock.cc\<close>): the exclusion object of the transaction
  coordinator. It holds the configuration session, the read sessions, the read/write lock, the
  auto-save guard and the state of the UNC process. Every public method takes the global mutex
  and is therefore one step on the record \<open>TcLock\<close>; the two methods that block on the condition
  variable take the behaviour of the other threads while they wait as an argument.
\<close>

section \<open>State\<close>

record TcConfigLock =
  cl_config_id :: u32
  cl_session_id :: u32
  cl_marked_session_id :: u32
  cl_is_taken :: bool
  cl_is_notify_pending :: bool
  cl_notify_operation :: TcNotifyOperation

record TcStateLock =
  current_state :: TcState
  state_transition_in_progress :: bool

record TcLock =
  tc_config_lock :: TcConfigLock
  tc_read_lock :: "u32 set"
  tc_rwlock :: TcReadWriteLock
  tc_auto_save :: bool
  tc_state_lock :: TcStateLock
  setup_complete_done :: bool

definition TcConfigLock_new :: TcConfigLock where
  "TcConfigLock_new =
     \<lparr>cl_config_id = 0, cl_session_id = 0, cl_marked_session_id = 0, cl_is_taken = False,
      cl_is_notify_pending = False, cl_notify_operation = TC_NOTIFY_NONE\<rparr>"

definition TcStateLock_new :: TcStateLock where
  "TcStateLock_new = \<lparr>current_state = TC_INIT, state_transition_in_progress = False\<rparr>"

definition TcLock_new :: TcLock where
  "TcLock_new =
     \<lparr>tc_config_lock = TcConfigLock_new, tc_read_lock = {}, tc_rwlock = TcReadWriteLock_new,
      tc_auto_save = False, tc_state_lock = TcStateLock_new, setup_complete_done = False\<rparr>"

text \<open>
  What a blocked call observes: the successive values of the set-up flag that the busy wait of
  the driver audit polls, and the effect of the other threads during each wait on the condition
  variable. A call that needs more of them than given is still blocked and does not return.
\<close>

record lock_env =
  polls :: "bool list"
  wakes :: "(TcLock \<Rightarrow> TcLock) list"

definition no_wait :: lock_env where
  "no_wait = \<lparr>polls = [], wakes = []\<rparr>"

section \<open>State transitions of the UNC process\<close>

definition ResetTcGlobalDataOnStateTransition :: "TcLock \<Rightarrow> TcLock" where [tclock_defs]:
  "ResetTcGlobalDataOnStateTransition l =
     l\<lparr>tc_config_lock := (tc_config_lock l)
         \<lparr>cl_session_id := 0, cl_marked_session_id := 0,
          cl_notify_operation := TC_NOTIFY_NONE,
          cl_is_notify_pending := False, cl_is_taken := False\<rparr>,
       tc_read_lock := {},
       tc_rwlock := clearWriter ((tc_rwlock l)
         \<lparr>rw_owner := 1, r_owner := 1, w_owner := 0,
          r_db_mgmt_session := False, r_launcher_session := False\<rparr>),
       tc_auto_save := False,
       setup_complete_done := False\<rparr>"

definition GetUncCurrentState :: "TcLock \<Rightarrow> TcState" where [tclock_defs]:
  "GetUncCurrentState l = current_state (tc_state_lock l)"

definition IsStateTransitionInProgress :: "TcLock \<Rightarrow> bool" where [tclock_defs]:
  "IsStateTransitionInProgress l = state_transition_in_progress (tc_state_lock l)"

definition TcUpdateUncState :: "TcState \<Rightarrow> TcLock \<Rightarrow> TcLock" where [tclock_defs]:
  "TcUpdateUncState new_state l =
     (let cur = current_state (tc_state_lock l)
      in if cur \<noteq> new_state \<and> cur \<noteq> TC_STOP
         then l\<lparr>tc_state_lock := (tc_state_lock l)\<lparr>current_state := new_state\<rparr>,
                tc_rwlock := wakeUp (tc_rwlock l)\<rparr>
         else l)"

definition TcOperationIsAllowed :: "u32 \<Rightarrow> TcOperation \<Rightarrow> TcLock \<Rightarrow> TcLockRet" where [tclock_defs]:
  "TcOperationIsAllowed sid operation l =
     (let state = current_state (tc_state_lock l);
          in_state =
            (case state of
               TC_ACT \<Rightarrow> True
             | TC_SBY \<Rightarrow> operation = TC_ACQUIRE_READ_SESSION \<or>
                         operation = TC_ACQUIRE_READ_LOCK_FOR_STATE_TRANSITION
             | TC_ACT_FAIL \<Rightarrow> operation = TC_ACQUIRE_READ_SESSION \<or>
                              operation = TC_ACQUIRE_READ_LOCK_FOR_STATE_TRANSITION
             | TC_INIT \<Rightarrow> operation = TC_ACQUIRE_READ_LOCK_FOR_STATE_TRANSITION
             | TC_STOP \<Rightarrow> False);
          marked = cl_marked_session_id (tc_config_lock l)
      in if \<not> in_state then TC_LOCK_INVALID_UNC_STATE
         else if state = TC_ACT \<and> marked \<noteq> 0 \<and> marked = sid then TC_LOCK_OPERATION_NOT_ALLOWED
         else TC_LOCK_SUCCESS)"

section \<open>Configuration session\<close>

definition TC_START_CONFIG_ID :: u32 where
  "TC_START_CONFIG_ID = 1"

definition GetConfigId :: "u32 \<Rightarrow> u32" where [tclock_defs]:
  "GetConfigId config_id =
     (if config_id = UINT32_MAX then TC_START_CONFIG_ID else config_id + 1)"

definition UpdateConfigData :: "u32 \<Rightarrow> TcLock \<Rightarrow> TcLock" where [tclock_defs]:
  "UpdateConfigData sid l =
     l\<lparr>tc_config_lock := (tc_config_lock l)
         \<lparr>cl_session_id := sid,
          cl_config_id := GetConfigId (cl_config_id (tc_config_lock l)),
          cl_is_taken := True,
          cl_is_notify_pending := True,
          cl_notify_operation := TC_NOTIFY_ACQUIRE\<rparr>\<rparr>"

definition AcquireConfigLock :: "u32 \<Rightarrow> TcLock \<Rightarrow> TcLockRet \<times> TcLock" where [tclock_defs]:
  "AcquireConfigLock sid l =
     (if state_transition_in_progress (tc_state_lock l) then (TC_LOCK_OPERATION_NOT_ALLOWED, l)
      else if \<not> cl_is_taken (tc_config_lock l) \<and> \<not> cl_is_notify_pending (tc_config_lock l)
      then (TC_LOCK_SUCCESS, UpdateConfigData sid l)
      else (TC_LOCK_BUSY, l))"

definition ReleaseConfigLock :: "u32 \<Rightarrow> u32 \<Rightarrow> TcLock \<Rightarrow> TcLockRet \<times> TcLock" where [tclock_defs]:
  "ReleaseConfigLock sid config_id l =
     (let c = tc_config_lock l; rw = tc_rwlock l
      in if cl_is_taken c
         then if sid \<noteq> cl_session_id c then (TC_LOCK_INVALID_SESSION_ID, l)
              else if config_id \<noteq> cl_config_id c then (TC_LOCK_INVALID_CONFIG_ID, l)
              else if \<not> cl_is_notify_pending c \<and>
                      \<not> ((w_operation rw = TC_COMMIT \<or>
                          w_operation rw = TC_ABORT_CANDIDATE_CONFIG) \<and> isWriteHeld rw)
              then (TC_LOCK_SUCCESS,
                    l\<lparr>tc_config_lock := c\<lparr>cl_is_notify_pending := True,
                                          cl_notify_operation := TC_NOTIFY_RELEASE,
                                          cl_is_taken := False\<rparr>\<rparr>)
              else (TC_LOCK_BUSY, l)
         else (TC_LOCK_NOT_ACQUIRED, l))"

definition ForceAcquireConfigLock :: "u32 \<Rightarrow> TcLock \<Rightarrow> TcLockRet \<times> TcLock" where [tclock_defs]:
  "ForceAcquireConfigLock sid l =
     (let c = tc_config_lock l; rw = tc_rwlock l
      in if state_transition_in_progress (tc_state_lock l) then (TC_LOCK_OPERATION_NOT_ALLOWED, l)
         else if cl_is_notify_pending c \<or>
                 (cl_is_taken c \<and> isWriteHeld rw \<and>
                  (w_operation rw = TC_COMMIT \<or> w_operation rw = TC_ABORT_CANDIDATE_CONFIG))
         then (TC_LOCK_BUSY, l)
         else (TC_LOCK_SUCCESS, UpdateConfigData sid l))"

definition TcMarkSessionId :: "u32 \<Rightarrow> TcLock \<Rightarrow> TcLockRet \<times> TcLock" where [tclock_defs]:
  "TcMarkSessionId sid l =
     (let c = tc_config_lock l
      in if cl_is_taken c \<and> cl_marked_session_id c = 0 \<and> sid = cl_session_id c
         then (TC_LOCK_SUCCESS, l\<lparr>tc_config_lock := c\<lparr>cl_marked_session_id := sid\<rparr>\<rparr>)
         else (TC_LOCK_FAILURE, l))"

definition GetMarkedSessionId :: "TcLock \<Rightarrow> u32" where [tclock_defs]:
  "GetMarkedSessionId l = cl_marked_session_id (tc_config_lock l)"

definition NotifyConfigIdSessionIdDone ::
  "u32 \<Rightarrow> u32 \<Rightarrow> TcNotifyOperation \<Rightarrow> TcLock \<Rightarrow> TcLockRet \<times> TcLock" where [tclock_defs]:
  "NotifyConfigIdSessionIdDone config_id sid config_notify_operation l =
     (let c = tc_config_lock l
      in if cl_notify_operation c \<noteq> config_notify_operation then (TC_LOCK_INVALID_OPERATION, l)
         else if cl_session_id c = sid
         then if cl_config_id c \<noteq> config_id then (TC_LOCK_INVALID_CONFIG_ID, l)
              else let c1 = c\<lparr>cl_notify_operation := TC_NOTIFY_NONE,
                              cl_is_notify_pending := False\<rparr>;
                       c2 = (if config_notify_operation = TC_NOTIFY_RELEASE
                             then c1\<lparr>cl_session_id := 0\<rparr> else c1);
                       c3 = (if cl_marked_session_id c2 = sid
                             then c2\<lparr>cl_marked_session_id := 0\<rparr> else c2)
                   in (TC_LOCK_SUCCESS, l\<lparr>tc_config_lock := c3\<rparr>)
         else (TC_LOCK_INVALID_SESSION_ID, l))"

text \<open>
  The two out-parameters of \<open>GetConfigIdSessionId\<close> are the values the pointers refer to before
  and after the call, \<open>None\<close> for a null pointer.
\<close>

definition GetConfigIdSessionId ::
  "u32 option \<Rightarrow> u32 option \<Rightarrow> TcLock \<Rightarrow> TcLockRet \<times> u32 option \<times> u32 option" where [tclock_defs]:
  "GetConfigIdSessionId sid_p cid_p l =
     (if sid_p = None \<or> cid_p = None then (TC_LOCK_INVALID_PARAMS, sid_p, cid_p)
      else if current_state (tc_state_lock l) \<noteq> TC_ACT then (TC_LOCK_INVALID_UNC_STATE, sid_p, cid_p)
      else if cl_is_taken (tc_config_lock l)
      then (TC_LOCK_SUCCESS, Some (cl_session_id (tc_config_lock l)),
            Some (cl_config_id (tc_config_lock l)))
      else (TC_LOCK_NO_CONFIG_SESSION_EXIST, Some 0, Some 0))"

section \<open>Read sessions and the state transition lock\<close>

definition AcquireReadLock :: "u32 \<Rightarrow> TcLock \<Rightarrow> TcLockRet \<times> TcLock" where [tclock_defs]:
  "AcquireReadLock sid l =
     (let (ok, rw1) = tryLock_read sid (tc_rwlock l)
      in if \<not> ok then (TC_LOCK_BUSY, l)
         else if sid \<in> tc_read_lock l
         then (TC_LOCK_ALREADY_ACQUIRED, l\<lparr>tc_rwlock := unlock_read sid rw1\<rparr>)
         else (TC_LOCK_SUCCESS, l\<lparr>tc_rwlock := rw1, tc_read_lock := insert sid (tc_read_lock l)\<rparr>))"

definition ReleaseReadLock :: "u32 \<Rightarrow> TcLock \<Rightarrow> TcLockRet \<times> TcLock" where [tclock_defs]:
  "ReleaseReadLock sid l =
     (if sid \<notin> tc_read_lock l then (TC_LOCK_NOT_ACQUIRED, l)
      else (TC_LOCK_SUCCESS,
            l\<lparr>tc_read_lock := tc_read_lock l - {sid},
              tc_rwlock := unlock_read sid (tc_rwlock l)\<rparr>))"

definition waitForRead :: "(TcLock \<Rightarrow> TcLock) \<Rightarrow> TcLock \<Rightarrow> TcLock" where [tclock_defs]:
  "waitForRead f l =
     (let l1 = f (l\<lparr>tc_rwlock := waitForRead_enter (tc_rwlock l)\<rparr>)
      in l1\<lparr>tc_rwlock := waitForRead_leave (tc_rwlock l1)\<rparr>)"

definition waitForWrite :: "(TcLock \<Rightarrow> TcLock) \<Rightarrow> TcLock \<Rightarrow> TcLock" where [tclock_defs]:
  "waitForWrite f l =
     (let l1 = f (l\<lparr>tc_rwlock := waitForWrite_enter (tc_rwlock l)\<rparr>)
      in l1\<lparr>tc_rwlock := waitForWrite_leave (tc_rwlock l1)\<rparr>)"

definition transition_ready :: "u32 \<Rightarrow> TcLock \<Rightarrow> bool" where [tclock_defs]:
  "transition_ready sid l \<longleftrightarrow>
     canReadLock sid (tc_rwlock l) \<and> \<not> state_transition_in_progress (tc_state_lock l)"

definition enter_transition :: "u32 \<Rightarrow> TcLock \<Rightarrow> TcLock" where [tclock_defs]:
  "enter_transition sid l =
     l\<lparr>tc_state_lock := (tc_state_lock l)\<lparr>state_transition_in_progress := True\<rparr>,
       tc_rwlock := setReader sid (tc_rwlock l)\<rparr>"

fun transition_loop :: "(TcLock \<Rightarrow> TcLock) list \<Rightarrow> u32 \<Rightarrow> TcLock \<Rightarrow> (TcLockRet \<times> TcLock) option" where
  "transition_loop [] sid l =
     (if transition_ready sid l then Some (TC_LOCK_SUCCESS, enter_transition sid l) else None)"
| "transition_loop (f # fs) sid l =
     (if transition_ready sid l then Some (TC_LOCK_SUCCESS, enter_transition sid l)
      else let l1 = waitForRead f l
           in if current_state (tc_state_lock l1) = TC_STOP
              then Some (TC_LOCK_INVALID_UNC_STATE, l1)
              else transition_loop fs sid l1)"

definition TcAcquireReadLockForStateTransition ::
  "lock_env \<Rightarrow> u32 \<Rightarrow> TcLock \<Rightarrow> (TcLockRet \<times> TcLock) option" where [tclock_defs]:
  "TcAcquireReadLockForStateTransition e sid l =
     (if current_state (tc_state_lock l) = TC_STOP then None
      else transition_loop (wakes e) sid l)"

definition TcReleaseReadLockForStateTransition :: "u32 \<Rightarrow> TcLock \<Rightarrow> TcLockRet \<times> TcLock" where [tclock_defs]:
  "TcReleaseReadLockForStateTransition sid l =
     (if state_transition_in_progress (tc_state_lock l)
      then (TC_LOCK_SUCCESS,
            l\<lparr>tc_state_lock := (tc_state_lock l)\<lparr>state_transition_in_progress := False\<rparr>,
              tc_rwlock := unlock_read sid (tc_rwlock l)\<rparr>)
      else (TC_LOCK_NOT_ACQUIRED, l))"

section \<open>The write lock\<close>

fun wait_setup_complete :: "bool list \<Rightarrow> TcLock \<Rightarrow> TcLock option" where
  "wait_setup_complete [] l = (if setup_complete_done l then Some l else None)"
| "wait_setup_complete (b # bs) l =
     (if setup_complete_done l then Some l
      else wait_setup_complete bs (l\<lparr>setup_complete_done := b\<rparr>))"

fun audit_driver_loop :: "(TcLock \<Rightarrow> TcLock) list \<Rightarrow> u32 \<Rightarrow> TcLock \<Rightarrow> (TcLockRet \<times> TcLock) option" where
  "audit_driver_loop [] sid l =
     (if canWriteLock (tc_rwlock l)
      then Some (TC_LOCK_SUCCESS, l\<lparr>tc_rwlock := setWriter sid TC_AUDIT_DRIVER (tc_rwlock l)\<rparr>)
      else None)"
| "audit_driver_loop (f # fs) sid l =
     (if canWriteLock (tc_rwlock l)
      then Some (TC_LOCK_SUCCESS, l\<lparr>tc_rwlock := setWriter sid TC_AUDIT_DRIVER (tc_rwlock l)\<rparr>)
      else let l1 = waitForWrite f l;
               ret = TcOperationIsAllowed sid TC_ACQUIRE_WRITE_SESSION l1
           in if ret \<noteq> TC_LOCK_SUCCESS then Some (ret, l1) else audit_driver_loop fs sid l1)"

definition AcquireWriteLockForAuditDriver ::
  "lock_env \<Rightarrow> u32 \<Rightarrow> TcLock \<Rightarrow> (TcLockRet \<times> TcLock) option" where [tclock_defs]:
  "AcquireWriteLockForAuditDriver e sid l =
     do { l1 \<leftarrow> wait_setup_complete (polls e) l; audit_driver_loop (wakes e) sid l1 }"

definition try_write :: "u32 \<Rightarrow> TcWriteOperation \<Rightarrow> TcLock \<Rightarrow> TcLockRet \<times> TcLock" where [tclock_defs]:
  "try_write sid wop l =
     (let (ok, rw1) = tryLock_write sid wop (tc_rwlock l)
      in if ok then (TC_LOCK_SUCCESS, l\<lparr>tc_rwlock := rw1\<rparr>) else (TC_LOCK_BUSY, l))"

definition AcquireWriteLockForCommit :: "u32 \<Rightarrow> TcLock \<Rightarrow> TcLockRet \<times> TcLock" where [tclock_defs]:
  "AcquireWriteLockForCommit sid l =
     (let c = tc_config_lock l
      in if \<not> cl_is_taken c \<or> cl_is_notify_pending c \<or> cl_session_id c \<noteq> sid then (TC_LOCK_BUSY, l)
         else try_write sid TC_COMMIT l)"

definition AcquireWriteLockForAbortCandidateConfig :: "u32 \<Rightarrow> TcLock \<Rightarrow> TcLockRet \<times> TcLock" where [tclock_defs]:
  "AcquireWriteLockForAbortCandidateConfig sid l =
     (let c = tc_config_lock l
      in if \<not> cl_is_taken c \<or> cl_is_notify_pending c \<or> cl_session_id c \<noteq> sid then (TC_LOCK_BUSY, l)
         else try_write sid TC_ABORT_CANDIDATE_CONFIG l)"

definition AcquireWriteLockForAuditUser :: "u32 \<Rightarrow> TcLock \<Rightarrow> TcLockRet \<times> TcLock" where [tclock_defs]:
  "AcquireWriteLockForAuditUser sid l = try_write sid TC_AUDIT_USER l"

definition AcquireWriteLockForSaveStartupConfig :: "u32 \<Rightarrow> TcLock \<Rightarrow> TcLockRet \<times> TcLock" where [tclock_defs]:
  "AcquireWriteLockForSaveStartupConfig sid l = try_write sid TC_SAVE_STARTUP_CONFIG l"

definition AcquireWriteLockForClearStartupConfig :: "u32 \<Rightarrow> TcLock \<Rightarrow> TcLockRet \<times> TcLock" where [tclock_defs]:
  "AcquireWriteLockForClearStartupConfig sid l = try_write sid TC_CLEAR_STARTUP_CONFIG l"

definition AcquireWriteLock ::
  "lock_env \<Rightarrow> u32 \<Rightarrow> TcWriteOperation \<Rightarrow> TcLock \<Rightarrow> (TcLockRet \<times> TcLock) option" where [tclock_defs]:
  "AcquireWriteLock e sid write_operation l =
     (case write_operation of
        TC_AUDIT_DRIVER \<Rightarrow> AcquireWriteLockForAuditDriver e sid l
      | TC_COMMIT \<Rightarrow> Some (AcquireWriteLockForCommit sid l)
      | TC_ABORT_CANDIDATE_CONFIG \<Rightarrow> Some (AcquireWriteLockForAbortCandidateConfig sid l)
      | TC_AUDIT_USER \<Rightarrow> Some (AcquireWriteLockForAuditUser sid l)
      | TC_CLEAR_STARTUP_CONFIG \<Rightarrow> Some (AcquireWriteLockForClearStartupConfig sid l)
      | TC_SAVE_STARTUP_CONFIG \<Rightarrow> Some (AcquireWriteLockForSaveStartupConfig sid l)
      | TC_WRITE_NONE \<Rightarrow> Some (TC_LOCK_INVALID_OPERATION, l))"

definition ReleaseWriteLock :: "u32 \<Rightarrow> TcWriteOperation \<Rightarrow> TcLock \<Rightarrow> TcLockRet \<times> TcLock" where [tclock_defs]:
  "ReleaseWriteLock sid write_operation l =
     (let (ok, rw1) = unlock_write sid write_operation (tc_rwlock l)
      in (if ok then TC_LOCK_SUCCESS else TC_LOCK_NOT_ACQUIRED, l\<lparr>tc_rwlock := rw1\<rparr>))"

definition AutoSaveEnable :: "TcLock \<Rightarrow> TcLockRet \<times> TcLock" where [tclock_defs]:
  "AutoSaveEnable l =
     (if tc_auto_save l then (TC_LOCK_BUSY, l) else (TC_LOCK_SUCCESS, l\<lparr>tc_auto_save := True\<rparr>))"

definition AutoSaveDisable :: "TcLock \<Rightarrow> TcLockRet \<times> TcLock" where [tclock_defs]:
  "AutoSaveDisable l =
     (if tc_auto_save l then (TC_LOCK_SUCCESS, l\<lparr>tc_auto_save := False\<rparr>) else (TC_LOCK_FAILURE, l))"

section \<open>The interface to the operation handlers\<close>

definition acquire_autosave ::
  "lock_env \<Rightarrow> u32 \<Rightarrow> TcWriteOperation \<Rightarrow> TcLock \<Rightarrow> (TcLockRet \<times> TcLock) option" where [tclock_defs]:
  "acquire_autosave e sid wop l =
     (let (ret, l1) = AutoSaveEnable l
      in if ret = TC_LOCK_SUCCESS
         then do { (ret2, l2) \<leftarrow> AcquireWriteLock e sid wop l1;
                   if ret2 \<noteq> TC_LOCK_SUCCESS then Some (ret2, snd (AutoSaveDisable l2))
                   else Some (ret2, l2) }
         else Some (ret, l1))"

definition release_autosave :: "u32 \<Rightarrow> TcWriteOperation \<Rightarrow> TcLock \<Rightarrow> TcLockRet \<times> TcLock" where [tclock_defs]:
  "release_autosave sid wop l =
     (let (ret, l1) = AutoSaveDisable l
      in if ret = TC_LOCK_SUCCESS
         then let (ret2, l2) = ReleaseWriteLock sid wop l1
              in if ret2 \<noteq> TC_LOCK_SUCCESS then (ret2, snd (AutoSaveEnable l2)) else (ret2, l2)
         else (ret, l1))"

definition GetLock ::
  "lock_env \<Rightarrow> u32 \<Rightarrow> TcOperation \<Rightarrow> TcWriteOperation \<Rightarrow> TcLock \<Rightarrow> (TcLockRet \<times> TcLock) option"
  where [tclock_defs]:
  "GetLock e sid tc_operation write_operation l =
     (let ret = TcOperationIsAllowed sid tc_operation l
      in if ret \<noteq> TC_LOCK_SUCCESS then Some (ret, l)
         else case tc_operation of
           TC_ACQUIRE_CONFIG_SESSION \<Rightarrow> Some (AcquireConfigLock sid l)
         | TC_ACQUIRE_READ_SESSION \<Rightarrow> Some (AcquireReadLock sid l)
         | TC_ACQUIRE_WRITE_SESSION \<Rightarrow> AcquireWriteLock e sid write_operation l
         | TC_FORCE_ACQUIRE_CONFIG_SESSION \<Rightarrow> Some (ForceAcquireConfigLock sid l)
         | TC_AUTO_SAVE_ENABLE \<Rightarrow> acquire_autosave e sid TC_CLEAR_STARTUP_CONFIG l
         | TC_AUTO_SAVE_DISABLE \<Rightarrow> acquire_autosave e sid TC_SAVE_STARTUP_CONFIG l
         | TC_AUTO_SAVE_GET \<Rightarrow> Some (AutoSaveEnable l)
         | TC_ACQUIRE_READ_LOCK_FOR_STATE_TRANSITION \<Rightarrow> TcAcquireReadLockForStateTransition e sid l
         | _ \<Rightarrow> Some (TC_LOCK_INVALID_OPERATION, l))"

definition ReleaseLock ::
  "u32 \<Rightarrow> u32 \<Rightarrow> TcOperation \<Rightarrow> TcWriteOperation \<Rightarrow> TcLock \<Rightarrow> TcLockRet \<times> TcLock"
  where [tclock_defs]:
  "ReleaseLock sid config_id tc_operation write_operation l =
     (case tc_operation of
        TC_RELEASE_CONFIG_SESSION \<Rightarrow> ReleaseConfigLock sid config_id l
      | TC_RELEASE_READ_SESSION \<Rightarrow> ReleaseReadLock sid l
      | TC_RELEASE_WRITE_SESSION \<Rightarrow> ReleaseWriteLock sid write_operation l
      | TC_AUTO_SAVE_ENABLE \<Rightarrow> release_autosave sid TC_CLEAR_STARTUP_CONFIG l
      | TC_AUTO_SAVE_DISABLE \<Rightarrow> release_autosave sid TC_SAVE_STARTUP_CONFIG l
      | TC_AUTO_SAVE_GET \<Rightarrow> AutoSaveDisable l
      | TC_RELEASE_READ_LOCK_FOR_STATE_TRANSITION \<Rightarrow> TcReleaseReadLockForStateTransition sid l
      | _ \<Rightarrow> (TC_LOCK_INVALID_OPERATION, l))"

definition GetSessionOperation :: "u32 \<Rightarrow> TcLock \<Rightarrow> TcSessionOperationProgress" where [tclock_defs]:
  "GetSessionOperation sid l =
     (let rw = tc_rwlock l; c = tc_config_lock l; wop = w_operation rw;
          w = isWriteHeld_by sid rw;
          cfg = (cl_is_taken c \<or> cl_is_notify_pending c) \<and> cl_session_id c = sid
      in if w \<and> wop = TC_COMMIT \<and> cl_is_taken c then TC_CONFIG_COMMIT_PROGRESS
         else if w \<and> wop = TC_AUDIT_USER then TC_WRITE_AUDIT_USER_PROGRESS
         else if w \<and> wop = TC_AUDIT_DRIVER then TC_WRITE_AUDIT_DRIVER_PROGRESS
         else if w \<and> wop = TC_ABORT_CANDIDATE_CONFIG \<and> cl_is_taken c
              then TC_WRITE_ABORT_CANDIDATE_CONFIG_PROGRESS
         else if w \<and> wop = TC_SAVE_STARTUP_CONFIG then TC_WRITE_SAVE_STARTUP_CONFIG_PROGRESS
         else if w \<and> wop = TC_CLEAR_STARTUP_CONFIG then TC_WRITE_CLEAR_STARTUP_CONFIG_PROGRESS
         else if cfg \<and> cl_notify_operation c = TC_NOTIFY_NONE then TC_CONFIG_NO_NOTIFY_PROGRESS
         else if cfg \<and> cl_notify_operation c = TC_NOTIFY_ACQUIRE
              then TC_CONFIG_NOTIFY_ACQUIRE_PROGRESS
         else if cfg \<and> cl_notify_operation c = TC_NOTIFY_RELEASE
              then TC_CONFIG_NOTIFY_RELEASE_PROGRESS
         else if sid \<in> tc_read_lock l then TC_READ_PROGRESS
         else TC_NO_OPERATION_PROGRESS)"

definition TcInitWRLock :: "bool \<Rightarrow> TcLock \<Rightarrow> TcLock" where [tclock_defs]:
  "TcInitWRLock simultaneous_read_write_allowed l =
     l\<lparr>tc_rwlock := rw_init USESS_ID_DB_MGMT USESS_ID_LAUNCHER simultaneous_read_write_allowed
                     (tc_rwlock l)\<rparr>"

definition TcSetSetupComplete :: "bool \<Rightarrow> TcLock \<Rightarrow> TcLock" where [tclock_defs]:
  "TcSetSetupComplete is_done l = l\<lparr>setup_complete_done := is_done\<rparr>"

definition TcIsSetupCompleteDone :: "TcLock \<Rightarrow> bool" where [tclock_defs]:
  "TcIsSetupCompleteDone l = setup_complete_done l"

end
