(* ===== verification/TC_Db.thy ===== *)
theory TC_Db
  imports TC_Msg
begin

text \<open>
  Class \<open>TcDbHandler\<close> (\<open>modules/tc/tc_db_handler.cc\<close>): the two tables of the transaction
  coordinator, the configuration table with the auto-save flag and the recovery table with the
  operation that was under way.

  The ODBC driver and the database behind it are a parameter: a record of functions from the history
  of all previous calls to the outcome of the next one. An executed statement is an event of
  the history, with its text; that the database gives back what was last written is the named
  hypothesis \<open>recovery_store\<close> of the theorems that need it.
\<close>

section \<open>The ODBC driver\<close>

datatype SQLRETURN = SQL_SUCCESS | SQL_SUCCESS_WITH_INFO | SQL_NO_DATA | SQL_ERROR

definition sql_ok :: "SQLRETURN \<Rightarrow> bool" where
  "sql_ok r \<longleftrightarrow> r = SQL_SUCCESS \<or> r = SQL_SUCCESS_WITH_INFO"

text \<open>
  \<open>odbc_text\<close> and \<open>odbc_ints\<close> are the contents of the bound buffers after a fetch, \<open>None\<close> for
  a column that is null.
\<close>

record odbc_env =
  odbc_ret :: "history \<Rightarrow> SQLRETURN"
  odbc_rows :: "history \<Rightarrow> int"
  odbc_text :: "history \<Rightarrow> string option"
  odbc_ints :: "history \<Rightarrow> int option \<times> int option \<times> int option"

type_synonym 'a db_prog = "(history, 'a) state"

definition odbc_call :: "odbc_env \<Rightarrow> SQLRETURN db_prog" where
  "odbc_call env = State (\<lambda>h. (odbc_ret env h, h @ [EvOdbc]))"

definition odbc_exec :: "odbc_env \<Rightarrow> string \<Rightarrow> SQLRETURN db_prog" where
  "odbc_exec env q = State (\<lambda>h. (odbc_ret env h, h @ [EvSql q (sql_ok (odbc_ret env h))]))"

section \<open>Text of the statements\<close>

text \<open>\<open>snprintf\<close> with \<open>%d\<close> into a buffer of four bytes keeps three characters.\<close>

fun decimal :: "nat \<Rightarrow> string" where
  "decimal n = (if n < 10 then [char_of (48 + n)] else decimal (n div 10) @ [char_of (48 + n mod 10)])"

declare decimal.simps [simp del]

definition print_d :: "u32 \<Rightarrow> string" where
  "print_d x = (if sint x < 0 then ''-'' @ decimal (nat (- sint x)) else decimal (nat (sint x)))"

definition inttostr :: "u32 \<Rightarrow> string" where
  "inttostr x = take 3 (print_d x)"

definition SAVE_CONF_TABLE :: string where "SAVE_CONF_TABLE = ''TC_UNC_CONF_TABLE''"

definition RECOVERY_TABLE :: string where "RECOVERY_TABLE = ''TC_RECOVERY_TABLE''"

definition update_conf_query :: "bool \<Rightarrow> string" where
  "update_conf_query auto_save =
     ''UPDATE '' @ SAVE_CONF_TABLE @ '' SET auto_save='' @ [CHR 0x27] @
     (if auto_save then ''true'' else ''false'') @ [CHR 0x27] @
     '',date_time=CURRENT_TIMESTAMP WHERE auto_save >= '' @ [CHR 0x27] @ ''0'' @ [CHR 0x27] @ '';''"

definition update_recovery_query :: "u32 \<Rightarrow> u32 \<Rightarrow> u32 \<Rightarrow> string" where
  "update_recovery_query data_base operation failover_instance =
     ''UPDATE TC_RECOVERY_TABLE SET database='' @ inttostr data_base @
     '',operation='' @ inttostr operation @
     '',failover_instance='' @ inttostr failover_instance @
     '',date_time=CURRENT_TIMESTAMP WHERE database >= 0;''"

section \<open>Operations on the tables\<close>

definition IsRowExists :: "odbc_env \<Rightarrow> string \<Rightarrow> string \<Rightarrow> TcOperRet db_prog" where
  "IsRowExists env table_name attribute =
     do { r \<leftarrow> odbc_call env;
          if \<not> sql_ok r then State_Monad.return TCOPER_RET_FATAL
          else do {
            r \<leftarrow> odbc_exec env (''SELECT '' @ attribute @ '' FROM '' @ table_name);
            if \<not> sql_ok r then State_Monad.return TCOPER_RET_FATAL
            else do {
              h \<leftarrow> State_Monad.get;
              r \<leftarrow> odbc_call env;
              if \<not> sql_ok r then State_Monad.return TCOPER_RET_FATAL
              else if odbc_rows env h = 0 then State_Monad.return TCOPER_RET_FAILURE
              else State_Monad.return TCOPER_RET_SUCCESS } } }"

definition SetDefaultConfTable :: "odbc_env \<Rightarrow> TcOperRet db_prog" where
  "SetDefaultConfTable env =
     do { retval \<leftarrow> IsRowExists env SAVE_CONF_TABLE ''auto_save'';
          if retval \<noteq> TCOPER_RET_FAILURE then State_Monad.return retval
          else do {
            r \<leftarrow> odbc_call env;
            if \<not> sql_ok r then State_Monad.return TCOPER_RET_FAILURE
            else do {
              r \<leftarrow> odbc_exec env (''INSERT INTO '' @ SAVE_CONF_TABLE @ ''(auto_save,date_time)'' @
                                  '' VALUES(false,CURRENT_TIMESTAMP);'');
              State_Monad.return (if sql_ok r then TCOPER_RET_SUCCESS else TCOPER_RET_FAILURE) } } }"

definition UpdateConfTable :: "odbc_env \<Rightarrow> bool \<Rightarrow> TcOperRet db_prog" where
  "UpdateConfTable env auto_save =
     do { retval \<leftarrow> IsRowExists env SAVE_CONF_TABLE ''auto_save'';
          if retval \<noteq> TCOPER_RET_SUCCESS then State_Monad.return retval
          else do {
            r \<leftarrow> odbc_call env;
            if \<not> sql_ok r then State_Monad.return TCOPER_RET_FAILURE
            else do {
              r \<leftarrow> odbc_exec env (update_conf_query auto_save);
              State_Monad.return (if sql_ok r then TCOPER_RET_SUCCESS else TCOPER_RET_FAILURE) } } }"

text \<open>The flag that the caller passes is its value before the call; it is given back.\<close>

definition GetConfTable :: "odbc_env \<Rightarrow> bool \<Rightarrow> (TcOperRet \<times> bool) db_prog" where
  "GetConfTable env auto_save =
     do { retval \<leftarrow> IsRowExists env SAVE_CONF_TABLE ''auto_save'';
          if retval \<noteq> TCOPER_RET_SUCCESS then State_Monad.return (retval, auto_save)
          else do {
            r \<leftarrow> odbc_call env;
            if \<not> sql_ok r then State_Monad.return (TCOPER_RET_FAILURE, auto_save)
            else do {
              r \<leftarrow> odbc_call env;
              if \<not> sql_ok r then State_Monad.return (TCOPER_RET_FAILURE, auto_save)
              else do {
                r \<leftarrow> odbc_exec env ''SELECT auto_save FROM TC_UNC_CONF_TABLE'';
                if \<not> sql_ok r then State_Monad.return (TCOPER_RET_FAILURE, auto_save)
                else do {
                  h \<leftarrow> State_Monad.get;
                  r \<leftarrow> odbc_call env;
                  if r = SQL_SUCCESS
                  then State_Monad.return (TCOPER_RET_SUCCESS,
                         (case odbc_text env h of
                            None \<Rightarrow> False
                          | Some ret_data \<Rightarrow>
                              \<not> (take 1 ret_data = ''0'' \<or> take 1 ret_data = ''f'' \<or> take 1 ret_data = ''F'')))
                  else State_Monad.return (TCOPER_RET_SUCCESS, auto_save) } } } } }"

definition SetDefaultRecoveryTable :: "odbc_env \<Rightarrow> TcOperRet db_prog" where
  "SetDefaultRecoveryTable env =
     do { retval \<leftarrow> IsRowExists env RECOVERY_TABLE ''database'';
          if retval \<noteq> TCOPER_RET_FAILURE then State_Monad.return retval
          else do {
            r \<leftarrow> odbc_call env;
            if \<not> sql_ok r then State_Monad.return TCOPER_RET_FAILURE
            else do {
              r \<leftarrow> odbc_exec env (''INSERT INTO '' @ RECOVERY_TABLE @
                     ''(database,operation,failover_instance,date_time)'' @ '' VALUES('' @
                     inttostr UNC_DT_INVALID @ '','' @ inttostr TC_OP_INVALID @ '','' @ inttostr 0 @
                     '',CURRENT_TIMESTAMP);'');
              State_Monad.return TCOPER_RET_SUCCESS } } }"

text \<open>\<open>None\<close> when the check of the attributes stops the process.\<close>

definition UpdateRecoveryTable :: "odbc_env \<Rightarrow> u32 \<Rightarrow> u32 \<Rightarrow> u32 \<Rightarrow> TcOperRet option db_prog" where
  "UpdateRecoveryTable env data_base operation failover_instance =
     do { retval \<leftarrow> IsRowExists env RECOVERY_TABLE ''database'';
          if retval \<noteq> TCOPER_RET_SUCCESS then State_Monad.return (Some retval)
          else case ValidateAuditDBAttributes data_base operation of
            None \<Rightarrow> State_Monad.return None
          | Some v \<Rightarrow>
              if v \<noteq> TCOPER_RET_SUCCESS then State_Monad.return (Some TCOPER_RET_FAILURE)
              else do {
                r \<leftarrow> odbc_call env;
                if \<not> sql_ok r then State_Monad.return (Some TCOPER_RET_FAILURE)
                else do {
                  r \<leftarrow> odbc_exec env (update_recovery_query data_base operation failover_instance);
                  State_Monad.return
                    (Some (if sql_ok r then TCOPER_RET_SUCCESS else TCOPER_RET_FAILURE)) } } }"

definition get_recovery_query :: string where
  "get_recovery_query = ''SELECT database,operation,failover_instance '' @ ''FROM TC_RECOVERY_TABLE''"

definition GetRecoveryTable ::
  "odbc_env \<Rightarrow> u32 \<Rightarrow> u32 \<Rightarrow> u32 \<Rightarrow> (TcOperRet \<times> u32 \<times> u32 \<times> u32) db_prog" where
  "GetRecoveryTable env db oper failover_instance =
     do { retval \<leftarrow> IsRowExists env RECOVERY_TABLE ''database'';
          let unchanged = (db, oper, failover_instance);
          if retval \<noteq> TCOPER_RET_SUCCESS then State_Monad.return (retval, unchanged)
          else do {
            r \<leftarrow> odbc_call env;
            if \<not> sql_ok r then State_Monad.return (TCOPER_RET_FAILURE, unchanged)
            else do {
              r \<leftarrow> odbc_call env;
              if \<not> sql_ok r then State_Monad.return (TCOPER_RET_FAILURE, unchanged)
              else do {
                r \<leftarrow> odbc_call env;
                if \<not> sql_ok r then State_Monad.return (TCOPER_RET_FAILURE, unchanged)
                else do {
                  r \<leftarrow> odbc_call env;
                  if \<not> sql_ok r then State_Monad.return (TCOPER_RET_FAILURE, unchanged)
                  else do {
                    r \<leftarrow> odbc_exec env get_recovery_query;
                    if \<not> sql_ok r then State_Monad.return (TCOPER_RET_FAILURE, unchanged)
                    else do {
                      h \<leftarrow> State_Monad.get;
                      r \<leftarrow> odbc_call env;
                      if r \<noteq> SQL_NO_DATA
                      then let (dbase, op, fail_inst) = odbc_ints env h
                           in State_Monad.return (TCOPER_RET_SUCCESS,
                                (case dbase of None \<Rightarrow> UNC_DT_INVALID | Some x \<Rightarrow> of_int x),
                                (case op of None \<Rightarrow> TC_OP_INVALID | Some x \<Rightarrow> of_int x),
                                (case fail_inst of None \<Rightarrow> 1 | Some x \<Rightarrow> of_int x))
                      else State_Monad.return (TCOPER_RET_SUCCESS, unchanged) } } } } } } }"

definition InitTcDbTables :: "odbc_env \<Rightarrow> TcOperRet db_prog" where
  "InitTcDbTables env =
     do { r \<leftarrow> SetDefaultConfTable env;
          if r \<noteq> TCOPER_RET_SUCCESS then State_Monad.return TCOPER_RET_FAILURE
          else do {
            r \<leftarrow> SetDefaultRecoveryTable env;
            State_Monad.return
              (if r = TCOPER_RET_SUCCESS then TCOPER_RET_SUCCESS else TCOPER_RET_FAILURE) } }"

definition InitDB :: "odbc_env \<Rightarrow> TcOperRet db_prog" where
  "InitDB env = InitTcDbTables env"

section \<open>Strings for the log\<close>

definition ConvertAutoSaveString :: "bool \<Rightarrow> string" where
  "ConvertAutoSaveString autosave = (if autosave then ''AUTOSAVE ENABLED'' else ''AUTOSAVE DISABLED'')"

definition ConvertDbasetoString :: "u32 \<Rightarrow> string" where
  "ConvertDbasetoString dbase =
     (if dbase = UNC_DT_CANDIDATE then ''CANDIDATE DB''
      else if dbase = UNC_DT_RUNNING then ''RUNNING DB''
      else if dbase = UNC_DT_STARTUP then ''STARTUP DB''
      else ''INVALID DB'')"

definition ConvertOptoString :: "u32 \<Rightarrow> string" where
  "ConvertOptoString op =
     (if op = TC_OP_CANDIDATE_COMMIT then ''COMMIT OPERATION''
      else if op = TC_OP_CANDIDATE_ABORT then ''CANDIDATE ABORT OPERATION''
      else if op = TC_OP_RUNNING_SAVE then ''SAVE STARTUP''
      else if op = TC_OP_CLEAR_STARTUP then ''CLEAR STARTUP''
      else if op = TC_OP_USER_AUDIT then ''USER AUDIT''
      else if op = TC_OP_DRIVER_AUDIT then ''DRIVER AUDIT''
      else ''INVALID OP'')"

section \<open>The connection\<close>

text \<open>A handle is null, allocated, or freed; the pointer of a freed handle is not reset.\<close>

datatype handle = HNull | HLive | HFreed

record TcDbHandler =
  dsn_name :: string
  db_env :: handle
  db_conn_handle :: handle

definition GetDBConnectString :: "TcDbHandler \<Rightarrow> string" where
  "GetDBConnectString d = ''DSN='' @ dsn_name d"

type_synonym 'a conn_prog = "TcDbHandler \<times> history \<Rightarrow> 'a \<times> TcDbHandler \<times> history"

definition SetConnectionEnv :: "odbc_env \<Rightarrow> TcOperRet conn_prog" where
  "SetConnectionEnv env s =
     (let (d, h) = s; h1 = h @ [EvOdbc]; h2 = h1 @ [EvOdbc]; h3 = h2 @ [EvOdbc]
      in if \<not> sql_ok (odbc_ret env h) then (TCOPER_RET_FAILURE, d\<lparr>db_env := HNull\<rparr>, h1)
         else if \<not> sql_ok (odbc_ret env h1) then (TCOPER_RET_FAILURE, d\<lparr>db_env := HFreed\<rparr>, h2)
         else if \<not> sql_ok (odbc_ret env h2)
         then (TCOPER_RET_FAILURE, d\<lparr>db_env := HFreed, db_conn_handle := HNull\<rparr>, h3)
         else (TCOPER_RET_SUCCESS, d\<lparr>db_env := HLive, db_conn_handle := HLive\<rparr>, h3))"

definition OpenDBConnection :: "odbc_env \<Rightarrow> TcOperRet conn_prog" where
  "OpenDBConnection env s =
     (let (r, d, h) = SetConnectionEnv env s
      in if r = TCOPER_RET_FAILURE then (TCOPER_RET_FAILURE, d, h)
         else if \<not> sql_ok (odbc_ret env h)
         then (TCOPER_RET_FAILURE, d\<lparr>db_conn_handle := HFreed, db_env := HFreed\<rparr>, h @ [EvOdbc])
         else (TCOPER_RET_SUCCESS, d, h @ [EvOdbc]))"

definition CloseDBConnection :: "odbc_env \<Rightarrow> TcOperRet conn_prog" where
  "CloseDBConnection env s =
     (let (d, h) = s; h1 = h @ [EvOdbc]; h2 = h1 @ [EvOdbc];
          (ok, d1, hc) =
            (if db_conn_handle d = HNull then (True, d, h)
             else if odbc_ret env h \<noteq> SQL_SUCCESS then (False, d, h1)
             else if odbc_ret env h1 \<noteq> SQL_SUCCESS then (False, d, h2)
             else (True, d\<lparr>db_conn_handle := HFreed\<rparr>, h2))
      in if \<not> ok then (TCOPER_RET_FAILURE, d1, hc)
         else if db_env d1 = HNull then (TCOPER_RET_SUCCESS, d1, hc)
         else if odbc_ret env hc \<noteq> SQL_SUCCESS then (TCOPER_RET_FAILURE, d1, hc @ [EvOdbc])
         else (TCOPER_RET_SUCCESS, d1\<lparr>db_env := HFreed\<rparr>, hc @ [EvOdbc]))"

definition TcDbHandler_new :: "odbc_env \<Rightarrow> string \<Rightarrow> history \<Rightarrow> TcDbHandler \<times> history" where
  "TcDbHandler_new env dsn h =
     snd (OpenDBConnection env (\<lparr>dsn_name = dsn, db_env = HNull, db_conn_handle = HNull\<rparr>, h))"

end
