(* ===== verification/TC_Oper.thy ===== *)
theory TC_Oper
  imports TC_Lock TC_MsgAudit TC_Db
begin

text \<open>
  Class \<open>TcOperations\<close> (\<open>modules/tc/tc_operations.cc\<close>): the frame that every request of a user
  runs through. An operation is an object with its own members, the shared lock, the static
  members of \<open>TcConfigOperations\<close> and the history of all calls so far; its methods are functions
  on this record that may not return (\<open>None\<close>: blocked for ever, or stopped by \<open>PFC_VERIFY\<close>). The
  virtual methods of a subclass are a record of functions.

  Other threads may run between any two uses of the lock: \<open>te_others\<close> is what they do, a function
  of the history, and it is applied before every use.
\<close>

section \<open>State\<close>

datatype TcOperStatus =
    TC_OPER_FAILURE
  | TC_OPER_INVALID_INPUT
  | TC_OPER_SUCCESS
  | TC_CONFIG_NOT_PRESENT
  | TC_CONFIG_PRESENT
  | TC_STATE_CHANGED
  | TC_INVALID_CONFIG_ID
  | TC_INVALID_OPERATION_TYPE
  | TC_INVALID_SESSION_ID
  | TC_INVALID_STATE
  | TC_OPER_ABORT
  | TC_SESSION_ALREADY_ACTIVE
  | TC_SESSION_NOT_ACTIVE
  | TC_SYSTEM_BUSY
  | TC_SYSTEM_FAILURE
  | TC_OPER_FORBIDDEN
  | TC_OPER_DRIVER_NOT_PRESENT
  | TC_OPER_SIMPLIFIED_AUDIT

definition status_value :: "TcOperStatus \<Rightarrow> u32" where
  "status_value st =
     (case st of
        TC_OPER_FAILURE \<Rightarrow> - 11 | TC_OPER_INVALID_INPUT \<Rightarrow> - 10 | TC_OPER_SUCCESS \<Rightarrow> 0
      | TC_CONFIG_NOT_PRESENT \<Rightarrow> 100 | TC_CONFIG_PRESENT \<Rightarrow> 101 | TC_STATE_CHANGED \<Rightarrow> 102
      | TC_INVALID_CONFIG_ID \<Rightarrow> 103 | TC_INVALID_OPERATION_TYPE \<Rightarrow> 104 | TC_INVALID_SESSION_ID \<Rightarrow> 105
      | TC_INVALID_STATE \<Rightarrow> 106 | TC_OPER_ABORT \<Rightarrow> 107 | TC_SESSION_ALREADY_ACTIVE \<Rightarrow> 108
      | TC_SESSION_NOT_ACTIVE \<Rightarrow> 109 | TC_SYSTEM_BUSY \<Rightarrow> 110 | TC_SYSTEM_FAILURE \<Rightarrow> 111
      | TC_OPER_FORBIDDEN \<Rightarrow> 112 | TC_OPER_DRIVER_NOT_PRESENT \<Rightarrow> 200 | TC_OPER_SIMPLIFIED_AUDIT \<Rightarrow> 201)"

abbreviation TC_REQ_OP_TYPE_INDEX :: u32 where "TC_REQ_OP_TYPE_INDEX \<equiv> 0"
abbreviation TC_REQ_SESSION_ID_INDEX :: u32 where "TC_REQ_SESSION_ID_INDEX \<equiv> 1"
abbreviation TC_REQ_ARG_INDEX :: u32 where "TC_REQ_ARG_INDEX \<equiv> 2"

datatype TcOperEnum =
    INPUT_VALIDATION | GET_EXCLUSION_PHASE | CREATE_MSG_LIST | EXECUTE_PHASE
  | RELEASE_EXCLUSION_PHASE | SEND_RESPONSE_PHASE

text \<open>
  The static members of \<open>TcConfigOperations\<close>. An element of the queue is a waiting request, by its
  session and whether its condition variable still exists.
\<close>

record TcStatics =
  config_mode_available :: bool
  config_req_queue :: "(u32 \<times> bool) list"
  state_changed_to_sby :: bool

record opst =
  op_ssess :: "ssess option"
  op_channels :: TcChannelNameMap
  op_session_id :: u32
  op_oper :: u32
  op_msgs :: "TcMsgOperType list"
  op_phase :: TcOperEnum
  op_audit_db_fail :: bool
  op_config_id :: u32
  op_timeout :: "32 word"
  op_cond_var :: bool
  op_arg_timeout :: bool
  op_taskq :: bool
  op_autosave :: bool
  op_trans_result :: u8
  op_user_response :: TcOperStatus
  op_resp_msg :: "TcMsg option"
  op_is_switch :: bool
  op_fail_oper :: u32
  op_database_type :: u32
  op_controller_id :: string
  op_driver_id :: u32
  op_audit_result :: u8
  op_api_audit :: bool
  op_force_reconnect :: bool
  op_lock :: TcLock
  op_stat :: TcStatics
  op_hist :: history

text \<open>
  The surroundings of an operation: the transport, the database, the other threads, what blocked
  calls observe, the result of posting to a timer or task queue, the result of the timed wait for
  the configuration mode and of sending an alarm.
\<close>

record tc_env =
  te_ipc :: ipc_env
  te_odbc :: odbc_env
  te_others :: "history \<Rightarrow> TcLock \<times> TcStatics \<Rightarrow> TcLock \<times> TcStatics"
  te_block :: "history \<Rightarrow> lock_env"
  te_post :: "history \<Rightarrow> int"
  te_wait :: "history \<Rightarrow> int"
  te_alarm :: "history \<Rightarrow> bool"

type_synonym 'a oprog = "opst \<Rightarrow> ('a \<times> opst) option"

section \<open>Use of the lock, the messages and the database\<close>

definition interfere :: "tc_env \<Rightarrow> opst \<Rightarrow> opst" where
  "interfere env s =
     (let (l, st) = te_others env (op_hist s) (op_lock s, op_stat s)
      in s\<lparr>op_lock := l, op_stat := st, op_hist := op_hist s @ [EvLock]\<rparr>)"

definition op_GetLock :: "tc_env \<Rightarrow> u32 \<Rightarrow> TcOperation \<Rightarrow> TcWriteOperation \<Rightarrow> TcLockRet oprog" where
  "op_GetLock env sid oper wop s =
     (let s1 = interfere env s
      in do { (r, l) \<leftarrow> GetLock (te_block env (op_hist s)) sid oper wop (op_lock s1);
              Some (r, s1\<lparr>op_lock := l\<rparr>) })"

definition op_lock_step :: "tc_env \<Rightarrow> (TcLock \<Rightarrow> 'a \<times> TcLock) \<Rightarrow> 'a oprog" where
  "op_lock_step env f s =
     (let s1 = interfere env s; (r, l) = f (op_lock s1) in Some (r, s1\<lparr>op_lock := l\<rparr>))"

definition op_GetConfigIdSessionId :: "tc_env \<Rightarrow> u32 \<Rightarrow> u32 \<Rightarrow> (TcLockRet \<times> u32 \<times> u32) oprog" where
  "op_GetConfigIdSessionId env sid cid s =
     (let s1 = interfere env s; (r, a, b) = GetConfigIdSessionId (Some sid) (Some cid) (op_lock s1)
      in Some ((r, (case a of Some x \<Rightarrow> x | None \<Rightarrow> sid), (case b of Some x \<Rightarrow> x | None \<Rightarrow> cid)), s1))"

definition op_db :: "'a db_prog \<Rightarrow> opst \<Rightarrow> 'a \<times> opst" where
  "op_db p s = (let (r, h) = run_state p (op_hist s) in (r, s\<lparr>op_hist := h\<rparr>))"

definition op_UpdateRecoveryTable :: "tc_env \<Rightarrow> u32 \<Rightarrow> u32 \<Rightarrow> u32 \<Rightarrow> TcOperRet oprog" where
  "op_UpdateRecoveryTable env data_base operation failover_instance s =
     (let (r, s1) = op_db (UpdateRecoveryTable (te_odbc env) data_base operation failover_instance) s
      in do { ret \<leftarrow> r; Some (ret, s1) })"

text \<open>\<open>Execute\<close> of a message, by the class that \<open>CreateInstance\<close> chose for its type.\<close>

definition TcMsg_Execute :: "ipc_env \<Rightarrow> TcOperRet option msg_prog" where
  "TcMsg_Execute env =
     do { m \<leftarrow> State_Monad.get;
          case msg_opertype m of
            MSG_NOTIFY_CONFIGID \<Rightarrow> map_state Some (TcMsgNotifyConfigId_Execute env)
          | MSG_SETUP \<Rightarrow> map_state Some (TcMsgSetUp_Execute env)
          | MSG_SETUP_COMPLETE \<Rightarrow> map_state Some (TcMsgSetUp_Execute env)
          | MSG_COMMIT_TRANS_START \<Rightarrow> map_state Some (CommitTransaction_Execute env)
          | MSG_COMMIT_TRANS_END \<Rightarrow> map_state Some (CommitTransaction_Execute env)
          | MSG_COMMIT_VOTE \<Rightarrow> map_state Some (TwoPhaseCommit_Execute env)
          | MSG_COMMIT_GLOBAL \<Rightarrow> map_state Some (TwoPhaseCommit_Execute env)
          | MSG_AUDIT_START \<Rightarrow> map_state Some (AuditTransaction_Execute env)
          | MSG_AUDIT_END \<Rightarrow> map_state Some (AuditTransaction_Execute env)
          | MSG_AUDIT_TRANS_START \<Rightarrow> map_state Some (AuditTransaction_Execute env)
          | MSG_AUDIT_TRANS_END \<Rightarrow> map_state Some (AuditTransaction_Execute env)
          | MSG_AUDIT_VOTE \<Rightarrow> TwoPhaseAudit_Execute env
          | MSG_AUDIT_GLOBAL \<Rightarrow> TwoPhaseAudit_Execute env
          | MSG_SAVE_CONFIG \<Rightarrow> map_state Some (TcMsgToStartupDB_Execute env)
          | MSG_CLEAR_CONFIG \<Rightarrow> map_state Some (TcMsgToStartupDB_Execute env)
          | MSG_ABORT_CANDIDATE \<Rightarrow> map_state Some (AbortCandidateDB_Execute env)
          | MSG_AUDITDB \<Rightarrow> TcMsgAuditDB_Execute env
          | MSG_GET_DRIVERID \<Rightarrow> map_state Some (GetDriverId_Execute env)
          | MSG_AUTOSAVE_ENABLE \<Rightarrow> map_state Some (TcMsgAutoSave_Execute env)
          | MSG_AUTOSAVE_DISABLE \<Rightarrow> map_state Some (TcMsgAutoSave_Execute env)
          | _ \<Rightarrow> State_Monad.return None }"

definition op_run_msg :: "tc_env \<Rightarrow> TcMsg \<Rightarrow> (TcOperRet \<times> TcMsg) oprog" where
  "op_run_msg env m s =
     (case run_state (TcMsg_Execute (te_ipc env)) (m\<lparr>msg_history := op_hist s\<rparr>) of
        (None, _) \<Rightarrow> None
      | (Some r, m1) \<Rightarrow> Some ((r, m1), s\<lparr>op_hist := msg_history m1\<rparr>))"

definition op_CreateInstance :: "TcMsgOperType \<Rightarrow> opst \<Rightarrow> TcMsg option" where
  "op_CreateInstance oper s = CreateInstance (op_session_id s) oper (op_channels s) (op_hist s)"

section \<open>The answer to the user\<close>

definition op_set_uint32 :: "tc_env \<Rightarrow> u32 \<Rightarrow> opst \<Rightarrow> TcUtilRet \<times> opst" where
  "op_set_uint32 env v s =
     (let (r, ss, h) = srv_set (te_ipc env) (IpcU32 v) (op_ssess s) (op_hist s)
      in (r, s\<lparr>op_ssess := ss, op_hist := h\<rparr>))"

definition util_status :: "TcUtilRet \<Rightarrow> TcOperStatus" where
  "util_status r =
     (case r of
        TCUTIL_RET_FAILURE \<Rightarrow> TC_OPER_INVALID_INPUT
      | TCUTIL_RET_FATAL \<Rightarrow> TC_OPER_FAILURE
      | TCUTIL_RET_SUCCESS \<Rightarrow> TC_OPER_SUCCESS)"

definition SetOperType :: "tc_env \<Rightarrow> opst \<Rightarrow> TcOperStatus \<times> opst" where
  "SetOperType env s = (let (r, s1) = op_set_uint32 env (op_oper s) s in (util_status r, s1))"

definition SetSessionId :: "tc_env \<Rightarrow> opst \<Rightarrow> TcOperStatus \<times> opst" where
  "SetSessionId env s = (let (r, s1) = op_set_uint32 env (op_session_id s) s in (util_status r, s1))"

definition SetOperStatus :: "tc_env \<Rightarrow> TcOperStatus \<Rightarrow> opst \<Rightarrow> TcOperStatus \<times> opst" where
  "SetOperStatus env resp_status s =
     (let (r, s1) = op_set_uint32 env (status_value resp_status) s in (util_status r, s1))"

section \<open>Input\<close>

definition GetOperType :: "opst \<Rightarrow> TcOperStatus \<times> opst" where
  "GetOperType s =
     (case srv_get_uint32 (op_ssess s) TC_REQ_OP_TYPE_INDEX of
        (r, None) \<Rightarrow> (util_status r, s)
      | (r, Some oper_type) \<Rightarrow> (TC_OPER_SUCCESS, s\<lparr>op_oper := oper_type\<rparr>))"

definition GetSessionId :: "opst \<Rightarrow> TcOperStatus \<times> opst" where
  "GetSessionId s =
     (case srv_get_uint32 (op_ssess s) TC_REQ_SESSION_ID_INDEX of
        (r, None) \<Rightarrow> (util_status r, s)
      | (r, Some sid) \<Rightarrow>
          (if sid = 0 then TC_OPER_INVALID_INPUT else TC_OPER_SUCCESS, s\<lparr>op_session_id := sid\<rparr>))"

text \<open>The methods a subclass must or may provide.\<close>

record oper_vt =
  vt_HandleArgs :: "TcOperStatus oprog"
  vt_TcGetExclusion :: "TcOperStatus oprog"
  vt_TcReleaseExclusion :: "TcOperStatus oprog"
  vt_TcCreateMsgList :: "TcOperStatus oprog"
  vt_Execute :: "TcOperStatus oprog"
  vt_SendResponse :: "TcOperStatus \<Rightarrow> TcOperStatus oprog"

definition check :: "TcOperStatus \<times> opst \<Rightarrow> TcOperStatus oprog \<Rightarrow> (TcOperStatus \<times> opst) option" where
  "check p k = (case p of (ret, s) \<Rightarrow> if ret \<noteq> TC_OPER_SUCCESS then Some (ret, s) else k s)"

definition HandleArgs ::
  "(opst \<Rightarrow> TcOperStatus \<times> opst) \<Rightarrow> u32 \<Rightarrow> TcOperStatus oprog \<Rightarrow>
   (u32 \<Rightarrow> TcOperStatus oprog) \<Rightarrow> TcOperStatus oprog \<Rightarrow> TcOperStatus oprog" where
  "HandleArgs get_session_id min_args validate_type check_count validate_params s =
     (case op_ssess s of
        None \<Rightarrow> validate_type s
      | Some ss \<Rightarrow>
          let count = of_nat (length (ss_args ss))
          in if min_args \<noteq> 0 \<and> count \<ge> min_args
             then check (GetOperType s) (\<lambda>s. check (get_session_id s) (\<lambda>s.
                    do { p \<leftarrow> validate_type s; check p (\<lambda>s.
                      do { p \<leftarrow> check_count count s; check p validate_params }) }))
             else Some (TC_OPER_INVALID_INPUT, s))"

section \<open>The frame of an operation\<close>

definition SendResponse ::
  "tc_env \<Rightarrow> (TcOperStatus \<Rightarrow> TcOperStatus oprog) \<Rightarrow> TcOperStatus \<Rightarrow> TcOperStatus oprog" where
  "SendResponse env additional st s =
     (if op_ssess s = None then Some (st, s)
      else if st \<noteq> TC_OPER_INVALID_INPUT \<and> st \<noteq> TC_OPER_FAILURE
      then let (r, s1) = SetOperType env s
           in if r \<noteq> TC_OPER_SUCCESS then Some (TC_OPER_FAILURE, s1)
              else let (r, s2) = SetSessionId env s1
                   in if r \<noteq> TC_OPER_SUCCESS then Some (TC_OPER_FAILURE, s2)
                      else let (r, s3) = SetOperStatus env st s2
                           in if r \<noteq> TC_OPER_SUCCESS then Some (TC_OPER_FAILURE, s3)
                              else additional st s3
      else Some (st, s))"

definition RevokeOperation :: "oper_vt \<Rightarrow> TcOperStatus \<Rightarrow> TcOperStatus oprog" where
  "RevokeOperation vt st s =
     (case op_phase s of
        INPUT_VALIDATION \<Rightarrow> vt_SendResponse vt st s
      | GET_EXCLUSION_PHASE \<Rightarrow> vt_SendResponse vt st s
      | CREATE_MSG_LIST \<Rightarrow>
          do { (r, s1) \<leftarrow> vt_TcReleaseExclusion vt s;
               vt_SendResponse vt (if r = TC_OPER_SUCCESS then st else TC_SYSTEM_FAILURE) s1 }
      | EXECUTE_PHASE \<Rightarrow>
          do { (r, s1) \<leftarrow> vt_TcReleaseExclusion vt s;
               vt_SendResponse vt (if r = TC_OPER_SUCCESS then st else TC_SYSTEM_FAILURE) s1 }
      | RELEASE_EXCLUSION_PHASE \<Rightarrow> vt_SendResponse vt TC_SYSTEM_FAILURE s
      | _ \<Rightarrow> Some (TC_OPER_FAILURE, s))"

text \<open>One phase of \<open>Dispatch\<close>: note it, run it, and revoke the operation if it fails.\<close>

definition phase ::
  "oper_vt \<Rightarrow> TcOperEnum \<Rightarrow> TcOperStatus oprog \<Rightarrow> TcOperStatus oprog \<Rightarrow> TcOperStatus oprog" where
  "phase vt ph f k s =
     do { (ret, s1) \<leftarrow> f (s\<lparr>op_phase := ph\<rparr>);
          if ret \<noteq> TC_OPER_SUCCESS then RevokeOperation vt ret s1 else k s1 }"

definition Dispatch :: "oper_vt \<Rightarrow> TcOperStatus oprog" where
  "Dispatch vt =
     phase vt INPUT_VALIDATION (vt_HandleArgs vt)
    (phase vt GET_EXCLUSION_PHASE (vt_TcGetExclusion vt)
    (phase vt CREATE_MSG_LIST (vt_TcCreateMsgList vt)
    (phase vt EXECUTE_PHASE (vt_Execute vt)
    (phase vt RELEASE_EXCLUSION_PHASE (vt_TcReleaseExclusion vt)
       (vt_SendResponse vt TC_OPER_SUCCESS)))))"

definition HandleMsgRet :: "TcOperRet \<Rightarrow> TcOperStatus" where
  "HandleMsgRet MsgRet =
     (if MsgRet = TCOPER_RET_FATAL \<or> MsgRet = TCOPER_RET_FAILURE then TC_SYSTEM_FAILURE
      else if MsgRet = TCOPER_RET_ABORT then TC_OPER_ABORT
      else if MsgRet = TCOPER_RET_NO_DRIVER then TC_OPER_DRIVER_NOT_PRESENT
      else TC_OPER_SUCCESS)"

type_synonym fill = "TcMsgOperType \<Rightarrow> TcMsg \<Rightarrow> (TcOperStatus \<times> TcMsg) oprog"

primrec execute_loop ::
  "tc_env \<Rightarrow> (TcOperRet \<Rightarrow> TcOperStatus) \<Rightarrow> fill \<Rightarrow> TcMsgOperType list \<Rightarrow> TcOperStatus oprog" where
  "execute_loop env handle_ret fill_data [] s = Some (TC_OPER_SUCCESS, s)"
| "execute_loop env handle_ret fill_data (oper # opers) s =
     (case op_CreateInstance oper s of
        None \<Rightarrow> Some (TC_SYSTEM_FAILURE, s)
      | Some m \<Rightarrow>
          do { ((st, m), s) \<leftarrow> fill_data oper m s;
               if st \<noteq> TC_OPER_SUCCESS then Some (TC_SYSTEM_FAILURE, s)
               else do {
                 ((ret, m), s) \<leftarrow> op_run_msg env m s;
                 if ret \<noteq> TCOPER_RET_SUCCESS
                 then Some (handle_ret ret,
                            if oper = MSG_AUDITDB then s\<lparr>op_audit_db_fail := True\<rparr> else s)
                 else do {
                   (_, s) \<leftarrow> (if oper = MSG_SETUP_COMPLETE
                              then op_lock_step env (\<lambda>l. ((), TcSetSetupComplete True l)) s
                              else Some ((), s));
                   execute_loop env handle_ret fill_data opers s } } })"

definition Execute :: "tc_env \<Rightarrow> (TcOperRet \<Rightarrow> TcOperStatus) \<Rightarrow> fill \<Rightarrow> TcOperStatus oprog" where
  "Execute env handle_ret fill_data s =
     (if op_msgs s = [] then Some (TC_OPER_FAILURE, s)
      else execute_loop env handle_ret fill_data (op_msgs s) s)"

text \<open>
  A new operation. The source does not initialise \<open>audit_db_fail_\<close>; its value is an argument.
\<close>

definition TcOperations_new ::
  "bool \<Rightarrow> TcLock \<Rightarrow> TcStatics \<Rightarrow> history \<Rightarrow> ssess option \<Rightarrow> TcChannelNameMap \<Rightarrow> opst" where
  "TcOperations_new uninit l st h ss names =
     \<lparr>op_ssess = ss, op_channels = names, op_session_id = 0, op_oper = TC_OP_INVALID, op_msgs = [],
      op_phase = INPUT_VALIDATION, op_audit_db_fail = uninit, op_config_id = 0, op_timeout = 0,
      op_cond_var = False, op_arg_timeout = False, op_taskq = False, op_autosave = False,
      op_trans_result = TRANS_END_FAILURE, op_user_response = TC_OPER_SUCCESS, op_resp_msg = None,
      op_is_switch = False, op_fail_oper = TC_OP_INVALID, op_database_type = UNC_DT_INVALID,
      op_controller_id = '''', op_driver_id = UNC_CT_UNKNOWN, op_audit_result = TC_AUDIT_FAILURE,
      op_api_audit = False, op_force_reconnect = False, op_lock = l, op_stat = st, op_hist = h\<rparr>"

end
