(* ===== verification/TC_OperConfig.thy ===== *)
theory TC_OperConfig
  imports TC_Oper
begin

text \<open>
  Class \<open>TcConfigOperations\<close> (\<open>modules/tc/tc_config_operations.cc\<close>): acquiring, forcibly
  acquiring and releasing the configuration session, the timed acquisition and the queue of the
  requests that wait for it. A waiting request is named by its session: a session has at most one
  request at a time.
\<close>

section \<open>Static members and the queue\<close>

definition SetConfigModeAvailability :: "bool \<Rightarrow> opst \<Rightarrow> opst" where
  "SetConfigModeAvailability status s = s\<lparr>op_stat := (op_stat s)\<lparr>config_mode_available := status\<rparr>\<rparr>"

definition IsConfigModeAvailable :: "opst \<Rightarrow> bool" where
  "IsConfigModeAvailable s = config_mode_available (op_stat s)"

definition IsStateChangedToSby :: "opst \<Rightarrow> bool" where
  "IsStateChangedToSby s = state_changed_to_sby (op_stat s)"

definition SetStateChangedToSby :: "bool \<Rightarrow> TcStatics \<Rightarrow> TcStatics" where
  "SetStateChangedToSby state st = st\<lparr>state_changed_to_sby := state\<rparr>"

definition InsertConfigRequest :: "u32 \<Rightarrow> TcStatics \<Rightarrow> TcStatics" where
  "InsertConfigRequest sid st = st\<lparr>config_req_queue := config_req_queue st @ [(sid, True)]\<rparr>"

primrec erase_first :: "u32 \<Rightarrow> (u32 \<times> bool) list \<Rightarrow> (u32 \<times> bool) list" where
  "erase_first sid [] = []"
| "erase_first sid (w # ws) = (if fst w = sid then ws else w # erase_first sid ws)"

definition RemoveConfigRequest :: "u32 \<Rightarrow> TcStatics \<Rightarrow> TcStatics" where
  "RemoveConfigRequest sid st = st\<lparr>config_req_queue := erase_first sid (config_req_queue st)\<rparr>"

definition RetrieveConfigRequest :: "TcStatics \<Rightarrow> (u32 \<times> bool) option" where
  "RetrieveConfigRequest st = (case config_req_queue st of [] \<Rightarrow> None | w # ws \<Rightarrow> Some w)"

definition IsConfigReqQueueEmpty :: "opst \<Rightarrow> bool" where
  "IsConfigReqQueueEmpty s \<longleftrightarrow> config_req_queue (op_stat s) = []"

definition IsConfigAcquireAllowed :: "opst \<Rightarrow> bool" where
  "IsConfigAcquireAllowed s \<longleftrightarrow> length (config_req_queue (op_stat s)) \<le> 1"

definition signal :: "u32 \<times> bool \<Rightarrow> history \<Rightarrow> history" where
  "signal w h = (if snd w then h @ [EvSignal (fst w)] else h)"

definition ClearConfigAcquisitionQueue :: "TcStatics \<times> history \<Rightarrow> TcStatics \<times> history" where
  "ClearConfigAcquisitionQueue p =
     (case p of (st, h) \<Rightarrow> (st\<lparr>config_req_queue := []\<rparr>, fold signal (config_req_queue st) h))"

section \<open>Methods\<close>

definition Config_SetConfigId :: "tc_env \<Rightarrow> opst \<Rightarrow> TcOperStatus \<times> opst" where
  "Config_SetConfigId env s =
     (let (r, s1) = op_set_uint32 env (op_config_id s) s
      in (if r \<noteq> TCUTIL_RET_SUCCESS then TC_OPER_FAILURE else TC_OPER_SUCCESS, s1))"

definition Config_HandleLockRet :: "TcLockRet \<Rightarrow> TcOperStatus" where
  "Config_HandleLockRet lock_ret =
     (case lock_ret of
        TC_LOCK_INVALID_UNC_STATE \<Rightarrow> TC_INVALID_STATE
      | TC_LOCK_OPERATION_NOT_ALLOWED \<Rightarrow> TC_INVALID_STATE
      | TC_LOCK_BUSY \<Rightarrow> TC_SYSTEM_BUSY
      | TC_LOCK_INVALID_SESSION_ID \<Rightarrow> TC_INVALID_SESSION_ID
      | TC_LOCK_INVALID_CONFIG_ID \<Rightarrow> TC_INVALID_CONFIG_ID
      | TC_LOCK_NOT_ACQUIRED \<Rightarrow> TC_CONFIG_NOT_PRESENT
      | TC_LOCK_NO_CONFIG_SESSION_EXIST \<Rightarrow> TC_CONFIG_NOT_PRESENT
      | _ \<Rightarrow> TC_OPER_FAILURE)"

definition Config_TcCheckOperArgCount :: "u32 \<Rightarrow> TcOperStatus oprog" where
  "Config_TcCheckOperArgCount avail_count s =
     Some (if (op_oper s = TC_OP_CONFIG_ACQUIRE \<or> op_oper s = TC_OP_CONFIG_ACQUIRE_FORCE) \<and> avail_count \<noteq> 2
           then TC_OPER_INVALID_INPUT
           else if op_oper s = TC_OP_CONFIG_RELEASE \<and> avail_count \<noteq> 3 then TC_OPER_INVALID_INPUT
           else if op_oper s = TC_OP_CONFIG_ACQUIRE_TIMED \<and> avail_count \<noteq> 3 then TC_OPER_INVALID_INPUT
           else TC_OPER_SUCCESS, s)"

definition Config_TcValidateOperType :: "TcOperStatus oprog" where
  "Config_TcValidateOperType s =
     Some (if op_oper s > TC_OP_CONFIG_ACQUIRE_FORCE then TC_INVALID_OPERATION_TYPE else TC_OPER_SUCCESS, s)"

definition Config_TcValidateOperParams :: "tc_env \<Rightarrow> TcOperStatus oprog" where
  "Config_TcValidateOperParams env s =
     (if op_oper s = TC_OP_CONFIG_RELEASE
      then case srv_get_uint32 (op_ssess s) TC_REQ_ARG_INDEX of
             (r, None) \<Rightarrow> Some (util_status r, s)
           | (_, Some config_id) \<Rightarrow>
               do { ((r, sid, cid), s1) \<leftarrow> op_GetConfigIdSessionId env 0 0 (s\<lparr>op_config_id := config_id\<rparr>);
                    Some (if r \<noteq> TC_LOCK_SUCCESS then Config_HandleLockRet r
                          else if sid \<noteq> op_session_id s1 then TC_INVALID_SESSION_ID
                          else if cid \<noteq> op_config_id s1 then TC_INVALID_CONFIG_ID
                          else TC_OPER_SUCCESS, s1) }
      else if op_oper s = TC_OP_CONFIG_ACQUIRE_TIMED
      then case srv_get_int32 (op_ssess s) TC_REQ_ARG_INDEX of
             (r, None) \<Rightarrow> Some (util_status r, s)
           | (_, Some timeout) \<Rightarrow> Some (TC_OPER_SUCCESS, s\<lparr>op_timeout := timeout\<rparr>)
      else Some (TC_OPER_SUCCESS, s))"

definition Config_lock_status :: "TcLockRet \<Rightarrow> TcOperStatus" where
  "Config_lock_status r = (if r \<noteq> TC_LOCK_SUCCESS then Config_HandleLockRet r else TC_OPER_SUCCESS)"

definition Config_TcGetExclusion :: "tc_env \<Rightarrow> TcOperStatus oprog" where
  "Config_TcGetExclusion env s =
     do { (r, s1) \<leftarrow>
            (if op_oper s = TC_OP_CONFIG_RELEASE
             then op_lock_step env
                    (ReleaseLock (op_session_id s) (op_config_id s) TC_RELEASE_CONFIG_SESSION TC_WRITE_NONE) s
             else if op_oper s = TC_OP_CONFIG_ACQUIRE \<or> op_oper s = TC_OP_CONFIG_ACQUIRE_TIMED
             then op_GetLock env (op_session_id s) TC_ACQUIRE_CONFIG_SESSION TC_WRITE_NONE s
             else op_GetLock env (op_session_id s) TC_FORCE_ACQUIRE_CONFIG_SESSION TC_WRITE_NONE s);
          Some (Config_lock_status r, s1) }"

definition Config_TcReleaseExclusion :: "tc_env \<Rightarrow> TcOperStatus oprog" where
  "Config_TcReleaseExclusion env s =
     do { (r, s1) \<leftarrow> op_lock_step env
            (NotifyConfigIdSessionIdDone (op_config_id s) (op_session_id s)
               (if op_oper s = TC_OP_CONFIG_RELEASE then TC_NOTIFY_RELEASE else TC_NOTIFY_ACQUIRE)) s;
          Some (Config_lock_status r, s1) }"

definition Config_TcCreateMsgList :: "TcOperStatus oprog" where
  "Config_TcCreateMsgList s =
     (if op_msgs s = [] then Some (TC_OPER_SUCCESS, s\<lparr>op_msgs := [MSG_NOTIFY_CONFIGID]\<rparr>)
      else Some (TC_OPER_FAILURE, s))"

definition Config_FillTcMsgData :: "tc_env \<Rightarrow> fill" where
  "Config_FillTcMsgData env oper_type m s =
     (if op_oper s \<noteq> TC_OP_CONFIG_RELEASE
      then do { ((_, sid, cid), s1) \<leftarrow> op_GetConfigIdSessionId env (op_session_id s) (op_config_id s) s;
                Some ((TC_OPER_SUCCESS, TcMsgNotifyConfigId_SetData cid m),
                      s1\<lparr>op_session_id := sid, op_config_id := cid\<rparr>) }
      else Some ((TC_OPER_SUCCESS, TcMsgNotifyConfigId_SetData 0 m), s))"

definition Config_SendAdditionalResponse :: "tc_env \<Rightarrow> TcOperStatus \<Rightarrow> TcOperStatus oprog" where
  "Config_SendAdditionalResponse env oper_stat s =
     (if op_oper s \<noteq> TC_OP_CONFIG_RELEASE \<and> oper_stat = TC_OPER_SUCCESS
      then let (r, s1) = Config_SetConfigId env s
           in Some (if r \<noteq> TC_OPER_SUCCESS then r else oper_stat, s1)
      else Some (oper_stat, s))"

definition Config_vt :: "tc_env \<Rightarrow> oper_vt" where
  "Config_vt env =
     \<lparr>vt_HandleArgs = HandleArgs GetSessionId 2 Config_TcValidateOperType
        Config_TcCheckOperArgCount (Config_TcValidateOperParams env),
      vt_TcGetExclusion = Config_TcGetExclusion env,
      vt_TcReleaseExclusion = Config_TcReleaseExclusion env,
      vt_TcCreateMsgList = Config_TcCreateMsgList,
      vt_Execute = Execute env HandleMsgRet (Config_FillTcMsgData env),
      vt_SendResponse = SendResponse env (Config_SendAdditionalResponse env)\<rparr>"

section \<open>Timed acquisition\<close>

text \<open>
  The absolute time at which the wait ends, from the timeout in milliseconds and the present time;
  the fields of \<open>timespec\<close> and \<open>timeval\<close> are 64 bits wide and do not overflow here.
\<close>

definition config_deadline :: "32 word \<Rightarrow> int \<Rightarrow> int \<Rightarrow> int \<times> int" where
  "config_deadline timeout now_sec now_usec =
     (let sec = uint timeout div 1000;
          nsec = uint timeout mod 1000 * 1000000;
          sec1 = sec + now_sec;
          nsec1 = nsec + now_usec * 1000
      in (sec1 + nsec1 div 1000000000, nsec1 mod 1000000000))"

definition acquire_now :: "tc_env \<Rightarrow> TcOperStatus oprog" where
  "acquire_now env s =
     do { (ret, s1) \<leftarrow> Config_TcGetExclusion env (s\<lparr>op_phase := GET_EXCLUSION_PHASE\<rparr>);
          if ret \<noteq> TC_OPER_SUCCESS then Some (ret, s1)
          else Some (TC_OPER_SUCCESS, SetConfigModeAvailability False s1) }"

definition drop_cond_var :: "opst \<Rightarrow> opst" where
  "drop_cond_var s =
     s\<lparr>op_cond_var := False,
       op_stat := (op_stat s)\<lparr>config_req_queue :=
         map (\<lambda>w. if fst w = op_session_id s then (fst w, False) else w) (config_req_queue (op_stat s))\<rparr>\<rparr>"

definition dequeue :: "opst \<Rightarrow> opst" where
  "dequeue s = s\<lparr>op_stat := RemoveConfigRequest (op_session_id s) (op_stat s)\<rparr>"

definition wait_complete :: "tc_env \<Rightarrow> TcOperStatus oprog" where
  "wait_complete env s =
     do { (ret, s1) \<leftarrow> acquire_now env (drop_cond_var s);
          Some (ret, dequeue s1) }"

text \<open>
  The mutex of the queue is not recursive and is still held when the request did not have to wait:
  taking it again for the test of the standby flag blocks the thread for ever.
\<close>

definition HandleTimedConfigAcquisition :: "tc_env \<Rightarrow> TcOperStatus oprog" where
  "HandleTimedConfigAcquisition env s =
     (if op_timeout s = 0
      then if IsConfigModeAvailable s then acquire_now env s else Some (TC_SYSTEM_BUSY, s)
      else let s1 = s\<lparr>op_cond_var := True, op_stat := InsertConfigRequest (op_session_id s) (op_stat s)\<rparr>
           in if \<not> IsConfigModeAvailable s1 \<or> \<not> IsConfigAcquireAllowed s1
              then let pthread_ret = te_wait env (op_hist s1); s2 = interfere env s1
                   in if pthread_ret \<noteq> 0
                      then Some (TC_SYSTEM_BUSY, dequeue (drop_cond_var s2))
                      else if IsStateChangedToSby s2 then Some (TC_STATE_CHANGED, drop_cond_var s2)
                      else wait_complete env s2
              else if IsStateChangedToSby s1 then None
              else wait_complete env s1)"

definition HandleConfigRelease :: "opst \<Rightarrow> opst" where
  "HandleConfigRelease s =
     (let s1 = SetConfigModeAvailability True s
      in case RetrieveConfigRequest (op_stat s1) of
           None \<Rightarrow> s1
         | Some w \<Rightarrow> s1\<lparr>op_hist := signal w (op_hist s1)\<rparr>)"

section \<open>Dispatch\<close>

definition config_finish :: "tc_env \<Rightarrow> TcOperStatus oprog" where
  "config_finish env =
     (let vt = Config_vt env
      in phase vt CREATE_MSG_LIST (vt_TcCreateMsgList vt)
        (phase vt EXECUTE_PHASE (vt_Execute vt)
        (phase vt RELEASE_EXCLUSION_PHASE (vt_TcReleaseExclusion vt)
           (\<lambda>s. vt_SendResponse vt TC_OPER_SUCCESS
                  (if op_oper s = TC_OP_CONFIG_RELEASE then HandleConfigRelease s else s)))))"

definition Config_Dispatch :: "tc_env \<Rightarrow> TcOperStatus oprog" where
  "Config_Dispatch env =
     (let vt = Config_vt env
      in phase vt INPUT_VALIDATION (vt_HandleArgs vt)
        (\<lambda>s. if op_oper s = TC_OP_CONFIG_ACQUIRE \<and> \<not> IsConfigReqQueueEmpty s
             then RevokeOperation vt TC_SYSTEM_BUSY s
             else if op_oper s = TC_OP_CONFIG_ACQUIRE_TIMED
             then do { (ret, s1) \<leftarrow> HandleTimedConfigAcquisition env (s\<lparr>op_hist := op_hist s @ [EvTimeout]\<rparr>);
                       if ret \<noteq> TC_OPER_SUCCESS then RevokeOperation vt ret s1
                       else config_finish env s1 }
             else phase vt GET_EXCLUSION_PHASE (vt_TcGetExclusion vt)
                    (\<lambda>s. config_finish env
                       (if op_oper s = TC_OP_CONFIG_ACQUIRE \<or> op_oper s = TC_OP_CONFIG_ACQUIRE_FORCE
                        then SetConfigModeAvailability False s else s)) s))"

end
