(* ===== verification/TC_OperCand.thy ===== *)
theory TC_OperCand
  imports TC_OperConfig
begin

text \<open>
  Class \<open>TcCandidateOperations\<close> (\<open>modules/tc/tc_candidate_operations.cc\<close>): committing and
  aborting the candidate configuration. The commit is the two-phase protocol over the messages of
  \<open>TC_MsgCommit\<close>: transaction start, vote, global commit, transaction end; the recovery table
  is written before the global commit and cleared with the answer to the user.
\<close>

section \<open>Input and exclusion\<close>

definition Cand_HandleLockRet :: "TcLockRet \<Rightarrow> TcOperStatus" where
  "Cand_HandleLockRet lock_ret =
     (case lock_ret of
        TC_LOCK_INVALID_UNC_STATE \<Rightarrow> TC_INVALID_STATE
      | TC_LOCK_OPERATION_NOT_ALLOWED \<Rightarrow> TC_INVALID_STATE
      | TC_LOCK_BUSY \<Rightarrow> TC_SYSTEM_BUSY
      | TC_LOCK_NO_CONFIG_SESSION_EXIST \<Rightarrow> TC_CONFIG_NOT_PRESENT
      | _ \<Rightarrow> TC_OPER_FAILURE)"

definition Cand_TcCheckOperArgCount :: "u32 \<Rightarrow> TcOperStatus oprog" where
  "Cand_TcCheckOperArgCount avail_count s =
     Some (if avail_count \<noteq> 3 then TC_OPER_INVALID_INPUT else TC_OPER_SUCCESS, s)"

definition Cand_TcValidateOperType :: "tc_env \<Rightarrow> TcOperStatus oprog" where
  "Cand_TcValidateOperType env s =
     (if op_oper s \<noteq> TC_OP_CANDIDATE_ABORT \<and> op_oper s \<noteq> TC_OP_CANDIDATE_COMMIT
      then Some (TC_INVALID_OPERATION_TYPE, s)
      else let (r, h) = set_srv_timeout (te_ipc env) (op_ssess s) (op_hist s)
           in Some (if r = TCUTIL_RET_FAILURE then TC_OPER_FAILURE else TC_OPER_SUCCESS, s\<lparr>op_hist := h\<rparr>))"

definition Cand_TcValidateOperParams :: "tc_env \<Rightarrow> TcOperStatus oprog" where
  "Cand_TcValidateOperParams env s =
     (case srv_get_uint32 (op_ssess s) TC_REQ_ARG_INDEX of
        (_, None) \<Rightarrow> Some (TC_OPER_FAILURE, s)
      | (_, Some config_id) \<Rightarrow>
          do { ((r, sid, cid), s1) \<leftarrow> op_GetConfigIdSessionId env 0 0 (s\<lparr>op_config_id := config_id\<rparr>);
               Some (if r \<noteq> TC_LOCK_SUCCESS then Cand_HandleLockRet r
                     else if sid \<noteq> op_session_id s1 then TC_INVALID_SESSION_ID
                     else if cid \<noteq> op_config_id s1 then TC_INVALID_CONFIG_ID
                     else TC_OPER_SUCCESS, s1) })"

definition Cand_wop :: "opst \<Rightarrow> TcWriteOperation" where
  "Cand_wop s = (if op_oper s = TC_OP_CANDIDATE_COMMIT then TC_COMMIT else TC_ABORT_CANDIDATE_CONFIG)"

definition Cand_TcGetExclusion :: "tc_env \<Rightarrow> TcOperStatus oprog" where
  "Cand_TcGetExclusion env s =
     do { (r, s1) \<leftarrow> op_GetLock env (op_session_id s) TC_ACQUIRE_WRITE_SESSION (Cand_wop s) s;
          Some (if r \<noteq> TC_LOCK_SUCCESS then Cand_HandleLockRet r else TC_OPER_SUCCESS, s1) }"

text \<open>
  A configuration release on behalf of another operation or of the module: a new
  \<open>TcConfigOperations\<close> object without a user session that shares the lock.
\<close>

definition release_config_for :: "tc_env \<Rightarrow> u32 \<Rightarrow> u32 \<Rightarrow> TcOperStatus oprog" where
  "release_config_for env session_id config_id s =
     do { (r, c) \<leftarrow> Config_Dispatch env
            ((TcOperations_new False (op_lock s) (op_stat s) (op_hist s) None (op_channels s))
               \<lparr>op_session_id := session_id, op_config_id := config_id, op_oper := TC_OP_CONFIG_RELEASE\<rparr>);
          Some (r, s\<lparr>op_lock := op_lock c, op_stat := op_stat c, op_hist := op_hist c\<rparr>) }"

text \<open>
  If the session went away while the operation ran, it was marked and its configuration session is
  released here.
\<close>

definition Cand_TcReleaseExclusion :: "tc_env \<Rightarrow> TcOperStatus oprog" where
  "Cand_TcReleaseExclusion env s =
     do { (r, s) \<leftarrow> op_lock_step env
            (ReleaseLock (op_session_id s) (op_config_id s) TC_RELEASE_WRITE_SESSION (Cand_wop s)) s;
          if r \<noteq> TC_LOCK_SUCCESS then Some (Cand_HandleLockRet r, s)
          else do {
            (marked, s) \<leftarrow> op_lock_step env (\<lambda>l. (GetMarkedSessionId l, l)) s;
            if marked \<noteq> op_session_id s then Some (TC_OPER_SUCCESS, s)
            else release_config_for env (op_session_id s) (op_config_id s) s } }"

section \<open>Messages\<close>

definition Cand_TcCreateMsgList :: "tc_env \<Rightarrow> TcOperStatus oprog" where
  "Cand_TcCreateMsgList env s =
     (let ((_, autosave), s1) = op_db (GetConfTable (te_odbc env) (op_autosave s)) s
      in Some (TC_OPER_SUCCESS,
           s1\<lparr>op_autosave := autosave,
              op_msgs := (if op_msgs s1 = [] \<and> op_oper s1 = TC_OP_CANDIDATE_ABORT
                          then [MSG_ABORT_CANDIDATE] else op_msgs s1)\<rparr>))"

definition Cand_FillTcMsgData :: "opst \<Rightarrow> TcMsgOperType \<Rightarrow> TcMsg \<Rightarrow> TcMsg" where
  "Cand_FillTcMsgData s oper_type m =
     (let m1 = TcMsgCommit_SetData (op_config_id s) m
      in if oper_type = MSG_COMMIT_TRANS_END then snd (SetTransResult (op_trans_result s) m1) else m1)"

text \<open>Create, fill and execute one message; a missing object stops the process.\<close>

definition Cand_message :: "tc_env \<Rightarrow> TcMsgOperType \<Rightarrow> (TcOperRet \<times> TcMsg) oprog" where
  "Cand_message env oper s =
     (case op_CreateInstance oper s of
        None \<Rightarrow> None
      | Some m \<Rightarrow> op_run_msg env (Cand_FillTcMsgData s oper m) s)"

definition TransStartMsg :: "tc_env \<Rightarrow> bool oprog" where
  "TransStartMsg env s =
     do { ((oper_ret, m), s) \<leftarrow> Cand_message env MSG_COMMIT_TRANS_START s;
          if oper_ret \<noteq> TCOPER_RET_SUCCESS
          then Some (False, s\<lparr>op_user_response := HandleMsgRet oper_ret, op_resp_msg := Some m\<rparr>)
          else Some (True, s) }"

definition TransEndMsg :: "tc_env \<Rightarrow> bool oprog" where
  "TransEndMsg env s =
     do { ((oper_ret, m), s) \<leftarrow> Cand_message env MSG_COMMIT_TRANS_END s;
          if oper_ret \<noteq> TCOPER_RET_SUCCESS
          then Some (False, s\<lparr>op_user_response := TC_SYSTEM_FAILURE\<rparr>)
          else Some (True, s) }"

definition TransVoteMsg :: "tc_env \<Rightarrow> bool oprog" where
  "TransVoteMsg env s =
     do { ((oper_ret, m), s) \<leftarrow> Cand_message env MSG_COMMIT_VOTE s;
          if oper_ret \<noteq> TCOPER_RET_SUCCESS
          then if oper_ret = TCOPER_RET_FATAL
               then Some (False, s\<lparr>op_user_response := HandleMsgRet oper_ret, op_resp_msg := Some m\<rparr>)
               else do {
                 (ended, s) \<leftarrow> TransEndMsg env s;
                 if ended
                 then Some (False, s\<lparr>op_user_response := HandleMsgRet oper_ret, op_resp_msg := Some m\<rparr>)
                 else Some (False, s) }
          else Some (True, s) }"

definition TransGlobalCommitMsg :: "tc_env \<Rightarrow> bool oprog" where
  "TransGlobalCommitMsg env s =
     do { (_, s) \<leftarrow> op_UpdateRecoveryTable env UNC_DT_RUNNING (op_oper s) 0 s;
          ((oper_ret, m), s) \<leftarrow> Cand_message env MSG_COMMIT_GLOBAL s;
          let s = s\<lparr>op_trans_result := msg_trans_result m\<rparr>;
          if oper_ret \<noteq> TCOPER_RET_SUCCESS
          then Some (False, s\<lparr>op_user_response := TC_SYSTEM_FAILURE\<rparr>)
          else Some (True, s\<lparr>op_resp_msg := Some m\<rparr>) }"

primrec abort_candidate_loop :: "tc_env \<Rightarrow> TcMsgOperType list \<Rightarrow> TcOperStatus oprog" where
  "abort_candidate_loop env [] s = Some (op_user_response s, s)"
| "abort_candidate_loop env (oper # opers) s =
     (case op_CreateInstance oper s of
        None \<Rightarrow> Some (TC_SYSTEM_FAILURE, s)
      | Some m \<Rightarrow>
          do { ((MsgRet, m), s) \<leftarrow> op_run_msg env (Cand_FillTcMsgData s oper m) s;
               abort_candidate_loop env opers
                 (if MsgRet \<noteq> TCOPER_RET_SUCCESS then s\<lparr>op_user_response := HandleMsgRet MsgRet\<rparr> else s) })"

text \<open>
  The steps of a commit, up to the first one that fails; after the last one the work goes on with
  \<open>k\<close>.
\<close>

primrec steps :: "(bool oprog) list \<Rightarrow> TcOperStatus oprog \<Rightarrow> TcOperStatus oprog" where
  "steps [] k s = k s"
| "steps (p # ps) k s =
     do { (ok, s) \<leftarrow> p s;
          if \<not> ok then Some (op_user_response s, s) else steps ps k s }"

definition Cand_Execute :: "tc_env \<Rightarrow> TcOperStatus oprog" where
  "Cand_Execute env s =
     (if op_oper s = TC_OP_CANDIDATE_COMMIT
      then steps [TransStartMsg env, TransVoteMsg env, TransGlobalCommitMsg env, TransEndMsg env]
             (\<lambda>s. Some (TC_OPER_SUCCESS, s)) s
      else do { (_, s) \<leftarrow> op_UpdateRecoveryTable env UNC_DT_CANDIDATE (op_oper s) 0 s;
                abort_candidate_loop env (op_msgs s) s })"

section \<open>Answer\<close>

definition Cand_SetConfigId :: "tc_env \<Rightarrow> opst \<Rightarrow> TcOperStatus \<times> opst" where
  "Cand_SetConfigId env s =
     (let (r, s1) = op_set_uint32 env (op_config_id s) s
      in (if r \<noteq> TCUTIL_RET_SUCCESS then TC_OPER_FAILURE else TC_OPER_SUCCESS, s1))"

definition op_forward :: "tc_env \<Rightarrow> TcMsg \<Rightarrow> opst \<Rightarrow> TcOperRet \<times> opst" where
  "op_forward env m s =
     (case op_ssess s of
        None \<Rightarrow> (TCOPER_RET_SUCCESS, s)
      | Some ss \<Rightarrow>
          let (r, ss1, h) = ForwardResponseToVTN (te_ipc env) m (ss, op_hist s)
          in (r, s\<lparr>op_ssess := Some ss1, op_hist := h\<rparr>))"

definition Cand_respond :: "tc_env \<Rightarrow> TcOperStatus \<Rightarrow> TcOperStatus oprog" where
  "Cand_respond env oper_stat s =
     (let (ret, s1) = (case op_resp_msg s of
                         None \<Rightarrow> (TCOPER_RET_SUCCESS, s)
                       | Some m \<Rightarrow> op_forward env m s)
      in if ret \<noteq> TCOPER_RET_SUCCESS then Some (TC_SYSTEM_FAILURE, s1)
         else if oper_stat = TC_OPER_SUCCESS
         then do { (_, s2) \<leftarrow> op_UpdateRecoveryTable env UNC_DT_INVALID TC_OP_INVALID 0 s1;
                   Some (oper_stat, s2) }
         else Some (oper_stat, s1))"

definition Cand_SendResponse :: "tc_env \<Rightarrow> TcOperStatus \<Rightarrow> TcOperStatus oprog" where
  "Cand_SendResponse env oper_stat s =
     (if op_ssess s = None then Some (oper_stat, s)
      else if oper_stat \<noteq> TC_OPER_INVALID_INPUT \<and> oper_stat \<noteq> TC_OPER_FAILURE
      then let (r, s1) = SetOperType env s
           in if r \<noteq> TC_OPER_SUCCESS then Some (TC_OPER_FAILURE, s1)
              else let (r, s2) = SetSessionId env s1
                   in if r \<noteq> TC_OPER_SUCCESS then Some (TC_OPER_FAILURE, s2)
                      else let (r, s3) = Cand_SetConfigId env s2
                           in if r \<noteq> TC_OPER_SUCCESS then Some (TC_OPER_FAILURE, s3)
                              else let (r, s4) = SetOperStatus env oper_stat s3
                                   in if r \<noteq> TC_OPER_SUCCESS then Some (TC_OPER_FAILURE, s4)
                                      else Cand_respond env oper_stat s4
      else Cand_respond env oper_stat s)"

definition Cand_vt :: "tc_env \<Rightarrow> oper_vt" where
  "Cand_vt env =
     \<lparr>vt_HandleArgs = HandleArgs GetSessionId 3 (Cand_TcValidateOperType env)
        Cand_TcCheckOperArgCount (Cand_TcValidateOperParams env),
      vt_TcGetExclusion = Cand_TcGetExclusion env,
      vt_TcReleaseExclusion = Cand_TcReleaseExclusion env,
      vt_TcCreateMsgList = Cand_TcCreateMsgList env,
      vt_Execute = Cand_Execute env,
      vt_SendResponse = Cand_SendResponse env\<rparr>"

end
