(* ===== verification/TC_OperLogic.thy ===== *)
theory TC_OperLogic
  imports TC_MsgAsk TC_OperCand
begin

text \<open>
  What the parts of an operation do to its state: a message only uses the transport, a method of the
  database handler only issues its own statements, and neither touches the lock, the request or
  the session of the user. The steps of the candidate commit are built from these facts.
\<close>

section \<open>Traces\<close>

text \<open>The members that neither a message nor a database call changes.\<close>

definition same_request :: "opst \<Rightarrow> opst \<Rightarrow> bool" where
  "same_request s s' \<longleftrightarrow>
     op_ssess s' = op_ssess s \<and> op_session_id s' = op_session_id s \<and> op_oper s' = op_oper s \<and>
     op_config_id s' = op_config_id s \<and> op_phase s' = op_phase s \<and> op_lock s' = op_lock s \<and>
     op_stat s' = op_stat s \<and> op_api_audit s' = op_api_audit s \<and> op_channels s' = op_channels s"

text \<open>The request is unchanged and all new events of the history satisfy \<open>P\<close>.\<close>

definition trace :: "(tc_event \<Rightarrow> bool) \<Rightarrow> opst \<Rightarrow> opst \<Rightarrow> bool" where
  "trace P s s' \<longleftrightarrow> same_request s s' \<and> (\<exists>new. op_hist s' = op_hist s @ new \<and> list_all P new)"

lemma trace_refl [simp]: "trace P s s"
  by (simp add: trace_def same_request_def)

lemma trace_trans: "trace P s1 s2 \<Longrightarrow> trace P s2 s3 \<Longrightarrow> trace P s1 s3"
  by (auto simp: trace_def same_request_def)

lemma trace_mono: "trace P s s' \<Longrightarrow> (\<And>e. P e \<Longrightarrow> Q e) \<Longrightarrow> trace Q s s'"
  by (auto simp: trace_def list.pred_mono_strong)

lemma trace_frame [simp]:
  "trace P s (s'\<lparr>op_user_response := r\<rparr>) = trace P s s'" "trace P s (s'\<lparr>op_resp_msg := m\<rparr>) = trace P s s'"
  "trace P s (s'\<lparr>op_trans_result := t\<rparr>) = trace P s s'" "trace P s (s'\<lparr>op_autosave := b\<rparr>) = trace P s s'"
  "trace P s (s'\<lparr>op_msgs := ms\<rparr>) = trace P s s'"
  by (simp_all add: trace_def same_request_def)

text \<open>
  A phase of the commit in which all agreed: only the transport was used, every participant was
  asked, every invocation was delivered and no daemon refused.
\<close>

definition unanimous :: "TcChannelNameMap \<Rightarrow> TcMsgOperType \<Rightarrow> history \<Rightarrow> bool" where
  "unanimous names oper new \<longleftrightarrow>
     list_all transport_event new \<and> list_all inv_ok (invokes new) \<and>
     set (participants names oper) \<subseteq> agreeing oper (invokes new)"

section \<open>Messages\<close>

lemma transports_Execute: "transports (TcMsg_Execute env)"
  unfolding TcMsg_Execute_def
  by (rule transports_bind, rule transport_rules) (auto split: TcMsgOperType.splits intro!: transport_rules)

lemma op_run_msg_cases:
  assumes "op_run_msg env m s = Some ((r, m'), s')"
  shows "run_state (TcMsg_Execute (te_ipc env)) (m\<lparr>msg_history := op_hist s\<rparr>) = (Some r, m')"
    "s' = s\<lparr>op_hist := msg_history m'\<rparr>"
  using assms by (auto simp: op_run_msg_def split: prod.splits option.splits)

lemma op_run_msg_trace:
  assumes "op_run_msg env m s = Some ((r, m'), s')"
  shows "trace transport_event s s'"
  using transports_Execute [of "te_ipc env"] op_run_msg_cases [OF assms]
  by (auto simp: transports_def extends_def trace_def same_request_def dest!: spec [of _ "m\<lparr>msg_history := op_hist s\<rparr>"])

definition commit_opers :: "TcMsgOperType set" where
  "commit_opers = {MSG_COMMIT_TRANS_START, MSG_COMMIT_VOTE, MSG_COMMIT_GLOBAL, MSG_COMMIT_TRANS_END}"

lemma map_state_run: "run_state (map_state f p) m = (case run_state p m of (a, m') \<Rightarrow> (f a, m'))"
  by (cases p) (auto split: prod.splits)

lemma TcMsg_Execute_commit:
  assumes "msg_opertype m \<in> commit_opers" "msg_notifyorder m = []" "run_state (TcMsg_Execute env) m = (Some r, m')"
  shows "r \<in> commit_rets" "r = TCOPER_RET_SUCCESS \<Longrightarrow> clean m m'"
    "r = TCOPER_RET_SUCCESS \<Longrightarrow> reaches (msg_opertype m) m (set (participants (msg_channel_names m) (msg_opertype m))) m'"
proof -
  let ?p = "if msg_opertype m \<in> {MSG_COMMIT_VOTE, MSG_COMMIT_GLOBAL} then TwoPhaseCommit_Execute env
    else CommitTransaction_Execute env"
  have run: "run_state ?p m = (r, m')"
    using assms by (auto simp: TcMsg_Execute_def commit_opers_def map_state_run split: prod.splits)
  have "answers commit_rets ?p" by (simp add: TwoPhaseCommit_answers CommitTransaction_answers)
  with run show "r \<in> commit_rets" by (metis answers_def fst_conv)
  have "wp ?p (ok_run m) m"
    using assms(1) TwoPhaseCommit_Execute_good [of m m env] CommitTransaction_Execute_good [of m m env]
    by (auto simp: commit_opers_def two_phase_def)
  from wpD [OF this run] show "r = TCOPER_RET_SUCCESS \<Longrightarrow> clean m m'" by (simp add: good_def)
  let ?chs = "set (participants (msg_channel_names m) (msg_opertype m))"
  have "wp ?p (\<lambda>r m'. r = TCOPER_RET_SUCCESS \<longrightarrow> reaches (msg_opertype m) m ?chs m') m"
  proof (cases "two_phase m")
    case True
    with TwoPhaseCommit_asks [OF True assms(2)] show ?thesis by (simp add: two_phase_def)
  next
    case False
    with assms(1) have oper: "msg_opertype m \<in> {MSG_COMMIT_TRANS_START, MSG_COMMIT_TRANS_END}"
      by (auto simp: commit_opers_def two_phase_def)
    with wp_mono [OF CommitTransaction_asks [OF oper assms(2), of env],
        of "\<lambda>r m'. r = TCOPER_RET_SUCCESS \<longrightarrow> reaches (msg_opertype m) m ?chs m'"] show ?thesis
      by (auto simp: asks_def)
  qed
  from wpD [OF this run] show "r = TCOPER_RET_SUCCESS \<Longrightarrow> reaches (msg_opertype m) m ?chs m'" by simp
qed

lemma op_CreateInstance_opertype:
  assumes "op_CreateInstance oper s = Some m"
  shows "msg_opertype m = oper" "msg_notifyorder m = []" "msg_channel_names m = op_channels s"
  using assms by (auto simp: op_CreateInstance_def CreateInstance_def TcMsg_new_def split: if_splits)

lemma Cand_FillTcMsgData_frame [simp]:
  "msg_opertype (Cand_FillTcMsgData s oper m) = msg_opertype m"
  "msg_notifyorder (Cand_FillTcMsgData s oper m) = msg_notifyorder m"
  "msg_channel_names (Cand_FillTcMsgData s oper m) = msg_channel_names m"
  by (simp_all add: Cand_FillTcMsgData_def TcMsgCommit_SetData_def SetTransResult_def Let_def)

lemma Cand_message_run:
  assumes "Cand_message env oper s = Some ((r, m'), s')" "oper \<in> commit_opers"
  shows "trace transport_event s s'" "r \<in> commit_rets"
    "r = TCOPER_RET_SUCCESS \<Longrightarrow> \<exists>new. op_hist s' = op_hist s @ new \<and> unanimous (op_channels s) oper new"
proof -
  from assms(1) obtain m where m: "op_CreateInstance oper s = Some m"
    and run: "op_run_msg env (Cand_FillTcMsgData s oper m) s = Some ((r, m'), s')"
    by (auto simp: Cand_message_def split: option.splits)
  let ?m = "(Cand_FillTcMsgData s oper m)\<lparr>msg_history := op_hist s\<rparr>"
  have oper: "msg_opertype ?m \<in> commit_opers" "msg_notifyorder ?m = []" "msg_opertype ?m = oper"
    "msg_channel_names ?m = op_channels s"
    using op_CreateInstance_opertype [OF m] assms(2) by simp_all
  note c = op_run_msg_cases [OF run]
  from op_run_msg_trace [OF run] show t: "trace transport_event s s'" .
  from TcMsg_Execute_commit(1) [OF oper(1,2) c(1)] show "r \<in> commit_rets" .
  assume "r = TCOPER_RET_SUCCESS"
  from TcMsg_Execute_commit(2,3) [OF oper(1,2) c(1) this]
  have "clean ?m m'" "reaches oper ?m (set (participants (op_channels s) oper)) m'" unfolding oper .
  with t c(2) show "\<exists>new. op_hist s' = op_hist s @ new \<and> unanimous (op_channels s) oper new"
    by (auto simp: clean_def reaches_def msg_invokes_def trace_def unanimous_def)
qed

lemma commit_rets_HandleMsgRet: "r \<in> commit_rets \<Longrightarrow> (HandleMsgRet r = TC_OPER_SUCCESS) = (r = TCOPER_RET_SUCCESS)"
  by (auto simp: commit_rets_def HandleMsgRet_def)

section \<open>Database\<close>

text \<open>An event of a database call whose statement is in \<open>S\<close>.\<close>

definition db_event :: "string set \<Rightarrow> tc_event \<Rightarrow> bool" where
  "db_event S e = (case e of EvOdbc \<Rightarrow> True | EvSql q _ \<Rightarrow> q \<in> S | _ \<Rightarrow> False)"

definition db_uses :: "string set \<Rightarrow> 'a db_prog \<Rightarrow> bool" where
  "db_uses S p \<longleftrightarrow> (\<forall>h. \<exists>new. snd (run_state p h) = h @ new \<and> list_all (db_event S) new)"

named_theorems db_rules "closure of the database programs over a set of statements"

lemma db_uses_bind [db_rules]: "db_uses S p \<Longrightarrow> (\<And>a. db_uses S (f a)) \<Longrightarrow> db_uses S (State_Monad.bind p f)"
  unfolding db_uses_def by (auto split: prod.splits) (metis append_assoc list_all_append snd_conv)

lemma db_uses_return [db_rules]: "db_uses S (State_Monad.return a)"
  by (simp add: db_uses_def)

lemma db_uses_get [db_rules]: "db_uses S State_Monad.get"
  by (simp add: db_uses_def)

lemma db_uses_if [db_rules]: "(b \<Longrightarrow> db_uses S p) \<Longrightarrow> (\<not> b \<Longrightarrow> db_uses S q) \<Longrightarrow> db_uses S (if b then p else q)"
  by simp

lemma db_uses_option [db_rules]:
  "db_uses S p \<Longrightarrow> (\<And>y. db_uses S (q y)) \<Longrightarrow> db_uses S (case x of None \<Rightarrow> p | Some y \<Rightarrow> q y)"
  by (cases x) auto

lemma db_uses_prod [db_rules]: "(\<And>a b. db_uses S (q a b)) \<Longrightarrow> db_uses S (case x of (a, b) \<Rightarrow> q a b)"
  by (cases x) auto

lemma db_uses_call [db_rules]: "db_uses S (odbc_call env)"
  by (simp add: db_uses_def odbc_call_def db_event_def)

lemma db_uses_exec [db_rules]: "q \<in> S \<Longrightarrow> db_uses S (odbc_exec env q)"
  by (simp add: db_uses_def odbc_exec_def db_event_def)

definition select_query :: "string \<Rightarrow> string \<Rightarrow> string" where
  "select_query attribute table_name = ''SELECT '' @ attribute @ '' FROM '' @ table_name"

lemma db_uses_IsRowExists [db_rules]:
  "select_query attribute table_name \<in> S \<Longrightarrow> db_uses S (IsRowExists env table_name attribute)"
  unfolding IsRowExists_def select_query_def by (intro db_rules)

lemma db_uses_UpdateRecoveryTable [db_rules]:
  assumes "select_query ''database'' RECOVERY_TABLE \<in> S" "update_recovery_query db oper f \<in> S"
  shows "db_uses S (UpdateRecoveryTable env db oper f)"
  unfolding UpdateRecoveryTable_def by (intro db_rules assms)

lemma db_uses_GetConfTable [db_rules]:
  assumes "select_query ''auto_save'' SAVE_CONF_TABLE \<in> S"
  shows "db_uses S (GetConfTable env b)"
proof -
  have "''SELECT auto_save FROM TC_UNC_CONF_TABLE'' \<in> S"
    using assms by (simp add: select_query_def SAVE_CONF_TABLE_def)
  with assms show ?thesis unfolding GetConfTable_def by (intro db_rules)
qed

lemma op_db_trace:
  assumes "db_uses S p" "op_db p s = (r, s')"
  shows "trace (db_event S) s s'"
  using assms(1) [unfolded db_uses_def, rule_format, of "op_hist s"] assms(2)
  by (auto simp: op_db_def trace_def same_request_def split: prod.splits)

lemma op_db_same: "op_db p s = (r, s') \<Longrightarrow> s' = s\<lparr>op_hist := op_hist s'\<rparr>"
  by (auto simp: op_db_def split: prod.splits)

text \<open>The statements of an update of the recovery table.\<close>

definition recovery_sql :: "u32 \<Rightarrow> u32 \<Rightarrow> u32 \<Rightarrow> string set" where
  "recovery_sql db oper f = {select_query ''database'' RECOVERY_TABLE, update_recovery_query db oper f}"

lemma op_UpdateRecoveryTable_trace:
  assumes "op_UpdateRecoveryTable env db oper f s = Some (r, s')"
  shows "trace (db_event (recovery_sql db oper f)) s s'" "s' = s\<lparr>op_hist := op_hist s'\<rparr>"
proof -
  let ?p = "UpdateRecoveryTable (te_odbc env) db oper f"
  obtain r0 where r0: "op_db ?p s = (r0, s')" using assms
    by (auto simp: op_UpdateRecoveryTable_def Let_def bind_eq_Some_conv split: prod.splits)
  have "db_uses (recovery_sql db oper f) ?p" by (intro db_rules) (simp_all add: recovery_sql_def)
  from op_db_trace [OF this r0] show "trace (db_event (recovery_sql db oper f)) s s'" .
  from op_db_same [OF r0] show "s' = s\<lparr>op_hist := op_hist s'\<rparr>" .
qed

section \<open>The steps of a commit\<close>

text \<open>
  A step either goes on, with every daemon of its message in agreement, or it sets the answer to the
  user to a failure.
\<close>

definition step_run :: "TcMsgOperType \<Rightarrow> bool oprog \<Rightarrow> bool" where
  "step_run oper p \<longleftrightarrow>
     (\<forall>s ok s'. p s = Some (ok, s') \<longrightarrow>
        trace transport_event s s' \<and>
        (ok \<longrightarrow> (\<exists>new. op_hist s' = op_hist s @ new \<and> unanimous (op_channels s) oper new)) \<and>
        (\<not> ok \<longrightarrow> op_user_response s' \<noteq> TC_OPER_SUCCESS))"

lemma TransStartMsg_run: "step_run MSG_COMMIT_TRANS_START (TransStartMsg env)"
  using Cand_message_run [of env MSG_COMMIT_TRANS_START]
  by (auto simp: step_run_def TransStartMsg_def bind_eq_Some_conv commit_opers_def commit_rets_HandleMsgRet
      split: if_splits)

lemma TransEndMsg_run: "step_run MSG_COMMIT_TRANS_END (TransEndMsg env)"
  using Cand_message_run [of env MSG_COMMIT_TRANS_END]
  by (auto simp: step_run_def TransEndMsg_def bind_eq_Some_conv commit_opers_def split: if_splits)

lemma TransVoteMsg_run: "step_run MSG_COMMIT_VOTE (TransVoteMsg env)"
  unfolding step_run_def
proof (intro allI impI)
  fix s ok s'
  assume run: "TransVoteMsg env s = Some (ok, s')"
  then obtain r m s1 where 1: "Cand_message env MSG_COMMIT_VOTE s = Some ((r, m), s1)"
    by (cases "Cand_message env MSG_COMMIT_VOTE s") (auto simp: TransVoteMsg_def)
  have "MSG_COMMIT_VOTE \<in> commit_opers" by (simp add: commit_opers_def)
  note vote = Cand_message_run [OF 1 this]
  show "trace transport_event s s' \<and>
      (ok \<longrightarrow> (\<exists>new. op_hist s' = op_hist s @ new \<and> unanimous (op_channels s) MSG_COMMIT_VOTE new)) \<and>
      (\<not> ok \<longrightarrow> op_user_response s' \<noteq> TC_OPER_SUCCESS)"
  proof (cases "r = TCOPER_RET_SUCCESS \<or> r = TCOPER_RET_FATAL")
    case True
    with run 1 vote show ?thesis by (auto simp: TransVoteMsg_def HandleMsgRet_def)
  next
    case False
    with run 1 obtain ended s2 where e: "TransEndMsg env s1 = Some (ended, s2)"
      by (cases "TransEndMsg env s1") (auto simp: TransVoteMsg_def)
    with TransEndMsg_run [of env] have "trace transport_event s1 s2" "\<not> ended \<longrightarrow> op_user_response s2 \<noteq> TC_OPER_SUCCESS"
      unfolding step_run_def by blast+
    with False run 1 e vote(2) trace_trans [OF vote(1)] show ?thesis
      by (simp add: TransVoteMsg_def split: if_splits) (auto simp: commit_rets_HandleMsgRet)
  qed
qed

lemma TransGlobalCommitMsg_run:
  assumes "TransGlobalCommitMsg env s = Some (ok, s')"
  shows "\<exists>s1. trace (db_event (recovery_sql UNC_DT_RUNNING (op_oper s) 0)) s s1 \<and>
      trace transport_event s1 s' \<and>
      (ok \<longrightarrow> (\<exists>new. op_hist s' = op_hist s1 @ new \<and> unanimous (op_channels s) MSG_COMMIT_GLOBAL new)) \<and>
      (\<not> ok \<longrightarrow> op_user_response s' \<noteq> TC_OPER_SUCCESS)"
proof -
  from assms obtain r1 s1 r m s2 where
    1: "op_UpdateRecoveryTable env UNC_DT_RUNNING (op_oper s) 0 s = Some (r1, s1)"
    and 2: "Cand_message env MSG_COMMIT_GLOBAL s1 = Some ((r, m), s2)"
    and s': "(ok, s') = (if r \<noteq> TCOPER_RET_SUCCESS
        then (False, s2\<lparr>op_trans_result := msg_trans_result m, op_user_response := TC_SYSTEM_FAILURE\<rparr>)
        else (True, s2\<lparr>op_trans_result := msg_trans_result m, op_resp_msg := Some m\<rparr>))"
    by (auto simp: TransGlobalCommitMsg_def bind_eq_Some_conv Let_def split: if_splits)
  have g: "MSG_COMMIT_GLOBAL \<in> commit_opers" by (simp add: commit_opers_def)
  show ?thesis
    using op_UpdateRecoveryTable_trace(1) [OF 1] Cand_message_run [OF 2 g] s'
    by (intro exI [of _ s1]) (auto simp: trace_def same_request_def split: if_splits)
qed

end
