(* ===== verification/TC_OperAudit.thy ===== *)
theory TC_OperAudit
  imports TC_OperCand
begin

text \<open>
  Class \<open>TcAuditOperations\<close> (\<open>modules/tc/tc_audit_operations.cc\<close>): auditing a controller on
  behalf of a user or of its driver. The request of a driver is only posted to the task queue; the
  audit itself runs there, without a user session.
\<close>

section \<open>Input and exclusion\<close>

definition Audit_HandleLockRet :: "TcLockRet \<Rightarrow> TcOperStatus" where
  "Audit_HandleLockRet lock_ret =
     (case lock_ret of
        TC_LOCK_INVALID_UNC_STATE \<Rightarrow> TC_INVALID_STATE
      | TC_LOCK_OPERATION_NOT_ALLOWED \<Rightarrow> TC_INVALID_STATE
      | TC_LOCK_BUSY \<Rightarrow> TC_SYSTEM_BUSY
      | TC_LOCK_NO_CONFIG_SESSION_EXIST \<Rightarrow> TC_CONFIG_NOT_PRESENT
      | _ \<Rightarrow> TC_OPER_FAILURE)"

definition Audit_TcCheckOperArgCount :: "u32 \<Rightarrow> TcOperStatus oprog" where
  "Audit_TcCheckOperArgCount avail_count s =
     Some (if avail_count \<noteq> 4 then TC_OPER_INVALID_INPUT else TC_OPER_SUCCESS, s)"

definition Audit_GetSessionId :: "opst \<Rightarrow> TcOperStatus \<times> opst" where
  "Audit_GetSessionId s =
     (if op_oper s = TC_OP_DRIVER_AUDIT then (TC_OPER_SUCCESS, s)
      else case srv_get_uint32 (op_ssess s) TC_REQ_SESSION_ID_INDEX of
             (r, None) \<Rightarrow> (util_status r, s)
           | (r, Some sid) \<Rightarrow>
               (if sid = 0 then TC_OPER_INVALID_INPUT else TC_OPER_SUCCESS, s\<lparr>op_session_id := sid\<rparr>))"

definition Audit_TcValidateOperType :: "tc_env \<Rightarrow> TcOperStatus oprog" where
  "Audit_TcValidateOperType env s =
     (if op_oper s \<noteq> TC_OP_USER_AUDIT \<and> op_oper s \<noteq> TC_OP_DRIVER_AUDIT
      then Some (TC_INVALID_OPERATION_TYPE, s)
      else if op_oper s = TC_OP_USER_AUDIT
      then let (r, h) = set_srv_timeout (te_ipc env) (op_ssess s) (op_hist s)
           in Some (if r = TCUTIL_RET_FAILURE then TC_OPER_FAILURE else TC_OPER_SUCCESS, s\<lparr>op_hist := h\<rparr>)
      else Some (TC_OPER_SUCCESS, s))"

text \<open>
  Posting the audit to the task queue (\<open>TcTaskqUtil::DispatchAuditDriverRequest\<close>); without a queue
  the process would end here.
\<close>

definition DispatchAuditDriverRequest :: "tc_env \<Rightarrow> string \<Rightarrow> u32 \<Rightarrow> int oprog" where
  "DispatchAuditDriverRequest env controller_id driver_id s =
     (if \<not> op_taskq s then None
      else Some (te_post env (op_hist s), s\<lparr>op_hist := op_hist s @ [EvTask controller_id driver_id]\<rparr>))"

definition validate_driver_request :: "tc_env \<Rightarrow> TcOperStatus oprog" where
  "validate_driver_request env s =
     (case srv_get_uint8 (op_ssess s) TC_REQ_ARG_INDEX of
        (r, None) \<Rightarrow> Some (util_status r, s)
      | (_, Some read_drv_id) \<Rightarrow>
          let s1 = s\<lparr>op_driver_id := ucast read_drv_id\<rparr>
          in if op_driver_id s1 = UNC_CT_UNKNOWN then Some (TC_OPER_INVALID_INPUT, s1)
             else do { (r, s2) \<leftarrow> DispatchAuditDriverRequest env (op_controller_id s1) (op_driver_id s1)
                                   (s1\<lparr>op_api_audit := True\<rparr>);
                       Some (if r \<noteq> 0 then TC_OPER_FAILURE else TC_OPER_SUCCESS, s2) })"

definition Audit_TcValidateOperParams :: "tc_env \<Rightarrow> TcOperStatus oprog" where
  "Audit_TcValidateOperParams env s =
     (let user = (op_oper s = TC_OP_USER_AUDIT);
          (ret, cid) = srv_get_string (op_ssess s) (if user then TC_REQ_ARG_INDEX else TC_REQ_SESSION_ID_INDEX);
          (ret1, rec) = (if user then srv_get_uint8 (op_ssess s) (TC_REQ_ARG_INDEX + 1)
                         else (TCUTIL_RET_SUCCESS, None));
          s = (case cid of Some c \<Rightarrow> s\<lparr>op_controller_id := c\<rparr> | None \<Rightarrow> s);
          reconnect = (case rec of Some x \<Rightarrow> x | None \<Rightarrow> 0)
      in if ret = TCUTIL_RET_FAILURE \<or> ret1 = TCUTIL_RET_FAILURE then Some (TC_OPER_INVALID_INPUT, s)
         else if ret = TCUTIL_RET_FATAL \<or> ret1 = TCUTIL_RET_FATAL then Some (TC_OPER_FAILURE, s)
         else if op_controller_id s = '''' then Some (TC_OPER_INVALID_INPUT, s)
         else let s = s\<lparr>op_force_reconnect := (reconnect \<noteq> 0)\<rparr>
              in if op_oper s = TC_OP_DRIVER_AUDIT then validate_driver_request env s
                 else Some (TC_OPER_SUCCESS, s))"

definition Audit_wop :: "opst \<Rightarrow> TcWriteOperation" where
  "Audit_wop s = (if op_oper s = TC_OP_USER_AUDIT then TC_AUDIT_USER else TC_AUDIT_DRIVER)"

definition Audit_TcGetExclusion :: "tc_env \<Rightarrow> TcOperStatus oprog" where
  "Audit_TcGetExclusion env s =
     (if op_oper s \<noteq> TC_OP_USER_AUDIT \<and> op_api_audit s then Some (TC_OPER_SUCCESS, s)
      else do { (r, s1) \<leftarrow> op_GetLock env (op_session_id s) TC_ACQUIRE_WRITE_SESSION (Audit_wop s) s;
                Some (if r \<noteq> TC_LOCK_SUCCESS then Audit_HandleLockRet r else TC_OPER_SUCCESS, s1) })"

definition Audit_TcReleaseExclusion :: "tc_env \<Rightarrow> TcOperStatus oprog" where
  "Audit_TcReleaseExclusion env s =
     (if op_api_audit s then Some (TC_OPER_SUCCESS, s)
      else do { (r, s1) \<leftarrow> op_lock_step env
                  (ReleaseLock (op_session_id s) 0 TC_RELEASE_WRITE_SESSION (Audit_wop s)) s;
                Some (if r \<noteq> TC_LOCK_SUCCESS then Audit_HandleLockRet r else TC_OPER_SUCCESS, s1) })"

section \<open>Messages\<close>

text \<open>The callers ignore the result: with an unknown driver the message keeps its defaults.\<close>

definition Audit_FillTcMsgData :: "opst \<Rightarrow> TcMsgOperType \<Rightarrow> TcMsg \<Rightarrow> TcOperStatus \<times> TcMsg" where
  "Audit_FillTcMsgData s oper_type m =
     (if oper_type = MSG_GET_DRIVERID
      then (TC_OPER_SUCCESS, TcMsgAudit_SetData (op_controller_id s) UNC_CT_UNKNOWN m)
      else if op_driver_id s = UNC_CT_UNKNOWN then (TC_OPER_INVALID_INPUT, m)
      else let m1 = TcMsgAudit_SetData (op_controller_id s) (op_driver_id s) m;
               m2 = (if oper_type = MSG_AUDIT_START
                     then let m' = SetReconnect (op_force_reconnect s) m1
                          in if op_oper s = TC_OP_USER_AUDIT then IsUserAudit True m' else m'
                     else m1);
               m3 = (if oper_type = MSG_AUDIT_TRANS_END then snd (SetTransResult (op_trans_result s) m2) else m2);
               m4 = (if oper_type = MSG_AUDIT_END then snd (SetAuditResult (op_audit_result s) m3) else m3)
           in (TC_OPER_SUCCESS, m4))"

definition Audit_message :: "tc_env \<Rightarrow> TcMsgOperType \<Rightarrow> (TcOperRet \<times> TcMsg) oprog" where
  "Audit_message env oper s =
     (case op_CreateInstance oper s of
        None \<Rightarrow> None
      | Some m \<Rightarrow> op_run_msg env (snd (Audit_FillTcMsgData s oper m)) s)"

definition GetDriverType :: "tc_env \<Rightarrow> bool oprog" where
  "GetDriverType env s =
     (if op_oper s = TC_OP_DRIVER_AUDIT then Some (True, s)
      else do {
        ((oper_ret, m), s) \<leftarrow> Audit_message env MSG_GET_DRIVERID s;
        if oper_ret \<noteq> TCOPER_RET_SUCCESS
        then Some (False, s\<lparr>op_user_response := HandleMsgRet oper_ret\<rparr>)
        else let s = s\<lparr>op_driver_id := GetDriverId_GetResult m\<rparr>
             in if op_driver_id s = UNC_CT_UNKNOWN then Some (False, s\<lparr>op_resp_msg := Some m\<rparr>)
                else Some (True, s) })"

definition AuditStart :: "tc_env \<Rightarrow> bool oprog" where
  "AuditStart env s =
     do { ((oper_ret, m), s) \<leftarrow> Audit_message env MSG_AUDIT_START s;
          if oper_ret \<noteq> TCOPER_RET_SUCCESS \<and> oper_ret \<noteq> TCOPER_RET_SIMPLIFIED_AUDIT
          then Some (False, s\<lparr>op_user_response := HandleMsgRet oper_ret, op_resp_msg := Some m\<rparr>)
          else if oper_ret = TCOPER_RET_SIMPLIFIED_AUDIT
          then Some (True, s\<lparr>op_user_response := TC_OPER_SIMPLIFIED_AUDIT\<rparr>)
          else Some (True, s) }"

text \<open>\<open>AuditTransEnd\<close> and \<open>AuditEnd\<close> differ in the message only.\<close>

definition audit_closing :: "tc_env \<Rightarrow> TcMsgOperType \<Rightarrow> bool oprog" where
  "audit_closing env oper s =
     do { ((oper_ret, m), s) \<leftarrow> Audit_message env oper s;
          if oper_ret \<noteq> TCOPER_RET_SUCCESS
          then Some (False, s\<lparr>op_user_response := TC_SYSTEM_FAILURE\<rparr>)
          else Some (True, s) }"

definition AuditTransEnd :: "tc_env \<Rightarrow> bool oprog" where
  "AuditTransEnd env = audit_closing env MSG_AUDIT_TRANS_END"

definition AuditEnd :: "tc_env \<Rightarrow> bool oprog" where
  "AuditEnd env = audit_closing env MSG_AUDIT_END"

definition AuditTransStart :: "tc_env \<Rightarrow> bool oprog" where
  "AuditTransStart env s =
     do { ((oper_ret, m), s) \<leftarrow> Audit_message env MSG_AUDIT_TRANS_START s;
          if oper_ret \<noteq> TCOPER_RET_SUCCESS
          then if oper_ret = TCOPER_RET_FATAL
               then Some (False, s\<lparr>op_user_response := HandleMsgRet oper_ret, op_resp_msg := Some m\<rparr>)
               else do {
                 (ended, s) \<leftarrow> AuditEnd env s;
                 if ended
                 then Some (False, s\<lparr>op_user_response := HandleMsgRet oper_ret, op_resp_msg := Some m\<rparr>)
                 else Some (False, s) }
          else Some (True, s) }"

definition AuditVote :: "tc_env \<Rightarrow> bool oprog" where
  "AuditVote env s =
     do { ((oper_ret, m), s) \<leftarrow> Audit_message env MSG_AUDIT_VOTE s;
          if oper_ret \<noteq> TCOPER_RET_SUCCESS
          then if oper_ret = TCOPER_RET_FATAL
               then Some (False, s\<lparr>op_user_response := HandleMsgRet oper_ret, op_resp_msg := Some m\<rparr>)
               else do {
                 (ended, s) \<leftarrow> AuditTransEnd env s;
                 if \<not> ended then Some (False, s)
                 else do {
                   (ended, s) \<leftarrow> AuditEnd env s;
                   if ended
                   then Some (False, s\<lparr>op_user_response := HandleMsgRet oper_ret, op_resp_msg := Some m\<rparr>)
                   else Some (False, s) } }
          else Some (True, s) }"

definition AuditGlobalCommit :: "tc_env \<Rightarrow> bool oprog" where
  "AuditGlobalCommit env s =
     do { (_, s) \<leftarrow> op_UpdateRecoveryTable env UNC_DT_RUNNING (op_oper s) 0 s;
          ((oper_ret, m), s) \<leftarrow> Audit_message env MSG_AUDIT_GLOBAL s;
          let s = s\<lparr>op_trans_result := msg_trans_result m, op_audit_result := msg_audit_result m\<rparr>;
          if oper_ret \<noteq> TCOPER_RET_SUCCESS
          then Some (False, s\<lparr>op_user_response := TC_SYSTEM_FAILURE\<rparr>)
          else Some (True, s\<lparr>op_resp_msg := Some m\<rparr>) }"

definition audit_finish :: "tc_env \<Rightarrow> TcOperStatus oprog" where
  "audit_finish env s =
     do { let s = (if op_user_response s = TC_OPER_SIMPLIFIED_AUDIT \<and> op_oper s = TC_OP_DRIVER_AUDIT
                   then s\<lparr>op_audit_result := TC_SIMPLIFIED_AUDIT_SUCCESS\<rparr> else s);
          (ok, s) \<leftarrow> AuditEnd env s;
          if \<not> ok then Some (op_user_response s, s)
          else do {
            (r, s) \<leftarrow> op_UpdateRecoveryTable env UNC_DT_INVALID TC_OP_INVALID 0 s;
            if r \<noteq> TCOPER_RET_SUCCESS
            then Some (TC_OPER_FAILURE, s\<lparr>op_user_response := TC_OPER_FAILURE\<rparr>)
            else Some (TC_OPER_SUCCESS, s) } }"

definition Audit_Execute :: "tc_env \<Rightarrow> TcOperStatus oprog" where
  "Audit_Execute env s =
     (if op_api_audit s then Some (TC_OPER_SUCCESS, s)
      else do {
        (ok, s) \<leftarrow> GetDriverType env s;
        if \<not> ok then Some (TC_OPER_ABORT, s)
        else do {
          (ok, s) \<leftarrow> AuditStart env s;
          if \<not> ok then Some (op_user_response s, s)
          else if op_oper s = TC_OP_USER_AUDIT \<or> op_user_response s \<noteq> TC_OPER_SIMPLIFIED_AUDIT
          then steps [AuditTransStart env, AuditVote env, AuditGlobalCommit env, AuditTransEnd env]
                 (audit_finish env) s
          else audit_finish env s } })"

section \<open>Answer\<close>

definition SetAuditOperationStatus :: "tc_env \<Rightarrow> opst \<Rightarrow> TcOperStatus \<times> opst" where
  "SetAuditOperationStatus env s =
     (let (r, s1) = op_set_uint32 env (ucast (op_audit_result s)) s
      in (if r \<noteq> TCUTIL_RET_SUCCESS then TC_OPER_FAILURE else TC_OPER_SUCCESS, s1))"

definition Audit_SendAdditionalResponse :: "tc_env \<Rightarrow> TcOperStatus \<Rightarrow> TcOperStatus oprog" where
  "Audit_SendAdditionalResponse env oper_stat s =
     (if op_api_audit s then Some (oper_stat, s)
      else let (r, s1) = SetAuditOperationStatus env s
           in if r \<noteq> TC_OPER_SUCCESS then Some (TC_OPER_FAILURE, s1)
              else case op_resp_msg s1 of
                     Some m \<Rightarrow>
                       if op_oper s1 = TC_OP_USER_AUDIT
                       then let (ret, s2) = op_forward env m s1
                            in Some (if ret \<noteq> TCOPER_RET_SUCCESS then TC_SYSTEM_FAILURE else oper_stat, s2)
                       else Some (oper_stat, s1)
                   | None \<Rightarrow> Some (oper_stat, s1))"

definition Audit_vt :: "tc_env \<Rightarrow> oper_vt" where
  "Audit_vt env =
     \<lparr>vt_HandleArgs = HandleArgs Audit_GetSessionId 4 (Audit_TcValidateOperType env)
        Audit_TcCheckOperArgCount (Audit_TcValidateOperParams env),
      vt_TcGetExclusion = Audit_TcGetExclusion env,
      vt_TcReleaseExclusion = Audit_TcReleaseExclusion env,
      vt_TcCreateMsgList = (\<lambda>s. Some (TC_OPER_SUCCESS, s)),
      vt_Execute = Audit_Execute env,
      vt_SendResponse = SendResponse env (Audit_SendAdditionalResponse env)\<rparr>"

end
