(* ===== verification/TC_OperSimple.thy ===== *)
theory TC_OperSimple
  imports TC_Oper
begin

text \<open>
  The operations on read sessions, on the startup configuration and on the auto-save flag:
  classes \<open>TcReadOperations\<close> (\<open>tc_read_operations.cc\<close>), \<open>TcDbOperations\<close>
  (\<open>tc_db_operations.cc\<close>) and \<open>TcAutoSaveOperations\<close> (\<open>tc_autosave_operations.cc\<close>).
\<close>

section \<open>Class TcReadOperations\<close>

definition Read_HandleLockRet :: "TcLockRet \<Rightarrow> TcOperStatus" where
  "Read_HandleLockRet lock_ret =
     (case lock_ret of
        TC_LOCK_INVALID_UNC_STATE \<Rightarrow> TC_INVALID_STATE
      | TC_LOCK_OPERATION_NOT_ALLOWED \<Rightarrow> TC_INVALID_STATE
      | TC_LOCK_BUSY \<Rightarrow> TC_SYSTEM_BUSY
      | TC_LOCK_INVALID_SESSION_ID \<Rightarrow> TC_INVALID_SESSION_ID
      | TC_LOCK_ALREADY_ACQUIRED \<Rightarrow> TC_SESSION_ALREADY_ACTIVE
      | TC_LOCK_NOT_ACQUIRED \<Rightarrow> TC_SESSION_NOT_ACTIVE
      | _ \<Rightarrow> TC_OPER_FAILURE)"

definition Read_TcCheckOperArgCount :: "u32 \<Rightarrow> TcOperStatus oprog" where
  "Read_TcCheckOperArgCount avail_count s =
     (if op_oper s = TC_OP_READ_ACQUIRE
      then if avail_count > 3 then Some (TC_OPER_INVALID_INPUT, s)
           else if avail_count = 3 then Some (TC_OPER_SUCCESS, s\<lparr>op_arg_timeout := True\<rparr>)
           else Some (TC_OPER_SUCCESS, s)
      else if op_oper s = TC_OP_READ_RELEASE \<and> avail_count \<noteq> 2 then Some (TC_OPER_INVALID_INPUT, s)
      else Some (TC_OPER_SUCCESS, s))"

definition Read_TcValidateOperType :: "TcOperStatus oprog" where
  "Read_TcValidateOperType s =
     Some (if op_oper s \<noteq> TC_OP_READ_ACQUIRE \<and> op_oper s \<noteq> TC_OP_READ_RELEASE
           then TC_INVALID_OPERATION_TYPE else TC_OPER_SUCCESS, s)"

definition Read_TcValidateOperParams :: "TcOperStatus oprog" where
  "Read_TcValidateOperParams s =
     (if op_oper s \<noteq> TC_OP_READ_ACQUIRE \<or> \<not> op_arg_timeout s then Some (TC_OPER_SUCCESS, s)
      else case srv_get_uint32 (op_ssess s) TC_REQ_ARG_INDEX of
             (r, None) \<Rightarrow> Some (util_status r, s)
           | (_, Some timeout) \<Rightarrow>
               Some (if timeout > 0 \<and> \<not> op_taskq s then TC_OPER_FAILURE else TC_OPER_SUCCESS,
                     s\<lparr>op_timeout := timeout\<rparr>))"

definition Read_TcGetExclusion :: "tc_env \<Rightarrow> TcOperStatus oprog" where
  "Read_TcGetExclusion env s =
     do { (r, s1) \<leftarrow>
            (if op_oper s = TC_OP_READ_RELEASE
             then op_lock_step env (ReleaseLock (op_session_id s) 0 TC_RELEASE_READ_SESSION TC_WRITE_NONE) s
             else if op_oper s = TC_OP_READ_ACQUIRE
             then op_GetLock env (op_session_id s) TC_ACQUIRE_READ_SESSION TC_WRITE_NONE s
             else Some (TC_LOCK_FAILURE, s));
          Some (if r \<noteq> TC_LOCK_SUCCESS then Read_HandleLockRet r else TC_OPER_SUCCESS, s1) }"

text \<open>
  Posting the release of the read session to the timer (\<open>TcTaskqUtil::PostReadTimer\<close>).
\<close>

definition PostReadTimer :: "tc_env \<Rightarrow> u32 \<Rightarrow> u32 \<Rightarrow> opst \<Rightarrow> int \<times> opst" where
  "PostReadTimer env session_id time_out s =
     (if time_out = 0 then (0, s)
      else (te_post env (op_hist s), s\<lparr>op_hist := op_hist s @ [EvPost session_id time_out]\<rparr>))"

definition Read_Execute :: "tc_env \<Rightarrow> TcOperStatus oprog" where
  "Read_Execute env s =
     (if op_timeout s = 0 \<or> op_oper s = TC_OP_READ_RELEASE then Some (TC_OPER_SUCCESS, s)
      else let (r, s1) = PostReadTimer env (op_session_id s) (op_timeout s) s
           in Some (if r \<noteq> 0 then TC_OPER_FAILURE else TC_OPER_SUCCESS, s1))"

definition Read_vt :: "tc_env \<Rightarrow> oper_vt" where
  "Read_vt env =
     \<lparr>vt_HandleArgs = HandleArgs GetSessionId 2 Read_TcValidateOperType
        Read_TcCheckOperArgCount Read_TcValidateOperParams,
      vt_TcGetExclusion = Read_TcGetExclusion env,
      vt_TcReleaseExclusion = (\<lambda>s. Some (TC_OPER_SUCCESS, s)),
      vt_TcCreateMsgList = (\<lambda>s. Some (TC_OPER_SUCCESS, s)),
      vt_Execute = Read_Execute env,
      vt_SendResponse = SendResponse env (\<lambda>st s. Some (st, s))\<rparr>"

section \<open>Class TcDbOperations\<close>

definition Db_HandleLockRet :: "TcLockRet \<Rightarrow> TcOperStatus" where
  "Db_HandleLockRet lock_ret =
     (case lock_ret of
        TC_LOCK_INVALID_UNC_STATE \<Rightarrow> TC_INVALID_STATE
      | TC_LOCK_OPERATION_NOT_ALLOWED \<Rightarrow> TC_INVALID_STATE
      | TC_LOCK_BUSY \<Rightarrow> TC_SYSTEM_BUSY
      | _ \<Rightarrow> TC_OPER_FAILURE)"

definition Db_TcCheckOperArgCount :: "u32 \<Rightarrow> TcOperStatus oprog" where
  "Db_TcCheckOperArgCount avail_count s =
     Some (if avail_count \<noteq> 2 then TC_OPER_INVALID_INPUT else TC_OPER_SUCCESS, s)"

definition op_set_srv_timeout :: "tc_env \<Rightarrow> TcOperStatus oprog" where
  "op_set_srv_timeout env s =
     (let (r, h) = set_srv_timeout (te_ipc env) (op_ssess s) (op_hist s)
      in Some (if r = TCUTIL_RET_FAILURE then TC_OPER_FAILURE else TC_OPER_SUCCESS, s\<lparr>op_hist := h\<rparr>))"

definition Db_TcValidateOperType :: "tc_env \<Rightarrow> TcOperStatus oprog" where
  "Db_TcValidateOperType env s =
     (if op_oper s \<noteq> TC_OP_RUNNING_SAVE \<and> op_oper s \<noteq> TC_OP_CLEAR_STARTUP
      then Some (TC_INVALID_OPERATION_TYPE, s) else op_set_srv_timeout env s)"

definition Db_HandleMsgRet :: "TcOperRet \<Rightarrow> TcOperStatus" where
  "Db_HandleMsgRet MsgRet =
     (if MsgRet = TCOPER_RET_FATAL \<or> MsgRet = TCOPER_RET_FAILURE then TC_SYSTEM_FAILURE
      else if MsgRet = TCOPER_RET_ABORT then TC_OPER_ABORT
      else TC_OPER_SUCCESS)"

definition Db_wop :: "opst \<Rightarrow> TcWriteOperation" where
  "Db_wop s = (if op_oper s = TC_OP_RUNNING_SAVE then TC_SAVE_STARTUP_CONFIG else TC_CLEAR_STARTUP_CONFIG)"

definition Db_TcGetExclusion :: "tc_env \<Rightarrow> TcOperStatus oprog" where
  "Db_TcGetExclusion env s =
     do { (r, s1) \<leftarrow> op_GetLock env (op_session_id s) TC_ACQUIRE_WRITE_SESSION (Db_wop s) s;
          Some (if r \<noteq> TC_LOCK_SUCCESS then Db_HandleLockRet r else TC_OPER_SUCCESS, s1) }"

definition Db_TcReleaseExclusion :: "tc_env \<Rightarrow> TcOperStatus oprog" where
  "Db_TcReleaseExclusion env s =
     do { (r, s1) \<leftarrow> op_lock_step env
            (ReleaseLock (op_session_id s) 0 TC_RELEASE_WRITE_SESSION (Db_wop s)) s;
          Some (if r \<noteq> TC_LOCK_SUCCESS then Db_HandleLockRet r else TC_OPER_SUCCESS, s1) }"

definition Db_TcCreateMsgList :: "tc_env \<Rightarrow> TcOperStatus oprog" where
  "Db_TcCreateMsgList env s =
     do { (r, s1) \<leftarrow> op_UpdateRecoveryTable env UNC_DT_STARTUP
            (if op_oper s = TC_OP_RUNNING_SAVE then TC_OP_RUNNING_SAVE else TC_OP_CLEAR_STARTUP) 0 s;
          if r \<noteq> TCOPER_RET_SUCCESS then Some (TC_OPER_FAILURE, s1)
          else if op_msgs s1 = []
          then Some (TC_OPER_SUCCESS,
                 s1\<lparr>op_msgs := [if op_oper s = TC_OP_RUNNING_SAVE then MSG_SAVE_CONFIG else MSG_CLEAR_CONFIG]\<rparr>)
          else Some (TC_OPER_FAILURE, s1) }"

definition Db_SendAdditionalResponse :: "tc_env \<Rightarrow> TcOperStatus \<Rightarrow> TcOperStatus oprog" where
  "Db_SendAdditionalResponse env oper_stat s =
     (if oper_stat = TC_OPER_SUCCESS
      then do { (r, s1) \<leftarrow> op_UpdateRecoveryTable env UNC_DT_INVALID TC_OP_INVALID 0 s;
                Some (if r \<noteq> TCOPER_RET_SUCCESS then TC_OPER_FAILURE else TC_OPER_SUCCESS, s1) }
      else Some (oper_stat, s))"

definition Db_vt :: "tc_env \<Rightarrow> oper_vt" where
  "Db_vt env =
     \<lparr>vt_HandleArgs = HandleArgs GetSessionId 2 (Db_TcValidateOperType env)
        Db_TcCheckOperArgCount (\<lambda>s. Some (TC_OPER_SUCCESS, s)),
      vt_TcGetExclusion = Db_TcGetExclusion env,
      vt_TcReleaseExclusion = Db_TcReleaseExclusion env,
      vt_TcCreateMsgList = Db_TcCreateMsgList env,
      vt_Execute = Execute env Db_HandleMsgRet (\<lambda>oper m s. Some ((TC_OPER_SUCCESS, m), s)),
      vt_SendResponse = SendResponse env (Db_SendAdditionalResponse env)\<rparr>"

definition Db_Dispatch :: "tc_env \<Rightarrow> TcOperStatus oprog" where
  "Db_Dispatch env =
     (let vt = Db_vt env
      in phase vt INPUT_VALIDATION (vt_HandleArgs vt)
        (\<lambda>s. let ((ret_val, autosave_enabled), s) = op_db (GetConfTable (te_odbc env) False) s
             in if ret_val = TCOPER_RET_FAILURE then Some (TC_OPER_FAILURE, s)
                else if autosave_enabled \<and> op_oper s = TC_OP_RUNNING_SAVE
                then vt_SendResponse vt TC_OPER_SUCCESS s
                else if autosave_enabled \<and> op_oper s = TC_OP_CLEAR_STARTUP
                then RevokeOperation vt TC_OPER_FORBIDDEN s
                else phase vt GET_EXCLUSION_PHASE (vt_TcGetExclusion vt)
                    (phase vt CREATE_MSG_LIST (vt_TcCreateMsgList vt)
                    (phase vt EXECUTE_PHASE (vt_Execute vt)
                    (phase vt RELEASE_EXCLUSION_PHASE (vt_TcReleaseExclusion vt)
                       (vt_SendResponse vt TC_OPER_SUCCESS)))) s))"

section \<open>Class TcAutoSaveOperations\<close>

definition AutoSave_SetAutoSave :: "tc_env \<Rightarrow> opst \<Rightarrow> TcOperStatus \<times> opst" where
  "AutoSave_SetAutoSave env s =
     (let (r, s1) = op_set_uint32 env (if op_autosave s then 1 else 0) s
      in (if r \<noteq> TCUTIL_RET_SUCCESS then TC_OPER_FAILURE else TC_OPER_SUCCESS, s1))"

definition AutoSave_TcValidateOperType :: "TcOperStatus oprog" where
  "AutoSave_TcValidateOperType s =
     Some (if op_oper s > TC_OP_AUTOSAVE_DISABLE \<or> op_oper s < TC_OP_AUTOSAVE_GET
           then TC_INVALID_OPERATION_TYPE else TC_OPER_SUCCESS, s)"

definition AutoSave_lock_oper :: "opst \<Rightarrow> TcOperation" where
  "AutoSave_lock_oper s =
     (if op_oper s = TC_OP_AUTOSAVE_GET then TC_AUTO_SAVE_GET
      else if op_oper s = TC_OP_AUTOSAVE_ENABLE then TC_AUTO_SAVE_ENABLE
      else TC_AUTO_SAVE_DISABLE)"

definition AutoSave_TcGetExclusion :: "tc_env \<Rightarrow> TcOperStatus oprog" where
  "AutoSave_TcGetExclusion env s =
     do { (r, s1) \<leftarrow> op_GetLock env (op_session_id s) (AutoSave_lock_oper s) TC_WRITE_NONE s;
          Some (if r \<noteq> TC_LOCK_SUCCESS then Db_HandleLockRet r else TC_OPER_SUCCESS, s1) }"

definition AutoSave_TcReleaseExclusion :: "tc_env \<Rightarrow> TcOperStatus oprog" where
  "AutoSave_TcReleaseExclusion env s =
     do { (r, s1) \<leftarrow> op_lock_step env
            (ReleaseLock (op_session_id s) 0 (AutoSave_lock_oper s) TC_WRITE_NONE) s;
          Some (if r \<noteq> TC_LOCK_SUCCESS then Db_HandleLockRet r else TC_OPER_SUCCESS, s1) }"

text \<open>After the flag has been changed in the database, UPLL and UPPL are told.\<close>

definition autosave_notify :: "tc_env \<Rightarrow> TcOperStatus oprog" where
  "autosave_notify env s =
     (case op_CreateInstance
             (if op_oper s = TC_OP_AUTOSAVE_ENABLE then MSG_AUTOSAVE_ENABLE
              else if op_oper s = TC_OP_AUTOSAVE_DISABLE then MSG_AUTOSAVE_DISABLE else MSG_MAX) s of
        None \<Rightarrow> Some (TC_SYSTEM_FAILURE, s)
      | Some m \<Rightarrow>
          do { ((ret, m1), s1) \<leftarrow> op_run_msg env m s;
               Some (if ret \<noteq> TCOPER_RET_SUCCESS then HandleMsgRet ret else TC_OPER_SUCCESS, s1) })"

definition AutoSave_Execute :: "tc_env \<Rightarrow> TcOperStatus oprog" where
  "AutoSave_Execute env s =
     (let ((ret, autosave), s0) = op_db (GetConfTable (te_odbc env) (op_autosave s)) s;
          s = s0\<lparr>op_autosave := autosave\<rparr>
      in if ret \<noteq> TCOPER_RET_SUCCESS then Some (TC_OPER_FAILURE, s)
         else if op_oper s = TC_OP_AUTOSAVE_GET then Some (TC_OPER_SUCCESS, s)
         else if op_oper s = TC_OP_AUTOSAVE_ENABLE \<or> op_oper s = TC_OP_AUTOSAVE_DISABLE
         then let wanted = (op_oper s = TC_OP_AUTOSAVE_ENABLE)
              in if autosave = wanted then Some (TC_OPER_SUCCESS, s)
                 else let (ret, s1) = op_db (UpdateConfTable (te_odbc env) wanted) (s\<lparr>op_autosave := wanted\<rparr>)
                      in if ret \<noteq> TCOPER_RET_SUCCESS then Some (TC_OPER_FAILURE, s1)
                         else autosave_notify env s1
         else Some (TC_OPER_FAILURE, s))"

definition AutoSave_SendAdditionalResponse :: "tc_env \<Rightarrow> TcOperStatus \<Rightarrow> TcOperStatus oprog" where
  "AutoSave_SendAdditionalResponse env oper_stat s =
     (let (r, s1) = AutoSave_SetAutoSave env s
      in Some (if r \<noteq> TC_OPER_SUCCESS then TC_OPER_FAILURE else oper_stat, s1))"

definition AutoSave_vt :: "tc_env \<Rightarrow> oper_vt" where
  "AutoSave_vt env =
     \<lparr>vt_HandleArgs = HandleArgs GetSessionId 2 AutoSave_TcValidateOperType
        Db_TcCheckOperArgCount (\<lambda>s. Some (TC_OPER_SUCCESS, s)),
      vt_TcGetExclusion = AutoSave_TcGetExclusion env,
      vt_TcReleaseExclusion = AutoSave_TcReleaseExclusion env,
      vt_TcCreateMsgList = (\<lambda>s. Some (TC_OPER_SUCCESS, s)),
      vt_Execute = AutoSave_Execute env,
      vt_SendResponse = SendResponse env (AutoSave_SendAdditionalResponse env)\<rparr>"

end
