(* ===== verification/TC_OperStartup.thy ===== *)
theory TC_OperStartup
  imports TC_Oper
begin

text \<open>
  Class \<open>TcStartUpOperations\<close> (\<open>modules/tc/tc_startup_operations.cc\<close>): the messages that bring
  UPLL and UPPL into service when the node becomes active. After a switch-over the database named by
  the recovery table is audited first.
\<close>

definition Startup_HandleArgs :: "tc_env \<Rightarrow> TcOperStatus oprog" where
  "Startup_HandleArgs env s =
     (if \<not> op_is_switch s then Some (TC_OPER_SUCCESS, s)
      else let ((ret, db, oper, _), s1) = op_db (GetRecoveryTable (te_odbc env) (op_database_type s) (op_fail_oper s) 0) s;
               s2 = s1\<lparr>op_database_type := db, op_fail_oper := oper\<rparr>
           in Some (if ret \<noteq> TCOPER_RET_SUCCESS then TC_OPER_FAILURE else TC_OPER_SUCCESS, s2))"

definition Startup_TcCreateMsgList :: "TcOperStatus oprog" where
  "Startup_TcCreateMsgList s =
     (if op_msgs s = []
      then Some (TC_OPER_SUCCESS,
             s\<lparr>op_msgs :=
                 (if \<not> op_is_switch s then [MSG_SETUP]
                  else if op_database_type s \<noteq> UNC_DT_INVALID \<and> op_fail_oper s \<noteq> TC_OP_INVALID
                  then [MSG_AUDITDB] else []) @ [MSG_SETUP_COMPLETE]\<rparr>)
      else Some (TC_OPER_FAILURE, s))"

text \<open>
  The state of the coordinator becomes active before the last message is sent. \<open>SetData\<close> of the
  auto-save flag has an effect on the set-up messages only.
\<close>

definition Startup_FillTcMsgData :: "tc_env \<Rightarrow> fill" where
  "Startup_FillTcMsgData env oper_type m s =
     do { (_, s) \<leftarrow> (if oper_type = MSG_SETUP_COMPLETE
                     then op_lock_step env (\<lambda>l. ((), TcUpdateUncState TC_ACT l)) s
                     else Some ((), s));
          let ((ret, autosave_enabled), s) = op_db (GetConfTable (te_odbc env) False) s;
          if ret = TCOPER_RET_FAILURE then Some ((TC_OPER_FAILURE, m), s)
          else Some ((TC_OPER_SUCCESS,
                 if oper_type = MSG_AUDITDB
                 then TcMsgAuditDB_SetData (op_database_type s) (op_fail_oper s) m
                 else TcMsgSetUp_SetData autosave_enabled m), s) }"

definition Startup_SendResponse :: "tc_env \<Rightarrow> TcOperStatus \<Rightarrow> TcOperStatus oprog" where
  "Startup_SendResponse env ret s =
     (if ret = TC_OPER_SUCCESS
      then do { (r, s1) \<leftarrow> op_UpdateRecoveryTable env UNC_DT_INVALID TC_OP_INVALID 0 s;
                Some (if r \<noteq> TCOPER_RET_SUCCESS then TC_SYSTEM_FAILURE else ret, s1) }
      else Some (ret, s))"

definition Startup_vt :: "tc_env \<Rightarrow> oper_vt" where
  "Startup_vt env =
     \<lparr>vt_HandleArgs = Startup_HandleArgs env,
      vt_TcGetExclusion = (\<lambda>s. Some (TC_OPER_SUCCESS, s)),
      vt_TcReleaseExclusion = (\<lambda>s. Some (TC_OPER_SUCCESS, s)),
      vt_TcCreateMsgList = Startup_TcCreateMsgList,
      vt_Execute = Execute env HandleMsgRet (Startup_FillTcMsgData env),
      vt_SendResponse = Startup_SendResponse env\<rparr>"

text \<open>The alarm; its key is the name of the database.\<close>

definition SendAuditDBFailNotice :: "tc_env \<Rightarrow> opst \<Rightarrow> TcOperStatus \<times> opst" where
  "SendAuditDBFailNotice env s =
     (let key = (if op_database_type s = UNC_DT_RUNNING then ''DB_Running''
                 else if op_database_type s = UNC_DT_STARTUP then ''DB_Startup''
                 else if op_database_type s = UNC_DT_CANDIDATE then ''DB_Candidate''
                 else '''')
      in (if te_alarm env (op_hist s) then TC_OPER_SUCCESS else TC_OPER_FAILURE,
          s\<lparr>op_hist := op_hist s @ [EvAlarm key]\<rparr>))"

end
