(* ===== verification/TC_Module.thy ===== *)
theory TC_Module
  imports TC_OperAudit TC_OperSimple TC_OperStartup
begin

text \<open>
  Class \<open>TcModule\<close> (\<open>modules/tc/tc_module.cc\<close>) with its parents: the handlers of the state
  transitions of the node, the dispatch of the requests to the operations, the interface of the
  session manager; class \<open>UncStateHandler\<close> (\<open>tc_unc_states.cc\<close>), and the bodies of the posted
  tasks (\<open>tc_taskq.cc\<close>).
\<close>

section \<open>State\<close>

datatype UncState = INIT | ACT | SBY | STOP | FAILURE

datatype TcApiRet =
    TC_API_COMMON_SUCCESS | TC_INVALID_PARAM | TC_INVALID_UNC_STATE | TC_NO_CONFIG_SESSION
  | TC_API_COMMON_FAILURE

datatype TcServiceId =
    TC_CONFIG_SERVICES | TC_CANDIDATE_SERVICES | TC_STARTUP_DB_SERVICES | TC_READ_ACCESS_SERVICES
  | TC_AUTO_SAVE_SERVICES | TC_AUDIT_SERVICES | TC_OTHER_SERVICE

text \<open>
  The members of the module, the static members of \<open>TcConfigOperations\<close> and the history.
  \<open>tm_uninit\<close> and \<open>tm_uninit_instance\<close> are what an uninitialised flag and counter hold.
\<close>

record TcModule =
  tm_lock :: TcLock
  tm_stat :: TcStatics
  tm_channels :: TcChannelNameMap
  tm_read_q :: bool
  tm_audit_q :: bool
  tm_dsn_name :: string
  tm_max_failover_instance :: u32
  tm_simultaneous :: bool
  tm_state :: UncState
  tm_uninit :: bool
  tm_uninit_instance :: u32
  tm_hist :: history

type_synonym 'a mprog = "TcModule \<Rightarrow> ('a \<times> TcModule) option"

text \<open>
  An operation object of the module, for a request (\<open>ss\<close>) or for the module itself: it is built
  from the members by \<open>mk\<close> and works on the lock, the static members and the history, which the
  module shares with it.
\<close>

definition mod_oper :: "(opst \<Rightarrow> opst) \<Rightarrow> ssess option \<Rightarrow> 'a oprog \<Rightarrow> ('a \<times> opst) mprog" where
  "mod_oper mk ss p m =
     do { (r, s) \<leftarrow> p (mk (TcOperations_new (tm_uninit m) (tm_lock m) (tm_stat m) (tm_hist m) ss (tm_channels m)));
          Some ((r, s), m\<lparr>tm_lock := op_lock s, tm_stat := op_stat s, tm_hist := op_hist s\<rparr>) }"

text \<open>Opening the connection of a new \<open>TcDbHandler\<close>; its outcome is not looked at.\<close>

definition mod_open_db :: "tc_env \<Rightarrow> TcModule \<Rightarrow> TcModule" where
  "mod_open_db env m = m\<lparr>tm_hist := snd (TcDbHandler_new (te_odbc env) (tm_dsn_name m) (tm_hist m))\<rparr>"

section \<open>Transitions of the node\<close>

definition enter_state_transition :: "tc_env \<Rightarrow> TcLockRet oprog" where
  "enter_state_transition env = op_GetLock env 0 TC_ACQUIRE_READ_LOCK_FOR_STATE_TRANSITION TC_WRITE_NONE"

definition leave_state_transition :: "tc_env \<Rightarrow> TcLockRet oprog" where
  "leave_state_transition env =
     op_lock_step env (ReleaseLock 0 0 TC_RELEASE_READ_LOCK_FOR_STATE_TRANSITION TC_WRITE_NONE)"

definition HandleStart :: "tc_env \<Rightarrow> bool oprog" where
  "HandleStart env s =
     do { (ret, s) \<leftarrow> enter_state_transition env s;
          if ret \<noteq> TC_LOCK_SUCCESS then Some (False, s)
          else do {
            (_, s) \<leftarrow> op_lock_step env (\<lambda>l. ((), TcUpdateUncState TC_SBY l)) s;
            (ret, s) \<leftarrow> leave_state_transition env s;
            Some (ret = TC_LOCK_SUCCESS, s) } }"

definition HandleStop :: "tc_env \<Rightarrow> bool oprog" where
  "HandleStop env s =
     do { (_, s) \<leftarrow> op_lock_step env (\<lambda>l. ((), TcUpdateUncState TC_STOP l)) s;
          (_, s) \<leftarrow> op_lock_step env (\<lambda>l. ((), ResetTcGlobalDataOnStateTransition l)) s;
          Some (True, s) }"

text \<open>
  The audit of the database failed: the number of failed takeovers is read from the recovery table,
  counted up and stored; when it reaches the limit, an alarm is sent and the node stays in the state
  of failure. \<open>Some r\<close> is the early return of the handler.
\<close>

definition count_audit_failure :: "tc_env \<Rightarrow> u32 \<Rightarrow> u32 \<Rightarrow> (bool option) oprog" where
  "count_audit_failure env max_failover_instance uninit s =
     (let ((r, db, oper, failover_instance), s) =
            op_db (GetRecoveryTable (te_odbc env) (op_database_type s) (op_fail_oper s) uninit) s;
          s = s\<lparr>op_database_type := db, op_fail_oper := oper\<rparr>
      in if r \<noteq> TCOPER_RET_SUCCESS then Some (None, s)
         else do {
           (_, s) \<leftarrow> op_UpdateRecoveryTable env db oper (failover_instance + 1) s;
           let s = s\<lparr>op_audit_db_fail := False\<rparr>;
           if failover_instance + 1 \<ge> max_failover_instance
           then do {
             let s = snd (SendAuditDBFailNotice env s);
             (_, s) \<leftarrow> op_lock_step env (\<lambda>l. ((), TcUpdateUncState TC_ACT_FAIL l)) s;
             (ret, s) \<leftarrow> leave_state_transition env s;
             Some (Some (ret = TC_LOCK_SUCCESS), s) }
           else Some (None, s) })"

text \<open>The local \<open>failover_instance\<close> is not initialised; \<open>uninit\<close> is what it holds.\<close>

definition HandleAct :: "tc_env \<Rightarrow> u32 \<Rightarrow> u32 \<Rightarrow> string \<Rightarrow> bool oprog" where
  "HandleAct env max_failover_instance uninit dsn s =
     do { (ret, s) \<leftarrow> enter_state_transition env s;
          if ret \<noteq> TC_LOCK_SUCCESS then Some (False, s)
          else do {
            (_, s) \<leftarrow> op_lock_step env (\<lambda>l. ((), ResetTcGlobalDataOnStateTransition l)) s;
            let s = s\<lparr>op_hist := snd (TcDbHandler_new (te_odbc env) dsn (op_hist s))\<rparr>;
            (oper_ret, s) \<leftarrow> Dispatch (Startup_vt env) s;
            if oper_ret \<noteq> TC_OPER_SUCCESS
            then do {
              (early, s) \<leftarrow> (if op_audit_db_fail s then count_audit_failure env max_failover_instance uninit s
                             else Some (None, s));
              case early of
                Some r \<Rightarrow> Some (r, s)
              | None \<Rightarrow>
                  do { (_, s) \<leftarrow> leave_state_transition env s;
                       Some (False, s) } }
            else do {
              let s = s\<lparr>op_stat := SetStateChangedToSby False (op_stat s)\<rparr>;
              (ret, s) \<leftarrow> leave_state_transition env s;
              Some (ret = TC_LOCK_SUCCESS, s) } } }"

section \<open>Class UncStateHandler\<close>

datatype unc_event = PFC_EVTYPE_SYS_START | PFC_EVTYPE_SYS_STOP | CLSTAT_EVTYPE_ACT bool | OTHER_EVENT

definition unc_start_event_handler_fn :: "tc_env \<Rightarrow> unc_event \<Rightarrow> TcModule \<Rightarrow> TcModule option" where
  "unc_start_event_handler_fn env ev m =
     (if ev = PFC_EVTYPE_SYS_START \<and> tm_state m = INIT
      then do { ((ret, _), m) \<leftarrow> mod_oper id None (HandleStart env) m;
                Some (m\<lparr>tm_state := (if ret then SBY else FAILURE)\<rparr>) }
      else Some m)"

definition unc_stop_event_handler_fn :: "tc_env \<Rightarrow> unc_event \<Rightarrow> TcModule \<Rightarrow> TcModule option" where
  "unc_stop_event_handler_fn env ev m =
     (if ev = PFC_EVTYPE_SYS_STOP \<and> tm_state m \<noteq> STOP
      then do { ((ret, _), m) \<leftarrow> mod_oper id None (HandleStop env) m;
                Some (m\<lparr>tm_state := (if ret then STOP else FAILURE)\<rparr>) }
      else Some m)"

definition unc_act_event_handler_fn :: "tc_env \<Rightarrow> unc_event \<Rightarrow> TcModule \<Rightarrow> TcModule option" where
  "unc_act_event_handler_fn env ev m =
     (case ev of
        CLSTAT_EVTYPE_ACT is_switch \<Rightarrow>
          if tm_state m = SBY
          then do { ((ret, _), m) \<leftarrow> mod_oper (\<lambda>s. s\<lparr>op_is_switch := is_switch\<rparr>) None
                                     (HandleAct env (tm_max_failover_instance m) (tm_uninit_instance m) (tm_dsn_name m)) m;
                    Some (m\<lparr>tm_state := (if ret then ACT else FAILURE)\<rparr>) }
          else Some m
      | _ \<Rightarrow> Some m)"

definition unc_get_state :: "TcModule \<Rightarrow> UncState" where
  "unc_get_state m = tm_state m"

section \<open>Requests\<close>

definition mod_dispatch :: "(opst \<Rightarrow> opst) \<Rightarrow> ssess option \<Rightarrow> TcOperStatus oprog \<Rightarrow> (TcOperStatus \<times> ssess option) mprog" where
  "mod_dispatch mk ss p m =
     do { ((r, s), m) \<leftarrow> mod_oper mk ss p m;
          Some ((r, op_ssess s), m) }"

definition HandleConfigRequests :: "tc_env \<Rightarrow> ssess \<Rightarrow> (TcOperStatus \<times> ssess option) mprog" where
  "HandleConfigRequests env ss = mod_dispatch id (Some ss) (Config_Dispatch env)"

definition HandleStartUpRequests :: "tc_env \<Rightarrow> ssess \<Rightarrow> (TcOperStatus \<times> ssess option) mprog" where
  "HandleStartUpRequests env ss m = mod_dispatch id (Some ss) (Db_Dispatch env) (mod_open_db env m)"

definition HandleReadRequests :: "tc_env \<Rightarrow> ssess \<Rightarrow> (TcOperStatus \<times> ssess option) mprog" where
  "HandleReadRequests env ss m =
     mod_dispatch (\<lambda>s. s\<lparr>op_taskq := tm_read_q m\<rparr>) (Some ss) (Dispatch (Read_vt env)) m"

definition HandleAutoSaveRequests :: "tc_env \<Rightarrow> ssess \<Rightarrow> (TcOperStatus \<times> ssess option) mprog" where
  "HandleAutoSaveRequests env ss m =
     (let m1 = mod_open_db env m; m2 = m1\<lparr>tm_hist := tm_hist m1 @ [EvTimeout]\<rparr>
      in mod_dispatch id (Some ss) (Dispatch (AutoSave_vt env)) m2)"

definition HandleCandidateRequests :: "tc_env \<Rightarrow> ssess \<Rightarrow> (TcOperStatus \<times> ssess option) mprog" where
  "HandleCandidateRequests env ss m =
     mod_dispatch id (Some ss) (Dispatch (Cand_vt env)) (mod_open_db env m)"

text \<open>The members that \<open>TcAuditOperations\<close> initialises to other values than the other operations.\<close>

definition TcAuditOperations_init :: "bool \<Rightarrow> opst \<Rightarrow> opst" where
  "TcAuditOperations_init audit_q s = s\<lparr>op_user_response := TC_OPER_FAILURE, op_taskq := audit_q\<rparr>"

definition HandleAuditRequests :: "tc_env \<Rightarrow> ssess \<Rightarrow> (TcOperStatus \<times> ssess option) mprog" where
  "HandleAuditRequests env ss m =
     mod_dispatch (TcAuditOperations_init (tm_audit_q m)) (Some ss) (Dispatch (Audit_vt env)) (mod_open_db env m)"

definition ipcService :: "tc_env \<Rightarrow> TcServiceId \<Rightarrow> ssess \<Rightarrow> (TcOperStatus \<times> ssess option) mprog" where
  "ipcService env service ss m =
     (case service of
        TC_CONFIG_SERVICES \<Rightarrow> HandleConfigRequests env ss m
      | TC_STARTUP_DB_SERVICES \<Rightarrow> HandleStartUpRequests env ss m
      | TC_READ_ACCESS_SERVICES \<Rightarrow> HandleReadRequests env ss m
      | TC_AUTO_SAVE_SERVICES \<Rightarrow> HandleAutoSaveRequests env ss m
      | TC_CANDIDATE_SERVICES \<Rightarrow> HandleCandidateRequests env ss m
      | TC_AUDIT_SERVICES \<Rightarrow> HandleAuditRequests env ss m
      | TC_OTHER_SERVICE \<Rightarrow> Some ((TC_OPER_INVALID_INPUT, Some ss), m))"

section \<open>Posted tasks\<close>

definition HandleReadTimeout :: "tc_env \<Rightarrow> u32 \<Rightarrow> TcModule \<Rightarrow> TcModule option" where
  "HandleReadTimeout env session_id m =
     do { (_, m) \<leftarrow> mod_oper (\<lambda>s. s\<lparr>op_session_id := session_id, op_oper := TC_OP_READ_RELEASE\<rparr>) None
                     (Dispatch (Read_vt env)) m;
          Some m }"

definition HandleDriverAudit :: "tc_env \<Rightarrow> string \<Rightarrow> u32 \<Rightarrow> TcModule \<Rightarrow> TcModule option" where
  "HandleDriverAudit env controller_id driver_id m =
     do { (_, m) \<leftarrow> mod_oper (\<lambda>s. (TcAuditOperations_init False s)
                       \<lparr>op_controller_id := controller_id, op_oper := TC_OP_DRIVER_AUDIT,
                        op_driver_id := driver_id\<rparr>) None
                     (Dispatch (Audit_vt env)) m;
          Some m }"

section \<open>Interface of the session manager\<close>

definition TcGetConfigSession :: "tc_env \<Rightarrow> u32 \<Rightarrow> u32 \<Rightarrow> (TcApiRet \<times> u32 \<times> u32) mprog" where
  "TcGetConfigSession env session_id config_id m =
     do { (((r, sid, cid), _), m) \<leftarrow> mod_oper id None (op_GetConfigIdSessionId env session_id config_id) m;
          Some ((case r of
                   TC_LOCK_INVALID_PARAMS \<Rightarrow> TC_INVALID_PARAM
                 | TC_LOCK_INVALID_UNC_STATE \<Rightarrow> TC_INVALID_UNC_STATE
                 | TC_LOCK_NO_CONFIG_SESSION_EXIST \<Rightarrow> TC_NO_CONFIG_SESSION
                 | TC_LOCK_SUCCESS \<Rightarrow> TC_API_COMMON_SUCCESS
                 | _ \<Rightarrow> TC_API_COMMON_FAILURE, sid, cid), m) }"

definition ReleaseConfigSession :: "tc_env \<Rightarrow> TcOperStatus mprog" where
  "ReleaseConfigSession env m =
     do { ((ret, session_id, config_id), m) \<leftarrow> TcGetConfigSession env 0 0 m;
          if ret \<noteq> TC_API_COMMON_SUCCESS then Some (TC_OPER_SUCCESS, m)
          else do { ((r, _), m) \<leftarrow> mod_oper id None (release_config_for env session_id config_id) m;
                    Some (r, m) } }"

definition TcReleaseSession :: "tc_env \<Rightarrow> u32 \<Rightarrow> TcApiRet mprog" where
  "TcReleaseSession env session_id m =
     do { ((state, _), m) \<leftarrow> mod_oper id None (op_lock_step env (\<lambda>l. (GetUncCurrentState l, l))) m;
          if state \<noteq> TC_ACT \<and> state \<noteq> TC_SBY then Some (TC_INVALID_UNC_STATE, m)
          else do {
            ((progress, _), m) \<leftarrow> mod_oper id None (op_lock_step env (\<lambda>l. (GetSessionOperation session_id l, l))) m;
            case progress of
              TC_READ_PROGRESS \<Rightarrow>
                do { (_, m) \<leftarrow> mod_oper (\<lambda>s. s\<lparr>op_taskq := tm_read_q m, op_session_id := session_id,
                                              op_oper := TC_OP_READ_RELEASE\<rparr>) None (Dispatch (Read_vt env)) m;
                     Some (TC_API_COMMON_SUCCESS, m) }
            | TC_WRITE_ABORT_CANDIDATE_CONFIG_PROGRESS \<Rightarrow>
                do { ((ret, _), m) \<leftarrow> mod_oper id None (op_lock_step env (TcMarkSessionId session_id)) m;
                     Some (if ret = TC_LOCK_SUCCESS then TC_API_COMMON_SUCCESS else TC_INVALID_PARAM, m) }
            | TC_CONFIG_COMMIT_PROGRESS \<Rightarrow>
                do { ((ret, _), m) \<leftarrow> mod_oper id None (op_lock_step env (TcMarkSessionId session_id)) m;
                     Some (if ret = TC_LOCK_SUCCESS then TC_API_COMMON_SUCCESS else TC_INVALID_PARAM, m) }
            | TC_CONFIG_NO_NOTIFY_PROGRESS \<Rightarrow>
                do { (r, m) \<leftarrow> ReleaseConfigSession env m;
                     Some (if r = TC_OPER_SUCCESS then TC_API_COMMON_SUCCESS else TC_INVALID_PARAM, m) }
            | TC_NO_OPERATION_PROGRESS \<Rightarrow> Some (TC_INVALID_PARAM, m)
            | _ \<Rightarrow> Some (TC_API_COMMON_SUCCESS, m) } }"

end
