(* ===== verification/TC_LockSafety.thy ===== *)
theory TC_LockSafety
  imports TC_Lock
begin

text \<open>
  The lock as a state machine: every public method of \<open>TcLock\<close>, the two halves of a blocking
  acquisition, and the invariant that all interleavings of them keep. The theorems at the end are
  the exclusion guarantees that the operation handlers rely on.
\<close>

section \<open>Events\<close>

text \<open>
  One event is one critical section of the global mutex. \<open>BlockRead\<close> and \<open>BlockWrite\<close> are the
  first halves of a blocking acquisition, up to the wait on the condition variable; \<open>WakeRead\<close>
  and \<open>WakeWrite\<close> are what the woken thread does before it returns or waits again. The guards of
  \<open>Acquire\<close> and \<open>Release\<close> record how the callers use the interface: the state transition lock is
  taken by the module itself with session 0 only (\<open>tc_module.cc\<close>), a write lock is never released
  with the operation \<open>TC_WRITE_NONE\<close>, and the global data is reset only by the thread that
  performs the state transition or after the stop event.
\<close>

datatype lock_event =
    Acquire u32 TcOperation TcWriteOperation
  | Release u32 u32 TcOperation TcWriteOperation
  | NotifyDone u32 u32 TcNotifyOperation
  | MarkSession u32
  | UpdateState TcState
  | SetupComplete bool
  | ResetData
  | BlockRead u32
  | WakeRead u32
  | BlockWrite u32
  | WakeWrite u32

definition client_guard :: "lock_event \<Rightarrow> TcLock \<Rightarrow> bool" where
  "client_guard ev l =
     (case ev of
        Acquire sid oper _ \<Rightarrow> oper = TC_ACQUIRE_READ_LOCK_FOR_STATE_TRANSITION \<longrightarrow> sid = 0
      | Release sid _ oper wop \<Rightarrow>
          (oper = TC_RELEASE_READ_LOCK_FOR_STATE_TRANSITION \<longrightarrow> sid = 0) \<and>
          (oper = TC_RELEASE_WRITE_SESSION \<longrightarrow> wop \<noteq> TC_WRITE_NONE)
      | ResetData \<Rightarrow> IsStateTransitionInProgress l \<or> GetUncCurrentState l = TC_STOP
      | BlockRead sid \<Rightarrow> sid = 0
      | WakeRead sid \<Rightarrow> sid = 0
      | _ \<Rightarrow> True)"

definition enter_read_wait :: "TcLock \<Rightarrow> TcLock" where
  "enter_read_wait l = l\<lparr>tc_rwlock := waitForRead_enter (tc_rwlock l)\<rparr>"

definition leave_read_wait :: "TcLock \<Rightarrow> TcLock" where
  "leave_read_wait l = l\<lparr>tc_rwlock := waitForRead_leave (tc_rwlock l)\<rparr>"

definition enter_write_wait :: "TcLock \<Rightarrow> TcLock" where
  "enter_write_wait l = l\<lparr>tc_rwlock := waitForWrite_enter (tc_rwlock l)\<rparr>"

definition leave_write_wait :: "TcLock \<Rightarrow> TcLock" where
  "leave_write_wait l = l\<lparr>tc_rwlock := waitForWrite_leave (tc_rwlock l)\<rparr>"

definition wake_read :: "u32 \<Rightarrow> TcLock \<Rightarrow> TcLock" where
  "wake_read sid l =
     (let l1 = leave_read_wait l
      in if GetUncCurrentState l1 = TC_STOP then l1
         else case transition_loop [] sid l1 of Some (_, l2) \<Rightarrow> l2 | None \<Rightarrow> enter_read_wait l1)"

definition wake_write :: "u32 \<Rightarrow> TcLock \<Rightarrow> TcLock" where
  "wake_write sid l =
     (let l1 = leave_write_wait l
      in if TcOperationIsAllowed sid TC_ACQUIRE_WRITE_SESSION l1 \<noteq> TC_LOCK_SUCCESS then l1
         else case audit_driver_loop [] sid l1 of Some (_, l2) \<Rightarrow> l2 | None \<Rightarrow> enter_write_wait l1)"

text \<open>The effect of an event; \<open>None\<close> when the event cannot happen in the state.\<close>

definition lock_exec :: "lock_event \<Rightarrow> TcLock \<Rightarrow> TcLock option" where
  "lock_exec ev l =
     (if \<not> client_guard ev l then None
      else case ev of
        Acquire sid oper wop \<Rightarrow> map_option snd (GetLock no_wait sid oper wop l)
      | Release sid cid oper wop \<Rightarrow> Some (snd (ReleaseLock sid cid oper wop l))
      | NotifyDone cid sid nop \<Rightarrow> Some (snd (NotifyConfigIdSessionIdDone cid sid nop l))
      | MarkSession sid \<Rightarrow> Some (snd (TcMarkSessionId sid l))
      | UpdateState st \<Rightarrow> Some (TcUpdateUncState st l)
      | SetupComplete b \<Rightarrow> Some (TcSetSetupComplete b l)
      | ResetData \<Rightarrow> Some (ResetTcGlobalDataOnStateTransition l)
      | BlockRead sid \<Rightarrow> Some (enter_read_wait l)
      | WakeRead sid \<Rightarrow> Some (wake_read sid l)
      | BlockWrite sid \<Rightarrow> Some (enter_write_wait l)
      | WakeWrite sid \<Rightarrow> Some (wake_write sid l))"

inductive lock_step :: "TcLock \<Rightarrow> lock_event \<Rightarrow> TcLock \<Rightarrow> bool" where
  step: "lock_exec ev l = Some l' \<Longrightarrow> lock_step l ev l'"

inductive lock_reach :: "bool \<Rightarrow> TcLock \<Rightarrow> bool" for allowed where
  init: "lock_reach allowed (TcInitWRLock allowed TcLock_new)"
| step: "lock_reach allowed l \<Longrightarrow> lock_step l ev l' \<Longrightarrow> lock_reach allowed l'"

fun lock_run :: "lock_event list \<Rightarrow> TcLock \<Rightarrow> TcLock option" where
  "lock_run [] l = Some l"
| "lock_run (ev # evs) l = do { l1 \<leftarrow> lock_exec ev l; lock_run evs l1 }"

inductive_simps lock_step_iff: "lock_step l ev l'"

section \<open>Invariant\<close>

definition lock_readers :: "TcLock \<Rightarrow> nat" where
  "lock_readers l = card (tc_read_lock l) + (if IsStateTransitionInProgress l then 1 else 0)"

definition rw_ok :: "TcReadWriteLock \<Rightarrow> nat \<Rightarrow> u32 set \<Rightarrow> bool" where
  "rw_ok rw n S \<longleftrightarrow>
     db_mgmt_session_id rw = USESS_ID_DB_MGMT \<and> launcher_session_id rw = USESS_ID_LAUNCHER \<and>
     (w_operation rw = TC_WRITE_NONE \<longrightarrow> w_session_id rw = 0) \<and>
     (if is_simultaneous_read_write_allowed rw
      then r_owner rw = of_nat n \<and>
           w_owner rw = (if w_operation rw = TC_WRITE_NONE then 0 else RW_OWNER_WRLOCKED) \<and>
           (r_db_mgmt_session rw \<longrightarrow> USESS_ID_DB_MGMT \<in> S) \<and>
           (r_launcher_session rw \<longrightarrow> USESS_ID_LAUNCHER \<in> S) \<and>
           (w_operation rw \<noteq> TC_WRITE_NONE \<longrightarrow>
              \<not> r_db_mgmt_session rw \<and> \<not> r_launcher_session rw)
      else n < 2 ^ 32 \<and>
           (if w_operation rw = TC_WRITE_NONE then rw_owner rw = of_nat n
            else n = 0 \<and> rw_owner rw = RW_OWNER_WRLOCKED))"

definition config_ok :: "TcConfigLock \<Rightarrow> bool" where
  "config_ok c \<longleftrightarrow>
     (cl_is_notify_pending c \<longleftrightarrow> cl_notify_operation c \<noteq> TC_NOTIFY_NONE) \<and>
     (cl_notify_operation c = TC_NOTIFY_ACQUIRE \<longrightarrow> cl_is_taken c) \<and>
     (cl_notify_operation c = TC_NOTIFY_RELEASE \<longrightarrow> \<not> cl_is_taken c) \<and>
     (cl_is_taken c \<longrightarrow> cl_config_id c \<noteq> 0)"

definition needs_config :: "TcWriteOperation \<Rightarrow> bool" where
  "needs_config wop \<longleftrightarrow> wop = TC_COMMIT \<or> wop = TC_ABORT_CANDIDATE_CONFIG"

definition commit_ok :: "TcConfigLock \<Rightarrow> TcReadWriteLock \<Rightarrow> bool" where
  "commit_ok c rw \<longleftrightarrow>
     (needs_config (w_operation rw) \<longrightarrow>
        cl_is_taken c \<and> \<not> cl_is_notify_pending c \<and> cl_session_id c = w_session_id rw)"

definition lock_inv :: "TcLock \<Rightarrow> bool" where
  "lock_inv l \<longleftrightarrow>
     config_ok (tc_config_lock l) \<and> commit_ok (tc_config_lock l) (tc_rwlock l) \<and>
     (rw_ok (tc_rwlock l) (lock_readers l) (tc_read_lock l) \<or>
      GetUncCurrentState l = TC_STOP \<and> w_operation (tc_rwlock l) = TC_WRITE_NONE)"

section \<open>The read/write lock keeps its invariant\<close>

lemma of_nat_u32_eq_0: "n < 2 ^ 32 \<Longrightarrow> (of_nat n = (0 :: u32)) = (n = 0)"
  by (simp add: word_of_nat_eq_0_iff nat_dvd_not_less) (metis dvd_0_right gr_zeroI nat_dvd_not_less)

lemma of_nat_u32_max: "n < 2 ^ 32 \<Longrightarrow> of_nat n \<noteq> UINT32_MAX \<Longrightarrow> n + 1 < 2 ^ 32"
proof (rule ccontr)
  assume *: "n < 2 ^ 32" "of_nat n \<noteq> UINT32_MAX" "\<not> n + 1 < 2 ^ 32"
  then have "n = 2 ^ 32 - 1" by simp
  then have "of_nat n = UINT32_MAX" by (simp add: UINT32_MAX_def)
  with * show False by simp
qed

lemma rw_ok_wakeUp [simp]: "rw_ok (wakeUp rw) n S = rw_ok rw n S"
  by (simp add: wakeUp_def rw_ok_def)

lemma rw_ok_waiters [simp]:
  "rw_ok (waitForRead_enter rw) n S = rw_ok rw n S" "rw_ok (waitForRead_leave rw) n S = rw_ok rw n S"
  "rw_ok (waitForWrite_enter rw) n S = rw_ok rw n S" "rw_ok (waitForWrite_leave rw) n S = rw_ok rw n S"
  by (simp_all add: rw_ok_def rwlock_defs)

lemma USESS_distinct [simp]: "USESS_ID_DB_MGMT \<noteq> USESS_ID_LAUNCHER" "USESS_ID_LAUNCHER \<noteq> USESS_ID_DB_MGMT"
  "USESS_ID_DB_MGMT \<noteq> 0" "USESS_ID_LAUNCHER \<noteq> 0" "0 \<noteq> USESS_ID_DB_MGMT" "0 \<noteq> USESS_ID_LAUNCHER"
  by (simp_all add: USESS_ID_DB_MGMT_def USESS_ID_LAUNCHER_def)

lemma rw_ok_setReader:
  assumes "rw_ok rw n S" "canReadLock sid rw" "(S \<union> {sid}) \<inter> {USESS_ID_DB_MGMT, USESS_ID_LAUNCHER} \<subseteq> S'"
  shows "rw_ok (setReader sid rw) (Suc n) S'"
  using assms of_nat_u32_max [of n]
  by (auto simp: rw_ok_def setReader_def canReadLock_def Let_def RW_OWNER_WRLOCKED_def add.commute
      split: if_splits)

lemma rw_ok_unlock_read:
  assumes "rw_ok rw (Suc n) S" "(S - {sid}) \<inter> {USESS_ID_DB_MGMT, USESS_ID_LAUNCHER} \<subseteq> S'"
  shows "rw_ok (unlock_read sid rw) n S'"
  using assms
  by (auto simp: rw_ok_def unlock_read_def Let_def wakeUp_def split: if_splits)

lemma rw_ok_setWriter:
  assumes "rw_ok rw n S" "canWriteLock rw" "wop \<noteq> TC_WRITE_NONE"
  shows "rw_ok (setWriter sid wop rw) n S"
  using assms of_nat_u32_eq_0 [of n]
  by (auto simp: rw_ok_def setWriter_def canWriteLock_def Let_def RW_OWNER_WRLOCKED_def split: if_splits)

lemma rw_ok_unlock_write:
  assumes "rw_ok rw n S" "wop \<noteq> TC_WRITE_NONE"
  shows "rw_ok (snd (unlock_write sid wop rw)) n S"
  using assms
  by (auto simp: rw_ok_def unlock_write_def clearWriter_def isWriteHeld_by_def isWriteHeld_def
      wakeUp_def split: if_splits)


section \<open>Every operation keeps the invariant\<close>

lemma writer_frame [simp]:
  "w_operation (setReader sid rw) = w_operation rw" "w_session_id (setReader sid rw) = w_session_id rw"
  "w_operation (unlock_read sid rw) = w_operation rw" "w_session_id (unlock_read sid rw) = w_session_id rw"
  "w_operation (wakeUp rw) = w_operation rw" "w_session_id (wakeUp rw) = w_session_id rw"
  "w_operation (waitForRead_enter rw) = w_operation rw" "w_session_id (waitForRead_enter rw) = w_session_id rw"
  "w_operation (waitForRead_leave rw) = w_operation rw" "w_session_id (waitForRead_leave rw) = w_session_id rw"
  "w_operation (waitForWrite_enter rw) = w_operation rw" "w_session_id (waitForWrite_enter rw) = w_session_id rw"
  "w_operation (waitForWrite_leave rw) = w_operation rw" "w_session_id (waitForWrite_leave rw) = w_session_id rw"
  "w_operation (setWriter sid wop rw) = wop" "w_session_id (setWriter sid wop rw) = sid"
  by (simp_all add: rwlock_defs Let_def)

lemma commit_ok_writer:
  "w_operation rw' = w_operation rw \<Longrightarrow> w_session_id rw' = w_session_id rw \<Longrightarrow>
   commit_ok c rw' = commit_ok c rw"
  by (simp add: commit_ok_def)

lemma rw_ok_isWriteHeld: "rw_ok rw n S \<Longrightarrow> w_operation rw \<noteq> TC_WRITE_NONE \<Longrightarrow> isWriteHeld rw"
  by (auto simp: rw_ok_def isWriteHeld_def split: if_splits)

lemma lock_inv_writer_held:
  "lock_inv l \<Longrightarrow> w_operation (tc_rwlock l) \<noteq> TC_WRITE_NONE \<Longrightarrow> isWriteHeld (tc_rwlock l)"
  by (auto simp: lock_inv_def dest: rw_ok_isWriteHeld)

lemma lock_inv_cong:
  assumes "lock_inv l" "tc_config_lock l' = tc_config_lock l" "tc_rwlock l' = tc_rwlock l"
    "tc_read_lock l' = tc_read_lock l" "tc_state_lock l' = tc_state_lock l"
  shows "lock_inv l'"
  using assms
  by (simp add: lock_inv_def lock_readers_def IsStateTransitionInProgress_def GetUncCurrentState_def)

lemma lock_inv_config:
  assumes "lock_inv l" "config_ok c" "commit_ok c (tc_rwlock l)"
  shows "lock_inv (l\<lparr>tc_config_lock := c\<rparr>)"
  using assms
  by (simp add: lock_inv_def lock_readers_def IsStateTransitionInProgress_def GetUncCurrentState_def)

lemma GetConfigId_nonzero: "GetConfigId c \<noteq> 0"
proof (cases "c = UINT32_MAX")
  case False
  have "c + 1 = 0 \<Longrightarrow> c = UINT32_MAX"
    using UINT32_MAX_plus_1 by (metis add_right_cancel)
  with False show ?thesis by (auto simp: GetConfigId_def)
qed (simp add: GetConfigId_def TC_START_CONFIG_ID_def)

lemma inv_UpdateConfigData:
  assumes "lock_inv l" "w_operation (tc_rwlock l) \<noteq> TC_COMMIT"
    "w_operation (tc_rwlock l) \<noteq> TC_ABORT_CANDIDATE_CONFIG"
  shows "lock_inv (UpdateConfigData sid l)"
  unfolding UpdateConfigData_def using assms
  by (intro lock_inv_config) (auto simp: config_ok_def commit_ok_def needs_config_def GetConfigId_nonzero)

lemma lock_inv_commit:
  assumes "lock_inv l" "needs_config (w_operation (tc_rwlock l))"
  shows "cl_is_taken (tc_config_lock l) \<and> \<not> cl_is_notify_pending (tc_config_lock l) \<and>
    cl_session_id (tc_config_lock l) = w_session_id (tc_rwlock l) \<and> isWriteHeld (tc_rwlock l)"
  using assms lock_inv_writer_held [OF assms(1)]
  by (auto simp: lock_inv_def commit_ok_def needs_config_def)

lemma inv_AcquireConfigLock: "lock_inv l \<Longrightarrow> lock_inv (snd (AcquireConfigLock sid l))"
  using lock_inv_commit [of l]
  by (auto simp: AcquireConfigLock_def needs_config_def intro!: inv_UpdateConfigData)

lemma inv_ForceAcquireConfigLock: "lock_inv l \<Longrightarrow> lock_inv (snd (ForceAcquireConfigLock sid l))"
  using lock_inv_commit [of l]
  by (auto simp: ForceAcquireConfigLock_def needs_config_def Let_def intro!: inv_UpdateConfigData)

lemma commit_ok_free: "\<not> needs_config (w_operation rw) \<Longrightarrow> commit_ok c rw"
  by (simp add: commit_ok_def)

lemma inv_ReleaseConfigLock: "lock_inv l \<Longrightarrow> lock_inv (snd (ReleaseConfigLock sid cid l))"
  using lock_inv_commit [of l]
  by (auto simp: ReleaseConfigLock_def Let_def config_ok_def needs_config_def
      intro!: lock_inv_config commit_ok_free)

lemma inv_NotifyConfigIdSessionIdDone:
  assumes "lock_inv l"
  shows "lock_inv (snd (NotifyConfigIdSessionIdDone cid sid nop l))"
  using assms
  by (auto simp: NotifyConfigIdSessionIdDone_def Let_def lock_inv_def config_ok_def commit_ok_def
      lock_readers_def IsStateTransitionInProgress_def GetUncCurrentState_def)

lemma inv_TcMarkSessionId: "lock_inv l \<Longrightarrow> lock_inv (snd (TcMarkSessionId sid l))"
  by (auto simp: TcMarkSessionId_def Let_def intro!: lock_inv_config)
    (auto simp: lock_inv_def config_ok_def commit_ok_def)

lemma lock_readers_Suc: "x \<notin> tc_read_lock l \<Longrightarrow>
   lock_readers (l\<lparr>tc_rwlock := r, tc_read_lock := insert x (tc_read_lock l)\<rparr>) = Suc (lock_readers l)"
  by (simp add: lock_readers_def IsStateTransitionInProgress_def)

lemma lock_readers_remove: "x \<in> tc_read_lock l \<Longrightarrow>
   lock_readers l = Suc (lock_readers (l\<lparr>tc_read_lock := tc_read_lock l - {x}, tc_rwlock := r\<rparr>))"
  using card_gt_0_iff [of "tc_read_lock l"]
  by (auto simp: lock_readers_def IsStateTransitionInProgress_def)

lemma lock_readers_rwlock [simp]: "lock_readers (l\<lparr>tc_rwlock := r\<rparr>) = lock_readers l"
  "lock_readers (l\<lparr>tc_auto_save := b\<rparr>) = lock_readers l"
  "lock_readers (l\<lparr>setup_complete_done := b\<rparr>) = lock_readers l"
  by (simp_all add: lock_readers_def IsStateTransitionInProgress_def)

lemma inv_AcquireReadLock:
  assumes "lock_inv l" "GetUncCurrentState l \<noteq> TC_STOP"
  shows "lock_inv (snd (AcquireReadLock sid l))"
proof (cases "canReadLock sid (tc_rwlock l)")
  case True
  let ?S = "tc_read_lock l"
  have ok: "rw_ok (tc_rwlock l) (lock_readers l) ?S"
    using assms by (simp add: lock_inv_def)
  have "rw_ok (setReader sid (tc_rwlock l)) (Suc (lock_readers l)) (insert sid ?S)"
    by (rule rw_ok_setReader [OF ok True]) auto
  moreover from this have "rw_ok (unlock_read sid (setReader sid (tc_rwlock l))) (lock_readers l) (insert sid ?S)"
    by (rule rw_ok_unlock_read) auto
  ultimately show ?thesis
    using assms True
    by (auto simp: AcquireReadLock_def tryLock_read_def lock_inv_def lock_readers_Suc
        commit_ok_writer [of "setReader sid (tc_rwlock l)" "tc_rwlock l"]
        commit_ok_writer [of "unlock_read sid (setReader sid (tc_rwlock l))" "tc_rwlock l"]
        insert_absorb GetUncCurrentState_def)
qed (use assms in \<open>simp add: AcquireReadLock_def tryLock_read_def\<close>)

lemma inv_ReleaseReadLock:
  assumes "lock_inv l"
  shows "lock_inv (snd (ReleaseReadLock sid l))"
proof (cases "sid \<in> tc_read_lock l")
  case True
  let ?l' = "l\<lparr>tc_read_lock := tc_read_lock l - {sid}, tc_rwlock := unlock_read sid (tc_rwlock l)\<rparr>"
  have "rw_ok (tc_rwlock l) (lock_readers l) (tc_read_lock l) \<Longrightarrow>
    rw_ok (unlock_read sid (tc_rwlock l)) (lock_readers ?l') (tc_read_lock l - {sid})"
    by (rule rw_ok_unlock_read [of _ _ "tc_read_lock l"])
      (auto simp only: lock_readers_remove [OF True, symmetric])
  with assms True show ?thesis
    by (auto simp: ReleaseReadLock_def lock_inv_def GetUncCurrentState_def
        commit_ok_writer [of "unlock_read sid (tc_rwlock l)" "tc_rwlock l"])
qed (use assms in \<open>simp add: ReleaseReadLock_def\<close>)

lemma lock_inv_rwlock:
  assumes "lock_inv l" "commit_ok (tc_config_lock l) rw"
    "rw_ok (tc_rwlock l) (lock_readers l) (tc_read_lock l) \<Longrightarrow> rw_ok rw (lock_readers l) (tc_read_lock l)"
    "GetUncCurrentState l = TC_STOP \<Longrightarrow> w_operation (tc_rwlock l) = TC_WRITE_NONE \<Longrightarrow> w_operation rw = TC_WRITE_NONE"
  shows "lock_inv (l\<lparr>tc_rwlock := rw\<rparr>)"
  using assms by (auto simp: lock_inv_def GetUncCurrentState_def)

lemma inv_same_writer:
  assumes "lock_inv l" "w_operation rw = w_operation (tc_rwlock l)" "w_session_id rw = w_session_id (tc_rwlock l)"
    "\<And>n S. rw_ok rw n S = rw_ok (tc_rwlock l) n S"
  shows "lock_inv (l\<lparr>tc_rwlock := rw\<rparr>)"
  using assms by (intro lock_inv_rwlock) (auto simp: lock_inv_def commit_ok_def)

lemma lock_readers_enter_transition:
  "\<not> IsStateTransitionInProgress l \<Longrightarrow> lock_readers (enter_transition sid l) = Suc (lock_readers l)"
  by (simp add: lock_readers_def enter_transition_def IsStateTransitionInProgress_def)

lemma inv_enter_transition:
  assumes "lock_inv l" "transition_ready sid l" "GetUncCurrentState l \<noteq> TC_STOP" "sid = 0"
  shows "lock_inv (enter_transition sid l)"
proof -
  have "rw_ok (setReader sid (tc_rwlock l)) (Suc (lock_readers l)) (tc_read_lock l)"
    using assms by (intro rw_ok_setReader) (auto simp: lock_inv_def transition_ready_def)
  then show ?thesis
    using assms lock_readers_enter_transition [of l sid]
    by (auto simp: lock_inv_def transition_ready_def IsStateTransitionInProgress_def
        commit_ok_writer [of "setReader 0 (tc_rwlock l)" "tc_rwlock l"])
      (auto simp: enter_transition_def commit_ok_def)
qed

lemma inv_TcReleaseReadLockForStateTransition:
  assumes "lock_inv l"
  shows "lock_inv (snd (TcReleaseReadLockForStateTransition 0 l))"
proof (cases "IsStateTransitionInProgress l")
  case True
  let ?l = "snd (TcReleaseReadLockForStateTransition 0 l)"
  have "lock_readers l = Suc (lock_readers ?l)"
    using True
    by (simp add: lock_readers_def IsStateTransitionInProgress_def TcReleaseReadLockForStateTransition_def)
  then have "rw_ok (tc_rwlock l) (lock_readers l) (tc_read_lock l) \<Longrightarrow>
      rw_ok (unlock_read 0 (tc_rwlock l)) (lock_readers ?l) (tc_read_lock l)"
    by (intro rw_ok_unlock_read [of _ _ "tc_read_lock l"]) auto
  with assms True show ?thesis
    by (auto simp: lock_inv_def TcReleaseReadLockForStateTransition_def IsStateTransitionInProgress_def
        GetUncCurrentState_def commit_ok_def)
qed (use assms in \<open>simp add: TcReleaseReadLockForStateTransition_def IsStateTransitionInProgress_def\<close>)

lemma inv_setWriter:
  assumes "lock_inv l" "GetUncCurrentState l \<noteq> TC_STOP" "canWriteLock (tc_rwlock l)" "wop \<noteq> TC_WRITE_NONE"
    "needs_config wop \<longrightarrow> cl_is_taken (tc_config_lock l) \<and> \<not> cl_is_notify_pending (tc_config_lock l) \<and>
       cl_session_id (tc_config_lock l) = sid"
  shows "lock_inv (l\<lparr>tc_rwlock := setWriter sid wop (tc_rwlock l)\<rparr>)"
  using assms by (intro lock_inv_rwlock) (auto simp: commit_ok_def intro: rw_ok_setWriter)

lemma inv_try_write:
  assumes "lock_inv l" "GetUncCurrentState l \<noteq> TC_STOP" "wop \<noteq> TC_WRITE_NONE"
    "needs_config wop \<longrightarrow> cl_is_taken (tc_config_lock l) \<and> \<not> cl_is_notify_pending (tc_config_lock l) \<and>
       cl_session_id (tc_config_lock l) = sid"
  shows "lock_inv (snd (try_write sid wop l))"
  using assms by (auto simp: try_write_def tryLock_write_def intro: inv_setWriter)

lemma inv_waitForRead:
  assumes "lock_inv l" "\<And>l. lock_inv l \<Longrightarrow> lock_inv (f l)"
  shows "lock_inv (waitForRead f l)"
proof -
  have "lock_inv (f (l\<lparr>tc_rwlock := waitForRead_enter (tc_rwlock l)\<rparr>))"
    by (intro assms(2) inv_same_writer assms(1)) simp_all
  then show ?thesis
    by (auto simp: waitForRead_def Let_def intro!: inv_same_writer)
qed

lemma inv_waitForWrite:
  assumes "lock_inv l" "\<And>l. lock_inv l \<Longrightarrow> lock_inv (f l)"
  shows "lock_inv (waitForWrite f l)"
proof -
  have "lock_inv (f (l\<lparr>tc_rwlock := waitForWrite_enter (tc_rwlock l)\<rparr>))"
    by (intro assms(2) inv_same_writer assms(1)) simp_all
  then show ?thesis
    by (auto simp: waitForWrite_def Let_def intro!: inv_same_writer)
qed

lemma inv_transition_loop:
  assumes "\<And>f l. f \<in> set fs \<Longrightarrow> lock_inv l \<Longrightarrow> lock_inv (f l)"
    "lock_inv l" "GetUncCurrentState l \<noteq> TC_STOP" "transition_loop fs 0 l = Some (r, l')"
  shows "lock_inv l'"
  using assms
proof (induction fs arbitrary: l)
  case Nil
  then show ?case by (auto simp: inv_enter_transition split: if_splits)
next
  case (Cons f fs)
  then have "lock_inv (waitForRead f l)" by (intro inv_waitForRead) auto
  with Cons show ?case
    by (auto simp: inv_enter_transition Let_def GetUncCurrentState_def split: if_splits)
qed

lemma inv_flags [simp]: "lock_inv (l\<lparr>tc_auto_save := b\<rparr>) = lock_inv l"
  "lock_inv (l\<lparr>setup_complete_done := b\<rparr>) = lock_inv l"
  by (auto elim: lock_inv_cong)

lemma inv_wait_setup_complete:
  "wait_setup_complete bs l = Some l' \<Longrightarrow> lock_inv l \<Longrightarrow>
   lock_inv l' \<and> tc_state_lock l' = tc_state_lock l \<and> tc_config_lock l' = tc_config_lock l"
  by (induction bs l rule: wait_setup_complete.induct)
    (auto split: if_splits)

lemma allowed_write_state:
  "TcOperationIsAllowed sid oper l = TC_LOCK_SUCCESS \<Longrightarrow> GetUncCurrentState l \<noteq> TC_STOP"
  by (auto simp: TcOperationIsAllowed_def GetUncCurrentState_def Let_def)

lemma inv_audit_driver_loop:
  assumes "\<And>f l. f \<in> set fs \<Longrightarrow> lock_inv l \<Longrightarrow> lock_inv (f l)"
    "lock_inv l" "GetUncCurrentState l \<noteq> TC_STOP" "audit_driver_loop fs sid l = Some (r, l')"
  shows "lock_inv l'"
  using assms
proof (induction fs arbitrary: l)
  case Nil
  then show ?case by (auto simp: needs_config_def intro!: inv_setWriter split: if_splits)
next
  case (Cons f fs)
  then have "lock_inv (waitForWrite f l)" by (intro inv_waitForWrite) auto
  with Cons show ?case
    by (auto simp: Let_def needs_config_def intro!: inv_setWriter split: if_splits
        dest: allowed_write_state)
qed

lemma inv_AcquireWriteLock:
  assumes "\<And>f l. f \<in> set (wakes e) \<Longrightarrow> lock_inv l \<Longrightarrow> lock_inv (f l)"
    "lock_inv l" "GetUncCurrentState l \<noteq> TC_STOP" "AcquireWriteLock e sid wop l = Some (r, l')"
  shows "lock_inv l'"
proof (cases wop)
  case TC_AUDIT_DRIVER
  with assms obtain l1 where l1: "wait_setup_complete (polls e) l = Some l1"
    and "audit_driver_loop (wakes e) sid l1 = Some (r, l')"
    by (auto simp: AcquireWriteLock_def AcquireWriteLockForAuditDriver_def bind_eq_Some_conv)
  moreover from inv_wait_setup_complete [OF l1] assms(2,3)
  have "lock_inv l1" "GetUncCurrentState l1 \<noteq> TC_STOP"
    by (auto simp: GetUncCurrentState_def)
  ultimately show ?thesis using assms(1) by (blast intro: inv_audit_driver_loop)
qed (use assms inv_try_write [OF assms(2,3), of wop sid] in
  \<open>auto simp: AcquireWriteLock_def tclock_defs needs_config_def Let_def split: if_splits\<close>)

lemma auto_save_result:
  "snd (AutoSaveEnable l) = l\<lparr>tc_auto_save := True\<rparr>" "snd (AutoSaveDisable l) = l\<lparr>tc_auto_save := False\<rparr>"
  by (auto simp: AutoSaveEnable_def AutoSaveDisable_def)


lemma inv_acquire_autosave:
  assumes "\<And>f l. f \<in> set (wakes e) \<Longrightarrow> lock_inv l \<Longrightarrow> lock_inv (f l)"
    "lock_inv l" "GetUncCurrentState l \<noteq> TC_STOP" "acquire_autosave e sid wop l = Some (r, l')"
  shows "lock_inv l'"
proof -
  have aw: "lock_inv l2" if "AcquireWriteLock e sid wop (l\<lparr>tc_auto_save := True\<rparr>) = Some (r2, l2)" for r2 l2
  proof (rule inv_AcquireWriteLock [OF _ _ _ that])
    show "lock_inv (l\<lparr>tc_auto_save := True\<rparr>)" using assms(2) by simp
    show "GetUncCurrentState (l\<lparr>tc_auto_save := True\<rparr>) \<noteq> TC_STOP"
      using assms(3) by (simp add: GetUncCurrentState_def)
  qed (rule assms(1))
  show ?thesis
  proof (cases "tc_auto_save l")
    case False
    with assms(4) obtain r2 l2 where
      "AcquireWriteLock e sid wop (l\<lparr>tc_auto_save := True\<rparr>) = Some (r2, l2)"
      and "l' = l2 \<or> l' = snd (AutoSaveDisable l2)"
      by (auto simp: acquire_autosave_def AutoSaveEnable_def bind_eq_Some_conv split: if_splits)
    with aw show ?thesis by (auto simp: auto_save_result)
  qed (use assms(2,4) in \<open>simp add: acquire_autosave_def AutoSaveEnable_def\<close>)
qed

lemma inv_ReleaseWriteLock:
  assumes "lock_inv l" "wop \<noteq> TC_WRITE_NONE"
  shows "lock_inv (snd (ReleaseWriteLock sid wop l))"
proof -
  have "lock_inv (l\<lparr>tc_rwlock := snd (unlock_write sid wop (tc_rwlock l))\<rparr>)"
    using assms
    by (intro lock_inv_rwlock)
      (auto simp: rw_ok_unlock_write, auto simp: unlock_write_def clearWriter_def wakeUp_def
        commit_ok_def needs_config_def lock_inv_def)
  then show ?thesis
    by (cases "unlock_write sid wop (tc_rwlock l)") (simp add: ReleaseWriteLock_def)
qed

lemma inv_release_autosave:
  assumes "lock_inv l" "wop \<noteq> TC_WRITE_NONE"
  shows "lock_inv (snd (release_autosave sid wop l))"
  using assms inv_ReleaseWriteLock [of "l\<lparr>tc_auto_save := False\<rparr>" wop sid]
  by (auto simp: release_autosave_def AutoSaveDisable_def AutoSaveEnable_def Let_def split: prod.splits)

lemma inv_GetLock:
  assumes "\<And>f l. f \<in> set (wakes e) \<Longrightarrow> lock_inv l \<Longrightarrow> lock_inv (f l)"
    "lock_inv l" "oper = TC_ACQUIRE_READ_LOCK_FOR_STATE_TRANSITION \<longrightarrow> sid = 0"
    "GetLock e sid oper wop l = Some (r, l')"
  shows "lock_inv l'"
proof (cases "TcOperationIsAllowed sid oper l = TC_LOCK_SUCCESS")
  case True
  then have st: "GetUncCurrentState l \<noteq> TC_STOP" by (rule allowed_write_state)
  show ?thesis
  proof (cases oper)
    case TC_ACQUIRE_READ_LOCK_FOR_STATE_TRANSITION
    with True assms st have "transition_loop (wakes e) 0 l = Some (r, l')"
      by (auto simp: GetLock_def TcAcquireReadLockForStateTransition_def GetUncCurrentState_def
          split: if_splits)
    with assms(1,2) st show ?thesis by (rule inv_transition_loop)
  next
    case TC_ACQUIRE_WRITE_SESSION
    with True assms(4) have "AcquireWriteLock e sid wop l = Some (r, l')" by (simp add: GetLock_def)
    with assms(1,2) st show ?thesis by (rule inv_AcquireWriteLock)
  next
    case TC_AUTO_SAVE_ENABLE
    with True assms(4) have "acquire_autosave e sid TC_CLEAR_STARTUP_CONFIG l = Some (r, l')"
      by (simp add: GetLock_def)
    with assms(1,2) st show ?thesis by (rule inv_acquire_autosave)
  next
    case TC_AUTO_SAVE_DISABLE
    with True assms(4) have "acquire_autosave e sid TC_SAVE_STARTUP_CONFIG l = Some (r, l')"
      by (simp add: GetLock_def)
    with assms(1,2) st show ?thesis by (rule inv_acquire_autosave)
  next
    case TC_AUTO_SAVE_GET
    with True assms(2,4) auto_save_result(1) [of l] show ?thesis by (simp add: GetLock_def)
  qed (use True assms(2,4) st inv_AcquireConfigLock [of l sid] inv_AcquireReadLock [of l sid]
      inv_ForceAcquireConfigLock [of l sid] in \<open>simp_all add: GetLock_def\<close>)
qed (use assms in \<open>simp add: GetLock_def Let_def\<close>)

lemma inv_ReleaseLock:
  assumes "lock_inv l" "oper = TC_RELEASE_READ_LOCK_FOR_STATE_TRANSITION \<longrightarrow> sid = 0"
    "oper = TC_RELEASE_WRITE_SESSION \<longrightarrow> wop \<noteq> TC_WRITE_NONE"
  shows "lock_inv (snd (ReleaseLock sid cid oper wop l))"
  using assms
  by (cases oper) (auto simp: ReleaseLock_def auto_save_result inv_ReleaseConfigLock inv_ReleaseReadLock
      inv_ReleaseWriteLock inv_release_autosave inv_TcReleaseReadLockForStateTransition)

lemma inv_TcUpdateUncState:
  assumes "lock_inv l"
  shows "lock_inv (TcUpdateUncState st l)"
  using assms
  by (auto simp: TcUpdateUncState_def Let_def lock_inv_def lock_readers_def IsStateTransitionInProgress_def
      GetUncCurrentState_def commit_ok_writer [of "wakeUp (tc_rwlock l)" "tc_rwlock l"])

lemma inv_ResetTcGlobalData:
  assumes "lock_inv l" "IsStateTransitionInProgress l \<or> GetUncCurrentState l = TC_STOP"
  shows "lock_inv (ResetTcGlobalDataOnStateTransition l)"
  using assms
  by (auto simp: ResetTcGlobalDataOnStateTransition_def lock_inv_def lock_readers_def config_ok_def
      IsStateTransitionInProgress_def GetUncCurrentState_def commit_ok_def needs_config_def clearWriter_def
      rw_ok_def split: if_splits)

lemma inv_wake_read:
  assumes "lock_inv l"
  shows "lock_inv (wake_read 0 l)"
proof -
  have "lock_inv (leave_read_wait l)"
    unfolding leave_read_wait_def by (rule inv_same_writer [OF assms]) simp_all
  then show ?thesis
    by (auto simp: wake_read_def Let_def enter_read_wait_def intro: inv_enter_transition inv_same_writer)
qed

lemma inv_wake_write:
  assumes "lock_inv l"
  shows "lock_inv (wake_write sid l)"
proof -
  have "lock_inv (leave_write_wait l)"
    unfolding leave_write_wait_def by (rule inv_same_writer [OF assms]) simp_all
  then show ?thesis
    by (auto simp: wake_write_def Let_def enter_write_wait_def needs_config_def
        intro: inv_setWriter inv_same_writer dest: allowed_write_state)
qed

lemma lock_step_inv:
  assumes "lock_inv l" "lock_step l ev l'"
  shows "lock_inv l'"
proof -
  from assms(2) have ex: "lock_exec ev l = Some l'" by (simp add: lock_step_iff)
  then have g: "client_guard ev l" by (simp add: lock_exec_def split: if_splits)
  show ?thesis
  proof (cases ev)
    case (Acquire sid oper wop)
    with ex g obtain r where "GetLock no_wait sid oper wop l = Some (r, l')"
      by (auto simp: lock_exec_def)
    moreover from Acquire g have "oper = TC_ACQUIRE_READ_LOCK_FOR_STATE_TRANSITION \<longrightarrow> sid = 0"
      by (simp add: client_guard_def)
    ultimately show ?thesis using assms(1) inv_GetLock [of no_wait l oper sid wop r l']
      by (simp add: no_wait_def)
  next
    case (BlockRead sid)
    with ex g assms(1) show ?thesis
      by (auto simp: lock_exec_def enter_read_wait_def intro!: inv_same_writer)
  next
    case (BlockWrite sid)
    with ex g assms(1) show ?thesis
      by (auto simp: lock_exec_def enter_write_wait_def intro!: inv_same_writer)
  qed (use ex g assms(1) in \<open>auto simp: lock_exec_def client_guard_def TcSetSetupComplete_def
      inv_ReleaseLock inv_NotifyConfigIdSessionIdDone inv_TcMarkSessionId inv_TcUpdateUncState
      inv_ResetTcGlobalData inv_wake_read inv_wake_write\<close>)
qed

lemma lock_inv_init: "lock_inv (TcInitWRLock allowed TcLock_new)"
  by (simp add: lock_inv_def TcInitWRLock_def TcLock_new_def TcConfigLock_new_def TcReadWriteLock_new_def
      TcStateLock_new_def config_ok_def commit_ok_def needs_config_def rw_ok_def rw_init_def lock_readers_def
      IsStateTransitionInProgress_def)

lemma lock_reach_inv: "lock_reach allowed l \<Longrightarrow> lock_inv l"
  by (induction rule: lock_reach.induct) (auto intro: lock_inv_init lock_step_inv)

end
