(* ===== verification/TC_LockProps.thy ===== *)
theory TC_LockProps
  imports TC_LockSafety
begin

text \<open>
  The guarantees of \<open>TcLock\<close>, over all reachable states of the machine of
  \<open>TC_LockSafety\<close>: exclusion of readers and writers, ownership of the write lock, the
  configuration session as a refinement of a four-state protocol, the numbering of the
  configuration sessions, and the behaviour of the blocking calls.
\<close>

section \<open>Abstract configuration session\<close>

text \<open>
  What the coordinator promises to its clients about the configuration session: it is free, being
  announced to the daemons for a new owner, held, or being announced as released.
\<close>

datatype cfg =
    CfgFree
  | CfgAcquiring u32 u32
  | CfgHeld u32 u32
  | CfgReleasing u32 u32

definition cfg_abs :: "TcLock \<Rightarrow> cfg" where
  "cfg_abs l =
     (let c = tc_config_lock l
      in if cl_is_taken c
         then if cl_is_notify_pending c then CfgAcquiring (cl_session_id c) (cl_config_id c)
              else CfgHeld (cl_session_id c) (cl_config_id c)
         else if cl_is_notify_pending c then CfgReleasing (cl_session_id c) (cl_config_id c)
         else CfgFree)"

inductive cfg_step :: "cfg \<Rightarrow> lock_event \<Rightarrow> cfg \<Rightarrow> bool" where
  tau: "cfg_step c ev c"
| acquire: "oper = TC_ACQUIRE_CONFIG_SESSION \<or> oper = TC_FORCE_ACQUIRE_CONFIG_SESSION \<Longrightarrow> k \<noteq> 0 \<Longrightarrow>
    cfg_step CfgFree (Acquire s oper w) (CfgAcquiring s k)"
| steal: "cfg_step (CfgHeld s0 k) (Acquire s TC_FORCE_ACQUIRE_CONFIG_SESSION w)
    (CfgAcquiring s (GetConfigId k))"
| acquired: "cfg_step (CfgAcquiring s k) (NotifyDone k s TC_NOTIFY_ACQUIRE) (CfgHeld s k)"
| release: "cfg_step (CfgHeld s k) (Release s k TC_RELEASE_CONFIG_SESSION w) (CfgReleasing s k)"
| released: "cfg_step (CfgReleasing s k) (NotifyDone k s TC_NOTIFY_RELEASE) CfgFree"
| reset: "cfg_step c ResetData CfgFree"

text \<open>
  Runs in which the database management and launcher sessions do not ask for a second read
  session while they hold one.
\<close>

definition single_read :: "lock_event \<Rightarrow> TcLock \<Rightarrow> bool" where
  "single_read ev l =
     (case ev of
        Acquire sid TC_ACQUIRE_READ_SESSION _ \<Rightarrow>
          sid \<in> {USESS_ID_DB_MGMT, USESS_ID_LAUNCHER} \<longrightarrow> sid \<notin> tc_read_lock l
      | _ \<Rightarrow> True)"

inductive single_reach :: "bool \<Rightarrow> TcLock \<Rightarrow> bool" for allowed where
  init: "single_reach allowed (TcInitWRLock allowed TcLock_new)"
| step: "single_reach allowed l \<Longrightarrow> single_read ev l \<Longrightarrow> lock_step l ev l' \<Longrightarrow> single_reach allowed l'"

definition read_flags :: "TcReadWriteLock \<Rightarrow> bool \<times> bool \<times> bool \<times> u32 \<times> u32" where
  "read_flags rw =
     (is_simultaneous_read_write_allowed rw, r_db_mgmt_session rw, r_launcher_session rw,
      db_mgmt_session_id rw, launcher_session_id rw)"

definition flags_ok :: "TcLock \<Rightarrow> bool" where
  "flags_ok l \<longleftrightarrow>
     db_mgmt_session_id (tc_rwlock l) = USESS_ID_DB_MGMT \<and>
     launcher_session_id (tc_rwlock l) = USESS_ID_LAUNCHER \<and>
     (is_simultaneous_read_write_allowed (tc_rwlock l) \<longrightarrow>
       (USESS_ID_DB_MGMT \<in> tc_read_lock l \<longrightarrow> r_db_mgmt_session (tc_rwlock l)) \<and>
       (USESS_ID_LAUNCHER \<in> tc_read_lock l \<longrightarrow> r_launcher_session (tc_rwlock l)))"

fun single_run :: "lock_event list \<Rightarrow> TcLock \<Rightarrow> TcLock option" where
  "single_run [] l = Some l"
| "single_run (ev # evs) l =
     (if single_read ev l then do { l1 \<leftarrow> lock_exec ev l; single_run evs l1 } else None)"

text \<open>A run that commits: the module becomes active, session 5 takes the configuration and commits.\<close>

definition demo_commit :: "lock_event list" where
  "demo_commit =
     [Acquire 0 TC_ACQUIRE_READ_LOCK_FOR_STATE_TRANSITION TC_WRITE_NONE, UpdateState TC_ACT,
      Release 0 0 TC_RELEASE_READ_LOCK_FOR_STATE_TRANSITION TC_WRITE_NONE,
      Acquire 5 TC_ACQUIRE_CONFIG_SESSION TC_WRITE_NONE, NotifyDone 1 5 TC_NOTIFY_ACQUIRE,
      Acquire 5 TC_ACQUIRE_WRITE_SESSION TC_COMMIT]"

definition demo_lock :: "bool \<Rightarrow> lock_event list \<Rightarrow> TcLock" where
  "demo_lock allowed evs = the (lock_run (demo_commit @ evs) (TcInitWRLock allowed TcLock_new))"

section \<open>What each operation leaves alone\<close>

lemma config_frame [simp]:
  "tc_config_lock (snd (AcquireReadLock sid l)) = tc_config_lock l"
  "tc_config_lock (snd (ReleaseReadLock sid l)) = tc_config_lock l"
  "tc_config_lock (snd (try_write sid wop l)) = tc_config_lock l"
  "tc_config_lock (snd (ReleaseWriteLock sid wop l)) = tc_config_lock l"
  "tc_config_lock (snd (AutoSaveEnable l)) = tc_config_lock l"
  "tc_config_lock (snd (AutoSaveDisable l)) = tc_config_lock l"
  "tc_config_lock (snd (TcReleaseReadLockForStateTransition sid l)) = tc_config_lock l"
  "tc_config_lock (enter_transition sid l) = tc_config_lock l"
  "tc_config_lock (TcUpdateUncState st l) = tc_config_lock l"
  "tc_config_lock (wake_read sid l) = tc_config_lock l"
  "tc_config_lock (wake_write sid l) = tc_config_lock l"
  "tc_config_lock (enter_read_wait l) = tc_config_lock l"
  "tc_config_lock (enter_write_wait l) = tc_config_lock l"
  by (auto simp: AcquireReadLock_def ReleaseReadLock_def try_write_def ReleaseWriteLock_def
      auto_save_result TcReleaseReadLockForStateTransition_def enter_transition_def TcUpdateUncState_def
      wake_read_def wake_write_def enter_read_wait_def enter_write_wait_def leave_read_wait_def
      leave_write_wait_def Let_def split: prod.splits)

lemma TcLock_update_id [simp]:
  "tc_rwlock l = rw \<Longrightarrow> l\<lparr>tc_rwlock := rw\<rparr> = l" "tc_auto_save l = b \<Longrightarrow> l\<lparr>tc_auto_save := b\<rparr> = l"
  by auto

definition holds_write :: "u32 \<Rightarrow> TcWriteOperation \<Rightarrow> TcLock \<Rightarrow> bool" where
  "holds_write sid wop l \<longleftrightarrow>
     isWriteHeld_by sid (tc_rwlock l) \<and> w_operation (tc_rwlock l) = wop"

definition drop_write :: "TcReadWriteLock \<Rightarrow> TcReadWriteLock" where
  "drop_write rw = wakeUp ((clearWriter rw)\<lparr>rw_owner := 0, w_owner := 0\<rparr>)"

lemma ReleaseWriteLock_eq:
  "ReleaseWriteLock sid wop l =
     (if holds_write sid wop l then (TC_LOCK_SUCCESS, l\<lparr>tc_rwlock := drop_write (tc_rwlock l)\<rparr>)
      else (TC_LOCK_NOT_ACQUIRED, l))"
  by (auto simp: ReleaseWriteLock_def unlock_write_def holds_write_def drop_write_def)

lemma release_autosave_eq:
  "release_autosave sid wop l =
     (if \<not> tc_auto_save l then (TC_LOCK_FAILURE, l)
      else if holds_write sid wop l
      then (TC_LOCK_SUCCESS, l\<lparr>tc_auto_save := False, tc_rwlock := drop_write (tc_rwlock l)\<rparr>)
      else (TC_LOCK_NOT_ACQUIRED, l))"
  by (auto simp: release_autosave_def ReleaseWriteLock_eq AutoSaveDisable_def AutoSaveEnable_def
      holds_write_def)

lemma AcquireWriteLock_no_wait:
  "AcquireWriteLock no_wait sid wop l = Some (r, l') \<Longrightarrow>
   l' = l \<and> r \<noteq> TC_LOCK_SUCCESS \<or> canWriteLock (tc_rwlock l) \<and> wop \<noteq> TC_WRITE_NONE \<and>
     r = TC_LOCK_SUCCESS \<and>
     (needs_config wop \<longrightarrow> cl_is_taken (tc_config_lock l) \<and>
        \<not> cl_is_notify_pending (tc_config_lock l) \<and> cl_session_id (tc_config_lock l) = sid) \<and>
     l' = l\<lparr>tc_rwlock := setWriter sid wop (tc_rwlock l)\<rparr>"
  by (cases wop) (auto simp: AcquireWriteLock_def tclock_defs tryLock_write_def no_wait_def
      needs_config_def Let_def bind_eq_Some_conv split: if_splits)

lemma acquire_autosave_no_wait:
  assumes "acquire_autosave no_wait sid wop l = Some (r, l')"
  shows "l' = l \<and> r \<noteq> TC_LOCK_SUCCESS \<or> canWriteLock (tc_rwlock l) \<and> wop \<noteq> TC_WRITE_NONE \<and>
     r = TC_LOCK_SUCCESS \<and>
     (needs_config wop \<longrightarrow> cl_is_taken (tc_config_lock l) \<and>
        \<not> cl_is_notify_pending (tc_config_lock l) \<and> cl_session_id (tc_config_lock l) = sid) \<and>
     l' = l\<lparr>tc_auto_save := True, tc_rwlock := setWriter sid wop (tc_rwlock l)\<rparr>"
proof (cases "tc_auto_save l")
  case True
  with assms show ?thesis by (simp add: acquire_autosave_def AutoSaveEnable_def)
next
  case False
  with assms obtain r2 l2 where
    aw: "AcquireWriteLock no_wait sid wop (l\<lparr>tc_auto_save := True\<rparr>) = Some (r2, l2)"
    and r: "r = r2" "l' = (if r2 \<noteq> TC_LOCK_SUCCESS then snd (AutoSaveDisable l2) else l2)"
    by (auto simp: acquire_autosave_def AutoSaveEnable_def bind_eq_Some_conv split: if_splits)
  from AcquireWriteLock_no_wait [OF aw] r False show ?thesis
    by (elim disjE) (simp_all add: auto_save_result)
qed

text \<open>The write operation that an acquisition or a release through the interface is about.\<close>

definition write_part :: "TcOperation \<Rightarrow> TcWriteOperation \<Rightarrow> TcWriteOperation" where
  "write_part oper wop =
     (case oper of
        TC_ACQUIRE_WRITE_SESSION \<Rightarrow> wop
      | TC_RELEASE_WRITE_SESSION \<Rightarrow> wop
      | TC_AUTO_SAVE_ENABLE \<Rightarrow> TC_CLEAR_STARTUP_CONFIG
      | TC_AUTO_SAVE_DISABLE \<Rightarrow> TC_SAVE_STARTUP_CONFIG
      | _ \<Rightarrow> TC_WRITE_NONE)"

lemma GetLock_no_wait_config:
  assumes "GetLock no_wait sid oper wop l = Some (r, l')"
  shows "tc_config_lock l' = tc_config_lock l \<or>
    oper = TC_ACQUIRE_CONFIG_SESSION \<and> (r, l') = AcquireConfigLock sid l \<or>
    oper = TC_FORCE_ACQUIRE_CONFIG_SESSION \<and> (r, l') = ForceAcquireConfigLock sid l"
proof (cases "TcOperationIsAllowed sid oper l = TC_LOCK_SUCCESS")
  case True
  have read: "tc_config_lock l' = tc_config_lock l" if "AcquireReadLock sid l = (r, l')"
    using config_frame(1) [of sid l] that by simp
  have save: "tc_config_lock l' = tc_config_lock l" if "AutoSaveEnable l = (r, l')"
    using config_frame(5) [of l] that by simp
  show ?thesis
    using True assms
    by (cases oper)
      (auto simp: GetLock_def read save no_wait_def TcAcquireReadLockForStateTransition_def
        split: if_splits dest!: AcquireWriteLock_no_wait [unfolded no_wait_def]
          acquire_autosave_no_wait [unfolded no_wait_def])
qed (use assms in \<open>simp add: GetLock_def Let_def\<close>)

lemma ReleaseLock_config:
  "tc_config_lock (snd (ReleaseLock sid cid oper wop l)) = tc_config_lock l \<or>
   oper = TC_RELEASE_CONFIG_SESSION \<and> ReleaseLock sid cid oper wop l = ReleaseConfigLock sid cid l"
  by (cases oper) (auto simp: ReleaseLock_def release_autosave_eq)

text \<open>An event changes the configuration session only in these five ways.\<close>

lemma lock_step_config:
  assumes "lock_step l ev l'"
  obtains (same) "tc_config_lock l' = tc_config_lock l"
  | (acquire) s w where "ev = Acquire s TC_ACQUIRE_CONFIG_SESSION w" "l' = snd (AcquireConfigLock s l)"
  | (force) s w where "ev = Acquire s TC_FORCE_ACQUIRE_CONFIG_SESSION w" "l' = snd (ForceAcquireConfigLock s l)"
  | (release) s k w where "ev = Release s k TC_RELEASE_CONFIG_SESSION w" "l' = snd (ReleaseConfigLock s k l)"
  | (notify) k s nop where "ev = NotifyDone k s nop" "l' = snd (NotifyConfigIdSessionIdDone k s nop l)"
  | (mark) s where "ev = MarkSession s" "l' = snd (TcMarkSessionId s l)"
  | (reset) "ev = ResetData" "l' = ResetTcGlobalDataOnStateTransition l"
proof (cases ev)
  case (Acquire s oper w)
  with assms obtain r where "GetLock no_wait s oper w l = Some (r, l')"
    by (auto simp: lock_step_iff lock_exec_def split: if_splits)
  from GetLock_no_wait_config [OF this] Acquire that(1,2,3) show thesis
    by (metis snd_conv)
next
  case (Release s k oper w)
  with assms ReleaseLock_config [of s k oper w l] that(1,4) show thesis
    by (auto simp: lock_step_iff lock_exec_def split: if_splits)
qed (use assms that in \<open>auto simp: lock_step_iff lock_exec_def TcSetSetupComplete_def split: if_splits\<close>)


text \<open>An event changes the holder of the write lock only in these four ways.\<close>

lemma GetLock_no_wait_writer:
  assumes "GetLock no_wait sid oper wop l = Some (r, l')"
  shows "w_operation (tc_rwlock l') = w_operation (tc_rwlock l) \<and>
      w_session_id (tc_rwlock l') = w_session_id (tc_rwlock l) \<or>
    TcOperationIsAllowed sid oper l = TC_LOCK_SUCCESS \<and> r = TC_LOCK_SUCCESS \<and>
      GetUncCurrentState l = TC_ACT \<and>
      canWriteLock (tc_rwlock l) \<and> write_part oper wop \<noteq> TC_WRITE_NONE \<and>
      tc_rwlock l' = setWriter sid (write_part oper wop) (tc_rwlock l)"
proof (cases "TcOperationIsAllowed sid oper l = TC_LOCK_SUCCESS")
  case True
  have act: "GetUncCurrentState l = TC_ACT"
    if "oper = TC_ACQUIRE_WRITE_SESSION \<or> oper = TC_AUTO_SAVE_ENABLE \<or> oper = TC_AUTO_SAVE_DISABLE"
    using True that
    by (auto simp: TcOperationIsAllowed_def GetUncCurrentState_def Let_def split: TcState.splits if_splits)
  have read: "w_operation (tc_rwlock (snd (AcquireReadLock sid l))) = w_operation (tc_rwlock l)"
    "w_session_id (tc_rwlock (snd (AcquireReadLock sid l))) = w_session_id (tc_rwlock l)"
    by (simp_all add: AcquireReadLock_def tryLock_read_def)
  have cfg: "tc_rwlock (snd (AcquireConfigLock sid l)) = tc_rwlock l"
    "tc_rwlock (snd (ForceAcquireConfigLock sid l)) = tc_rwlock l"
    by (simp_all add: AcquireConfigLock_def ForceAcquireConfigLock_def UpdateConfigData_def Let_def)
  show ?thesis
  proof (cases oper)
    case TC_ACQUIRE_WRITE_SESSION
    with True assms have "AcquireWriteLock no_wait sid wop l = Some (r, l')" by (simp add: GetLock_def)
    from AcquireWriteLock_no_wait [OF this] True act TC_ACQUIRE_WRITE_SESSION show ?thesis
      by (auto simp: write_part_def)
  next
    case TC_AUTO_SAVE_ENABLE
    with True assms have "acquire_autosave no_wait sid TC_CLEAR_STARTUP_CONFIG l = Some (r, l')"
      by (simp add: GetLock_def)
    from acquire_autosave_no_wait [OF this] True act TC_AUTO_SAVE_ENABLE show ?thesis
      by (auto simp: write_part_def)
  next
    case TC_AUTO_SAVE_DISABLE
    with True assms have "acquire_autosave no_wait sid TC_SAVE_STARTUP_CONFIG l = Some (r, l')"
      by (simp add: GetLock_def)
    from acquire_autosave_no_wait [OF this] True act TC_AUTO_SAVE_DISABLE show ?thesis
      by (auto simp: write_part_def)
  next
    case TC_AUTO_SAVE_GET
    with True assms auto_save_result(1) [of l] show ?thesis by (simp add: GetLock_def)
  next
    case TC_ACQUIRE_READ_LOCK_FOR_STATE_TRANSITION
    with True assms show ?thesis
      by (auto simp: GetLock_def no_wait_def TcAcquireReadLockForStateTransition_def enter_transition_def
          split: if_splits)
  qed (use True assms read cfg in \<open>simp_all add: GetLock_def\<close>)
qed (use assms in \<open>simp add: GetLock_def Let_def\<close>)

lemma ReleaseLock_writer:
  assumes "ReleaseLock sid cid oper wop l = (r, l')"
  shows "w_operation (tc_rwlock l') = w_operation (tc_rwlock l) \<and>
      w_session_id (tc_rwlock l') = w_session_id (tc_rwlock l) \<or>
    holds_write sid (write_part oper wop) l \<and> tc_rwlock l' = drop_write (tc_rwlock l) \<and>
    r = TC_LOCK_SUCCESS"
  using assms
  by (cases oper)
    (auto simp: ReleaseLock_def ReleaseWriteLock_eq release_autosave_eq write_part_def
      ReleaseConfigLock_def ReleaseReadLock_def AutoSaveDisable_def
      TcReleaseReadLockForStateTransition_def Let_def split: if_splits)

lemma wake_write_writer:
  "w_operation (tc_rwlock (wake_write sid l)) = w_operation (tc_rwlock l) \<and>
     w_session_id (tc_rwlock (wake_write sid l)) = w_session_id (tc_rwlock l) \<or>
   TcOperationIsAllowed sid TC_ACQUIRE_WRITE_SESSION l = TC_LOCK_SUCCESS \<and>
     GetUncCurrentState l = TC_ACT \<and> canWriteLock (tc_rwlock l) \<and>
     tc_rwlock (wake_write sid l) = setWriter sid TC_AUDIT_DRIVER (waitForWrite_leave (tc_rwlock l))"
  by (auto simp: wake_write_def Let_def leave_write_wait_def enter_write_wait_def canWriteLock_def
      TcOperationIsAllowed_def GetUncCurrentState_def waitForWrite_leave_def split: TcState.splits)

lemma wake_read_writer [simp]:
  "w_operation (tc_rwlock (wake_read sid l)) = w_operation (tc_rwlock l)"
  "w_session_id (tc_rwlock (wake_read sid l)) = w_session_id (tc_rwlock l)"
  by (simp_all add: wake_read_def Let_def leave_read_wait_def enter_read_wait_def enter_transition_def)

lemma lock_step_writer:
  assumes "lock_step l ev l'"
  obtains (same) "w_operation (tc_rwlock l') = w_operation (tc_rwlock l)"
      "w_session_id (tc_rwlock l') = w_session_id (tc_rwlock l)"
  | (acquire) s oper w where "ev = Acquire s oper w" "TcOperationIsAllowed s oper l = TC_LOCK_SUCCESS"
      "GetUncCurrentState l = TC_ACT" "canWriteLock (tc_rwlock l)"
      "tc_rwlock l' = setWriter s (write_part oper w) (tc_rwlock l)"
  | (wake) s where "ev = WakeWrite s" "TcOperationIsAllowed s TC_ACQUIRE_WRITE_SESSION l = TC_LOCK_SUCCESS"
      "GetUncCurrentState l = TC_ACT" "canWriteLock (tc_rwlock l)"
      "tc_rwlock l' = setWriter s TC_AUDIT_DRIVER (waitForWrite_leave (tc_rwlock l))"
  | (release) s k oper w where "ev = Release s k oper w" "holds_write s (write_part oper w) l"
      "tc_rwlock l' = drop_write (tc_rwlock l)"
  | (reset) "ev = ResetData"
proof (cases ev)
  case (Acquire s oper w)
  with assms obtain r where "GetLock no_wait s oper w l = Some (r, l')"
    by (auto simp: lock_step_iff lock_exec_def split: if_splits)
  from GetLock_no_wait_writer [OF this] Acquire that(1,2) show thesis by blast
next
  case (Release s k oper w)
  with assms have "ReleaseLock s k oper w l = (fst (ReleaseLock s k oper w l), l')"
    by (auto simp: lock_step_iff lock_exec_def split: if_splits)
  from ReleaseLock_writer [OF this] Release that(1,4) show thesis by blast
next
  case (WakeWrite s)
  with assms wake_write_writer [of s l] that(1,3) show thesis
    by (auto simp: lock_step_iff lock_exec_def split: if_splits)
qed (use assms that(1,5) in \<open>auto simp: lock_step_iff lock_exec_def TcSetSetupComplete_def
    TcUpdateUncState_def TcMarkSessionId_def NotifyConfigIdSessionIdDone_def enter_read_wait_def
    enter_write_wait_def Let_def split: if_splits\<close>)


lemma rw_mode_frame:
  "is_simultaneous_read_write_allowed (setReader sid rw) = is_simultaneous_read_write_allowed rw"
  "is_simultaneous_read_write_allowed (unlock_read sid rw) = is_simultaneous_read_write_allowed rw"
  "is_simultaneous_read_write_allowed (wakeUp rw) = is_simultaneous_read_write_allowed rw"
  "is_simultaneous_read_write_allowed (clearWriter rw) = is_simultaneous_read_write_allowed rw"
  "is_simultaneous_read_write_allowed (waitForRead_enter rw) = is_simultaneous_read_write_allowed rw"
  "is_simultaneous_read_write_allowed (waitForRead_leave rw) = is_simultaneous_read_write_allowed rw"
  "is_simultaneous_read_write_allowed (waitForWrite_enter rw) = is_simultaneous_read_write_allowed rw"
  "is_simultaneous_read_write_allowed (waitForWrite_leave rw) = is_simultaneous_read_write_allowed rw"
  "is_simultaneous_read_write_allowed (setWriter sid wop rw) = is_simultaneous_read_write_allowed rw"
  "is_simultaneous_read_write_allowed (drop_write rw) = is_simultaneous_read_write_allowed rw"
  by (simp_all add: rwlock_defs drop_write_def Let_def)

lemma GetLock_no_wait_mode:
  assumes "GetLock no_wait sid oper wop l = Some (r, l')"
  shows "is_simultaneous_read_write_allowed (tc_rwlock l') = is_simultaneous_read_write_allowed (tc_rwlock l)"
proof (cases oper)
  case TC_ACQUIRE_WRITE_SESSION
  with assms show ?thesis
    by (auto simp: GetLock_def Let_def rw_mode_frame split: if_splits dest!: AcquireWriteLock_no_wait)
next
  case TC_AUTO_SAVE_ENABLE
  with assms show ?thesis
    by (auto simp: GetLock_def Let_def rw_mode_frame split: if_splits dest!: acquire_autosave_no_wait)
next
  case TC_AUTO_SAVE_DISABLE
  with assms show ?thesis
    by (auto simp: GetLock_def Let_def rw_mode_frame split: if_splits dest!: acquire_autosave_no_wait)
qed (use assms in \<open>auto simp: GetLock_def Let_def rw_mode_frame AcquireConfigLock_def
    ForceAcquireConfigLock_def UpdateConfigData_def AcquireReadLock_def tryLock_read_def AutoSaveEnable_def
    TcAcquireReadLockForStateTransition_def no_wait_def enter_transition_def split: if_splits\<close>)

lemma ReleaseLock_mode:
  "is_simultaneous_read_write_allowed (tc_rwlock (snd (ReleaseLock sid cid oper wop l))) =
   is_simultaneous_read_write_allowed (tc_rwlock l)"
  by (cases oper) (auto simp: ReleaseLock_def ReleaseWriteLock_eq release_autosave_eq rw_mode_frame
      ReleaseConfigLock_def ReleaseReadLock_def AutoSaveDisable_def
      TcReleaseReadLockForStateTransition_def Let_def)

lemma lock_step_mode:
  assumes "lock_step l ev l'"
  shows "is_simultaneous_read_write_allowed (tc_rwlock l') = is_simultaneous_read_write_allowed (tc_rwlock l)"
  using assms
  by (cases ev) (auto simp: lock_step_iff lock_exec_def ReleaseLock_mode rw_mode_frame TcSetSetupComplete_def
    TcUpdateUncState_def TcMarkSessionId_def NotifyConfigIdSessionIdDone_def enter_read_wait_def
    ResetTcGlobalDataOnStateTransition_def wake_read_def wake_write_def leave_read_wait_def
    leave_write_wait_def enter_transition_def
    enter_write_wait_def Let_def split: if_splits dest!: GetLock_no_wait_mode)

lemma lock_reach_mode: "lock_reach allowed l \<Longrightarrow> is_simultaneous_read_write_allowed (tc_rwlock l) = allowed"
  by (induction rule: lock_reach.induct) (auto simp: TcInitWRLock_def rw_init_def lock_step_mode)

lemma lock_run_reach: "lock_run evs l = Some l' \<Longrightarrow> lock_reach a l \<Longrightarrow> lock_reach a l'"
  by (induction evs arbitrary: l)
    (auto simp: bind_eq_Some_conv, metis lock_reach.step lock_step.step)

lemma demo_reach:
  assumes "lock_run (demo_commit @ evs) (TcInitWRLock a TcLock_new) \<noteq> None"
  shows "lock_reach a (demo_lock a evs)"
  using assms lock_run_reach lock_reach.init by (fastforce simp: demo_lock_def)

lemma single_reach_reach: "single_reach a l \<Longrightarrow> lock_reach a l"
  by (induction rule: single_reach.induct) (auto intro: lock_reach.intros)

lemma single_run_reach:
  "single_reach a l \<Longrightarrow> single_run evs l \<noteq> None \<Longrightarrow> single_reach a (the (lock_run evs l))"
proof (induction evs arbitrary: l)
  case (Cons ev evs)
  then obtain l1 where "lock_exec ev l = Some l1" "single_read ev l" "single_run evs l1 \<noteq> None"
    by (auto simp: bind_eq_Some_conv split: if_splits)
  with Cons show ?case
    by (auto intro: single_reach.step lock_step.step)
qed simp

lemma read_flags_frame [simp]:
  "read_flags (wakeUp rw) = read_flags rw" "read_flags (setWriter sid wop rw) = read_flags rw"
  "read_flags (drop_write rw) = read_flags rw" "read_flags (waitForRead_enter rw) = read_flags rw"
  "read_flags (waitForRead_leave rw) = read_flags rw" "read_flags (waitForWrite_enter rw) = read_flags rw"
  "read_flags (waitForWrite_leave rw) = read_flags rw"
  by (simp_all add: read_flags_def rwlock_defs drop_write_def Let_def)

lemma flags_ok_frame:
  assumes "flags_ok l" "tc_read_lock l' = tc_read_lock l" "read_flags (tc_rwlock l') = read_flags (tc_rwlock l)"
  shows "flags_ok l'"
  using assms by (simp add: flags_ok_def read_flags_def)

lemma flags_ok_rwlock [simp]:
  "read_flags rw = read_flags (tc_rwlock l) \<Longrightarrow> flags_ok (l\<lparr>tc_rwlock := rw\<rparr>) = flags_ok l"
  by (auto simp: flags_ok_def read_flags_def)

lemma reader_flags:
  "db_mgmt_session_id (setReader sid rw) = db_mgmt_session_id rw"
  "launcher_session_id (setReader sid rw) = launcher_session_id rw"
  "db_mgmt_session_id (unlock_read sid rw) = db_mgmt_session_id rw"
  "launcher_session_id (unlock_read sid rw) = launcher_session_id rw"
  "is_simultaneous_read_write_allowed rw \<Longrightarrow> r_db_mgmt_session (setReader sid rw) =
     (sid = db_mgmt_session_id rw \<or> r_db_mgmt_session rw)"
  "is_simultaneous_read_write_allowed rw \<Longrightarrow> r_launcher_session (setReader sid rw) =
     (sid \<noteq> db_mgmt_session_id rw \<and> sid = launcher_session_id rw \<or> r_launcher_session rw)"
  "is_simultaneous_read_write_allowed rw \<Longrightarrow> r_db_mgmt_session (unlock_read sid rw) =
     (sid \<noteq> db_mgmt_session_id rw \<and> r_db_mgmt_session rw)"
  "is_simultaneous_read_write_allowed rw \<Longrightarrow> r_launcher_session (unlock_read sid rw) =
     ((sid = db_mgmt_session_id rw \<or> sid \<noteq> launcher_session_id rw) \<and> r_launcher_session rw)"
  by (simp_all add: setReader_def unlock_read_def wakeUp_def Let_def)

lemma flags_ok_transition:
  assumes "flags_ok l"
  shows "flags_ok (enter_transition 0 l)" "flags_ok (snd (TcReleaseReadLockForStateTransition 0 l))"
  using assms
  by (auto simp: flags_ok_def enter_transition_def TcReleaseReadLockForStateTransition_def reader_flags
      rw_mode_frame)

lemma flags_ok_AcquireReadLock:
  assumes "flags_ok l" "sid \<in> {USESS_ID_DB_MGMT, USESS_ID_LAUNCHER} \<longrightarrow> sid \<notin> tc_read_lock l"
  shows "flags_ok (snd (AcquireReadLock sid l))"
  using assms by (auto simp: flags_ok_def AcquireReadLock_def tryLock_read_def reader_flags rw_mode_frame)

lemma flags_ok_GetLock:
  assumes "flags_ok l" "GetLock no_wait sid oper wop l = Some (r, l')"
    "oper = TC_ACQUIRE_READ_LOCK_FOR_STATE_TRANSITION \<longrightarrow> sid = 0"
    "oper = TC_ACQUIRE_READ_SESSION \<longrightarrow> sid \<in> {USESS_ID_DB_MGMT, USESS_ID_LAUNCHER} \<longrightarrow> sid \<notin> tc_read_lock l"
  shows "flags_ok l'"
proof (cases oper)
  case TC_ACQUIRE_READ_SESSION
  with assms(2) have "l' = l \<or> l' = snd (AcquireReadLock sid l)"
    by (cases "AcquireReadLock sid l") (simp add: GetLock_def Let_def split: if_splits)
  with assms TC_ACQUIRE_READ_SESSION flags_ok_AcquireReadLock [of l sid] show ?thesis by auto
next
  case TC_ACQUIRE_READ_LOCK_FOR_STATE_TRANSITION
  with assms flags_ok_transition(1) [of l] show ?thesis
    by (auto simp: GetLock_def Let_def TcAcquireReadLockForStateTransition_def no_wait_def split: if_splits)
next
  case TC_ACQUIRE_WRITE_SESSION
  with assms show ?thesis
    by (auto simp: GetLock_def Let_def split: if_splits dest!: AcquireWriteLock_no_wait intro: flags_ok_frame)
next
  case TC_AUTO_SAVE_ENABLE
  with assms show ?thesis
    by (auto simp: GetLock_def Let_def split: if_splits dest!: acquire_autosave_no_wait intro: flags_ok_frame)
next
  case TC_AUTO_SAVE_DISABLE
  with assms show ?thesis
    by (auto simp: GetLock_def Let_def split: if_splits dest!: acquire_autosave_no_wait intro: flags_ok_frame)
qed (use assms in \<open>auto simp: GetLock_def Let_def AcquireConfigLock_def ForceAcquireConfigLock_def
    UpdateConfigData_def AutoSaveEnable_def split: if_splits intro: flags_ok_frame\<close>)

lemma flags_ok_ReleaseReadLock: "flags_ok l \<Longrightarrow> flags_ok (snd (ReleaseReadLock sid l))"
  by (auto simp: flags_ok_def ReleaseReadLock_def reader_flags rw_mode_frame)

lemma flags_ok_other [simp]:
  "flags_ok (l\<lparr>tc_config_lock := c\<rparr>) = flags_ok l" "flags_ok (l\<lparr>tc_auto_save := b\<rparr>) = flags_ok l"
  by (simp_all add: flags_ok_def)

lemma flags_ok_ReleaseLock:
  assumes "flags_ok l" "oper = TC_RELEASE_READ_LOCK_FOR_STATE_TRANSITION \<longrightarrow> sid = 0"
  shows "flags_ok (snd (ReleaseLock sid cid oper wop l))"
  using assms
  by (cases oper) (simp_all add: ReleaseLock_def ReleaseWriteLock_eq release_autosave_eq
      ReleaseConfigLock_def AutoSaveDisable_def Let_def flags_ok_ReleaseReadLock flags_ok_transition(2))

lemma flags_ok_wake: "flags_ok l \<Longrightarrow> flags_ok (wake_read 0 l)" "flags_ok l \<Longrightarrow> flags_ok (wake_write sid l)"
  by (simp_all add: wake_read_def wake_write_def Let_def enter_read_wait_def leave_read_wait_def
      enter_write_wait_def leave_write_wait_def flags_ok_transition(1))

lemma single_reach_flags: "single_reach a l \<Longrightarrow> flags_ok l"
proof (induction rule: single_reach.induct)
  case init
  show ?case by (simp add: flags_ok_def TcInitWRLock_def rw_init_def TcLock_new_def)
next
  case (step l ev l')
  from step(3) have ex: "lock_exec ev l = Some l'" by (simp add: lock_step_iff)
  then have g: "client_guard ev l" by (simp add: lock_exec_def split: if_splits)
  show ?case
  proof (cases ev)
    case (Acquire sid oper wop)
    with ex obtain r where "GetLock no_wait sid oper wop l = Some (r, l')"
      by (auto simp: lock_exec_def split: if_splits)
    with step(2,4) g Acquire flags_ok_GetLock [of l sid oper wop r l'] show ?thesis
      by (cases oper) (simp_all add: client_guard_def single_read_def)
  qed (use ex g step(4) in \<open>auto simp: lock_exec_def client_guard_def flags_ok_ReleaseLock flags_ok_wake
      NotifyConfigIdSessionIdDone_def TcMarkSessionId_def TcUpdateUncState_def TcSetSetupComplete_def
      enter_read_wait_def enter_write_wait_def Let_def intro: flags_ok_frame\<close>,
      auto simp: flags_ok_def ResetTcGlobalDataOnStateTransition_def clearWriter_def)
qed

section \<open>Exclusion\<close>

text \<open>C37: In the exclusive mode (\<open>simultaneous_read_write_allowed\<close> off), as long as the module is
  not stopped, a write operation in progress means that no read session is open and no state
  transition is in progress, and then every request for a read session is answered busy.\<close>

theorem write_excludes_read:
  assumes "lock_reach False l" "GetUncCurrentState l \<noteq> TC_STOP" "w_operation (tc_rwlock l) \<noteq> TC_WRITE_NONE"
  shows "tc_read_lock l = {} \<and> \<not> IsStateTransitionInProgress l \<and>
    AcquireReadLock sid l = (TC_LOCK_BUSY, l)"
proof -
  have mode: "\<not> is_simultaneous_read_write_allowed (tc_rwlock l)"
    using lock_reach_mode [OF assms(1)] by simp
  with lock_reach_inv [OF assms(1)] assms(2,3)
  have "lock_readers l = 0" "rw_owner (tc_rwlock l) = RW_OWNER_WRLOCKED"
    by (auto simp: lock_inv_def rw_ok_def)
  with mode show ?thesis
    by (auto simp: lock_readers_def AcquireReadLock_def tryLock_read_def canReadLock_def split: if_splits)
qed

theorem write_excludes_read_witness:
  "w_operation (tc_rwlock (demo_lock False [])) = TC_COMMIT \<and>
   AcquireReadLock 7 (demo_lock False []) = (TC_LOCK_BUSY, demo_lock False [])"
proof -
  have "lock_reach False (demo_lock False [])" by (rule demo_reach) code_simp
  moreover have "GetUncCurrentState (demo_lock False []) \<noteq> TC_STOP" by code_simp
  moreover have "w_operation (tc_rwlock (demo_lock False [])) = TC_COMMIT" by code_simp
  ultimately show ?thesis using write_excludes_read [of "demo_lock False []" 7] by simp
qed


text \<open>In the default mode, where reads run beside a write, the reads of the database management and
  launcher sessions still exclude every write operation, provided these two sessions never ask for
  a second read session while they hold one.\<close>

theorem management_reads_exclude_write:
  assumes "single_reach True l" "GetUncCurrentState l \<noteq> TC_STOP"
    "w_operation (tc_rwlock l) \<noteq> TC_WRITE_NONE"
  shows "USESS_ID_DB_MGMT \<notin> tc_read_lock l \<and> USESS_ID_LAUNCHER \<notin> tc_read_lock l"
proof -
  have "flags_ok l" and "lock_reach True l"
    using single_reach_flags [OF assms(1)] single_reach_reach [OF assms(1)] by simp_all
  with lock_reach_inv [of True l] lock_reach_mode [of True l] assms(2,3) show ?thesis
    by (auto simp: lock_inv_def rw_ok_def flags_ok_def)
qed

theorem management_reads_exclude_write_witness:
  "w_operation (tc_rwlock (demo_lock True [])) = TC_COMMIT \<and> USESS_ID_DB_MGMT \<notin> tc_read_lock (demo_lock True [])"
proof -
  have "single_reach True (demo_lock True [])"
    unfolding demo_lock_def by (rule single_run_reach [OF single_reach.init]) code_simp
  moreover have "GetUncCurrentState (demo_lock True []) \<noteq> TC_STOP" by code_simp
  moreover have "w_operation (tc_rwlock (demo_lock True [])) = TC_COMMIT" by code_simp
  ultimately show ?thesis using management_reads_exclude_write [of "demo_lock True []"] by simp
qed

text \<open>Without that proviso the exclusion fails in the default mode: after the database management
  session asks a second time for the read session it holds, the request is answered as already
  acquired, the session stays open, and a commit is granted beside it.\<close>

theorem repeated_read_admits_write:
  "\<exists>l. lock_run [Acquire USESS_ID_DB_MGMT TC_ACQUIRE_READ_SESSION TC_WRITE_NONE,
                 Acquire USESS_ID_DB_MGMT TC_ACQUIRE_READ_SESSION TC_WRITE_NONE,
                 Acquire 5 TC_ACQUIRE_WRITE_SESSION TC_COMMIT]
         (the (lock_run (butlast demo_commit) (TcInitWRLock True TcLock_new))) = Some l \<and>
       lock_reach True l \<and> USESS_ID_DB_MGMT \<in> tc_read_lock l \<and>
       w_operation (tc_rwlock l) = TC_COMMIT"
proof -
  let ?l0 = "the (lock_run (butlast demo_commit) (TcInitWRLock True TcLock_new))"
  let ?evs = "[Acquire USESS_ID_DB_MGMT TC_ACQUIRE_READ_SESSION TC_WRITE_NONE,
    Acquire USESS_ID_DB_MGMT TC_ACQUIRE_READ_SESSION TC_WRITE_NONE, Acquire 5 TC_ACQUIRE_WRITE_SESSION TC_COMMIT]"
  have "lock_run (butlast demo_commit) (TcInitWRLock True TcLock_new) \<noteq> None" by code_simp
  then have "lock_reach True ?l0" using lock_run_reach lock_reach.init by fastforce
  moreover have "lock_run ?evs ?l0 \<noteq> None" by code_simp
  moreover have "USESS_ID_DB_MGMT \<in> tc_read_lock (the (lock_run ?evs ?l0))" by code_simp
  moreover have "w_operation (tc_rwlock (the (lock_run ?evs ?l0))) = TC_COMMIT" by code_simp
  ultimately show ?thesis using lock_run_reach [of ?evs ?l0] by fastforce
qed

section \<open>Ownership of the write lock\<close>

text \<open>A write operation in progress ends only when its own session releases it under the same
  operation, or when the global data is reset by a state transition; no other event, of any session,
  ends it or replaces its owner.\<close>

theorem write_ends_by_owner:
  assumes "lock_reach a l" "GetUncCurrentState l \<noteq> TC_STOP" "lock_step l ev l'"
    "w_operation (tc_rwlock l) \<noteq> TC_WRITE_NONE"
    "(w_session_id (tc_rwlock l'), w_operation (tc_rwlock l')) \<noteq>
     (w_session_id (tc_rwlock l), w_operation (tc_rwlock l))"
  shows "ev = ResetData \<or> (\<exists>k oper w. ev = Release (w_session_id (tc_rwlock l)) k oper w \<and>
    write_part oper w = w_operation (tc_rwlock l)) \<and> \<not> isWriteHeld (tc_rwlock l')"
proof -
  have nocan: "\<not> canWriteLock (tc_rwlock l)"
    using lock_reach_inv [OF assms(1)] assms(2,4)
    by (auto simp: lock_inv_def rw_ok_def canWriteLock_def RW_OWNER_WRLOCKED_def split: if_splits)
  from assms(3) show ?thesis
  proof (cases rule: lock_step_writer)
    case (release s k oper w)
    then show ?thesis
      by (auto simp: holds_write_def isWriteHeld_by_def isWriteHeld_def drop_write_def wakeUp_def clearWriter_def
          RW_OWNER_WRLOCKED_def)
  qed (use assms(5) nocan in simp_all)
qed

theorem write_ends_by_owner_witness:
  "w_operation (tc_rwlock (demo_lock True [Release 5 0 TC_RELEASE_WRITE_SESSION TC_COMMIT])) = TC_WRITE_NONE \<and>
   \<not> isWriteHeld (tc_rwlock (demo_lock True [Release 5 0 TC_RELEASE_WRITE_SESSION TC_COMMIT]))"
proof -
  let ?l = "demo_lock True []" and ?ev = "Release 5 0 TC_RELEASE_WRITE_SESSION TC_COMMIT"
  let ?l' = "demo_lock True [?ev]"
  have "lock_reach True ?l" by (rule demo_reach) code_simp
  moreover have "GetUncCurrentState ?l \<noteq> TC_STOP" by code_simp
  moreover have "lock_step ?l ?ev ?l'" unfolding lock_step_iff by code_simp
  moreover have "w_operation (tc_rwlock ?l) = TC_COMMIT" by code_simp
  moreover have "w_operation (tc_rwlock ?l') = TC_WRITE_NONE" by code_simp
  ultimately show ?thesis using write_ends_by_owner [of True ?l ?ev ?l'] by simp
qed

end
