(* ===== verification/TC_ConfigProps.thy ===== *)
theory TC_ConfigProps
  imports TC_LockProps
begin

text \<open>
  The configuration session as its clients see it, the states in which the lock grants anything,
  the blocking acquisitions, and the report of the operation in progress of a session.
\<close>

section \<open>The configuration session refines the abstract protocol\<close>

lemma AcquireConfigLock_cfg:
  "cfg_step (cfg_abs l) (Acquire s TC_ACQUIRE_CONFIG_SESSION w) (cfg_abs (snd (AcquireConfigLock s l)))"
proof (cases "snd (AcquireConfigLock s l) = l")
  case False
  then have "cfg_abs l = CfgFree"
    "cfg_abs (snd (AcquireConfigLock s l)) = CfgAcquiring s (GetConfigId (cl_config_id (tc_config_lock l)))"
    by (auto simp: AcquireConfigLock_def cfg_abs_def UpdateConfigData_def split: if_splits)
  then show ?thesis by (simp add: cfg_step.acquire GetConfigId_nonzero)
qed (simp add: cfg_step.tau)

lemma ForceAcquireConfigLock_cfg:
  "cfg_step (cfg_abs l) (Acquire s TC_FORCE_ACQUIRE_CONFIG_SESSION w) (cfg_abs (snd (ForceAcquireConfigLock s l)))"
proof (cases "snd (ForceAcquireConfigLock s l) = l")
  case False
  let ?c = "tc_config_lock l"
  from False have "cfg_abs l = CfgFree \<or> cfg_abs l = CfgHeld (cl_session_id ?c) (cl_config_id ?c)"
    "cfg_abs (snd (ForceAcquireConfigLock s l)) = CfgAcquiring s (GetConfigId (cl_config_id ?c))"
    by (auto simp: ForceAcquireConfigLock_def cfg_abs_def UpdateConfigData_def Let_def split: if_splits)
  then show ?thesis by (auto simp: cfg_step.acquire cfg_step.steal GetConfigId_nonzero)
qed (simp add: cfg_step.tau)

lemma ReleaseConfigLock_cfg:
  "cfg_step (cfg_abs l) (Release s k TC_RELEASE_CONFIG_SESSION w) (cfg_abs (snd (ReleaseConfigLock s k l)))"
proof (cases "snd (ReleaseConfigLock s k l) = l")
  case False
  then have "cfg_abs l = CfgHeld s k" "cfg_abs (snd (ReleaseConfigLock s k l)) = CfgReleasing s k"
    by (auto simp: ReleaseConfigLock_def cfg_abs_def Let_def split: if_splits)
  then show ?thesis by (simp add: cfg_step.release)
qed (simp add: cfg_step.tau)

lemma NotifyConfigIdSessionIdDone_cfg:
  assumes "config_ok (tc_config_lock l)"
  shows "cfg_step (cfg_abs l) (NotifyDone k s nop) (cfg_abs (snd (NotifyConfigIdSessionIdDone k s nop l)))"
proof (cases "fst (NotifyConfigIdSessionIdDone k s nop l) = TC_LOCK_SUCCESS")
  case True
  let ?c = "tc_config_lock l" and ?l' = "snd (NotifyConfigIdSessionIdDone k s nop l)"
  from True have eq: "cl_notify_operation ?c = nop" "cl_session_id ?c = s" "cl_config_id ?c = k"
    by (auto simp: NotifyConfigIdSessionIdDone_def Let_def split: if_splits)
  consider "nop = TC_NOTIFY_NONE" | "nop = TC_NOTIFY_ACQUIRE" | "nop = TC_NOTIFY_RELEASE"
    by (cases nop) auto
  then show ?thesis
  proof cases
    case 1
    with eq assms have "cfg_abs ?l' = cfg_abs l"
      by (auto simp: NotifyConfigIdSessionIdDone_def Let_def cfg_abs_def config_ok_def)
    then show ?thesis by (simp add: cfg_step.tau)
  next
    case 2
    with eq assms have "cfg_abs l = CfgAcquiring s k" "cfg_abs ?l' = CfgHeld s k"
      by (auto simp: NotifyConfigIdSessionIdDone_def Let_def cfg_abs_def config_ok_def)
    with 2 show ?thesis by (simp add: cfg_step.acquired)
  next
    case 3
    with eq assms have "cfg_abs l = CfgReleasing s k" "cfg_abs ?l' = CfgFree"
      by (auto simp: NotifyConfigIdSessionIdDone_def Let_def cfg_abs_def config_ok_def)
    with 3 show ?thesis by (simp add: cfg_step.released)
  qed
next
  case False
  then have "snd (NotifyConfigIdSessionIdDone k s nop l) = l"
    by (auto simp: NotifyConfigIdSessionIdDone_def Let_def split: if_splits)
  then show ?thesis by (simp add: cfg_step.tau)
qed

lemma TcMarkSessionId_cfg: "cfg_abs (snd (TcMarkSessionId s l)) = cfg_abs l"
  by (auto simp: TcMarkSessionId_def cfg_abs_def Let_def)

lemma ResetTcGlobalData_cfg: "cfg_abs (ResetTcGlobalDataOnStateTransition l) = CfgFree"
  by (simp add: ResetTcGlobalDataOnStateTransition_def cfg_abs_def)

text \<open>C38: Every step of the lock is a step of the abstract configuration session: it is granted only
  when it is free, taken over only by a forced acquisition when no announcement is outstanding,
  becomes held or free only through the announcement of the same session and configuration
  identifier, and is otherwise left alone.\<close>

theorem config_session_refines:
  assumes "lock_reach a l" "lock_step l ev l'"
  shows "cfg_step (cfg_abs l) ev (cfg_abs l')"
  using assms(2)
proof (cases rule: lock_step_config)
  case same
  then have "cfg_abs l' = cfg_abs l" by (simp add: cfg_abs_def)
  then show ?thesis by (simp add: cfg_step.tau)
next
  case (notify k s nop)
  with lock_reach_inv [OF assms(1)] show ?thesis
    by (simp add: lock_inv_def NotifyConfigIdSessionIdDone_cfg)
qed (simp_all add: AcquireConfigLock_cfg ForceAcquireConfigLock_cfg ReleaseConfigLock_cfg
    TcMarkSessionId_cfg ResetTcGlobalData_cfg cfg_step.tau cfg_step.reset)

theorem config_session_refines_witness:
  "cfg_step (CfgHeld 5 1) (Acquire 9 TC_FORCE_ACQUIRE_CONFIG_SESSION TC_WRITE_NONE)
     (cfg_abs (demo_lock True [Release 5 0 TC_RELEASE_WRITE_SESSION TC_COMMIT,
        Acquire 9 TC_FORCE_ACQUIRE_CONFIG_SESSION TC_WRITE_NONE]))"
proof -
  let ?l = "demo_lock True [Release 5 0 TC_RELEASE_WRITE_SESSION TC_COMMIT]"
  let ?ev = "Acquire 9 TC_FORCE_ACQUIRE_CONFIG_SESSION TC_WRITE_NONE"
  let ?l' = "demo_lock True [Release 5 0 TC_RELEASE_WRITE_SESSION TC_COMMIT, ?ev]"
  have "lock_reach True ?l" by (rule demo_reach) code_simp
  moreover have "lock_step ?l ?ev ?l'" unfolding lock_step_iff by code_simp
  moreover have "cfg_abs ?l = CfgHeld 5 1" by code_simp
  ultimately show ?thesis using config_session_refines [of True ?l ?ev ?l'] by simp
qed

text \<open>C39: While a commit or an abort of the candidate configuration is in progress, the
  configuration session stays held by the session that runs it, under the same configuration
  identifier: neither a release nor a forced acquisition by any session, nor any other event except
  the reset of a state transition, changes it.\<close>

theorem commit_keeps_config_session:
  assumes "lock_reach a l" "lock_step l ev l'" "ev \<noteq> ResetData"
    "needs_config (w_operation (tc_rwlock l))"
  shows "cfg_abs l' = CfgHeld (w_session_id (tc_rwlock l)) (cl_config_id (tc_config_lock l))"
proof -
  note held = lock_inv_commit [OF lock_reach_inv [OF assms(1)] assms(4)]
  then have abs: "cfg_abs l = CfgHeld (w_session_id (tc_rwlock l)) (cl_config_id (tc_config_lock l))"
    by (simp add: cfg_abs_def)
  from assms(2) have "cfg_abs l' = cfg_abs l"
  proof (cases rule: lock_step_config)
    case (notify k s nop)
    with held lock_reach_inv [OF assms(1)] show ?thesis
      by (auto simp: NotifyConfigIdSessionIdDone_def Let_def cfg_abs_def lock_inv_def config_ok_def)
  next
    case (mark s)
    then show ?thesis by (simp add: TcMarkSessionId_cfg)
  qed (use held assms(3,4) in \<open>simp_all add: AcquireConfigLock_def ForceAcquireConfigLock_def
      ReleaseConfigLock_def needs_config_def Let_def cfg_abs_def\<close>)
  with abs show ?thesis by simp
qed

theorem commit_keeps_config_session_witness:
  "cfg_abs (demo_lock True [Release 5 1 TC_RELEASE_CONFIG_SESSION TC_WRITE_NONE]) = CfgHeld 5 1"
proof -
  let ?l = "demo_lock True []" and ?ev = "Release 5 1 TC_RELEASE_CONFIG_SESSION TC_WRITE_NONE"
  let ?l' = "demo_lock True [?ev]"
  have "lock_reach True ?l" by (rule demo_reach) code_simp
  moreover have "lock_step ?l ?ev ?l'" unfolding lock_step_iff by code_simp
  moreover have "w_operation (tc_rwlock ?l) = TC_COMMIT" "w_session_id (tc_rwlock ?l) = 5"
    "cl_config_id (tc_config_lock ?l) = 1" by code_simp+
  ultimately show ?thesis
    using commit_keeps_config_session [of True ?l ?ev ?l'] by (simp add: needs_config_def)
qed


section \<open>Configuration identifiers\<close>

lemma unat_of_nat_u32: "n < 2 ^ 32 \<Longrightarrow> unat (of_nat n :: u32) = n"
  by (simp add: unat_of_nat)

lemma GetConfigId_of_nat:
  assumes "n < 2 ^ 32 - 1"
  shows "GetConfigId (of_nat n) = of_nat (n + 1)"
proof -
  have "of_nat n \<noteq> UINT32_MAX"
  proof
    assume "of_nat n = UINT32_MAX"
    then have "unat (of_nat n :: u32) = unat UINT32_MAX" by simp
    with assms show False by (simp add: unat_of_nat_u32 unat_UINT32_MAX)
  qed
  then show ?thesis by (simp add: GetConfigId_def add.commute)
qed

text \<open>Starting from the initial identifier 0, the identifiers given to the successive
  configuration sessions count from 1 up to the largest 32-bit value and start again at 1: 0 is never
  given, and two sessions have the same identifier only when a multiple of \<open>2 ^ 32 - 1\<close> sessions
  lies between them.\<close>

theorem config_ids_cycle:
  "(GetConfigId ^^ Suc n) 0 = of_nat (n mod (2 ^ 32 - 1) + 1) \<and>
   ((GetConfigId ^^ Suc n) 0 = (GetConfigId ^^ Suc m) 0 \<longleftrightarrow> n mod (2 ^ 32 - 1) = m mod (2 ^ 32 - 1))"
proof -
  have step: "(GetConfigId ^^ Suc n) 0 = of_nat (n mod (2 ^ 32 - 1) + 1)" for n
  proof (induction n)
    case 0
    show ?case by (simp add: GetConfigId_def)
  next
    case (Suc n)
    let ?k = "n mod (2 ^ 32 - 1)"
    have k: "?k < 2 ^ 32 - 1" by simp
    show ?case
    proof (cases "?k = 2 ^ 32 - 2")
      case True
      then have "Suc n mod (2 ^ 32 - 1) = 0" by (simp add: mod_Suc)
      with Suc True show ?thesis
        by (simp add: GetConfigId_def UINT32_MAX_def TC_START_CONFIG_ID_def)
    next
      case False
      with k have "Suc n mod (2 ^ 32 - 1) = ?k + 1" by (simp add: mod_Suc)
      moreover from False k have "GetConfigId (of_nat (?k + 1)) = of_nat (?k + 1 + 1)"
        by (intro GetConfigId_of_nat) simp
      ultimately show ?thesis using Suc by simp
    qed
  qed
  have "unat (of_nat (n mod (2 ^ 32 - 1) + 1) :: u32) = n mod (2 ^ 32 - 1) + 1" for n
    by (rule unat_of_nat_u32) (use mod_less_divisor [of "2 ^ 32 - 1" n] in simp)
  then show ?thesis unfolding step by (metis add_right_cancel)
qed

section \<open>When the lock grants anything\<close>

text \<open>C40: A write operation starts only while the module is active, only for a session that is not
  marked for removal, and, for a commit or an abort of the candidate configuration, only when that
  session holds the configuration session with no announcement outstanding.\<close>

theorem write_starts_only_if_allowed:
  assumes "lock_reach a l" "lock_step l ev l'" "w_operation (tc_rwlock l) = TC_WRITE_NONE"
    "w_operation (tc_rwlock l') \<noteq> TC_WRITE_NONE"
  shows "GetUncCurrentState l = TC_ACT \<and>
    (GetMarkedSessionId l \<noteq> 0 \<longrightarrow> GetMarkedSessionId l \<noteq> w_session_id (tc_rwlock l')) \<and>
    (needs_config (w_operation (tc_rwlock l')) \<longrightarrow>
       cfg_abs l' = CfgHeld (w_session_id (tc_rwlock l')) (cl_config_id (tc_config_lock l')))"
proof -
  have inv: "lock_inv l'" using lock_reach_inv [OF assms(1)] assms(2) by (rule lock_step_inv)
  have marked: "GetMarkedSessionId l \<noteq> 0 \<longrightarrow> GetMarkedSessionId l \<noteq> s"
    if "TcOperationIsAllowed s oper l = TC_LOCK_SUCCESS" "GetUncCurrentState l = TC_ACT" for s oper
    using that by (auto simp: TcOperationIsAllowed_def GetMarkedSessionId_def GetUncCurrentState_def Let_def
        split: if_splits)
  have cfg: "needs_config (w_operation (tc_rwlock l')) \<longrightarrow>
       cfg_abs l' = CfgHeld (w_session_id (tc_rwlock l')) (cl_config_id (tc_config_lock l'))"
    using lock_inv_commit [OF inv] by (auto simp: cfg_abs_def)
  from assms(2) show ?thesis
  proof (cases rule: lock_step_writer)
    case (release s k oper w)
    with assms(4) show ?thesis by (simp add: drop_write_def clearWriter_def)
  next
    case reset
    with assms(2,4) show ?thesis
      by (auto simp: lock_step_iff lock_exec_def ResetTcGlobalDataOnStateTransition_def clearWriter_def
          split: if_splits)
  qed (use assms(3,4) cfg marked in simp_all)
qed

theorem write_starts_only_if_allowed_witness:
  "cfg_abs (demo_lock True []) = CfgHeld 5 (cl_config_id (tc_config_lock (demo_lock True [])))"
proof -
  let ?l0 = "the (lock_run (butlast demo_commit) (TcInitWRLock True TcLock_new))"
  have "lock_run (butlast demo_commit) (TcInitWRLock True TcLock_new) \<noteq> None" by code_simp
  then have "lock_reach True ?l0" using lock_run_reach lock_reach.init by fastforce
  moreover have "lock_step ?l0 (last demo_commit) (demo_lock True [])"
    unfolding lock_step_iff by code_simp
  moreover have "w_operation (tc_rwlock ?l0) = TC_WRITE_NONE" by code_simp
  moreover have "w_operation (tc_rwlock (demo_lock True [])) = TC_COMMIT"
    "w_session_id (tc_rwlock (demo_lock True [])) = 5" by code_simp+
  ultimately show ?thesis
    using write_starts_only_if_allowed [of True ?l0 "last demo_commit" "demo_lock True []"]
    by (simp add: needs_config_def)
qed

end
