(* ===== verification/TC_LockClients.thy ===== *)
theory TC_LockClients
  imports TC_ConfigProps
begin

text \<open>
  The lock as the operation handlers use it: the write session as an instance of the write lock
  interface, the blocking acquisitions, and the report of what a session is doing, which decides
  how the module cleans up after a session that went away.
\<close>

section \<open>Definitions\<close>

definition try_write_session :: "u32 \<Rightarrow> TcWriteOperation \<Rightarrow> TcLock \<Rightarrow> bool \<times> TcLock" where
  "try_write_session s w l =
     (case GetLock no_wait s TC_ACQUIRE_WRITE_SESSION w l of
        None \<Rightarrow> (False, l)
      | Some (r, l') \<Rightarrow> (r = TC_LOCK_SUCCESS, l'))"

definition release_write_session :: "u32 \<Rightarrow> TcWriteOperation \<Rightarrow> TcLock \<Rightarrow> bool \<times> TcLock" where
  "release_write_session s w l =
     (let (r, l') = ReleaseLock s 0 TC_RELEASE_WRITE_SESSION w l in (r = TC_LOCK_SUCCESS, l'))"

text \<open>The state a blocked call sees after \<open>k\<close> of its waits.\<close>

definition after_reads :: "(TcLock \<Rightarrow> TcLock) list \<Rightarrow> nat \<Rightarrow> TcLock \<Rightarrow> TcLock" where
  "after_reads fs k l = fold waitForRead (take k fs) l"

definition after_writes :: "(TcLock \<Rightarrow> TcLock) list \<Rightarrow> nat \<Rightarrow> TcLock \<Rightarrow> TcLock" where
  "after_writes fs k l = fold waitForWrite (take k fs) l"

definition progress_of :: "TcWriteOperation \<Rightarrow> TcSessionOperationProgress" where
  "progress_of wop =
     (case wop of
        TC_COMMIT \<Rightarrow> TC_CONFIG_COMMIT_PROGRESS
      | TC_AUDIT_USER \<Rightarrow> TC_WRITE_AUDIT_USER_PROGRESS
      | TC_AUDIT_DRIVER \<Rightarrow> TC_WRITE_AUDIT_DRIVER_PROGRESS
      | TC_ABORT_CANDIDATE_CONFIG \<Rightarrow> TC_WRITE_ABORT_CANDIDATE_CONFIG_PROGRESS
      | TC_SAVE_STARTUP_CONFIG \<Rightarrow> TC_WRITE_SAVE_STARTUP_CONFIG_PROGRESS
      | TC_CLEAR_STARTUP_CONFIG \<Rightarrow> TC_WRITE_CLEAR_STARTUP_CONFIG_PROGRESS
      | TC_WRITE_NONE \<Rightarrow> TC_NO_OPERATION_PROGRESS)"

definition session_progress :: "u32 \<Rightarrow> TcLock \<Rightarrow> TcSessionOperationProgress" where
  "session_progress sid l =
     (let rd = (if sid \<in> tc_read_lock l then TC_READ_PROGRESS else TC_NO_OPERATION_PROGRESS)
      in if w_operation (tc_rwlock l) \<noteq> TC_WRITE_NONE \<and> w_session_id (tc_rwlock l) = sid
         then progress_of (w_operation (tc_rwlock l))
         else case cfg_abs l of
                CfgHeld s k \<Rightarrow> if s = sid then TC_CONFIG_NO_NOTIFY_PROGRESS else rd
              | CfgAcquiring s k \<Rightarrow> if s = sid then TC_CONFIG_NOTIFY_ACQUIRE_PROGRESS else rd
              | CfgReleasing s k \<Rightarrow> if s = sid then TC_CONFIG_NOTIFY_RELEASE_PROGRESS else rd
              | CfgFree \<Rightarrow> rd)"

section \<open>The write session is a write lock\<close>

lemma canWriteLock_not_held: "canWriteLock rw \<Longrightarrow> \<not> isWriteHeld rw"
  by (auto simp: canWriteLock_def isWriteHeld_def RW_OWNER_WRLOCKED_def split: if_splits)

lemma setWriter_held: "isWriteHeld (setWriter s w rw)"
  by (simp add: isWriteHeld_def setWriter_def Let_def)

lemma try_write_session_cases:
  "try_write_session s w l = (False, l) \<or>
   canWriteLock (tc_rwlock l) \<and>
     try_write_session s w l = (True, l\<lparr>tc_rwlock := setWriter s w (tc_rwlock l)\<rparr>)"
proof (cases "GetLock no_wait s TC_ACQUIRE_WRITE_SESSION w l")
  case (Some p)
  then obtain r l' where p: "GetLock no_wait s TC_ACQUIRE_WRITE_SESSION w l = Some (r, l')"
    by (cases p) auto
  then have "r \<noteq> TC_LOCK_SUCCESS \<and> l' = l \<or> AcquireWriteLock no_wait s w l = Some (r, l')"
    by (auto simp: GetLock_def Let_def split: if_splits)
  with p show ?thesis
    by (auto simp: try_write_session_def dest!: AcquireWriteLock_no_wait)
qed (simp add: try_write_session_def)

lemma release_write_session_eq:
  "release_write_session s w l =
     (if holds_write s w l then (True, l\<lparr>tc_rwlock := drop_write (tc_rwlock l)\<rparr>) else (False, l))"
  by (simp add: release_write_session_def ReleaseLock_def ReleaseWriteLock_eq)

lemma drop_write_free: "\<not> isWriteHeld (drop_write rw)"
  by (simp add: drop_write_def isWriteHeld_def wakeUp_def clearWriter_def RW_OWNER_WRLOCKED_def)

interpretation tcl: write_lock "\<lambda>l. isWriteHeld (tc_rwlock l)"
  "\<lambda>l. (w_session_id (tc_rwlock l), w_operation (tc_rwlock l))" try_write_session release_write_session
proof
  fix s w l l'
  assume "try_write_session s w l = (True, l')"
  with try_write_session_cases [of s w l] show "\<not> isWriteHeld (tc_rwlock l)"
    "isWriteHeld (tc_rwlock l') \<and> (w_session_id (tc_rwlock l'), w_operation (tc_rwlock l')) = (s, w)"
    by (auto simp: canWriteLock_not_held setWriter_held)
next
  fix s w l l'
  assume "try_write_session s w l = (False, l')"
  with try_write_session_cases [of s w l] show "l' = l" by auto
next
  fix s w l l'
  assume "release_write_session s w l = (True, l')"
  then show "isWriteHeld (tc_rwlock l) \<and> (w_session_id (tc_rwlock l), w_operation (tc_rwlock l)) = (s, w)"
    "\<not> isWriteHeld (tc_rwlock l')"
    by (auto simp: release_write_session_eq holds_write_def isWriteHeld_by_def drop_write_free split: if_splits)
qed (auto simp: release_write_session_eq holds_write_def isWriteHeld_by_def split: if_splits)

text \<open>Once a session has acquired the write lock for an operation, no session can acquire it
  again, a release by another session or under another operation is refused and changes nothing,
  and the owner's release succeeds and frees the lock.\<close>

theorem write_session_roundtrip:
  assumes "GetLock no_wait s TC_ACQUIRE_WRITE_SESSION w l = Some (TC_LOCK_SUCCESS, l1)"
  shows "(\<forall>s' w' l2. GetLock no_wait s' TC_ACQUIRE_WRITE_SESSION w' l1 \<noteq> Some (TC_LOCK_SUCCESS, l2)) \<and>
    (\<forall>s' w' k. (s', w') \<noteq> (s, w) \<longrightarrow>
       ReleaseLock s' k TC_RELEASE_WRITE_SESSION w' l1 = (TC_LOCK_NOT_ACQUIRED, l1)) \<and>
    (\<forall>k. \<exists>l2. ReleaseLock s k TC_RELEASE_WRITE_SESSION w l1 = (TC_LOCK_SUCCESS, l2) \<and>
       \<not> isWriteHeld (tc_rwlock l2))"
proof -
  have acq: "try_write_session s w l = (True, l1)" using assms by (simp add: try_write_session_def)
  have "GetLock no_wait s' TC_ACQUIRE_WRITE_SESSION w' l1 \<noteq> Some (TC_LOCK_SUCCESS, l2)" for s' w' l2
    using tcl.acquire_excludes [OF acq, of s' w'] by (auto simp: try_write_session_def)
  moreover have "\<not> holds_write s' w' l1" if "(s', w') \<noteq> (s, w)" for s' w'
    using tcl.foreign_release_fails [of l1 s' w'] tcl.acquire_owner [OF acq] that
    by (auto simp: release_write_session_eq split: if_splits)
  moreover have "holds_write s w l1"
    using tcl.acquire_owner [OF acq] by (simp add: holds_write_def isWriteHeld_by_def)
  ultimately show ?thesis
    by (simp add: ReleaseLock_def ReleaseWriteLock_eq drop_write_free)
qed

theorem write_session_roundtrip_witness:
  "ReleaseLock 6 0 TC_RELEASE_WRITE_SESSION TC_COMMIT (demo_lock True []) =
     (TC_LOCK_NOT_ACQUIRED, demo_lock True [])"
proof -
  let ?l0 = "the (lock_run (butlast demo_commit) (TcInitWRLock True TcLock_new))"
  have "map_option fst (GetLock no_wait 5 TC_ACQUIRE_WRITE_SESSION TC_COMMIT ?l0) = Some TC_LOCK_SUCCESS"
    by code_simp
  moreover have "map_option snd (GetLock no_wait 5 TC_ACQUIRE_WRITE_SESSION TC_COMMIT ?l0) = Some (demo_lock True [])"
    by code_simp
  ultimately have "GetLock no_wait 5 TC_ACQUIRE_WRITE_SESSION TC_COMMIT ?l0 =
      Some (TC_LOCK_SUCCESS, demo_lock True [])"
    by auto
  from write_session_roundtrip [OF this] show ?thesis by simp
qed

section \<open>Blocking acquisitions\<close>

lemma after_reads_simps [simp]: "after_reads fs 0 l = l"
  "after_reads (f # fs) (Suc k) l = after_reads fs k (waitForRead f l)"
  by (simp_all add: after_reads_def)

lemma after_writes_simps [simp]: "after_writes fs 0 l = l"
  "after_writes (f # fs) (Suc k) l = after_writes fs k (waitForWrite f l)"
  by (simp_all add: after_writes_def)

lemma transition_loop_success:
  assumes "k \<le> length fs" "transition_ready sid (after_reads fs k l)"
    "\<forall>j \<le> k. GetUncCurrentState (after_reads fs j l) \<noteq> TC_STOP"
  shows "\<exists>j \<le> k. transition_loop fs sid l = Some (TC_LOCK_SUCCESS, enter_transition sid (after_reads fs j l))"
  using assms
proof (induction fs arbitrary: k l)
  case (Cons f fs)
  show ?case
  proof (cases "transition_ready sid l")
    case False
    with Cons.prems obtain k' where k: "k = Suc k'" by (cases k) auto
    have run: "\<forall>j \<le> k'. GetUncCurrentState (after_reads fs j (waitForRead f l)) \<noteq> TC_STOP"
      using Cons.prems(3) k by (metis Suc_le_mono after_reads_simps(2))
    with Cons.IH [of k' "waitForRead f l"] Cons.prems k obtain j where "j \<le> k'"
      "transition_loop fs sid (waitForRead f l) =
         Some (TC_LOCK_SUCCESS, enter_transition sid (after_reads fs j (waitForRead f l)))"
      by auto
    with False run k show ?thesis
      by (intro exI [of _ "Suc j"]) (auto simp: Let_def GetUncCurrentState_def dest: spec [of _ 0])
  qed (auto intro: exI [of _ 0])
qed auto

text \<open>A request for the state transition lock that has to wait is granted: if after some of its
  wake-ups the read lock is available and no other transition runs, and the module has not been
  stopped until then, the call returns with success, the transition in progress, and the read
  lock taken.\<close>

theorem transition_lock_granted:
  assumes "k \<le> length (wakes e)" "transition_ready 0 (after_reads (wakes e) k l)"
    "\<forall>j \<le> k. GetUncCurrentState (after_reads (wakes e) j l) \<noteq> TC_STOP"
    "GetMarkedSessionId l = 0"
  shows "\<exists>l'. GetLock e 0 TC_ACQUIRE_READ_LOCK_FOR_STATE_TRANSITION w l = Some (TC_LOCK_SUCCESS, l') \<and>
    IsStateTransitionInProgress l'"
proof -
  from transition_loop_success [OF assms(1-3)] obtain j where
    "transition_loop (wakes e) 0 l = Some (TC_LOCK_SUCCESS, enter_transition 0 (after_reads (wakes e) j l))"
    by blast
  moreover from assms(3) have "GetUncCurrentState l \<noteq> TC_STOP" by (auto dest: spec [of _ 0])
  ultimately show ?thesis using assms(4)
    by (cases "current_state (tc_state_lock l)")
      (auto simp: GetLock_def TcOperationIsAllowed_def TcAcquireReadLockForStateTransition_def
        GetUncCurrentState_def GetMarkedSessionId_def IsStateTransitionInProgress_def enter_transition_def)
qed

theorem transition_lock_granted_witness:
  "\<exists>l'. GetLock \<lparr>polls = [], wakes = [\<lambda>l. snd (ReleaseLock 5 0 TC_RELEASE_WRITE_SESSION TC_COMMIT l)]\<rparr> 0
     TC_ACQUIRE_READ_LOCK_FOR_STATE_TRANSITION TC_WRITE_NONE (demo_lock False []) = Some (TC_LOCK_SUCCESS, l') \<and>
   IsStateTransitionInProgress l'"
proof (rule transition_lock_granted [where k = 1])
  let ?e = "\<lparr>polls = [], wakes = [\<lambda>l. snd (ReleaseLock 5 0 TC_RELEASE_WRITE_SESSION TC_COMMIT l)]\<rparr>"
  have "\<not> transition_ready 0 (demo_lock False [])" by code_simp
  show "1 \<le> length (wakes ?e)" by simp
  show "transition_ready 0 (after_reads (wakes ?e) 1 (demo_lock False []))" by code_simp
  have "\<forall>j \<in> set [0, 1]. GetUncCurrentState (after_reads (wakes ?e) j (demo_lock False [])) \<noteq> TC_STOP"
    by code_simp
  then show "\<forall>j \<le> 1. GetUncCurrentState (after_reads (wakes ?e) j (demo_lock False [])) \<noteq> TC_STOP"
    by (auto simp: le_Suc_eq)
  show "GetMarkedSessionId (demo_lock False []) = 0" by code_simp
qed

lemma audit_driver_loop_success:
  assumes "k \<le> length fs" "canWriteLock (tc_rwlock (after_writes fs k l))"
    "\<forall>j \<le> k. TcOperationIsAllowed sid TC_ACQUIRE_WRITE_SESSION (after_writes fs j l) = TC_LOCK_SUCCESS"
  shows "\<exists>l'. audit_driver_loop fs sid l = Some (TC_LOCK_SUCCESS, l') \<and> holds_write sid TC_AUDIT_DRIVER l'"
  using assms
proof (induction fs arbitrary: k l)
  case Nil
  then show ?case by (auto simp: holds_write_def isWriteHeld_by_def setWriter_held)
next
  case (Cons f fs)
  show ?case
  proof (cases "canWriteLock (tc_rwlock l)")
    case False
    with Cons.prems obtain k' where k: "k = Suc k'" by (cases k) auto
    have run: "\<forall>j \<le> k'. TcOperationIsAllowed sid TC_ACQUIRE_WRITE_SESSION
        (after_writes fs j (waitForWrite f l)) = TC_LOCK_SUCCESS"
      using Cons.prems(3) k by (metis Suc_le_mono after_writes_simps(2))
    with Cons.IH [of k' "waitForWrite f l"] Cons.prems k False show ?thesis
      by (auto simp: Let_def dest: spec [of _ 0])
  qed (auto simp: holds_write_def isWriteHeld_by_def setWriter_held)
qed

text \<open>An audit requested by a driver waits for the set-up to complete and then for the write
  lock, and gets it: if the set-up flag is seen set after some polls, and after some wake-ups the
  write lock is free while the module stayed active and the session unmarked, the call returns
  with success and the session holds the write lock for the driver audit.\<close>

theorem driver_audit_lock_granted:
  assumes "wait_setup_complete (polls e) l = Some l0" "k \<le> length (wakes e)"
    "canWriteLock (tc_rwlock (after_writes (wakes e) k l0))"
    "\<forall>j \<le> k. TcOperationIsAllowed sid TC_ACQUIRE_WRITE_SESSION (after_writes (wakes e) j l0) = TC_LOCK_SUCCESS"
  shows "\<exists>l'. GetLock e sid TC_ACQUIRE_WRITE_SESSION TC_AUDIT_DRIVER l = Some (TC_LOCK_SUCCESS, l') \<and>
    holds_write sid TC_AUDIT_DRIVER l'"
proof -
  have "wait_setup_complete bs l = Some l0 \<Longrightarrow>
      tc_state_lock l0 = tc_state_lock l \<and> tc_config_lock l0 = tc_config_lock l" for bs
    by (induction bs l rule: wait_setup_complete.induct) (auto split: if_splits)
  with assms(1) have "TcOperationIsAllowed sid oper l0 = TcOperationIsAllowed sid oper l" for oper
    by (simp add: TcOperationIsAllowed_def)
  moreover from assms(4) have "TcOperationIsAllowed sid TC_ACQUIRE_WRITE_SESSION l0 = TC_LOCK_SUCCESS"
    by (auto dest: spec [of _ 0])
  ultimately show ?thesis
    using audit_driver_loop_success [OF assms(2-4)] assms(1)
    by (auto simp: GetLock_def AcquireWriteLock_def AcquireWriteLockForAuditDriver_def)
qed

theorem driver_audit_lock_granted_witness:
  "\<exists>l'. GetLock \<lparr>polls = [False, True], wakes = [\<lambda>l. snd (ReleaseLock 5 0 TC_RELEASE_WRITE_SESSION TC_COMMIT l)]\<rparr>
     77 TC_ACQUIRE_WRITE_SESSION TC_AUDIT_DRIVER (demo_lock True []) = Some (TC_LOCK_SUCCESS, l') \<and>
   holds_write 77 TC_AUDIT_DRIVER l'"
proof (rule driver_audit_lock_granted [where k = 1])
  let ?e = "\<lparr>polls = [False, True], wakes = [\<lambda>l. snd (ReleaseLock 5 0 TC_RELEASE_WRITE_SESSION TC_COMMIT l)]\<rparr>"
  let ?l0 = "(demo_lock True [])\<lparr>setup_complete_done := True\<rparr>"
  show "wait_setup_complete (polls ?e) (demo_lock True []) = Some ?l0"
    by code_simp
  show "1 \<le> length (wakes ?e)" by simp
  show "canWriteLock (tc_rwlock (after_writes (wakes ?e) 1 ?l0))" by code_simp
  have "\<forall>j \<in> set [0, 1]. TcOperationIsAllowed 77 TC_ACQUIRE_WRITE_SESSION (after_writes (wakes ?e) j ?l0) = TC_LOCK_SUCCESS"
    by code_simp
  then show "\<forall>j \<le> 1. TcOperationIsAllowed 77 TC_ACQUIRE_WRITE_SESSION (after_writes (wakes ?e) j ?l0) = TC_LOCK_SUCCESS"
    by (auto simp: le_Suc_eq)
qed


text \<open>A call of the lock interface that waits keeps the lock consistent: if what the other
  threads do during each wait keeps the invariant, so does the whole call, whatever it returns.\<close>

theorem blocking_calls_keep_invariant:
  assumes "\<forall>f \<in> set (wakes e). \<forall>l. lock_inv l \<longrightarrow> lock_inv (f l)" "lock_inv l"
    "oper = TC_ACQUIRE_READ_LOCK_FOR_STATE_TRANSITION \<longrightarrow> sid = 0"
    "GetLock e sid oper wop l = Some (r, l')"
  shows "lock_inv l'"
  using inv_GetLock [of e l oper sid wop r l'] assms by blast

theorem blocking_calls_keep_invariant_witness:
  "\<exists>l'. GetLock \<lparr>polls = [], wakes = [TcUpdateUncState TC_STOP]\<rparr> 0 TC_ACQUIRE_READ_LOCK_FOR_STATE_TRANSITION
     TC_WRITE_NONE (demo_lock False []) = Some (TC_LOCK_INVALID_UNC_STATE, l') \<and> lock_inv l'"
proof -
  let ?e = "\<lparr>polls = [], wakes = [TcUpdateUncState TC_STOP]\<rparr>"
  let ?call = "GetLock ?e 0 TC_ACQUIRE_READ_LOCK_FOR_STATE_TRANSITION TC_WRITE_NONE (demo_lock False [])"
  have "map_option fst ?call = Some TC_LOCK_INVALID_UNC_STATE" by code_simp
  then obtain l' where l': "?call = Some (TC_LOCK_INVALID_UNC_STATE, l')" by auto
  have "lock_reach False (demo_lock False [])" by (rule demo_reach) code_simp
  then have "lock_inv (demo_lock False [])" by (rule lock_reach_inv)
  with l' blocking_calls_keep_invariant [of ?e "demo_lock False []" _ 0 TC_WRITE_NONE _ l']
  have "lock_inv l'" by (simp add: inv_TcUpdateUncState)
  with l' show ?thesis by blast
qed

section \<open>What a session is doing\<close>

text \<open>In every reachable state the report of the operation in progress of a session is exact: the
  write operation the session holds, else its stage of the configuration session, else its read
  session, else nothing.\<close>

theorem session_operation_exact:
  assumes "lock_reach a l"
  shows "GetSessionOperation sid l = session_progress sid l"
proof -
  note inv = lock_reach_inv [OF assms]
  have c: "config_ok (tc_config_lock l)" using inv by (simp add: lock_inv_def)
  have held: "isWriteHeld_by sid (tc_rwlock l)"
    if "w_operation (tc_rwlock l) \<noteq> TC_WRITE_NONE" "w_session_id (tc_rwlock l) = sid"
    using lock_inv_writer_held [OF inv] that by (simp add: isWriteHeld_by_def)
  have own: "isWriteHeld_by sid (tc_rwlock l) \<Longrightarrow> w_session_id (tc_rwlock l) = sid"
    by (simp add: isWriteHeld_by_def)
  have taken: "cl_is_taken (tc_config_lock l)" if "needs_config (w_operation (tc_rwlock l))"
    using lock_inv_commit [OF inv that] by simp
  show ?thesis
  proof (cases "w_operation (tc_rwlock l) \<noteq> TC_WRITE_NONE \<and> w_session_id (tc_rwlock l) = sid")
    case True
    with held taken show ?thesis
      by (cases "w_operation (tc_rwlock l)")
        (simp_all add: GetSessionOperation_def session_progress_def progress_of_def needs_config_def)
  next
    case False
    then have "\<not> isWriteHeld_by sid (tc_rwlock l) \<or> w_operation (tc_rwlock l) = TC_WRITE_NONE"
      using own by blast
    with False c show ?thesis
      by (cases "cl_notify_operation (tc_config_lock l)")
        (auto simp: GetSessionOperation_def session_progress_def cfg_abs_def config_ok_def Let_def)
  qed
qed

theorem session_operation_exact_witness:
  "GetSessionOperation 5 (demo_lock True []) = TC_CONFIG_COMMIT_PROGRESS"
proof -
  have "lock_reach True (demo_lock True [])" by (rule demo_reach) code_simp
  moreover have "session_progress 5 (demo_lock True []) = TC_CONFIG_COMMIT_PROGRESS" by code_simp
  ultimately show ?thesis using session_operation_exact [of True "demo_lock True []" 5] by simp
qed

section \<open>Wake-ups\<close>

text \<open>In the exclusive mode no wake-up is lost: whenever a release of a read session, of the state
  transition lock or of the write lock makes the write lock available while threads wait, the waiting
  threads are woken.\<close>

theorem release_wakes_waiters:
  assumes "\<not> is_simultaneous_read_write_allowed (tc_rwlock l)" "isWaiting (tc_rwlock l)"
    "\<not> canWriteLock (tc_rwlock l)"
    "canWriteLock (tc_rwlock (snd (ReleaseLock sid cid oper wop l)))"
  shows "rw_broadcasts (tc_rwlock (snd (ReleaseLock sid cid oper wop l))) = rw_broadcasts (tc_rwlock l) + 1"
proof -
  have rd: "rw_broadcasts (unlock_read sid (tc_rwlock l)) = rw_broadcasts (tc_rwlock l) + 1"
    if "canWriteLock (unlock_read sid (tc_rwlock l))"
    using that assms(1,2)
    by (auto simp: unlock_read_def wakeUp_def isWaiting_def canWriteLock_def Let_def split: if_splits)
  have wr: "rw_broadcasts (drop_write (tc_rwlock l)) = rw_broadcasts (tc_rwlock l) + 1"
    using assms(2) by (simp add: drop_write_def wakeUp_def isWaiting_def clearWriter_def)
  show ?thesis
    using assms(3,4) rd wr
    by (cases oper)
      (auto simp: ReleaseLock_def ReleaseWriteLock_eq release_autosave_eq ReleaseConfigLock_def
        ReleaseReadLock_def TcReleaseReadLockForStateTransition_def AutoSaveDisable_def Let_def split: if_splits)
qed

theorem release_wakes_waiters_witness:
  "rw_broadcasts (tc_rwlock (snd (ReleaseLock 5 0 TC_RELEASE_WRITE_SESSION TC_COMMIT
     (demo_lock False [BlockWrite 77])))) = rw_broadcasts (tc_rwlock (demo_lock False [BlockWrite 77])) + 1"
  by (rule release_wakes_waiters; code_simp)

text \<open>In the default mode a wake-up can be lost: while the database management session and an
  ordinary session both read and a driver audit waits for the write lock, the release by the
  database management session makes the write lock available, but the waiting thread is not woken.\<close>

theorem release_may_lose_wakeup:
  "let l = demo_lock True [Release 5 0 TC_RELEASE_WRITE_SESSION TC_COMMIT,
             Acquire USESS_ID_DB_MGMT TC_ACQUIRE_READ_SESSION TC_WRITE_NONE,
             Acquire 7 TC_ACQUIRE_READ_SESSION TC_WRITE_NONE, BlockWrite 77];
       l' = snd (ReleaseLock USESS_ID_DB_MGMT 0 TC_RELEASE_READ_SESSION TC_WRITE_NONE l)
   in lock_reach True l \<and> isWaiting (tc_rwlock l) \<and> \<not> canWriteLock (tc_rwlock l) \<and>
      canWriteLock (tc_rwlock l') \<and> rw_broadcasts (tc_rwlock l') = rw_broadcasts (tc_rwlock l)"
proof -
  let ?evs = "[Release 5 0 TC_RELEASE_WRITE_SESSION TC_COMMIT,
    Acquire USESS_ID_DB_MGMT TC_ACQUIRE_READ_SESSION TC_WRITE_NONE,
    Acquire 7 TC_ACQUIRE_READ_SESSION TC_WRITE_NONE, BlockWrite 77]"
  let ?l = "demo_lock True ?evs"
  let ?l' = "snd (ReleaseLock USESS_ID_DB_MGMT 0 TC_RELEASE_READ_SESSION TC_WRITE_NONE ?l)"
  have "lock_reach True ?l" by (rule demo_reach) code_simp
  moreover have "isWaiting (tc_rwlock ?l)" by code_simp
  moreover have "\<not> canWriteLock (tc_rwlock ?l)" by code_simp
  moreover have "canWriteLock (tc_rwlock ?l')" by code_simp
  moreover have "rw_broadcasts (tc_rwlock ?l') = rw_broadcasts (tc_rwlock ?l)" by code_simp
  ultimately show ?thesis unfolding Let_def by blast
qed

text \<open>A stopped module stays stopped and grants nothing: after the stop event every request is
  refused with an invalid state, the lock is unchanged by it, and no state change leaves the
  stopped state.\<close>

theorem stop_is_final:
  assumes "GetUncCurrentState l = TC_STOP"
  shows "GetLock e sid oper wop l = Some (TC_LOCK_INVALID_UNC_STATE, l) \<and>
    (\<forall>ev l'. lock_step l ev l' \<longrightarrow> GetUncCurrentState l' = TC_STOP \<and>
       tc_read_lock l' \<subseteq> tc_read_lock l)"
proof -
  have st: "current_state (tc_state_lock l) = TC_STOP"
    using assms by (simp add: GetUncCurrentState_def)
  have get: "GetLock e sid oper wop l = Some (TC_LOCK_INVALID_UNC_STATE, l)" for e sid oper wop
    by (simp add: GetLock_def TcOperationIsAllowed_def st)
  have rel: "current_state (tc_state_lock (snd (ReleaseLock s k oper w l))) = TC_STOP \<and>
      tc_read_lock (snd (ReleaseLock s k oper w l)) \<subseteq> tc_read_lock l" for s k oper w
    using st by (cases oper) (auto simp: ReleaseLock_def ReleaseWriteLock_eq release_autosave_eq
        ReleaseConfigLock_def ReleaseReadLock_def TcReleaseReadLockForStateTransition_def AutoSaveDisable_def Let_def)
  have "GetUncCurrentState l' = TC_STOP \<and> tc_read_lock l' \<subseteq> tc_read_lock l" if "lock_step l ev l'" for ev l'
  proof (cases ev)
    case (Release s k oper w)
    with that rel [of s k oper w] show ?thesis
      by (auto simp: lock_step_iff lock_exec_def GetUncCurrentState_def split: if_splits)
  qed (use that st get in
      \<open>auto simp: lock_step_iff lock_exec_def GetUncCurrentState_def NotifyConfigIdSessionIdDone_def
        TcMarkSessionId_def TcUpdateUncState_def TcSetSetupComplete_def ResetTcGlobalDataOnStateTransition_def
        enter_read_wait_def enter_write_wait_def wake_read_def wake_write_def leave_read_wait_def
        leave_write_wait_def TcOperationIsAllowed_def Let_def split: if_splits\<close>)
  with get show ?thesis by blast
qed

theorem stop_is_final_witness:
  "GetLock no_wait 5 TC_ACQUIRE_READ_SESSION TC_WRITE_NONE (demo_lock True [UpdateState TC_STOP, ResetData]) =
     Some (TC_LOCK_INVALID_UNC_STATE, demo_lock True [UpdateState TC_STOP, ResetData])"
proof -
  have "GetUncCurrentState (demo_lock True [UpdateState TC_STOP, ResetData]) = TC_STOP" by code_simp
  from stop_is_final [OF this] show ?thesis by blast
qed

end
