(* ===== verification/TC_OperFrame.thy ===== *)
theory TC_OperFrame
  imports TC_OperLogic TC_Module TC_LockClients
begin

text \<open>
  The contract of an operation, as two interfaces: every operation answers with success only if all
  its phases succeeded, and an operation that takes the write lock gives it back on every path. The
  theorems about \<open>Dispatch\<close> are proved once over the interfaces, which the virtual methods of the
  operation classes implement.
\<close>

section \<open>Partial correctness of operation programs\<close>

definition owp :: "('a \<times> opst) option \<Rightarrow> ('a \<Rightarrow> opst \<Rightarrow> bool) \<Rightarrow> bool" where
  "owp x Q \<longleftrightarrow> (\<forall>r s. x = Some (r, s) \<longrightarrow> Q r s)"

named_theorems owp_rules "partial correctness rules, one per construct"

lemma owpI: "(\<And>r s. x = Some (r, s) \<Longrightarrow> Q r s) \<Longrightarrow> owp x Q"
  by (simp add: owp_def)

lemma owpD: "owp x Q \<Longrightarrow> x = Some (r, s) \<Longrightarrow> Q r s"
  by (simp add: owp_def)

lemma owp_mono: "owp x Q \<Longrightarrow> (\<And>r s. Q r s \<Longrightarrow> R r s) \<Longrightarrow> owp x R"
  by (simp add: owp_def)

lemma owp_Some_iff [simp]: "owp (Some (r, s)) Q = Q r s"
  by (simp add: owp_def)

lemma owp_Some [owp_rules]: "Q r s \<Longrightarrow> owp (Some (r, s)) Q"
  by simp

lemma owp_None [owp_rules]: "owp None Q"
  by (simp add: owp_def)

lemma owp_bind [owp_rules]:
  "owp x (\<lambda>r s. owp (f r s) Q) \<Longrightarrow> owp (x \<bind> (\<lambda>(r, s). f r s)) Q"
  by (cases x) (auto simp: owp_def)

lemma owp_if [owp_rules]: "(b \<Longrightarrow> owp x Q) \<Longrightarrow> (\<not> b \<Longrightarrow> owp y Q) \<Longrightarrow> owp (if b then x else y) Q"
  by simp

lemma owp_option [owp_rules]:
  "(x = None \<Longrightarrow> owp p Q) \<Longrightarrow> (\<And>y. x = Some y \<Longrightarrow> owp (q y) Q) \<Longrightarrow>
   owp (case x of None \<Rightarrow> p | Some y \<Rightarrow> q y) Q"
  by (cases x) auto

lemma owp_prod [owp_rules]:
  "(\<And>a b. x = (a, b) \<Longrightarrow> owp (q a b) Q) \<Longrightarrow> owp (case x of (a, b) \<Rightarrow> q a b) Q"
  by (cases x) auto

lemma owp_prod_arg [owp_rules]:
  "(\<And>a b. x = (a, b) \<Longrightarrow> owp (q a b s) Q) \<Longrightarrow> owp ((case x of (a, b) \<Rightarrow> q a b) s) Q"
  by (cases x) auto

section \<open>Success needs every phase\<close>

text \<open>The answer to the user is a success only if the operation asked for one.\<close>

locale operation =
  fixes vt :: oper_vt
  assumes honest: "vt_SendResponse vt st s = Some (TC_OPER_SUCCESS, s') \<Longrightarrow> st = TC_OPER_SUCCESS"
begin

lemma revoke_fails:
  assumes "st \<noteq> TC_OPER_SUCCESS"
  shows "RevokeOperation vt st s \<noteq> Some (TC_OPER_SUCCESS, s')"
proof
  assume "RevokeOperation vt st s = Some (TC_OPER_SUCCESS, s')"
  then obtain st' s1 where "vt_SendResponse vt st' s1 = Some (TC_OPER_SUCCESS, s')" "st' \<noteq> TC_OPER_SUCCESS"
    using assms by (auto simp: RevokeOperation_def bind_eq_Some_conv split: TcOperEnum.splits if_splits)
  with honest show False by blast
qed

lemma phase_success:
  "phase vt ph f k s = Some (TC_OPER_SUCCESS, s') \<Longrightarrow>
   \<exists>s1. f (s\<lparr>op_phase := ph\<rparr>) = Some (TC_OPER_SUCCESS, s1) \<and> k s1 = Some (TC_OPER_SUCCESS, s')"
  by (auto simp: phase_def bind_eq_Some_conv revoke_fails split: if_splits)

text \<open>The part of the operation under the lock.\<close>

lemma locked_success:
  assumes "phase vt CREATE_MSG_LIST (vt_TcCreateMsgList vt)
      (phase vt EXECUTE_PHASE (vt_Execute vt)
      (phase vt RELEASE_EXCLUSION_PHASE (vt_TcReleaseExclusion vt) k)) s = Some (TC_OPER_SUCCESS, s')"
  shows "\<exists>s1 s2 s3.
      vt_TcCreateMsgList vt (s\<lparr>op_phase := CREATE_MSG_LIST\<rparr>) = Some (TC_OPER_SUCCESS, s1) \<and>
      vt_Execute vt (s1\<lparr>op_phase := EXECUTE_PHASE\<rparr>) = Some (TC_OPER_SUCCESS, s2) \<and>
      vt_TcReleaseExclusion vt (s2\<lparr>op_phase := RELEASE_EXCLUSION_PHASE\<rparr>) = Some (TC_OPER_SUCCESS, s3) \<and>
      k s3 = Some (TC_OPER_SUCCESS, s')"
  using assms by (blast dest!: phase_success)

lemma dispatch_success:
  assumes "Dispatch vt s = Some (TC_OPER_SUCCESS, s')"
  shows "\<exists>s1 s2 s3 s4 s5.
      vt_HandleArgs vt (s\<lparr>op_phase := INPUT_VALIDATION\<rparr>) = Some (TC_OPER_SUCCESS, s1) \<and>
      vt_TcGetExclusion vt (s1\<lparr>op_phase := GET_EXCLUSION_PHASE\<rparr>) = Some (TC_OPER_SUCCESS, s2) \<and>
      vt_TcCreateMsgList vt (s2\<lparr>op_phase := CREATE_MSG_LIST\<rparr>) = Some (TC_OPER_SUCCESS, s3) \<and>
      vt_Execute vt (s3\<lparr>op_phase := EXECUTE_PHASE\<rparr>) = Some (TC_OPER_SUCCESS, s4) \<and>
      vt_TcReleaseExclusion vt (s4\<lparr>op_phase := RELEASE_EXCLUSION_PHASE\<rparr>) = Some (TC_OPER_SUCCESS, s5) \<and>
      vt_SendResponse vt TC_OPER_SUCCESS s5 = Some (TC_OPER_SUCCESS, s')"
  using assms unfolding Dispatch_def by (blast dest!: phase_success locked_success)

end

lemma SendResponse_honest:
  assumes "SendResponse env additional st s = Some (TC_OPER_SUCCESS, s')"
    "\<And>st s s'. additional st s = Some (TC_OPER_SUCCESS, s') \<Longrightarrow> st = TC_OPER_SUCCESS"
  shows "st = TC_OPER_SUCCESS"
  using assms by (auto simp: SendResponse_def Let_def split: if_splits prod.splits)

interpretation cand: operation "Cand_vt env"
  by unfold_locales
    (auto simp: Cand_vt_def Cand_SendResponse_def Cand_respond_def Let_def bind_eq_Some_conv
      split: if_splits prod.splits option.splits)

interpretation config: operation "Config_vt env"
  by unfold_locales
    (auto simp: Config_vt_def Config_SendAdditionalResponse_def Let_def
      dest!: SendResponse_honest split: if_splits prod.splits)

interpretation read: operation "Read_vt env"
  by unfold_locales (auto simp: Read_vt_def dest!: SendResponse_honest)

interpretation db: operation "Db_vt env"
  by unfold_locales
    (auto simp: Db_vt_def Db_SendAdditionalResponse_def bind_eq_Some_conv
      dest!: SendResponse_honest split: if_splits)

interpretation autosave: operation "AutoSave_vt env"
  by unfold_locales
    (auto simp: AutoSave_vt_def AutoSave_SendAdditionalResponse_def Let_def
      dest!: SendResponse_honest split: if_splits prod.splits)

interpretation audit: operation "Audit_vt env"
  by unfold_locales
    (auto simp: Audit_vt_def Audit_SendAdditionalResponse_def Let_def
      dest!: SendResponse_honest split: if_splits prod.splits option.splits)

interpretation startup: operation "Startup_vt env"
  by unfold_locales
    (auto simp: Startup_vt_def Startup_SendResponse_def bind_eq_Some_conv split: if_splits)

end
