(* ===== verification/TC_ConfigFrame.thy ===== *)
theory TC_ConfigFrame
  imports TC_OperFrame
begin

text \<open>
  What a request for the configuration session leaves alone. A state predicate that survives the log
  entries of such a request, the other threads, and a change of the lock that spares the read/write
  lock, survives the whole request: \<open>Config_Dispatch\<close> touches nothing else. The interface is
  implemented by the write lock of a session (in \<open>TC_OperLock\<close>) and by the absence of database
  statements (below).
\<close>

section \<open>Shared lemmas\<close>

definition quiet_event :: "tc_event \<Rightarrow> bool" where
  "quiet_event e = (case e of EvOdbc \<Rightarrow> False | EvSql _ _ \<Rightarrow> False | _ \<Rightarrow> True)"

lemma transport_quiet: "transport_event e \<Longrightarrow> quiet_event e"
  by (cases e) (simp_all add: transport_event_def quiet_event_def)

lemma op_run_msg_owp: "owp (op_run_msg env m s) (\<lambda>r s'. trace transport_event s s')"
  by (auto simp: owp_def dest: op_run_msg_trace)

text \<open>
  \<open>I\<close> holds until the parameters are validated and implies \<open>M\<close>, which holds at the end; \<open>J\<close>, \<open>K\<close>
  and \<open>L\<close> hold after the stages that succeeded.
\<close>

lemma HandleArgs_stages:
  assumes "op_ssess s \<noteq> None" "I s"
    "\<And>s. I s \<Longrightarrow> I (snd (GetOperType s))"
    "\<And>s. I s \<Longrightarrow> I (snd (get_sid s)) \<and> (fst (get_sid s) = TC_OPER_SUCCESS \<longrightarrow> J (snd (get_sid s)))"
    "\<And>s. I s \<Longrightarrow> J s \<Longrightarrow> owp (validate_type s) (\<lambda>r s'. I s' \<and> (r = TC_OPER_SUCCESS \<longrightarrow> K s'))"
    "\<And>n s. I s \<Longrightarrow> K s \<Longrightarrow> owp (check_count n s) (\<lambda>r s'. I s' \<and> K s')"
    "\<And>s. I s \<Longrightarrow> K s \<Longrightarrow> owp (validate_params s) (\<lambda>r s'. M s' \<and> (r = TC_OPER_SUCCESS \<longrightarrow> L s'))"
    "\<And>s. I s \<Longrightarrow> M s"
  shows "owp (HandleArgs get_sid n validate_type check_count validate_params s)
    (\<lambda>r s'. M s' \<and> (r = TC_OPER_SUCCESS \<longrightarrow> L s'))"
proof -
  obtain ss where ss: "op_ssess s = Some ss" using assms(1) by auto
  have oper: "I s1" if "GetOperType s = (r, s1)" for r s1
    using assms(3) [OF assms(2)] that by simp
  have sid: "I s2 \<and> (r = TC_OPER_SUCCESS \<longrightarrow> J s2)" if "get_sid s1 = (r, s2)" "I s1" for r s1 s2
    using assms(4) [OF that(2)] that(1) by simp
  show ?thesis
    unfolding HandleArgs_def ss option.case Let_def check_def
    by (intro owp_rules owp_mono [OF assms(5)] owp_mono [OF assms(6)] owp_mono [OF assms(7)])
      (auto simp: assms(2,8) dest: sid dest!: oper)
qed

lemma HandleArgs_owp:
  assumes "op_ssess s \<noteq> None" "I s"
    "\<And>s. I s \<Longrightarrow> I (snd (GetOperType s))"
    "\<And>s. I s \<Longrightarrow> I (snd (get_sid s)) \<and> (fst (get_sid s) = TC_OPER_SUCCESS \<longrightarrow> J (snd (get_sid s)))"
    "\<And>s. I s \<Longrightarrow> J s \<Longrightarrow> owp (validate_type s) (\<lambda>r s'. I s' \<and> J s')"
    "\<And>n s. I s \<Longrightarrow> J s \<Longrightarrow> owp (check_count n s) (\<lambda>r s'. I s' \<and> J s')"
    "\<And>s. I s \<Longrightarrow> J s \<Longrightarrow> owp (validate_params s) (\<lambda>r s'. I s' \<and> J s')"
  shows "owp (HandleArgs get_sid n validate_type check_count validate_params s)
    (\<lambda>r s'. I s' \<and> (r = TC_OPER_SUCCESS \<longrightarrow> J s'))"
proof (rule HandleArgs_stages [where I = I and J = J and K = J])
  fix s
  assume "I s" "J s"
  then show "owp (validate_type s) (\<lambda>r s'. I s' \<and> (r = TC_OPER_SUCCESS \<longrightarrow> J s'))"
    "owp (validate_params s) (\<lambda>r s'. I s' \<and> (r = TC_OPER_SUCCESS \<longrightarrow> J s'))"
    by (auto intro: owp_mono [OF assms(5)] owp_mono [OF assms(7)])
qed (use assms in auto)

lemma HandleArgs_keeps:
  assumes "I s" "\<And>s. I s \<Longrightarrow> I (snd (GetOperType s))" "\<And>s. I s \<Longrightarrow> I (snd (get_sid s))"
    "\<And>s. I s \<Longrightarrow> owp (validate_type s) (\<lambda>r. I)" "\<And>n s. I s \<Longrightarrow> owp (check_count n s) (\<lambda>r. I)"
    "\<And>s. I s \<Longrightarrow> owp (validate_params s) (\<lambda>r. I)"
  shows "owp (HandleArgs get_sid n validate_type check_count validate_params s) (\<lambda>r. I)"
proof (cases "op_ssess s")
  case None
  with assms(1,4) show ?thesis by (simp add: HandleArgs_def)
next
  case (Some ss)
  with assms HandleArgs_owp [of s I get_sid "\<lambda>s. True" validate_type check_count validate_params n]
  show ?thesis by simp
qed

lemma execute_loop_invariant:
  assumes "P s" "\<And>oper m s. P s \<Longrightarrow> owp (fill_data oper m s) (\<lambda>r. P)"
    "\<And>m s. P s \<Longrightarrow> owp (op_run_msg env m s) (\<lambda>r. P)"
    "\<And>s. P s \<Longrightarrow> owp (op_lock_step env (\<lambda>l. ((), TcSetSetupComplete True l)) s) (\<lambda>r. P)"
    "\<And>s b. P s \<Longrightarrow> P (s\<lparr>op_audit_db_fail := b\<rparr>)"
  shows "owp (execute_loop env handle_ret fill_data opers s) (\<lambda>r. P)"
  using assms(1)
proof (induction opers arbitrary: s)
  case (Cons oper opers)
  show ?case
    unfolding execute_loop.simps
    by (intro owp_rules owp_mono [OF assms(2)] owp_mono [OF assms(3)] owp_mono [OF assms(4)] Cons.IH)
      (use Cons.prems in \<open>simp_all add: assms(5)\<close>)
qed simp

lemma GetOperType_frame [simp]:
  "op_ssess (snd (GetOperType s)) = op_ssess s" "op_lock (snd (GetOperType s)) = op_lock s"
  "op_phase (snd (GetOperType s)) = op_phase s" "op_session_id (snd (GetOperType s)) = op_session_id s"
  "op_api_audit (snd (GetOperType s)) = op_api_audit s" "op_hist (snd (GetOperType s)) = op_hist s"
  by (auto simp: GetOperType_def split: prod.splits option.splits)

lemma GetSessionId_frame [simp]:
  "op_lock (snd (GetSessionId s)) = op_lock s" "op_hist (snd (GetSessionId s)) = op_hist s"
  by (auto simp: GetSessionId_def split: prod.splits option.splits)

lemma GetLock_config_rwlock:
  assumes "GetLock e sid oper w l = Some (r, l')"
    "oper = TC_ACQUIRE_CONFIG_SESSION \<or> oper = TC_FORCE_ACQUIRE_CONFIG_SESSION"
  shows "tc_rwlock l' = tc_rwlock l"
  using assms by (auto simp: GetLock_def AcquireConfigLock_def ForceAcquireConfigLock_def UpdateConfigData_def Let_def
      split: if_splits)

lemma config_steps_rwlock [simp]:
  "tc_rwlock (snd (ReleaseLock s k TC_RELEASE_CONFIG_SESSION w l)) = tc_rwlock l"
  "tc_rwlock (snd (NotifyConfigIdSessionIdDone k s n l)) = tc_rwlock l"
  "tc_rwlock (TcSetSetupComplete b l) = tc_rwlock l"
  by (simp_all add: ReleaseLock_def ReleaseConfigLock_def NotifyConfigIdSessionIdDone_def TcSetSetupComplete_def Let_def)

section \<open>Answers to the user\<close>

text \<open>An answer is appended to the session of the user; only that and the log change.\<close>

definition answer_event :: "tc_event \<Rightarrow> bool" where
  "answer_event e = (case e of EvAdd _ \<Rightarrow> True | EvForward \<Rightarrow> True | _ \<Rightarrow> False)"

lemma answer_quiet: "answer_event e \<Longrightarrow> quiet_event e"
  by (cases e) (simp_all add: answer_event_def quiet_event_def)

definition answered :: "opst \<Rightarrow> opst \<Rightarrow> bool" where
  "answered s s' \<longleftrightarrow>
     op_lock s' = op_lock s \<and> op_stat s' = op_stat s \<and> op_oper s' = op_oper s \<and> op_session_id s' = op_session_id s \<and>
     (op_ssess s' = None) = (op_ssess s = None) \<and>
     (\<exists>new. op_hist s' = op_hist s @ new \<and> list_all answer_event new)"

lemma answer_invokes: "list_all answer_event new \<Longrightarrow> invokes new = []"
  by (induction new rule: invokes.induct) (simp_all add: answer_event_def)

lemma answered_invokes: "answered s s' \<Longrightarrow> invokes (op_hist s') = invokes (op_hist s)"
  by (auto simp: answered_def answer_invokes)

lemma answered_refl [simp]: "answered s s"
  by (simp add: answered_def)

lemma answered_trans: "answered s s1 \<Longrightarrow> answered s1 s2 \<Longrightarrow> answered s s2"
  by (auto simp: answered_def)

lemma op_set_uint32_answered: "op_set_uint32 env v s = (r, s') \<Longrightarrow> answered s s'"
  by (auto simp: op_set_uint32_def srv_set_def answered_def answer_event_def split: prod.splits option.splits if_splits)

lemma forward_slot_events:
  "forward_slot env cs decr (ss, h) = (r, ss', h') \<Longrightarrow> \<exists>new. h' = h @ new \<and> list_all answer_event new"
  by (auto simp: forward_slot_def ForwardResponseInternal_def answer_event_def Let_def
      split: option.splits if_splits)

lemma ForwardResponse_events:
  "ForwardResponseToVTN env m (ss, h) = (r, ss', h') \<Longrightarrow> \<exists>new. h' = h @ new \<and> list_all answer_event new"
  unfolding ForwardResponseToVTN_def Let_def
  by (auto split: prod.splits if_splits dest!: forward_slot_events)

lemma op_forward_answered: "op_forward env m s = (r, s') \<Longrightarrow> answered s s'"
  by (auto simp: op_forward_def answered_def Let_def split: option.splits prod.splits dest!: ForwardResponse_events)

lemma set_response_answered:
  "SetOperType env s = (r, s') \<Longrightarrow> answered s s'"
  "SetSessionId env s = (r, s') \<Longrightarrow> answered s s'"
  "SetOperStatus env st s = (r, s') \<Longrightarrow> answered s s'"
  "Cand_SetConfigId env s = (r, s') \<Longrightarrow> answered s s'"
  "AutoSave_SetAutoSave env s = (r, s') \<Longrightarrow> answered s s'"
  "SetAuditOperationStatus env s = (r, s') \<Longrightarrow> answered s s'"
  "Config_SetConfigId env s = (r, s') \<Longrightarrow> answered s s'"
  by (auto simp: SetOperType_def SetSessionId_def SetOperStatus_def Cand_SetConfigId_def AutoSave_SetAutoSave_def
      SetAuditOperationStatus_def Config_SetConfigId_def split: prod.splits dest: op_set_uint32_answered)

lemma SendResponse_invariant:
  assumes "P s" "\<And>s s'. P s \<Longrightarrow> answered s s' \<Longrightarrow> P s'" "\<And>st s. P s \<Longrightarrow> owp (additional st s) (\<lambda>r. P)"
  shows "owp (SendResponse env additional st s) (\<lambda>r. P)"
  unfolding SendResponse_def Let_def
  by (intro owp_rules assms(3))
    (use assms(1) in \<open>auto dest!: set_response_answered intro: assms(2) [OF assms(1)] answered_trans\<close>)

section \<open>The interface\<close>

locale config_invariant =
  fixes env :: tc_env
    and I :: "opst \<Rightarrow> bool"
  assumes log: "I s \<Longrightarrow> op_lock s' = op_lock s \<Longrightarrow> op_hist s' = op_hist s @ new \<Longrightarrow>
      list_all quiet_event new \<Longrightarrow> I s'"
    and others: "I s \<Longrightarrow> I (interfere env s)"
    and config_step: "I s \<Longrightarrow> tc_rwlock l' = tc_rwlock (op_lock s) \<Longrightarrow> I (s\<lparr>op_lock := l'\<rparr>)"
begin

lemma frame: "I s \<Longrightarrow> op_lock s' = op_lock s \<Longrightarrow> op_hist s' = op_hist s \<Longrightarrow> I s'"
  using log [of s s' "[]"] by simp

lemma I_update [simp]:
  "I (s\<lparr>op_phase := ph\<rparr>) = I s" "I (s\<lparr>op_oper := oper\<rparr>) = I s" "I (s\<lparr>op_session_id := sid\<rparr>) = I s"
  "I (s\<lparr>op_config_id := cid\<rparr>) = I s" "I (s\<lparr>op_stat := st\<rparr>) = I s" "I (s\<lparr>op_msgs := ms\<rparr>) = I s"
  "I (s\<lparr>op_timeout := t\<rparr>) = I s" "I (s\<lparr>op_cond_var := b\<rparr>) = I s" "I (s\<lparr>op_audit_db_fail := b\<rparr>) = I s"
  "I (snd (GetOperType s)) = I s" "I (snd (GetSessionId s)) = I s"
  by (auto elim: frame)

lemma I_answered: "I s \<Longrightarrow> answered s s' \<Longrightarrow> I s'"
  by (auto simp: answered_def intro: log list.pred_mono_strong answer_quiet)

lemma I_trace: "I s \<Longrightarrow> trace transport_event s s' \<Longrightarrow> I s'"
  by (auto simp: trace_def same_request_def intro: log list.pred_mono_strong transport_quiet)

lemma keep_step:
  assumes "I s" "\<And>l. tc_rwlock (snd (f l)) = tc_rwlock l"
  shows "owp (op_lock_step env f s) (\<lambda>r. I)"
  using config_step [OF others [OF assms(1)]] assms(2) [of "op_lock (interfere env s)"]
  by (auto simp: op_lock_step_def owp_def Let_def split: prod.splits)

lemma keep_GetLock:
  assumes "I s" "oper = TC_ACQUIRE_CONFIG_SESSION \<or> oper = TC_FORCE_ACQUIRE_CONFIG_SESSION"
  shows "owp (op_GetLock env sid oper w s) (\<lambda>r. I)"
  using config_step [OF others [OF assms(1)]] GetLock_config_rwlock [OF _ assms(2)]
  by (auto simp: op_GetLock_def owp_def Let_def bind_eq_Some_conv)

lemma keep_ConfigIds: "I s \<Longrightarrow> owp (op_GetConfigIdSessionId env a b s) (\<lambda>r. I)"
  by (auto simp: op_GetConfigIdSessionId_def Let_def owp_def others split: prod.splits)

lemma keep_HandleArgs: "I s \<Longrightarrow> owp (vt_HandleArgs (Config_vt env) s) (\<lambda>r. I)"
  unfolding Config_vt_def oper_vt.simps
proof (rule HandleArgs_keeps)
  fix s
  assume "I s"
  then show "owp (Config_TcValidateOperParams env s) (\<lambda>r. I)"
    unfolding Config_TcValidateOperParams_def
    by (intro owp_rules owp_mono [OF keep_ConfigIds]) auto
qed (auto simp: Config_TcValidateOperType_def Config_TcCheckOperArgCount_def)

lemma keep_GetExclusion: "I s \<Longrightarrow> owp (Config_TcGetExclusion env s) (\<lambda>r. I)"
  unfolding Config_TcGetExclusion_def
  by (intro owp_rules owp_mono [OF keep_GetLock] owp_mono [OF keep_step]) auto

lemma keep_ReleaseExclusion: "I s \<Longrightarrow> owp (Config_TcReleaseExclusion env s) (\<lambda>r. I)"
  unfolding Config_TcReleaseExclusion_def by (intro owp_rules owp_mono [OF keep_step]) auto

lemma keep_Execute: "I s \<Longrightarrow> owp (vt_Execute (Config_vt env) s) (\<lambda>r. I)"
  unfolding Config_vt_def oper_vt.simps Execute_def
proof (intro owp_if execute_loop_invariant)
  fix oper m s
  assume "I s"
  then show "owp (Config_FillTcMsgData env oper m s) (\<lambda>r. I)"
    unfolding Config_FillTcMsgData_def by (intro owp_rules owp_mono [OF keep_ConfigIds]) auto
next
  fix m s
  assume "I s"
  then show "owp (op_run_msg env m s) (\<lambda>r. I)" by (rule owp_mono [OF op_run_msg_owp I_trace])
qed (auto intro: keep_step)

lemma keep_SendResponse: "I s \<Longrightarrow> owp (vt_SendResponse (Config_vt env) st s) (\<lambda>r. I)"
  unfolding Config_vt_def oper_vt.simps
proof (rule SendResponse_invariant)
  fix st s
  assume "I s"
  then show "owp (Config_SendAdditionalResponse env st s) (\<lambda>r. I)"
    unfolding Config_SendAdditionalResponse_def Let_def
    by (intro owp_rules) (auto dest: set_response_answered(7) I_answered)
qed (auto intro: I_answered)

lemma keep_Revoke:
  assumes "I s"
  shows "owp (RevokeOperation (Config_vt env) st s) (\<lambda>r. I)"
proof -
  have "owp (vt_TcReleaseExclusion (Config_vt env) s) (\<lambda>r. I)"
    using keep_ReleaseExclusion [OF assms] by (simp add: Config_vt_def)
  note r = owp_mono [OF this]
  show ?thesis
    unfolding RevokeOperation_def
    by (cases "op_phase s"; simp add: assms) (intro owp_rules r keep_SendResponse assms; assumption)+
qed

lemma keep_phase:
  assumes "I s" "\<And>s. I s \<Longrightarrow> owp (f s) (\<lambda>r. I)" "\<And>s. I s \<Longrightarrow> owp (k s) (\<lambda>r. I)"
  shows "owp (phase (Config_vt env) ph f k s) (\<lambda>r. I)"
  unfolding phase_def
  by (intro owp_bind owp_mono [OF assms(2)] owp_if keep_Revoke assms(3)) (use assms(1) in auto)

lemma I_statics [simp]:
  "I (SetConfigModeAvailability b s) = I s" "I (drop_cond_var s) = I s" "I (dequeue s) = I s"
  by (simp_all add: SetConfigModeAvailability_def drop_cond_var_def dequeue_def)

lemma I_HandleConfigRelease: "I s \<Longrightarrow> I (HandleConfigRelease s)"
  by (auto simp: HandleConfigRelease_def signal_def SetConfigModeAvailability_def quiet_event_def Let_def
      split: option.split intro!: log [of s])

lemma keep_finish: "I s \<Longrightarrow> owp (config_finish env s) (\<lambda>r. I)"
  unfolding config_finish_def Let_def
  by (intro keep_phase keep_Execute keep_SendResponse)
    (auto simp: Config_vt_def Config_TcCreateMsgList_def I_HandleConfigRelease intro: keep_ReleaseExclusion)

lemma keep_acquire_now: "I s \<Longrightarrow> owp (acquire_now env s) (\<lambda>r. I)"
  unfolding acquire_now_def by (intro owp_rules owp_mono [OF keep_GetExclusion]) auto

lemma keep_HandleTimed: "I s \<Longrightarrow> owp (HandleTimedConfigAcquisition env s) (\<lambda>r. I)"
  unfolding HandleTimedConfigAcquisition_def wait_complete_def Let_def
  by (intro owp_rules owp_mono [OF keep_acquire_now]) (auto intro: others)

lemma I_timeout: "I s \<Longrightarrow> I (s\<lparr>op_hist := op_hist s @ [EvTimeout]\<rparr>)"
  by (rule log [where new = "[EvTimeout]"]) (simp_all add: quiet_event_def)

lemma keep_Dispatch: "I s \<Longrightarrow> owp (Config_Dispatch env s) (\<lambda>r. I)"
  unfolding Config_Dispatch_def Let_def
  by (intro keep_phase keep_HandleArgs owp_if owp_bind owp_mono [OF keep_HandleTimed] keep_Revoke keep_finish)
    (auto simp: Config_vt_def intro: keep_GetExclusion I_timeout)

lemma keep_release_config_for:
  assumes "I s"
  shows "owp (release_config_for env a b s) (\<lambda>r s'. I s' \<and> op_phase s' = op_phase s \<and> op_oper s' = op_oper s \<and>
    op_session_id s' = op_session_id s \<and> op_ssess s' = op_ssess s)"
  unfolding release_config_for_def
  by (intro owp_bind owp_mono [OF keep_Dispatch] owp_Some) (use assms in \<open>auto simp: TcOperations_new_def intro: frame\<close>)

end

section \<open>No database statements\<close>

text \<open>Since \<open>h\<close> only statements of \<open>S\<close> were issued.\<close>

definition logged :: "string set \<Rightarrow> history \<Rightarrow> opst \<Rightarrow> bool" where
  "logged S h s \<longleftrightarrow> (\<exists>new. op_hist s = h @ new \<and> list_all (\<lambda>e. quiet_event e \<or> db_event S e) new)"

lemma logged_start [simp]: "logged S (op_hist s) s"
  by (simp add: logged_def)

lemma logged_more:
  "logged S h s \<Longrightarrow> op_hist s' = op_hist s @ new \<Longrightarrow> list_all (\<lambda>e. quiet_event e \<or> db_event S e) new \<Longrightarrow> logged S h s'"
  by (auto simp: logged_def)

lemma logged_trace: "logged S h s \<Longrightarrow> trace (\<lambda>e. quiet_event e \<or> db_event S e) s s' \<Longrightarrow> logged S h s'"
  by (auto simp: trace_def intro: logged_more)

lemma interfere_hist [simp]: "op_hist (interfere env s) = op_hist s @ [EvLock]"
  by (simp add: interfere_def split: prod.splits)

interpretation log: config_invariant env "logged S h"
proof
  fix s s' :: opst
  fix new
  assume "logged S h s" "op_hist s' = op_hist s @ new" "list_all quiet_event new"
  then show "logged S h s'" by (auto elim: logged_more intro: list.pred_mono_strong)
next
  fix s
  show "logged S h s \<Longrightarrow> logged S h (interfere env s)"
    by (rule logged_more [where new = "[EvLock]"]) (simp_all add: quiet_event_def)
qed (simp add: logged_def)

text \<open>
  An invariant of all methods of an operation holds after \<open>Dispatch\<close>, with what the answer adds
  to it.
\<close>

lemma Dispatch_invariant:
  assumes "P s" "\<And>s ph. P (s\<lparr>op_phase := ph\<rparr>) = P s"
    "\<And>s. P s \<Longrightarrow> owp (vt_HandleArgs vt s) (\<lambda>r. P)" "\<And>s. P s \<Longrightarrow> owp (vt_TcGetExclusion vt s) (\<lambda>r. P)"
    "\<And>s. P s \<Longrightarrow> owp (vt_TcCreateMsgList vt s) (\<lambda>r. P)" "\<And>s. P s \<Longrightarrow> owp (vt_Execute vt s) (\<lambda>r. P)"
    "\<And>s. P s \<Longrightarrow> owp (vt_TcReleaseExclusion vt s) (\<lambda>r. P)"
    "\<And>st s. P s \<Longrightarrow> owp (vt_SendResponse vt st s) Q" "\<And>s. P s \<Longrightarrow> Q TC_OPER_FAILURE s"
  shows "owp (Dispatch vt s) Q"
proof -
  have revoke: "owp (RevokeOperation vt st s) Q" if "P s" for st s
    unfolding RevokeOperation_def
    by (cases "op_phase s"; simp add: assms(8,9) that) (intro owp_rules owp_mono [OF assms(7)] assms(8) that; assumption)+
  have ph: "owp (phase vt ph f k s) Q"
    if "P s" "\<And>s. P s \<Longrightarrow> owp (f s) (\<lambda>r. P)" "\<And>s. P s \<Longrightarrow> owp (k s) Q" for ph f k s
    unfolding phase_def
    by (intro owp_bind owp_mono [OF that(2)] owp_if revoke that(3)) (use that(1) in \<open>auto simp: assms(2)\<close>)
  show ?thesis unfolding Dispatch_def by (intro ph assms(3-8) assms(1))
qed

end
