(* ===== verification/TC_OperLock.thy ===== *)
theory TC_OperLock
  imports TC_ConfigFrame
begin

text \<open>
  The write lock around an operation: an operation that was granted the lock gives it back on every
  path through \<open>Dispatch\<close>, whatever fails in between.

  The other threads are free except in one point: they neither take the write lock away from the
  session nor take it in its name (\<open>others_keep\<close>). That the lock guarantees this for every
  interleaving of its methods is \<open>write_ends_by_owner\<close> of \<open>TC_LockProps\<close>.
\<close>

section \<open>The interface\<close>

text \<open>
  \<open>start\<close> is the state in which a request arrives, \<open>asked\<close> holds after its arguments were read,
  \<open>locked\<close> while the operation has the lock and \<open>free\<close> while it has not.
\<close>

locale exclusive_operation = operation vt for vt :: oper_vt +
  fixes start free asked locked :: "opst \<Rightarrow> bool"
  assumes args: "start s \<Longrightarrow> owp (vt_HandleArgs vt (s\<lparr>op_phase := INPUT_VALIDATION\<rparr>))
      (\<lambda>r s'. free s' \<and> op_phase s' = INPUT_VALIDATION \<and> (r = TC_OPER_SUCCESS \<longrightarrow> asked s'))"
    and get: "free s \<Longrightarrow> asked s \<Longrightarrow> owp (vt_TcGetExclusion vt (s\<lparr>op_phase := GET_EXCLUSION_PHASE\<rparr>))
      (\<lambda>r s'. if r = TC_OPER_SUCCESS then locked s' else free s' \<and> op_phase s' = GET_EXCLUSION_PHASE)"
    and create: "locked s \<Longrightarrow> owp (vt_TcCreateMsgList vt (s\<lparr>op_phase := CREATE_MSG_LIST\<rparr>))
      (\<lambda>r s'. locked s' \<and> op_phase s' = CREATE_MSG_LIST)"
    and execute: "locked s \<Longrightarrow> owp (vt_Execute vt (s\<lparr>op_phase := EXECUTE_PHASE\<rparr>))
      (\<lambda>r s'. locked s' \<and> op_phase s' = EXECUTE_PHASE)"
    and release: "locked s \<Longrightarrow> owp (vt_TcReleaseExclusion vt (s\<lparr>op_phase := ph\<rparr>))
      (\<lambda>r s'. free s' \<and> op_phase s' = ph)"
    and respond: "free s \<Longrightarrow> owp (vt_SendResponse vt st s) (\<lambda>r s'. free s')"
begin

lemma release_here: "locked s \<Longrightarrow> owp (vt_TcReleaseExclusion vt s) (\<lambda>r s'. free s')"
  using release [of s "op_phase s"] by (auto simp: owp_def)

lemma revoke_locked:
  assumes "locked s" "op_phase s = CREATE_MSG_LIST \<or> op_phase s = EXECUTE_PHASE"
  shows "owp (RevokeOperation vt st s) (\<lambda>r s'. free s')"
proof -
  have "owp (vt_TcReleaseExclusion vt s \<bind>
      (\<lambda>(r, s1). vt_SendResponse vt (if r = TC_OPER_SUCCESS then st else TC_SYSTEM_FAILURE) s1)) (\<lambda>r s'. free s')"
    by (intro owp_bind owp_mono [OF release_here [OF assms(1)]] respond)
  with assms(2) show ?thesis by (auto simp: RevokeOperation_def)
qed

lemma revoke_free:
  "free s \<Longrightarrow> op_phase s \<in> {INPUT_VALIDATION, GET_EXCLUSION_PHASE, RELEASE_EXCLUSION_PHASE} \<Longrightarrow>
   owp (RevokeOperation vt st s) (\<lambda>r s'. free s')"
  by (auto simp: RevokeOperation_def intro: respond)

text \<open>From the acquisition of the lock on.\<close>

lemma exclusive_part:
  assumes "free s" "asked s"
  shows "owp (phase vt GET_EXCLUSION_PHASE (vt_TcGetExclusion vt)
      (phase vt CREATE_MSG_LIST (vt_TcCreateMsgList vt)
      (phase vt EXECUTE_PHASE (vt_Execute vt)
      (phase vt RELEASE_EXCLUSION_PHASE (vt_TcReleaseExclusion vt)
         (vt_SendResponse vt TC_OPER_SUCCESS)))) s) (\<lambda>r s'. free s')"
  unfolding phase_def
  by (intro owp_bind owp_if owp_mono [OF get [OF assms]] owp_mono [OF create] owp_mono [OF execute]
      owp_mono [OF release] respond revoke_locked revoke_free) (auto split: if_splits)

lemma dispatch_frees: "start s \<Longrightarrow> owp (Dispatch vt s) (\<lambda>r s'. free s')"
  unfolding Dispatch_def phase_def [of vt INPUT_VALIDATION]
  by (intro owp_bind owp_mono [OF args] owp_if revoke_free exclusive_part) auto

end

section \<open>The write lock of a session\<close>

definition holding :: "u32 \<Rightarrow> TcLock \<Rightarrow> TcWriteOperation set" where
  "holding sid l = {w. holds_write sid w l}"

definition others_keep :: "tc_env \<Rightarrow> u32 \<Rightarrow> bool" where
  "others_keep env sid \<longleftrightarrow> (\<forall>h l st. holding sid (fst (te_others env h (l, st))) = holding sid l)"

definition hold_is :: "tc_env \<Rightarrow> u32 \<Rightarrow> TcWriteOperation set \<Rightarrow> opst \<Rightarrow> bool" where
  "hold_is env sid W s \<longleftrightarrow> others_keep env sid \<and> holding sid (op_lock s) = W"

lemma hold_is_frame [simp]:
  "hold_is env sid W (s\<lparr>op_hist := h\<rparr>) = hold_is env sid W s"
  "hold_is env sid W (s\<lparr>op_phase := ph\<rparr>) = hold_is env sid W s"
  "hold_is env sid W (s\<lparr>op_ssess := ss\<rparr>) = hold_is env sid W s"
  "hold_is env sid W (s\<lparr>op_oper := oper\<rparr>) = hold_is env sid W s"
  "hold_is env sid W (s\<lparr>op_session_id := sid'\<rparr>) = hold_is env sid W s"
  "hold_is env sid W (s\<lparr>op_config_id := cid\<rparr>) = hold_is env sid W s"
  "hold_is env sid W (s\<lparr>op_stat := st\<rparr>) = hold_is env sid W s"
  "hold_is env sid W (s\<lparr>op_msgs := ms\<rparr>) = hold_is env sid W s"
  "hold_is env sid W (s\<lparr>op_timeout := t\<rparr>) = hold_is env sid W s"
  "hold_is env sid W (s\<lparr>op_cond_var := b\<rparr>) = hold_is env sid W s"
  "hold_is env sid W (s\<lparr>op_audit_db_fail := b\<rparr>) = hold_is env sid W s"
  "hold_is env sid W (s\<lparr>op_autosave := b\<rparr>) = hold_is env sid W s"
  by (simp_all add: hold_is_def)

lemma hold_is_interfere [simp]: "hold_is env sid W s \<Longrightarrow> hold_is env sid W (interfere env s)"
  by (auto simp: hold_is_def others_keep_def interfere_def split: prod.splits) (metis fst_conv)+

lemma holding_rwlock: "tc_rwlock l' = tc_rwlock l \<Longrightarrow> holding sid l' = holding sid l"
  by (simp add: holding_def holds_write_def)

lemma interfere_frame [simp]:
  "op_session_id (interfere env s) = op_session_id s" "op_oper (interfere env s) = op_oper s"
  "op_phase (interfere env s) = op_phase s" "op_config_id (interfere env s) = op_config_id s"
  "op_ssess (interfere env s) = op_ssess s" "op_api_audit (interfere env s) = op_api_audit s"
  by (simp_all add: interfere_def split: prod.splits)

section \<open>Steps on the lock\<close>

lemma holding_ReleaseLock_write:
  "holds_write sid w l \<Longrightarrow> holding sid (snd (ReleaseLock sid k TC_RELEASE_WRITE_SESSION w l)) = {}"
  by (simp add: ReleaseLock_def ReleaseWriteLock_eq holding_def holds_write_def isWriteHeld_by_def drop_write_free)

lemma GetLock_write:
  assumes "GetLock e sid TC_ACQUIRE_WRITE_SESSION w l = Some (r, l')" "w \<noteq> TC_AUDIT_DRIVER"
  shows "if r = TC_LOCK_SUCCESS then holding sid l' = {w} else l' = l"
  using assms by (auto simp: GetLock_def AcquireWriteLock_def AcquireWriteLockForCommit_def
      AcquireWriteLockForAbortCandidateConfig_def AcquireWriteLockForAuditUser_def
      AcquireWriteLockForSaveStartupConfig_def AcquireWriteLockForClearStartupConfig_def try_write_def
      tryLock_write_def holding_def holds_write_def isWriteHeld_by_def setWriter_held Let_def
      split: if_splits TcWriteOperation.splits)

text \<open>What a step on the lock leaves alone.\<close>

definition lock_frame :: "opst \<Rightarrow> opst \<Rightarrow> bool" where
  "lock_frame s s' \<longleftrightarrow>
     op_session_id s' = op_session_id s \<and> op_oper s' = op_oper s \<and> op_phase s' = op_phase s \<and>
     op_config_id s' = op_config_id s \<and> op_ssess s' = op_ssess s \<and> op_api_audit s' = op_api_audit s"

lemma hold_lock_step:
  assumes "hold_is env sid W s" "\<And>l. holding sid l = W \<Longrightarrow> holding sid (snd (f l)) = W'"
  shows "owp (op_lock_step env f s) (\<lambda>r s'. hold_is env sid W' s' \<and> lock_frame s s')"
proof -
  have "hold_is env sid W (interfere env s)" using assms(1) by simp
  with assms(2) [of "op_lock (interfere env s)"] show ?thesis
    by (cases "f (op_lock (interfere env s))") (simp add: op_lock_step_def hold_is_def lock_frame_def)
qed

lemma hold_GetLock:
  assumes "hold_is env sid {} s" "w \<noteq> TC_AUDIT_DRIVER"
  shows "owp (op_GetLock env sid TC_ACQUIRE_WRITE_SESSION w s)
    (\<lambda>r s'. hold_is env sid (if r = TC_LOCK_SUCCESS then {w} else {}) s' \<and> lock_frame s s')"
proof -
  have "hold_is env sid {} (interfere env s)" using assms(1) by simp
  then show ?thesis using assms(2)
    by (auto simp: op_GetLock_def hold_is_def lock_frame_def owp_def Let_def bind_eq_Some_conv dest!: GetLock_write
        split: if_splits)
qed

section \<open>Reading the arguments\<close>

text \<open>
  A request in the name of session \<open>sid\<close>, if it names a session at all; the session does not hold
  the write lock.
\<close>

definition requests :: "tc_env \<Rightarrow> u32 \<Rightarrow> opst \<Rightarrow> bool" where
  "requests env sid s \<longleftrightarrow>
     hold_is env sid {} s \<and> op_ssess s \<noteq> None \<and>
     snd (srv_get_uint32 (op_ssess s) TC_REQ_SESSION_ID_INDEX) \<in> {None, Some sid} \<and> \<not> op_api_audit s"

definition reading :: "tc_env \<Rightarrow> u32 \<Rightarrow> opst \<Rightarrow> bool" where
  "reading env sid s \<longleftrightarrow> requests env sid s \<and> op_phase s = INPUT_VALIDATION"

lemma requests_ssess: "requests env sid s \<Longrightarrow> op_ssess s \<noteq> None"
  by (simp add: requests_def)

lemma reading_frame [simp]:
  "reading env sid (s\<lparr>op_hist := h\<rparr>) = reading env sid s"
  "reading env sid (s\<lparr>op_session_id := sid'\<rparr>) = reading env sid s"
  "reading env sid (s\<lparr>op_config_id := cid\<rparr>) = reading env sid s"
  "reading env sid (snd (GetOperType s)) = reading env sid s"
  by (simp_all add: reading_def requests_def hold_is_def)

lemma srv_get_uint32_None: "srv_get_uint32 ss i = (r, None) \<Longrightarrow> util_status r \<noteq> TC_OPER_SUCCESS"
  by (auto simp: srv_get_uint32_def util_status_def Let_def split: option.splits if_splits ipc_val.splits)

lemma reading_GetSessionId:
  "reading env sid s \<Longrightarrow> reading env sid (snd (GetSessionId s)) \<and>
     (fst (GetSessionId s) = TC_OPER_SUCCESS \<longrightarrow> op_session_id (snd (GetSessionId s)) = sid)"
  by (cases "srv_get_uint32 (op_ssess s) TC_REQ_SESSION_ID_INDEX")
    (auto simp: GetSessionId_def reading_def requests_def dest: srv_get_uint32_None split: option.splits)

lemma reading_interfere: "reading env sid s \<Longrightarrow> reading env sid (interfere env s)"
  by (auto simp: reading_def requests_def)

lemma reading_free: "reading env sid s \<Longrightarrow> hold_is env sid {} s \<and> op_phase s = INPUT_VALIDATION"
  by (simp add: reading_def requests_def)

section \<open>The answer\<close>

lemma UpdateRecovery_owp: "owp (op_UpdateRecoveryTable env db oper f s) (\<lambda>r s'. same_request s s')"
  by (auto simp: owp_def trace_def dest: op_UpdateRecoveryTable_trace(1))

text \<open>The answer is written and the database updated without using the lock.\<close>

lemma same_requestD: "same_request s s' \<Longrightarrow> op_lock s' = op_lock s"
  by (simp add: same_request_def)

lemma answered_lock: "answered s s' \<Longrightarrow> op_lock s' = op_lock s"
  by (simp add: answered_def)

lemmas set_response_lock = set_response_answered [THEN answered_lock] op_forward_answered [THEN answered_lock]

lemma op_run_msg_same: "owp (op_run_msg env m s) (\<lambda>r s'. same_request s s')"
  by (rule owp_mono [OF op_run_msg_owp]) (simp add: trace_def)

lemma SendResponse_lock:
  assumes "\<And>st s. owp (additional st s) (\<lambda>r s'. op_lock s' = op_lock s)"
  shows "owp (SendResponse env additional st s) (\<lambda>r s'. op_lock s' = op_lock s)"
  unfolding SendResponse_def Let_def
  by (intro owp_rules owp_mono [OF assms]) (auto dest!: set_response_lock)

lemma Cand_respond_lock: "owp (Cand_respond env st s) (\<lambda>r s'. op_lock s' = op_lock s)"
  unfolding Cand_respond_def Let_def
  by (intro owp_rules owp_mono [OF UpdateRecovery_owp])
    (auto dest!: set_response_lock same_requestD split: option.splits)

lemma Cand_SendResponse_lock: "owp (Cand_SendResponse env st s) (\<lambda>r s'. op_lock s' = op_lock s)"
  unfolding Cand_SendResponse_def Let_def
  by (intro owp_rules owp_mono [OF Cand_respond_lock]) (auto dest!: set_response_lock)

lemma Db_SendResponse_lock:
  "owp (SendResponse env (Db_SendAdditionalResponse env) st s) (\<lambda>r s'. op_lock s' = op_lock s)"
  by (rule SendResponse_lock, unfold Db_SendAdditionalResponse_def)
    (intro owp_rules owp_mono [OF UpdateRecovery_owp]; simp add: same_request_def)

lemma Audit_SendResponse_lock:
  "owp (SendResponse env (Audit_SendAdditionalResponse env) st s) (\<lambda>r s'. op_lock s' = op_lock s)"
  by (rule SendResponse_lock, unfold Audit_SendAdditionalResponse_def Let_def)
    (intro owp_rules; auto dest!: set_response_lock)

section \<open>Requests for the configuration session do not touch the write lock\<close>

interpretation hold: config_invariant env "hold_is env sid W"
proof
  fix s s' new
  show "hold_is env sid W s \<Longrightarrow> op_lock s' = op_lock s \<Longrightarrow> op_hist s' = op_hist s @ new \<Longrightarrow>
      list_all quiet_event new \<Longrightarrow> hold_is env sid W s'"
    by (simp add: hold_is_def)
  show "hold_is env sid W s \<Longrightarrow> tc_rwlock l' = tc_rwlock (op_lock s) \<Longrightarrow> hold_is env sid W (s\<lparr>op_lock := l'\<rparr>)" for l'
    using holding_rwlock [of l' "op_lock s" sid] by (simp add: hold_is_def)
qed simp

section \<open>Commit and abort of the candidate\<close>

definition write_locked :: "(u32 \<Rightarrow> TcWriteOperation) \<Rightarrow> tc_env \<Rightarrow> u32 \<Rightarrow> opst \<Rightarrow> bool" where
  "write_locked wop env sid s \<longleftrightarrow> op_session_id s = sid \<and> hold_is env sid {wop (op_oper s)} s"

lemma write_locked_phase [simp]: "write_locked wop env sid (s\<lparr>op_phase := ph\<rparr>) = write_locked wop env sid s"
  by (simp add: write_locked_def)

lemma write_locked_same:
  "write_locked wop env sid s \<Longrightarrow> same_request s s' \<Longrightarrow> write_locked wop env sid s' \<and> op_phase s' = op_phase s"
  by (simp add: write_locked_def hold_is_def same_request_def)

lemma write_locked_get:
  assumes "hold_is env sid {} s" "op_session_id s = sid" "wop (op_oper s) \<noteq> TC_AUDIT_DRIVER"
  shows "owp (op_GetLock env (op_session_id s) TC_ACQUIRE_WRITE_SESSION (wop (op_oper s)) s)
    (\<lambda>r s'. lock_frame s s' \<and> (if r = TC_LOCK_SUCCESS then write_locked wop env sid s' else hold_is env sid {} s'))"
  unfolding assms(2)
  by (rule owp_mono [OF hold_GetLock [OF assms(1,3)]]) (use assms(2) in \<open>auto simp: write_locked_def lock_frame_def split: if_splits\<close>)

lemma write_locked_release:
  assumes "write_locked wop env sid s"
  shows "owp (op_lock_step env (ReleaseLock (op_session_id s) k TC_RELEASE_WRITE_SESSION (wop (op_oper s))) s)
    (\<lambda>r s'. hold_is env sid {} s' \<and> lock_frame s s')"
proof (rule hold_lock_step)
  show "hold_is env sid {wop (op_oper s)} s" using assms by (simp add: write_locked_def)
  fix l
  assume "holding sid l = {wop (op_oper s)}"
  then have "holds_write sid (wop (op_oper s)) l" by (auto simp: holding_def)
  with assms show "holding sid (snd (ReleaseLock (op_session_id s) k TC_RELEASE_WRITE_SESSION (wop (op_oper s)) l)) = {}"
    by (simp add: write_locked_def holding_ReleaseLock_write)
qed

definition cand_wop :: "u32 \<Rightarrow> TcWriteOperation" where
  "cand_wop oper = (if oper = TC_OP_CANDIDATE_COMMIT then TC_COMMIT else TC_ABORT_CANDIDATE_CONFIG)"

lemma Cand_wop: "Cand_wop s = cand_wop (op_oper s)" "cand_wop oper \<noteq> TC_AUDIT_DRIVER"
  by (simp_all add: Cand_wop_def cand_wop_def)

lemma Cand_HandleArgs_reads:
  assumes "requests env sid s" "op_phase s = INPUT_VALIDATION"
  shows "owp (vt_HandleArgs (Cand_vt env) s)
    (\<lambda>r s'. reading env sid s' \<and> (r = TC_OPER_SUCCESS \<longrightarrow> op_session_id s' = sid))"
  unfolding Cand_vt_def oper_vt.simps
proof (rule HandleArgs_owp)
  fix s
  assume "reading env sid s" "op_session_id s = sid"
  then show "owp (Cand_TcValidateOperType env s) (\<lambda>r s'. reading env sid s' \<and> op_session_id s' = sid)"
    "owp (Cand_TcValidateOperParams env s) (\<lambda>r s'. reading env sid s' \<and> op_session_id s' = sid)"
    unfolding Cand_TcValidateOperType_def Cand_TcValidateOperParams_def op_GetConfigIdSessionId_def Let_def
    by (intro owp_rules; auto intro!: reading_interfere)+
qed (use assms reading_GetSessionId in
    \<open>auto simp: requests_ssess reading_def [of _ _ s] Cand_TcCheckOperArgCount_def dest: requests_ssess\<close>)

lemma abort_candidate_loop_trace: "owp (abort_candidate_loop env opers s) (\<lambda>r s'. trace transport_event s s')"
proof (induction opers arbitrary: s)
  case (Cons oper opers)
  have ih: "owp (abort_candidate_loop env opers s1) (\<lambda>r s'. trace transport_event s s')"
    if "trace transport_event s s1" for s1
    by (rule owp_mono [OF Cons.IH trace_trans [OF that]])
  show ?case
    unfolding abort_candidate_loop.simps
    by (intro owp_rules owp_mono [OF op_run_msg_owp] ih) simp_all
qed simp

lemma abort_candidate_loop_same: "owp (abort_candidate_loop env opers s) (\<lambda>r s'. same_request s s')"
  by (rule owp_mono [OF abort_candidate_loop_trace]) (simp add: trace_def)

lemma same_request_refl [simp]: "same_request s s"
  by (simp add: same_request_def)

lemma same_request_trans: "same_request s s1 \<Longrightarrow> same_request s1 s2 \<Longrightarrow> same_request s s2"
  by (simp add: same_request_def)

lemma steps_same:
  assumes "\<And>p s. p \<in> set ps \<Longrightarrow> owp (p s) (\<lambda>r s'. same_request s s')" "\<And>s. owp (k s) (\<lambda>r s'. same_request s s')"
  shows "owp (steps ps k s) (\<lambda>r s'. same_request s s')"
  using assms(1)
proof (induction ps arbitrary: s)
  case (Cons p ps)
  have "owp (steps ps k s1) (\<lambda>r s'. same_request s s')" if "same_request s s1" for s1
    by (rule owp_mono [OF Cons.IH]) (use Cons.prems that in \<open>auto elim: same_request_trans\<close>)
  then show ?case
    unfolding steps.simps
    by (intro owp_rules owp_mono [OF Cons.prems]) auto
qed (simp add: assms(2))

lemma commit_steps_same:
  "owp (TransStartMsg env s) (\<lambda>r s'. same_request s s')" "owp (TransVoteMsg env s) (\<lambda>r s'. same_request s s')"
  "owp (TransEndMsg env s) (\<lambda>r s'. same_request s s')" "owp (TransGlobalCommitMsg env s) (\<lambda>r s'. same_request s s')"
  using TransStartMsg_run [of env] TransVoteMsg_run [of env] TransEndMsg_run [of env]
  by (auto simp: owp_def step_run_def trace_def dest!: TransGlobalCommitMsg_run dest: same_request_trans)

lemma Cand_Execute_same: "owp (Cand_Execute env s) (\<lambda>r s'. same_request s s')"
proof -
  have "owp (abort_candidate_loop env (op_msgs s1) s1) (\<lambda>r s'. same_request s s')" if "same_request s s1" for s1
    by (rule owp_mono [OF abort_candidate_loop_same same_request_trans [OF that]])
  then show ?thesis
    unfolding Cand_Execute_def
    by (intro owp_rules steps_same owp_mono [OF UpdateRecovery_owp]) (auto simp: commit_steps_same)
qed

lemma Cand_release_frees:
  assumes "write_locked cand_wop env sid s"
  shows "owp (Cand_TcReleaseExclusion env s) (\<lambda>r s'. hold_is env sid {} s' \<and> op_phase s' = op_phase s)"
proof -
  have marked: "owp (op_lock_step env (\<lambda>l. (GetMarkedSessionId l, l)) s1)
      (\<lambda>r s'. hold_is env sid {} s' \<and> lock_frame s1 s')" if "hold_is env sid {} s1" for s1
    by (rule hold_lock_step [OF that]) simp
  show ?thesis
    unfolding Cand_TcReleaseExclusion_def Cand_wop
    by (intro owp_rules owp_mono [OF write_locked_release [OF assms]] owp_mono [OF marked]
        owp_mono [OF hold.keep_release_config_for [where sid = sid and W = "{}"]])
      (auto simp: lock_frame_def)
qed

interpretation cand: exclusive_operation "Cand_vt env" "requests env sid"
  "hold_is env sid {}" "\<lambda>s. op_session_id s = sid" "write_locked cand_wop env sid"
proof
  fix s ph st
  show "requests env sid s \<Longrightarrow> owp (vt_HandleArgs (Cand_vt env) (s\<lparr>op_phase := INPUT_VALIDATION\<rparr>))
      (\<lambda>r s'. hold_is env sid {} s' \<and> op_phase s' = INPUT_VALIDATION \<and>
        (r = TC_OPER_SUCCESS \<longrightarrow> op_session_id s' = sid))"
    by (rule owp_mono [OF Cand_HandleArgs_reads [where sid = sid]])
      (auto simp: requests_def dest: reading_free)
  show "hold_is env sid {} s \<Longrightarrow> op_session_id s = sid \<Longrightarrow>
      owp (vt_TcGetExclusion (Cand_vt env) (s\<lparr>op_phase := GET_EXCLUSION_PHASE\<rparr>))
       (\<lambda>r s'. if r = TC_OPER_SUCCESS then write_locked cand_wop env sid s'
               else hold_is env sid {} s' \<and> op_phase s' = GET_EXCLUSION_PHASE)"
    unfolding Cand_vt_def oper_vt.simps Cand_TcGetExclusion_def Cand_wop
    by (intro owp_bind owp_mono [OF write_locked_get [where sid = sid]])
      (auto simp: Cand_wop lock_frame_def Cand_HandleLockRet_def split: if_splits TcLockRet.splits)
  show "write_locked cand_wop env sid s \<Longrightarrow>
      owp (vt_TcCreateMsgList (Cand_vt env) (s\<lparr>op_phase := CREATE_MSG_LIST\<rparr>))
       (\<lambda>r s'. write_locked cand_wop env sid s' \<and> op_phase s' = CREATE_MSG_LIST)"
    by (auto simp: Cand_vt_def Cand_TcCreateMsgList_def Let_def op_db_def write_locked_def split: prod.splits)
  show "write_locked cand_wop env sid s \<Longrightarrow>
      owp (vt_Execute (Cand_vt env) (s\<lparr>op_phase := EXECUTE_PHASE\<rparr>))
       (\<lambda>r s'. write_locked cand_wop env sid s' \<and> op_phase s' = EXECUTE_PHASE)"
    unfolding Cand_vt_def oper_vt.simps
    by (rule owp_mono [OF Cand_Execute_same]) (auto dest!: write_locked_same [rotated])
  show "write_locked cand_wop env sid s \<Longrightarrow>
      owp (vt_TcReleaseExclusion (Cand_vt env) (s\<lparr>op_phase := ph\<rparr>))
       (\<lambda>r s'. hold_is env sid {} s' \<and> op_phase s' = ph)"
    unfolding Cand_vt_def oper_vt.simps
    by (rule owp_mono [OF Cand_release_frees [where sid = sid]]) auto
  show "hold_is env sid {} s \<Longrightarrow> owp (vt_SendResponse (Cand_vt env) st s) (\<lambda>r s'. hold_is env sid {} s')"
    unfolding Cand_vt_def oper_vt.simps
    by (rule owp_mono [OF Cand_SendResponse_lock]) (auto simp: hold_is_def)
qed

section \<open>Saving and clearing the startup configuration\<close>

definition db_wop :: "u32 \<Rightarrow> TcWriteOperation" where
  "db_wop oper = (if oper = TC_OP_RUNNING_SAVE then TC_SAVE_STARTUP_CONFIG else TC_CLEAR_STARTUP_CONFIG)"

lemma Db_wop: "Db_wop s = db_wop (op_oper s)" "db_wop oper \<noteq> TC_AUDIT_DRIVER"
  by (simp_all add: Db_wop_def db_wop_def)

lemma Db_HandleArgs_reads:
  assumes "requests env sid s" "op_phase s = INPUT_VALIDATION"
  shows "owp (vt_HandleArgs (Db_vt env) s)
    (\<lambda>r s'. reading env sid s' \<and> (r = TC_OPER_SUCCESS \<longrightarrow> op_session_id s' = sid))"
  unfolding Db_vt_def oper_vt.simps
proof (rule HandleArgs_owp)
  fix s
  assume "reading env sid s" "op_session_id s = sid"
  then show "owp (Db_TcValidateOperType env s) (\<lambda>r s'. reading env sid s' \<and> op_session_id s' = sid)"
    unfolding Db_TcValidateOperType_def op_set_srv_timeout_def Let_def by (intro owp_rules; auto)
qed (use assms reading_GetSessionId in
    \<open>auto simp: requests_ssess reading_def [of _ _ s] Db_TcCheckOperArgCount_def dest: requests_ssess\<close>)

definition locked_in :: "TcOperEnum \<Rightarrow> (u32 \<Rightarrow> TcWriteOperation) \<Rightarrow> tc_env \<Rightarrow> u32 \<Rightarrow> opst \<Rightarrow> bool" where
  "locked_in ph wop env sid s \<longleftrightarrow> write_locked wop env sid s \<and> op_phase s = ph"

lemma locked_in_same: "locked_in ph wop env sid s \<Longrightarrow> same_request s s' \<Longrightarrow> locked_in ph wop env sid s'"
  by (auto simp: locked_in_def dest: write_locked_same)

lemma locked_in_setup:
  assumes "locked_in ph wop env sid s"
  shows "owp (op_lock_step env (\<lambda>l. ((), TcSetSetupComplete True l)) s) (\<lambda>r. locked_in ph wop env sid)"
proof (rule owp_mono [OF hold_lock_step])
  show "hold_is env sid {wop (op_oper s)} s" using assms by (simp add: locked_in_def write_locked_def)
  fix l
  assume "holding sid l = {wop (op_oper s)}"
  then show "holding sid (snd ((), TcSetSetupComplete True l)) = {wop (op_oper s)}"
    by (simp add: TcSetSetupComplete_def holding_def holds_write_def)
qed (use assms in \<open>auto simp: locked_in_def write_locked_def lock_frame_def\<close>)

lemma execute_loop_locked:
  assumes "write_locked wop env sid s" "op_phase s = ph"
    "\<And>oper m s. owp (fill_data oper m s) (\<lambda>r s'. same_request s s')"
  shows "owp (execute_loop env handle_ret fill_data opers s) (\<lambda>r s'. write_locked wop env sid s' \<and> op_phase s' = ph)"
proof -
  have "owp (execute_loop env handle_ret fill_data opers s) (\<lambda>r. locked_in ph wop env sid)"
  proof (rule execute_loop_invariant)
    show "locked_in ph wop env sid s" using assms(1,2) by (simp add: locked_in_def)
    fix s
    assume s: "locked_in ph wop env sid s"
    show "owp (op_lock_step env (\<lambda>l. ((), TcSetSetupComplete True l)) s) (\<lambda>r. locked_in ph wop env sid)"
      by (rule locked_in_setup [OF s])
    show "locked_in ph wop env sid (s\<lparr>op_audit_db_fail := b\<rparr>)" for b
      using s by (simp add: locked_in_def write_locked_def)
    show "owp (op_run_msg env m s) (\<lambda>r. locked_in ph wop env sid)" for m
      by (rule owp_mono [OF op_run_msg_same locked_in_same [OF s]])
    show "owp (fill_data oper m s) (\<lambda>r. locked_in ph wop env sid)" for oper m
      by (rule owp_mono [OF assms(3) locked_in_same [OF s]])
  qed
  then show ?thesis by (rule owp_mono) (simp add: locked_in_def)
qed

interpretation db: exclusive_operation "Db_vt env" "requests env sid"
  "hold_is env sid {}" "\<lambda>s. op_session_id s = sid" "write_locked db_wop env sid"
proof
  fix s ph st
  show "requests env sid s \<Longrightarrow> owp (vt_HandleArgs (Db_vt env) (s\<lparr>op_phase := INPUT_VALIDATION\<rparr>))
      (\<lambda>r s'. hold_is env sid {} s' \<and> op_phase s' = INPUT_VALIDATION \<and>
        (r = TC_OPER_SUCCESS \<longrightarrow> op_session_id s' = sid))"
    by (rule owp_mono [OF Db_HandleArgs_reads [where sid = sid]])
      (auto simp: requests_def dest: reading_free)
  show "hold_is env sid {} s \<Longrightarrow> op_session_id s = sid \<Longrightarrow>
      owp (vt_TcGetExclusion (Db_vt env) (s\<lparr>op_phase := GET_EXCLUSION_PHASE\<rparr>))
       (\<lambda>r s'. if r = TC_OPER_SUCCESS then write_locked db_wop env sid s'
               else hold_is env sid {} s' \<and> op_phase s' = GET_EXCLUSION_PHASE)"
    unfolding Db_vt_def oper_vt.simps Db_TcGetExclusion_def Db_wop
    by (intro owp_bind owp_mono [OF write_locked_get [where sid = sid]])
      (auto simp: Db_wop lock_frame_def Db_HandleLockRet_def split: if_splits TcLockRet.splits)
  show "write_locked db_wop env sid s \<Longrightarrow>
      owp (vt_TcCreateMsgList (Db_vt env) (s\<lparr>op_phase := CREATE_MSG_LIST\<rparr>))
       (\<lambda>r s'. write_locked db_wop env sid s' \<and> op_phase s' = CREATE_MSG_LIST)"
    unfolding Db_vt_def oper_vt.simps Db_TcCreateMsgList_def
    by (intro owp_rules owp_mono [OF UpdateRecovery_owp])
      (auto simp: write_locked_def same_request_def hold_is_def)
  show "write_locked db_wop env sid s \<Longrightarrow>
      owp (vt_Execute (Db_vt env) (s\<lparr>op_phase := EXECUTE_PHASE\<rparr>))
       (\<lambda>r s'. write_locked db_wop env sid s' \<and> op_phase s' = EXECUTE_PHASE)"
    unfolding Db_vt_def oper_vt.simps Execute_def by (intro owp_if execute_loop_locked) auto
  show "write_locked db_wop env sid s \<Longrightarrow>
      owp (vt_TcReleaseExclusion (Db_vt env) (s\<lparr>op_phase := ph\<rparr>))
       (\<lambda>r s'. hold_is env sid {} s' \<and> op_phase s' = ph)"
    unfolding Db_vt_def oper_vt.simps Db_TcReleaseExclusion_def Db_wop
    by (intro owp_bind owp_mono [OF write_locked_release [where sid = sid]]) (auto simp: lock_frame_def)
  show "hold_is env sid {} s \<Longrightarrow> owp (vt_SendResponse (Db_vt env) st s) (\<lambda>r s'. hold_is env sid {} s')"
    unfolding Db_vt_def oper_vt.simps
    by (rule owp_mono [OF Db_SendResponse_lock]) (auto simp: hold_is_def)
qed

section \<open>Audit on behalf of a user\<close>

text \<open>
  The request of a driver that comes with a session is only posted and uses no lock; the request of
  a user takes the write lock for the audit.
\<close>

definition audit_wop :: "u32 \<Rightarrow> TcWriteOperation" where
  "audit_wop oper = (if oper = TC_OP_USER_AUDIT then TC_AUDIT_USER else TC_AUDIT_DRIVER)"

definition audit_asked :: "u32 \<Rightarrow> opst \<Rightarrow> bool" where
  "audit_asked sid s \<longleftrightarrow>
     (op_oper s = TC_OP_USER_AUDIT \<and> op_session_id s = sid \<and> \<not> op_api_audit s) \<or>
     (op_oper s = TC_OP_DRIVER_AUDIT \<and> op_api_audit s)"

definition audit_locked :: "tc_env \<Rightarrow> u32 \<Rightarrow> opst \<Rightarrow> bool" where
  "audit_locked env sid s \<longleftrightarrow>
     (if op_api_audit s then hold_is env sid {} s else write_locked audit_wop env sid s)"

lemma Audit_wop: "Audit_wop s = audit_wop (op_oper s)"
  by (simp add: Audit_wop_def audit_wop_def)

lemma Audit_message_same: "owp (Audit_message env oper s) (\<lambda>r s'. same_request s s')"
  unfolding Audit_message_def by (intro owp_rules op_run_msg_same)

lemma same_request_audit [simp]:
  "same_request s (s'\<lparr>op_user_response := r\<rparr>) = same_request s s'"
  "same_request s (s'\<lparr>op_resp_msg := m\<rparr>) = same_request s s'"
  "same_request s (s'\<lparr>op_driver_id := d\<rparr>) = same_request s s'"
  "same_request s (s'\<lparr>op_trans_result := t\<rparr>) = same_request s s'"
  "same_request s (s'\<lparr>op_audit_result := t\<rparr>) = same_request s s'"
  by (simp_all add: same_request_def)

text \<open>Composition of programs that leave the request alone.\<close>

lemma owp_same_bind:
  assumes "owp x (\<lambda>r s1. same_request s s1)"
    "\<And>r s1. same_request s s1 \<Longrightarrow> owp (f r s1) (\<lambda>r s'. same_request s s')"
  shows "owp (x \<bind> (\<lambda>(r, s). f r s)) (\<lambda>r s'. same_request s s')"
  by (intro owp_bind owp_mono [OF assms(1)] assms(2))

lemma owp_same_from:
  "(\<And>s. owp (p s) (\<lambda>r s'. same_request s s')) \<Longrightarrow> same_request s s1 \<Longrightarrow> owp (p s1) (\<lambda>r s'. same_request s s')"
  by (blast intro: owp_mono same_request_trans)

lemmas same_from = owp_same_from [OF Audit_message_same] owp_same_from [OF UpdateRecovery_owp]

lemma audit_closing_same:
  "owp (AuditEnd env s) (\<lambda>r s'. same_request s s')" "owp (AuditTransEnd env s) (\<lambda>r s'. same_request s s')"
  unfolding AuditEnd_def AuditTransEnd_def audit_closing_def
  by (intro owp_same_bind same_from owp_rules; simp)+

lemmas closing_from = owp_same_from [OF audit_closing_same(1)] owp_same_from [OF audit_closing_same(2)]

lemma audit_steps_same:
  "owp (GetDriverType env s) (\<lambda>r s'. same_request s s')" "owp (AuditStart env s) (\<lambda>r s'. same_request s s')"
  "owp (AuditTransStart env s) (\<lambda>r s'. same_request s s')" "owp (AuditVote env s) (\<lambda>r s'. same_request s s')"
  "owp (AuditGlobalCommit env s) (\<lambda>r s'. same_request s s')" "owp (audit_finish env s) (\<lambda>r s'. same_request s s')"
  unfolding GetDriverType_def AuditStart_def AuditTransStart_def AuditVote_def AuditGlobalCommit_def
    audit_finish_def Let_def
  by (intro owp_same_bind same_from closing_from owp_rules; simp)+

lemma Audit_Execute_same: "owp (Audit_Execute env s) (\<lambda>r s'. same_request s s')"
proof -
  have st: "owp (steps [AuditTransStart env, AuditVote env, AuditGlobalCommit env, AuditTransEnd env]
      (audit_finish env) s) (\<lambda>r s'. same_request s s')" for s
    by (rule steps_same) (auto simp: audit_steps_same audit_closing_same)
  show ?thesis
    unfolding Audit_Execute_def
    by (intro owp_same_bind owp_same_from [OF audit_steps_same(1)] owp_same_from [OF audit_steps_same(2)]
        owp_same_from [OF st] owp_same_from [OF audit_steps_same(6)] owp_rules) simp_all
qed

definition audit_reading :: "tc_env \<Rightarrow> u32 \<Rightarrow> opst \<Rightarrow> bool" where
  "audit_reading env sid s \<longleftrightarrow>
     hold_is env sid {} s \<and> op_phase s = INPUT_VALIDATION \<and>
     snd (srv_get_uint32 (op_ssess s) TC_REQ_SESSION_ID_INDEX) \<in> {None, Some sid}"

lemma audit_reading_frame [simp]:
  "audit_reading env sid (s\<lparr>op_hist := h\<rparr>) = audit_reading env sid s"
  "audit_reading env sid (s\<lparr>op_session_id := sid'\<rparr>) = audit_reading env sid s"
  "audit_reading env sid (s\<lparr>op_controller_id := c\<rparr>) = audit_reading env sid s"
  "audit_reading env sid (s\<lparr>op_driver_id := d\<rparr>) = audit_reading env sid s"
  "audit_reading env sid (s\<lparr>op_force_reconnect := b\<rparr>) = audit_reading env sid s"
  "audit_reading env sid (s\<lparr>op_api_audit := b\<rparr>) = audit_reading env sid s"
  "audit_reading env sid (snd (GetOperType s)) = audit_reading env sid s"
  by (simp_all add: audit_reading_def hold_is_def)

definition audit_session :: "u32 \<Rightarrow> opst \<Rightarrow> bool" where
  "audit_session sid s \<longleftrightarrow>
     \<not> op_api_audit s \<and>
     (op_oper s = TC_OP_DRIVER_AUDIT \<or> op_oper s = TC_OP_USER_AUDIT \<and> op_session_id s = sid)"

lemma Audit_HandleArgs_reads:
  assumes "requests env sid s" "op_phase s = INPUT_VALIDATION"
  shows "owp (vt_HandleArgs (Audit_vt env) s)
    (\<lambda>r s'. audit_reading env sid s' \<and> (r = TC_OPER_SUCCESS \<longrightarrow> audit_asked sid s'))"
proof -
  let ?I = "\<lambda>s. audit_reading env sid s"
  let ?E = "\<lambda>s. ?I s \<and> \<not> op_api_audit s"
  have sid: "?E (snd (Audit_GetSessionId s)) \<and> (fst (Audit_GetSessionId s) = TC_OPER_SUCCESS \<longrightarrow>
      op_oper (snd (Audit_GetSessionId s)) = TC_OP_DRIVER_AUDIT \<or> op_session_id (snd (Audit_GetSessionId s)) = sid)"
    if "?E s" for s
    using that by (cases "srv_get_uint32 (op_ssess s) TC_REQ_SESSION_ID_INDEX")
      (auto simp: Audit_GetSessionId_def audit_reading_def dest: srv_get_uint32_None split: option.splits)
  have driver: "owp (validate_driver_request env s)
      (\<lambda>r s'. ?I s' \<and> (r = TC_OPER_SUCCESS \<longrightarrow> op_oper s' = op_oper s \<and> op_api_audit s'))" if "?I s" for s
    unfolding validate_driver_request_def DispatchAuditDriverRequest_def Let_def
    by (intro owp_rules) (use that in \<open>auto simp: util_status_def srv_get_uint8_def
        split: TcUtilRet.splits option.splits if_splits ipc_val.splits\<close>)
  show ?thesis
    unfolding Audit_vt_def oper_vt.simps
  proof (rule HandleArgs_stages [where I = ?E and K = "audit_session sid"
        and J = "\<lambda>s. op_oper s = TC_OP_DRIVER_AUDIT \<or> op_session_id s = sid"])
    fix s
    assume "?E s"
    with sid [OF this] show "?E (snd (Audit_GetSessionId s)) \<and> (fst (Audit_GetSessionId s) = TC_OPER_SUCCESS \<longrightarrow>
        op_oper (snd (Audit_GetSessionId s)) = TC_OP_DRIVER_AUDIT \<or> op_session_id (snd (Audit_GetSessionId s)) = sid)"
      by simp
  next
    fix s
    assume s: "?E s" "op_oper s = TC_OP_DRIVER_AUDIT \<or> op_session_id s = sid"
    show "owp (Audit_TcValidateOperType env s) (\<lambda>r s'. ?E s' \<and> (r = TC_OPER_SUCCESS \<longrightarrow> audit_session sid s'))"
      unfolding Audit_TcValidateOperType_def Let_def
      by (intro owp_rules) (use s in \<open>auto simp: audit_session_def\<close>)
  next
    fix s
    assume s: "?E s" "audit_session sid s"
    show "owp (Audit_TcValidateOperParams env s) (\<lambda>r s'. ?I s' \<and> (r = TC_OPER_SUCCESS \<longrightarrow> audit_asked sid s'))"
      unfolding Audit_TcValidateOperParams_def Let_def
      by (intro owp_rules owp_mono [OF driver])
        (use s in \<open>auto simp: audit_session_def audit_asked_def split: option.splits\<close>)
  qed (use assms in \<open>auto simp: requests_def audit_reading_def hold_is_def Audit_TcCheckOperArgCount_def\<close>)
qed

interpretation audit: exclusive_operation "Audit_vt env" "requests env sid"
  "hold_is env sid {}" "audit_asked sid" "audit_locked env sid"
proof
  fix s ph st
  show "requests env sid s \<Longrightarrow> owp (vt_HandleArgs (Audit_vt env) (s\<lparr>op_phase := INPUT_VALIDATION\<rparr>))
      (\<lambda>r s'. hold_is env sid {} s' \<and> op_phase s' = INPUT_VALIDATION \<and>
        (r = TC_OPER_SUCCESS \<longrightarrow> audit_asked sid s'))"
    by (rule owp_mono [OF Audit_HandleArgs_reads [where sid = sid]])
      (auto simp: requests_def audit_reading_def)
  show "hold_is env sid {} s \<Longrightarrow> audit_asked sid s \<Longrightarrow>
      owp (vt_TcGetExclusion (Audit_vt env) (s\<lparr>op_phase := GET_EXCLUSION_PHASE\<rparr>))
       (\<lambda>r s'. if r = TC_OPER_SUCCESS then audit_locked env sid s'
               else hold_is env sid {} s' \<and> op_phase s' = GET_EXCLUSION_PHASE)"
    unfolding Audit_vt_def oper_vt.simps Audit_TcGetExclusion_def Audit_wop
    by (intro owp_if owp_bind owp_mono [OF write_locked_get [where sid = sid]])
      (auto simp: audit_asked_def audit_wop_def audit_locked_def lock_frame_def Audit_HandleLockRet_def
        split: if_splits TcLockRet.splits)
  show "audit_locked env sid s \<Longrightarrow>
      owp (vt_TcCreateMsgList (Audit_vt env) (s\<lparr>op_phase := CREATE_MSG_LIST\<rparr>))
       (\<lambda>r s'. audit_locked env sid s' \<and> op_phase s' = CREATE_MSG_LIST)"
    by (simp add: Audit_vt_def audit_locked_def)
  show "audit_locked env sid s \<Longrightarrow>
      owp (vt_Execute (Audit_vt env) (s\<lparr>op_phase := EXECUTE_PHASE\<rparr>))
       (\<lambda>r s'. audit_locked env sid s' \<and> op_phase s' = EXECUTE_PHASE)"
    unfolding Audit_vt_def oper_vt.simps
    by (rule owp_mono [OF Audit_Execute_same])
      (auto simp: audit_locked_def write_locked_def hold_is_def same_request_def)
  show "audit_locked env sid s \<Longrightarrow>
      owp (vt_TcReleaseExclusion (Audit_vt env) (s\<lparr>op_phase := ph\<rparr>))
       (\<lambda>r s'. hold_is env sid {} s' \<and> op_phase s' = ph)"
    unfolding Audit_vt_def oper_vt.simps Audit_TcReleaseExclusion_def Audit_wop
    by (intro owp_if owp_bind owp_mono [OF write_locked_release [where sid = sid]])
      (auto simp: audit_locked_def lock_frame_def)
  show "hold_is env sid {} s \<Longrightarrow> owp (vt_SendResponse (Audit_vt env) st s) (\<lambda>r s'. hold_is env sid {} s')"
    unfolding Audit_vt_def oper_vt.simps
    by (rule owp_mono [OF Audit_SendResponse_lock]) (auto simp: hold_is_def)
qed

section \<open>The write lock is given back\<close>

lemma Db_Dispatch_frees:
  assumes "requests env sid s"
  shows "owp (Db_Dispatch env s) (\<lambda>r s'. hold_is env sid {} s')"
  unfolding Db_Dispatch_def Let_def phase_def [of _ INPUT_VALIDATION]
  by (intro owp_rules owp_mono [OF db.args [OF assms]] db.revoke_free db.exclusive_part db.respond)
    (auto simp: op_db_def split: prod.splits)

end
