(* ===== verification/TC_OperProps.thy ===== *)
theory TC_OperProps
  imports TC_OperLock
begin

text \<open>
  Properties of the operations as the user sees them: what a successful commit means for the daemons,
  when the recovery table is written and cleared, and that the write lock is given back.
\<close>

section \<open>A small system for the witnesses\<close>

definition good_odbc :: odbc_env where
  "good_odbc =
     \<lparr>odbc_ret = \<lambda>_. SQL_SUCCESS, odbc_rows = \<lambda>_. 1, odbc_text = \<lambda>_. Some ''f'',
      odbc_ints = \<lambda>_. (None, None, None)\<rparr>"

definition demo_env :: "ipc_env \<Rightarrow> tc_env" where
  "demo_env ipc =
     \<lparr>te_ipc = ipc, te_odbc = good_odbc, te_others = \<lambda>_ p. p, te_block = \<lambda>_. no_wait,
      te_post = \<lambda>_. 0, te_wait = \<lambda>_. 0, te_alarm = \<lambda>_. True\<rparr>"

definition demo_statics :: TcStatics where
  "demo_statics = \<lparr>config_mode_available = False, config_req_queue = [], state_changed_to_sby = False\<rparr>"

definition demo_request :: "TcLock \<Rightarrow> ipc_val list \<Rightarrow> opst" where
  "demo_request l args =
     TcOperations_new False l demo_statics [] (Some \<lparr>ss_args = args, ss_out = []\<rparr>) demo_channels"

text \<open>The lock of an active coordinator on which session 5 holds the configuration.\<close>

definition demo_config_lock :: TcLock where
  "demo_config_lock = the (lock_run (butlast demo_commit) (TcInitWRLock True TcLock_new))"

definition demo_commit_request :: opst where
  "demo_commit_request = demo_request demo_config_lock [IpcU32 TC_OP_CANDIDATE_COMMIT, IpcU32 5, IpcU32 1]"

lemma demo_others_keep: "others_keep (demo_env ipc) sid"
  by (simp add: others_keep_def demo_env_def)

lemma demo_holding: "holding sid demo_config_lock = {}"
proof -
  have "\<not> isWriteHeld (tc_rwlock demo_config_lock)" by code_simp
  then show ?thesis by (simp add: holding_def holds_write_def isWriteHeld_by_def)
qed

lemma demo_requests: "requests (demo_env ipc) 5 demo_commit_request"
  by (simp add: requests_def hold_is_def demo_others_keep demo_commit_request_def demo_request_def
      TcOperations_new_def demo_holding srv_get_uint32_def)

lemma demo_ssess: "op_ssess demo_commit_request \<noteq> None"
  by (simp add: demo_commit_request_def demo_request_def TcOperations_new_def)

section \<open>The write lock is given back\<close>



section \<open>A successful commit\<close>

lemma unanimous_transport: "unanimous names oper a \<Longrightarrow> list_all transport_event a"
  by (simp add: unanimous_def)

definition finished :: "TcChannelNameMap \<Rightarrow> history \<Rightarrow> bool" where
  "finished names rest \<longleftrightarrow>
     (\<exists>global fin. rest = global @ fin \<and> unanimous names MSG_COMMIT_GLOBAL global \<and>
        unanimous names MSG_COMMIT_TRANS_END fin)"

text \<open>The global commit and the end of the transaction.\<close>

lemma commit_finish:
  assumes "steps [TransGlobalCommitMsg env, TransEndMsg env] (\<lambda>s. Some (TC_OPER_SUCCESS, s)) s = Some (r, s')"
  shows "\<exists>entry rest. op_hist s' = op_hist s @ entry @ rest \<and>
      list_all (db_event (recovery_sql UNC_DT_RUNNING (op_oper s) 0)) entry \<and>
      list_all transport_event rest \<and> (r = TC_OPER_SUCCESS \<longrightarrow> finished (op_channels s) rest)"
proof -
  obtain ok1 s2 where 1: "TransGlobalCommitMsg env s = Some (ok1, s2)"
    using assms by (cases "TransGlobalCommitMsg env s") auto
  from TransGlobalCommitMsg_run [OF 1] obtain s1 where
    t: "trace (db_event (recovery_sql UNC_DT_RUNNING (op_oper s) 0)) s s1" "trace transport_event s1 s2"
      "ok1 \<longrightarrow> (\<exists>new. op_hist s2 = op_hist s1 @ new \<and> unanimous (op_channels s) MSG_COMMIT_GLOBAL new)"
      "\<not> ok1 \<longrightarrow> op_user_response s2 \<noteq> TC_OPER_SUCCESS" by blast
  then obtain entry where
    s1: "op_hist s1 = op_hist s @ entry" "list_all (db_event (recovery_sql UNC_DT_RUNNING (op_oper s) 0)) entry"
    unfolding trace_def by blast
  have names: "op_channels s2 = op_channels s" using t(1,2) by (simp add: trace_def same_request_def)
  show ?thesis
  proof (cases ok1)
    case False
    with assms 1 s1 t show ?thesis by (auto simp: trace_def)
  next
    case True
    then obtain global where g: "op_hist s2 = op_hist s1 @ global" "unanimous (op_channels s) MSG_COMMIT_GLOBAL global"
      using t(3) by blast
    from True assms 1 obtain ok2 s3 where 2: "TransEndMsg env s2 = Some (ok2, s3)"
      by (cases "TransEndMsg env s2") auto
    note t2 = TransEndMsg_run [of env, unfolded step_run_def, rule_format, OF 2]
    from t2 obtain fin where fin: "op_hist s3 = op_hist s2 @ fin" "list_all transport_event fin"
        "ok2 \<longrightarrow> unanimous (op_channels s) MSG_COMMIT_TRANS_END fin"
      unfolding names by (cases ok2) (auto simp: trace_def dest: unanimous_transport)
    from True assms 1 2 t2 have "s' = s3" "r = TC_OPER_SUCCESS \<longrightarrow> ok2"
      by (auto split: if_splits)
    with s1 g fin show ?thesis
      by (intro exI [of _ entry] exI [of _ "global @ fin"]) (auto simp: finished_def dest: unanimous_transport)
  qed
qed

text \<open>
  A commit either stops before the global commit, without having written the recovery table, or
  all daemons have agreed to the start and voted for it.
\<close>

lemma commit_run:
  assumes "Cand_Execute env s = Some (r, s')" "op_oper s = TC_OP_CANDIDATE_COMMIT"
  shows "(r \<noteq> TC_OPER_SUCCESS \<and> trace transport_event s s') \<or>
    (\<exists>start vote entry rest. op_hist s' = op_hist s @ start @ vote @ entry @ rest \<and>
       unanimous (op_channels s) MSG_COMMIT_TRANS_START start \<and> unanimous (op_channels s) MSG_COMMIT_VOTE vote \<and>
       list_all (db_event (recovery_sql UNC_DT_RUNNING TC_OP_CANDIDATE_COMMIT 0)) entry \<and>
       list_all transport_event rest \<and> (r = TC_OPER_SUCCESS \<longrightarrow> finished (op_channels s) rest))"
proof -
  obtain ok1 s1 where 1: "TransStartMsg env s = Some (ok1, s1)"
    using assms by (cases "TransStartMsg env s") (auto simp: Cand_Execute_def)
  note t1 = TransStartMsg_run [of env, unfolded step_run_def, rule_format, OF 1]
  show ?thesis
  proof (cases ok1)
    case False
    with 1 assms have "r = op_user_response s1" "s' = s1" by (auto simp: Cand_Execute_def)
    with False t1 show ?thesis by simp
  next
    case ok1: True
    obtain ok2 s2 where 2: "TransVoteMsg env s1 = Some (ok2, s2)"
      using assms 1 ok1 by (cases "TransVoteMsg env s1") (auto simp: Cand_Execute_def)
    note t2 = TransVoteMsg_run [of env, unfolded step_run_def, rule_format, OF 2]
    have oper: "op_oper s2 = TC_OP_CANDIDATE_COMMIT" and names: "op_channels s1 = op_channels s" "op_channels s2 = op_channels s"
      using t1 t2 assms(2) by (simp_all add: trace_def same_request_def)
    show ?thesis
    proof (cases ok2)
      case False
      with 1 2 ok1 assms have "r = op_user_response s2" "s' = s2" by (auto simp: Cand_Execute_def)
      with False t1 t2 trace_trans [of transport_event s s1 s2] show ?thesis by simp
    next
      case ok2: True
      with 1 2 ok1 assms have "steps [TransGlobalCommitMsg env, TransEndMsg env] (\<lambda>s. Some (TC_OPER_SUCCESS, s)) s2 = Some (r, s')"
        by (simp add: Cand_Execute_def)
      from commit_finish [OF this] obtain entry rest where f: "op_hist s' = op_hist s2 @ entry @ rest"
        "list_all (db_event (recovery_sql UNC_DT_RUNNING TC_OP_CANDIDATE_COMMIT 0)) entry"
        "list_all transport_event rest" "r = TC_OPER_SUCCESS \<longrightarrow> finished (op_channels s) rest"
        unfolding oper names by blast
      from ok1 ok2 t1 t2 obtain start vote where
        "op_hist s1 = op_hist s @ start" "unanimous (op_channels s) MSG_COMMIT_TRANS_START start"
        "op_hist s2 = op_hist s1 @ vote" "unanimous (op_channels s) MSG_COMMIT_VOTE vote" unfolding names by blast
      with f show ?thesis
        by (intro disjI2 exI [of _ start] exI [of _ vote] exI [of _ entry] exI [of _ rest]) simp
    qed
  qed
qed

text \<open>The other phases of the operation: what they log, and that they keep the type of the operation.\<close>

definition logged_for :: "u32 \<Rightarrow> string set \<Rightarrow> history \<Rightarrow> opst \<Rightarrow> bool" where
  "logged_for oper S h s \<longleftrightarrow> logged S h s \<and> op_oper s = oper \<and> op_ssess s \<noteq> None"

lemma logged_for_update [simp]:
  "logged_for oper S h (s\<lparr>op_phase := ph\<rparr>) = logged_for oper S h s"
  "logged_for oper S h (s\<lparr>op_autosave := b\<rparr>) = logged_for oper S h s"
  "logged_for oper S h (s\<lparr>op_msgs := ms\<rparr>) = logged_for oper S h s"
  by (simp_all add: logged_for_def logged_def)

lemma Cand_HandleArgs_logged:
  assumes "logged_for (op_oper s) S h s"
  shows "owp (vt_HandleArgs (Cand_vt env) s) (\<lambda>r s'. logged_for (op_oper s') S h s')"
  unfolding Cand_vt_def oper_vt.simps
proof (rule HandleArgs_keeps [where I = "\<lambda>s'. logged_for (op_oper s') S h s'"])
  fix s
  assume s: "logged_for (op_oper s) S h s"
  show "owp (Cand_TcValidateOperType env s) (\<lambda>r s'. logged_for (op_oper s') S h s')"
    unfolding Cand_TcValidateOperType_def Let_def
    by (intro owp_rules) (use s in \<open>auto simp: set_srv_timeout_def logged_for_def quiet_event_def
        split: option.splits if_splits intro: logged_more [where new = "[EvTimeout]"]\<close>)
  have ids: "owp (op_GetConfigIdSessionId env 0 0 (s\<lparr>op_config_id := k\<rparr>)) (\<lambda>r s'. logged_for (op_oper s') S h s')" for k
    using s by (auto simp: op_GetConfigIdSessionId_def logged_for_def Let_def owp_def 
        split: prod.splits intro: log.others)
  show "owp (Cand_TcValidateOperParams env s) (\<lambda>r s'. logged_for (op_oper s') S h s')"
    unfolding Cand_TcValidateOperParams_def
    by (intro owp_rules owp_mono [OF ids]) (use s in auto)
  show "logged_for (op_oper (snd (GetOperType s))) S h (snd (GetOperType s))"
    "logged_for (op_oper (snd (GetSessionId s))) S h (snd (GetSessionId s))"
    using s by (auto simp: logged_for_def GetSessionId_def split: prod.splits option.splits)
qed (use assms in \<open>auto simp: Cand_TcCheckOperArgCount_def\<close>)

lemma op_lock_step_logged: "logged_for oper S h s \<Longrightarrow> owp (op_lock_step env f s) (\<lambda>r. logged_for oper S h)"
  by (auto simp: op_lock_step_def owp_def logged_for_def quiet_event_def Let_def split: prod.splits
      elim!: logged_more [where new = "[EvLock]"])

lemma Cand_GetExclusion_logged: "logged_for oper S h s \<Longrightarrow> owp (Cand_TcGetExclusion env s) (\<lambda>r. logged_for oper S h)"
  by (auto simp: Cand_TcGetExclusion_def op_GetLock_def owp_def logged_for_def quiet_event_def Let_def bind_eq_Some_conv
      elim!: logged_more [where new = "[EvLock]"])

lemma trace_logged_for: "logged_for oper S h s \<Longrightarrow> trace (\<lambda>e. quiet_event e \<or> db_event S e) s s' \<Longrightarrow> logged_for oper S h s'"
  by (auto simp: logged_for_def trace_def same_request_def intro: logged_more)

lemma Cand_Create_logged:
  assumes "select_query ''auto_save'' SAVE_CONF_TABLE \<in> S" "logged_for oper S h s"
  shows "owp (Cand_TcCreateMsgList env s) (\<lambda>r. logged_for oper S h)"
  unfolding Cand_TcCreateMsgList_def Let_def
  by (intro owp_rules)
    (use assms(2) in \<open>auto dest!: op_db_trace [OF db_uses_GetConfTable [OF assms(1)]] intro: trace_logged_for trace_mono\<close>)

lemma Cand_Release_logged: "logged_for oper S h s \<Longrightarrow> owp (Cand_TcReleaseExclusion env s) (\<lambda>r. logged_for oper S h)"
  unfolding Cand_TcReleaseExclusion_def
  by (intro owp_rules owp_mono [OF op_lock_step_logged] owp_mono [OF log.keep_release_config_for])
    (auto simp: logged_for_def)

lemma answered_logged_for: "logged_for oper S h s \<Longrightarrow> answered s s' \<Longrightarrow> logged_for oper S h s'"
  by (auto simp: logged_for_def answered_def elim!: logged_more intro: list.pred_mono_strong answer_quiet)

text \<open>
  The answer clears the recovery table only when the user is told of a success; then it is the last
  thing that happens.
\<close>

lemma Cand_SendResponse_logged:
  assumes "logged_for oper S h s"
  shows "owp (Cand_SendResponse env st s) (\<lambda>r s'.
    (r \<noteq> TC_OPER_SUCCESS \<longrightarrow> logged_for oper S h s') \<and>
    (r = TC_OPER_SUCCESS \<longrightarrow> op_ssess s \<noteq> None \<longrightarrow>
       (\<exists>s1 ret. logged_for oper S h s1 \<and> op_UpdateRecoveryTable env UNC_DT_INVALID TC_OP_INVALID 0 s1 = Some (ret, s'))))"
proof -
  have respond: "owp (Cand_respond env st s) (\<lambda>r s'. (r \<noteq> TC_OPER_SUCCESS \<longrightarrow> logged_for oper S h s') \<and>
      (r = TC_OPER_SUCCESS \<longrightarrow> (\<exists>s1 ret. logged_for oper S h s1 \<and>
         op_UpdateRecoveryTable env UNC_DT_INVALID TC_OP_INVALID 0 s1 = Some (ret, s'))))" if "logged_for oper S h s" for s
    unfolding Cand_respond_def Let_def
    by (intro owp_rules owpI)
      (use that in \<open>auto split: option.splits dest!: op_forward_answered intro: answered_logged_for\<close>)
  show ?thesis
    unfolding Cand_SendResponse_def Let_def
    by (intro owp_rules owp_mono [OF respond])
      (use assms in \<open>auto dest!: set_response_answered intro: answered_logged_for [OF assms] answered_trans\<close>)
qed

lemma Cand_SendResponse_grows:
  assumes "Cand_SendResponse env st s = Some (r, s')" "op_ssess s \<noteq> None"
  shows "logged_for (op_oper s) UNIV (op_hist s) s'"
proof -
  have all: "quiet_event e \<or> db_event UNIV e" for e
    by (cases e) (simp_all add: quiet_event_def db_event_def)
  have s: "logged_for (op_oper s) UNIV (op_hist s) s" using assms(2) by (simp add: logged_for_def)
  have upd: "logged_for (op_oper s) UNIV (op_hist s) s'"
    if "logged_for (op_oper s) UNIV (op_hist s) s1" "op_UpdateRecoveryTable env db oper f s1 = Some (ret, s')"
    for s1 db oper f ret
    using trace_logged_for [OF that(1) trace_mono [OF op_UpdateRecoveryTable_trace(1) [OF that(2)]]] all by blast
  from owpD [OF Cand_SendResponse_logged [OF s, of env st] assms(1)] upd assms(2) show ?thesis
    by (cases "r = TC_OPER_SUCCESS") auto
qed

text \<open>The phases before the execution leave the channels alone.\<close>

lemma Cand_channels:
  "owp (vt_HandleArgs (Cand_vt env) s) (\<lambda>r s'. op_channels s' = op_channels s)"
  "owp (Cand_TcGetExclusion env s) (\<lambda>r s'. op_channels s' = op_channels s)"
  "owp (Cand_TcCreateMsgList env s) (\<lambda>r s'. op_channels s' = op_channels s)"
proof -
  show "owp (vt_HandleArgs (Cand_vt env) s) (\<lambda>r s'. op_channels s' = op_channels s)"
    unfolding Cand_vt_def oper_vt.simps
  proof (rule HandleArgs_keeps [where I = "\<lambda>s'. op_channels s' = op_channels s"])
    fix s1 :: opst
    assume "op_channels s1 = op_channels s"
    then show "op_channels (snd (GetOperType s1)) = op_channels s" "op_channels (snd (GetSessionId s1)) = op_channels s"
      "owp (Cand_TcValidateOperType env s1) (\<lambda>r s'. op_channels s' = op_channels s)"
      "owp (Cand_TcCheckOperArgCount n s1) (\<lambda>r s'. op_channels s' = op_channels s)"
      "owp (Cand_TcValidateOperParams env s1) (\<lambda>r s'. op_channels s' = op_channels s)" for n
      by (auto simp: GetOperType_def GetSessionId_def Cand_TcValidateOperType_def Cand_TcCheckOperArgCount_def
          Cand_TcValidateOperParams_def op_GetConfigIdSessionId_def interfere_def set_srv_timeout_def owp_def
          bind_eq_Some_conv Let_def split: prod.splits option.splits if_splits)
  qed simp
  show "owp (Cand_TcGetExclusion env s) (\<lambda>r s'. op_channels s' = op_channels s)"
    "owp (Cand_TcCreateMsgList env s) (\<lambda>r s'. op_channels s' = op_channels s)"
    by (auto simp: Cand_TcGetExclusion_def op_GetLock_def interfere_def Cand_TcCreateMsgList_def op_db_def owp_def
        bind_eq_Some_conv Let_def split: prod.splits if_splits)
qed



section \<open>The recovery table\<close>

text \<open>The statement that clears the recovery table.\<close>

definition clear_recovery :: string where
  "clear_recovery = update_recovery_query UNC_DT_INVALID TC_OP_INVALID 0"

lemma clear_recovery_other:
  "select_query ''auto_save'' SAVE_CONF_TABLE \<noteq> clear_recovery"
  "recovery_sql UNC_DT_RUNNING oper f \<subseteq> - {clear_recovery}"
  "recovery_sql UNC_DT_CANDIDATE oper f \<subseteq> - {clear_recovery}"
proof -
  have d: "inttostr UNC_DT_INVALID = ''0''" "inttostr UNC_DT_RUNNING = ''3''" "inttostr UNC_DT_CANDIDATE = ''2''"
    by code_simp+
  show "select_query ''auto_save'' SAVE_CONF_TABLE \<noteq> clear_recovery"
    "recovery_sql UNC_DT_RUNNING oper f \<subseteq> - {clear_recovery}"
    "recovery_sql UNC_DT_CANDIDATE oper f \<subseteq> - {clear_recovery}"
    by (simp_all add: recovery_sql_def clear_recovery_def update_recovery_query_def select_query_def d)
qed

lemma Cand_Execute_logged:
  assumes "logged_for oper (- {clear_recovery}) h s"
  shows "owp (Cand_Execute env s) (\<lambda>r. logged_for oper (- {clear_recovery}) h)"
proof (rule owpI)
  fix r s'
  assume run: "Cand_Execute env s = Some (r, s')"
  let ?P = "\<lambda>e. quiet_event e \<or> db_event (- {clear_recovery}) e"
  have db: "db_event (recovery_sql UNC_DT_RUNNING oper' f) e \<Longrightarrow> ?P e"
    "db_event (recovery_sql UNC_DT_CANDIDATE oper' f) e \<Longrightarrow> ?P e" for oper' f e
    using clear_recovery_other(2,3) [of oper' f] by (auto simp: db_event_def split: tc_event.splits)
  have "trace ?P s s'"
  proof (cases "op_oper s = TC_OP_CANDIDATE_COMMIT")
    case True
    have tr: "list_all transport_event xs \<Longrightarrow> list_all ?P xs" for xs
      by (erule list.pred_mono_strong) (auto dest: transport_quiet)
    have en: "list_all (db_event (recovery_sql UNC_DT_RUNNING TC_OP_CANDIDATE_COMMIT 0)) xs \<Longrightarrow> list_all ?P xs" for xs
      by (erule list.pred_mono_strong) (use db(1) in blast)
    from commit_run [OF run True] show ?thesis
    proof (elim disjE exE conjE)
      assume "trace transport_event s s'"
      then show ?thesis by (rule trace_mono) (auto dest: transport_quiet)
    next
      fix start vote entry rest
      assume "op_hist s' = op_hist s @ start @ vote @ entry @ rest"
        "unanimous (op_channels s) MSG_COMMIT_TRANS_START start" "unanimous (op_channels s) MSG_COMMIT_VOTE vote"
        "list_all (db_event (recovery_sql UNC_DT_RUNNING TC_OP_CANDIDATE_COMMIT 0)) entry" "list_all transport_event rest"
      with owpD [OF Cand_Execute_same run] show ?thesis
        by (auto simp: trace_def dest: unanimous_transport intro: tr en)
    qed
  next
    case False
    with run obtain ret s1 where 1: "op_UpdateRecoveryTable env UNC_DT_CANDIDATE (op_oper s) 0 s = Some (ret, s1)"
      and 2: "abort_candidate_loop env (op_msgs s1) s1 = Some (r, s')"
      by (auto simp: Cand_Execute_def bind_eq_Some_conv)
    have "trace ?P s s1" by (rule trace_mono [OF op_UpdateRecoveryTable_trace(1) [OF 1]]) (rule db(2))
    moreover have "trace ?P s1 s'"
      by (rule trace_mono [OF owpD [OF abort_candidate_loop_trace 2]]) (auto dest: transport_quiet)
    ultimately show ?thesis by (rule trace_trans)
  qed
  with assms show "logged_for oper (- {clear_recovery}) h s'" by (rule trace_logged_for)
qed

text \<open>C3: The recovery table outlives every failure. If a commit or an abort of the candidate ends with
  anything but success for the user, the statement that clears the recovery table was not issued,
  so that the entry of the operation under way survives for the take-over; and if the user is told
  of a success, the update that clears it is the last step of the request.\<close>

theorem recovery_entry_outlives_failure:
  assumes "Dispatch (Cand_vt env) s = Some (r, s')" "op_ssess s \<noteq> None"
  shows "(r \<noteq> TC_OPER_SUCCESS \<longrightarrow>
      (\<exists>new. op_hist s' = op_hist s @ new \<and> (\<forall>ok. EvSql clear_recovery ok \<notin> set new))) \<and>
    (r = TC_OPER_SUCCESS \<longrightarrow>
      (\<exists>s1 ret. op_UpdateRecoveryTable env UNC_DT_INVALID TC_OP_INVALID 0 s1 = Some (ret, s') \<and>
        (\<exists>new. op_hist s1 = op_hist s @ new \<and> (\<forall>ok. EvSql clear_recovery ok \<notin> set new))))"
proof -
  let ?S = "- {clear_recovery}" and ?P = "\<lambda>s1. logged_for (op_oper s1) (- {clear_recovery}) (op_hist s) s1"
  have lift: "owp x (\<lambda>r. ?P)" if "owp x (\<lambda>r. logged_for oper ?S (op_hist s))" for x :: "(TcOperStatus \<times> opst) option" and oper
    by (rule owp_mono [OF that]) (auto simp: logged_for_def)
  have new: "\<exists>new. op_hist s1 = op_hist s @ new \<and> (\<forall>ok. EvSql clear_recovery ok \<notin> set new)" if "?P s1" for s1
    using that by (fastforce simp: logged_for_def logged_def list_all_iff quiet_event_def db_event_def)
  have "owp (Dispatch (Cand_vt env) s) (\<lambda>r s'. (r \<noteq> TC_OPER_SUCCESS \<longrightarrow> ?P s') \<and>
    (r = TC_OPER_SUCCESS \<longrightarrow> (\<exists>s1 ret. ?P s1 \<and>
       op_UpdateRecoveryTable env UNC_DT_INVALID TC_OP_INVALID 0 s1 = Some (ret, s'))))"
  proof (rule Dispatch_invariant [where P = ?P])
    show "?P s" using assms(2) by (simp add: logged_for_def)
    fix s1
    assume P: "?P s1"
    show "owp (vt_HandleArgs (Cand_vt env) s1) (\<lambda>r. ?P)" by (rule Cand_HandleArgs_logged [OF P])
    show "owp (vt_TcGetExclusion (Cand_vt env) s1) (\<lambda>r. ?P)" "owp (vt_TcReleaseExclusion (Cand_vt env) s1) (\<lambda>r. ?P)"
      "owp (vt_Execute (Cand_vt env) s1) (\<lambda>r. ?P)"
      unfolding Cand_vt_def oper_vt.simps
      by (rule lift [OF Cand_GetExclusion_logged [OF P]] lift [OF Cand_Release_logged [OF P]] lift [OF Cand_Execute_logged [OF P]])+
    have "select_query ''auto_save'' SAVE_CONF_TABLE \<in> ?S" using clear_recovery_other(1) by simp
    from lift [OF Cand_Create_logged [OF this P]] show "owp (vt_TcCreateMsgList (Cand_vt env) s1) (\<lambda>r. ?P)"
      by (simp add: Cand_vt_def)
    show "owp (vt_SendResponse (Cand_vt env) st s1) (\<lambda>r s'. (r \<noteq> TC_OPER_SUCCESS \<longrightarrow> ?P s') \<and>
      (r = TC_OPER_SUCCESS \<longrightarrow> (\<exists>s1 ret. ?P s1 \<and>
         op_UpdateRecoveryTable env UNC_DT_INVALID TC_OP_INVALID 0 s1 = Some (ret, s'))))" for st
      unfolding Cand_vt_def oper_vt.simps
      by (rule owp_mono [OF Cand_SendResponse_logged [OF P]]) (use P in \<open>auto simp: logged_for_def\<close>)
  qed auto
  from owpD [OF this assms(1)] new show ?thesis by blast
qed

theorem recovery_entry_outlives_failure_witness:
  "\<exists>s' new. Dispatch (Cand_vt (demo_env refuse_env)) demo_commit_request = Some (TC_OPER_ABORT, s') \<and>
     op_hist s' = op_hist demo_commit_request @ new \<and> (\<forall>ok. EvSql clear_recovery ok \<notin> set new)"
proof -
  have "map_option fst (Dispatch (Cand_vt (demo_env refuse_env)) demo_commit_request) = Some TC_OPER_ABORT"
    by code_simp
  then obtain s' where "Dispatch (Cand_vt (demo_env refuse_env)) demo_commit_request = Some (TC_OPER_ABORT, s')"
    by auto
  with recovery_entry_outlives_failure [OF this demo_ssess] show ?thesis by auto
qed

end
