(* ===== verification/TC_OperTotal.thy ===== *)
theory TC_OperTotal
  imports TC_OperProps
begin

text \<open>
  Total correctness of the requests: a commit or an abort of the candidate always returns. The places
  where it could fail to do so are the checks that stop the process (\<open>PFC_VERIFY\<close>) in the creation
  of messages and in the recovery table, and the lock; none of them is reached.
\<close>

section \<open>Total correctness\<close>

definition twp :: "('a \<times> opst) option \<Rightarrow> ('a \<Rightarrow> opst \<Rightarrow> bool) \<Rightarrow> bool" where
  "twp x Q \<longleftrightarrow> (\<exists>r s. x = Some (r, s) \<and> Q r s)"

named_theorems twp_rules "total correctness rules, one per construct"

lemma twp_Some [twp_rules]: "Q r s \<Longrightarrow> twp (Some (r, s)) Q"
  by (simp add: twp_def)

lemma twp_bind [twp_rules]: "twp x (\<lambda>r s. twp (f r s) Q) \<Longrightarrow> twp (x \<bind> (\<lambda>(r, s). f r s)) Q"
  by (auto simp: twp_def)

lemma twp_if [twp_rules]: "(b \<Longrightarrow> twp x Q) \<Longrightarrow> (\<not> b \<Longrightarrow> twp y Q) \<Longrightarrow> twp (if b then x else y) Q"
  by simp

lemma twp_option [twp_rules]:
  "(x = None \<Longrightarrow> twp p Q) \<Longrightarrow> (\<And>y. x = Some y \<Longrightarrow> twp (q y) Q) \<Longrightarrow>
   twp (case x of None \<Rightarrow> p | Some y \<Rightarrow> q y) Q"
  by (cases x) auto

lemma twp_prod [twp_rules]:
  "(\<And>a b. x = (a, b) \<Longrightarrow> twp (q a b) Q) \<Longrightarrow> twp (case x of (a, b) \<Rightarrow> q a b) Q"
  by (cases x) auto

lemma twp_prod_arg [twp_rules]:
  "(\<And>a b. x = (a, b) \<Longrightarrow> twp (q a b s) Q) \<Longrightarrow> twp ((case x of (a, b) \<Rightarrow> q a b) s) Q"
  by (cases x) auto

lemma twp_mono: "twp x Q \<Longrightarrow> (\<And>r s. Q r s \<Longrightarrow> R r s) \<Longrightarrow> twp x R"
  by (auto simp: twp_def)

text \<open>Partial correctness and termination give total correctness.\<close>

lemma twp_owp: "x \<noteq> None \<Longrightarrow> owp x Q \<Longrightarrow> twp x Q"
  by (auto simp: twp_def owp_def)

lemma twp_returns: "twp x Q \<Longrightarrow> x \<noteq> None"
  by (auto simp: twp_def)

lemma returns_twp: "x \<noteq> None \<Longrightarrow> twp x (\<lambda>r s. True)"
  by (auto simp: twp_def)

section \<open>Messages and database\<close>

definition plain_opers :: "TcMsgOperType set" where
  "plain_opers = commit_opers \<union> {MSG_NOTIFY_CONFIGID, MSG_ABORT_CANDIDATE, MSG_SAVE_CONFIG, MSG_CLEAR_CONFIG,
     MSG_AUTOSAVE_ENABLE, MSG_AUTOSAVE_DISABLE}"

lemma op_run_msg_returns:
  assumes "msg_opertype m \<in> plain_opers"
  shows "op_run_msg env m s \<noteq> None"
proof -
  have "fst (run_state (TcMsg_Execute e) m') \<noteq> None" if "msg_opertype m' \<in> plain_opers" for e m'
    using that by (auto simp: plain_opers_def commit_opers_def TcMsg_Execute_def map_state_run split: prod.splits)
  from this [of "m\<lparr>msg_history := op_hist s\<rparr>" "te_ipc env"] assms show ?thesis
    by (auto simp: op_run_msg_def split: prod.splits option.splits)
qed

lemma op_CreateInstance_returns:
  assumes "oper \<in> plain_opers"
  obtains m where "op_CreateInstance oper s = Some m" "msg_opertype m = oper"
  using assms by (auto simp: plain_opers_def commit_opers_def op_CreateInstance_def CreateInstance_def TcMsg_new_def)

lemma Cand_message_returns:
  assumes "oper \<in> commit_opers"
  shows "Cand_message env oper s \<noteq> None"
proof -
  have oper: "oper \<in> plain_opers" using assms by (simp add: plain_opers_def)
  obtain m where m: "op_CreateInstance oper s = Some m" "msg_opertype m = oper"
    by (rule op_CreateInstance_returns [OF oper])
  then have "op_run_msg env (Cand_FillTcMsgData s oper m) s \<noteq> None"
    using oper by (intro op_run_msg_returns) simp
  with m show ?thesis by (simp add: Cand_message_def)
qed

lemma op_UpdateRecoveryTable_returns:
  assumes "ValidateAuditDBAttributes db oper \<noteq> None"
  shows "op_UpdateRecoveryTable env db oper f s \<noteq> None"
proof -
  have "fst (run_state (UpdateRecoveryTable e db oper f) h) \<noteq> None" for e h
    using assms by (auto simp: UpdateRecoveryTable_def split: prod.splits option.splits)
  from this [of "te_odbc env" "op_hist s"] show ?thesis
    by (auto simp: op_UpdateRecoveryTable_def op_db_def Let_def split: prod.splits)
qed

lemma valid_recovery:
  "ValidateAuditDBAttributes UNC_DT_RUNNING TC_OP_CANDIDATE_COMMIT \<noteq> None"
  "ValidateAuditDBAttributes UNC_DT_CANDIDATE TC_OP_CANDIDATE_ABORT \<noteq> None"
  "ValidateAuditDBAttributes UNC_DT_INVALID TC_OP_INVALID \<noteq> None"
  by (simp_all add: ValidateAuditDBAttributes_def)

section \<open>The steps of a commit\<close>

text \<open>Composition of programs that leave the request alone.\<close>

lemma twp_same_bind:
  assumes "twp x (\<lambda>r s1. same_request s s1)"
    "\<And>r s1. same_request s s1 \<Longrightarrow> twp (f r s1) (\<lambda>r s'. same_request s s')"
  shows "twp (x \<bind> (\<lambda>(r, s). f r s)) (\<lambda>r s'. same_request s s')"
  by (intro twp_bind twp_mono [OF assms(1)] assms(2))

lemma twp_same_from:
  "twp (p s1) (\<lambda>r s'. same_request s1 s') \<Longrightarrow> same_request s s1 \<Longrightarrow> twp (p s1) (\<lambda>r s'. same_request s s')"
  by (blast intro: twp_mono same_request_trans)

lemma twp_Cand_message:
  assumes "oper \<in> commit_opers"
  shows "twp (Cand_message env oper s) (\<lambda>r s'. same_request s s')"
  using Cand_message_returns [OF assms] Cand_message_run [OF _ assms]
  by (intro twp_owp) (auto simp: owp_def trace_def)

lemma twp_UpdateRecovery:
  "ValidateAuditDBAttributes db oper \<noteq> None \<Longrightarrow>
   twp (op_UpdateRecoveryTable env db oper f s) (\<lambda>r s'. same_request s s')"
  by (intro twp_owp op_UpdateRecoveryTable_returns UpdateRecovery_owp)

lemma transaction_returns:
  "twp (TransStartMsg env s) (\<lambda>r s'. same_request s s')" "twp (TransEndMsg env s) (\<lambda>r s'. same_request s s')"
  unfolding TransStartMsg_def TransEndMsg_def
  by (intro twp_same_bind twp_Cand_message twp_rules; simp add: commit_opers_def)+

lemma TransVoteMsg_returns: "twp (TransVoteMsg env s) (\<lambda>r s'. same_request s s')"
  unfolding TransVoteMsg_def
  by (intro twp_same_bind twp_Cand_message twp_rules twp_same_from [OF transaction_returns(2)])
    (simp_all add: commit_opers_def)

lemma TransGlobalCommitMsg_returns:
  "op_oper s = TC_OP_CANDIDATE_COMMIT \<Longrightarrow> twp (TransGlobalCommitMsg env s) (\<lambda>r s'. same_request s s')"
  unfolding TransGlobalCommitMsg_def Let_def
  by (intro twp_same_bind twp_same_from [OF twp_Cand_message] twp_rules twp_UpdateRecovery)
    (simp_all add: commit_opers_def valid_recovery)

lemma steps_return:
  assumes "\<And>p s'. p \<in> set ps \<Longrightarrow> same_request s s' \<Longrightarrow> twp (p s') (\<lambda>r s''. same_request s' s'')"
  shows "same_request s s1 \<Longrightarrow> twp (steps ps (\<lambda>s. Some (st, s)) s1) (\<lambda>r s'. same_request s s')"
  using assms
proof (induction ps arbitrary: s1)
  case (Cons p ps)
  have "twp (p s1) (\<lambda>r s'. same_request s s')"
    by (rule twp_same_from [where p = p]) (use Cons.prems in auto)
  moreover have "twp (steps ps (\<lambda>s. Some (st, s)) s2) (\<lambda>r s'. same_request s s')" if "same_request s s2" for s2
    using Cons.IH [OF that] Cons.prems(2) by simp
  ultimately show ?case
    unfolding steps.simps by (intro twp_same_bind twp_rules) auto
qed (auto intro!: twp_rules)

lemma op_run_msg_twp: "msg_opertype m \<in> plain_opers \<Longrightarrow> twp (op_run_msg env m s) (\<lambda>r s'. same_request s s')"
  by (intro twp_owp op_run_msg_returns op_run_msg_same)

lemma abort_candidate_loop_returns:
  "set opers \<subseteq> plain_opers \<Longrightarrow> twp (abort_candidate_loop env opers s) (\<lambda>r s'. True)"
proof (induction opers arbitrary: s)
  case (Cons oper opers)
  have "msg_opertype (Cand_FillTcMsgData s oper m) \<in> plain_opers" if "op_CreateInstance oper s = Some m" for m
    using op_CreateInstance_opertype(1) [OF that] Cons.prems by simp
  note run = twp_mono [OF op_run_msg_twp [OF this]]
  show ?case
    unfolding abort_candidate_loop.simps
    by (intro twp_rules run Cons.IH) (use Cons.prems in auto)
qed (auto intro!: twp_rules)

lemma op_UpdateRecoveryTable_msgs: "op_UpdateRecoveryTable env db oper f s = Some (r, s') \<Longrightarrow> op_msgs s' = op_msgs s"
  by (auto simp: op_UpdateRecoveryTable_def op_db_def Let_def bind_eq_Some_conv split: prod.splits)

lemma Cand_Execute_returns:
  assumes "op_oper s = TC_OP_CANDIDATE_COMMIT \<or> op_oper s = TC_OP_CANDIDATE_ABORT \<and> set (op_msgs s) \<subseteq> plain_opers"
  shows "Cand_Execute env s \<noteq> None"
proof (cases "op_oper s = TC_OP_CANDIDATE_COMMIT")
  case True
  have "twp (p s') (\<lambda>r s''. same_request s' s'')"
    if "p \<in> set [TransStartMsg env, TransVoteMsg env, TransGlobalCommitMsg env, TransEndMsg env]" "same_request s s'" for p s'
    using that True TransGlobalCommitMsg_returns [of s' env]
    by (auto simp: transaction_returns TransVoteMsg_returns same_request_def [of s])
  then have "twp (steps [TransStartMsg env, TransVoteMsg env, TransGlobalCommitMsg env, TransEndMsg env]
      (\<lambda>s. Some (TC_OPER_SUCCESS, s)) s) (\<lambda>r s'. same_request s s')"
    by (rule steps_return) simp_all
  from twp_returns [OF this] True show ?thesis by (simp add: Cand_Execute_def)
next
  case False
  with assms have oper: "op_oper s = TC_OP_CANDIDATE_ABORT" "set (op_msgs s) \<subseteq> plain_opers" by auto
  obtain r1 s1 where 1: "op_UpdateRecoveryTable env UNC_DT_CANDIDATE (op_oper s) 0 s = Some (r1, s1)"
    using op_UpdateRecoveryTable_returns [OF valid_recovery(2), of env 0 s] oper by auto
  with oper abort_candidate_loop_returns [of "op_msgs s1" env s1] op_UpdateRecoveryTable_msgs [OF 1] False
  show ?thesis by (auto simp: Cand_Execute_def twp_def)
qed

section \<open>The other phases\<close>

lemma HandleArgs_total:
  assumes "\<And>s. twp (validate_type s) (\<lambda>r s'. True)" "\<And>n s. twp (check_count n s) (\<lambda>r s'. True)"
    "\<And>s. twp (validate_params s) (\<lambda>r s'. True)"
  shows "HandleArgs get_sid n validate_type check_count validate_params s \<noteq> None"
proof -
  have "twp (HandleArgs get_sid n validate_type check_count validate_params s) (\<lambda>r s'. True)"
    unfolding HandleArgs_def Let_def check_def
    by (intro twp_rules twp_mono [OF assms(1)] twp_mono [OF assms(2)] twp_mono [OF assms(3)] TrueI)
  then show ?thesis by (rule twp_returns)
qed

lemma op_lock_step_twp: "twp (op_lock_step env f s) (\<lambda>r s'. True)"
  by (auto simp: op_lock_step_def twp_def Let_def split: prod.splits)

lemma op_ConfigIds_twp: "twp (op_GetConfigIdSessionId env a b s) (\<lambda>r s'. True)"
  by (auto simp: op_GetConfigIdSessionId_def twp_def Let_def split: prod.splits)

lemma Cand_HandleArgs_returns: "vt_HandleArgs (Cand_vt env) s \<noteq> None"
  unfolding Cand_vt_def oper_vt.simps
proof (rule HandleArgs_total)
  fix s n
  show "twp (Cand_TcValidateOperType env s) (\<lambda>r s'. True)" "twp (Cand_TcCheckOperArgCount n s) (\<lambda>r s'. True)"
    "twp (Cand_TcValidateOperParams env s) (\<lambda>r s'. True)"
    unfolding Cand_TcValidateOperType_def Cand_TcCheckOperArgCount_def Cand_TcValidateOperParams_def Let_def
    by (intro twp_rules twp_mono [OF op_ConfigIds_twp] TrueI)+
qed

lemma GetLock_commit_returns:
  "w = TC_COMMIT \<or> w = TC_ABORT_CANDIDATE_CONFIG \<Longrightarrow> GetLock e sid TC_ACQUIRE_WRITE_SESSION w l \<noteq> None"
  by (auto simp: GetLock_def AcquireWriteLock_def Let_def)

lemma Cand_GetExclusion_returns: "Cand_TcGetExclusion env s \<noteq> None"
  using GetLock_commit_returns [of "Cand_wop s" "te_block env (op_hist s)" "op_session_id s" "op_lock (interfere env s)"]
  by (auto simp: Cand_TcGetExclusion_def op_GetLock_def Cand_wop_def Let_def)

lemma SendResponse_returns:
  "(\<And>st s. additional st s \<noteq> None) \<Longrightarrow> SendResponse env additional st s \<noteq> None"
  by (auto simp: SendResponse_def Let_def split: prod.splits)

lemma Cand_SendResponse_returns: "Cand_SendResponse env st s \<noteq> None"
proof -
  have "twp (Cand_respond env st s) (\<lambda>r s'. True)" for st s
    unfolding Cand_respond_def Let_def
    by (intro twp_rules twp_mono [OF twp_UpdateRecovery [OF valid_recovery(3)]] TrueI)
  then have "twp (Cand_SendResponse env st s) (\<lambda>r s'. True)"
    unfolding Cand_SendResponse_def Let_def by (intro twp_rules TrueI)
  then show ?thesis by (rule twp_returns)
qed

section \<open>Releasing the configuration of a lost session\<close>

lemma Config_SendResponse_returns: "vt_SendResponse (Config_vt env) st s \<noteq> None"
  unfolding Config_vt_def oper_vt.simps
  by (rule SendResponse_returns) (simp add: Config_SendAdditionalResponse_def Let_def split: prod.splits)

lemma Config_Revoke_returns: "RevokeOperation (Config_vt env) st s \<noteq> None"
proof -
  have "twp (vt_TcReleaseExclusion (Config_vt env) s) (\<lambda>r s'. True)" for s
    unfolding Config_vt_def oper_vt.simps Config_TcReleaseExclusion_def
    by (intro twp_rules twp_mono [OF op_lock_step_twp] TrueI)
  note rel = twp_mono [OF this]
  have "twp (RevokeOperation (Config_vt env) st s) (\<lambda>r s'. True)"
    unfolding RevokeOperation_def
    by (cases "op_phase s"; simp only: TcOperEnum.case)
      (intro twp_rules rel returns_twp [OF Config_SendResponse_returns] TrueI)+
  then show ?thesis by (rule twp_returns)
qed

lemma Config_phase_returns:
  assumes "twp (f (s\<lparr>op_phase := ph\<rparr>)) (\<lambda>r s'. r = TC_OPER_SUCCESS \<longrightarrow> k s' \<noteq> None)"
  shows "phase (Config_vt env) ph f k s \<noteq> None"
  using assms Config_Revoke_returns [of env] by (auto simp: phase_def twp_def)

lemma Config_Execute_returns:
  assumes "op_msgs s = [MSG_NOTIFY_CONFIGID]"
  shows "vt_Execute (Config_vt env) s \<noteq> None"
proof -
  have fill: "twp (Config_FillTcMsgData env oper m s) (\<lambda>(st, m') s'. msg_opertype m' = msg_opertype m)" for oper m s
    unfolding Config_FillTcMsgData_def TcMsgNotifyConfigId_SetData_def
    by (intro twp_rules twp_mono [OF op_ConfigIds_twp]) simp_all
  have "twp (execute_loop env HandleMsgRet (Config_FillTcMsgData env) [MSG_NOTIFY_CONFIGID] s) (\<lambda>r s'. True)"
    unfolding execute_loop.simps
    by (intro twp_rules twp_mono [OF fill] twp_mono [OF op_run_msg_twp] twp_mono [OF op_lock_step_twp] TrueI)
      (auto simp: plain_opers_def dest: op_CreateInstance_opertype(1))
  from twp_returns [OF this] assms show ?thesis by (simp add: Config_vt_def Execute_def)
qed

lemma config_finish_returns:
  assumes "op_msgs s = []"
  shows "config_finish env s \<noteq> None"
  unfolding config_finish_def Let_def
proof (rule Config_phase_returns)
  let ?vt = "Config_vt env"
  have rel: "twp (vt_TcReleaseExclusion ?vt s) (\<lambda>r s'. True)" for s
    unfolding Config_vt_def oper_vt.simps Config_TcReleaseExclusion_def
    by (intro twp_rules twp_mono [OF op_lock_step_twp] TrueI)
  have "phase ?vt EXECUTE_PHASE (vt_Execute ?vt) (phase ?vt RELEASE_EXCLUSION_PHASE (vt_TcReleaseExclusion ?vt)
      (\<lambda>s. vt_SendResponse ?vt TC_OPER_SUCCESS (if op_oper s = TC_OP_CONFIG_RELEASE then HandleConfigRelease s else s))) s1
      \<noteq> None" if "op_msgs s1 = [MSG_NOTIFY_CONFIGID]" for s1
    by (intro Config_phase_returns twp_mono [OF returns_twp [OF Config_Execute_returns]] twp_mono [OF rel] impI
        Config_SendResponse_returns) (simp add: that)
  then show "twp (vt_TcCreateMsgList ?vt (s\<lparr>op_phase := CREATE_MSG_LIST\<rparr>)) (\<lambda>r s'. r = TC_OPER_SUCCESS \<longrightarrow>
      phase ?vt EXECUTE_PHASE (vt_Execute ?vt) (phase ?vt RELEASE_EXCLUSION_PHASE (vt_TcReleaseExclusion ?vt)
        (\<lambda>s. vt_SendResponse ?vt TC_OPER_SUCCESS (if op_oper s = TC_OP_CONFIG_RELEASE then HandleConfigRelease s else s))) s'
      \<noteq> None)"
    using assms by (simp add: Config_vt_def Config_TcCreateMsgList_def twp_def)
qed

lemma op_lock_step_msgs: "twp (op_lock_step env f s) (\<lambda>r s'. op_msgs s' = op_msgs s \<and> op_oper s' = op_oper s)"
  by (auto simp: op_lock_step_def interfere_def twp_def Let_def split: prod.splits)

lemma Config_release_args:
  "op_ssess s = None \<Longrightarrow> op_oper s = TC_OP_CONFIG_RELEASE \<Longrightarrow>
   vt_HandleArgs (Config_vt env) s = Some (TC_OPER_SUCCESS, s)"
  by (simp add: Config_vt_def HandleArgs_def Config_TcValidateOperType_def)

text \<open>The release for a session that is gone: no arguments are read and no queue is looked at.\<close>

lemma Config_release_dispatch:
  assumes "op_ssess s = None" "op_oper s = TC_OP_CONFIG_RELEASE"
  shows "Config_Dispatch env s =
    phase (Config_vt env) GET_EXCLUSION_PHASE (vt_TcGetExclusion (Config_vt env))
      (\<lambda>s. config_finish env
         (if op_oper s = TC_OP_CONFIG_ACQUIRE \<or> op_oper s = TC_OP_CONFIG_ACQUIRE_FORCE
          then SetConfigModeAvailability False s else s)) (s\<lparr>op_phase := INPUT_VALIDATION\<rparr>)"
  using Config_release_args [of "s\<lparr>op_phase := INPUT_VALIDATION\<rparr>" env] assms
  by (simp add: Config_Dispatch_def phase_def [of _ INPUT_VALIDATION] Let_def)

lemma release_config_for_returns: "release_config_for env sid cid s \<noteq> None"
proof -
  let ?c = "(TcOperations_new False (op_lock s) (op_stat s) (op_hist s) None (op_channels s))
      \<lparr>op_session_id := sid, op_config_id := cid, op_oper := TC_OP_CONFIG_RELEASE\<rparr>"
  have c: "op_ssess ?c = None" "op_oper ?c = TC_OP_CONFIG_RELEASE" "op_msgs ?c = []"
    by (simp_all add: TcOperations_new_def)
  have "twp (vt_TcGetExclusion (Config_vt env) s1) (\<lambda>r s2. op_msgs s2 = [] \<and> op_oper s2 = TC_OP_CONFIG_RELEASE)"
    if "op_msgs s1 = []" "op_oper s1 = TC_OP_CONFIG_RELEASE" for s1
    unfolding Config_vt_def oper_vt.simps Config_TcGetExclusion_def
    by (intro twp_rules twp_if twp_mono [OF op_lock_step_msgs]) (use that in auto)
  note get = twp_mono [OF this]
  have "Config_Dispatch env ?c \<noteq> None"
    unfolding Config_release_dispatch [OF c(1,2)]
    by (intro Config_phase_returns get impI config_finish_returns) (simp_all add: TcOperations_new_def)
  then show ?thesis by (auto simp: release_config_for_def)
qed

lemma Cand_Release_returns: "Cand_TcReleaseExclusion env s \<noteq> None"
proof -
  have "twp (Cand_TcReleaseExclusion env s) (\<lambda>r s'. True)"
    unfolding Cand_TcReleaseExclusion_def
    by (intro twp_rules twp_mono [OF op_lock_step_twp] returns_twp [OF release_config_for_returns] TrueI)
  then show ?thesis by (rule twp_returns)
qed

section \<open>Every request returns\<close>

definition cand_asked :: "opst \<Rightarrow> bool" where
  "cand_asked s \<longleftrightarrow> op_msgs s = [] \<and> (op_oper s = TC_OP_CANDIDATE_COMMIT \<or> op_oper s = TC_OP_CANDIDATE_ABORT)"

lemma Cand_HandleArgs_asked:
  assumes "op_ssess s \<noteq> None" "op_msgs s = []"
  shows "owp (vt_HandleArgs (Cand_vt env) s) (\<lambda>r s'. op_msgs s' = [] \<and> (r = TC_OPER_SUCCESS \<longrightarrow> cand_asked s'))"
  unfolding Cand_vt_def oper_vt.simps
proof (rule HandleArgs_stages [where I = "\<lambda>s. op_msgs s = []" and J = "\<lambda>s. True" and K = cand_asked])
  fix s :: opst
  assume s: "op_msgs s = []"
  show "owp (Cand_TcValidateOperType env s) (\<lambda>r s'. op_msgs s' = [] \<and> (r = TC_OPER_SUCCESS \<longrightarrow> cand_asked s'))"
    unfolding Cand_TcValidateOperType_def Let_def
    by (intro owp_rules) (use s in \<open>auto simp: cand_asked_def\<close>)
  show "op_msgs (snd (GetOperType s)) = []"
    "op_msgs (snd (GetSessionId s)) = [] \<and> (fst (GetSessionId s) = TC_OPER_SUCCESS \<longrightarrow> True)"
    using s by (auto simp: GetOperType_def GetSessionId_def split: prod.splits option.splits)
  assume "cand_asked s"
  then show "owp (Cand_TcValidateOperParams env s) (\<lambda>r s'. op_msgs s' = [] \<and> (r = TC_OPER_SUCCESS \<longrightarrow> cand_asked s'))"
    unfolding Cand_TcValidateOperParams_def op_GetConfigIdSessionId_def Let_def interfere_def
    by (intro owp_rules) (auto simp: cand_asked_def split: prod.splits)
qed (use assms in \<open>auto simp: Cand_TcCheckOperArgCount_def\<close>)

lemma Cand_phase_returns:
  assumes "f (s\<lparr>op_phase := ph\<rparr>) \<noteq> None"
    "\<And>s'. f (s\<lparr>op_phase := ph\<rparr>) = Some (TC_OPER_SUCCESS, s') \<Longrightarrow> k s' \<noteq> None"
  shows "phase (Cand_vt env) ph f k s \<noteq> None"
proof -
  have rel: "twp (vt_TcReleaseExclusion (Cand_vt env) s) (\<lambda>r s'. True)" for s
    using Cand_Release_returns by (intro returns_twp) (simp add: Cand_vt_def)
  have send: "vt_SendResponse (Cand_vt env) st s \<noteq> None" for st s
    using Cand_SendResponse_returns by (simp add: Cand_vt_def)
  have "twp (RevokeOperation (Cand_vt env) st s) (\<lambda>r s'. True)" for st s
    unfolding RevokeOperation_def
    by (cases "op_phase s"; simp only: TcOperEnum.case)
      (intro twp_rules twp_mono [OF rel] returns_twp [OF send] TrueI)+
  from twp_returns [OF this] assms show ?thesis by (auto simp: phase_def)
qed

lemma Cand_Dispatch_returns:
  assumes "op_ssess s \<noteq> None" "op_msgs s = []"
  shows "Dispatch (Cand_vt env) s \<noteq> None"
  unfolding Dispatch_def
proof (intro Cand_phase_returns Cand_HandleArgs_returns)
  fix s1
  assume 1: "vt_HandleArgs (Cand_vt env) (s\<lparr>op_phase := INPUT_VALIDATION\<rparr>) = Some (TC_OPER_SUCCESS, s1)"
  have asked: "cand_asked s1" using owpD [OF Cand_HandleArgs_asked 1] assms by simp
  show "vt_TcGetExclusion (Cand_vt env) (s1\<lparr>op_phase := GET_EXCLUSION_PHASE\<rparr>) \<noteq> None"
    using Cand_GetExclusion_returns by (simp add: Cand_vt_def)
  fix s2
  assume "vt_TcGetExclusion (Cand_vt env) (s1\<lparr>op_phase := GET_EXCLUSION_PHASE\<rparr>) = Some (TC_OPER_SUCCESS, s2)"
  with asked have asked2: "cand_asked s2"
    by (auto simp: Cand_vt_def Cand_TcGetExclusion_def op_GetLock_def interfere_def cand_asked_def Let_def bind_eq_Some_conv
        split: prod.splits)
  show "vt_TcCreateMsgList (Cand_vt env) (s2\<lparr>op_phase := CREATE_MSG_LIST\<rparr>) \<noteq> None"
    by (auto simp: Cand_vt_def Cand_TcCreateMsgList_def Let_def split: prod.splits)
  fix s3
  assume "vt_TcCreateMsgList (Cand_vt env) (s2\<lparr>op_phase := CREATE_MSG_LIST\<rparr>) = Some (TC_OPER_SUCCESS, s3)"
  with asked2 have "op_oper s3 = TC_OP_CANDIDATE_COMMIT \<or> op_oper s3 = TC_OP_CANDIDATE_ABORT \<and> set (op_msgs s3) \<subseteq> plain_opers"
    by (auto simp: Cand_vt_def Cand_TcCreateMsgList_def op_db_def cand_asked_def plain_opers_def Let_def split: prod.splits)
  then show "vt_Execute (Cand_vt env) (s3\<lparr>op_phase := EXECUTE_PHASE\<rparr>) \<noteq> None"
    using Cand_Execute_returns [of "s3\<lparr>op_phase := EXECUTE_PHASE\<rparr>" env] by (simp add: Cand_vt_def)
qed (auto simp: Cand_vt_def Cand_Release_returns Cand_SendResponse_returns simp del: not_None_eq)


end
