(* ===== verification/TC_SessionProps.thy ===== *)
theory TC_SessionProps
  imports TC_OperTotal
begin

text \<open>
  The configuration session across operations: the session of a user who went away during a commit
  is released with the end of the commit, a request in a foreign name is refused without a trace,
  the queue of waiting requests is a queue, and the end of a timed wait is computed exactly.

  The functional theorems here look at one request while the other threads are idle.
\<close>

definition idle :: "tc_env \<Rightarrow> bool" where
  "idle env \<longleftrightarrow> (\<forall>h p. te_others env h p = p)"

lemma idle_interfere [simp]:
  "idle env \<Longrightarrow> op_lock (interfere env s) = op_lock s" "idle env \<Longrightarrow> op_stat (interfere env s) = op_stat s"
  by (simp_all add: idle_def interfere_def)

section \<open>Release for a lost session\<close>

text \<open>The lock after the release was granted, and after UPLL and UPPL were told.\<close>

definition lock_releasing :: "TcLock \<Rightarrow> TcLock" where
  "lock_releasing l =
     l\<lparr>tc_config_lock := (tc_config_lock l)\<lparr>cl_is_notify_pending := True, cl_notify_operation := TC_NOTIFY_RELEASE,
                                            cl_is_taken := False\<rparr>\<rparr>"

definition lock_released :: "TcLock \<Rightarrow> TcLock" where
  "lock_released l =
     l\<lparr>tc_config_lock := (tc_config_lock l)
         \<lparr>cl_is_notify_pending := False, cl_notify_operation := TC_NOTIFY_NONE, cl_is_taken := False,
          cl_session_id := 0,
          cl_marked_session_id := (if cl_marked_session_id (tc_config_lock l) = cl_session_id (tc_config_lock l) then 0
                                   else cl_marked_session_id (tc_config_lock l))\<rparr>\<rparr>"

definition config_held :: "u32 \<Rightarrow> u32 \<Rightarrow> TcLock \<Rightarrow> bool" where
  "config_held sid cid l \<longleftrightarrow>
     cl_is_taken (tc_config_lock l) \<and> \<not> cl_is_notify_pending (tc_config_lock l) \<and>
     cl_session_id (tc_config_lock l) = sid \<and> cl_config_id (tc_config_lock l) = cid"

text \<open>While a commit or an abort runs, the configuration session cannot be released.\<close>

definition committing :: "TcLock \<Rightarrow> bool" where
  "committing l \<longleftrightarrow> isWriteHeld (tc_rwlock l) \<and> needs_config (w_operation (tc_rwlock l))"

lemma release_steps:
  assumes "config_held sid cid l" "\<not> committing l"
  shows "ReleaseLock sid cid TC_RELEASE_CONFIG_SESSION w l = (TC_LOCK_SUCCESS, lock_releasing l)"
    "NotifyConfigIdSessionIdDone cid sid TC_NOTIFY_RELEASE (lock_releasing l) = (TC_LOCK_SUCCESS, lock_released l)"
  using assms
  by (auto simp: ReleaseLock_def ReleaseConfigLock_def NotifyConfigIdSessionIdDone_def lock_releasing_def
      lock_released_def config_held_def committing_def needs_config_def Let_def)

text \<open>The state of the request for the release while the lock is \<open>l\<close>.\<close>

definition releasing :: "u32 \<Rightarrow> u32 \<Rightarrow> TcLock \<Rightarrow> opst \<Rightarrow> bool" where
  "releasing sid cid l s \<longleftrightarrow>
     op_session_id s = sid \<and> op_config_id s = cid \<and> op_oper s = TC_OP_CONFIG_RELEASE \<and> op_ssess s = None \<and> op_lock s = l"

lemma releasing_same: "releasing sid cid l s \<Longrightarrow> same_request s s' \<Longrightarrow> releasing sid cid l s'"
  by (simp add: releasing_def same_request_def)

lemma releasing_update [simp]:
  "releasing sid cid l (s\<lparr>op_phase := ph\<rparr>) = releasing sid cid l s"
  "releasing sid cid l (s\<lparr>op_msgs := ms\<rparr>) = releasing sid cid l s"
  by (simp_all add: releasing_def)

lemma release_Execute:
  assumes "releasing sid cid l s" "op_msgs s = [MSG_NOTIFY_CONFIGID]"
  shows "owp (vt_Execute (Config_vt env) s) (\<lambda>r s'. releasing sid cid l s' \<and> op_phase s' = op_phase s)"
proof -
  have run: "owp (op_run_msg env m s) (\<lambda>r s'. releasing sid cid l s' \<and> op_phase s' = op_phase s)" for m
    by (rule owp_mono [OF op_run_msg_same]) (use assms(1) in \<open>auto elim: releasing_same simp: same_request_def\<close>)
  have fill: "Config_FillTcMsgData env oper m s = Some ((TC_OPER_SUCCESS, TcMsgNotifyConfigId_SetData 0 m), s)" for oper m
    using assms(1) by (simp add: Config_FillTcMsgData_def releasing_def)
  show ?thesis
    unfolding Config_vt_def oper_vt.simps Execute_def assms(2) execute_loop.simps fill
    by (intro owp_rules owp_mono [OF run]) (use assms in auto)
qed

lemma release_notify:
  assumes "idle env" "releasing sid cid (lock_releasing l) s" "config_held sid cid l" "\<not> committing l"
  shows "owp (vt_TcReleaseExclusion (Config_vt env) s)
    (\<lambda>r s'. r = TC_OPER_SUCCESS \<and> releasing sid cid (lock_released l) s')"
  using assms release_steps(2) [OF assms(3,4)]
  by (auto simp: Config_vt_def Config_TcReleaseExclusion_def op_lock_step_def releasing_def Config_lock_status_def Let_def)

lemma release_answer:
  "releasing sid cid l s \<Longrightarrow> vt_SendResponse (Config_vt env) st s = Some (st, s)"
  by (simp add: Config_vt_def SendResponse_def releasing_def)

lemma releasing_HandleConfigRelease [simp]: "releasing sid cid l (HandleConfigRelease s) = releasing sid cid l s"
  by (simp add: HandleConfigRelease_def SetConfigModeAvailability_def releasing_def Let_def split: option.splits)

lemma releasing_lock: "releasing sid cid l s \<Longrightarrow> op_lock s = l" "releasing sid cid l s \<Longrightarrow> op_lock (HandleConfigRelease s) = l"
  using releasing_HandleConfigRelease [of sid cid l s] unfolding releasing_def by blast+

lemma release_finish:
  assumes "idle env" "releasing sid cid (lock_releasing l) s" "op_msgs s = []"
    "config_held sid cid l" "\<not> committing l"
  shows "owp (config_finish env s) (\<lambda>r s'. op_lock s' = lock_released l)"
proof -
  let ?vt = "Config_vt env"
  let ?Q = "\<lambda>r s'. op_lock s' = lock_released l"
  note notify = release_notify [OF assms(1) _ assms(4,5)]
  have oper: "op_oper s1 = TC_OP_CONFIG_RELEASE" if "releasing sid cid l1 s1" for l1 s1
    using that by (simp add: releasing_def)
  have finish: "owp (phase ?vt RELEASE_EXCLUSION_PHASE (vt_TcReleaseExclusion ?vt)
      (\<lambda>s. vt_SendResponse ?vt TC_OPER_SUCCESS (if op_oper s = TC_OP_CONFIG_RELEASE then HandleConfigRelease s else s)) s1) ?Q"
    if "releasing sid cid (lock_releasing l) s1" for s1
    unfolding phase_def
  proof (intro owp_bind owp_mono [OF notify])
    fix r s2
    assume "r = TC_OPER_SUCCESS \<and> releasing sid cid (lock_released l) s2"
    with release_answer [of sid cid "lock_released l" "HandleConfigRelease s2" env TC_OPER_SUCCESS]
    show "owp (if r \<noteq> TC_OPER_SUCCESS then RevokeOperation ?vt r s2 else vt_SendResponse ?vt TC_OPER_SUCCESS
        (if op_oper s2 = TC_OP_CONFIG_RELEASE then HandleConfigRelease s2 else s2)) ?Q"
      using oper by (auto simp: releasing_lock)
  qed (use that in simp)
  have revoke: "owp (RevokeOperation ?vt st s1) ?Q"
    if "releasing sid cid (lock_releasing l) s1" "op_phase s1 = EXECUTE_PHASE" for st s1
    unfolding RevokeOperation_def that(2) TcOperEnum.case
    by (intro owp_bind owp_mono [OF notify]) (use that(1) in \<open>auto simp: release_answer releasing_def\<close>)
  have execute: "owp (phase ?vt EXECUTE_PHASE (vt_Execute ?vt) (phase ?vt RELEASE_EXCLUSION_PHASE (vt_TcReleaseExclusion ?vt)
      (\<lambda>s. vt_SendResponse ?vt TC_OPER_SUCCESS (if op_oper s = TC_OP_CONFIG_RELEASE then HandleConfigRelease s else s))) s1) ?Q"
    if "releasing sid cid (lock_releasing l) s1" "op_msgs s1 = [MSG_NOTIFY_CONFIGID]" for s1
    unfolding phase_def [of _ EXECUTE_PHASE]
    by (intro owp_bind owp_if revoke finish owp_mono [OF release_Execute]) (use that in auto)
  have "vt_TcCreateMsgList ?vt (s\<lparr>op_phase := CREATE_MSG_LIST\<rparr>) =
      Some (TC_OPER_SUCCESS, s\<lparr>op_phase := CREATE_MSG_LIST, op_msgs := [MSG_NOTIFY_CONFIGID]\<rparr>)"
    using assms(3) by (simp add: Config_vt_def Config_TcCreateMsgList_def)
  with assms(2) show ?thesis
    by (simp add: config_finish_def Let_def phase_def [of _ CREATE_MSG_LIST] execute)
qed

lemma release_config_for_releases:
  assumes "idle env" "config_held sid cid (op_lock s)" "\<not> committing (op_lock s)"
  shows "owp (release_config_for env sid cid s) (\<lambda>r s'. op_lock s' = lock_released (op_lock s))"
proof -
  let ?c = "(TcOperations_new False (op_lock s) (op_stat s) (op_hist s) None (op_channels s))
      \<lparr>op_session_id := sid, op_config_id := cid, op_oper := TC_OP_CONFIG_RELEASE\<rparr>"
  have c: "op_ssess ?c = None" "op_oper ?c = TC_OP_CONFIG_RELEASE" by (simp_all add: TcOperations_new_def)
  let ?g = "(interfere env (?c\<lparr>op_phase := GET_EXCLUSION_PHASE\<rparr>))\<lparr>op_lock := lock_releasing (op_lock s)\<rparr>"
  have get: "vt_TcGetExclusion (Config_vt env) (?c\<lparr>op_phase := GET_EXCLUSION_PHASE\<rparr>) = Some (TC_OPER_SUCCESS, ?g)"
    using assms release_steps(1) [OF assms(2,3)]
    by (simp add: Config_vt_def Config_TcGetExclusion_def op_lock_step_def Config_lock_status_def TcOperations_new_def Let_def)
  have "releasing sid cid (lock_releasing (op_lock s)) ?g" "op_msgs ?g = []" "op_oper ?g = TC_OP_CONFIG_RELEASE"
    by (auto simp: releasing_def TcOperations_new_def interfere_def split: prod.splits)
  then have "owp (Config_Dispatch env ?c) (\<lambda>r s'. op_lock s' = lock_released (op_lock s))"
    unfolding Config_release_dispatch [OF c]
    using release_finish [OF assms(1) _ _ assms(2,3)] get by (simp add: phase_def [of _ GET_EXCLUSION_PHASE])
  then show ?thesis
    unfolding release_config_for_def by (intro owp_bind) (rule owp_mono, assumption, simp)
qed

text \<open>C7: The configuration session of a user who went away during a commit or an abort is not lost: if the
  session was marked while the operation ran, the end of the operation gives the write lock back and
  then releases the configuration session as well, whether or not UPLL and UPPL could be told of it,
  and the mark is gone.\<close>

theorem lost_session_is_released:
  assumes "idle env" "holds_write sid (Cand_wop s) (op_lock s)" "op_session_id s = sid"
    "config_held sid (op_config_id s) (op_lock s)" "GetMarkedSessionId (op_lock s) = sid"
  shows "\<exists>r s'. Cand_TcReleaseExclusion env s = Some (r, s') \<and> cfg_abs (op_lock s') = CfgFree \<and>
    GetMarkedSessionId (op_lock s') = 0 \<and> \<not> isWriteHeld (tc_rwlock (op_lock s'))"
proof -
  let ?l = "(op_lock s)\<lparr>tc_rwlock := drop_write (tc_rwlock (op_lock s))\<rparr>"
  let ?s1 = "(interfere env s)\<lparr>op_lock := ?l\<rparr>"
  let ?s2 = "interfere env ?s1"
  have free: "config_held sid (op_config_id s) ?l" "\<not> isWriteHeld (tc_rwlock ?l)"
    using assms(4) by (simp_all add: config_held_def drop_write_free)
  have "ReleaseLock sid (op_config_id s) TC_RELEASE_WRITE_SESSION (Cand_wop s) (op_lock s) = (TC_LOCK_SUCCESS, ?l)"
    using assms(2) by (simp add: ReleaseLock_def ReleaseWriteLock_eq)
  then have run: "Cand_TcReleaseExclusion env s = release_config_for env sid (op_config_id s) ?s2"
    using assms(1,3,5) by (simp add: Cand_TcReleaseExclusion_def op_lock_step_def GetMarkedSessionId_def Let_def)
  have "owp (release_config_for env sid (op_config_id s) ?s2) (\<lambda>r s'. op_lock s' = lock_released ?l)"
    using release_config_for_releases [OF assms(1), of sid "op_config_id s" ?s2] free assms(1) by (simp add: committing_def)
  from twp_owp [OF release_config_for_returns this] obtain r s' where
    "Cand_TcReleaseExclusion env s = Some (r, s')" "op_lock s' = lock_released ?l"
    unfolding run twp_def by blast
  then show ?thesis
    using free assms(4,5)
    by (intro exI [of _ r] exI [of _ s'])
      (auto simp: lock_released_def cfg_abs_def GetMarkedSessionId_def config_held_def Let_def)
qed

text \<open>Session 5 commits, and is marked during the commit; the transport is down.\<close>

definition dead_env :: ipc_env where
  "dead_env = good_env\<lparr>altopen := \<lambda>_. (1, 0)\<rparr>"

definition demo_lost :: opst where
  "demo_lost = (demo_request (snd (TcMarkSessionId 5 (demo_lock True []))) [])
     \<lparr>op_session_id := 5, op_config_id := 1, op_oper := TC_OP_CANDIDATE_COMMIT\<rparr>"

theorem lost_session_is_released_witness:
  "\<exists>r s'. Cand_TcReleaseExclusion (demo_env dead_env) demo_lost = Some (r, s') \<and> cfg_abs (op_lock s') = CfgFree \<and>
    GetMarkedSessionId (op_lock s') = 0 \<and> \<not> isWriteHeld (tc_rwlock (op_lock s'))"
proof (rule lost_session_is_released)
  show "idle (demo_env dead_env)" by (simp add: idle_def demo_env_def)
  show "holds_write 5 (Cand_wop demo_lost) (op_lock demo_lost)" by code_simp
  show "op_session_id demo_lost = 5" by code_simp
  show "config_held 5 (op_config_id demo_lost) (op_lock demo_lost)" by code_simp
  show "GetMarkedSessionId (op_lock demo_lost) = 5" by code_simp
qed

section \<open>Requests in a foreign name\<close>

definition config_owner :: "u32 \<Rightarrow> u32 \<Rightarrow> TcLock \<Rightarrow> bool" where
  "config_owner sid cid l \<longleftrightarrow>
     GetUncCurrentState l = TC_ACT \<and> cl_is_taken (tc_config_lock l) \<and>
     cl_session_id (tc_config_lock l) = sid \<and> cl_config_id (tc_config_lock l) = cid"

lemma foreign_HandleArgs:
  assumes "idle env" "op_ssess s = Some ss" "ss_args ss = [IpcU32 oper, IpcU32 sid, IpcU32 cid]"
    "\<not> config_owner sid cid (op_lock s)"
  shows "owp (vt_HandleArgs (Cand_vt env) s) (\<lambda>r s'. r \<noteq> TC_OPER_SUCCESS \<and> op_lock s' = op_lock s \<and>
    op_phase s' = op_phase s \<and> invokes (op_hist s') = invokes (op_hist s))"
proof -
  have ids: "GetConfigIdSessionId (Some 0) (Some 0) (op_lock s) =
      (if GetUncCurrentState (op_lock s) \<noteq> TC_ACT then (TC_LOCK_INVALID_UNC_STATE, Some 0, Some 0)
       else if cl_is_taken (tc_config_lock (op_lock s))
       then (TC_LOCK_SUCCESS, Some (cl_session_id (tc_config_lock (op_lock s))), Some (cl_config_id (tc_config_lock (op_lock s))))
       else (TC_LOCK_NO_CONFIG_SESSION_EXIST, Some 0, Some 0))"
    by (simp add: GetConfigIdSessionId_def GetUncCurrentState_def)
  show ?thesis
    using assms
    by (auto simp: Cand_vt_def HandleArgs_def check_def GetOperType_def GetSessionId_def srv_get_uint32_def
        Cand_TcValidateOperType_def Cand_TcCheckOperArgCount_def Cand_TcValidateOperParams_def set_srv_timeout_def
        op_GetConfigIdSessionId_def ids config_owner_def Cand_HandleLockRet_def util_status_def Let_def)
qed

lemma refused_answer:
  assumes "st \<noteq> TC_OPER_SUCCESS"
  shows "owp (Cand_SendResponse env st s) (\<lambda>r s'. r \<noteq> TC_OPER_SUCCESS \<and> answered s s')"
proof -
  have respond: "owp (Cand_respond env st s) (\<lambda>r s'. r \<noteq> TC_OPER_SUCCESS \<and> answered s s')" for s
    unfolding Cand_respond_def Let_def
    by (intro owp_rules) (use assms in \<open>auto split: option.splits dest: op_forward_answered\<close>)
  show ?thesis
    unfolding Cand_SendResponse_def Let_def
    by (intro owp_rules owp_mono [OF respond])
      (use assms in \<open>auto dest!: set_response_answered, (blast intro: answered_trans)+\<close>)
qed

text \<open>Only the holder of the configuration can commit or abort. A request whose session and
  configuration identifiers are not those of the configuration session, or that comes while the
  coordinator is not active, is refused: it returns an error, no daemon is invoked and the lock is
  as it was.\<close>

theorem foreign_commit_refused:
  assumes "idle env" "op_ssess s = Some ss" "ss_args ss = [IpcU32 oper, IpcU32 sid, IpcU32 cid]"
    "\<not> config_owner sid cid (op_lock s)"
  shows "\<exists>r s'. Dispatch (Cand_vt env) s = Some (r, s') \<and> r \<noteq> TC_OPER_SUCCESS \<and>
    op_lock s' = op_lock s \<and> invokes (op_hist s') = invokes (op_hist s)"
proof -
  let ?s = "s\<lparr>op_phase := INPUT_VALIDATION\<rparr>"
  obtain r1 s1 where 1: "vt_HandleArgs (Cand_vt env) ?s = Some (r1, s1)"
    using Cand_HandleArgs_returns [of env ?s] by auto
  have f: "r1 \<noteq> TC_OPER_SUCCESS" "op_lock s1 = op_lock s" "op_phase s1 = INPUT_VALIDATION"
    "invokes (op_hist s1) = invokes (op_hist s)"
    using owpD [OF foreign_HandleArgs 1] assms by simp_all
  obtain r s' where 2: "Cand_SendResponse env r1 s1 = Some (r, s')"
    using Cand_SendResponse_returns [of env r1 s1] by auto
  have "Dispatch (Cand_vt env) s = Some (r, s')"
    using 1 2 f by (simp add: Dispatch_def phase_def RevokeOperation_def) (simp add: Cand_vt_def)
  with owpD [OF refused_answer [OF f(1)] 2] f answered_invokes [of s1 s'] show ?thesis
    by (auto simp: answered_def)
qed

theorem foreign_commit_refused_witness:
  "\<exists>r s'. Dispatch (Cand_vt (demo_env good_env))
      (demo_request demo_config_lock [IpcU32 TC_OP_CANDIDATE_COMMIT, IpcU32 6, IpcU32 1]) = Some (r, s') \<and>
    r \<noteq> TC_OPER_SUCCESS \<and> op_lock s' = demo_config_lock \<and> invokes (op_hist s') = []"
proof -
  let ?s = "demo_request demo_config_lock [IpcU32 TC_OP_CANDIDATE_COMMIT, IpcU32 6, IpcU32 1]"
  have s: "op_lock ?s = demo_config_lock" "op_hist ?s = []" "op_ssess ?s = Some
      \<lparr>ss_args = [IpcU32 TC_OP_CANDIDATE_COMMIT, IpcU32 6, IpcU32 1], ss_out = []\<rparr>"
    by (simp_all add: demo_request_def TcOperations_new_def)
  have "\<not> config_owner 6 1 demo_config_lock" by code_simp
  moreover have "idle (demo_env good_env)" by (simp add: idle_def demo_env_def)
  ultimately show ?thesis
    using foreign_commit_refused [of "demo_env good_env" ?s _ TC_OP_CANDIDATE_COMMIT 6 1] s by simp
qed

section \<open>The queue of waiting requests\<close>

text \<open>What a queue of waiting sessions promises: first come, first served, and a session can leave.\<close>

locale waiting_queue =
  fixes waiting :: "'q \<Rightarrow> u32 list"
    and insert_req remove_req :: "u32 \<Rightarrow> 'q \<Rightarrow> 'q"
    and retrieve_req :: "'q \<Rightarrow> (u32 \<times> bool) option"
  assumes insert_last: "waiting (insert_req s q) = waiting q @ [s]"
    and remove_one: "waiting (remove_req s q) = remove1 s (waiting q)"
    and retrieve_first: "map_option fst (retrieve_req q) = (case waiting q of [] \<Rightarrow> None | s # _ \<Rightarrow> Some s)"
begin

text \<open>A request that leaves does not change the order of the others.\<close>

lemma others_keep_order:
  "distinct (waiting q) \<Longrightarrow> waiting (remove_req s q) = filter (\<lambda>x. x \<noteq> s) (waiting q)"
  by (simp add: remove_one distinct_remove1_removeAll removeAll_filter_not_eq)
    (rule filter_cong, auto)

lemma insert_retrieve:
  "map_option fst (retrieve_req (insert_req s q)) = Some (if waiting q = [] then s else hd (waiting q))"
  by (cases "waiting q") (simp_all add: retrieve_first insert_last)

lemma insert_remove: "s \<notin> set (waiting q) \<Longrightarrow> waiting (remove_req s (insert_req s q)) = waiting q"
  by (simp add: remove_one insert_last remove1_append)

end

definition waiting_sessions :: "TcStatics \<Rightarrow> u32 list" where
  "waiting_sessions st = map fst (config_req_queue st)"

lemma erase_first_waiting: "map fst (erase_first s ws) = remove1 s (map fst ws)"
  by (induction ws) auto

interpretation req: waiting_queue waiting_sessions InsertConfigRequest RemoveConfigRequest RetrieveConfigRequest
  by unfold_locales
    (auto simp: waiting_sessions_def InsertConfigRequest_def RemoveConfigRequest_def RetrieveConfigRequest_def
      erase_first_waiting split: list.splits)

end
