(* ===== verification/TC_DbProps.thy ===== *)
theory TC_DbProps
  imports TC_OperLogic
begin

text \<open>
  The recovery table keeps what is written to it. The statements that the handler prints are read
  back by the database; \<open>recovery_assignment\<close> is the meaning of an update statement and the
  hypothesis \<open>recovery_store\<close> says that a later fetch returns what the last successful update
  assigned. That the printed text has the intended meaning is proved.
\<close>

section \<open>The meaning of an update statement\<close>

definition is_digit :: "char \<Rightarrow> bool" where
  "is_digit c \<longleftrightarrow> 48 \<le> (of_char c :: nat) \<and> (of_char c :: nat) \<le> 57"

definition number_of :: "string \<Rightarrow> nat" where
  "number_of ds = foldl (\<lambda>n c. 10 * n + (of_char c - 48)) 0 ds"

definition sql_number :: "string \<Rightarrow> (nat \<times> string) option" where
  "sql_number q =
     (let ds = takeWhile is_digit q in if ds = [] then None else Some (number_of ds, dropWhile is_digit q))"

definition sql_word :: "string \<Rightarrow> string \<Rightarrow> string option" where
  "sql_word w q = (if take (length w) q = w then Some (drop (length w) q) else None)"

definition recovery_assignment :: "string \<Rightarrow> (nat \<times> nat \<times> nat) option" where
  "recovery_assignment q =
     do { q \<leftarrow> sql_word ''UPDATE TC_RECOVERY_TABLE SET database='' q;
          (d, q) \<leftarrow> sql_number q;
          q \<leftarrow> sql_word '',operation='' q;
          (oper, q) \<leftarrow> sql_number q;
          q \<leftarrow> sql_word '',failover_instance='' q;
          (f, q) \<leftarrow> sql_number q;
          if q = '',date_time=CURRENT_TIMESTAMP WHERE database >= 0;'' then Some (d, oper, f) else None }"

section \<open>Printing and reading numbers\<close>

lemma of_char_digit: "n < 10 \<Longrightarrow> (of_char (char_of (48 + n) :: char) :: nat) = 48 + n"
  by simp

lemma is_digit_char_of [simp]: "n < 10 \<Longrightarrow> is_digit (char_of (48 + n :: nat))"
  by (simp add: is_digit_def)

lemma decimal_digits: "list_all is_digit (decimal n)"
proof (induction n rule: decimal.induct)
  case (1 n)
  then show ?case by (subst decimal.simps) auto
qed

lemma decimal_nonempty [simp]: "decimal n \<noteq> []"
  by (subst decimal.simps) simp

lemma number_of_snoc: "number_of (ds @ [c]) = 10 * number_of ds + (of_char c - 48)"
  by (simp add: number_of_def)

lemma number_of_decimal [simp]: "number_of (decimal n) = n"
proof (induction n rule: decimal.induct)
  case (1 n)
  show ?case
  proof (cases "n < 10")
    case True
    then show ?thesis by (subst decimal.simps) (simp add: number_of_def of_char_digit)
  next
    case False
    then have "number_of (decimal n) = 10 * number_of (decimal (n div 10)) + n mod 10"
      by (subst decimal.simps) (simp add: number_of_snoc of_char_digit)
    with 1 False show ?thesis by simp
  qed
qed

lemma length_decimal: "n < 10 ^ k \<Longrightarrow> k > 0 \<Longrightarrow> length (decimal n) \<le> k"
proof (induction k arbitrary: n)
  case (Suc k)
  show ?case
  proof (cases "n < 10")
    case True
    then show ?thesis by (subst decimal.simps) simp
  next
    case False
    with Suc.prems have "k > 0" "n div 10 < 10 ^ k" by (cases k; simp add: less_mult_imp_div_less)+
    with Suc.IH False show ?thesis by (subst decimal.simps) simp
  qed
qed simp

lemma inttostr_small:
  assumes "unat x < 1000"
  shows "inttostr x = decimal (unat x)"
proof -
  have "uint x < 1000" using assms by (metis of_nat_less_iff of_nat_numeral uint_nat)
  moreover have "- (2 ^ (32 - 1)) \<le> uint x" by (rule order.trans [OF _ uint_ge_0]) simp
  ultimately have s: "sint x = uint x"
    unfolding sint_uint by (intro signed_take_bit_int_eq_self) simp_all
  have "length (decimal (unat x)) \<le> 3" using length_decimal [of "unat x" 3] assms by simp
  then show ?thesis by (simp add: inttostr_def print_d_def s)
qed

lemma sql_number_decimal:
  assumes "rest = [] \<or> \<not> is_digit (hd rest)"
  shows "sql_number (decimal n @ rest) = Some (n, rest)"
proof -
  have d: "\<forall>c\<in>set (decimal n). is_digit c" using decimal_digits [of n] by (simp add: list_all_iff)
  have "takeWhile is_digit rest = []" "dropWhile is_digit rest = rest" using assms by (cases rest; auto)+
  with d show ?thesis by (simp add: sql_number_def Let_def takeWhile_append2 dropWhile_append2)
qed

lemma sql_word_append [simp]: "sql_word w (w @ q) = Some q"
  by (simp add: sql_word_def)

text \<open>Reading an update statement inverts printing it, for values of at most three digits.\<close>

lemma recovery_assignment_query:
  assumes "unat d < 1000" "unat oper < 1000" "unat f < 1000"
  shows "recovery_assignment (update_recovery_query d oper f) = Some (unat d, unat oper, unat f)"
  by (simp add: recovery_assignment_def update_recovery_query_def inttostr_small assms
      sql_word_def sql_number_decimal is_digit_def)

text \<open>Four digits do not fit into the buffer: the last one is lost.\<close>

lemma recovery_counter_truncated:
  "update_recovery_query d oper 1000 = update_recovery_query d oper 100"
proof -
  have "inttostr 1000 = inttostr 100" by code_simp
  then show ?thesis by (simp add: update_recovery_query_def)
qed

section \<open>The table as a store\<close>

text \<open>A statement that changes the recovery table and succeeded.\<close>

definition recovery_write :: "tc_event \<Rightarrow> bool" where
  "recovery_write e =
     (case e of
        EvSql q ok \<Rightarrow> ok \<and> (sql_word ''UPDATE TC_RECOVERY_TABLE'' q \<noteq> None \<or> sql_word ''INSERT INTO TC_RECOVERY_TABLE'' q \<noteq> None)
      | _ \<Rightarrow> False)"

definition last_write :: "history \<Rightarrow> tc_event option" where
  "last_write h = (case filter recovery_write (rev h) of [] \<Rightarrow> None | e # _ \<Rightarrow> Some e)"

text \<open>
  What the database promises: when the last change of the recovery table was an update, a fetch
  after the select statement finds a row, and the row has the values that the update assigned.
\<close>

definition recovery_store :: "odbc_env \<Rightarrow> bool" where
  "recovery_store env \<longleftrightarrow>
     (\<forall>h q d oper f. last_write h = Some (EvSql q True) \<and> recovery_assignment q = Some (d, oper, f) \<longrightarrow>
        odbc_ret env (h @ [EvSql get_recovery_query True]) \<noteq> SQL_NO_DATA \<and>
        odbc_ints env (h @ [EvSql get_recovery_query True]) = (Some (int d), Some (int oper), Some (int f)))"

lemma last_write_append: "list_all (\<lambda>e. \<not> recovery_write e) new \<Longrightarrow> last_write (h @ new) = last_write h"
proof (induction new rule: rev_induct)
  case (snoc e new)
  then show ?case by (simp add: last_write_def flip: append_assoc)
qed simp

lemma last_write_here: "recovery_write e \<Longrightarrow> last_write (h @ [e]) = Some e"
  by (simp add: last_write_def)

text \<open>Reading uses statements that write nothing.\<close>

definition read_event :: "tc_event \<Rightarrow> bool" where
  "read_event e \<longleftrightarrow> \<not> recovery_write e"

lemma read_select [simp]: "\<not> recovery_write (EvSql (select_query attribute table_name) ok)"
  "\<not> recovery_write EvOdbc" "\<not> recovery_write (EvSql get_recovery_query ok)"
  by (simp_all add: recovery_write_def select_query_def sql_word_def get_recovery_query_def)

lemma update_writes: "recovery_write (EvSql (update_recovery_query d oper f) True)"
  by (simp add: recovery_write_def update_recovery_query_def sql_word_def)

lemma IsRowExists_reads: "last_write (snd (run_state (IsRowExists env table_name attribute) h)) = last_write h"
proof -
  let ?p = "IsRowExists env table_name attribute"
  have "db_uses {select_query attribute table_name} ?p" by (intro db_rules) simp
  then obtain new where new: "snd (run_state ?p h) = h @ new" "list_all (db_event {select_query attribute table_name}) new"
    unfolding db_uses_def by blast
  from new(2) have "list_all (\<lambda>e. \<not> recovery_write e) new"
    by (rule list.pred_mono_strong) (auto simp: db_event_def split: tc_event.splits)
  with new(1) show ?thesis by (simp add: last_write_append)
qed

lemma run_odbc_call [simp]: "run_state (odbc_call env) h = (odbc_ret env h, h @ [EvOdbc])"
  by (simp add: odbc_call_def)

lemma run_odbc_exec [simp]: "run_state (odbc_exec env q) h = (odbc_ret env h, h @ [EvSql q (sql_ok (odbc_ret env h))])"
  by (simp add: odbc_exec_def)

text \<open>An update that succeeds is the last change of the table; its values are those the check admits.\<close>

lemma valid_attributes_small:
  "ValidateAuditDBAttributes d oper = Some TCOPER_RET_SUCCESS \<Longrightarrow> unat d < 1000 \<and> unat oper < 1000"
  by (auto simp: ValidateAuditDBAttributes_def split: if_splits)

lemma UpdateRecoveryTable_success:
  assumes "run_state (UpdateRecoveryTable env d oper f) h = (Some TCOPER_RET_SUCCESS, h')"
  shows "last_write h' = Some (EvSql (update_recovery_query d oper f) True)"
    "ValidateAuditDBAttributes d oper = Some TCOPER_RET_SUCCESS"
  using assms last_write_here [OF update_writes, of "snd (run_state (IsRowExists env RECOVERY_TABLE ''database'') h) @ [EvOdbc]"]
  by (auto simp: UpdateRecoveryTable_def split: prod.splits if_splits option.splits)

text \<open>A successful read, of a table whose last change was an update, returns the values of the update.\<close>

lemma GetRecoveryTable_success:
  assumes "recovery_store env" "last_write h = Some (EvSql (update_recovery_query d oper f) True)"
    "ValidateAuditDBAttributes d oper = Some TCOPER_RET_SUCCESS" "unat f < 1000"
    "run_state (GetRecoveryTable env d0 oper0 f0) h = ((TCOPER_RET_SUCCESS, r), h')"
  shows "r = (d, oper, f)"
proof -
  let ?row = "IsRowExists env RECOVERY_TABLE ''database''"
  let ?h = "snd (run_state ?row h) @ [EvOdbc, EvOdbc, EvOdbc, EvOdbc]"
  let ?q = "?h @ [EvSql get_recovery_query True]"
  have "last_write ?h = Some (EvSql (update_recovery_query d oper f) True)"
    using assms(2) by (simp add: last_write_append IsRowExists_reads)
  moreover have "recovery_assignment (update_recovery_query d oper f) = Some (unat d, unat oper, unat f)"
    using valid_attributes_small [OF assms(3)] assms(4) by (simp add: recovery_assignment_query)
  ultimately have "odbc_ret env ?q \<noteq> SQL_NO_DATA \<and>
      odbc_ints env ?q = (Some (uint d), Some (uint oper), Some (uint f))"
    using assms(1) unfolding recovery_store_def uint_nat by blast
  with assms(5) show ?thesis
    by (auto simp: GetRecoveryTable_def Let_def split: prod.splits if_splits)
qed


text \<open>A database that keeps the promise, for the witnesses.\<close>

definition store_odbc :: odbc_env where
  "store_odbc =
     \<lparr>odbc_ret = \<lambda>_. SQL_SUCCESS, odbc_rows = \<lambda>_. 1, odbc_text = \<lambda>_. Some ''f'',
      odbc_ints = \<lambda>h. (case last_write h of
          Some (EvSql q _) \<Rightarrow>
            (case recovery_assignment q of
               Some (d, oper, f) \<Rightarrow> (Some (int d), Some (int oper), Some (int f))
             | None \<Rightarrow> (None, None, None))
        | _ \<Rightarrow> (None, None, None))\<rparr>"

lemma store_odbc_store: "recovery_store store_odbc"
  by (simp add: recovery_store_def store_odbc_def last_write_append)


section \<open>The connection\<close>

text \<open>The handles of the database connection are both open or both closed. The constructor of the
  handler, at whatever step opening the connection fails, leaves no open handle behind; and closing
  an open connection reports success exactly if both handles have been given back.\<close>

theorem connection_all_or_none:
  "case OpenDBConnection env (d\<lparr>db_env := HNull, db_conn_handle := HNull\<rparr>, h) of (r, d', h') \<Rightarrow>
     if r = TCOPER_RET_SUCCESS
     then db_env d' = HLive \<and> db_conn_handle d' = HLive \<and>
       (case CloseDBConnection env2 (d', h2) of (r2, d2, h3) \<Rightarrow>
          (r2 = TCOPER_RET_SUCCESS) = (db_env d2 = HFreed \<and> db_conn_handle d2 = HFreed))
     else db_env d' \<noteq> HLive \<and> db_conn_handle d' \<noteq> HLive"
  by (auto simp: OpenDBConnection_def SetConnectionEnv_def CloseDBConnection_def Let_def split: prod.splits if_splits)

end
