(* ===== verification/TC_MsgNotify.thy ===== *)
theory TC_MsgNotify
  imports TC_MsgTrans
begin

text \<open>
  The contract that the simple messages of \<open>modules/tc/tcmsg.cc\<close> share, as a locale: the daemons of a
  list are asked one after the other, with the same arguments, up to the first that fails.
\<close>

section \<open>The notification loop\<close>

definition target :: "invocation \<Rightarrow> string \<times> TcLibServiceId \<times> ipc_val list" where
  "target i = (case i of (ch, svc, args, err, resp) \<Rightarrow> (ch, svc, args))"

definition told ::
  "TcMsg \<Rightarrow> (string \<times> TcLibServiceId \<times> ipc_val list) list \<Rightarrow> TcOperRet \<Rightarrow> TcMsg \<Rightarrow> bool" where
  "told m targets r m' \<longleftrightarrow>
     (\<exists>new. msg_invokes m' = msg_invokes m @ new \<and> map target new = take (length new) targets \<and>
        list_all inv_ok (butlast new) \<and>
        (r = TCOPER_RET_SUCCESS \<longrightarrow> length new = length targets \<and> list_all inv_ok new))"

lemma told_none: "msg_invokes m' = msg_invokes m \<Longrightarrow> r \<noteq> TCOPER_RET_SUCCESS \<Longrightarrow> told m ts r m'"
  by (simp add: told_def)

lemma told_last:
  "msg_invokes m' = msg_invokes m @ [i] \<Longrightarrow> target i = t \<Longrightarrow> r \<noteq> TCOPER_RET_SUCCESS \<Longrightarrow> told m (t # ts) r m'"
  by (auto simp: told_def)

lemma told_Cons:
  assumes "told m1 ts r m'" "msg_invokes m1 = msg_invokes m @ [i]" "target i = t" "inv_ok i"
  shows "told m (t # ts) r m'"
proof -
  from assms(1) obtain new where n: "msg_invokes m' = msg_invokes m1 @ new"
    "map target new = take (length new) ts" "list_all inv_ok (butlast new)"
    "r = TCOPER_RET_SUCCESS \<longrightarrow> length new = length ts \<and> list_all inv_ok new"
    by (auto simp: told_def)
  then show ?thesis
    unfolding told_def using assms(2-4) by (intro exI [of _ "i # new"]) auto
qed

text \<open>An invocation, with what is known when it fails.\<close>

lemma wp_msg_invoke_told:
  assumes "\<And>m' i resp. fixed m m' \<Longrightarrow> msg_invokes m' = msg_invokes m @ [i] \<Longrightarrow> Some (target i) = slot_id t m \<Longrightarrow>
      (inv_ok i \<longleftrightarrow> resp \<noteq> TC_FAILURE) \<Longrightarrow> Q (TCUTIL_RET_SUCCESS, resp) m'"
    "\<And>r resp m' i. fixed m m' \<Longrightarrow> r \<noteq> TCUTIL_RET_SUCCESS \<Longrightarrow> msg_invokes m' = msg_invokes m @ [i] \<Longrightarrow>
      Some (target i) = slot_id t m \<Longrightarrow> Q (r, resp) m'"
    "slot_id t m \<noteq> None"
  shows "wp (msg_invoke env t) Q m"
proof -
  obtain cs where cs: "slot_get t m = Some cs" using assms(3) by (auto simp: slot_id_def)
  obtain err resp vals where i: "invoke_res env (msg_history m) cs = (err, resp, vals)"
    by (cases "invoke_res env (msg_history m) cs")
  let ?i = "(cs_channel cs, cs_service cs, cs_args cs, err, resp)"
  have t: "Some (target ?i) = slot_id t m" by (simp add: target_def slot_id_def cs)
  show ?thesis
  proof (cases "err8 err")
    case True
    then show ?thesis using cs i
      by (simp add: wp_def msg_invoke_def tc_session_invoke_def)
        (rule assms(2) [OF _ _ _ t]; simp add: msg_invokes_def)
  next
    case False
    then have "inv_ok ?i \<longleftrightarrow> resp \<noteq> TC_FAILURE" by (simp add: inv_ok_def)
    with False show ?thesis using cs i
      by (simp add: wp_def msg_invoke_def tc_session_invoke_def)
        (rule assms(1) [OF _ _ t]; simp add: msg_invokes_def)
  qed
qed

lemma notify_loop_told:
  "resp \<noteq> TC_FAILURE \<Longrightarrow> wp (notify_loop env svc tmo retime close (Some vs) ds resp)
     (told m (map (\<lambda>d. (GetChannelName d m, svc, vs)) ds)) m"
proof (induction ds arbitrary: m resp retime)
  case Nil
  then show ?case by (auto simp: told_def intro!: wp_rules)
next
  case (Cons d ds)
  have step: "wp (notify_loop env svc tmo rt close (Some vs) ds resp')
      (told m ((GetChannelName d m, svc, vs) # map (\<lambda>d. (GetChannelName d m, svc, vs)) ds)) m2"
    if "msg_invokes m2 = msg_invokes m @ [i]" "target i = (GetChannelName d m, svc, vs)" "inv_ok i"
      "fixed m m2" "resp' \<noteq> TC_FAILURE" for m2 i resp' rt
    using that fixed_channel [OF that(4)] by (intro wp_mono [OF Cons.IH]) (auto intro: told_Cons)
  show ?case
    unfolding notify_loop.simps
    by (intro wp_bind wp_return wp_get wp_update wp_if wp_option wp_prod wp_msg_create wp_msg_sets
        wp_msg_timeout wp_msg_close wp_msg_invoke_told)
      (simp_all add: RespondToTc_def told_none, (fastforce intro: told_last | blast intro: step fixed_trans)+)
qed

section \<open>The contract of a notification\<close>

text \<open>
  \<open>valid\<close> is what the method requires of its message, \<open>targets\<close> is whom it asks for what.
\<close>

locale notification =
  fixes exec :: "ipc_env \<Rightarrow> TcOperRet msg_prog"
    and valid :: "TcMsg \<Rightarrow> bool"
    and targets :: "TcMsg \<Rightarrow> (string \<times> TcLibServiceId \<times> ipc_val list) list"
  assumes exec_told: "valid m \<Longrightarrow> wp (exec env) (told m (targets m)) m"
begin

lemma success_reaches_all:
  assumes "valid m" "run_state (exec env) m = (TCOPER_RET_SUCCESS, m')"
  shows "\<exists>new. msg_invokes m' = msg_invokes m @ new \<and> map target new = targets m \<and> list_all inv_ok new"
  using wpD [OF exec_told [OF assms(1)] assms(2)] by (auto simp: told_def)

lemma asks_in_order:
  assumes "valid m" "run_state (exec env) m = (r, m')"
  shows "\<exists>new. msg_invokes m' = msg_invokes m @ new \<and> map target new = take (length new) (targets m)"
  using wpD [OF exec_told [OF assms(1)] assms(2)] by (auto simp: told_def)

lemma stops_at_first_failure:
  assumes "valid m" "run_state (exec env) m = (r, m')"
  shows "\<exists>new. msg_invokes m' = msg_invokes m @ new \<and> list_all inv_ok (butlast new)"
  using wpD [OF exec_told [OF assms(1)] assms(2)] by (auto simp: told_def)

end

abbreviation upll_uppl :: "TcMsg \<Rightarrow> TcLibServiceId \<Rightarrow> ipc_val list \<Rightarrow> (string \<times> TcLibServiceId \<times> ipc_val list) list" where
  "upll_uppl m svc vs \<equiv> [(GetChannelName TC_UPLL m, svc, vs), (GetChannelName TC_UPPL m, svc, vs)]"

lemma told_notifyorder: "told (m\<lparr>msg_notifyorder := n\<rparr>) ts = told m ts"
  by (simp add: told_def fun_eq_iff)

lemma GetChannelName_update [simp]: "GetChannelName d (m\<lparr>msg_notifyorder := n\<rparr>) = GetChannelName d m"
  by (simp add: GetChannelName_def)

lemma notify_two_told:
  "wp (notify_loop env svc tmo retime close (Some vs) [d, d'] 0)
     (told m [(GetChannelName d m, svc, vs), (GetChannelName d' m, svc, vs)]) (m\<lparr>msg_notifyorder := n\<rparr>)"
  using notify_loop_told [of 0 env svc tmo retime close vs "[d, d']" "m\<lparr>msg_notifyorder := n\<rparr>"]
  by (simp add: told_notifyorder del: notify_loop.simps)

lemmas notify_unfold = push_notify_def Let_def

lemmas notify_intros = wp_bind wp_get wp_return wp_update wp_if notify_two_told

interpretation autosave: notification TcMsgAutoSave_Execute
  "\<lambda>m. msg_notifyorder m = [] \<and> (msg_opertype m = MSG_AUTOSAVE_ENABLE \<or> msg_opertype m = MSG_AUTOSAVE_DISABLE)"
  "\<lambda>m. upll_uppl m (if msg_opertype m = MSG_AUTOSAVE_ENABLE then TCLIB_AUTOSAVE_ENABLE else TCLIB_AUTOSAVE_DISABLE)
      [IpcU32 (msg_session_id m)]"
  by standard (auto simp: TcMsgAutoSave_Execute_def notify_unfold simp del: notify_loop.simps intro!: notify_intros)

interpretation setupmsg: notification TcMsgSetUp_Execute
  "\<lambda>m. msg_notifyorder m = [] \<and> (msg_opertype m = MSG_SETUP \<or> msg_opertype m = MSG_SETUP_COMPLETE)"
  "\<lambda>m. upll_uppl m (if msg_opertype m = MSG_SETUP then TCLIB_SETUP else TCLIB_SETUP_COMPLETE)
      [IpcU8 (if msg_autosave_enabled m then 1 else 0)]"
  by standard (auto simp: TcMsgSetUp_Execute_def notify_unfold simp del: notify_loop.simps intro!: notify_intros)

interpretation notifyid: notification TcMsgNotifyConfigId_Execute "\<lambda>m. msg_notifyorder m = []"
  "\<lambda>m. upll_uppl m TCLIB_NOTIFY_SESSION_CONFIG [IpcU32 (msg_session_id m), IpcU32 (msg_config_id m)]"
  by standard (auto simp: TcMsgNotifyConfigId_Execute_def notify_unfold simp del: notify_loop.simps intro!: notify_intros)

interpretation startup: notification TcMsgToStartupDB_Execute
  "\<lambda>m. msg_session_id m > 0 \<and> (msg_opertype m = MSG_SAVE_CONFIG \<or> msg_opertype m = MSG_CLEAR_CONFIG)"
  "\<lambda>m. upll_uppl m (if msg_opertype m = MSG_SAVE_CONFIG then TCLIB_SAVE_CONFIG else TCLIB_CLEAR_STARTUP)
      [IpcU32 (msg_session_id m)]"
  by standard (auto simp: TcMsgToStartupDB_Execute_def notify_unfold simp del: notify_loop.simps intro!: notify_intros)

interpretation abortcand: notification AbortCandidateDB_Execute
  "\<lambda>m. ids_valid m \<and> msg_notifyorder m = []"
  "\<lambda>m. upll_uppl m TCLIB_USER_ABORT [IpcU32 (msg_session_id m), IpcU32 (msg_config_id m)]"
  by standard (auto simp: AbortCandidateDB_Execute_def notify_unfold ids_valid_def simp del: notify_loop.simps intro!: notify_intros)

text \<open>Saving the running configuration, or clearing the startup configuration, reports success only
  after UPLL and then UPPL have carried out the request of this session, both without a failure.\<close>

theorem startup_success_reaches_both:
  assumes "msg_session_id m > 0" "msg_opertype m = MSG_SAVE_CONFIG \<or> msg_opertype m = MSG_CLEAR_CONFIG"
    "run_state (TcMsgToStartupDB_Execute env) m = (TCOPER_RET_SUCCESS, m')"
  shows "\<exists>new. msg_invokes m' = msg_invokes m @ new \<and> list_all inv_ok new \<and> map target new =
    upll_uppl m (if msg_opertype m = MSG_SAVE_CONFIG then TCLIB_SAVE_CONFIG else TCLIB_CLEAR_STARTUP)
      [IpcU32 (msg_session_id m)]"
  using startup.success_reaches_all [OF _ assms(3)] assms(1,2) by auto

theorem startup_success_reaches_both_witness:
  "fst (run_state (TcMsgToStartupDB_Execute good_env) (demo_msg MSG_SAVE_CONFIG)) = TCOPER_RET_SUCCESS \<and>
   (\<exists>new. msg_invokes (snd (run_state (TcMsgToStartupDB_Execute good_env) (demo_msg MSG_SAVE_CONFIG))) =
      msg_invokes (demo_msg MSG_SAVE_CONFIG) @ new \<and> list_all inv_ok new)"
proof -
  have d: "msg_session_id (demo_msg MSG_SAVE_CONFIG) > 0" "msg_opertype (demo_msg MSG_SAVE_CONFIG) = MSG_SAVE_CONFIG"
    by (simp_all add: demo_msg_def TcMsgCommit_SetData_def TcMsg_new_def)
  have "fst (run_state (TcMsgToStartupDB_Execute good_env) (demo_msg MSG_SAVE_CONFIG)) = TCOPER_RET_SUCCESS"
    by code_simp
  then show ?thesis
    using startup_success_reaches_both [OF d(1) disjI1 [OF d(2)]] by (metis prod.collapse)
qed

end
