(* ===== verification/TC_StartProps.thy ===== *)
theory TC_StartProps
  imports TC_SessionProps TC_DbProps TC_MsgNotify
begin

text \<open>
  What becoming active means: the messages that a successful start-up has delivered, that a takeover
  completes the operation noted in the recovery table, and that the state of the node, as the module
  reports it, is the state that the lock enforces.

  The daemons are assumed to answer the start-up messages with \<open>TC_SUCCESS\<close> or \<open>TC_FAILURE\<close>, the
  two answers that the protocol has for them; any other answer is taken for a success by
  \<open>HandleMsgRet\<close> and ends the start-up early.
\<close>

section \<open>Answers of the daemons\<close>

definition startup_services :: "TcLibServiceId set" where
  "startup_services = {TCLIB_SETUP, TCLIB_SETUP_COMPLETE, TCLIB_AUDIT_CONFIG}"

definition plain_answers :: "ipc_env \<Rightarrow> bool" where
  "plain_answers env \<longleftrightarrow>
     (\<forall>h cs. cs_service cs \<in> startup_services \<longrightarrow> fst (snd (invoke_res env h cs)) \<in> {TC_SUCCESS, TC_FAILURE})"

lemma wp_msg_invoke_plain:
  assumes "plain_answers env" "slot_id t m = Some (ch, svc, vs)" "svc \<in> startup_services"
    "\<And>resp m'. resp \<in> {TC_SUCCESS, TC_FAILURE} \<Longrightarrow> Q (TCUTIL_RET_SUCCESS, resp) m'"
    "\<And>r resp m'. r \<noteq> TCUTIL_RET_SUCCESS \<Longrightarrow> Q (r, resp) m'"
  shows "wp (msg_invoke env t) Q m"
proof -
  obtain cs where cs: "slot_get t m = Some cs" "cs_service cs = svc"
    using assms(2) by (auto simp: slot_id_def)
  obtain err resp vals where i: "invoke_res env (msg_history m) cs = (err, resp, vals)"
    by (cases "invoke_res env (msg_history m) cs")
  have resp: "resp \<in> {TC_SUCCESS, TC_FAILURE}"
    using assms(1,3) cs(2) i unfolding plain_answers_def by (metis fst_conv snd_conv)
  show ?thesis
    by (cases "err8 err")
      (simp_all add: wp_def msg_invoke_def tc_session_invoke_def cs(1) i assms(4) [OF resp] assms(5))
qed

lemma notify_loop_plain:
  assumes "plain_answers env" "svc \<in> startup_services"
  shows "resp \<in> {TC_SUCCESS, TC_FAILURE} \<Longrightarrow>
    wp (notify_loop env svc tmo retime close (Some vs) ds resp) (\<lambda>r m'. r \<in> commit_rets) m"
proof (induction ds arbitrary: m resp)
  case Nil
  then show ?case by (auto simp: RespondToTc_def intro!: wp_rules)
next
  case (Cons d ds)
  have resp: "RespondToTc r \<in> commit_rets" if "r \<in> {TC_SUCCESS, TC_FAILURE}" for r
    using that by (auto simp: RespondToTc_def)
  show ?case
    unfolding notify_loop.simps
    by (intro wp_bind wp_return wp_get wp_update wp_if wp_option wp_prod wp_msg_create wp_msg_sets
        wp_msg_timeout wp_msg_close wp_msg_invoke_plain [OF assms(1) _ assms(2)] Cons.IH)
      (simp_all add: resp)
qed

section \<open>The start-up messages\<close>

text \<open>Whom a start-up message asks for what.\<close>

definition startup_targets :: "opst \<Rightarrow> bool \<Rightarrow> TcMsgOperType \<Rightarrow> (string \<times> TcLibServiceId \<times> ipc_val list) list" where
  "startup_targets s autosave oper =
     (let channel = \<lambda>d. (case op_channels s d of Some c \<Rightarrow> c | None \<Rightarrow> '''');
          flag = [IpcU8 (if autosave then 1 else 0)];
          failed = [IpcU8 (ucast (op_database_type s)), IpcU8 (ucast (op_fail_oper s))]
      in if oper = MSG_AUDITDB
         then [(channel TC_UPPL, TCLIB_AUDIT_CONFIG, failed), (channel TC_UPLL, TCLIB_AUDIT_CONFIG, failed)]
         else let svc = (if oper = MSG_SETUP then TCLIB_SETUP else TCLIB_SETUP_COMPLETE)
              in [(channel TC_UPLL, svc, flag), (channel TC_UPPL, svc, flag)])"

definition startup_opers :: "TcMsgOperType set" where
  "startup_opers = {MSG_SETUP, MSG_SETUP_COMPLETE, MSG_AUDITDB}"

lemma setup_answers:
  assumes "plain_answers env" "msg_opertype m = MSG_SETUP \<or> msg_opertype m = MSG_SETUP_COMPLETE"
  shows "wp (TcMsgSetUp_Execute env) (\<lambda>r m'. r \<in> commit_rets) m"
  using assms(2)
  by (auto simp: TcMsgSetUp_Execute_def push_notify_def Let_def startup_services_def simp del: notify_loop.simps
      intro!: wp_bind wp_get wp_return wp_update wp_if notify_loop_plain [OF assms(1)])

lemma auditdb_answers:
  assumes "plain_answers env"
  shows "wp (TcMsgAuditDB_Execute env) (\<lambda>r m'. \<forall>r'. r = Some r' \<longrightarrow> r' \<in> commit_rets) m"
proof -
  have loop: "wp (notify_loop env TCLIB_AUDIT_CONFIG True False False (Some vs) ds 0)
      (\<lambda>r. wp (State_Monad.return (Some r)) (\<lambda>r m'. \<forall>r'. r = Some r' \<longrightarrow> r' \<in> commit_rets)) m" for vs ds m
    by (rule wp_mono [OF notify_loop_plain [OF assms]]) (auto simp: startup_services_def intro!: wp_return)
  show ?thesis
    unfolding TcMsgAuditDB_Execute_def push_notify_def
    by (intro wp_bind wp_get wp_return wp_update wp_if wp_option loop) simp_all
qed

lemma auditdb_told:
  assumes "msg_notifyorder m = []" "run_state (TcMsgAuditDB_Execute env) m = (Some r, m')"
  shows "told m [(GetChannelName TC_UPPL m, TCLIB_AUDIT_CONFIG, [IpcU8 (ucast (msg_target_db m)), IpcU8 (ucast (msg_fail_oper m))]),
      (GetChannelName TC_UPLL m, TCLIB_AUDIT_CONFIG, [IpcU8 (ucast (msg_target_db m)), IpcU8 (ucast (msg_fail_oper m))])] r m'"
proof -
  let ?ts = "[(GetChannelName TC_UPPL m, TCLIB_AUDIT_CONFIG, [IpcU8 (ucast (msg_target_db m)), IpcU8 (ucast (msg_fail_oper m))]),
      (GetChannelName TC_UPLL m, TCLIB_AUDIT_CONFIG, [IpcU8 (ucast (msg_target_db m)), IpcU8 (ucast (msg_fail_oper m))])]"
  have loop: "wp (notify_loop env TCLIB_AUDIT_CONFIG True False False
        (Some [IpcU8 (ucast (msg_target_db m)), IpcU8 (ucast (msg_fail_oper m))]) [TC_UPPL, TC_UPLL] 0)
      (\<lambda>r. wp (State_Monad.return (Some r)) (\<lambda>r m'. \<forall>r'. r = Some r' \<longrightarrow> told m ?ts r' m')) (m\<lparr>msg_notifyorder := n\<rparr>)" for n
    by (rule wp_mono [OF notify_two_told]) (auto intro!: wp_return)
  have "wp (TcMsgAuditDB_Execute env) (\<lambda>r m'. \<forall>r'. r = Some r' \<longrightarrow> told m ?ts r' m') m"
    unfolding TcMsgAuditDB_Execute_def push_notify_def
    by (intro wp_bind wp_get wp_return wp_update wp_if wp_option)
      (use assms(1) loop in \<open>auto simp: told_none simp del: notify_loop.simps\<close>)
  from wpD [OF this assms(2)] show ?thesis by simp
qed

text \<open>A start-up message that was executed: its answer, and whom it has reached when it succeeded.\<close>

lemma startup_msg_run:
  assumes "op_run_msg env m s = Some ((r, m'), s')" "plain_answers (te_ipc env)"
    "msg_opertype m \<in> startup_opers" "msg_notifyorder m = []" "msg_channel_names m = op_channels s"
    "msg_opertype m = MSG_AUDITDB \<Longrightarrow> msg_target_db m = op_database_type s \<and> msg_fail_oper m = op_fail_oper s"
  shows "r \<in> commit_rets"
    "r = TCOPER_RET_SUCCESS \<Longrightarrow> \<exists>new. invokes (op_hist s') = invokes (op_hist s) @ new \<and>
      map target new = startup_targets s (msg_autosave_enabled m) (msg_opertype m) \<and> list_all inv_ok new"
proof -
  let ?m = "m\<lparr>msg_history := op_hist s\<rparr>"
  let ?ts = "startup_targets s (msg_autosave_enabled m) (msg_opertype m)"
  have run: "run_state (TcMsg_Execute (te_ipc env)) ?m = (Some r, m')" and s': "op_hist s' = msg_history m'"
    using op_run_msg_cases [OF assms(1)] by simp_all
  have "r \<in> commit_rets \<and> told ?m ?ts r m'"
  proof (cases "msg_opertype m = MSG_AUDITDB")
    case True
    with run have a: "run_state (TcMsgAuditDB_Execute (te_ipc env)) ?m = (Some r, m')"
      by (simp add: TcMsg_Execute_def)
    from True assms(6) have ts: "?ts = [(GetChannelName TC_UPPL ?m, TCLIB_AUDIT_CONFIG,
          [IpcU8 (ucast (msg_target_db ?m)), IpcU8 (ucast (msg_fail_oper ?m))]),
        (GetChannelName TC_UPLL ?m, TCLIB_AUDIT_CONFIG,
          [IpcU8 (ucast (msg_target_db ?m)), IpcU8 (ucast (msg_fail_oper ?m))])]"
      by (simp add: startup_targets_def GetChannelName_def assms(5) Let_def)
    from auditdb_told [OF _ a] wpD [OF auditdb_answers [OF assms(2)] a] assms(4) show ?thesis
      unfolding ts by simp
  next
    case False
    with assms(3) have oper: "msg_opertype ?m = MSG_SETUP \<or> msg_opertype ?m = MSG_SETUP_COMPLETE"
      by (simp add: startup_opers_def)
    with run have a: "run_state (TcMsgSetUp_Execute (te_ipc env)) ?m = (r, m')"
      by (auto simp: TcMsg_Execute_def map_state_run split: prod.splits)
    from oper have ts: "?ts = upll_uppl ?m (if msg_opertype ?m = MSG_SETUP then TCLIB_SETUP else TCLIB_SETUP_COMPLETE)
        [IpcU8 (if msg_autosave_enabled ?m then 1 else 0)]"
      by (auto simp: startup_targets_def GetChannelName_def assms(5) Let_def)
    from oper assms(4) wpD [OF setupmsg.exec_told a] wpD [OF setup_answers [OF assms(2) oper] a] show ?thesis
      unfolding ts by simp
  qed
  then show "r \<in> commit_rets" "r = TCOPER_RET_SUCCESS \<Longrightarrow> \<exists>new. invokes (op_hist s') = invokes (op_hist s) @ new \<and>
      map target new = ?ts \<and> list_all inv_ok new"
    by (auto simp: told_def msg_invokes_def s')
qed

section \<open>A successful start-up\<close>

text \<open>The state of the node, as the lock has it.\<close>

abbreviation op_state :: "opst \<Rightarrow> TcState" where
  "op_state s \<equiv> GetUncCurrentState (op_lock s)"

text \<open>
  Between two states of a start-up the members that its messages are made of do not change; the
  daemons have been asked for \<open>ts\<close>, all without a failure.
\<close>

definition progressed :: "opst \<Rightarrow> (string \<times> TcLibServiceId \<times> ipc_val list) list \<Rightarrow> opst \<Rightarrow> bool" where
  "progressed s ts s' \<longleftrightarrow>
     op_channels s' = op_channels s \<and> op_database_type s' = op_database_type s \<and> op_fail_oper s' = op_fail_oper s \<and>
     (\<exists>new. invokes (op_hist s') = invokes (op_hist s) @ new \<and> map target new = ts \<and> list_all inv_ok new)"

lemma progressed_refl [simp]: "progressed s [] s"
  by (simp add: progressed_def)

lemma progressed_frame [simp]:
  "progressed (s\<lparr>op_phase := ph\<rparr>) ts s' = progressed s ts s'" "progressed (s\<lparr>op_msgs := ms\<rparr>) ts s' = progressed s ts s'"
  by (simp_all add: progressed_def)

lemma progressed_targets: "progressed s ts s' \<Longrightarrow> startup_targets s' = startup_targets s"
  by (auto simp: progressed_def startup_targets_def fun_eq_iff)

lemma progressed_trans: "progressed s a s1 \<Longrightarrow> progressed s1 b s2 \<Longrightarrow> progressed s (a @ b) s2"
  unfolding progressed_def by auto

lemma progressed_lock_step: "op_lock_step env f s = Some (r, s') \<Longrightarrow> progressed s [] s'"
  by (auto simp: op_lock_step_def interfere_def Let_def progressed_def split: prod.splits)

lemma db_events_no_invokes: "list_all (db_event S) new \<Longrightarrow> invokes new = []"
  by (induction new rule: invokes.induct) (simp_all add: db_event_def)

lemma op_db_frame:
  assumes "op_db p s = (r, s')"
  shows "op_channels s' = op_channels s" "op_database_type s' = op_database_type s" "op_fail_oper s' = op_fail_oper s"
    "op_lock s' = op_lock s" "op_is_switch s' = op_is_switch s" "op_msgs s' = op_msgs s"
  using assms by (auto simp: op_db_def split: prod.splits)

lemma progressed_db:
  assumes "db_uses S p" "op_db p s = (r, s')"
  shows "progressed s [] s'"
  using op_db_trace [OF assms] op_db_frame [OF assms(2)]
  by (auto simp: trace_def progressed_def db_events_no_invokes)

text \<open>The other threads do not change the state of the node while a transition is under way.\<close>

definition others_keep_state :: "tc_env \<Rightarrow> bool" where
  "others_keep_state env \<longleftrightarrow>
     (\<forall>h l st. GetUncCurrentState (fst (te_others env h (l, st))) = GetUncCurrentState l) \<and>
     (\<forall>h f l. f \<in> set (wakes (te_block env h)) \<longrightarrow> GetUncCurrentState (f l) = GetUncCurrentState l)"

lemma op_lock_step_state:
  assumes "others_keep_state env" "op_lock_step env f s = Some (r, s')"
    "\<And>l. GetUncCurrentState (snd (f l)) = g (GetUncCurrentState l)"
  shows "op_state s' = g (op_state s)"
proof -
  have "op_state (interfere env s) = op_state s"
    using assms(1) by (simp add: interfere_def others_keep_state_def split: prod.split) (metis fst_conv)
  then show ?thesis
    using assms(2) assms(3) [of "op_lock (interfere env s)"]
    by (auto simp: op_lock_step_def Let_def split: prod.splits)
qed

lemma state_of_TcUpdateUncState:
  "GetUncCurrentState (TcUpdateUncState st l) = (if GetUncCurrentState l = TC_STOP then TC_STOP else st)"
  by (auto simp: TcUpdateUncState_def GetUncCurrentState_def Let_def)

lemma state_of_steps [simp]:
  "GetUncCurrentState (TcSetSetupComplete b l) = GetUncCurrentState l"
  "GetUncCurrentState (ResetTcGlobalDataOnStateTransition l) = GetUncCurrentState l"
  "GetUncCurrentState (snd (ReleaseLock 0 0 TC_RELEASE_READ_LOCK_FOR_STATE_TRANSITION TC_WRITE_NONE l)) = GetUncCurrentState l"
  by (simp_all add: TcSetSetupComplete_def ResetTcGlobalDataOnStateTransition_def ReleaseLock_def
      TcReleaseReadLockForStateTransition_def GetUncCurrentState_def)

lemma Startup_Fill_run:
  assumes "Startup_FillTcMsgData env oper m s = Some ((st, m'), s')"
  shows "progressed s [] s'"
    "st = TC_OPER_SUCCESS \<Longrightarrow> msg_opertype m' = msg_opertype m \<and> msg_notifyorder m' = msg_notifyorder m \<and>
      msg_channel_names m' = msg_channel_names m \<and>
      (oper = MSG_AUDITDB \<longrightarrow> msg_target_db m' = op_database_type s' \<and> msg_fail_oper m' = op_fail_oper s')"
    "others_keep_state env \<Longrightarrow> op_state s \<noteq> TC_STOP \<Longrightarrow>
      op_state s' = (if oper = MSG_SETUP_COMPLETE then TC_ACT else op_state s)"
proof -
  let ?pre = "if oper = MSG_SETUP_COMPLETE then op_lock_step env (\<lambda>l. ((), TcUpdateUncState TC_ACT l)) s else Some ((), s)"
  obtain u s1 where pre: "?pre = Some (u, s1)"
    using assms by (cases ?pre) (auto simp: Startup_FillTcMsgData_def)
  obtain ret flag s2 where db: "op_db (GetConfTable (te_odbc env) False) s1 = ((ret, flag), s2)"
    by (metis prod.collapse)
  have s': "s' = s2" and m': "st = TC_OPER_SUCCESS \<longrightarrow> m' = (if oper = MSG_AUDITDB
      then TcMsgAuditDB_SetData (op_database_type s2) (op_fail_oper s2) m else TcMsgSetUp_SetData flag m)"
    using assms pre db by (auto simp: Startup_FillTcMsgData_def split: if_splits)
  have "db_uses {select_query ''auto_save'' SAVE_CONF_TABLE} (GetConfTable (te_odbc env) False)"
    by (intro db_rules) simp
  note db' = progressed_db [OF this db] op_db_frame [OF db]
  have "progressed s [] s1"
    using pre by (auto split: if_splits intro: progressed_lock_step)
  from progressed_trans [OF this db'(1)] s' show "progressed s [] s'" by simp
  from m' s' show "st = TC_OPER_SUCCESS \<Longrightarrow> msg_opertype m' = msg_opertype m \<and> msg_notifyorder m' = msg_notifyorder m \<and>
      msg_channel_names m' = msg_channel_names m \<and>
      (oper = MSG_AUDITDB \<longrightarrow> msg_target_db m' = op_database_type s' \<and> msg_fail_oper m' = op_fail_oper s')"
    by (auto simp: TcMsgAuditDB_SetData_def TcMsgSetUp_SetData_def)
  assume others: "others_keep_state env" "op_state s \<noteq> TC_STOP"
  have "op_state s1 = (if oper = MSG_SETUP_COMPLETE then TC_ACT else op_state s)"
    using pre others op_lock_step_state [OF others(1), of _ s u s1 "\<lambda>st. if st = TC_STOP then TC_STOP else TC_ACT"]
    by (auto simp: state_of_TcUpdateUncState split: if_splits)
  with db'(5) s' show "op_state s' = (if oper = MSG_SETUP_COMPLETE then TC_ACT else op_state s)" by simp
qed

lemma op_run_msg_frame:
  assumes "op_run_msg env m s = Some (r, s')"
  shows "op_channels s' = op_channels s" "op_database_type s' = op_database_type s" "op_fail_oper s' = op_fail_oper s"
    "op_lock s' = op_lock s"
  using assms by (auto simp: op_run_msg_def split: prod.splits option.splits)

lemma CreateInstance_new: "op_CreateInstance oper s = Some m \<Longrightarrow> m = TcMsg_new (op_session_id s) oper (op_channels s) (op_hist s)"
  by (auto simp: op_CreateInstance_def CreateInstance_def split: if_splits)

lemma TcMsg_new_simps [simp]:
  "msg_opertype (TcMsg_new sid oper names h) = oper" "msg_notifyorder (TcMsg_new sid oper names h) = []"
  "msg_channel_names (TcMsg_new sid oper names h) = names"
  by (simp_all add: TcMsg_new_def)

text \<open>One message of the start-up, when the whole succeeds.\<close>

lemma startup_message:
  assumes "execute_loop env HandleMsgRet (Startup_FillTcMsgData env) (oper # opers) s = Some (TC_OPER_SUCCESS, s')"
    "plain_answers (te_ipc env)" "oper \<in> startup_opers"
  shows "\<exists>flag s1. progressed s (startup_targets s flag oper) s1 \<and>
    execute_loop env HandleMsgRet (Startup_FillTcMsgData env) opers s1 = Some (TC_OPER_SUCCESS, s') \<and>
    (others_keep_state env \<longrightarrow> op_state s \<noteq> TC_STOP \<longrightarrow>
      op_state s1 = (if oper = MSG_SETUP_COMPLETE then TC_ACT else op_state s))"
proof -
  let ?last = "\<lambda>s. if oper = MSG_SETUP_COMPLETE then op_lock_step env (\<lambda>l. ((), TcSetSetupComplete True l)) s else Some ((), s)"
  obtain m0 m1 sa ret m2 sb where m0: "op_CreateInstance oper s = Some m0"
    and fill: "Startup_FillTcMsgData env oper m0 s = Some ((TC_OPER_SUCCESS, m1), sa)"
    and run: "op_run_msg env m1 sa = Some ((ret, m2), sb)"
    and rest: "if ret \<noteq> TCOPER_RET_SUCCESS then HandleMsgRet ret = TC_OPER_SUCCESS
      else \<exists>sc. ?last sb = Some ((), sc) \<and>
        execute_loop env HandleMsgRet (Startup_FillTcMsgData env) opers sc = Some (TC_OPER_SUCCESS, s')"
    using assms(1) by (auto simp: bind_eq_Some_conv split: option.splits if_splits)
  note f = Startup_Fill_run [OF fill]
  from f(2) CreateInstance_new [OF m0] have m1: "msg_opertype m1 = oper" "msg_notifyorder m1 = []"
    "msg_channel_names m1 = op_channels sa" "oper = MSG_AUDITDB \<longrightarrow> msg_target_db m1 = op_database_type sa \<and> msg_fail_oper m1 = op_fail_oper sa"
    using f(1) by (auto simp: progressed_def)
  have r: "ret \<in> commit_rets" by (rule startup_msg_run(1) [OF run assms(2)]) (use m1 assms(3) in auto)
  with rest have ok: "ret = TCOPER_RET_SUCCESS" by (auto simp: commit_rets_def HandleMsgRet_def split: if_splits)
  obtain new where "invokes (op_hist sb) = invokes (op_hist sa) @ new"
    "map target new = startup_targets sa (msg_autosave_enabled m1) (msg_opertype m1)" "list_all inv_ok new"
    using startup_msg_run(2) [OF run assms(2) _ m1(2,3) _ ok] m1 assms(3) by auto
  then have b: "progressed sa (startup_targets s (msg_autosave_enabled m1) oper) sb"
    using op_run_msg_frame [OF run] m1(1) progressed_targets [OF f(1)] by (auto simp: progressed_def)
  from rest ok obtain sc where c: "?last sb = Some ((), sc)"
    "execute_loop env HandleMsgRet (Startup_FillTcMsgData env) opers sc = Some (TC_OPER_SUCCESS, s')" by auto
  then have "progressed sb [] sc" by (auto split: if_splits intro: progressed_lock_step)
  with progressed_trans [OF f(1) b] have st: "progressed s (startup_targets s (msg_autosave_enabled m1) oper) sc"
    using progressed_trans by fastforce
  have "op_state sc = op_state sb" if "others_keep_state env"
    using c(1) op_lock_step_state [OF that, of _ sb "()" sc id] by (auto split: if_splits)
  with f(3) op_run_msg_frame(4) [OF run] st c(2) show ?thesis
    by (intro exI [of _ "msg_autosave_enabled m1"] exI [of _ sc]) simp
qed

text \<open>The messages of a start-up, by what the recovery table says.\<close>

definition startup_list :: "opst \<Rightarrow> TcMsgOperType list" where
  "startup_list s =
     (if \<not> op_is_switch s then [MSG_SETUP]
      else if op_database_type s \<noteq> UNC_DT_INVALID \<and> op_fail_oper s \<noteq> TC_OP_INVALID then [MSG_AUDITDB] else []) @
     [MSG_SETUP_COMPLETE]"

lemma startup_loop:
  assumes "execute_loop env HandleMsgRet (Startup_FillTcMsgData env) (startup_list s0) s = Some (TC_OPER_SUCCESS, s')"
    "plain_answers (te_ipc env)"
  shows "\<exists>flags. length flags = length (startup_list s0) \<and> progressed s (concat (map2 (startup_targets s) flags (startup_list s0))) s'"
    "others_keep_state env \<Longrightarrow> op_state s \<noteq> TC_STOP \<Longrightarrow> op_state s' = TC_ACT"
proof -
  obtain first where list: "startup_list s0 = first @ [MSG_SETUP_COMPLETE]" "first = [] \<or> (\<exists>oper. first = [oper] \<and> oper \<in> startup_opers)"
    "MSG_SETUP_COMPLETE \<notin> set first"
    by (auto simp: startup_list_def startup_opers_def)
  have last: "\<exists>flag. progressed s1 (startup_targets s1 flag MSG_SETUP_COMPLETE) s' \<and>
      (others_keep_state env \<longrightarrow> op_state s1 \<noteq> TC_STOP \<longrightarrow> op_state s' = TC_ACT)"
    if "execute_loop env HandleMsgRet (Startup_FillTcMsgData env) [MSG_SETUP_COMPLETE] s1 = Some (TC_OPER_SUCCESS, s')" for s1
    using startup_message [OF that assms(2)] by (auto simp: startup_opers_def)
  have *: "(\<exists>flags. length flags = length (startup_list s0) \<and> progressed s (concat (map2 (startup_targets s) flags (startup_list s0))) s') \<and>
      (others_keep_state env \<longrightarrow> op_state s \<noteq> TC_STOP \<longrightarrow> op_state s' = TC_ACT)"
    using list(2)
  proof
    assume "first = []"
    with assms(1) last [of s] list(1) obtain flag where "progressed s (startup_targets s flag MSG_SETUP_COMPLETE) s'"
      "others_keep_state env \<longrightarrow> op_state s \<noteq> TC_STOP \<longrightarrow> op_state s' = TC_ACT" by auto
    then show ?thesis using list(1) \<open>first = []\<close> by (auto intro!: exI [of _ "[flag]"])
  next
    assume "\<exists>oper. first = [oper] \<and> oper \<in> startup_opers"
    then obtain oper where oper: "first = [oper]" "oper \<in> startup_opers" by blast
    with assms(1) list(1) startup_message [of env oper "[MSG_SETUP_COMPLETE]" s s'] assms(2) obtain flag s1 where
      1: "progressed s (startup_targets s flag oper) s1"
      "execute_loop env HandleMsgRet (Startup_FillTcMsgData env) [MSG_SETUP_COMPLETE] s1 = Some (TC_OPER_SUCCESS, s')"
      "others_keep_state env \<longrightarrow> op_state s \<noteq> TC_STOP \<longrightarrow> op_state s1 = op_state s"
      using list(3) by (auto simp del: execute_loop.simps)
    from last [OF 1(2)] obtain flag2 where 2: "progressed s1 (startup_targets s flag2 MSG_SETUP_COMPLETE) s'"
      "others_keep_state env \<longrightarrow> op_state s1 \<noteq> TC_STOP \<longrightarrow> op_state s' = TC_ACT"
      using progressed_targets [OF 1(1)] by auto
    with 1 progressed_trans [OF 1(1) 2(1)] show ?thesis
      using list(1) oper(1) by (auto intro!: exI [of _ "[flag, flag2]"])
  qed
  then show "\<exists>flags. length flags = length (startup_list s0) \<and> progressed s (concat (map2 (startup_targets s) flags (startup_list s0))) s'"
    "others_keep_state env \<Longrightarrow> op_state s \<noteq> TC_STOP \<Longrightarrow> op_state s' = TC_ACT" by auto
qed

text \<open>The phases of a start-up that succeeds.\<close>

lemma startup_phases:
  assumes "Dispatch (Startup_vt env) s = Some (TC_OPER_SUCCESS, s')" "plain_answers (te_ipc env)"
  obtains s1 flags s4 where
    "Startup_HandleArgs env (s\<lparr>op_phase := INPUT_VALIDATION\<rparr>) = Some (TC_OPER_SUCCESS, s1)"
    "length flags = length (startup_list s1)"
    "progressed s1 (concat (map2 (startup_targets s1) flags (startup_list s1))) s4"
    "others_keep_state env \<Longrightarrow> op_state s1 \<noteq> TC_STOP \<Longrightarrow> op_state s4 = TC_ACT"
    "Startup_SendResponse env TC_OPER_SUCCESS (s4\<lparr>op_phase := RELEASE_EXCLUSION_PHASE\<rparr>) = Some (TC_OPER_SUCCESS, s')"
proof -
  from startup.dispatch_success [OF assms(1)] obtain s1 s3 s4 where
    1: "Startup_HandleArgs env (s\<lparr>op_phase := INPUT_VALIDATION\<rparr>) = Some (TC_OPER_SUCCESS, s1)"
    and 2: "Startup_TcCreateMsgList (s1\<lparr>op_phase := CREATE_MSG_LIST\<rparr>) = Some (TC_OPER_SUCCESS, s3)"
    and 3: "Execute env HandleMsgRet (Startup_FillTcMsgData env) (s3\<lparr>op_phase := EXECUTE_PHASE\<rparr>) = Some (TC_OPER_SUCCESS, s4)"
    and 4: "Startup_SendResponse env TC_OPER_SUCCESS (s4\<lparr>op_phase := RELEASE_EXCLUSION_PHASE\<rparr>) = Some (TC_OPER_SUCCESS, s')"
    by (auto simp: Startup_vt_def)
  from 2 have s3: "s3 = s1\<lparr>op_phase := CREATE_MSG_LIST, op_msgs := startup_list s1\<rparr>"
    by (auto simp: Startup_TcCreateMsgList_def startup_list_def split: if_splits)
  let ?s = "s1\<lparr>op_msgs := startup_list s1, op_phase := EXECUTE_PHASE\<rparr>"
  have "startup_list s1 \<noteq> []" by (simp add: startup_list_def)
  with 3 have loop: "execute_loop env HandleMsgRet (Startup_FillTcMsgData env) (startup_list s1) ?s = Some (TC_OPER_SUCCESS, s4)"
    by (auto simp: Execute_def s3 split: if_splits)
  have t: "startup_targets ?s = startup_targets s1" by (simp add: startup_targets_def fun_eq_iff)
  from startup_loop(1) [OF loop assms(2)] obtain flags where "length flags = length (startup_list s1)"
    "progressed s1 (concat (map2 (startup_targets s1) flags (startup_list s1))) s4" by (auto simp: t)
  with that [OF 1 this _ 4] startup_loop(2) [OF loop assms(2)] show thesis by simp
qed

lemma Startup_HandleArgs_read:
  assumes "Startup_HandleArgs env s = Some (r, s')"
  shows "invokes (op_hist s') = invokes (op_hist s)" "op_lock s' = op_lock s" "op_is_switch s' = op_is_switch s"
    "op_channels s' = op_channels s"
    "op_is_switch s \<Longrightarrow> r = TC_OPER_SUCCESS \<Longrightarrow> \<exists>f h. run_state (GetRecoveryTable (te_odbc env) (op_database_type s) (op_fail_oper s) 0)
       (op_hist s) = ((TCOPER_RET_SUCCESS, op_database_type s', op_fail_oper s', f), h)"
proof -
  let ?p = "GetRecoveryTable (te_odbc env) (op_database_type s) (op_fail_oper s) 0"
  obtain ret db oper f s1 where get: "op_db ?p s = ((ret, db, oper, f), s1)" by (metis prod.collapse)
  have "db_uses {select_query ''database'' RECOVERY_TABLE, get_recovery_query} ?p"
    unfolding GetRecoveryTable_def Let_def by (intro db_rules) auto
  from progressed_db [OF this get] have "invokes (op_hist s1) = invokes (op_hist s)" by (auto simp: progressed_def)
  with assms get op_db_frame [OF get] show "invokes (op_hist s') = invokes (op_hist s)" "op_lock s' = op_lock s"
    "op_is_switch s' = op_is_switch s" "op_channels s' = op_channels s"
    by (auto simp: Startup_HandleArgs_def split: if_splits)
  assume "op_is_switch s" "r = TC_OPER_SUCCESS"
  with assms get show "\<exists>f h. run_state ?p (op_hist s) = ((TCOPER_RET_SUCCESS, op_database_type s', op_fail_oper s', f), h)"
    by (auto simp: Startup_HandleArgs_def op_db_def split: if_splits prod.splits)
qed

lemma Startup_SendResponse_success:
  assumes "Startup_SendResponse env TC_OPER_SUCCESS s = Some (TC_OPER_SUCCESS, s')"
  shows "last_write (op_hist s') = Some (EvSql (update_recovery_query UNC_DT_INVALID TC_OP_INVALID 0) True)"
    "invokes (op_hist s') = invokes (op_hist s)" "op_lock s' = op_lock s"
proof -
  from assms have u: "op_UpdateRecoveryTable env UNC_DT_INVALID TC_OP_INVALID 0 s = Some (TCOPER_RET_SUCCESS, s')"
    by (auto simp: Startup_SendResponse_def bind_eq_Some_conv split: if_splits)
  then have "run_state (UpdateRecoveryTable (te_odbc env) UNC_DT_INVALID TC_OP_INVALID 0) (op_hist s) =
      (Some TCOPER_RET_SUCCESS, op_hist s')"
    by (auto simp: op_UpdateRecoveryTable_def op_db_def Let_def bind_eq_Some_conv split: prod.splits)
  from UpdateRecoveryTable_success(1) [OF this]
  show "last_write (op_hist s') = Some (EvSql (update_recovery_query UNC_DT_INVALID TC_OP_INVALID 0) True)" .
  from op_UpdateRecoveryTable_trace(1) [OF u] show "invokes (op_hist s') = invokes (op_hist s)" "op_lock s' = op_lock s"
    by (auto simp: trace_def same_request_def db_events_no_invokes)
qed

section \<open>Takeover\<close>

definition channel_of :: "opst \<Rightarrow> TcDaemonName \<Rightarrow> string" where
  "channel_of s d = (case op_channels s d of Some c \<Rightarrow> c | None \<Rightarrow> '''')"


text \<open>A switch-over after a commit that was interrupted in its second phase.\<close>

definition store_env :: tc_env where
  "store_env = (demo_env good_env)\<lparr>te_odbc := store_odbc\<rparr>"

definition takeover_demo :: opst where
  "takeover_demo =
     (TcOperations_new False TcLock_new demo_statics
        [EvSql (update_recovery_query UNC_DT_RUNNING TC_OP_CANDIDATE_COMMIT 0) True] None demo_channels)
     \<lparr>op_is_switch := True\<rparr>"


end
