(* ===== verification/TC_NodeProps.thy ===== *)
theory TC_NodeProps
  imports TC_StartProps
begin

text \<open>
  The state machine of the node (\<open>tc_unc_states.cc\<close>) over the handlers of the module: the states
  that events can reach, and that the state the module reports is the one the lock enforces.
\<close>

section \<open>The handlers of the transitions\<close>

lemma GetLock_transition_state:
  assumes "others_keep_state env" "enter_state_transition env s = Some (r, s')"
  shows "op_state s' = op_state s"
proof -
  have wait: "GetUncCurrentState l' = GetUncCurrentState l"
    if "transition_loop fs sid l = Some (r, l')" "\<forall>f\<in>set fs. \<forall>l. GetUncCurrentState (f l) = GetUncCurrentState l" for fs sid l l'
    using that
  proof (induction fs sid l rule: transition_loop.induct)
    case (2 f fs sid l)
    have "GetUncCurrentState (waitForRead f l) = GetUncCurrentState l"
      using "2.prems"(2) by (simp add: waitForRead_def Let_def) (simp add: GetUncCurrentState_def)
    with 2 show ?case by (auto simp: Let_def enter_transition_def split: if_splits) (simp add: GetUncCurrentState_def)
  qed (auto simp: enter_transition_def GetUncCurrentState_def split: if_splits)
  have "op_state (interfere env s) = op_state s"
    using assms(1) by (simp add: interfere_def others_keep_state_def split: prod.split) (metis fst_conv)
  moreover have "GetUncCurrentState l' = GetUncCurrentState l"
    if "GetLock (te_block env h) 0 TC_ACQUIRE_READ_LOCK_FOR_STATE_TRANSITION TC_WRITE_NONE l = Some (r, l')" for h l l'
    using that wait [of "wakes (te_block env h)" 0 l l'] assms(1)
    by (auto simp: GetLock_def TcAcquireReadLockForStateTransition_def others_keep_state_def Let_def split: if_splits)
  ultimately show ?thesis
    using assms(2) by (auto simp: enter_state_transition_def op_GetLock_def Let_def bind_eq_Some_conv)
qed

lemma leave_state:
  assumes "others_keep_state env" "leave_state_transition env s = Some (r, s')"
  shows "op_state s' = op_state s"
  using op_lock_step_state [OF assms(1), of _ s r s' id] assms(2) by (simp add: leave_state_transition_def)

lemma update_state:
  assumes "others_keep_state env" "op_lock_step env (\<lambda>l. ((), TcUpdateUncState st l)) s = Some (r, s')"
  shows "op_state s' = (if op_state s = TC_STOP then TC_STOP else st)"
  by (rule op_lock_step_state [OF assms]) (simp add: state_of_TcUpdateUncState)

lemma reset_state:
  assumes "others_keep_state env" "op_lock_step env (\<lambda>l. ((), ResetTcGlobalDataOnStateTransition l)) s = Some (r, s')"
  shows "op_state s' = op_state s"
  using op_lock_step_state [OF assms, of id] by simp

lemma setup_state:
  assumes "others_keep_state env" "op_lock_step env (\<lambda>l. ((), TcSetSetupComplete b l)) s = Some (r, s')"
  shows "op_state s' = op_state s"
  using op_lock_step_state [OF assms, of id] by simp

lemma HandleStart_state:
  assumes "others_keep_state env" "HandleStart env s = Some (True, s')" "op_state s \<noteq> TC_STOP"
  shows "op_state s' = TC_SBY"
  using assms
  by (auto simp: HandleStart_def bind_eq_Some_conv split: if_splits
      dest!: GetLock_transition_state [OF assms(1)] update_state [OF assms(1)] leave_state [OF assms(1)])

lemma HandleStop_state:
  assumes "others_keep_state env" "HandleStop env s = Some (r, s')"
  shows "op_state s' = TC_STOP" "r"
  using assms
  by (auto simp: HandleStop_def bind_eq_Some_conv split: if_splits
      dest!: update_state [OF assms(1)] reset_state [OF assms(1)])

text \<open>A start-up, successful or not, does not lead into the stopped state.\<close>

lemma startup_not_stopped:
  assumes "others_keep_state env" "op_state s \<noteq> TC_STOP"
  shows "owp (Dispatch (Startup_vt env) s) (\<lambda>r s'. op_state s' \<noteq> TC_STOP)"
proof -
  let ?I = "\<lambda>s. op_state s \<noteq> TC_STOP"
  have args: "owp (Startup_HandleArgs env s) (\<lambda>r. ?I)" if "?I s" for s
    using that Startup_HandleArgs_read(2) [of env s] by (auto simp: owp_def)
  have list: "owp (Startup_TcCreateMsgList s) (\<lambda>r. ?I)" if "?I s" for s
    using that by (simp add: Startup_TcCreateMsgList_def)
  have fill: "owp (Startup_FillTcMsgData env oper m s) (\<lambda>r. ?I)" if "?I s" for oper m s
    using that Startup_Fill_run(3) [of env oper m s _ _ _] assms(1) by (auto simp: owp_def split: if_splits)
  have loop: "owp (execute_loop env HandleMsgRet (Startup_FillTcMsgData env) opers s) (\<lambda>r. ?I)" if "?I s" for opers s
  proof (rule execute_loop_invariant [where P = ?I])
    fix m s
    assume "?I s"
    then show "owp (op_run_msg env m s) (\<lambda>r. ?I)" using op_run_msg_frame(4) [of env m s] by (auto simp: owp_def)
    show "owp (op_lock_step env (\<lambda>l. ((), TcSetSetupComplete True l)) s) (\<lambda>r. ?I)"
      using \<open>?I s\<close> by (intro owpI) (simp add: setup_state [OF assms(1)])
  qed (use that fill in auto)
  have exec: "owp (Execute env HandleMsgRet (Startup_FillTcMsgData env) s) (\<lambda>r. ?I)" if "?I s" for s
    using that loop by (simp add: Execute_def)
  have resp: "owp (Startup_SendResponse env st s) (\<lambda>r. ?I)" if "?I s" for st s
    unfolding Startup_SendResponse_def
    by (intro owp_rules owp_mono [OF UpdateRecovery_owp]) (use that in \<open>auto simp: same_request_def\<close>)
  have revoke: "owp (RevokeOperation (Startup_vt env) st s) (\<lambda>r. ?I)" if "?I s" for st s
    using that by (auto simp: RevokeOperation_def Startup_vt_def intro!: resp split: TcOperEnum.split)
  have ph: "owp (phase (Startup_vt env) ph f k s) (\<lambda>r. ?I)"
    if "?I s" "\<And>s. ?I s \<Longrightarrow> owp (f s) (\<lambda>r. ?I)" "\<And>s. ?I s \<Longrightarrow> owp (k s) (\<lambda>r. ?I)" for ph f k s
    unfolding phase_def by (intro owp_rules owp_mono [OF that(2)] revoke that(3)) (use that(1) in auto)
  show ?thesis
    unfolding Dispatch_def
    by (intro ph) (use assms(2) args list exec resp in \<open>auto simp: Startup_vt_def\<close>)
qed

text \<open>An activation that reports success has made the node active, or active with the failure noted.\<close>

lemma startup_success_state:
  assumes "Dispatch (Startup_vt env) s = Some (TC_OPER_SUCCESS, s')" "plain_answers (te_ipc env)"
    "others_keep_state env" "op_state s \<noteq> TC_STOP"
  shows "op_state s' = TC_ACT"
proof -
  obtain s1 s4 where
    args: "Startup_HandleArgs env (s\<lparr>op_phase := INPUT_VALIDATION\<rparr>) = Some (TC_OPER_SUCCESS, s1)"
    and act: "others_keep_state env \<Longrightarrow> op_state s1 \<noteq> TC_STOP \<Longrightarrow> op_state s4 = TC_ACT"
    and resp: "Startup_SendResponse env TC_OPER_SUCCESS (s4\<lparr>op_phase := RELEASE_EXCLUSION_PHASE\<rparr>) = Some (TC_OPER_SUCCESS, s')"
    by (rule startup_phases [OF assms(1,2)]) blast
  from Startup_HandleArgs_read(2) [OF args] assms(3,4) act Startup_SendResponse_success(3) [OF resp] show ?thesis by simp
qed

lemma count_audit_failure_state:
  assumes "count_audit_failure env n u s = Some (Some True, s')" "others_keep_state env" "op_state s \<noteq> TC_STOP"
  shows "op_state s' = TC_ACT_FAIL"
proof -
  let ?get = "op_db (GetRecoveryTable (te_odbc env) (op_database_type s) (op_fail_oper s) u) s"
  obtain db oper f s1 where 1: "?get = ((TCOPER_RET_SUCCESS, db, oper, f), s1)"
    using assms(1) by (cases ?get) (auto simp: count_audit_failure_def Let_def split: if_splits)
  from assms(1) 1 obtain r2 s2 r3 s3 r4 where
    2: "op_UpdateRecoveryTable env db oper (f + 1) (s1\<lparr>op_database_type := db, op_fail_oper := oper\<rparr>) = Some (r2, s2)"
    and 3: "op_lock_step env (\<lambda>l. ((), TcUpdateUncState TC_ACT_FAIL l))
        (snd (SendAuditDBFailNotice env (s2\<lparr>op_audit_db_fail := False\<rparr>))) = Some (r3, s3)"
    and 4: "leave_state_transition env s3 = Some (r4, s')"
    by (auto simp: count_audit_failure_def bind_eq_Some_conv Let_def split: if_splits)
  have "op_state s2 = op_state s"
    using op_UpdateRecoveryTable_trace(1) [OF 2] op_db_frame(4) [OF 1] by (simp add: trace_def same_request_def)
  then show ?thesis
    using update_state [OF assms(2) 3] leave_state [OF assms(2) 4] assms(3)
    by (simp add: SendAuditDBFailNotice_def Let_def)
qed

lemma HandleAct_state:
  assumes "HandleAct env n u dsn s = Some (True, s')" "plain_answers (te_ipc env)" "others_keep_state env" "op_state s \<noteq> TC_STOP"
  shows "op_state s' \<in> {TC_ACT, TC_ACT_FAIL}"
proof -
  let ?open = "\<lambda>s. s\<lparr>op_hist := snd (TcDbHandler_new (te_odbc env) dsn (op_hist s))\<rparr>"
  from assms(1) obtain s1 u2 s2 r3 s3 where 1: "enter_state_transition env s = Some (TC_LOCK_SUCCESS, s1)"
    and 2: "op_lock_step env (\<lambda>l. ((), ResetTcGlobalDataOnStateTransition l)) s1 = Some (u2, s2)"
    and 3: "Dispatch (Startup_vt env) (?open s2) = Some (r3, s3)"
    and rest: "if r3 \<noteq> TC_OPER_SUCCESS
      then \<exists>early s4. (if op_audit_db_fail s3 then count_audit_failure env n u s3 else Some (None, s3)) = Some (early, s4) \<and>
          early = Some True \<and> s' = s4
      else \<exists>r4. leave_state_transition env (s3\<lparr>op_stat := SetStateChangedToSby False (op_stat s3)\<rparr>) = Some (r4, s')"
    by (auto simp: HandleAct_def bind_eq_Some_conv Let_def split: if_splits option.splits)
  have s2: "op_state (?open s2) \<noteq> TC_STOP"
    using GetLock_transition_state [OF assms(3) 1] reset_state [OF assms(3) 2] assms(4) by simp
  have s3: "op_state s3 \<noteq> TC_STOP" by (rule owpD [OF startup_not_stopped [OF assms(3) s2] 3])
  show ?thesis
  proof (cases "r3 = TC_OPER_SUCCESS")
    case True
    from startup_success_state [OF _ assms(2,3) s2] 3 True have "op_state s3 = TC_ACT" by simp
    with True rest leave_state [OF assms(3), of "s3\<lparr>op_stat := SetStateChangedToSby False (op_stat s3)\<rparr>"] show ?thesis
      by auto
  next
    case False
    with rest have "count_audit_failure env n u s3 = Some (Some True, s')" by (auto split: if_splits)
    from count_audit_failure_state [OF this assms(3) s3] show ?thesis by simp
  qed
qed

section \<open>The state machine\<close>

text \<open>
  One event of the node. Between the events the requests and the posted tasks change the lock, the
  static members and the history; none of them calls \<open>TcUpdateUncState\<close>.
\<close>

inductive node_step :: "tc_env \<Rightarrow> TcModule \<Rightarrow> TcModule \<Rightarrow> bool" for env where
  start: "unc_start_event_handler_fn env ev m = Some m' \<Longrightarrow> node_step env m m'"
| stop: "unc_stop_event_handler_fn env ev m = Some m' \<Longrightarrow> node_step env m m'"
| act: "unc_act_event_handler_fn env ev m = Some m' \<Longrightarrow> node_step env m m'"
| work: "GetUncCurrentState l = GetUncCurrentState (tm_lock m) \<Longrightarrow>
    node_step env m (m\<lparr>tm_lock := l, tm_stat := st, tm_hist := h\<rparr>)"

inductive node_run :: "tc_env \<Rightarrow> TcModule \<Rightarrow> TcModule \<Rightarrow> bool" for env where
  refl: "node_run env m m"
| step: "node_run env m m1 \<Longrightarrow> node_step env m1 m2 \<Longrightarrow> node_run env m m2"

inductive_cases node_step_cases: "node_step env m m'"

text \<open>The state that the lock must have when the module reports a state.\<close>

definition agrees :: "TcModule \<Rightarrow> bool" where
  "agrees m \<longleftrightarrow>
     (case tm_state m of
        INIT \<Rightarrow> GetUncCurrentState (tm_lock m) = TC_INIT
      | SBY \<Rightarrow> GetUncCurrentState (tm_lock m) = TC_SBY
      | ACT \<Rightarrow> GetUncCurrentState (tm_lock m) \<in> {TC_ACT, TC_ACT_FAIL}
      | STOP \<Rightarrow> GetUncCurrentState (tm_lock m) = TC_STOP
      | FAILURE \<Rightarrow> True)"

lemma mod_oper_lock:
  assumes "mod_oper mk ss p m = Some ((r, s), m')" "\<And>s. op_lock (mk s) = op_lock s"
  obtains s0 where "p s0 = Some (r, s)" "op_lock s0 = tm_lock m" "tm_lock m' = op_lock s" "tm_state m' = tm_state m"
  using assms by (auto simp: mod_oper_def bind_eq_Some_conv TcOperations_new_def)

lemma start_agrees:
  assumes "unc_start_event_handler_fn env ev m = Some m'" "others_keep_state env" "agrees m"
  shows "agrees m'"
proof (cases "ev = PFC_EVTYPE_SYS_START \<and> tm_state m = INIT")
  case True
  then obtain ret s m1 where run: "mod_oper id None (HandleStart env) m = Some ((ret, s), m1)"
    and m': "m' = m1\<lparr>tm_state := (if ret then SBY else FAILURE)\<rparr>"
    using assms(1) by (auto simp: unc_start_event_handler_fn_def bind_eq_Some_conv)
  obtain s0 where "HandleStart env s0 = Some (ret, s)" "op_lock s0 = tm_lock m" "tm_lock m1 = op_lock s"
    by (rule mod_oper_lock [OF run]) simp_all
  with True assms(2,3) HandleStart_state [of env s0 s] show ?thesis by (cases ret) (auto simp: agrees_def m')
qed (use assms in \<open>auto simp: unc_start_event_handler_fn_def\<close>)

lemma stop_agrees:
  assumes "unc_stop_event_handler_fn env ev m = Some m'" "others_keep_state env" "agrees m"
  shows "agrees m'"
proof (cases "ev = PFC_EVTYPE_SYS_STOP \<and> tm_state m \<noteq> STOP")
  case True
  then obtain ret s m1 where run: "mod_oper id None (HandleStop env) m = Some ((ret, s), m1)"
    and m': "m' = m1\<lparr>tm_state := (if ret then STOP else FAILURE)\<rparr>"
    using assms(1) by (auto simp: unc_stop_event_handler_fn_def bind_eq_Some_conv)
  obtain s0 where "HandleStop env s0 = Some (ret, s)" "tm_lock m1 = op_lock s"
    by (rule mod_oper_lock [OF run]) simp_all
  with assms(2) HandleStop_state [of env s0 ret s] show ?thesis by (simp add: agrees_def m')
qed (use assms in \<open>auto simp: unc_stop_event_handler_fn_def\<close>)

lemma act_agrees:
  assumes "unc_act_event_handler_fn env ev m = Some m'" "others_keep_state env" "plain_answers (te_ipc env)" "agrees m"
  shows "agrees m'"
proof (cases "\<exists>is_switch. ev = CLSTAT_EVTYPE_ACT is_switch \<and> tm_state m = SBY")
  case True
  then obtain is_switch ret s m1 where run: "mod_oper (\<lambda>s. s\<lparr>op_is_switch := is_switch\<rparr>) None
      (HandleAct env (tm_max_failover_instance m) (tm_uninit_instance m) (tm_dsn_name m)) m = Some ((ret, s), m1)"
    and m': "m' = m1\<lparr>tm_state := (if ret then ACT else FAILURE)\<rparr>"
    using assms(1) by (auto simp: unc_act_event_handler_fn_def bind_eq_Some_conv)
  obtain s0 where act: "HandleAct env (tm_max_failover_instance m) (tm_uninit_instance m) (tm_dsn_name m) s0 = Some (ret, s)"
    "op_lock s0 = tm_lock m" "tm_lock m1 = op_lock s"
    by (rule mod_oper_lock [OF run]) simp_all
  from True assms(4) act(2) have "op_state s0 \<noteq> TC_STOP" by (auto simp: agrees_def)
  with act HandleAct_state [OF _ assms(3,2)] show ?thesis by (cases ret) (auto simp: agrees_def m')
qed (use assms in \<open>auto simp: unc_act_event_handler_fn_def split: unc_event.splits if_splits\<close>)

lemma node_step_agrees:
  assumes "node_step env m m'" "others_keep_state env" "plain_answers (te_ipc env)" "agrees m"
  shows "agrees m'"
  using assms(1)
proof cases
  case (work l st h)
  with assms(4) show ?thesis by (auto simp: agrees_def split: UncState.splits)
qed (use assms start_agrees stop_agrees act_agrees in blast)+


text \<open>A node that is started, told to be active and stopped.\<close>

definition demo_module :: TcModule where
  "demo_module =
     \<lparr>tm_lock = TcInitWRLock True TcLock_new, tm_stat = demo_statics, tm_channels = demo_channels, tm_read_q = True,
      tm_audit_q = True, tm_dsn_name = ''UNC_DB_DSN'', tm_max_failover_instance = 4, tm_simultaneous = True,
      tm_state = INIT, tm_uninit = False, tm_uninit_instance = 0, tm_hist = []\<rparr>"

definition demo_active :: "TcModule option" where
  "demo_active =
     do { m \<leftarrow> unc_start_event_handler_fn store_env PFC_EVTYPE_SYS_START demo_module;
          unc_act_event_handler_fn store_env (CLSTAT_EVTYPE_ACT False) m }"


text \<open>A stopped node stays stopped, a node becomes active only from standby, and standby is left
  only to become active, to stop or to fail: the states that a node passes through are those of
  the state machine.\<close>

theorem node_transitions:
  assumes "node_step env m m'" "tm_state m' \<noteq> tm_state m"
  shows "tm_state m \<noteq> STOP \<and> tm_state m' \<noteq> INIT \<and> (tm_state m' = ACT \<longrightarrow> tm_state m = SBY) \<and>
    (tm_state m' = SBY \<longrightarrow> tm_state m = INIT)"
  using assms
  by (cases rule: node_step.cases)
    (auto simp: unc_start_event_handler_fn_def unc_stop_event_handler_fn_def unc_act_event_handler_fn_def
      mod_oper_def bind_eq_Some_conv split: if_splits unc_event.splits)

theorem node_transitions_witness:
  "\<exists>m'. unc_start_event_handler_fn store_env PFC_EVTYPE_SYS_START demo_module = Some m' \<and> tm_state m' = SBY \<and>
     tm_state demo_module \<noteq> STOP"
proof -
  have "map_option tm_state (unc_start_event_handler_fn store_env PFC_EVTYPE_SYS_START demo_module) = Some SBY" by code_simp
  then obtain m' where run: "unc_start_event_handler_fn store_env PFC_EVTYPE_SYS_START demo_module = Some m'" "tm_state m' = SBY"
    by auto
  moreover have "tm_state demo_module = INIT" by (simp add: demo_module_def)
  ultimately show ?thesis using node_transitions [OF node_step.start [OF run(1)]] by simp
qed

end
