(* ===== verification/TC_MsgDecode.thy ===== *)
theory TC_MsgDecode
  imports TC_MsgCommit
begin

text \<open>
  The controller information that UPLL and UPPL send with their vote: decoding what a daemon encodes
  gives back, for every driver type, the controllers that were sent, merged with those known before.
\<close>

section \<open>The map from driver types to controllers\<close>

definition info_ok :: "(u32 \<times> string list) list \<Rightarrow> bool" where
  "info_ok info \<longleftrightarrow> sorted_wrt (<) (map fst info)"

definition controllers_of :: "(u32 \<times> string list) list \<Rightarrow> u32 \<Rightarrow> string set" where
  "controllers_of info k = (case map_of info k of None \<Rightarrow> {} | Some cs \<Rightarrow> set cs)"

lemma driverinfo_insert_keys: "set (map fst (driverinfo_insert k v info)) = insert k (set (map fst info))"
  by (induction info) auto

lemma driverinfo_insert_ok: "info_ok info \<Longrightarrow> info_ok (driverinfo_insert k v info)"
proof (induction info)
  case (Cons p ps)
  then show ?case
    using driverinfo_insert_keys [of k v ps] by (auto simp: info_ok_def)
qed (simp add: info_ok_def)

lemma map_of_insert:
  "map_of info k = None \<Longrightarrow> map_of (driverinfo_insert k v info) = (map_of info)(k \<mapsto> v)"
  by (induction info) (auto split: if_splits)

lemma map_of_erase: "map_of (driverinfo_erase k info) = (map_of info)(k := None)"
  by (induction info) (auto simp: driverinfo_erase_def)

lemma driverinfo_erase_ok: "info_ok info \<Longrightarrow> info_ok (driverinfo_erase k info)"
  by (auto simp: info_ok_def driverinfo_erase_def sorted_wrt_map intro: sorted_wrt_filter)

lemma set_list_merge [simp]: "set (list_merge xs ys) = set xs \<union> set ys"
  by (induction xs ys rule: list_merge.induct) auto

lemma sorted_list_merge: "sorted xs \<Longrightarrow> sorted ys \<Longrightarrow> sorted (list_merge xs ys)"
  by (induction xs ys rule: list_merge.induct) auto

lemma add_controllers_ok: "info_ok info \<Longrightarrow> info_ok (add_controllers k cs info)"
  by (auto simp: add_controllers_def driverinfo_insert_ok driverinfo_erase_ok split: option.split)

lemma controllers_of_add:
  "controllers_of (add_controllers k cs info) k' =
     (if k' = k then controllers_of info k \<union> set cs else controllers_of info k')"
  by (auto simp: add_controllers_def controllers_of_def map_of_insert map_of_erase split: option.split)

section \<open>Encoding and decoding\<close>

text \<open>What a daemon sends: the number of drivers, and for each its type, the number of its
  controllers and their names.\<close>

definition encode_driver :: "u8 \<times> string list \<Rightarrow> ipc_val list" where
  "encode_driver d = IpcU8 (fst d) # IpcU8 (of_nat (length (snd d))) # map (\<lambda>c. IpcStr (Some c)) (snd d)"

definition encode_info :: "(u8 \<times> string list) list \<Rightarrow> ipc_val list" where
  "encode_info ds = IpcU8 (of_nat (length ds)) # concat (map encode_driver ds)"

definition merge_info ::
  "(u8 \<times> string list) list \<Rightarrow> (u32 \<times> string list) list \<Rightarrow> (u32 \<times> string list) list" where
  "merge_info ds info = fold (\<lambda>d. add_controllers (ucast (fst d)) (snd d)) ds info"

lemma get_u8:
  assumes "cs_resp s = pre @ IpcU8 x # post" "length (cs_resp s) < 2 ^ 32"
  shows "clnt_get_uint8 (Some s) (of_nat (length pre)) = (TCUTIL_RET_SUCCESS, Some x)"
  using assms by (simp add: clnt_get_uint8_def unat_of_nat_small of_nat_lessI Let_def del: of_nat_Suc of_nat_add)

lemma get_str:
  assumes "cs_resp s = pre @ IpcStr (Some x) # post" "length (cs_resp s) < 2 ^ 32"
  shows "clnt_get_string (Some s) (of_nat (length pre)) = (TCUTIL_RET_SUCCESS, Some x)"
  using assms by (simp add: clnt_get_string_def unat_of_nat_small of_nat_lessI Let_def del: of_nat_Suc of_nat_add)

lemma controller_loop_decode:
  assumes "cs_resp s = pre @ x # map (\<lambda>c. IpcStr (Some c)) cs @ post" "length (cs_resp s) < 2 ^ 32"
  shows "controller_loop (Some s) (length cs) (of_nat (length pre)) acc =
    (TCUTIL_RET_SUCCESS, of_nat (length pre + length cs), acc @ cs)"
  using assms
proof (induction cs arbitrary: pre x acc)
  case (Cons c cs)
  then have r: "cs_resp s = (pre @ [x]) @ IpcStr (Some c) # map (\<lambda>c. IpcStr (Some c)) cs @ post" by simp
  have i: "of_nat (length pre) + 1 = (of_nat (length (pre @ [x])) :: u32)" by simp
  show ?case
    using get_str [OF r Cons.prems(2)] Cons.IH [OF r Cons.prems(2), of "acc @ [c]"]
    by (simp add: i Let_def del: of_nat_Suc length_append) (simp add: algebra_simps)
qed simp

lemma driver_loop_decode:
  assumes "cs_resp s = pre @ x # concat (map encode_driver ds) @ post" "length (cs_resp s) < 2 ^ 32"
    "\<forall>d \<in> set ds. length (snd d) < 2 ^ 8"
  shows "run_state (driver_loop (Some s) (length ds) (of_nat (length pre))) m =
    (TCOPER_RET_SUCCESS,
     m\<lparr>msg_driver_set := (\<lambda>d. ucast (fst d)) ` set ds \<union> msg_driver_set m,
       msg_driverinfo := merge_info ds (msg_driverinfo m)\<rparr>)"
  using assms
proof (induction ds arbitrary: pre x m)
  case Nil
  then show ?case by (simp add: merge_info_def)
next
  case (Cons d ds)
  obtain k cs where d: "d = (k, cs)" by (cases d)
  let ?n = "IpcU8 (of_nat (length cs))" and ?cs = "map (\<lambda>c. IpcStr (Some c)) cs"
  let ?rest = "concat (map encode_driver ds) @ post"
  have r1: "cs_resp s = (pre @ [x]) @ IpcU8 k # (?n # ?cs @ ?rest)"
    and r2: "cs_resp s = (pre @ [x, IpcU8 k]) @ ?n # (?cs @ ?rest)"
    using Cons.prems(1) by (simp_all add: d encode_driver_def [of "(k, cs)"])
  obtain y where r3: "cs_resp s = (pre @ [x, IpcU8 k] @ butlast (?n # ?cs)) @ y # ?rest"
    using r2 by (metis append.assoc append_Cons append_butlast_last_id append_Nil list.distinct(1))
  have n: "unat (of_nat (length cs) :: u8) = length cs" using Cons.prems(3) by (simp add: d unat_of_nat_small)
  have i1: "of_nat (length pre) + 1 = (of_nat (length (pre @ [x])) :: u32)"
    and i2: "of_nat (length (pre @ [x])) + 1 = (of_nat (length (pre @ [x, IpcU8 k])) :: u32)"
    and i3: "length (pre @ [x, IpcU8 k]) + length cs = length (pre @ [x, IpcU8 k] @ butlast (?n # ?cs))"
    by simp_all
  show ?case
    using get_u8 [OF r1 Cons.prems(2)] get_u8 [OF r2 Cons.prems(2)]
      controller_loop_decode [OF r2 Cons.prems(2), of "[]"] Cons.IH [OF r3 Cons.prems(2)] Cons.prems(3)
    by (simp add: d i1 i2 i3 n Let_def merge_info_def State_Monad.update_def del: of_nat_Suc length_append butlast.simps)
qed

lemma merge_info_ok: "info_ok info \<Longrightarrow> info_ok (merge_info ds info)"
  by (induction ds arbitrary: info) (simp_all add: merge_info_def add_controllers_ok)

lemma controllers_of_merge:
  "controllers_of (merge_info ds info) k =
     controllers_of info k \<union> (\<Union>d \<in> {d \<in> set ds. ucast (fst d) = k}. set (snd d))"
  by (induction ds arbitrary: info) (auto simp: merge_info_def controllers_of_add)

text \<open>C14: Decoding the controller information of a daemon is the inverse of encoding it: it succeeds,
  the driver types that were sent are noted for this daemon, the map of controllers stays sorted by
  driver type, and for every driver type it holds the controllers known before together with exactly
  those that were sent. The answer must fit the counters of the message: at most 255 drivers, and at
  most 255 controllers each.\<close>

theorem controller_info_roundtrip:
  assumes "length ds < 2 ^ 8" "\<forall>d \<in> set ds. length (snd d) < 2 ^ 8"
    "cs_resp s = encode_info ds" "length (encode_info ds) < 2 ^ 32" "info_ok (msg_driverinfo m)"
  shows "\<exists>m'. run_state (GetControllerInfo (Some s)) m = (TCOPER_RET_SUCCESS, m') \<and>
    msg_driver_set m' = (\<lambda>d. ucast (fst d)) ` set ds \<union> msg_driver_set m \<and>
    info_ok (msg_driverinfo m') \<and>
    (\<forall>k. controllers_of (msg_driverinfo m') k = controllers_of (msg_driverinfo m) k \<union>
       (\<Union>d \<in> {d \<in> set ds. ucast (fst d) = k}. set (snd d)))"
proof -
  have l: "length (cs_resp s) < 2 ^ 32" using assms(3,4) by simp
  have r: "cs_resp s = [] @ IpcU8 (of_nat (length ds)) # concat (map encode_driver ds) @ []"
    by (simp add: assms(3) encode_info_def)
  have n: "unat (of_nat (length ds) :: u8) = length ds" using assms(1) by (simp add: unat_of_nat_small)
  show ?thesis
    using get_u8 [OF r [simplified append_Nil2] l] driver_loop_decode [OF r l assms(2), of m]
    by (simp add: GetControllerInfo_def Let_def n merge_info_ok assms(5) controllers_of_merge)
qed

definition demo_drivers :: "(u8 \<times> string list) list" where
  "demo_drivers = [(5, [''odl1'', ''odl2'']), (1, [''pfc1''])]"

definition demo_answer :: csess where
  "demo_answer = \<lparr>cs_channel = ''upll'', cs_service = TCLIB_COMMIT_TRANSACTION, cs_args = [],
     cs_resp = encode_info demo_drivers\<rparr>"

theorem controller_info_roundtrip_witness:
  "\<exists>m'. run_state (GetControllerInfo (Some demo_answer)) (TcMsg_new 1 MSG_COMMIT_VOTE Map.empty []) =
      (TCOPER_RET_SUCCESS, m') \<and> controllers_of (msg_driverinfo m') 5 = {''odl1'', ''odl2''}"
proof -
  let ?m = "TcMsg_new 1 MSG_COMMIT_VOTE Map.empty []"
  have a: "length demo_drivers < 2 ^ 8" "\<forall>d \<in> set demo_drivers. length (snd d) < 2 ^ 8"
    "cs_resp demo_answer = encode_info demo_drivers" "length (encode_info demo_drivers) < 2 ^ 32"
    "info_ok (msg_driverinfo ?m)"
    by (simp_all add: demo_drivers_def demo_answer_def encode_info_def encode_driver_def info_ok_def TcMsg_new_def)
  from controller_info_roundtrip [OF a] obtain m' where
    m': "run_state (GetControllerInfo (Some demo_answer)) ?m = (TCOPER_RET_SUCCESS, m')" and
    k: "\<forall>k. controllers_of (msg_driverinfo m') k = controllers_of (msg_driverinfo ?m) k \<union>
       (\<Union>d \<in> {d \<in> set demo_drivers. ucast (fst d) = k}. set (snd d))"
    by (elim exE conjE) (rule that)
  have "(\<Union>d \<in> {d \<in> set demo_drivers. ucast (fst d) = (5 :: u32)}. set (snd d)) = {''odl1'', ''odl2''}"
    by (auto simp: demo_drivers_def)
  moreover have "controllers_of (msg_driverinfo ?m) 5 = {}"
    by (simp add: controllers_of_def TcMsg_new_def)
  ultimately show ?thesis
    using m' spec [OF k, of 5] by simp
qed

end
