(* ===== verification/TC_QueueProps.thy ===== *)
theory TC_QueueProps
  imports TC_SessionProps
begin

text \<open>
  The waiting requests for the configuration session: the order in which they are served, the
  deadline of a timed request, that a request leaves the queue, and what a failed acquisition leaves
  behind; and the values by which results and messages are told apart on the wire.
\<close>

section \<open>The queue\<close>

text \<open>The number of waiting requests of a session.\<close>

abbreviation waits :: "u32 \<Rightarrow> TcStatics \<Rightarrow> nat" where
  "waits sid st \<equiv> count_list (waiting_sessions st) sid"

text \<open>The other threads neither enqueue nor dequeue a request of this session.\<close>

definition others_keep_request :: "tc_env \<Rightarrow> u32 \<Rightarrow> bool" where
  "others_keep_request env sid \<longleftrightarrow> (\<forall>h l st. waits sid (snd (te_others env h (l, st))) = waits sid st)"

lemma waits_interfere:
  "others_keep_request env sid \<Longrightarrow> waits sid (op_stat (interfere env s)) = waits sid (op_stat s)"
  by (simp add: interfere_def others_keep_request_def split: prod.split) (metis snd_conv)

lemma waits_simps [simp]:
  "waits sid (InsertConfigRequest s st) = waits sid st + (if s = sid then 1 else 0)"
  "waits sid (st\<lparr>config_mode_available := b\<rparr>) = waits sid st"
  by (simp_all add: waiting_sessions_def InsertConfigRequest_def)

lemma count_remove1: "count_list (remove1 s xs) sid = count_list xs sid - (if s = sid then 1 else 0)"
  by (induction xs) auto

lemma waits_dequeue [simp]: "waits sid (op_stat (dequeue s)) = waits sid (op_stat s) - (if op_session_id s = sid then 1 else 0)"
  by (simp add: dequeue_def req.remove_one count_remove1)

lemma drop_cond_var_sessions: "waiting_sessions (op_stat (drop_cond_var s)) = waiting_sessions (op_stat s)"
  by (simp add: drop_cond_var_def waiting_sessions_def if_distrib)

lemma drop_cond_var_id [simp]: "op_session_id (drop_cond_var s) = op_session_id s"
  by (simp add: drop_cond_var_def)

lemma waits_drop [simp]: "waits sid (op_stat (drop_cond_var s)) = waits sid (op_stat s)"
  by (simp only: drop_cond_var_sessions)

text \<open>A request for the lock keeps the queue and the session of the request.\<close>

abbreviation keeps_request :: "u32 \<Rightarrow> opst \<Rightarrow> opst \<Rightarrow> bool" where
  "keeps_request sid s s' \<equiv> waits sid (op_stat s') = waits sid (op_stat s) \<and> op_session_id s' = op_session_id s"

lemma acquire_now_waits:
  assumes "others_keep_request env sid" "acquire_now env s = Some (r, s')"
  shows "keeps_request sid s s' \<and> r \<noteq> TC_STATE_CHANGED"
proof -
  have other: "keeps_request sid s (interfere env s)" for s
    using waits_interfere [OF assms(1)] by (simp add: interfere_def split: prod.split)
  have step: "keeps_request sid s s1" if "op_lock_step env f s = Some (x, s1)"
    for f :: "TcLock \<Rightarrow> TcLockRet \<times> TcLock" and x s1 s
    using that other [of s] by (auto simp: op_lock_step_def Let_def split: prod.splits)
  have get: "keeps_request sid s s1" if "op_GetLock env a b c s = Some (x, s1)" for x s1 a b c s
    using that other [of s] by (auto simp: op_GetLock_def Let_def bind_eq_Some_conv split: prod.splits)
  have excl: "keeps_request sid s s1 \<and> r \<noteq> TC_STATE_CHANGED"
    if "Config_TcGetExclusion env (s\<lparr>op_phase := ph\<rparr>) = Some (r, s1)" for r s1 ph
  proof -
    from that obtain x where "keeps_request sid (s\<lparr>op_phase := ph\<rparr>) s1" "r = Config_lock_status x"
      by (auto simp: Config_TcGetExclusion_def bind_eq_Some_conv split: if_splits dest!: step get)
    then show ?thesis by (simp add: Config_lock_status_def Config_HandleLockRet_def split: TcLockRet.split)
  qed
  obtain r1 s1 where run: "Config_TcGetExclusion env (s\<lparr>op_phase := GET_EXCLUSION_PHASE\<rparr>) = Some (r1, s1)"
    using assms(2) by (auto simp: acquire_now_def bind_eq_Some_conv)
  with assms(2) have "r = r1 \<and> (s' = s1 \<or> s' = SetConfigModeAvailability False s1)"
    by (auto simp: acquire_now_def split: if_splits)
  with excl [OF run] show ?thesis by (auto simp: SetConfigModeAvailability_def)
qed

text \<open>C10: A timed request leaves the queue. Whatever becomes of it, a timed request of a session that
  had no other request waiting is in the queue no more when the wait is over, except when the
  wait ends because the node became standby: then the entry stays behind, although the object it
  points to is gone.\<close>

theorem timed_request_leaves_queue:
  assumes "HandleTimedConfigAcquisition env s = Some (r, s')" "others_keep_request env (op_session_id s)"
    "op_session_id s \<notin> set (waiting_sessions (op_stat s))"
  shows "(op_session_id s \<in> set (waiting_sessions (op_stat s'))) = (r = TC_STATE_CHANGED)"
proof -
  let ?sid = "op_session_id s"
  let ?s1 = "s\<lparr>op_cond_var := True, op_stat := InsertConfigRequest ?sid (op_stat s)\<rparr>"
  have zero: "waits ?sid (op_stat s) = 0" using assms(3) by simp
  have one: "waits ?sid (op_stat ?s1) = 1" by (simp add: zero)
  note keep = acquire_now_waits [OF assms(2)]
  have complete: "waits ?sid (op_stat s'') = 0 \<and> r \<noteq> TC_STATE_CHANGED"
    if "wait_complete env s2 = Some (r, s'')" "waits ?sid (op_stat s2) = 1" "op_session_id s2 = ?sid" for s2 r s''
    using that by (auto simp: wait_complete_def bind_eq_Some_conv dest!: keep)
  have s2: "waits ?sid (op_stat (interfere env ?s1)) = 1" "op_session_id (interfere env ?s1) = ?sid"
    using waits_interfere [OF assms(2), of ?s1] one by (simp_all add: interfere_def split: prod.split)
  have "(waits ?sid (op_stat s') > 0) = (r = TC_STATE_CHANGED)"
  proof (cases "op_timeout s = 0")
    case True
    with assms(1) zero show ?thesis by (auto simp: HandleTimedConfigAcquisition_def split: if_splits dest!: keep)
  next
    case False
    with assms(1) s2 one zero complete [of ?s1] complete [of "interfere env ?s1"] show ?thesis
      by (auto simp: HandleTimedConfigAcquisition_def Let_def split: if_splits)
  qed
  then show ?thesis by (simp add: count_list_0_iff flip: neq0_conv)
qed

definition waiting_request :: opst where
  "waiting_request =
     (demo_request demo_config_lock [IpcU32 TC_OP_CONFIG_ACQUIRE_TIMED, IpcU32 6, IpcI32 50])
       \<lparr>op_session_id := 6, op_timeout := 50, op_oper := TC_OP_CONFIG_ACQUIRE_TIMED\<rparr>"

theorem timed_request_leaves_queue_witness:
  "\<exists>r s'. HandleTimedConfigAcquisition (demo_env good_env) waiting_request = Some (r, s') \<and>
     (6 \<in> set (waiting_sessions (op_stat s'))) = (r = TC_STATE_CHANGED)"
proof -
  have "HandleTimedConfigAcquisition (demo_env good_env) waiting_request \<noteq> None" by code_simp
  then obtain r s' where run: "HandleTimedConfigAcquisition (demo_env good_env) waiting_request = Some (r, s')" by auto
  moreover have "op_session_id waiting_request = 6" "waiting_sessions (op_stat waiting_request) = []"
    by (simp_all add: waiting_request_def demo_request_def TcOperations_new_def demo_statics_def waiting_sessions_def)
  moreover have "others_keep_request (demo_env good_env) 6" by (simp add: others_keep_request_def demo_env_def)
  ultimately show ?thesis using timed_request_leaves_queue [OF run] by simp
qed


section \<open>The deadline\<close>

text \<open>The deadline of a timed request is exact and well formed: the nanoseconds are between 0 and one
  second, and seconds and nanoseconds together are the present time plus the timeout, for every
  timeout of 32 bits and every time of day.\<close>

theorem config_deadline_exact:
  "0 \<le> snd (config_deadline timeout sec usec) \<and> snd (config_deadline timeout sec usec) < 1000000000 \<and>
   fst (config_deadline timeout sec usec) * 1000000000 + snd (config_deadline timeout sec usec) =
     sec * 1000000000 + usec * 1000 + uint timeout * 1000000"
proof -
  have "uint timeout div 1000 * 1000 + uint timeout mod 1000 = uint timeout" by simp
  then show ?thesis by (simp add: config_deadline_def Let_def algebra_simps) presburger
qed

section \<open>A failed acquisition\<close>

text \<open>A network whose daemons refuse every request.\<close>

definition deny_env :: ipc_env where
  "deny_env = good_env\<lparr>invoke_res := \<lambda>h cs. (0, TC_FAILURE, [])\<rparr>"

text \<open>An acquisition that fails can leave the configuration session taken. When UPLL refuses the new
  configuration identifier, the user gets an error and no identifier, but the session remains
  the holder of the configuration, and the acquisition of another session is turned away as
  busy.\<close>

theorem failed_acquire_keeps_config:
  "case Config_Dispatch (demo_env deny_env)
      (demo_request (the (lock_run (take 3 demo_commit) (TcInitWRLock True TcLock_new))) [IpcU32 TC_OP_CONFIG_ACQUIRE, IpcU32 6]) of
     None \<Rightarrow> False
   | Some (r, s') \<Rightarrow>
       r = TC_SYSTEM_FAILURE \<and> cl_is_taken (tc_config_lock (op_lock s')) \<and> cl_session_id (tc_config_lock (op_lock s')) = 6 \<and>
       map_option fst (Config_Dispatch (demo_env good_env) (demo_request (op_lock s') [IpcU32 TC_OP_CONFIG_ACQUIRE, IpcU32 7])) =
         Some TC_SYSTEM_BUSY"
  by code_simp

section \<open>Values on the wire\<close>

lemma length_takeWhile_neq: "x \<in> set xs \<Longrightarrow> length (takeWhile (\<lambda>y. y \<noteq> x) xs) < length xs"
  by (induction xs) auto

text \<open>No two results and no two message types are the same on the wire, and the value of a message
  type fits into the byte in which it is sent.\<close>

theorem wire_values_distinct:
  "inj status_value \<and> inj opertype_value \<and> (\<forall>oper. unat (opertype_value oper) < length all_opertypes)"
proof -
  have st: "inj status_value"
    by (rule injI, rename_tac a b, case_tac a; case_tac b; simp add: status_value_def)
  have all: "set all_opertypes = UNIV"
  proof -
    have "oper \<in> set all_opertypes" for oper by (cases oper) (simp_all add: all_opertypes_def)
    then show ?thesis by auto
  qed
  have len: "length all_opertypes = 33" by (simp add: all_opertypes_def)
  have idx: "length (takeWhile (\<lambda>x. x \<noteq> oper) all_opertypes) < 33 \<and>
      all_opertypes ! length (takeWhile (\<lambda>x. x \<noteq> oper) all_opertypes) = oper" for oper
  proof -
    have "oper \<in> set all_opertypes" using all by simp
    then have "length (takeWhile (\<lambda>x. x \<noteq> oper) all_opertypes) < length all_opertypes" by (rule length_takeWhile_neq)
    with nth_length_takeWhile [OF this] len show ?thesis by simp
  qed
  have val: "unat (opertype_value oper) = length (takeWhile (\<lambda>x. x \<noteq> oper) all_opertypes)" for oper
    using idx [of oper] by (simp add: opertype_value_def unat_of_nat)
  have "inj opertype_value"
    by (rule injI) (metis idx val)
  with st val idx len show ?thesis by simp
qed

end
