(* ===== verification/TL_Msg.thy ===== *)
theory TL_Msg
  imports TC_Msg
begin

text \<open>
  The daemon side of the protocol of the transaction coordinator, \<open>modules/tclib\<close>, which is loaded into
  UPLL, UPPL and every driver daemon: its data (\<open>tclib_struct_defs.hh\<close>, \<open>tclib_defs.hh\<close>) and the
  functions of \<open>tclib_msg_util.cc\<close> that read the arguments of a request from the session. A
  function that returns \<open>TC_FAILURE\<close> is \<open>None\<close> here; an operation type outside the
  enumeration, which the source casts without a test, is \<open>None\<close> in the message.
\<close>

section \<open>Reading a session\<close>

definition got :: "TcUtilRet \<times> 'a option \<Rightarrow> 'a option" where
  "got p = (if fst p = TCUTIL_RET_SUCCESS then snd p else None)"

definition opertype_of :: "u8 \<Rightarrow> TcMsgOperType option" where
  "opertype_of v = (if unat v < length all_opertypes then Some (all_opertypes ! unat v) else None)"

text \<open>The number of arguments, and the check with which every function begins.\<close>

definition getArgCount :: "ssess \<Rightarrow> u32" where
  "getArgCount ss = of_nat (length (ss_args ss))"

abbreviation IPC_DEFAULT_ARG_COUNT :: u32 where "IPC_DEFAULT_ARG_COUNT \<equiv> 0"

definition has_args :: "ssess option \<Rightarrow> unit option" where
  "has_args session =
     (case session of
        None \<Rightarrow> None
      | Some ss \<Rightarrow> if getArgCount ss = IPC_DEFAULT_ARG_COUNT then None else Some ())"

primrec get_strings :: "ssess option \<Rightarrow> nat \<Rightarrow> u32 \<Rightarrow> string list option" where
  "get_strings session 0 idx = Some []"
| "get_strings session (Suc n) idx =
     do { controller_id \<leftarrow> got (srv_get_string session (idx + 1));
          rest \<leftarrow> get_strings session n (idx + 1);
          Some (controller_id # rest) }"

section \<open>Commit messages\<close>

record TcCommitTransactionMsg =
  ct_oper_type :: "TcMsgOperType option"
  ct_session_id :: u32
  ct_config_id :: u32
  ct_end_result :: "u8 option"

definition GetCommitTransactionMsg :: "ssess option \<Rightarrow> TcCommitTransactionMsg option" where
  "GetCommitTransactionMsg session =
     do { has_args session;
          oper_type \<leftarrow> got (srv_get_uint8 session 0);
          session_id \<leftarrow> got (srv_get_uint32 session 1);
          config_id \<leftarrow> got (srv_get_uint32 session 2);
          end_result \<leftarrow> (if opertype_of oper_type = Some MSG_COMMIT_TRANS_END
                         then map_option Some (got (srv_get_uint8 session 3)) else Some None);
          Some \<lparr>ct_oper_type = opertype_of oper_type, ct_session_id = session_id,
                ct_config_id = config_id, ct_end_result = end_result\<rparr> }"

record TcCommitDrvVoteGlobalMsg =
  cv_oper_type :: "TcMsgOperType option"
  cv_session_id :: u32
  cv_config_id :: u32
  cv_cntrl_count :: u8
  cv_cntrl_list :: "string list"

definition GetCommitDrvVoteGlobalMsg :: "ssess option \<Rightarrow> TcCommitDrvVoteGlobalMsg option" where
  "GetCommitDrvVoteGlobalMsg session =
     do { has_args session;
          oper_type \<leftarrow> got (srv_get_uint8 session 0);
          session_id \<leftarrow> got (srv_get_uint32 session 1);
          config_id \<leftarrow> got (srv_get_uint32 session 2);
          cntrl_count \<leftarrow> got (srv_get_uint8 session 3);
          cntrl_list \<leftarrow> get_strings session (unat cntrl_count) 3;
          Some \<lparr>cv_oper_type = opertype_of oper_type, cv_session_id = session_id,
                cv_config_id = config_id, cv_cntrl_count = cntrl_count, cv_cntrl_list = cntrl_list\<rparr> }"

record TcCommitDrvResultMsg =
  cr_oper_type :: "TcMsgOperType option"
  cr_session_id :: u32
  cr_config_id :: u32
  cr_phase :: u8

definition GetCommitDrvResultMsg :: "ssess option \<Rightarrow> TcCommitDrvResultMsg option" where
  "GetCommitDrvResultMsg session =
     do { has_args session;
          oper_type \<leftarrow> got (srv_get_uint8 session 0);
          session_id \<leftarrow> got (srv_get_uint32 session 1);
          config_id \<leftarrow> got (srv_get_uint32 session 2);
          phase \<leftarrow> got (srv_get_uint8 session 3);
          Some \<lparr>cr_oper_type = opertype_of oper_type, cr_session_id = session_id,
                cr_config_id = config_id, cr_phase = phase\<rparr> }"

record TcCommitGlobalAbortMsg =
  ca_oper_type :: "TcMsgOperType option"
  ca_session_id :: u32
  ca_config_id :: u32
  ca_commit_oper_phase :: u8

definition GetCommitGlobalAbortMsg :: "ssess option \<Rightarrow> TcCommitGlobalAbortMsg option" where
  "GetCommitGlobalAbortMsg session =
     do { has_args session;
          oper_type \<leftarrow> got (srv_get_uint8 session 0);
          session_id \<leftarrow> got (srv_get_uint32 session 1);
          config_id \<leftarrow> got (srv_get_uint32 session 2);
          phase \<leftarrow> got (srv_get_uint8 session 3);
          Some \<lparr>ca_oper_type = opertype_of oper_type, ca_session_id = session_id,
                ca_config_id = config_id, ca_commit_oper_phase = phase\<rparr> }"

section \<open>Audit messages\<close>

record TcAuditTransactionMsg =
  at_oper_type :: "TcMsgOperType option"
  at_session_id :: u32
  at_driver_id :: u32
  at_controller_id :: string
  at_reconnect :: "u8 option"
  at_audit_result :: "u8 option"
  at_end_result :: "u8 option"
  at_simplified_audit :: "u8 option"
  at_commit_number :: "u64 option"
  at_commit_date :: "u64 option"
  at_commit_application :: "string option"

text \<open>The attributes that only the start of an audit has.\<close>

definition audit_start_info :: "ssess option \<Rightarrow> (u8 \<times> u8 \<times> u64 \<times> u64 \<times> string) option" where
  "audit_start_info session =
     do { reconnect \<leftarrow> got (srv_get_uint8 session 4);
          simplified \<leftarrow> got (srv_get_uint8 session 5);
          commit_number \<leftarrow> got (srv_get_uint64 session 6);
          commit_date \<leftarrow> got (srv_get_uint64 session 7);
          commit_application \<leftarrow> got (srv_get_string session 8);
          Some (reconnect, simplified, commit_number, commit_date, commit_application) }"

definition GetAuditTransactionMsg :: "ssess option \<Rightarrow> TcAuditTransactionMsg option" where
  "GetAuditTransactionMsg session =
     do { has_args session;
          oper_type \<leftarrow> got (srv_get_uint8 session 0);
          session_id \<leftarrow> got (srv_get_uint32 session 1);
          driver_id \<leftarrow> got (srv_get_uint8 session 2);
          controller_id \<leftarrow> got (srv_get_string session 3);
          let oper = opertype_of oper_type;
          start \<leftarrow> (if oper = Some MSG_AUDIT_START then map_option Some (audit_start_info session)
                    else Some None);
          audit_result \<leftarrow> (if oper = Some MSG_AUDIT_END
                           then map_option Some (got (srv_get_uint8 session 4)) else Some None);
          end_result \<leftarrow> (if oper = Some MSG_AUDIT_TRANS_END
                         then map_option Some (got (srv_get_uint8 session 4)) else Some None);
          Some \<lparr>at_oper_type = oper, at_session_id = session_id, at_driver_id = ucast driver_id,
                at_controller_id = controller_id,
                at_reconnect = map_option fst start,
                at_audit_result = audit_result, at_end_result = end_result,
                at_simplified_audit = map_option (fst \<circ> snd) start,
                at_commit_number = map_option (fst \<circ> snd \<circ> snd) start,
                at_commit_date = map_option (fst \<circ> snd \<circ> snd \<circ> snd) start,
                at_commit_application = map_option (snd \<circ> snd \<circ> snd \<circ> snd) start\<rparr> }"

record TcAuditDrvVoteGlobalMsg =
  av_oper_type :: "TcMsgOperType option"
  av_session_id :: u32
  av_controller_id :: string
  av_cntrl_count :: u8
  av_cntrl_list :: "string list"

definition GetAuditDrvVoteGlobalMsg :: "ssess option \<Rightarrow> TcAuditDrvVoteGlobalMsg option" where
  "GetAuditDrvVoteGlobalMsg session =
     do { has_args session;
          oper_type \<leftarrow> got (srv_get_uint8 session 0);
          session_id \<leftarrow> got (srv_get_uint32 session 1);
          controller_id \<leftarrow> got (srv_get_string session 2);
          cntrl_count \<leftarrow> got (srv_get_uint8 session 3);
          cntrl_list \<leftarrow> get_strings session (unat cntrl_count) 3;
          Some \<lparr>av_oper_type = opertype_of oper_type, av_session_id = session_id,
                av_controller_id = controller_id, av_cntrl_count = cntrl_count,
                av_cntrl_list = cntrl_list\<rparr> }"

record TcAuditDrvResultMsg =
  ar_oper_type :: "TcMsgOperType option"
  ar_session_id :: u32
  ar_controller_id :: string
  ar_phase :: u8

definition GetAuditDrvResultMsg :: "ssess option \<Rightarrow> TcAuditDrvResultMsg option" where
  "GetAuditDrvResultMsg session =
     do { has_args session;
          oper_type \<leftarrow> got (srv_get_uint8 session 0);
          session_id \<leftarrow> got (srv_get_uint32 session 1);
          controller_id \<leftarrow> got (srv_get_string session 2);
          phase \<leftarrow> got (srv_get_uint8 session 3);
          Some \<lparr>ar_oper_type = opertype_of oper_type, ar_session_id = session_id,
                ar_controller_id = controller_id, ar_phase = phase\<rparr> }"

record TcAuditGlobalAbortMsg =
  aa_oper_type :: "TcMsgOperType option"
  aa_session_id :: u32
  aa_driver_id :: u32
  aa_controller_id :: string
  aa_audit_oper_phase :: u8

definition GetAuditGlobalAbortMsg :: "ssess option \<Rightarrow> TcAuditGlobalAbortMsg option" where
  "GetAuditGlobalAbortMsg session =
     do { has_args session;
          oper_type \<leftarrow> got (srv_get_uint8 session 0);
          session_id \<leftarrow> got (srv_get_uint32 session 1);
          driver_id \<leftarrow> got (srv_get_uint8 session 2);
          controller_id \<leftarrow> got (srv_get_string session 3);
          phase \<leftarrow> got (srv_get_uint8 session 4);
          Some \<lparr>aa_oper_type = opertype_of oper_type, aa_session_id = session_id,
                aa_driver_id = ucast driver_id, aa_controller_id = controller_id,
                aa_audit_oper_phase = phase\<rparr> }"

record TcAuditConfigMsg =
  ac_db_type :: u32
  ac_service_type :: u32

definition GetAuditConfigMsg :: "ssess option \<Rightarrow> TcAuditConfigMsg option" where
  "GetAuditConfigMsg session =
     do { has_args session;
          db_type \<leftarrow> got (srv_get_uint8 session 0);
          service_type \<leftarrow> got (srv_get_uint8 session 1);
          Some \<lparr>ac_db_type = ucast db_type, ac_service_type = ucast service_type\<rparr> }"

end
