(* ===== verification/TL_Module.thy ===== *)
theory TL_Module
  imports TL_Msg
begin

text \<open>
  Class \<open>TcLibModule\<close> of \<open>modules/tclib/tclib_module.cc\<close>: the state that a daemon keeps between the
  requests of the transaction coordinator, the checks of the message order, the functions that the
  daemon calls while it handles a request, and the dispatch of the requests.

  The handlers of the daemon (\<open>TcLibInterface\<close>) are a parameter: a function from the calls made so
  far and the next call to what the handler returns, the driver information it fills in, and the
  results it writes through \<open>TcLibWriteControllerInfo\<close> and \<open>TcLibWriteKeyValueDataInfo\<close>. Every
  call of a handler is recorded. \<open>PFC_ASSERT\<close> does nothing in a release build and is left out.
\<close>

section \<open>State\<close>

text \<open>\<open>TC_INVALID_\<dots>\<close> of the source carries the prefix \<open>TC_API_\<close>, since the answers of the coordinator use the same names.\<close>

datatype TcApiCommonRet =
    TC_API_COMMON_SUCCESS | TC_API_COMMON_FAILURE | TC_API_INVALID_PARAM | TC_API_HANDLER_ALREADY_ACTIVE
  | TC_API_INVALID_SESSION_ID | TC_API_INVALID_CONFIG_ID | TC_API_INVALID_CONTROLLER_ID
  | TC_API_INVALID_OPER_STATE | TC_API_INVALID_KEY_TYPE | TC_API_INVALID_KEY_DATA | TC_API_INVALID_VALUE_DATA
  | TC_API_INVALID_KEY_STDEF | TC_API_INVALID_VALUE_STDEF | TC_API_FATAL

record TcControllerResult =
  res_controller_id :: string
  res_resp_code :: u32
  res_num_of_errors :: u32
  res_key_list :: "u32 list"
  res_commit_number :: u64
  res_commit_date :: u64
  res_commit_application :: string

type_synonym TcKeyTypeIndexMap = "(u32 \<times> u32) list"

text \<open>Calls of the handlers of a daemon; the overloads for a driver carry its list of controllers.\<close>

datatype handler_call =
    HandleCommitTransactionStart u32 u32
  | HandleCommitTransactionEnd u32 u32 "u8 option"
  | HandleCommitVoteRequest u32 u32
  | HandleCommitVoteRequest_drv u32 u32 "string list"
  | HandleCommitGlobalCommit u32 u32
  | HandleCommitGlobalCommit_drv u32 u32 "string list"
  | HandleCommitDriverResult u32 u32 u8 "TcControllerResult list"
  | HandleCommitGlobalAbort u32 u32 u8
  | HandleAuditStart u32 u32 string "u8 option" "u64 option" "u64 option" "string option"
  | HandleAuditStart_drv u32 u32 string "u8 option"
  | HandleAuditEnd u32 u32 string "u8 option"
  | HandleAuditTransactionStart u32 u32 string
  | HandleAuditTransactionEnd u32 u32 string "u8 option"
  | HandleAuditVoteRequest u32 u32 string
  | HandleAuditVoteRequest_drv u32 string "string list"
  | HandleAuditGlobalCommit u32 u32 string
  | HandleAuditGlobalCommit_drv u32 string "string list"
  | HandleAuditDriverResult u32 string u8 "TcControllerResult list"
  | HandleAuditGlobalAbort u32 u32 string u8
  | HandleSaveConfiguration u32
  | HandleAbortCandidate u32 u32
  | HandleClearStartup u32
  | HandleAuditConfig u32 u32
  | HandleSetup
  | HandleSetupComplete
  | HandleGetControllerType_of string

text \<open>What a handler may write into the answer.\<close>

datatype api_write =
    WriteController string u32 u32
  | WriteControllerCommit string u32 u32 u64 u64 string
  | WriteKeyValue string u32 "string \<times> u8 list" "(string \<times> u8 list) option"

record handler_result =
  hr_ret :: u32
  hr_writes :: "api_write list"
  hr_driver_info :: "(u32 \<times> string list) list"
  hr_audit_result :: "u8 option"

text \<open>
  The surroundings of the library in a daemon: the transport, the type of the daemon
  (\<open>HandleGetControllerType\<close> without an argument; \<open>UNC_CT_UNKNOWN\<close> for UPLL and UPPL) and
  its handlers.
\<close>

record tclib_env =
  tle_ipc :: ipc_env
  tle_ctrtype :: u32
  tle_handle :: "handler_call list \<Rightarrow> handler_call \<Rightarrow> handler_result"

record TcLibModule =
  tl_registered :: bool
  tl_sess :: "ssess option"
  tl_session_id :: u32
  tl_config_id :: u32
  tl_controllerid :: string
  tl_audit_in_progress :: bool
  tl_oper_state :: TcMsgOperType
  tl_key_map :: TcKeyTypeIndexMap
  tl_controller_key_map :: "(string \<times> TcKeyTypeIndexMap) list"
  tl_commit_phase_result :: "TcControllerResult list"
  tl_auto_save_enabled :: u8
  tl_request_counter :: u32
  tl_calls :: "handler_call list"
  tl_history :: history

type_synonym 'a tl_prog = "(TcLibModule, 'a) state"

abbreviation TC_DEFAULT_VALUE :: u32 where "TC_DEFAULT_VALUE \<equiv> 0"

definition TcLibModule_new :: TcLibModule where
  "TcLibModule_new =
     \<lparr>tl_registered = False, tl_sess = None, tl_session_id = TC_DEFAULT_VALUE,
      tl_config_id = TC_DEFAULT_VALUE, tl_controllerid = '''', tl_audit_in_progress = False,
      tl_oper_state = MSG_NONE, tl_key_map = [], tl_controller_key_map = [],
      tl_commit_phase_result = [], tl_auto_save_enabled = 0, tl_request_counter = 0,
      tl_calls = [], tl_history = []\<rparr>"

definition ReleaseTransactionResources :: "TcLibModule \<Rightarrow> TcLibModule" where
  "ReleaseTransactionResources t =
     t\<lparr>tl_oper_state := MSG_NONE, tl_key_map := [], tl_controller_key_map := [],
       tl_commit_phase_result := []\<rparr>"

text \<open>Registration; \<open>False\<close> stands for a null pointer.\<close>

definition TcLibRegisterHandler :: "bool \<Rightarrow> TcApiCommonRet tl_prog" where
  "TcLibRegisterHandler handler =
     do { t \<leftarrow> State_Monad.get;
          if \<not> handler then State_Monad.return TC_API_INVALID_PARAM
          else if \<not> tl_registered t
          then do { State_Monad.update (\<lambda>t. t\<lparr>tl_registered := True\<rparr>);
                    State_Monad.return TC_API_COMMON_SUCCESS }
          else State_Monad.return TC_API_HANDLER_ALREADY_ACTIVE }"

definition TcLib_fini :: "TcLibModule \<Rightarrow> TcLibModule" where
  "TcLib_fini t =
     t\<lparr>tl_registered := False, tl_sess := None, tl_session_id := TC_DEFAULT_VALUE,
       tl_config_id := TC_DEFAULT_VALUE, tl_oper_state := MSG_NONE, tl_audit_in_progress := False,
       tl_key_map := [], tl_controller_key_map := [], tl_commit_phase_result := []\<rparr>"

definition TcLibValidateUpdateMsg :: "u32 \<Rightarrow> u32 \<Rightarrow> TcLibModule \<Rightarrow> TcApiCommonRet" where
  "TcLibValidateUpdateMsg sessionid configid t =
     (if sessionid = TC_DEFAULT_VALUE \<or> tl_session_id t \<noteq> sessionid then TC_API_INVALID_SESSION_ID
      else if tl_config_id t = TC_DEFAULT_VALUE \<or> configid = TC_DEFAULT_VALUE \<or> tl_config_id t \<noteq> configid
      then TC_API_INVALID_CONFIG_ID
      else TC_API_COMMON_SUCCESS)"

definition GetSessionAttributes :: "TcLibModule \<Rightarrow> u32 \<times> u32" where
  "GetSessionAttributes t = (tl_session_id t, tl_config_id t)"

definition GetControllerType :: "tclib_env \<Rightarrow> TcLibModule \<Rightarrow> u32" where
  "GetControllerType env t = (if \<not> tl_registered t then UNC_CT_UNKNOWN else tle_ctrtype env)"

definition IsStartupConfigValid :: "TcLibModule \<Rightarrow> bool" where
  "IsStartupConfigValid t \<longleftrightarrow> tl_auto_save_enabled t = 0"

section \<open>Writing an answer\<close>

definition tl_set :: "tclib_env \<Rightarrow> ipc_val \<Rightarrow> TcUtilRet tl_prog" where
  "tl_set env v =
     State (\<lambda>t. let (r, ss, h) = srv_set (tle_ipc env) v (tl_sess t) (tl_history t)
                in (r, t\<lparr>tl_sess := ss, tl_history := h\<rparr>))"

primrec tl_sets :: "tclib_env \<Rightarrow> ipc_val list \<Rightarrow> bool tl_prog" where
  "tl_sets env [] = State_Monad.return True"
| "tl_sets env (v # vs) =
     do { r \<leftarrow> tl_set env v;
          if r \<noteq> TCUTIL_RET_SUCCESS then State_Monad.return False else tl_sets env vs }"

definition write_controller :: "tclib_env \<Rightarrow> string \<Rightarrow> ipc_val list \<Rightarrow> TcApiCommonRet tl_prog" where
  "write_controller env controller_id vals =
     do { t \<leftarrow> State_Monad.get;
          if tl_oper_state t = MSG_NONE then State_Monad.return TC_API_INVALID_OPER_STATE
          else do {
            ok \<leftarrow> tl_sets env vals;
            if \<not> ok then State_Monad.return TC_API_COMMON_FAILURE
            else do {
              State_Monad.update (\<lambda>t. t\<lparr>tl_controllerid := controller_id\<rparr>);
              State_Monad.return TC_API_COMMON_SUCCESS } } }"

definition TcLibWriteControllerInfo :: "tclib_env \<Rightarrow> string \<Rightarrow> u32 \<Rightarrow> u32 \<Rightarrow> TcApiCommonRet tl_prog" where
  "TcLibWriteControllerInfo env controller_id response_code num_of_errors =
     write_controller env controller_id
       [IpcStr (Some controller_id), IpcU32 response_code, IpcU32 num_of_errors]"

definition TcLibWriteControllerInfo_commit ::
  "tclib_env \<Rightarrow> string \<Rightarrow> u32 \<Rightarrow> u32 \<Rightarrow> u64 \<Rightarrow> u64 \<Rightarrow> string \<Rightarrow> TcApiCommonRet tl_prog" where
  "TcLibWriteControllerInfo_commit env controller_id response_code num_of_errors commit_number
      commit_date commit_application =
     write_controller env controller_id
       [IpcStr (Some controller_id), IpcU32 response_code, IpcU32 num_of_errors,
        IpcU64 commit_number, IpcU64 commit_date, IpcStr (Some commit_application)]"

definition TcLibWriteKeyValueDataInfo ::
  "tclib_env \<Rightarrow> string \<Rightarrow> u32 \<Rightarrow> string \<times> u8 list \<Rightarrow> (string \<times> u8 list) option \<Rightarrow> TcApiCommonRet tl_prog" where
  "TcLibWriteKeyValueDataInfo env controller_id key_type key value =
     do { t \<leftarrow> State_Monad.get;
          if tl_oper_state t = MSG_NONE then State_Monad.return TC_API_INVALID_OPER_STATE
          else if tl_controllerid t \<noteq> controller_id then State_Monad.return TC_API_INVALID_CONTROLLER_ID
          else do {
            ok \<leftarrow> tl_sets env ([IpcU32 key_type, IpcStruct (fst key) (snd key)] @
                   (case value of None \<Rightarrow> [] | Some v \<Rightarrow> [IpcStruct (fst v) (snd v)]));
            State_Monad.return (if ok then TC_API_COMMON_SUCCESS else TC_API_COMMON_FAILURE) } }"

definition api_write :: "tclib_env \<Rightarrow> api_write \<Rightarrow> TcApiCommonRet tl_prog" where
  "api_write env w =
     (case w of
        WriteController c r n \<Rightarrow> TcLibWriteControllerInfo env c r n
      | WriteControllerCommit c r n num date app \<Rightarrow> TcLibWriteControllerInfo_commit env c r n num date app
      | WriteKeyValue c kt k v \<Rightarrow> TcLibWriteKeyValueDataInfo env c kt k v)"

primrec api_writes :: "tclib_env \<Rightarrow> api_write list \<Rightarrow> unit tl_prog" where
  "api_writes env [] = State_Monad.return ()"
| "api_writes env (w # ws) = do { api_write env w; api_writes env ws }"

text \<open>A call of a handler.\<close>

definition call_handler :: "tclib_env \<Rightarrow> handler_call \<Rightarrow> handler_result tl_prog" where
  "call_handler env c =
     do { t \<leftarrow> State_Monad.get;
          let res = tle_handle env (tl_calls t) c;
          State_Monad.update (\<lambda>t. t\<lparr>tl_calls := tl_calls t @ [c]\<rparr>);
          api_writes env (hr_writes res);
          State_Monad.return res }"

section \<open>Reading the results of the drivers\<close>

datatype ipc_type = PFC_IPCTYPE_UINT8 | PFC_IPCTYPE_UINT32 | PFC_IPCTYPE_UINT64 | PFC_IPCTYPE_INT32
  | PFC_IPCTYPE_STRING | PFC_IPCTYPE_STRUCT | PFC_IPCTYPE_OTHER

definition ipc_type_of :: "ipc_val \<Rightarrow> ipc_type" where
  "ipc_type_of v =
     (case v of IpcU8 _ \<Rightarrow> PFC_IPCTYPE_UINT8 | IpcU32 _ \<Rightarrow> PFC_IPCTYPE_UINT32 | IpcU64 _ \<Rightarrow> PFC_IPCTYPE_UINT64
      | IpcI32 _ \<Rightarrow> PFC_IPCTYPE_INT32 | IpcStr _ \<Rightarrow> PFC_IPCTYPE_STRING | IpcStruct _ _ \<Rightarrow> PFC_IPCTYPE_STRUCT
      | IpcOther \<Rightarrow> PFC_IPCTYPE_OTHER)"

definition getArgType :: "ssess \<Rightarrow> u32 \<Rightarrow> ipc_type option" where
  "getArgType ss index =
     (if unat index < length (ss_args ss) then Some (ipc_type_of (ss_args ss ! unat index)) else None)"

function GetMatchTypeIndex :: "ssess \<Rightarrow> u32 \<Rightarrow> u32 \<Rightarrow> ipc_type \<Rightarrow> u32" where
  "GetMatchTypeIndex ss cur_idx arg_count type =
     (if cur_idx < arg_count
      then if cur_idx + 1 < arg_count
           then case getArgType ss (cur_idx + 1) of
                  None \<Rightarrow> 0
                | Some response \<Rightarrow>
                    if response \<noteq> type then GetMatchTypeIndex ss (cur_idx + 1) arg_count type else cur_idx + 1
           else 0
      else cur_idx)"
  by auto
termination
proof (relation "measure (\<lambda>(ss, cur_idx, arg_count, type). unat arg_count - unat cur_idx)")
  fix ss and cur_idx arg_count :: u32 and type response :: ipc_type
  assume "cur_idx < arg_count"
  then show "((ss, cur_idx + 1, arg_count, type), ss, cur_idx, arg_count, type)
      \<in> measure (\<lambda>(ss, cur_idx, arg_count, type). unat arg_count - unat cur_idx)"
    using unat_inc [of cur_idx arg_count] by (simp add: word_less_nat_alt)
qed simp

declare GetMatchTypeIndex.simps [simp del]

section \<open>The list of the controllers' results\<close>

text \<open>
  One entry of the results: the name of the controller, the code and the number of its errors, and the
  commit information, which is looked for among all remaining arguments. The second component
  is the index of the last argument read.
\<close>

definition read_controller_result :: "ssess \<Rightarrow> u32 \<Rightarrow> u32 \<Rightarrow> (TcControllerResult \<times> u32) option" where
  "read_controller_result ss argcount idx =
     do { controller_id \<leftarrow> got (srv_get_string (Some ss) idx);
          resp_code \<leftarrow> got (srv_get_uint32 (Some ss) (idx + 1));
          num_of_errors \<leftarrow> got (srv_get_uint32 (Some ss) (idx + 2));
          let temp_idx = idx + 2;
          let info = GetMatchTypeIndex ss temp_idx argcount PFC_IPCTYPE_UINT64;
          let res = \<lparr>res_controller_id = controller_id, res_resp_code = resp_code,
                     res_num_of_errors = num_of_errors, res_key_list = [], res_commit_number = 0,
                     res_commit_date = 0, res_commit_application = ''''\<rparr>;
          if info \<noteq> 0
          then do { commit_number \<leftarrow> got (srv_get_uint64 (Some ss) info);
                    commit_date \<leftarrow> got (srv_get_uint64 (Some ss) (info + 1));
                    commit_application \<leftarrow> got (srv_get_string (Some ss) (info + 2));
                    Some (res\<lparr>res_commit_number := commit_number, res_commit_date := commit_date,
                              res_commit_application := commit_application\<rparr>, info + 2) }
          else Some (res, temp_idx) }"

text \<open>\<open>std::map::insert\<close> keeps an entry that exists.\<close>

definition map_insert :: "'k \<Rightarrow> 'v \<Rightarrow> ('k \<times> 'v) list \<Rightarrow> ('k \<times> 'v) list" where
  "map_insert k v m = (if map_of m k = None then m @ [(k, v)] else m)"

text \<open>
  The key types of the errors of a controller. The arguments may end before all of them are read: then
  the whole function returns at once, without an error and without the result of this controller.
\<close>

datatype keys_read = KeysRead u32 "u32 list" TcKeyTypeIndexMap | KeysEnd TcKeyTypeIndexMap | KeysFail TcKeyTypeIndexMap

primrec key_loop :: "ssess \<Rightarrow> u32 \<Rightarrow> nat \<Rightarrow> u32 \<Rightarrow> u32 \<Rightarrow> u32 list \<Rightarrow> TcKeyTypeIndexMap \<Rightarrow> keys_read" where
  "key_loop ss argcount 0 err_count idx key_list key_map = KeysRead idx key_list key_map"
| "key_loop ss argcount (Suc n) err_count idx key_list key_map =
     (let idx = GetMatchTypeIndex ss idx argcount PFC_IPCTYPE_UINT32
      in if idx = 0 then KeysEnd key_map
         else case got (srv_get_uint32 (Some ss) idx) of
                None \<Rightarrow> KeysFail key_map
              | Some local_kt \<Rightarrow>
                  key_loop ss argcount n (err_count + 1) idx (key_list @ [local_kt])
                    (map_insert err_count idx key_map))"

text \<open>
  The loop over the controllers. Every round moves the index forward; \<open>fuel\<close> bounds the rounds by the
  number of arguments.
\<close>

primrec controller_results_loop :: "nat \<Rightarrow> ssess \<Rightarrow> u32 \<Rightarrow> u32 \<Rightarrow> TcLibModule \<Rightarrow> u32 \<times> TcLibModule" where
  "controller_results_loop 0 ss argcount idx t = (TC_SUCCESS, t)"
| "controller_results_loop (Suc fuel) ss argcount idx t =
     (if \<not> idx < argcount then (TC_SUCCESS, t)
      else let idx = GetMatchTypeIndex ss idx argcount PFC_IPCTYPE_STRING
           in if idx = 0 then (TC_SUCCESS, t)
              else case read_controller_result ss argcount idx of
                     None \<Rightarrow> (TC_FAILURE, t)
                   | Some (res, idx) \<Rightarrow>
                       if res_num_of_errors res = 0
                       then controller_results_loop fuel ss argcount idx
                              (t\<lparr>tl_commit_phase_result := tl_commit_phase_result t @ [res]\<rparr>)
                       else case key_loop ss argcount (unat (res_num_of_errors res)) 0 idx [] [] of
                              KeysFail km \<Rightarrow> (TC_FAILURE, t\<lparr>tl_key_map := km\<rparr>)
                            | KeysEnd km \<Rightarrow> (TC_SUCCESS, t\<lparr>tl_key_map := km\<rparr>)
                            | KeysRead idx key_list km \<Rightarrow>
                                controller_results_loop fuel ss argcount idx
                                  (t\<lparr>tl_key_map := km,
                                     tl_controller_key_map :=
                                       map_insert (res_controller_id res) km (tl_controller_key_map t),
                                     tl_commit_phase_result :=
                                       tl_commit_phase_result t @ [res\<lparr>res_key_list := key_list\<rparr>]\<rparr>))"

abbreviation DRV_RESULT_START_POS :: u32 where "DRV_RESULT_START_POS \<equiv> 3"

definition UpdateControllerKeyList :: "u32 tl_prog" where
  "UpdateControllerKeyList =
     State (\<lambda>t. case tl_sess t of
                  None \<Rightarrow> (TC_FAILURE, t)
                | Some ss \<Rightarrow>
                    if getArgCount ss = IPC_DEFAULT_ARG_COUNT then (TC_FAILURE, t)
                    else controller_results_loop (unat (getArgCount ss)) ss (getArgCount ss) DRV_RESULT_START_POS
                           (t\<lparr>tl_key_map := [], tl_controller_key_map := [], tl_commit_phase_result := []\<rparr>))"

section \<open>Reading the details of an error\<close>

definition GetKeyIndex :: "string \<Rightarrow> u32 \<Rightarrow> TcLibModule \<Rightarrow> TcApiCommonRet \<times> u32 option" where
  "GetKeyIndex controller_id err_pos t =
     (if tl_controller_key_map t = [] then (TC_API_INVALID_CONTROLLER_ID, None)
      else case map_of (tl_controller_key_map t) controller_id of
             None \<Rightarrow> (TC_API_INVALID_PARAM, None)
           | Some key_type_map \<Rightarrow>
               if key_type_map = [] then (TC_API_INVALID_KEY_TYPE, None)
               else case map_of key_type_map err_pos of
                      None \<Rightarrow> (TC_API_INVALID_PARAM, None)
                    | Some key_index \<Rightarrow> (TC_API_COMMON_SUCCESS, Some key_index))"

definition IsReadKeyValueAllowed :: "TcLibModule \<Rightarrow> bool" where
  "IsReadKeyValueAllowed t \<longleftrightarrow>
     tl_oper_state t \<in> {MSG_COMMIT_VOTE_DRIVER_RESULT, MSG_COMMIT_GLOBAL_DRIVER_RESULT,
                        MSG_AUDIT_VOTE_DRIVER_RESULT, MSG_AUDIT_GLOBAL_DRIVER_RESULT}"

definition IsWriteKeyValueAllowed :: "TcLibModule \<Rightarrow> bool" where
  "IsWriteKeyValueAllowed t \<longleftrightarrow>
     tl_oper_state t \<in> {MSG_COMMIT_TRANS_START, MSG_COMMIT_DRIVER_VOTE, MSG_COMMIT_DRIVER_GLOBAL,
                        MSG_COMMIT_VOTE_DRIVER_RESULT, MSG_COMMIT_GLOBAL_DRIVER_RESULT,
                        MSG_AUDIT_TRANS_START, MSG_AUDIT_DRIVER_VOTE, MSG_AUDIT_DRIVER_GLOBAL,
                        MSG_AUDIT_VOTE_DRIVER_RESULT, MSG_AUDIT_GLOBAL_DRIVER_RESULT}"

text \<open>The result with the key and, if asked for, the value; \<open>value_def\<close> is \<open>None\<close> for a null pointer.\<close>

definition TcLibReadKeyValueDataInfo ::
  "string \<Rightarrow> u32 \<Rightarrow> u32 \<Rightarrow> string \<Rightarrow> string option \<Rightarrow> TcLibModule \<Rightarrow> TcApiCommonRet \<times> u8 list option \<times> u8 list option" where
  "TcLibReadKeyValueDataInfo controller_id err_pos key_type key_def value_def t =
     (if \<not> IsReadKeyValueAllowed t then (TC_API_INVALID_OPER_STATE, None, None)
      else case GetKeyIndex controller_id err_pos t of
             (ret, None) \<Rightarrow> (ret, None, None)
           | (_, Some idx) \<Rightarrow>
               case got (srv_get_uint32 (tl_sess t) idx) of
                 None \<Rightarrow> (TC_API_COMMON_FAILURE, None, None)
               | Some local_key_type \<Rightarrow>
                   if key_type \<noteq> local_key_type then (TC_API_INVALID_KEY_TYPE, None, None)
                   else case got (srv_get_struct (tl_sess t) (idx + 1) key_def) of
                          None \<Rightarrow> (TC_API_COMMON_FAILURE, None, None)
                        | Some key \<Rightarrow>
                            case value_def of
                              None \<Rightarrow> (TC_API_COMMON_SUCCESS, Some key, None)
                            | Some vdef \<Rightarrow>
                                case got (srv_get_struct (tl_sess t) (idx + 2) vdef) of
                                  None \<Rightarrow> (TC_API_COMMON_FAILURE, Some key, None)
                                | Some v \<Rightarrow> (TC_API_COMMON_SUCCESS, Some key, Some v))"

end
