(* ===== verification/TL_Service.thy ===== *)
theory TL_Service
  imports TL_Module
begin

text \<open>
  The requests that a daemon serves: the checks of the message order, the handling of the commit and
  audit messages and \<open>TcLibModule::ipcService\<close>, still \<open>modules/tclib/tclib_module.cc\<close>.
  The requests are served one after the other, as the mutex of the module makes them.
\<close>

section \<open>The order of the messages\<close>

definition ValidateUpllUpplCommitSequence :: "TcMsgOperType \<Rightarrow> TcMsgOperType \<Rightarrow> bool" where
  "ValidateUpllUpplCommitSequence oper_state oper_type =
     (case oper_type of
        MSG_COMMIT_TRANS_START \<Rightarrow> oper_state = MSG_NONE
      | MSG_COMMIT_VOTE \<Rightarrow> oper_state = MSG_COMMIT_TRANS_START
      | MSG_COMMIT_VOTE_DRIVER_RESULT \<Rightarrow> oper_state = MSG_COMMIT_VOTE
      | MSG_COMMIT_GLOBAL \<Rightarrow> oper_state = MSG_COMMIT_VOTE_DRIVER_RESULT \<or> oper_state = MSG_COMMIT_VOTE
      | MSG_COMMIT_GLOBAL_DRIVER_RESULT \<Rightarrow> oper_state = MSG_COMMIT_GLOBAL
      | MSG_COMMIT_TRANS_END \<Rightarrow>
          oper_state = MSG_COMMIT_GLOBAL_DRIVER_RESULT \<or> oper_state = MSG_COMMIT_TRANS_START \<or>
          oper_state = MSG_COMMIT_VOTE \<or> oper_state = MSG_COMMIT_GLOBAL \<or> oper_state = MSG_COMMIT_ABORT
      | MSG_COMMIT_ABORT \<Rightarrow> oper_state = MSG_COMMIT_VOTE \<or> oper_state = MSG_COMMIT_VOTE_DRIVER_RESULT
      | _ \<Rightarrow> False)"

definition ValidateDriverCommitSequence :: "TcMsgOperType \<Rightarrow> TcMsgOperType \<Rightarrow> bool" where
  "ValidateDriverCommitSequence oper_state oper_type =
     (case oper_type of
        MSG_COMMIT_TRANS_START \<Rightarrow> oper_state = MSG_NONE
      | MSG_COMMIT_DRIVER_VOTE \<Rightarrow> oper_state = MSG_COMMIT_TRANS_START
      | MSG_COMMIT_DRIVER_GLOBAL \<Rightarrow> oper_state = MSG_COMMIT_DRIVER_VOTE
      | MSG_COMMIT_TRANS_END \<Rightarrow>
          oper_state = MSG_COMMIT_DRIVER_GLOBAL \<or> oper_state = MSG_COMMIT_DRIVER_VOTE \<or>
          oper_state = MSG_COMMIT_TRANS_START \<or> oper_state = MSG_COMMIT_ABORT
      | MSG_COMMIT_ABORT \<Rightarrow> oper_state = MSG_COMMIT_DRIVER_VOTE
      | _ \<Rightarrow> False)"

definition ValidateCommitOperSequence :: "tclib_env \<Rightarrow> TcLibModule \<Rightarrow> TcMsgOperType \<Rightarrow> bool" where
  "ValidateCommitOperSequence env t oper_type =
     (if GetControllerType env t = UNC_CT_UNKNOWN
      then ValidateUpllUpplCommitSequence (tl_oper_state t) oper_type
      else ValidateDriverCommitSequence (tl_oper_state t) oper_type)"

definition ValidateUpllUpplAuditSequence :: "TcMsgOperType \<Rightarrow> TcMsgOperType \<Rightarrow> bool" where
  "ValidateUpllUpplAuditSequence oper_state oper_type =
     (case oper_type of
        MSG_AUDIT_START \<Rightarrow> oper_state = MSG_NONE
      | MSG_AUDIT_TRANS_START \<Rightarrow> oper_state = MSG_AUDIT_START
      | MSG_AUDIT_VOTE \<Rightarrow> oper_state = MSG_AUDIT_TRANS_START
      | MSG_AUDIT_VOTE_DRIVER_RESULT \<Rightarrow> oper_state = MSG_AUDIT_VOTE
      | MSG_AUDIT_GLOBAL \<Rightarrow> oper_state = MSG_AUDIT_VOTE_DRIVER_RESULT
      | MSG_AUDIT_GLOBAL_DRIVER_RESULT \<Rightarrow> oper_state = MSG_AUDIT_GLOBAL
      | MSG_AUDIT_TRANS_END \<Rightarrow>
          oper_state = MSG_AUDIT_GLOBAL_DRIVER_RESULT \<or> oper_state = MSG_AUDIT_TRANS_START \<or>
          oper_state = MSG_AUDIT_VOTE \<or> oper_state = MSG_AUDIT_ABORT
      | MSG_AUDIT_END \<Rightarrow>
          oper_state = MSG_AUDIT_TRANS_END \<or> oper_state = MSG_AUDIT_START \<or> oper_state = MSG_AUDIT_TRANS_START
      | MSG_AUDIT_ABORT \<Rightarrow> oper_state = MSG_AUDIT_VOTE \<or> oper_state = MSG_AUDIT_VOTE_DRIVER_RESULT
      | _ \<Rightarrow> False)"

definition ValidateDriverAuditSequence :: "bool \<Rightarrow> TcMsgOperType \<Rightarrow> TcMsgOperType \<Rightarrow> bool" where
  "ValidateDriverAuditSequence audit_in_progress oper_state oper_type =
     (case oper_type of
        MSG_AUDIT_START \<Rightarrow> audit_in_progress \<and> oper_state = MSG_NONE
      | MSG_AUDIT_TRANS_START \<Rightarrow>
          (audit_in_progress \<and> oper_state = MSG_AUDIT_START) \<or> (\<not> audit_in_progress \<and> oper_state = MSG_NONE)
      | MSG_AUDIT_DRIVER_VOTE \<Rightarrow> oper_state = MSG_AUDIT_TRANS_START
      | MSG_AUDIT_DRIVER_GLOBAL \<Rightarrow> oper_state = MSG_AUDIT_DRIVER_VOTE
      | MSG_AUDIT_TRANS_END \<Rightarrow>
          oper_state = MSG_AUDIT_DRIVER_GLOBAL \<or> oper_state = MSG_AUDIT_TRANS_START \<or>
          oper_state = MSG_AUDIT_DRIVER_VOTE \<or> oper_state = MSG_AUDIT_ABORT
      | MSG_AUDIT_END \<Rightarrow>
          audit_in_progress \<and>
          (oper_state = MSG_AUDIT_TRANS_END \<or> oper_state = MSG_AUDIT_START \<or> oper_state = MSG_AUDIT_TRANS_START)
      | MSG_AUDIT_ABORT \<Rightarrow> oper_state = MSG_AUDIT_DRIVER_VOTE
      | _ \<Rightarrow> False)"

definition ValidateAuditOperSequence :: "tclib_env \<Rightarrow> TcLibModule \<Rightarrow> TcMsgOperType \<Rightarrow> bool" where
  "ValidateAuditOperSequence env t oper_type =
     (if GetControllerType env t = UNC_CT_UNKNOWN
      then ValidateUpllUpplAuditSequence (tl_oper_state t) oper_type
      else ValidateDriverAuditSequence (tl_audit_in_progress t) (tl_oper_state t) oper_type)"

abbreviation commit_types :: "TcMsgOperType set" where
  "commit_types \<equiv>
     {MSG_COMMIT_TRANS_START, MSG_COMMIT_VOTE, MSG_COMMIT_DRIVER_VOTE, MSG_COMMIT_VOTE_DRIVER_RESULT,
      MSG_COMMIT_GLOBAL, MSG_COMMIT_DRIVER_GLOBAL, MSG_COMMIT_GLOBAL_DRIVER_RESULT, MSG_COMMIT_TRANS_END,
      MSG_COMMIT_ABORT}"

abbreviation audit_types :: "TcMsgOperType set" where
  "audit_types \<equiv>
     {MSG_AUDIT_START, MSG_AUDIT_TRANS_START, MSG_AUDIT_VOTE, MSG_AUDIT_DRIVER_VOTE,
      MSG_AUDIT_VOTE_DRIVER_RESULT, MSG_AUDIT_GLOBAL, MSG_AUDIT_DRIVER_GLOBAL,
      MSG_AUDIT_GLOBAL_DRIVER_RESULT, MSG_AUDIT_TRANS_END, MSG_AUDIT_END, MSG_AUDIT_ABORT}"

text \<open>
  The new state is entered whether or not the message was expected: only the assertion before it, which a
  release build does not have, stands in the way.
\<close>

definition ValidateOperTypeSequence :: "tclib_env \<Rightarrow> TcMsgOperType option \<Rightarrow> bool tl_prog" where
  "ValidateOperTypeSequence env oper_type =
     State (\<lambda>t. case oper_type of
                  None \<Rightarrow> (False, t)
                | Some oper \<Rightarrow>
                    if oper \<in> commit_types
                    then (ValidateCommitOperSequence env t oper, t\<lparr>tl_oper_state := oper\<rparr>)
                    else if oper \<in> audit_types
                    then (ValidateAuditOperSequence env t oper, t\<lparr>tl_oper_state := oper\<rparr>)
                    else (False, t))"

section \<open>Commit\<close>

definition NotifySessionConfig :: "ssess option \<Rightarrow> u32 tl_prog" where
  "NotifySessionConfig sess =
     State (\<lambda>t. case has_args sess of
                  None \<Rightarrow> (TC_FAILURE, t)
                | Some _ \<Rightarrow>
                    case got (srv_get_uint32 sess 0) of
                      None \<Rightarrow> (TC_FAILURE, t)
                    | Some session_id \<Rightarrow>
                        let t1 = t\<lparr>tl_session_id := session_id\<rparr>
                        in case got (srv_get_uint32 sess 1) of
                             None \<Rightarrow> (TC_FAILURE, t1)
                           | Some config_id \<Rightarrow> (TC_SUCCESS, t1\<lparr>tl_config_id := config_id\<rparr>))"

definition CommitTransStartEnd :: "tclib_env \<Rightarrow> TcCommitTransactionMsg \<Rightarrow> u32 tl_prog" where
  "CommitTransStartEnd env msg =
     do { t \<leftarrow> State_Monad.get;
          if \<not> tl_registered t then State_Monad.return TC_FAILURE
          else if ct_oper_type msg = Some MSG_COMMIT_TRANS_START
          then do {
            res \<leftarrow> call_handler env (HandleCommitTransactionStart (ct_session_id msg) (ct_config_id msg));
            (if hr_ret res \<noteq> TC_SUCCESS then State_Monad.update ReleaseTransactionResources
             else State_Monad.return ());
            State_Monad.return (hr_ret res) }
          else if ct_oper_type msg = Some MSG_COMMIT_TRANS_END
          then do {
            res \<leftarrow> call_handler env
              (HandleCommitTransactionEnd (ct_session_id msg) (ct_config_id msg) (ct_end_result msg));
            State_Monad.update ReleaseTransactionResources;
            State_Monad.return (hr_ret res) }
          else State_Monad.return TC_FAILURE }"

text \<open>The driver information as it is written into the answer: counts and types in one byte each.\<close>

definition driver_info_vals :: "(u32 \<times> string list) list \<Rightarrow> ipc_val list" where
  "driver_info_vals driver_info =
     IpcU8 (of_nat (length driver_info)) #
     concat (map (\<lambda>d. [IpcU8 (ucast (fst d)), IpcU8 (of_nat (length (snd d)))] @
                       map (\<lambda>c. IpcStr (Some c)) (snd d)) driver_info)"

definition CommitVoteGlobal :: "tclib_env \<Rightarrow> TcCommitTransactionMsg \<Rightarrow> u32 tl_prog" where
  "CommitVoteGlobal env msg =
     do { t \<leftarrow> State_Monad.get;
          if \<not> tl_registered t then State_Monad.return TC_FAILURE
          else if ct_oper_type msg \<noteq> Some MSG_COMMIT_VOTE \<and> ct_oper_type msg \<noteq> Some MSG_COMMIT_GLOBAL
          then State_Monad.return TC_FAILURE
          else do {
            res \<leftarrow> call_handler env
              (if ct_oper_type msg = Some MSG_COMMIT_VOTE
               then HandleCommitVoteRequest (ct_session_id msg) (ct_config_id msg)
               else HandleCommitGlobalCommit (ct_session_id msg) (ct_config_id msg));
            if hr_ret res \<noteq> TC_SUCCESS then State_Monad.return (hr_ret res)
            else if hr_driver_info res = [] then State_Monad.return (hr_ret res)
            else do {
              ok \<leftarrow> tl_sets env (driver_info_vals (hr_driver_info res));
              State_Monad.return (if ok then hr_ret res else TC_FAILURE) } } }"

definition session_valid :: "tclib_env \<Rightarrow> u32 \<Rightarrow> u32 \<Rightarrow> TcLibModule \<Rightarrow> bool" where
  "session_valid env session_id config_id t \<longleftrightarrow>
     GetControllerType env t = UNC_CT_UNKNOWN \<longrightarrow>
       TcLibValidateUpdateMsg session_id config_id t = TC_API_COMMON_SUCCESS"

definition CommitTransaction :: "tclib_env \<Rightarrow> u32 tl_prog" where
  "CommitTransaction env =
     do { t \<leftarrow> State_Monad.get;
          case GetCommitTransactionMsg (tl_sess t) of
            None \<Rightarrow> State_Monad.return TC_FAILURE
          | Some msg \<Rightarrow>
              do { ok \<leftarrow> ValidateOperTypeSequence env (ct_oper_type msg);
                   t \<leftarrow> State_Monad.get;
                   if \<not> ok then State_Monad.return TC_FAILURE
                   else if \<not> session_valid env (ct_session_id msg) (ct_config_id msg) t
                   then State_Monad.return TC_FAILURE
                   else if ct_oper_type msg = Some MSG_COMMIT_TRANS_START \<or>
                           ct_oper_type msg = Some MSG_COMMIT_TRANS_END
                   then CommitTransStartEnd env msg
                   else if ct_oper_type msg = Some MSG_COMMIT_VOTE \<or> ct_oper_type msg = Some MSG_COMMIT_GLOBAL
                   then CommitVoteGlobal env msg
                   else State_Monad.return TC_FAILURE } }"

definition CommitDriverVoteGlobal :: "tclib_env \<Rightarrow> u32 tl_prog" where
  "CommitDriverVoteGlobal env =
     do { t \<leftarrow> State_Monad.get;
          if \<not> tl_registered t then State_Monad.return TC_FAILURE
          else case GetCommitDrvVoteGlobalMsg (tl_sess t) of
            None \<Rightarrow> State_Monad.return TC_FAILURE
          | Some msg \<Rightarrow>
              do { ok \<leftarrow> ValidateOperTypeSequence env (cv_oper_type msg);
                   if \<not> ok then State_Monad.return TC_FAILURE
                   else if cv_oper_type msg = Some MSG_COMMIT_DRIVER_VOTE
                   then do { res \<leftarrow> call_handler env (HandleCommitVoteRequest_drv (cv_session_id msg)
                                    (cv_config_id msg) (cv_cntrl_list msg));
                             State_Monad.return (hr_ret res) }
                   else if cv_oper_type msg = Some MSG_COMMIT_DRIVER_GLOBAL
                   then do { res \<leftarrow> call_handler env (HandleCommitGlobalCommit_drv (cv_session_id msg)
                                    (cv_config_id msg) (cv_cntrl_list msg));
                             State_Monad.return (hr_ret res) }
                   else State_Monad.return TC_SUCCESS } }"

definition CommitDriverResult :: "tclib_env \<Rightarrow> u32 tl_prog" where
  "CommitDriverResult env =
     do { t \<leftarrow> State_Monad.get;
          if \<not> tl_registered t then State_Monad.return TC_FAILURE
          else case GetCommitDrvResultMsg (tl_sess t) of
            None \<Rightarrow> State_Monad.return TC_FAILURE
          | Some msg \<Rightarrow>
              do { ok \<leftarrow> ValidateOperTypeSequence env (cr_oper_type msg);
                   t \<leftarrow> State_Monad.get;
                   if \<not> ok then State_Monad.return TC_FAILURE
                   else if TcLibValidateUpdateMsg (cr_session_id msg) (cr_config_id msg) t \<noteq> TC_API_COMMON_SUCCESS
                   then State_Monad.return TC_FAILURE
                   else do {
                     ret \<leftarrow> UpdateControllerKeyList;
                     if ret \<noteq> TC_SUCCESS then State_Monad.return ret
                     else do {
                       t \<leftarrow> State_Monad.get;
                       res \<leftarrow> call_handler env (HandleCommitDriverResult (cr_session_id msg) (cr_config_id msg)
                                (cr_phase msg) (tl_commit_phase_result t));
                       State_Monad.return (hr_ret res) } } } }"

definition CommitGlobalAbort :: "tclib_env \<Rightarrow> u32 tl_prog" where
  "CommitGlobalAbort env =
     do { t \<leftarrow> State_Monad.get;
          if \<not> tl_registered t then State_Monad.return TC_FAILURE
          else case GetCommitGlobalAbortMsg (tl_sess t) of
            None \<Rightarrow> State_Monad.return TC_FAILURE
          | Some msg \<Rightarrow>
              do { ok \<leftarrow> ValidateOperTypeSequence env (ca_oper_type msg);
                   t \<leftarrow> State_Monad.get;
                   if \<not> ok then State_Monad.return TC_FAILURE
                   else if \<not> session_valid env (ca_session_id msg) (ca_config_id msg) t
                   then State_Monad.return TC_FAILURE
                   else do {
                     res \<leftarrow> call_handler env (HandleCommitGlobalAbort (ca_session_id msg) (ca_config_id msg)
                              (ca_commit_oper_phase msg));
                     State_Monad.return (hr_ret res) } } }"

section \<open>Audit\<close>

definition AuditTransStartEnd :: "tclib_env \<Rightarrow> TcAuditTransactionMsg \<Rightarrow> u32 tl_prog" where
  "AuditTransStartEnd env msg =
     do { t \<leftarrow> State_Monad.get;
          let sid = at_session_id msg;
          let drv = at_driver_id msg;
          let ctrl = at_controller_id msg;
          if \<not> tl_registered t then State_Monad.return TC_FAILURE
          else if at_oper_type msg = Some MSG_AUDIT_START
          then do {
            res \<leftarrow> call_handler env
              (if GetControllerType env t \<noteq> UNC_CT_UNKNOWN
               then HandleAuditStart_drv sid drv ctrl (at_reconnect msg)
               else HandleAuditStart sid drv ctrl (at_simplified_audit msg) (at_commit_number msg)
                      (at_commit_date msg) (at_commit_application msg));
            (if hr_ret res \<noteq> TC_SUCCESS \<and> hr_ret res \<noteq> TC_SIMPLIFIED_AUDIT
             then State_Monad.update (\<lambda>t. ReleaseTransactionResources (t\<lparr>tl_audit_in_progress := False\<rparr>))
             else State_Monad.return ());
            State_Monad.return (hr_ret res) }
          else if at_oper_type msg = Some MSG_AUDIT_END
          then do {
            res \<leftarrow> call_handler env (HandleAuditEnd sid drv ctrl (at_audit_result msg));
            State_Monad.update (\<lambda>t. ReleaseTransactionResources (t\<lparr>tl_audit_in_progress := False\<rparr>));
            State_Monad.return (hr_ret res) }
          else if at_oper_type msg = Some MSG_AUDIT_TRANS_START
          then do {
            res \<leftarrow> call_handler env (HandleAuditTransactionStart sid drv ctrl);
            State_Monad.return (hr_ret res) }
          else if at_oper_type msg = Some MSG_AUDIT_TRANS_END
          then do {
            res \<leftarrow> call_handler env (HandleAuditTransactionEnd sid drv ctrl (at_end_result msg));
            (if GetControllerType env t \<noteq> UNC_CT_UNKNOWN \<and> \<not> tl_audit_in_progress t
             then State_Monad.update ReleaseTransactionResources else State_Monad.return ());
            State_Monad.return (hr_ret res) }
          else State_Monad.return TC_FAILURE }"

definition AuditVoteGlobal :: "tclib_env \<Rightarrow> TcAuditTransactionMsg \<Rightarrow> u32 tl_prog" where
  "AuditVoteGlobal env msg =
     do { t \<leftarrow> State_Monad.get;
          let sid = at_session_id msg;
          let drv = at_driver_id msg;
          let ctrl = at_controller_id msg;
          if \<not> tl_registered t then State_Monad.return TC_FAILURE
          else if at_oper_type msg \<noteq> Some MSG_AUDIT_VOTE \<and> at_oper_type msg \<noteq> Some MSG_AUDIT_GLOBAL
          then State_Monad.return TC_FAILURE
          else do {
            res \<leftarrow> call_handler env
              (if at_oper_type msg = Some MSG_AUDIT_VOTE then HandleAuditVoteRequest sid drv ctrl
               else HandleAuditGlobalCommit sid drv ctrl);
            let audit_result = (case hr_audit_result res of None \<Rightarrow> TC_AUDIT_SUCCESS | Some r \<Rightarrow> r);
            if hr_ret res \<noteq> TC_SUCCESS then State_Monad.return (hr_ret res)
            else do {
              ok \<leftarrow> tl_sets env
                ((if hr_driver_info res = [] then [] else driver_info_vals (hr_driver_info res)) @
                 (if at_oper_type msg = Some MSG_AUDIT_GLOBAL then [IpcU8 audit_result] else []));
              State_Monad.return (if ok then hr_ret res else TC_FAILURE) } } }"

definition AuditTransaction :: "tclib_env \<Rightarrow> u32 tl_prog" where
  "AuditTransaction env =
     do { t \<leftarrow> State_Monad.get;
          case GetAuditTransactionMsg (tl_sess t) of
            None \<Rightarrow> State_Monad.return TC_FAILURE
          | Some msg \<Rightarrow>
              do { (if GetControllerType env t \<noteq> UNC_CT_UNKNOWN
                    then State_Monad.update (\<lambda>t. t\<lparr>tl_audit_in_progress := (at_driver_id msg = GetControllerType env t)\<rparr>)
                    else State_Monad.return ());
                   ok \<leftarrow> ValidateOperTypeSequence env (at_oper_type msg);
                   if \<not> ok then State_Monad.return TC_FAILURE
                   else if at_oper_type msg \<in> Some ` {MSG_AUDIT_START, MSG_AUDIT_END, MSG_AUDIT_TRANS_START,
                                                     MSG_AUDIT_TRANS_END}
                   then AuditTransStartEnd env msg
                   else if at_oper_type msg = Some MSG_AUDIT_VOTE \<or> at_oper_type msg = Some MSG_AUDIT_GLOBAL
                   then AuditVoteGlobal env msg
                   else State_Monad.return TC_FAILURE } }"

definition AuditDriverVoteGlobal :: "tclib_env \<Rightarrow> u32 tl_prog" where
  "AuditDriverVoteGlobal env =
     do { t \<leftarrow> State_Monad.get;
          if \<not> tl_registered t then State_Monad.return TC_FAILURE
          else case GetAuditDrvVoteGlobalMsg (tl_sess t) of
            None \<Rightarrow> State_Monad.return TC_FAILURE
          | Some msg \<Rightarrow>
              do { ok \<leftarrow> ValidateOperTypeSequence env (av_oper_type msg);
                   if \<not> ok then State_Monad.return TC_FAILURE
                   else if av_oper_type msg = Some MSG_AUDIT_DRIVER_VOTE
                   then do { res \<leftarrow> call_handler env (HandleAuditVoteRequest_drv (av_session_id msg)
                                    (av_controller_id msg) (av_cntrl_list msg));
                             State_Monad.return (hr_ret res) }
                   else if av_oper_type msg = Some MSG_AUDIT_DRIVER_GLOBAL
                   then do { res \<leftarrow> call_handler env (HandleAuditGlobalCommit_drv (av_session_id msg)
                                    (av_controller_id msg) (av_cntrl_list msg));
                             State_Monad.return (hr_ret res) }
                   else State_Monad.return TC_SUCCESS } }"

definition AuditDriverResult :: "tclib_env \<Rightarrow> u32 tl_prog" where
  "AuditDriverResult env =
     do { t \<leftarrow> State_Monad.get;
          if \<not> tl_registered t then State_Monad.return TC_FAILURE
          else case GetAuditDrvResultMsg (tl_sess t) of
            None \<Rightarrow> State_Monad.return TC_FAILURE
          | Some msg \<Rightarrow>
              do { ok \<leftarrow> ValidateOperTypeSequence env (ar_oper_type msg);
                   if \<not> ok then State_Monad.return TC_FAILURE
                   else do {
                     ret \<leftarrow> UpdateControllerKeyList;
                     if ret \<noteq> TC_SUCCESS then State_Monad.return ret
                     else do {
                       t \<leftarrow> State_Monad.get;
                       res \<leftarrow> call_handler env (HandleAuditDriverResult (ar_session_id msg) (ar_controller_id msg)
                                (ar_phase msg) (tl_commit_phase_result t));
                       if hr_ret res \<noteq> TC_SUCCESS then State_Monad.return (hr_ret res)
                       else if ar_phase msg = TC_AUDIT_GLOBAL_COMMIT_PHASE
                       then do {
                         ok \<leftarrow> tl_sets env
                           [IpcU8 (case hr_audit_result res of None \<Rightarrow> TC_AUDIT_SUCCESS | Some r \<Rightarrow> r)];
                         State_Monad.return (if ok then hr_ret res else TC_FAILURE) }
                       else State_Monad.return (hr_ret res) } } } }"

definition AuditGlobalAbort :: "tclib_env \<Rightarrow> u32 tl_prog" where
  "AuditGlobalAbort env =
     do { t \<leftarrow> State_Monad.get;
          if \<not> tl_registered t then State_Monad.return TC_FAILURE
          else case GetAuditGlobalAbortMsg (tl_sess t) of
            None \<Rightarrow> State_Monad.return TC_FAILURE
          | Some msg \<Rightarrow>
              do { ok \<leftarrow> ValidateOperTypeSequence env (aa_oper_type msg);
                   if \<not> ok then State_Monad.return TC_FAILURE
                   else do {
                     res \<leftarrow> call_handler env (HandleAuditGlobalAbort (aa_session_id msg) (aa_driver_id msg)
                              (aa_controller_id msg) (aa_audit_oper_phase msg));
                     State_Monad.return (hr_ret res) } } }"

section \<open>The other requests\<close>

text \<open>The requests that only read their arguments and call a handler.\<close>

definition session_arg :: "ssess option \<Rightarrow> u32 option" where
  "session_arg session = do { has_args session; got (srv_get_uint32 session 0) }"

definition forward_call :: "tclib_env \<Rightarrow> handler_call option \<Rightarrow> u32 tl_prog" where
  "forward_call env c =
     do { t \<leftarrow> State_Monad.get;
          if \<not> tl_registered t then State_Monad.return TC_FAILURE
          else case c of
            None \<Rightarrow> State_Monad.return TC_FAILURE
          | Some call \<Rightarrow> do { res \<leftarrow> call_handler env call; State_Monad.return (hr_ret res) } }"

definition SaveConfiguration :: "tclib_env \<Rightarrow> u32 tl_prog" where
  "SaveConfiguration env =
     do { t \<leftarrow> State_Monad.get;
          forward_call env (map_option HandleSaveConfiguration (session_arg (tl_sess t))) }"

definition ClearStartup :: "tclib_env \<Rightarrow> u32 tl_prog" where
  "ClearStartup env =
     do { t \<leftarrow> State_Monad.get;
          forward_call env (map_option HandleClearStartup (session_arg (tl_sess t))) }"

definition AbortCandidate :: "tclib_env \<Rightarrow> u32 tl_prog" where
  "AbortCandidate env =
     do { t \<leftarrow> State_Monad.get;
          forward_call env
            (do { sess_id \<leftarrow> session_arg (tl_sess t);
                  conf_id \<leftarrow> got (srv_get_uint32 (tl_sess t) 1);
                  Some (HandleAbortCandidate sess_id conf_id) }) }"

definition AuditConfig :: "tclib_env \<Rightarrow> ssess option \<Rightarrow> u32 tl_prog" where
  "AuditConfig env sess =
     forward_call env
       (map_option (\<lambda>msg. HandleAuditConfig (ac_db_type msg) (ac_service_type msg)) (GetAuditConfigMsg sess))"

definition setup_with :: "tclib_env \<Rightarrow> handler_call \<Rightarrow> ssess option \<Rightarrow> u32 tl_prog" where
  "setup_with env call sess =
     do { t \<leftarrow> State_Monad.get;
          if \<not> tl_registered t then State_Monad.return TC_FAILURE
          else case do { has_args sess; got (srv_get_uint8 sess 0) } of
            None \<Rightarrow> State_Monad.return TC_FAILURE
          | Some autosave \<Rightarrow>
              do { State_Monad.update (\<lambda>t. t\<lparr>tl_auto_save_enabled := autosave\<rparr>);
                   res \<leftarrow> call_handler env call;
                   State_Monad.return (hr_ret res) } }"

definition Setup :: "tclib_env \<Rightarrow> ssess option \<Rightarrow> u32 tl_prog" where
  "Setup env sess = setup_with env HandleSetup sess"

definition SetupComplete :: "tclib_env \<Rightarrow> ssess option \<Rightarrow> u32 tl_prog" where
  "SetupComplete env sess = setup_with env HandleSetupComplete sess"

definition GetDriverId :: "tclib_env \<Rightarrow> u32 tl_prog" where
  "GetDriverId env =
     do { t \<leftarrow> State_Monad.get;
          if \<not> tl_registered t then State_Monad.return UNC_CT_UNKNOWN
          else case do { has_args (tl_sess t); got (srv_get_string (tl_sess t) 0) } of
            None \<Rightarrow> State_Monad.return UNC_CT_UNKNOWN
          | Some controller_id \<Rightarrow>
              do { State_Monad.update (\<lambda>t. t\<lparr>tl_oper_state := MSG_GET_DRIVERID\<rparr>);
                   res \<leftarrow> call_handler env (HandleGetControllerType_of controller_id);
                   State_Monad.update (\<lambda>t. t\<lparr>tl_oper_state := MSG_NONE\<rparr>);
                   State_Monad.return (hr_ret res) } }"

definition NotifyAutoSave :: "tclib_env \<Rightarrow> TcLibServiceId \<Rightarrow> u32 tl_prog" where
  "NotifyAutoSave env service =
     (case service of
        TCLIB_AUTOSAVE_ENABLE \<Rightarrow>
          do { State_Monad.update (\<lambda>t. t\<lparr>tl_auto_save_enabled := 1\<rparr>); ClearStartup env }
      | TCLIB_AUTOSAVE_DISABLE \<Rightarrow>
          do { State_Monad.update (\<lambda>t. t\<lparr>tl_auto_save_enabled := 0\<rparr>); SaveConfiguration env }
      | _ \<Rightarrow> State_Monad.return TC_FAILURE)"

section \<open>Dispatch\<close>

abbreviation PFC_IPCRESP_FATAL :: u32 where "PFC_IPCRESP_FATAL \<equiv> - 1"

text \<open>
  The services whose session is not kept in the member \<open>sess_\<close>, and those for which the timeout is
  set to infinity (\<open>TCLIB_COMMIT_TRANSACTION\<close> to \<open>TCLIB_SETUP_COMPLETE\<close> and three more).
\<close>

abbreviation direct_services :: "TcLibServiceId set" where
  "direct_services \<equiv> {TCLIB_NOTIFY_SESSION_CONFIG, TCLIB_SETUP, TCLIB_SETUP_COMPLETE, TCLIB_AUDIT_CONFIG}"

abbreviation timed_services :: "TcLibServiceId set" where
  "timed_services \<equiv> {TCLIB_NOTIFY_SESSION_CONFIG, TCLIB_GET_DRIVERID, TCLIB_CONTROLLER_TYPE}"

definition serve :: "tclib_env \<Rightarrow> TcLibServiceId \<Rightarrow> ssess \<Rightarrow> u32 tl_prog" where
  "serve env service sess =
     (case service of
        TCLIB_NOTIFY_SESSION_CONFIG \<Rightarrow> NotifySessionConfig (Some sess)
      | TCLIB_COMMIT_TRANSACTION \<Rightarrow> CommitTransaction env
      | TCLIB_COMMIT_DRV_VOTE_GLOBAL \<Rightarrow> CommitDriverVoteGlobal env
      | TCLIB_COMMIT_DRV_RESULT \<Rightarrow> CommitDriverResult env
      | TCLIB_COMMIT_GLOBAL_ABORT \<Rightarrow> CommitGlobalAbort env
      | TCLIB_AUDIT_TRANSACTION \<Rightarrow> AuditTransaction env
      | TCLIB_AUDIT_DRV_VOTE_GLOBAL \<Rightarrow> AuditDriverVoteGlobal env
      | TCLIB_AUDIT_DRV_RESULT \<Rightarrow> AuditDriverResult env
      | TCLIB_AUDIT_GLOBAL_ABORT \<Rightarrow> AuditGlobalAbort env
      | TCLIB_SAVE_CONFIG \<Rightarrow> SaveConfiguration env
      | TCLIB_CLEAR_STARTUP \<Rightarrow> ClearStartup env
      | TCLIB_USER_ABORT \<Rightarrow> AbortCandidate env
      | TCLIB_SETUP \<Rightarrow> Setup env (Some sess)
      | TCLIB_SETUP_COMPLETE \<Rightarrow> SetupComplete env (Some sess)
      | TCLIB_GET_DRIVERID \<Rightarrow> GetDriverId env
      | TCLIB_AUDIT_CONFIG \<Rightarrow> AuditConfig env (Some sess)
      | TCLIB_CONTROLLER_TYPE \<Rightarrow>
          do { t \<leftarrow> State_Monad.get; State_Monad.return (GetControllerType env t) }
      | TCLIB_AUTOSAVE_ENABLE \<Rightarrow> NotifyAutoSave env service
      | TCLIB_AUTOSAVE_DISABLE \<Rightarrow> NotifyAutoSave env service)"

text \<open>What is done before and after a request.\<close>

definition request_begin :: "TcLibServiceId \<Rightarrow> ssess \<Rightarrow> TcLibModule \<Rightarrow> TcLibModule" where
  "request_begin service sess t =
     t\<lparr>tl_history := tl_history t @ (if service \<notin> timed_services then [EvTimeout] else []),
       tl_request_counter := tl_request_counter t + 1,
       tl_sess := (if service \<notin> direct_services then Some sess else tl_sess t)\<rparr>"

definition request_end :: "TcLibModule \<Rightarrow> TcLibModule" where
  "request_end t =
     (let t1 = t\<lparr>tl_request_counter := tl_request_counter t - 1\<rparr>
      in if tl_request_counter t1 = 0 then t1\<lparr>tl_sess := None\<rparr> else t1)"

definition answer_vals :: "TcLibServiceId \<Rightarrow> TcLibModule \<Rightarrow> ipc_val list" where
  "answer_vals service t =
     (if service \<in> direct_services then []
      else case tl_sess t of None \<Rightarrow> [] | Some ss \<Rightarrow> ss_out ss)"

text \<open>
  The answer code and the values of the answer. The announcement of the session returns from inside the
  dispatch, past the end of the function, where the request is counted off.
\<close>

definition TcLib_ipcService :: "tclib_env \<Rightarrow> TcLibServiceId \<Rightarrow> ssess \<Rightarrow> (u32 \<times> ipc_val list) tl_prog" where
  "TcLib_ipcService env service sess =
     State (\<lambda>t.
       if \<not> tl_registered t then ((PFC_IPCRESP_FATAL, []), t)
       else let (resp, t1) = run_state (serve env service sess) (request_begin service sess t)
            in ((resp, answer_vals service t1),
                if service = TCLIB_NOTIFY_SESSION_CONFIG then t1 else request_end t1))"

section \<open>A request of a driver to the coordinator\<close>

primrec client_adds :: "ipc_env \<Rightarrow> ipc_val list \<Rightarrow> history \<Rightarrow> bool \<times> history" where
  "client_adds env [] h = (True, h)"
| "client_adds env (v # vs) h =
     (if err8 (addoutput_err env h) then (False, h @ [EvAdd v]) else client_adds env vs (h @ [EvAdd v]))"

text \<open>
  The driver asks the coordinator to audit a controller. \<open>sess_err\<close> is the error of creating the client
  session and \<open>tc\<close> the audit service of the coordinator: the error of the call and its answer.
\<close>

definition TcLibAuditControllerRequest ::
  "tclib_env \<Rightarrow> (history \<Rightarrow> u32) \<Rightarrow> (history \<Rightarrow> ipc_val list \<Rightarrow> u32 \<times> u32) \<Rightarrow> u32 \<Rightarrow> string \<Rightarrow> TcApiCommonRet tl_prog" where
  "TcLibAuditControllerRequest env sess_err tc success controller_id =
     State (\<lambda>t.
       if \<not> tl_registered t then (TC_API_COMMON_FAILURE, t)
       else if tle_ctrtype env = UNC_CT_UNKNOWN then (TC_API_COMMON_FAILURE, t)
       else let (err, conn) = altopen (tle_ipc env) (tl_history t)
            in if err \<noteq> 0 \<or> conn = 0 then (TC_API_FATAL, t)
               else if sess_err (tl_history t) \<noteq> 0 then (TC_API_FATAL, t)
               else let args = [IpcU32 TC_OP_DRIVER_AUDIT, IpcStr (Some controller_id),
                                IpcU8 (ucast (tle_ctrtype env)), IpcU8 0];
                        (ok, h) = client_adds (tle_ipc env) args (tl_history t); t1 = t\<lparr>tl_history := h\<rparr>
                    in if \<not> ok then (TC_API_COMMON_FAILURE, t1)
                       else let (err, resp) = tc h args
                            in if err \<noteq> 0 then (TC_API_FATAL, t1)
                               else if resp = success then (TC_API_COMMON_SUCCESS, t1)
                               else (TC_API_COMMON_FAILURE, t1))"

end
