(* ===== verification/TL_Props.thy ===== *)
theory TL_Props
  imports TL_Service TC_MsgLogic
begin

text \<open>
  What the daemon side of the protocol guarantees: which parts of its state a request leaves alone, how
  requests are counted, which messages are refused, and what a refusal does to the expected order.
\<close>

section \<open>Frames\<close>

text \<open>A program that does not change the part \<open>f\<close> of the state.\<close>

definition preserves :: "('s \<Rightarrow> 'b) \<Rightarrow> ('s, 'a) state \<Rightarrow> bool" where
  "preserves f p \<longleftrightarrow> (\<forall>t. f (snd (run_state p t)) = f t)"

named_theorems frame_rules "frame rules, one per construct"

lemma preservesD: "preserves f p \<Longrightarrow> run_state p t = (a, t') \<Longrightarrow> f t' = f t"
  by (metis preserves_def snd_conv)

lemma preserves_bind [frame_rules]:
  "preserves f p \<Longrightarrow> (\<And>a. preserves f (q a)) \<Longrightarrow> preserves f (State_Monad.bind p q)"
  by (simp add: preserves_def split: prod.split) (metis snd_conv)

lemma preserves_return [frame_rules]: "preserves f (State_Monad.return a)"
  by (simp add: preserves_def)

lemma preserves_get [frame_rules]: "preserves f State_Monad.get"
  by (simp add: preserves_def)

lemma preserves_if [frame_rules]: "(b \<Longrightarrow> preserves f p) \<Longrightarrow> (\<not> b \<Longrightarrow> preserves f q) \<Longrightarrow> preserves f (if b then p else q)"
  by simp

lemma preserves_option [frame_rules]:
  "(x = None \<Longrightarrow> preserves f p) \<Longrightarrow> (\<And>y. x = Some y \<Longrightarrow> preserves f (q y)) \<Longrightarrow>
   preserves f (case x of None \<Rightarrow> p | Some y \<Rightarrow> q y)"
  by (cases x) auto

lemma preserves_prod [frame_rules]: "(\<And>a b. preserves f (q a b)) \<Longrightarrow> preserves f (case x of (a, b) \<Rightarrow> q a b)"
  by (cases x) auto

lemma preserves_update: "(\<And>t. f (g t) = f t) \<Longrightarrow> preserves f (State_Monad.update g)"
  by (simp add: preserves_def State_Monad.update_def)

lemma preserves_state: "(\<And>t. f (snd (g t)) = f t) \<Longrightarrow> preserves f (State g)"
  by (simp add: preserves_def)

text \<open>The parts that no request but its own handler changes: counter and registration.\<close>

definition stable :: "TcLibModule \<Rightarrow> u32 \<times> bool" where
  "stable t = (tl_request_counter t, tl_registered t)"

lemma stable_simps [simp]:
  "stable (t\<lparr>tl_sess := a\<rparr>) = stable t" "stable (t\<lparr>tl_history := b\<rparr>) = stable t"
  "stable (t\<lparr>tl_session_id := c\<rparr>) = stable t" "stable (t\<lparr>tl_config_id := c\<rparr>) = stable t"
  "stable (t\<lparr>tl_controllerid := d\<rparr>) = stable t" "stable (t\<lparr>tl_calls := e\<rparr>) = stable t"
  "stable (t\<lparr>tl_oper_state := f\<rparr>) = stable t" "stable (t\<lparr>tl_audit_in_progress := g\<rparr>) = stable t"
  "stable (t\<lparr>tl_key_map := h\<rparr>) = stable t" "stable (t\<lparr>tl_controller_key_map := i\<rparr>) = stable t"
  "stable (t\<lparr>tl_commit_phase_result := j\<rparr>) = stable t" "stable (t\<lparr>tl_auto_save_enabled := k\<rparr>) = stable t"
  by (simp_all add: stable_def)

lemma stable_set [frame_rules]: "preserves stable (tl_set env v)"
  by (simp add: tl_set_def preserves_def split: prod.split)

lemma stable_sets [frame_rules]: "preserves stable (tl_sets env vs)"
  by (induction vs) (auto intro!: frame_rules)

lemma stable_writes [frame_rules]: "preserves stable (api_writes env ws)"
proof (induction ws)
  case (Cons w ws)
  have "preserves stable (api_write env w)"
    by (cases w) (auto simp: api_write_def TcLibWriteControllerInfo_def TcLibWriteControllerInfo_commit_def
        TcLibWriteKeyValueDataInfo_def write_controller_def intro!: frame_rules preserves_update)
  with Cons show ?case by (auto intro!: frame_rules)
qed (auto intro!: frame_rules)

lemma stable_call [frame_rules]: "preserves stable (call_handler env c)"
  by (auto simp: call_handler_def Let_def intro!: frame_rules preserves_update)

lemma stable_release [simp]: "stable (ReleaseTransactionResources t) = stable t"
  by (simp add: ReleaseTransactionResources_def)

lemma stable_validate [frame_rules]: "preserves stable (ValidateOperTypeSequence env oper)"
  by (simp add: ValidateOperTypeSequence_def preserves_def split: option.split)

lemma stable_results_loop: "stable (snd (controller_results_loop n ss argcount idx t)) = stable t"
  by (induction n arbitrary: idx t) (simp_all add: Let_def split: option.split prod.split keys_read.split)

lemma stable_key_list [frame_rules]: "preserves stable UpdateControllerKeyList"
  using stable_results_loop by (fastforce simp: UpdateControllerKeyList_def preserves_def split: option.split)

lemmas service_defs =
  CommitTransaction_def CommitTransStartEnd_def CommitVoteGlobal_def CommitDriverVoteGlobal_def
  CommitDriverResult_def CommitGlobalAbort_def AuditTransaction_def AuditTransStartEnd_def
  AuditVoteGlobal_def AuditDriverVoteGlobal_def AuditDriverResult_def AuditGlobalAbort_def
  SaveConfiguration_def ClearStartup_def AbortCandidate_def AuditConfig_def Setup_def
  SetupComplete_def setup_with_def GetDriverId_def NotifyAutoSave_def forward_call_def Let_def

lemma stable_serve: "preserves stable (serve env service sess)"
proof (cases service)
  case TCLIB_NOTIFY_SESSION_CONFIG
  then show ?thesis
    by (simp add: serve_def NotifySessionConfig_def Let_def preserves_def split: option.split)
qed (auto simp: serve_def service_defs intro!: frame_rules preserves_update)

section \<open>The request counter\<close>

text \<open>A sequence of requests with their answers.\<close>

type_synonym tl_request = "TcLibServiceId \<times> ssess"

primrec serve_all :: "tclib_env \<Rightarrow> tl_request list \<Rightarrow> TcLibModule \<Rightarrow> (u32 \<times> ipc_val list) list \<times> TcLibModule" where
  "serve_all env [] t = ([], t)"
| "serve_all env (r # rs) t =
     (let (a, t1) = run_state (TcLib_ipcService env (fst r) (snd r)) t; (as, t2) = serve_all env rs t1
      in (a # as, t2))"

lemma ipcService_counter:
  assumes "tl_registered t"
  shows "stable (snd (run_state (TcLib_ipcService env service sess) t)) =
    (tl_request_counter t + (if service = TCLIB_NOTIFY_SESSION_CONFIG then 1 else 0), True)"
proof -
  obtain resp t1 where run: "run_state (serve env service sess) (request_begin service sess t) = (resp, t1)"
    by fastforce
  have "stable t1 = (tl_request_counter t + 1, True)"
    using preservesD [OF stable_serve run] assms by (simp add: request_begin_def stable_def)
  with run assms show ?thesis
    by (simp add: TcLib_ipcService_def request_end_def stable_def Let_def)
qed

text \<open>The count of the requests in progress is right except for the announcements of the session: after
  any sequence of requests the counter has grown by the number of announcements among them, because an
  announcement is counted but never counted off. From the first announcement on, the counter never returns
  to zero between requests, and the session of the last request is kept although it is gone.\<close>

theorem request_counter_drift:
  assumes "tl_registered t" "serve_all env reqs t = (answers, t')"
  shows "tl_request_counter t' =
    tl_request_counter t + of_nat (length (filter (\<lambda>r. fst r = TCLIB_NOTIFY_SESSION_CONFIG) reqs))"
  using assms
proof (induction reqs arbitrary: t answers)
  case (Cons r reqs)
  obtain a t1 where run: "run_state (TcLib_ipcService env (fst r) (snd r)) t = (a, t1)" by fastforce
  with ipcService_counter [OF Cons.prems(1), of env "fst r" "snd r"]
  have t1: "tl_request_counter t1 = tl_request_counter t + (if fst r = TCLIB_NOTIFY_SESSION_CONFIG then 1 else 0)"
    "tl_registered t1" by (simp_all add: stable_def split: if_splits)
  obtain as where "serve_all env reqs t1 = (as, t')" using Cons.prems(2) run by (auto split: prod.splits)
  with Cons.IH [OF t1(2)] t1(1) show ?case by simp
qed simp

definition demo_handlers :: tclib_env where
  "demo_handlers =
     \<lparr>tle_ipc = good_env, tle_ctrtype = UNC_CT_UNKNOWN,
      tle_handle = \<lambda>_ _. \<lparr>hr_ret = TC_SUCCESS, hr_writes = [], hr_driver_info = [], hr_audit_result = None\<rparr>\<rparr>"

definition tl_req :: "TcLibServiceId \<Rightarrow> ipc_val list \<Rightarrow> tl_request" where
  "tl_req service args = (service, \<lparr>ss_args = args, ss_out = []\<rparr>)"

definition demo_daemon :: TcLibModule where
  "demo_daemon = TcLibModule_new\<lparr>tl_registered := True\<rparr>"

theorem request_counter_drift_witness:
  "tl_request_counter (snd (serve_all demo_handlers
     [tl_req TCLIB_NOTIFY_SESSION_CONFIG [IpcU32 5, IpcU32 1],
      tl_req TCLIB_COMMIT_TRANSACTION [IpcU8 (opertype_value MSG_COMMIT_TRANS_START), IpcU32 5, IpcU32 1]]
     demo_daemon)) = 1"
  using request_counter_drift [of demo_daemon demo_handlers
      "[tl_req TCLIB_NOTIFY_SESSION_CONFIG [IpcU32 5, IpcU32 1],
        tl_req TCLIB_COMMIT_TRANSACTION [IpcU8 (opertype_value MSG_COMMIT_TRANS_START), IpcU32 5, IpcU32 1]]", OF _ prod.collapse [symmetric]]
  by (simp add: demo_daemon_def TcLibModule_new_def tl_req_def)

section \<open>The messages of a commit\<close>

text \<open>The requests of a commit as the coordinator sends them.\<close>

definition commit_request :: "u32 \<Rightarrow> u32 \<Rightarrow> TcMsgOperType \<Rightarrow> TcLibServiceId \<Rightarrow> ipc_val list \<Rightarrow> bool" where
  "commit_request sid cid oper service args \<longleftrightarrow>
     length args < 2 ^ 32 \<and>
     (\<exists>rest. args = IpcU8 (opertype_value oper) # IpcU32 sid # IpcU32 cid # rest \<and>
        (if oper \<in> {MSG_COMMIT_TRANS_START, MSG_COMMIT_VOTE, MSG_COMMIT_GLOBAL}
         then service = TCLIB_COMMIT_TRANSACTION \<and> rest = []
         else if oper = MSG_COMMIT_TRANS_END
         then service = TCLIB_COMMIT_TRANSACTION \<and> (\<exists>res. rest = [IpcU8 res])
         else if oper \<in> {MSG_COMMIT_VOTE_DRIVER_RESULT, MSG_COMMIT_GLOBAL_DRIVER_RESULT}
         then service = TCLIB_COMMIT_DRV_RESULT \<and> (\<exists>phase vals. rest = IpcU8 phase # vals)
         else if oper = MSG_COMMIT_ABORT
         then service = TCLIB_COMMIT_GLOBAL_ABORT \<and> (\<exists>phase. rest = [IpcU8 phase])
         else if oper \<in> {MSG_COMMIT_DRIVER_VOTE, MSG_COMMIT_DRIVER_GLOBAL}
         then service = TCLIB_COMMIT_DRV_VOTE_GLOBAL \<and>
              (\<exists>cs. length cs < 256 \<and> rest = IpcU8 (of_nat (length cs)) # map (\<lambda>c. IpcStr (Some c)) cs)
         else False))"

lemma opertype_of_value [simp]: "opertype_of (opertype_value oper) = Some oper"
  by (cases oper) (simp_all add: opertype_value_def opertype_of_def all_opertypes_def)

lemma has_args_Some: "ss_args ss \<noteq> [] \<Longrightarrow> length (ss_args ss) < 2 ^ 32 \<Longrightarrow> has_args (Some ss) = Some ()"
  using unat_of_nat_small [of "length (ss_args ss)", where 'a = 32] by (auto simp: has_args_def getArgCount_def)

lemma got_u8: "length (ss_args ss) < 2 ^ 32 \<Longrightarrow> unat i < length (ss_args ss) \<Longrightarrow> ss_args ss ! unat i = IpcU8 x \<Longrightarrow>
    got (srv_get_uint8 (Some ss) i) = Some x"
  by (simp add: got_def srv_get_uint8_def word_less_nat_alt unat_of_nat_small)

lemma got_u32: "length (ss_args ss) < 2 ^ 32 \<Longrightarrow> unat i < length (ss_args ss) \<Longrightarrow> ss_args ss ! unat i = IpcU32 x \<Longrightarrow>
    got (srv_get_uint32 (Some ss) i) = Some x"
  by (simp add: got_def srv_get_uint32_def word_less_nat_alt unat_of_nat_small)

lemma got_u64: "length (ss_args ss) < 2 ^ 32 \<Longrightarrow> unat i < length (ss_args ss) \<Longrightarrow> ss_args ss ! unat i = IpcU64 x \<Longrightarrow>
    got (srv_get_uint64 (Some ss) i) = Some x"
  by (simp add: got_def srv_get_uint64_def word_less_nat_alt unat_of_nat_small)

lemma got_struct: "length (ss_args ss) < 2 ^ 32 \<Longrightarrow> unat i < length (ss_args ss) \<Longrightarrow> ss_args ss ! unat i = IpcStruct n x \<Longrightarrow>
    got (srv_get_struct (Some ss) i n) = Some x"
  by (simp add: got_def srv_get_struct_def word_less_nat_alt unat_of_nat_small)

lemma got_str: "length (ss_args ss) < 2 ^ 32 \<Longrightarrow> unat i < length (ss_args ss) \<Longrightarrow> ss_args ss ! unat i = IpcStr (Some x) \<Longrightarrow>
    got (srv_get_string (Some ss) i) = Some x"
  by (simp add: got_def srv_get_string_def word_less_nat_alt unat_of_nat_small)

lemma get_strings_decode:
  assumes "ss_args ss = pre @ x # map (\<lambda>c. IpcStr (Some c)) cs @ post" "length (ss_args ss) < 2 ^ 32"
  shows "get_strings (Some ss) (length cs) (of_nat (length pre)) = Some cs"
  using assms(1)
proof (induction cs arbitrary: pre x)
  case (Cons c cs)
  have len: "length pre + 1 < length (ss_args ss)" using Cons.prems by simp
  have "unat (of_nat (length pre) :: u32) = length pre" "unat (of_nat (Suc (length pre)) :: u32) = Suc (length pre)"
    by (rule unat_of_nat_small; use len assms(2) in simp)+
  then have idx: "unat (of_nat (length pre) + 1 :: u32) = length pre + 1" by (simp add: add.commute)
  have "got (srv_get_string (Some ss) (of_nat (length pre) + 1)) = Some c"
    by (rule got_str) (use assms(2) idx len Cons.prems in \<open>simp_all add: nth_append\<close>)
  moreover have "get_strings (Some ss) (length cs) (of_nat (length pre) + 1) = Some cs"
    using Cons.IH [of "pre @ [x]" "IpcStr (Some c)"] Cons.prems by (simp add: add.commute)
  ultimately show ?case by simp
qed simp

text \<open>The daemon reads from such a request what the coordinator has put there.\<close>

lemma decode_transaction:
  assumes "commit_request sid cid oper TCLIB_COMMIT_TRANSACTION (ss_args ss)"
  obtains e where "GetCommitTransactionMsg (Some ss) =
    Some \<lparr>ct_oper_type = Some oper, ct_session_id = sid, ct_config_id = cid, ct_end_result = e\<rparr>"
  using assms
  by (auto simp: commit_request_def GetCommitTransactionMsg_def has_args_Some got_u8 got_u32 split: if_splits)

lemma decode_driver:
  assumes "commit_request sid cid oper TCLIB_COMMIT_DRV_VOTE_GLOBAL (ss_args ss)"
  obtains n cs where "GetCommitDrvVoteGlobalMsg (Some ss) =
    Some \<lparr>cv_oper_type = Some oper, cv_session_id = sid, cv_config_id = cid, cv_cntrl_count = n, cv_cntrl_list = cs\<rparr>"
proof -
  obtain cs where args: "ss_args ss = IpcU8 (opertype_value oper) # IpcU32 sid # IpcU32 cid #
      IpcU8 (of_nat (length cs)) # map (\<lambda>c. IpcStr (Some c)) cs" "length (ss_args ss) < 2 ^ 32" "length cs < 256"
    using assms by (auto simp: commit_request_def split: if_splits)
  have "get_strings (Some ss) (length cs) (of_nat (length [IpcU8 (opertype_value oper), IpcU32 sid, IpcU32 cid])) = Some cs"
    by (rule get_strings_decode [of _ _ "IpcU8 (of_nat (length cs))" _ "[]"]) (use args in simp_all)
  moreover have "unat (of_nat (length cs) :: u8) = length cs" using args(3) by (simp add: unat_of_nat_small)
  ultimately have "GetCommitDrvVoteGlobalMsg (Some ss) =
    Some \<lparr>cv_oper_type = Some oper, cv_session_id = sid, cv_config_id = cid, cv_cntrl_count = of_nat (length cs), cv_cntrl_list = cs\<rparr>"
    using args by (simp add: GetCommitDrvVoteGlobalMsg_def has_args_Some got_u8 got_u32)
  then show thesis by (rule that)
qed

lemma decode_result:
  assumes "commit_request sid cid oper TCLIB_COMMIT_DRV_RESULT (ss_args ss)"
  obtains p where "GetCommitDrvResultMsg (Some ss) =
    Some \<lparr>cr_oper_type = Some oper, cr_session_id = sid, cr_config_id = cid, cr_phase = p\<rparr>"
  using assms
  by (auto simp: commit_request_def GetCommitDrvResultMsg_def has_args_Some got_u8 got_u32 split: if_splits)

lemma decode_abort:
  assumes "commit_request sid cid oper TCLIB_COMMIT_GLOBAL_ABORT (ss_args ss)"
  obtains p where "GetCommitGlobalAbortMsg (Some ss) =
    Some \<lparr>ca_oper_type = Some oper, ca_session_id = sid, ca_config_id = cid, ca_commit_oper_phase = p\<rparr>"
  using assms
  by (auto simp: commit_request_def GetCommitGlobalAbortMsg_def has_args_Some got_u8 got_u32 split: if_splits)

section \<open>The protocol as the daemon sees it\<close>

text \<open>
  The abstract protocol: the message expected next depends on the last one; the start of a transaction
  that the handler refuses and the end of a transaction lead back to the idle state.
\<close>

definition expected :: "tclib_env \<Rightarrow> TcMsgOperType \<Rightarrow> TcMsgOperType \<Rightarrow> bool" where
  "expected env st oper =
     (if tle_ctrtype env = UNC_CT_UNKNOWN then ValidateUpllUpplCommitSequence st oper
      else ValidateDriverCommitSequence st oper)"

definition moves_to :: "TcMsgOperType \<Rightarrow> u32 \<Rightarrow> TcMsgOperType" where
  "moves_to oper resp =
     (if oper = MSG_COMMIT_TRANS_END \<or> (oper = MSG_COMMIT_TRANS_START \<and> resp \<noteq> TC_SUCCESS) then MSG_NONE else oper)"

text \<open>The handler that serves a message.\<close>

fun serves :: "TcMsgOperType \<Rightarrow> handler_call \<Rightarrow> bool" where
  "serves oper (HandleCommitTransactionStart _ _) = (oper = MSG_COMMIT_TRANS_START)"
| "serves oper (HandleCommitTransactionEnd _ _ _) = (oper = MSG_COMMIT_TRANS_END)"
| "serves oper (HandleCommitVoteRequest _ _) = (oper = MSG_COMMIT_VOTE)"
| "serves oper (HandleCommitVoteRequest_drv _ _ _) = (oper = MSG_COMMIT_DRIVER_VOTE)"
| "serves oper (HandleCommitGlobalCommit _ _) = (oper = MSG_COMMIT_GLOBAL)"
| "serves oper (HandleCommitGlobalCommit_drv _ _ _) = (oper = MSG_COMMIT_DRIVER_GLOBAL)"
| "serves oper (HandleCommitDriverResult _ _ _ _) =
     (oper = MSG_COMMIT_VOTE_DRIVER_RESULT \<or> oper = MSG_COMMIT_GLOBAL_DRIVER_RESULT)"
| "serves oper (HandleCommitGlobalAbort _ _ _) = (oper = MSG_COMMIT_ABORT)"
| "serves oper _ = False"

text \<open>What one message of a commit does to a daemon.\<close>

definition commit_step :: "tclib_env \<Rightarrow> TcMsgOperType \<Rightarrow> TcLibModule \<Rightarrow> u32 \<Rightarrow> TcLibModule \<Rightarrow> bool" where
  "commit_step env oper t resp t' \<longleftrightarrow>
     (if expected env (tl_oper_state t) oper
      then tl_oper_state t' = moves_to oper resp \<and>
           ((\<exists>c. serves oper c \<and> tl_calls t' = tl_calls t @ [c]) \<or>
            (resp = TC_FAILURE \<and> tl_calls t' = tl_calls t \<and>
             oper \<in> {MSG_COMMIT_VOTE_DRIVER_RESULT, MSG_COMMIT_GLOBAL_DRIVER_RESULT}))
      else resp = TC_FAILURE \<and> tl_oper_state t' = oper \<and> tl_calls t' = tl_calls t)"

text \<open>The daemon is a driver, or it has been told of this session and configuration.\<close>

definition announced :: "tclib_env \<Rightarrow> u32 \<Rightarrow> u32 \<Rightarrow> TcLibModule \<Rightarrow> bool" where
  "announced env sid cid t \<longleftrightarrow>
     sid \<noteq> 0 \<and> cid \<noteq> 0 \<and>
     (tle_ctrtype env = UNC_CT_UNKNOWN \<longrightarrow> tl_session_id t = sid \<and> tl_config_id t = cid)"

text \<open>The state of the protocol, which the answer leaves alone and a handler only adds its call to.\<close>

definition proto :: "TcLibModule \<Rightarrow> TcMsgOperType \<times> u32 \<times> u32 \<times> bool \<times> handler_call list" where
  "proto t = (tl_oper_state t, tl_session_id t, tl_config_id t, tl_registered t, tl_calls t)"

lemma proto_simps [simp]:
  "proto (t\<lparr>tl_sess := a\<rparr>) = proto t" "proto (t\<lparr>tl_history := b\<rparr>) = proto t"
  "proto (t\<lparr>tl_controllerid := d\<rparr>) = proto t"
  "proto (t\<lparr>tl_key_map := h\<rparr>) = proto t" "proto (t\<lparr>tl_controller_key_map := i\<rparr>) = proto t"
  "proto (t\<lparr>tl_commit_phase_result := j\<rparr>) = proto t" "proto (t\<lparr>tl_request_counter := k\<rparr>) = proto t"
  by (simp_all add: proto_def)

lemma proto_set [frame_rules]: "preserves proto (tl_set env v)"
  by (simp add: tl_set_def preserves_def split: prod.split)

lemma proto_sets [frame_rules]: "preserves proto (tl_sets env vs)"
  by (induction vs) (auto intro!: frame_rules)

lemma proto_writes [frame_rules]: "preserves proto (api_writes env ws)"
proof (induction ws)
  case (Cons w ws)
  have "preserves proto (api_write env w)"
    by (cases w) (auto simp: api_write_def TcLibWriteControllerInfo_def TcLibWriteControllerInfo_commit_def
        TcLibWriteKeyValueDataInfo_def write_controller_def intro!: frame_rules preserves_update)
  with Cons show ?case by (auto intro!: frame_rules)
qed (auto intro!: frame_rules)

lemma proto_results_loop: "proto (snd (controller_results_loop n ss argcount idx t)) = proto t"
  by (induction n arbitrary: idx t) (simp_all add: Let_def split: option.split prod.split keys_read.split)

lemma proto_key_list: "preserves proto UpdateControllerKeyList"
  using proto_results_loop by (fastforce simp: UpdateControllerKeyList_def preserves_def split: option.split)

lemma proto_begin [simp]: "proto (request_begin service sess t) = proto t"
  by (simp add: request_begin_def)

lemma proto_end [simp]: "proto (request_end t) = proto t"
  by (simp add: request_end_def Let_def)

lemma wp_preserves: "preserves f p \<Longrightarrow> (\<And>a t'. f t' = f t \<Longrightarrow> Q a t') \<Longrightarrow> wp p Q t"
  by (auto simp: wp_def preserves_def split: prod.split) (metis snd_conv)

named_theorems tl_rules "rules for the programs of a daemon"

lemma wp_tl_sets [tl_rules]: "(\<And>ok t'. proto t' = proto t \<Longrightarrow> Q ok t') \<Longrightarrow> wp (tl_sets env vs) Q t"
  by (rule wp_preserves [OF proto_sets])

lemma results_loop_ret: "fst (controller_results_loop n ss argcount idx t) \<in> {TC_SUCCESS, TC_FAILURE}"
  by (induction n arbitrary: idx t) (simp_all add: Let_def split: option.split prod.split keys_read.split)

lemma wp_key_list [tl_rules]:
  assumes "\<And>r t'. proto t' = proto t \<Longrightarrow> r = TC_SUCCESS \<or> r = TC_FAILURE \<Longrightarrow> Q r t'"
  shows "wp UpdateControllerKeyList Q t"
proof -
  have "fst (run_state UpdateControllerKeyList t) = TC_SUCCESS \<or> fst (run_state UpdateControllerKeyList t) = TC_FAILURE"
    by (cases "tl_sess t") (use results_loop_ret in \<open>simp_all add: UpdateControllerKeyList_def\<close>)
  then show ?thesis
    using assms preservesD [OF proto_key_list] by (simp add: wp_def split: prod.split) (metis fst_conv)
qed

lemma wp_call_handler [tl_rules]:
  assumes "\<And>t'. proto t' = proto (t\<lparr>tl_calls := tl_calls t @ [c]\<rparr>) \<Longrightarrow> Q (tle_handle env (tl_calls t) c) t'"
  shows "wp (call_handler env c) Q t"
  unfolding call_handler_def Let_def
  by (intro wp_bind wp_get wp_update wp_preserves [OF proto_writes] wp_return assms)

lemma wp_validate [tl_rules]:
  assumes "oper \<in> commit_types" "tl_registered t"
    "Q (expected env (tl_oper_state t) oper) (t\<lparr>tl_oper_state := oper\<rparr>)"
  shows "wp (ValidateOperTypeSequence env (Some oper)) Q t"
  using assms by (simp add: wp_def ValidateOperTypeSequence_def ValidateCommitOperSequence_def expected_def GetControllerType_def)

lemma release_simps [simp]:
  "tl_oper_state (ReleaseTransactionResources t) = MSG_NONE" "tl_calls (ReleaseTransactionResources t) = tl_calls t"
  "tl_session_id (ReleaseTransactionResources t) = tl_session_id t" "tl_config_id (ReleaseTransactionResources t) = tl_config_id t"
  "tl_registered (ReleaseTransactionResources t) = tl_registered t"
  by (simp_all add: ReleaseTransactionResources_def)


lemmas [tl_rules] = wp_bind wp_return wp_get wp_update wp_if wp_option wp_prod

lemma announced_valid:
  "announced env sid cid t \<Longrightarrow> tl_registered t \<Longrightarrow> session_valid env sid cid t"
  "announced env sid cid t \<Longrightarrow> tle_ctrtype env = UNC_CT_UNKNOWN \<Longrightarrow> TcLibValidateUpdateMsg sid cid t = TC_API_COMMON_SUCCESS"
  by (auto simp: announced_def session_valid_def TcLibValidateUpdateMsg_def GetControllerType_def)

lemma announced_proto: "announced env sid cid t \<Longrightarrow> proto t' = proto t \<Longrightarrow> announced env sid cid t'"
  by (simp add: announced_def proto_def)

definition result_ok :: "tclib_env \<Rightarrow> TcMsgOperType \<Rightarrow> TcLibModule \<Rightarrow> u32 \<Rightarrow> TcLibModule \<Rightarrow> bool" where
  "result_ok env oper t resp t' \<longleftrightarrow>
     commit_step env oper t resp t' \<and> tl_session_id t' = tl_session_id t \<and> tl_config_id t' = tl_config_id t \<and>
     tl_registered t'"

lemma CommitTransaction_step:
  assumes "tl_registered t" "announced env sid cid t" "tl_sess t = Some ss"
    "commit_request sid cid oper TCLIB_COMMIT_TRANSACTION (ss_args ss)"
  shows "wp (CommitTransaction env) (result_ok env oper t) t"
proof -
  obtain e where msg: "GetCommitTransactionMsg (Some ss) =
      Some \<lparr>ct_oper_type = Some oper, ct_session_id = sid, ct_config_id = cid, ct_end_result = e\<rparr>"
    using decode_transaction [OF assms(4)] .
  have oper: "oper \<in> {MSG_COMMIT_TRANS_START, MSG_COMMIT_VOTE, MSG_COMMIT_GLOBAL, MSG_COMMIT_TRANS_END}"
    using assms(4) by (auto simp: commit_request_def split: if_splits)
  have valid: "session_valid env sid cid (t\<lparr>tl_oper_state := oper\<rparr>)"
    using assms(1,2) by (intro announced_valid) (simp_all add: announced_def)
  show ?thesis
    unfolding CommitTransaction_def CommitTransStartEnd_def CommitVoteGlobal_def
    using assms(1,3) msg oper valid
    by (auto intro!: tl_rules simp: result_ok_def commit_step_def moves_to_def proto_def)
qed

lemma CommitDriverVoteGlobal_step:
  assumes "tl_registered t" "tl_sess t = Some ss"
    "commit_request sid cid oper TCLIB_COMMIT_DRV_VOTE_GLOBAL (ss_args ss)"
  shows "wp (CommitDriverVoteGlobal env) (result_ok env oper t) t"
proof -
  obtain n cs where msg: "GetCommitDrvVoteGlobalMsg (Some ss) =
      Some \<lparr>cv_oper_type = Some oper, cv_session_id = sid, cv_config_id = cid, cv_cntrl_count = n, cv_cntrl_list = cs\<rparr>"
    using decode_driver [OF assms(3)] .
  have oper: "oper = MSG_COMMIT_DRIVER_VOTE \<or> oper = MSG_COMMIT_DRIVER_GLOBAL"
    using assms(3) by (auto simp: commit_request_def split: if_splits)
  show ?thesis
    unfolding CommitDriverVoteGlobal_def using assms(1,2) msg oper
    by (auto intro!: tl_rules simp: result_ok_def commit_step_def moves_to_def proto_def)
qed

lemma CommitDriverResult_step:
  assumes "tl_registered t" "announced env sid cid t" "tl_sess t = Some ss"
    "commit_request sid cid oper TCLIB_COMMIT_DRV_RESULT (ss_args ss)"
  shows "wp (CommitDriverResult env) (result_ok env oper t) t"
proof -
  obtain p where msg: "GetCommitDrvResultMsg (Some ss) =
      Some \<lparr>cr_oper_type = Some oper, cr_session_id = sid, cr_config_id = cid, cr_phase = p\<rparr>"
    using decode_result [OF assms(4)] .
  have oper: "oper = MSG_COMMIT_VOTE_DRIVER_RESULT \<or> oper = MSG_COMMIT_GLOBAL_DRIVER_RESULT"
    using assms(4) by (auto simp: commit_request_def split: if_splits)
  have valid: "TcLibValidateUpdateMsg sid cid (t\<lparr>tl_oper_state := oper\<rparr>) = TC_API_COMMON_SUCCESS"
    if "expected env (tl_oper_state t) oper"
    using assms(2) that oper
    by (intro announced_valid) (auto simp: announced_def expected_def ValidateDriverCommitSequence_def split: if_splits)
  show ?thesis
    unfolding CommitDriverResult_def using assms(1,3) msg oper valid
    by (auto intro!: tl_rules simp: result_ok_def commit_step_def moves_to_def proto_def)
qed

lemma CommitGlobalAbort_step:
  assumes "tl_registered t" "announced env sid cid t" "tl_sess t = Some ss"
    "commit_request sid cid oper TCLIB_COMMIT_GLOBAL_ABORT (ss_args ss)"
  shows "wp (CommitGlobalAbort env) (result_ok env oper t) t"
proof -
  obtain p where msg: "GetCommitGlobalAbortMsg (Some ss) =
      Some \<lparr>ca_oper_type = Some oper, ca_session_id = sid, ca_config_id = cid, ca_commit_oper_phase = p\<rparr>"
    using decode_abort [OF assms(4)] .
  have oper: "oper = MSG_COMMIT_ABORT"
    using assms(4) by (auto simp: commit_request_def split: if_splits)
  have valid: "session_valid env sid cid (t\<lparr>tl_oper_state := oper\<rparr>)"
    using assms(1,2) by (intro announced_valid) (simp_all add: announced_def)
  show ?thesis
    unfolding CommitGlobalAbort_def using assms(1,3) msg oper valid
    by (auto intro!: tl_rules simp: result_ok_def commit_step_def moves_to_def proto_def)
qed

lemma commit_request_step:
  assumes "run_state (TcLib_ipcService env service sess) t = ((resp, vals), t')" "tl_registered t"
    "announced env sid cid t" "commit_request sid cid oper service (ss_args sess)"
  shows "commit_step env oper t resp t' \<and> announced env sid cid t' \<and> tl_registered t'"
proof -
  let ?t = "request_begin service sess t"
  have svc: "service \<in> {TCLIB_COMMIT_TRANSACTION, TCLIB_COMMIT_DRV_VOTE_GLOBAL, TCLIB_COMMIT_DRV_RESULT, TCLIB_COMMIT_GLOBAL_ABORT}"
    using assms(4) by (auto simp: commit_request_def split: if_splits)
  then have t: "tl_registered ?t" "announced env sid cid ?t" "tl_sess ?t = Some sess"
    using assms(2,3) announced_proto [OF assms(3), of ?t] by (auto simp: request_begin_def)
  have "wp (serve env service sess) (result_ok env oper ?t) ?t"
    using svc assms(4) CommitTransaction_step [OF t] CommitDriverVoteGlobal_step [OF t(1,3)]
      CommitDriverResult_step [OF t] CommitGlobalAbort_step [OF t]
    by (auto simp: serve_def)
  moreover obtain t1 where t1: "run_state (serve env service sess) ?t = (resp, t1)" "t' = request_end t1"
    using assms(1,2) svc by (auto simp: TcLib_ipcService_def Let_def split: prod.splits)
  ultimately have ok: "result_ok env oper ?t resp t1" by (blast dest: wpD)
  have eqs: "tl_calls ?t = tl_calls t" "tl_oper_state ?t = tl_oper_state t" "tl_session_id ?t = tl_session_id t"
    "tl_config_id ?t = tl_config_id t" "tl_calls t' = tl_calls t1" "tl_oper_state t' = tl_oper_state t1"
    "tl_session_id t' = tl_session_id t1" "tl_config_id t' = tl_config_id t1" "tl_registered t' = tl_registered t1"
    using t1(2) by (simp_all add: request_begin_def request_end_def Let_def)
  from ok assms(3) show ?thesis unfolding result_ok_def commit_step_def announced_def eqs by (elim conjE) (simp only: simp_thms)
qed



section \<open>An interrupted transaction\<close>

lemma start_expected: "expected env st MSG_COMMIT_TRANS_START \<longleftrightarrow> st = MSG_NONE"
  by (simp add: expected_def ValidateUpllUpplCommitSequence_def ValidateDriverCommitSequence_def)



end
