(* ===== verification/TL_Results.thy ===== *)
theory TL_Results
  imports TL_Props
begin

text \<open>
  The results of the drivers on their way to UPLL and UPPL: a driver writes them with the functions of the
  library, the coordinator appends the answers of all drivers to one request, and the library of UPLL and
  UPPL takes the request apart again. The layout has no length fields, the reader finds its
  way by the types of the values.
\<close>

section \<open>The layout of the results\<close>

text \<open>The name of a controller, its code, the commit information if there is any, and its errors.\<close>

type_synonym entry_key = "u32 \<times> (string \<times> u8 list) \<times> (string \<times> u8 list) option"

record entry =
  en_controller :: string
  en_code :: u32
  en_info :: "(u64 \<times> u64 \<times> string) option"
  en_keys :: "entry_key list"

definition key_vals :: "entry_key \<Rightarrow> ipc_val list" where
  "key_vals k =
     (case k of (kt, key, value) \<Rightarrow>
        [IpcU32 kt, IpcStruct (fst key) (snd key)] @
        (case value of None \<Rightarrow> [] | Some v \<Rightarrow> [IpcStruct (fst v) (snd v)]))"

definition info_vals :: "(u64 \<times> u64 \<times> string) option \<Rightarrow> ipc_val list" where
  "info_vals i = (case i of None \<Rightarrow> [] | Some (n, d, a) \<Rightarrow> [IpcU64 n, IpcU64 d, IpcStr (Some a)])"

definition entry_vals :: "entry \<Rightarrow> ipc_val list" where
  "entry_vals e =
     [IpcStr (Some (en_controller e)), IpcU32 (en_code e), IpcU32 (of_nat (length (en_keys e)))] @
     info_vals (en_info e) @ concat (map key_vals (en_keys e))"

definition entry_result :: "entry \<Rightarrow> TcControllerResult" where
  "entry_result e =
     \<lparr>res_controller_id = en_controller e, res_resp_code = en_code e,
      res_num_of_errors = of_nat (length (en_keys e)), res_key_list = map fst (en_keys e),
      res_commit_number = (case en_info e of None \<Rightarrow> 0 | Some (n, d, a) \<Rightarrow> n),
      res_commit_date = (case en_info e of None \<Rightarrow> 0 | Some (n, d, a) \<Rightarrow> d),
      res_commit_application = (case en_info e of None \<Rightarrow> '''' | Some (n, d, a) \<Rightarrow> a)\<rparr>"

text \<open>The calls with which a driver writes an entry.\<close>

definition entry_writes :: "entry \<Rightarrow> api_write list" where
  "entry_writes e =
     (case en_info e of
        None \<Rightarrow> WriteController (en_controller e) (en_code e) (of_nat (length (en_keys e)))
      | Some (n, d, a) \<Rightarrow> WriteControllerCommit (en_controller e) (en_code e) (of_nat (length (en_keys e))) n d a) #
     map (\<lambda>(kt, key, value). WriteKeyValue (en_controller e) kt key value) (en_keys e)"

section \<open>Writing the entries\<close>

text \<open>Values can be appended to the answer.\<close>

definition can_write :: "tclib_env \<Rightarrow> bool" where
  "can_write env \<longleftrightarrow> (\<forall>h. \<not> err8 (addoutput_err (tle_ipc env) h))"

lemma tl_sets_written:
  assumes "can_write env" "tl_sess t = Some ss"
  shows "\<exists>h. run_state (tl_sets env vs) t = (True, t\<lparr>tl_sess := Some (ss\<lparr>ss_out := ss_out ss @ vs\<rparr>), tl_history := h\<rparr>)"
  using assms(2)
proof (induction vs arbitrary: t ss)
  case Nil
  then show ?case by (intro exI [of _ "tl_history t"]) simp
next
  case (Cons v vs)
  let ?t = "t\<lparr>tl_sess := Some (ss\<lparr>ss_out := ss_out ss @ [v]\<rparr>), tl_history := tl_history t @ [EvAdd v]\<rparr>"
  have "run_state (tl_set env v) t = (TCUTIL_RET_SUCCESS, ?t)"
    using assms(1) Cons.prems by (simp add: tl_set_def srv_set_def can_write_def)
  with Cons.IH [of ?t] show ?case by simp
qed

lemma api_writes_append: "run_state (api_writes env (ws @ ws')) t = run_state (api_writes env ws') (snd (run_state (api_writes env ws) t))"
  by (induction ws arbitrary: t) (simp_all split: prod.split)

lemma api_writes_Cons:
  "run_state (api_writes env (w # ws)) t = run_state (api_writes env ws) (snd (run_state (api_write env w) t))"
  by (simp split: prod.split)

lemma api_keys_written:
  assumes "can_write env" "tl_sess t = Some ss" "tl_oper_state t \<noteq> MSG_NONE" "tl_controllerid t = c"
  shows "\<exists>h. snd (run_state (api_writes env (map (\<lambda>(kt, key, value). WriteKeyValue c kt key value) ks)) t) =
    t\<lparr>tl_sess := Some (ss\<lparr>ss_out := ss_out ss @ concat (map key_vals ks)\<rparr>), tl_history := h\<rparr>"
  using assms(2-4)
proof (induction ks arbitrary: t ss)
  case Nil
  then show ?case by (intro exI [of _ "tl_history t"]) simp
next
  case (Cons k ks)
  obtain kt key v where k: "k = (kt, key, v)" by (cases k) auto
  obtain h where h: "run_state (tl_sets env (key_vals k)) t =
      (True, t\<lparr>tl_sess := Some (ss\<lparr>ss_out := ss_out ss @ key_vals k\<rparr>), tl_history := h\<rparr>)"
    using tl_sets_written [OF assms(1) Cons.prems(1)] by blast
  let ?t = "t\<lparr>tl_sess := Some (ss\<lparr>ss_out := ss_out ss @ key_vals k\<rparr>), tl_history := h\<rparr>"
  have "snd (run_state (api_write env (WriteKeyValue c kt key v)) t) = ?t"
    using h Cons.prems k by (simp add: api_write_def TcLibWriteKeyValueDataInfo_def key_vals_def del: tl_sets.simps)
  with Cons.IH [of ?t] Cons.prems k show ?case by (simp add: api_writes_Cons del: api_writes.simps)
qed

lemma entry_written:
  assumes "can_write env" "tl_sess t = Some ss" "tl_oper_state t \<noteq> MSG_NONE"
  shows "\<exists>h. snd (run_state (api_writes env (entry_writes e)) t) =
    t\<lparr>tl_controllerid := en_controller e, tl_sess := Some (ss\<lparr>ss_out := ss_out ss @ entry_vals e\<rparr>), tl_history := h\<rparr>"
proof -
  let ?head = "[IpcStr (Some (en_controller e)), IpcU32 (en_code e), IpcU32 (of_nat (length (en_keys e)))] @ info_vals (en_info e)"
  obtain h where h: "run_state (tl_sets env ?head) t =
      (True, t\<lparr>tl_sess := Some (ss\<lparr>ss_out := ss_out ss @ ?head\<rparr>), tl_history := h\<rparr>)"
    using tl_sets_written [OF assms(1,2)] by blast
  let ?t = "t\<lparr>tl_controllerid := en_controller e, tl_sess := Some (ss\<lparr>ss_out := ss_out ss @ ?head\<rparr>), tl_history := h\<rparr>"
  have "snd (run_state (api_write env (hd (entry_writes e))) t) = ?t"
    using h assms(3)
    by (auto simp: entry_writes_def api_write_def TcLibWriteControllerInfo_def TcLibWriteControllerInfo_commit_def
        write_controller_def info_vals_def State_Monad.update_def simp del: tl_sets.simps split: option.split)
  then have run: "snd (run_state (api_writes env (entry_writes e)) t) =
      snd (run_state (api_writes env (map (\<lambda>(kt, key, value). WriteKeyValue (en_controller e) kt key value) (en_keys e))) ?t)"
    by (simp add: entry_writes_def api_writes_Cons del: api_writes.simps)
  show ?thesis
    unfolding run using api_keys_written [OF assms(1), of ?t _ "en_controller e" "en_keys e"] assms(3)
    by (auto simp: entry_vals_def)
qed

text \<open>What a driver writes is the layout of the entries.\<close>

lemma entries_written:
  assumes "can_write env" "tl_sess t = Some ss" "tl_oper_state t \<noteq> MSG_NONE"
  shows "map_option ss_out (tl_sess (snd (run_state (api_writes env (concat (map entry_writes es))) t))) =
    Some (ss_out ss @ concat (map entry_vals es))"
  using assms(2,3)
proof (induction es arbitrary: t ss)
  case (Cons e es)
  obtain h where "snd (run_state (api_writes env (entry_writes e)) t) =
      t\<lparr>tl_controllerid := en_controller e, tl_sess := Some (ss\<lparr>ss_out := ss_out ss @ entry_vals e\<rparr>), tl_history := h\<rparr>"
    using entry_written [OF assms(1) Cons.prems] by blast
  with Cons.IH [of _ "ss\<lparr>ss_out := ss_out ss @ entry_vals e\<rparr>"] Cons.prems show ?case by (simp add: api_writes_append)
qed simp

section \<open>Finding the next value of a type\<close>

lemma unat_index: "n < 2 ^ 32 \<Longrightarrow> unat (of_nat n :: u32) = n"
  by (simp add: unat_of_nat_small)

lemma of_nat_Suc_u32: "of_nat n + 1 = (of_nat (Suc n) :: u32)"
  by simp

lemma getArgType_at:
  "ss_args ss = pre @ v # post \<Longrightarrow> length (ss_args ss) < 2 ^ 32 \<Longrightarrow>
   getArgType ss (of_nat (length pre)) = Some (ipc_type_of v)"
  by (simp add: getArgType_def unat_index nth_append)

lemma GetMatchTypeIndex_find:
  assumes "ss_args ss = pre @ x # mid @ v # post" "length (ss_args ss) < 2 ^ 32"
    "\<forall>y\<in>set mid. ipc_type_of y \<noteq> ty" "ipc_type_of v = ty"
  shows "GetMatchTypeIndex ss (of_nat (length pre)) (getArgCount ss) ty = of_nat (Suc (length pre) + length mid)"
  using assms(1,3)
proof (induction mid arbitrary: pre x)
  case Nil
  have "getArgType ss (of_nat (length (pre @ [x]))) = Some (ipc_type_of v)"
    by (rule getArgType_at) (use Nil assms(2) in simp_all)
  moreover have "(of_nat (length pre) :: u32) < getArgCount ss" "(of_nat (Suc (length pre)) :: u32) < getArgCount ss"
    using Nil assms(2) by (simp_all add: word_less_nat_alt getArgCount_def unat_index del: of_nat_Suc)
  ultimately show ?case
    using assms(4) by (simp add: GetMatchTypeIndex.simps [of ss "of_nat (length pre)"] of_nat_Suc_u32 del: of_nat_Suc)
next
  case (Cons y mid)
  have "getArgType ss (of_nat (length (pre @ [x]))) = Some (ipc_type_of y)"
    by (rule getArgType_at) (use Cons.prems assms(2) in simp_all)
  moreover have "(of_nat (length pre) :: u32) < getArgCount ss" "(of_nat (Suc (length pre)) :: u32) < getArgCount ss"
    using Cons.prems assms(2) by (simp_all add: word_less_nat_alt getArgCount_def unat_index del: of_nat_Suc)
  moreover have "GetMatchTypeIndex ss (of_nat (length (pre @ [x]))) (getArgCount ss) ty =
      of_nat (Suc (length (pre @ [x])) + length mid)"
    by (rule Cons.IH [of _ y]) (use Cons.prems in simp_all)
  ultimately show ?case
    using Cons.prems(2) by (simp add: GetMatchTypeIndex.simps [of ss "of_nat (length pre)"] of_nat_Suc_u32 del: of_nat_Suc)
qed

lemma GetMatchTypeIndex_none:
  assumes "ss_args ss = pre @ x # mid" "length (ss_args ss) < 2 ^ 32" "\<forall>y\<in>set mid. ipc_type_of y \<noteq> ty"
  shows "GetMatchTypeIndex ss (of_nat (length pre)) (getArgCount ss) ty = 0"
  using assms(1,3)
proof (induction mid arbitrary: pre x)
  case Nil
  have "(of_nat (length pre) :: u32) < getArgCount ss" "\<not> (of_nat (Suc (length pre)) :: u32) < getArgCount ss"
    using Nil assms(2) by (simp_all add: word_less_nat_alt getArgCount_def unat_index del: of_nat_Suc)
  then show ?case
    by (simp add: GetMatchTypeIndex.simps [of ss "of_nat (length pre)"] of_nat_Suc_u32 del: of_nat_Suc)
next
  case (Cons y mid)
  have "getArgType ss (of_nat (length (pre @ [x]))) = Some (ipc_type_of y)"
    by (rule getArgType_at) (use Cons.prems assms(2) in simp_all)
  moreover have "(of_nat (length pre) :: u32) < getArgCount ss" "(of_nat (Suc (length pre)) :: u32) < getArgCount ss"
    using Cons.prems assms(2) by (simp_all add: word_less_nat_alt getArgCount_def unat_index del: of_nat_Suc)
  moreover have "GetMatchTypeIndex ss (of_nat (length (pre @ [x]))) (getArgCount ss) ty = 0"
    by (rule Cons.IH [of _ y]) (use Cons.prems in simp_all)
  ultimately show ?case
    using Cons.prems(2) by (simp add: GetMatchTypeIndex.simps [of ss "of_nat (length pre)"] of_nat_Suc_u32 del: of_nat_Suc)
qed

section \<open>Reading an entry\<close>

lemma got_at:
  assumes "length (ss_args ss) < 2 ^ 32"
  shows "ss_args ss = pre @ IpcU32 x # post \<Longrightarrow> got (srv_get_uint32 (Some ss) (of_nat (length pre))) = Some x"
    "ss_args ss = pre @ IpcU64 z # post \<Longrightarrow> got (srv_get_uint64 (Some ss) (of_nat (length pre))) = Some z"
    "ss_args ss = pre @ IpcStr (Some c) # post \<Longrightarrow> got (srv_get_string (Some ss) (of_nat (length pre))) = Some c"
proof -
  have idx: "unat (of_nat (length pre) :: u32) = length pre" if "ss_args ss = pre @ v # post" for v
    using that assms by (simp add: unat_index)
  show "ss_args ss = pre @ IpcU32 x # post \<Longrightarrow> got (srv_get_uint32 (Some ss) (of_nat (length pre))) = Some x"
    "ss_args ss = pre @ IpcU64 z # post \<Longrightarrow> got (srv_get_uint64 (Some ss) (of_nat (length pre))) = Some z"
    "ss_args ss = pre @ IpcStr (Some c) # post \<Longrightarrow> got (srv_get_string (Some ss) (of_nat (length pre))) = Some c"
    using assms by (simp_all add: got_u32 got_u64 got_str idx)
qed

lemma of_nat_index_nonzero: "0 < n \<Longrightarrow> n < 2 ^ 32 \<Longrightarrow> (of_nat n :: u32) \<noteq> 0"
  by (metis unat_index unat_0 neq0_conv)

lemma index_plus:
  "of_nat n + 1 = (of_nat (n + 1) :: u32)" "of_nat n + 2 = (of_nat (n + 2) :: u32)"
  by simp_all

lemma no_u64_in_keys: "y \<in> set (concat (map key_vals ks)) \<Longrightarrow> ipc_type_of y \<noteq> PFC_IPCTYPE_UINT64"
  by (auto simp: key_vals_def ipc_type_of_def split: option.splits)

text \<open>
  The commit information is found if the entry has it; if the entry has none, it must not be followed by
  one that has.
\<close>

abbreviation head_result :: "entry \<Rightarrow> TcControllerResult" where
  "head_result e \<equiv> (entry_result e)\<lparr>res_key_list := []\<rparr>"

abbreviation info_length :: "entry \<Rightarrow> nat" where
  "info_length e \<equiv> length (info_vals (en_info e))"

lemma read_controller_result_entry:
  assumes args: "ss_args ss = pre @ entry_vals e @ post" "length (ss_args ss) < 2 ^ 32"
    and none: "en_info e = None \<Longrightarrow> \<forall>y\<in>set post. ipc_type_of y \<noteq> PFC_IPCTYPE_UINT64"
  shows "read_controller_result ss (getArgCount ss) (of_nat (length pre)) =
    Some (head_result e, of_nat (length pre + 2 + info_length e))"
proof -
  let ?n = "IpcU32 (of_nat (length (en_keys e)))" and ?c = "IpcStr (Some (en_controller e))" and ?r = "IpcU32 (en_code e)"
  let ?keys = "concat (map key_vals (en_keys e))"
  note get = got_at [OF args(2)]
  have reads: "got (srv_get_string (Some ss) (of_nat (length pre))) = Some (en_controller e)"
    "got (srv_get_uint32 (Some ss) (of_nat (length (pre @ [?c])))) = Some (en_code e)"
    "got (srv_get_uint32 (Some ss) (of_nat (length (pre @ [?c, ?r])))) = Some (of_nat (length (en_keys e)))"
    by (rule get, simp add: args entry_vals_def)+
  have all: "ss_args ss = (pre @ [?c, ?r]) @ ?n # info_vals (en_info e) @ ?keys @ post"
    by (simp add: args entry_vals_def)
  show ?thesis
  proof (cases "en_info e")
    case None
    have "GetMatchTypeIndex ss (of_nat (length (pre @ [?c, ?r]))) (getArgCount ss) PFC_IPCTYPE_UINT64 = 0"
      by (rule GetMatchTypeIndex_none [of _ _ ?n "?keys @ post"])
        (use all args(2) none None no_u64_in_keys in \<open>auto simp: info_vals_def\<close>)
    with reads None show ?thesis
      by (simp add: read_controller_result_def index_plus entry_result_def info_vals_def Let_def del: of_nat_add of_nat_Suc)
  next
    case (Some i)
    obtain num date app where i: "i = (num, date, app)" by (cases i) auto
    have all2: "ss_args ss = (pre @ [?c, ?r]) @ ?n # [] @ IpcU64 num # [IpcU64 date, IpcStr (Some app)] @ ?keys @ post"
      using all Some i by (simp add: info_vals_def)
    have idx: "GetMatchTypeIndex ss (of_nat (length (pre @ [?c, ?r]))) (getArgCount ss) PFC_IPCTYPE_UINT64 =
        of_nat (Suc (length (pre @ [?c, ?r])) + length ([] :: ipc_val list))"
      by (rule GetMatchTypeIndex_find [OF all2 args(2)]) (simp_all add: ipc_type_of_def)
    have info: "got (srv_get_uint64 (Some ss) (of_nat (length (pre @ [?c, ?r, ?n])))) = Some num"
      "got (srv_get_uint64 (Some ss) (of_nat (length (pre @ [?c, ?r, ?n, IpcU64 num])))) = Some date"
      "got (srv_get_string (Some ss) (of_nat (length (pre @ [?c, ?r, ?n, IpcU64 num, IpcU64 date])))) = Some app"
      by (rule get, simp add: all2)+
    have "(of_nat (Suc (length (pre @ [?c, ?r]))) :: u32) \<noteq> 0"
      by (rule of_nat_index_nonzero) (use all2 args(2) in auto)
    with reads idx info Some i show ?thesis
      by (simp add: read_controller_result_def index_plus entry_result_def info_vals_def Let_def eval_nat_numeral del: of_nat_add of_nat_Suc)
  qed
qed

section \<open>Reading the errors of an entry\<close>

text \<open>The key map leads to the place where each key of the list was written.\<close>

definition located :: "ssess \<Rightarrow> entry_key list \<Rightarrow> u32 \<Rightarrow> TcKeyTypeIndexMap \<Rightarrow> bool" where
  "located ss ks err km \<longleftrightarrow>
     (\<forall>i<length ks. \<exists>p q. map_of km (err + of_nat i) = Some (of_nat (length p)) \<and> ss_args ss = p @ key_vals (ks ! i) @ q)"

lemma map_leD: "m \<subseteq>\<^sub>m m' \<Longrightarrow> m k = Some v \<Longrightarrow> m' k = Some v"
  by (metis domI map_le_def)

lemma map_insert_new: "map_of m k = None \<Longrightarrow> map_of (map_insert k v m) = (map_of m)(k \<mapsto> v)"
  by (rule ext) (auto simp: map_insert_def map_add_def split: option.split)

lemma key_valsE:
  obtains structs where "key_vals k = IpcU32 (fst k) # structs" "\<forall>y\<in>set structs. ipc_type_of y = PFC_IPCTYPE_STRUCT"
proof -
  have "key_vals k = IpcU32 (fst k) # tl (key_vals k)" by (simp add: key_vals_def split: prod.split)
  moreover have "\<forall>y\<in>set (tl (key_vals k)). ipc_type_of y = PFC_IPCTYPE_STRUCT"
    by (cases k; cases "snd (snd k)") (auto simp: key_vals_def ipc_type_of_def)
  ultimately show thesis by (rule that)
qed

lemma key_loop_entries:
  assumes "ss_args ss = pre @ x # mid @ concat (map key_vals ks) @ post" "length (ss_args ss) < 2 ^ 32"
    "\<forall>y\<in>set mid. ipc_type_of y \<notin> {PFC_IPCTYPE_UINT32, PFC_IPCTYPE_STRING}"
    "\<forall>i<length ks. map_of km (err + of_nat i) = None"
  shows "\<exists>pre' v mid' km'. key_loop ss (getArgCount ss) (length ks) err (of_nat (length pre)) kl km =
      KeysRead (of_nat (length pre')) (kl @ map fst ks) km' \<and>
    ss_args ss = pre' @ v # mid' @ post \<and> (\<forall>y\<in>set mid'. ipc_type_of y \<noteq> PFC_IPCTYPE_STRING) \<and>
    located ss ks err km' \<and> map_of km \<subseteq>\<^sub>m map_of km' \<and> length pre \<le> length pre'"
  using assms(1,3,4)
proof (induction ks arbitrary: pre x mid err kl km)
  case Nil
  then show ?case by (intro exI [of _ pre] exI [of _ x] exI [of _ mid] exI [of _ km]) (auto simp: located_def)
next
  case (Cons k ks)
  obtain structs where k: "key_vals k = IpcU32 (fst k) # structs" "\<forall>y\<in>set structs. ipc_type_of y = PFC_IPCTYPE_STRUCT"
    by (rule key_valsE)
  let ?pre = "pre @ x # mid"
  have args: "ss_args ss = pre @ x # mid @ IpcU32 (fst k) # structs @ concat (map key_vals ks) @ post"
    using Cons.prems(1) k(1) by simp
  have idx: "GetMatchTypeIndex ss (of_nat (length pre)) (getArgCount ss) PFC_IPCTYPE_UINT32 = of_nat (length ?pre)"
    using GetMatchTypeIndex_find [OF args assms(2), of PFC_IPCTYPE_UINT32] Cons.prems(2) by (simp add: ipc_type_of_def)
  have nz: "(of_nat (length ?pre) :: u32) \<noteq> 0"
    by (rule of_nat_index_nonzero) (use args assms(2) in auto)
  have val: "got (srv_get_uint32 (Some ss) (of_nat (length ?pre))) = Some (fst k)"
    by (rule got_at(1) [OF assms(2)]) (use args in simp)
  have len: "Suc (length ks) < 2 ^ 32"
  proof -
    have "length ks \<le> length (concat (map key_vals ks))"
      by (induction ks) (auto simp: key_vals_def split: prod.split)
    then show ?thesis using args assms(2) by simp
  qed
  let ?km = "map_insert err (of_nat (length ?pre)) km"
  have km: "map_of ?km = (map_of km)(err \<mapsto> of_nat (length ?pre))"
    using spec [OF Cons.prems(3), of 0] by (intro map_insert_new) simp
  have other: "(of_nat (Suc i) :: u32) \<noteq> 0" if "i < length ks" for i
    by (rule of_nat_index_nonzero) (use that len in auto)
  have "\<forall>i<length ks. map_of ?km (err + 1 + of_nat i) = None"
  proof (intro allI impI)
    fix i assume i: "i < length ks"
    have eq: "err + 1 + of_nat i = err + of_nat (Suc i)" by simp
    have "map_of km (err + of_nat (Suc i)) = None" using Cons.prems(3) i by (metis Suc_mono length_Cons)
    moreover have "err + of_nat (Suc i) \<noteq> err" using other [OF i] by simp
    ultimately show "map_of ?km (err + 1 + of_nat i) = None" by (simp only: eq km fun_upd_apply if_False)
  qed
  then obtain pre' v mid' km' where ih: "key_loop ss (getArgCount ss) (length ks) (err + 1) (of_nat (length ?pre)) (kl @ [fst k]) ?km =
      KeysRead (of_nat (length pre')) ((kl @ [fst k]) @ map fst ks) km'" "ss_args ss = pre' @ v # mid' @ post"
    "\<forall>y\<in>set mid'. ipc_type_of y \<noteq> PFC_IPCTYPE_STRING" "located ss ks (err + 1) km'" "map_of ?km \<subseteq>\<^sub>m map_of km'"
    "length ?pre \<le> length pre'"
    using Cons.IH [of ?pre "IpcU32 (fst k)" structs ?km "err + 1" "kl @ [fst k]"] args k(2) by auto
  have first: "map_of km' err = Some (of_nat (length ?pre))"
    using ih(5) km by (auto simp: map_le_def dom_def)
  have "located ss (k # ks) err km'"
    unfolding located_def
  proof (intro allI impI)
    fix i assume i: "i < length (k # ks)"
    show "\<exists>p q. map_of km' (err + of_nat i) = Some (of_nat (length p)) \<and> ss_args ss = p @ key_vals ((k # ks) ! i) @ q"
    proof (cases i)
      case 0
      then show ?thesis using first args k(1) by (intro exI [of _ ?pre] exI [of _ "concat (map key_vals ks) @ post"]) simp
    next
      case (Suc j)
      then show ?thesis using ih(4) i by (auto simp: located_def add.assoc)
    qed
  qed
  moreover have "map_of km \<subseteq>\<^sub>m map_of km'"
    using ih(5) spec [OF Cons.prems(3), of 0] unfolding km by (auto simp: map_le_def dom_def split: if_splits)
  ultimately show ?case
    using ih(1-3,6) idx nz val
    by (intro exI [of _ pre'] exI [of _ v] exI [of _ mid'] exI [of _ km']) (simp add: Let_def)
qed

section \<open>Reading all entries\<close>

text \<open>The entries with commit information come first.\<close>

definition infos_first :: "entry list \<Rightarrow> bool" where
  "infos_first es \<longleftrightarrow> sorted_wrt (\<lambda>a b. en_info a = None \<longrightarrow> en_info b = None) es"

definition all_located :: "ssess \<Rightarrow> entry list \<Rightarrow> (string \<times> TcKeyTypeIndexMap) list \<Rightarrow> bool" where
  "all_located ss es ckm \<longleftrightarrow>
     (\<forall>e\<in>set es. en_keys e \<noteq> [] \<longrightarrow> (\<exists>km. map_of ckm (en_controller e) = Some km \<and> located ss (en_keys e) 0 km))"

lemma no_u64: "\<forall>e\<in>set es. en_info e = None \<Longrightarrow> \<forall>y\<in>set (concat (map entry_vals es)). ipc_type_of y \<noteq> PFC_IPCTYPE_UINT64"
  using no_u64_in_keys by (fastforce simp: entry_vals_def info_vals_def ipc_type_of_def)

definition entry_head :: "entry \<Rightarrow> ipc_val list" where
  "entry_head e = [IpcStr (Some (en_controller e)), IpcU32 (en_code e), IpcU32 (of_nat (length (en_keys e)))] @ info_vals (en_info e)"

lemma entry_vals_head: "entry_vals e = entry_head e @ concat (map key_vals (en_keys e))"
  by (simp add: entry_vals_def entry_head_def)

lemma entry_head_simps:
  "entry_head e = IpcStr (Some (en_controller e)) # tl (entry_head e)"
  "butlast (entry_head e) @ last (entry_head e) # xs = entry_head e @ xs"
  "length (butlast (entry_head e)) = 2 + info_length e"
proof -
  show "entry_head e = IpcStr (Some (en_controller e)) # tl (entry_head e)" by (simp add: entry_head_def)
  then have "entry_head e \<noteq> []" by (metis list.distinct(1))
  then show "butlast (entry_head e) @ last (entry_head e) # xs = entry_head e @ xs"
    by (metis append.assoc append_Cons append_Nil append_butlast_last_id)
  show "length (butlast (entry_head e)) = 2 + info_length e" by (simp add: entry_head_def)
qed

lemma results_loop_entries:
  assumes "ss_args ss = pre @ x # mid @ concat (map entry_vals es)" "length (ss_args ss) < 2 ^ 32"
    "\<forall>y\<in>set mid. ipc_type_of y \<noteq> PFC_IPCTYPE_STRING" "infos_first es" "length es \<le> fuel"
    "distinct (map en_controller es)" "\<forall>e\<in>set es. map_of (tl_controller_key_map t) (en_controller e) = None"
  shows "\<exists>km ckm. controller_results_loop fuel ss (getArgCount ss) (of_nat (length pre)) t =
      (TC_SUCCESS, t\<lparr>tl_key_map := km, tl_controller_key_map := ckm,
         tl_commit_phase_result := tl_commit_phase_result t @ map entry_result es\<rparr>) \<and>
    all_located ss es ckm \<and> map_of (tl_controller_key_map t) \<subseteq>\<^sub>m map_of ckm"
  using assms(1,3-7)
proof (induction es arbitrary: pre x mid fuel t)
  case Nil
  have "GetMatchTypeIndex ss (of_nat (length pre)) (getArgCount ss) PFC_IPCTYPE_STRING = 0"
    by (rule GetMatchTypeIndex_none [of _ _ x mid]) (use Nil assms(2) in auto)
  then have "controller_results_loop fuel ss (getArgCount ss) (of_nat (length pre)) t = (TC_SUCCESS, t)"
    by (cases fuel) (simp_all add: Let_def)
  then show ?case
    by (intro exI [of _ "tl_key_map t"] exI [of _ "tl_controller_key_map t"]) (simp add: all_located_def)
next
  case (Cons e es)
  let ?H = "entry_head e" and ?keys = "concat (map key_vals (en_keys e))" and ?rest = "concat (map entry_vals es)"
  let ?p = "pre @ x # mid" and ?idx = "(pre @ x # mid) @ butlast (entry_head e)"
  obtain fuel' where fuel: "fuel = Suc fuel'" "length es \<le> fuel'" using Cons.prems(4) by (cases fuel) auto
  have args: "ss_args ss = ?p @ ?H @ ?keys @ ?rest" "ss_args ss = ?idx @ last ?H # ?keys @ ?rest"
    using Cons.prems(1) by (simp_all add: entry_vals_head [of e] entry_head_simps(2))
  have lt: "(of_nat (length pre) :: u32) < getArgCount ss"
    using args(1) assms(2) by (simp add: word_less_nat_alt getArgCount_def unat_index del: of_nat_Suc of_nat_add)
  have find: "GetMatchTypeIndex ss (of_nat (length pre)) (getArgCount ss) PFC_IPCTYPE_STRING = of_nat (length ?p)"
  proof -
    have "ss_args ss = pre @ x # mid @ IpcStr (Some (en_controller e)) # (tl ?H @ ?keys @ ?rest)"
      using args(1) entry_head_simps(1) [of e] by (metis append.assoc append_Cons)
    from GetMatchTypeIndex_find [OF this assms(2), of PFC_IPCTYPE_STRING] Cons.prems(2) show ?thesis
      by (simp add: ipc_type_of_def)
  qed
  have nz: "(of_nat (length ?p) :: u32) \<noteq> 0"
    by (rule of_nat_index_nonzero) (use args(1) assms(2) in auto)
  have "read_controller_result ss (getArgCount ss) (of_nat (length ?p)) =
      Some (head_result e, of_nat (length ?p + 2 + info_length e))"
  proof (rule read_controller_result_entry)
    show "ss_args ss = ?p @ entry_vals e @ ?rest" using Cons.prems(1) by simp
    show "\<forall>y\<in>set ?rest. ipc_type_of y \<noteq> PFC_IPCTYPE_UINT64" if "en_info e = None"
      using that Cons.prems(3) by (intro no_u64) (auto simp: infos_first_def)
  qed (rule assms(2))
  moreover have "length ?p + 2 + info_length e = length ?idx" using entry_head_simps(3) [of e] by simp
  ultimately have read: "read_controller_result ss (getArgCount ss) (of_nat (length ?p)) = Some (head_result e, of_nat (length ?idx))"
    by (simp only:)
  have ih: "infos_first es" "distinct (map en_controller es)"
    using Cons.prems(3,5) by (simp_all add: infos_first_def)
  show ?case
  proof (cases "en_keys e = []")
    case True
    let ?t = "t\<lparr>tl_commit_phase_result := tl_commit_phase_result t @ [entry_result e]\<rparr>"
    have res: "head_result e = entry_result e" "res_num_of_errors (entry_result e) = 0"
      using True by (simp_all add: entry_result_def)
    have step: "controller_results_loop fuel ss (getArgCount ss) (of_nat (length pre)) t =
        controller_results_loop fuel' ss (getArgCount ss) (of_nat (length ?idx)) ?t"
      using fuel lt find nz read res by (simp add: Let_def del: length_append)
    have "\<exists>km ckm. controller_results_loop fuel' ss (getArgCount ss) (of_nat (length ?idx)) ?t =
        (TC_SUCCESS, ?t\<lparr>tl_key_map := km, tl_controller_key_map := ckm,
           tl_commit_phase_result := tl_commit_phase_result ?t @ map entry_result es\<rparr>) \<and>
        all_located ss es ckm \<and> map_of (tl_controller_key_map ?t) \<subseteq>\<^sub>m map_of ckm"
      by (rule Cons.IH [of _ "last ?H" "[]"]) (use args(2) True ih fuel Cons.prems(6) in simp_all)
    with True show ?thesis unfolding step by (auto simp: all_located_def)
  next
    case False
    have len: "length (en_keys e) < 2 ^ 32"
    proof -
      have "length ks \<le> length (concat (map key_vals ks))" for ks
        by (induction ks) (auto simp: key_vals_def split: prod.split)
      with args(1) assms(2) show ?thesis by (metis (no_types, lifting) length_append le_add1 le_add2 le_less_trans order_trans)
    qed
    have num: "res_num_of_errors (head_result e) \<noteq> 0" "unat (res_num_of_errors (head_result e)) = length (en_keys e)"
      using False len of_nat_index_nonzero [of "length (en_keys e)"] by (simp_all add: entry_result_def unat_index)
    obtain pre' v mid' km' where keys: "key_loop ss (getArgCount ss) (length (en_keys e)) 0 (of_nat (length ?idx)) [] [] =
        KeysRead (of_nat (length pre')) (map fst (en_keys e)) km'" "ss_args ss = pre' @ v # mid' @ ?rest"
      "\<forall>y\<in>set mid'. ipc_type_of y \<noteq> PFC_IPCTYPE_STRING" "located ss (en_keys e) 0 km'"
      using key_loop_entries [of ss ?idx "last ?H" "[]" "en_keys e" ?rest "[]" 0 "[]"] args(2) assms(2) by auto
    let ?ckm = "map_insert (en_controller e) km' (tl_controller_key_map t)"
    let ?t = "t\<lparr>tl_key_map := km', tl_controller_key_map := ?ckm,
        tl_commit_phase_result := tl_commit_phase_result t @ [entry_result e]\<rparr>"
    have res: "(head_result e)\<lparr>res_key_list := map fst (en_keys e)\<rparr> = entry_result e"
      "res_controller_id (head_result e) = en_controller e" by (simp_all add: entry_result_def)
    have ckm: "map_of ?ckm = (map_of (tl_controller_key_map t))(en_controller e \<mapsto> km')"
      using Cons.prems(6) by (intro map_insert_new) simp
    have step: "controller_results_loop fuel ss (getArgCount ss) (of_nat (length pre)) t =
        controller_results_loop fuel' ss (getArgCount ss) (of_nat (length pre')) ?t"
      using fuel lt find nz read res num keys(1) by (simp add: Let_def del: length_append)
    have "\<exists>km ckm. controller_results_loop fuel' ss (getArgCount ss) (of_nat (length pre')) ?t =
        (TC_SUCCESS, ?t\<lparr>tl_key_map := km, tl_controller_key_map := ckm,
           tl_commit_phase_result := tl_commit_phase_result ?t @ map entry_result es\<rparr>) \<and>
        all_located ss es ckm \<and> map_of (tl_controller_key_map ?t) \<subseteq>\<^sub>m map_of ckm"
    proof (rule Cons.IH [of _ v mid'])
      show "\<forall>e'\<in>set es. map_of (tl_controller_key_map ?t) (en_controller e') = None"
        using Cons.prems(5,6) ckm by (auto simp: image_iff)
    qed (use keys(2,3) ih fuel in simp_all)
    then obtain km ckm where loop: "controller_results_loop fuel' ss (getArgCount ss) (of_nat (length pre')) ?t =
        (TC_SUCCESS, ?t\<lparr>tl_key_map := km, tl_controller_key_map := ckm,
           tl_commit_phase_result := tl_commit_phase_result ?t @ map entry_result es\<rparr>)"
      "all_located ss es ckm" "map_of ?ckm \<subseteq>\<^sub>m map_of ckm" by auto
    have "map_of ckm (en_controller e) = Some km'" 
      using map_leD [OF loop(3), of "en_controller e" km'] unfolding ckm by simp
    then have "all_located ss (e # es) ckm" using loop(2) keys(4) by (simp add: all_located_def)
    moreover have "map_of (tl_controller_key_map t) \<subseteq>\<^sub>m map_of ?ckm"
      using Cons.prems(6) unfolding ckm by (simp add: map_le_def dom_def)
    then have "map_of (tl_controller_key_map t) \<subseteq>\<^sub>m map_of ckm" using loop(3) by (rule map_le_trans)
    ultimately show ?thesis unfolding step loop(1) by (intro exI [of _ km] exI [of _ ckm]) simp
  qed
qed

section \<open>From the driver to UPLL and UPPL\<close>

text \<open>A request that carries results: the four leading arguments, then the entries.\<close>

definition result_request :: "ipc_val list \<Rightarrow> entry list \<Rightarrow> ssess \<Rightarrow> bool" where
  "result_request lead es ss \<longleftrightarrow>
     length lead = 4 \<and> ss_args ss = lead @ concat (map entry_vals es) \<and> length (ss_args ss) < 2 ^ 32"

lemma UpdateControllerKeyList_entries:
  assumes "tl_sess t = Some ss" "result_request lead es ss" "infos_first es" "distinct (map en_controller es)"
  shows "\<exists>km ckm. run_state UpdateControllerKeyList t =
      (TC_SUCCESS, t\<lparr>tl_key_map := km, tl_controller_key_map := ckm, tl_commit_phase_result := map entry_result es\<rparr>) \<and>
    all_located ss es ckm"
proof -
  obtain pre x where lead: "lead = pre @ [x]" "length pre = 3"
    using assms(2) by (cases lead rule: rev_cases) (auto simp: result_request_def)
  let ?t = "t\<lparr>tl_key_map := [], tl_controller_key_map := [], tl_commit_phase_result := []\<rparr>"
  have args: "ss_args ss = pre @ x # [] @ concat (map entry_vals es)" "length (ss_args ss) < 2 ^ 32"
    using assms(2) lead(1) unfolding result_request_def by (simp, blast)
  have "length es \<le> length (concat (map entry_vals es))"
    by (induction es) (auto simp: entry_vals_def)
  then have fuel: "length es \<le> unat (getArgCount ss)"
    using args(1) unat_index [OF args(2)] by (simp add: getArgCount_def del: of_nat_add of_nat_Suc)
  have count: "getArgCount ss \<noteq> 0"
    unfolding getArgCount_def by (rule of_nat_index_nonzero) (use args in auto)
  have "\<exists>km ckm. controller_results_loop (unat (getArgCount ss)) ss (getArgCount ss) (of_nat (length pre)) ?t =
      (TC_SUCCESS, ?t\<lparr>tl_key_map := km, tl_controller_key_map := ckm,
         tl_commit_phase_result := tl_commit_phase_result ?t @ map entry_result es\<rparr>) \<and>
      all_located ss es ckm \<and> map_of (tl_controller_key_map ?t) \<subseteq>\<^sub>m map_of ckm"
    by (rule results_loop_entries [OF args(1,2)]) (use assms(3,4) fuel in simp_all)
  with assms(1) lead(2) count show ?thesis by (simp add: UpdateControllerKeyList_def)
qed

text \<open>What a driver has added to the answer of its session after a list of writes.\<close>

definition written_by :: "tclib_env \<Rightarrow> TcLibModule \<Rightarrow> api_write list \<Rightarrow> ipc_val list option" where
  "written_by env d ws = map_option ss_out (tl_sess (snd (run_state (api_writes env ws) d)))"


definition demo_entries :: "entry list" where
  "demo_entries =
     [\<lparr>en_controller = ''pfc1'', en_code = 0, en_info = Some (7, 8, ''app''), en_keys = []\<rparr>,
      \<lparr>en_controller = ''odc1'', en_code = 1, en_info = None,
       en_keys = [(3, (''key_vtn'', [1, 2]), None), (4, (''key_vbr'', [3]), Some (''val_vbr'', [4]))]\<rparr>,
      \<lparr>en_controller = ''odc2'', en_code = 0, en_info = None, en_keys = []\<rparr>]"

definition demo_lead :: "ipc_val list" where
  "demo_lead = [IpcU8 (opertype_value MSG_COMMIT_VOTE_DRIVER_RESULT), IpcU32 5, IpcU32 1, IpcU8 TC_COMMIT_VOTE_PHASE]"

definition demo_result_daemon :: TcLibModule where
  "demo_result_daemon =
     demo_daemon\<lparr>tl_oper_state := MSG_COMMIT_VOTE_DRIVER_RESULT,
       tl_sess := Some \<lparr>ss_args = demo_lead @ concat (map entry_vals demo_entries), ss_out = []\<rparr>\<rparr>"

lemma demo_result_request:
  "tl_sess demo_result_daemon = Some \<lparr>ss_args = demo_lead @ concat (map entry_vals demo_entries), ss_out = []\<rparr>"
  "result_request demo_lead demo_entries \<lparr>ss_args = demo_lead @ concat (map entry_vals demo_entries), ss_out = []\<rparr>"
  "infos_first demo_entries" "distinct (map en_controller demo_entries)"
  by (simp_all add: demo_result_daemon_def result_request_def demo_lead_def demo_entries_def entry_vals_def
      info_vals_def key_vals_def infos_first_def)

definition demo_driver :: TcLibModule where
  "demo_driver = demo_daemon\<lparr>tl_oper_state := MSG_COMMIT_DRIVER_VOTE, tl_sess := Some \<lparr>ss_args = [], ss_out = []\<rparr>\<rparr>"

lemma demo_can_write: "can_write demo_handlers"
  by (simp add: can_write_def demo_handlers_def good_env_def err8_def)

lemma demo_written:
  "written_by demo_handlers demo_driver (concat (map entry_writes demo_entries)) = Some (concat (map entry_vals demo_entries))"
  using entries_written [OF demo_can_write, of demo_driver "\<lparr>ss_args = [], ss_out = []\<rparr>" demo_entries]
  by (simp add: demo_driver_def written_by_def)


text \<open>The details of every error can be read back. After the results of a request have been taken apart,
  asking for the position of an error of a controller, with its key type and the names of its
  structures, gives the key and the value that the driver wrote for it.\<close>

theorem error_details_roundtrip:
  assumes "tl_sess t = Some ss" "result_request lead es ss" "infos_first es" "distinct (map en_controller es)"
    "IsReadKeyValueAllowed t" "e \<in> set es" "i < length (en_keys e)" "en_keys e ! i = (kt, key, value)"
  shows "TcLibReadKeyValueDataInfo (en_controller e) (of_nat i) kt (fst key) (map_option fst value)
      (snd (run_state UpdateControllerKeyList t)) =
    (TC_API_COMMON_SUCCESS, Some (snd key), map_option snd value)"
proof -
  obtain km ckm where run: "run_state UpdateControllerKeyList t =
      (TC_SUCCESS, t\<lparr>tl_key_map := km, tl_controller_key_map := ckm, tl_commit_phase_result := map entry_result es\<rparr>)"
    "all_located ss es ckm"
    using UpdateControllerKeyList_entries [OF assms(1-4)] by auto
  obtain m where m: "map_of ckm (en_controller e) = Some m" "located ss (en_keys e) 0 m"
    using run(2) assms(6,7) by (fastforce simp: all_located_def)
  obtain p q where p: "map_of m (of_nat i) = Some (of_nat (length p))" "ss_args ss = p @ key_vals (kt, key, value) @ q"
    using m(2) assms(7,8) by (fastforce simp: located_def)
  have len: "length (ss_args ss) < 2 ^ 32" using assms(2) unfolding result_request_def by blast
  have struct: "got (srv_get_struct (Some ss) (of_nat (length a)) n) = Some b"
    if "ss_args ss = a @ IpcStruct n b # c" for a n b c
  proof -
    have "unat (of_nat (length a) :: u32) = length a" using that len by (simp add: unat_index)
    with that len show ?thesis by (simp add: got_struct)
  qed
  have reads: "got (srv_get_uint32 (Some ss) (of_nat (length p))) = Some kt"
    "got (srv_get_struct (Some ss) (of_nat (length (p @ [IpcU32 kt]))) (fst key)) = Some (snd key)"
    using p(2) by - (rule got_at(1) [OF len], simp add: key_vals_def, rule struct, simp add: key_vals_def)
  have val: "got (srv_get_struct (Some ss) (of_nat (length (p @ [IpcU32 kt, IpcStruct (fst key) (snd key)]))) (fst v)) = Some (snd v)"
    if "value = Some v" for v using p(2) that by (intro struct) (simp add: key_vals_def)
  have idx: "(of_nat (length p) :: u32) + 1 = of_nat (length (p @ [IpcU32 kt]))"
    "(of_nat (length p) :: u32) + 2 = of_nat (length (p @ [IpcU32 kt, IpcStruct (fst key) (snd key)]))" by simp_all
  have "ckm \<noteq> []" "m \<noteq> []" using m(1) p(1) by auto
  then have "GetKeyIndex (en_controller e) (of_nat i) (snd (run_state UpdateControllerKeyList t)) = (TC_API_COMMON_SUCCESS, Some (of_nat (length p)))"
    using run(1) m(1) p(1) by (simp add: GetKeyIndex_def)
  moreover have "IsReadKeyValueAllowed (snd (run_state UpdateControllerKeyList t))" "tl_sess (snd (run_state UpdateControllerKeyList t)) = Some ss"
    using run(1) assms(1,5) by (simp_all add: IsReadKeyValueAllowed_def)
  ultimately show ?thesis
    using reads(1) reads(2) [folded idx(1)] val [folded idx(2)]
    by (cases "value") (simp_all add: TcLibReadKeyValueDataInfo_def)
qed

theorem error_details_roundtrip_witness:
  "TcLibReadKeyValueDataInfo ''odc1'' 1 4 ''key_vbr'' (Some ''val_vbr'') (snd (run_state UpdateControllerKeyList demo_result_daemon)) =
    (TC_API_COMMON_SUCCESS, Some [3], Some [4])"
proof -
  have "IsReadKeyValueAllowed demo_result_daemon" "demo_entries ! 1 \<in> set demo_entries"
    by (simp_all add: IsReadKeyValueAllowed_def demo_result_daemon_def demo_entries_def)
  from error_details_roundtrip [OF demo_result_request this, of 1]
  show ?thesis by (simp add: demo_entries_def)
qed

text \<open>Results can be lost. When the results of a controller without commit information are followed by
  those of a controller with it, as the coordinator writes them for a driver that is not there, the
  reader takes the commit information of the second for that of the first and never sees the second
  controller.\<close>

theorem mixed_results_lost:
  "map res_controller_id (tl_commit_phase_result (snd (run_state UpdateControllerKeyList
     (demo_daemon\<lparr>tl_sess := Some \<lparr>ss_args = demo_lead @
        entry_vals \<lparr>en_controller = ''odc1'', en_code = 0, en_info = None, en_keys = []\<rparr> @
        entry_vals \<lparr>en_controller = ''pfc1'', en_code = 200, en_info = Some (0, 0, ''''), en_keys = []\<rparr>, ss_out = []\<rparr>\<rparr>)))) =
   [''odc1'']"
  by code_simp

end
