(* ===== verification/US_Db.thy ===== *)
theory US_Db
  imports TC_Db
begin

text \<open>
  Class \<open>MgmtDatabase\<close> (\<open>libs/mgmt/libuncmgmtdb/mgmt_database.cc\<close>): the connection of the session manager to
  the management database, with its transaction.

  The ODBC driver and the database are a parameter, as in \<open>TC_Db\<close>: functions from the calls made so far
  to the outcome of the next one. A statement, the end of a transaction and the end of a connection are events of the
  history. A call that throws an exception has no result (\<open>None\<close>).
\<close>

section \<open>Enumerations\<close>

datatype db_err_e =
    DB_E_OK | DB_E_NG | DB_E_PARA_ERR | DB_E_NOTFOUND | DB_E_UPDATE_ERR | DB_E_TRANSACTION_ERR
  | DB_E_CONNECT_ERR | DB_E_ALREADY_CONNECTED | DB_E_FATAL_ERR

datatype db_commit_e = DB_COMMIT | DB_ROLLBACK

datatype transaction_status_e =
    STATUS_TRANSACTION_NONE | STATUS_TRANSACTION_BEGIN | STATUS_TRANSACTION_UPDATE | STATUS_TRANSACTION_ABORT

datatype variant_data_type_e =
    VARIANT_UNKNOWN | VARIANT_STRING | VARIANT_INT8 | VARIANT_INT16 | VARIANT_INT32 | VARIANT_INT64
  | VARIANT_FLOAT | VARIANT_DOUBLE | VARIANT_TIME | VARIANT_DATE | VARIANT_TIMESTAMP

text \<open>The SQL types of columns that \<open>SetBindCol\<close> knows, and the others.\<close>

datatype sql_type =
    SQL_VARCHAR | SQL_INTEGER | SQL_SMALLINT | SQL_BIGINT | SQL_REAL | SQL_FLOAT | SQL_DOUBLE
  | SQL_TYPE_DATE | SQL_TYPE_TIME | SQL_TYPE_TIMESTAMP | SQL_OTHER

text \<open>A fetched value; the union of the source is its text and its number.\<close>

record variant_t =
  val_type :: variant_data_type_e
  string_val :: string
  v_int :: int

section \<open>The driver\<close>

datatype mgmt_event =
    MgCall
  | MgConnect bool
  | MgExec string bool
  | MgTransact db_commit_e bool
  | MgDisconnect bool

type_synonym mgmt_history = "mgmt_event list"

text \<open>
  \<open>mg_stmt\<close> tells whether a statement handle was given; \<open>mg_row_count\<close> is what \<open>SQLRowCount\<close> reports and
  \<open>mg_cell\<close> what a fetch stores into the buffer of a column, as text and as number.
\<close>

record mgmt_env =
  mg_ret :: "mgmt_history \<Rightarrow> SQLRETURN"
  mg_stmt :: "mgmt_history \<Rightarrow> bool"
  mg_row_count :: "mgmt_history \<Rightarrow> int"
  mg_cell :: "mgmt_history \<Rightarrow> nat \<Rightarrow> string \<times> int"

record MgmtDatabase =
  mg_henv :: bool
  mg_hdbc :: bool
  mg_status :: transaction_status_e
  mg_hist :: mgmt_history

type_synonym 'a mg_prog = "MgmtDatabase \<Rightarrow> 'a \<times> MgmtDatabase"

definition MgmtDatabase_new :: MgmtDatabase where
  "MgmtDatabase_new = \<lparr>mg_henv = False, mg_hdbc = False, mg_status = STATUS_TRANSACTION_NONE, mg_hist = []\<rparr>"

text \<open>One call of the driver, with the event that it leaves.\<close>

definition mg_step :: "mgmt_env \<Rightarrow> (SQLRETURN \<Rightarrow> mgmt_event) \<Rightarrow> SQLRETURN mg_prog" where
  "mg_step env ev d =
     (let r = mg_ret env (mg_hist d) in (r, d\<lparr>mg_hist := mg_hist d @ [ev r]\<rparr>))"

abbreviation mg_call :: "mgmt_env \<Rightarrow> SQLRETURN mg_prog" where
  "mg_call env \<equiv> mg_step env (\<lambda>_. MgCall)"

section \<open>Life of the handles\<close>

definition Mg_Init :: "mgmt_env \<Rightarrow> bool mg_prog" where
  "Mg_Init env d =
     (let (r, d) = mg_call env (d\<lparr>mg_status := STATUS_TRANSACTION_NONE\<rparr>)
      in if r \<noteq> SQL_SUCCESS then (False, d)
         else let d = d\<lparr>mg_henv := True\<rparr>; (r, d) = mg_call env d
              in if r \<noteq> SQL_SUCCESS
                 then (False, (snd (mg_call env d))\<lparr>mg_henv := False, mg_hdbc := False\<rparr>)
                 else (True, d\<lparr>mg_hdbc := True\<rparr>))"

section \<open>Transactions\<close>

definition BeginTransaction :: "db_err_e mg_prog" where
  "BeginTransaction d =
     (if mg_status d \<noteq> STATUS_TRANSACTION_NONE then (DB_E_TRANSACTION_ERR, d)
      else (DB_E_OK, d\<lparr>mg_status := STATUS_TRANSACTION_BEGIN\<rparr>))"

definition EndTransaction :: "mgmt_env \<Rightarrow> db_commit_e \<Rightarrow> db_err_e mg_prog" where
  "EndTransaction env mode d =
     (if mg_status d = STATUS_TRANSACTION_NONE then (DB_E_TRANSACTION_ERR, d)
      else let commit_mode = (if mg_status d = STATUS_TRANSACTION_ABORT then DB_ROLLBACK else mode);
               (r, d) = mg_step env (\<lambda>r. MgTransact commit_mode (r = SQL_SUCCESS)) d
           in if r \<noteq> SQL_SUCCESS then (DB_E_TRANSACTION_ERR, d)
              else (DB_E_OK, if mg_status d \<noteq> STATUS_TRANSACTION_ABORT
                             then d\<lparr>mg_status := STATUS_TRANSACTION_NONE\<rparr> else d))"

definition Mg_Connect :: "mgmt_env \<Rightarrow> db_err_e mg_prog" where
  "Mg_Connect env d =
     (if mg_status d \<noteq> STATUS_TRANSACTION_NONE then (DB_E_CONNECT_ERR, d)
      else let fail = (\<lambda>d. (DB_E_CONNECT_ERR, snd (mg_step env (\<lambda>r. MgDisconnect (r = SQL_SUCCESS)) d)));
               (r, d) = mg_step env (\<lambda>r. MgConnect (sql_ok r)) d
           in if \<not> sql_ok r then fail d
              else let (r, d) = mg_call env d
                   in if \<not> sql_ok r then fail d
                      else let (e, d) = BeginTransaction d
                           in if e \<noteq> DB_E_OK then fail d else (DB_E_OK, d))"

text \<open>
  The result of the transaction is given back even if the connection is closed; if the connection
  cannot be closed, the status keeps what \<open>EndTransaction\<close> left.
\<close>

definition Mg_Disconnect :: "mgmt_env \<Rightarrow> db_err_e mg_prog" where
  "Mg_Disconnect env d =
     (if mg_status d = STATUS_TRANSACTION_NONE then (DB_E_TRANSACTION_ERR, d)
      else let mode = (if mg_status d = STATUS_TRANSACTION_UPDATE then DB_COMMIT else DB_ROLLBACK);
               (func_rtn, d) = EndTransaction env mode d;
               (r, d) = mg_step env (\<lambda>r. MgDisconnect (r = SQL_SUCCESS)) d
           in if r \<noteq> SQL_SUCCESS then (DB_E_NG, d)
              else (func_rtn, d\<lparr>mg_status := STATUS_TRANSACTION_NONE\<rparr>))"

definition Mg_Fini :: "mgmt_env \<Rightarrow> bool mg_prog" where
  "Mg_Fini env d =
     (let d = snd (Mg_Disconnect env d);
          d = (snd (mg_call env d))\<lparr>mg_hdbc := False\<rparr>;
          d = (snd (mg_call env d))\<lparr>mg_henv := False\<rparr>
      in (True, d))"

definition Mg_Abort :: "db_err_e mg_prog" where
  "Mg_Abort d =
     (if mg_status d = STATUS_TRANSACTION_NONE then (DB_E_TRANSACTION_ERR, d)
      else (DB_E_OK, d\<lparr>mg_status := STATUS_TRANSACTION_ABORT\<rparr>))"

section \<open>Statements\<close>

text \<open>The type with which a column is bound; \<open>None\<close> is \<open>DB_E_NG\<close>.\<close>

definition SetBindCol :: "sql_type \<Rightarrow> variant_data_type_e option" where
  "SetBindCol fetch_type =
     (case fetch_type of
        SQL_VARCHAR \<Rightarrow> Some VARIANT_STRING
      | SQL_INTEGER \<Rightarrow> Some VARIANT_INT32
      | SQL_SMALLINT \<Rightarrow> Some VARIANT_INT16
      | SQL_BIGINT \<Rightarrow> Some VARIANT_INT64
      | SQL_REAL \<Rightarrow> Some VARIANT_FLOAT
      | SQL_FLOAT \<Rightarrow> Some VARIANT_FLOAT
      | SQL_DOUBLE \<Rightarrow> Some VARIANT_DOUBLE
      | SQL_TYPE_DATE \<Rightarrow> Some VARIANT_DATE
      | SQL_TYPE_TIME \<Rightarrow> Some VARIANT_TIME
      | SQL_TYPE_TIMESTAMP \<Rightarrow> Some VARIANT_TIMESTAMP
      | SQL_OTHER \<Rightarrow> None)"

primrec bind_columns :: "sql_type list \<Rightarrow> variant_data_type_e list option" where
  "bind_columns [] = Some []"
| "bind_columns (t # ts) =
     do { v \<leftarrow> SetBindCol t; vs \<leftarrow> bind_columns ts; Some (v # vs) }"

text \<open>The values of one row, from the buffers that the fetch has filled.\<close>

definition fetched_row :: "mgmt_env \<Rightarrow> mgmt_history \<Rightarrow> variant_data_type_e list \<Rightarrow> variant_t list" where
  "fetched_row env h tys =
     map (\<lambda>(column, ty). case mg_cell env h column of
            (text, num) \<Rightarrow> if ty = VARIANT_STRING then \<lparr>val_type = ty, string_val = text, v_int = 0\<rparr>
                           else \<lparr>val_type = ty, string_val = [], v_int = num\<rparr>)
         (enumerate 0 tys)"

primrec fetch_rows :: "mgmt_env \<Rightarrow> variant_data_type_e list \<Rightarrow> nat \<Rightarrow> (variant_t list list option) mg_prog" where
  "fetch_rows env tys 0 d = (Some [], d)"
| "fetch_rows env tys (Suc n) d =
     (let row = fetched_row env (mg_hist d) tys; (r, d) = mg_call env d
      in if \<not> sql_ok r then (None, d)
         else let (rows, d) = fetch_rows env tys n d in (map_option (\<lambda>rows. row # rows) rows, d))"

text \<open>
  A negative row count makes \<open>resize\<close> throw: no result. The columns are bound before any row is fetched.
  After a failure no caller looks at the rows, which are left out.
\<close>

definition DbField2Value :: "mgmt_env \<Rightarrow> sql_type list \<Rightarrow> MgmtDatabase \<Rightarrow> ((db_err_e \<times> variant_t list list) \<times> MgmtDatabase) option" where
  "DbField2Value env fetch_type d =
     (let row_count = mg_row_count env (mg_hist d); (r, d) = mg_call env d
      in if r \<noteq> SQL_SUCCESS then Some ((DB_E_NG, []), d)
         else if row_count < 0 then None
         else case bind_columns fetch_type of
                None \<Rightarrow> Some ((DB_E_NG, []), d)
              | Some tys \<Rightarrow>
                  let (rows, d) = fetch_rows env tys (nat row_count) d
                  in Some ((case rows of None \<Rightarrow> (DB_E_NG, []) | Some rows \<Rightarrow> (DB_E_OK, rows)), d))"

definition Mg_Exec ::
  "mgmt_env \<Rightarrow> string \<Rightarrow> bool \<Rightarrow> sql_type list \<Rightarrow> MgmtDatabase \<Rightarrow> ((db_err_e \<times> variant_t list list) \<times> MgmtDatabase) option" where
  "Mg_Exec env sql_statement update_flag fetch_type d =
     (if mg_status d = STATUS_TRANSACTION_NONE then Some ((DB_E_TRANSACTION_ERR, []), d)
      else if sql_statement = [] then Some ((DB_E_PARA_ERR, []), d)
      else let stmt = mg_stmt env (mg_hist d); (_, d) = mg_call env d
           in if \<not> stmt then Some ((DB_E_FATAL_ERR, []), d)
              else let (r, d) = mg_step env (\<lambda>r. MgExec sql_statement (sql_ok r)) d;
                       free = (\<lambda>d. snd (mg_call env d))
                   in if \<not> sql_ok r then Some ((DB_E_NG, []), free d)
                      else do {
                        ((err_code, exec_value), d) \<leftarrow>
                          (if fetch_type = [] then Some ((DB_E_OK, []), d) else DbField2Value env fetch_type d);
                        if err_code \<noteq> DB_E_OK then Some ((err_code, exec_value), free d)
                        else let d = (if update_flag \<and> mg_status d \<noteq> STATUS_TRANSACTION_ABORT
                                      then d\<lparr>mg_status := STATUS_TRANSACTION_UPDATE\<rparr> else d)
                             in Some ((DB_E_OK, exec_value), free d) })"

section \<open>The functions for C\<close>

text \<open>
  An object is passed as a pointer, which may be null. An object whose initialisation fails is deleted.
\<close>

definition mgmtdb_create :: "mgmt_env \<Rightarrow> MgmtDatabase option" where
  "mgmtdb_create env =
     (let (ret, cls_obj) = Mg_Init env MgmtDatabase_new in if ret then Some cls_obj else None)"

definition mgmtdb_result :: "db_err_e \<Rightarrow> int" where
  "mgmtdb_result ret = (if ret = DB_E_OK then 0 else - 1)"

definition mgmtdb_connect :: "mgmt_env \<Rightarrow> MgmtDatabase option \<Rightarrow> int \<times> MgmtDatabase option" where
  "mgmtdb_connect env db_object =
     (case db_object of
        None \<Rightarrow> (- 1, None)
      | Some d \<Rightarrow> let (ret, d) = Mg_Connect env d in (mgmtdb_result ret, Some d))"

definition mgmtdb_disconnect :: "mgmt_env \<Rightarrow> MgmtDatabase option \<Rightarrow> int \<times> MgmtDatabase option" where
  "mgmtdb_disconnect env db_object =
     (case db_object of
        None \<Rightarrow> (- 1, None)
      | Some d \<Rightarrow> (0, Some (snd (Mg_Disconnect env d))))"

definition mgmtdb_abort :: "MgmtDatabase option \<Rightarrow> int \<times> MgmtDatabase option" where
  "mgmtdb_abort db_object =
     (case db_object of
        None \<Rightarrow> (- 1, None)
      | Some d \<Rightarrow> let (ret, d) = Mg_Abort d in (mgmtdb_result ret, Some d))"

text \<open>One value of a statement: the text or the number that is stored at the address \<open>data\<close>, if any.\<close>

definition mgmtdb_one_execute ::
  "mgmt_env \<Rightarrow> MgmtDatabase option \<Rightarrow> string \<Rightarrow> bool \<Rightarrow> string \<Rightarrow> ((int \<times> (int + string) option) \<times> MgmtDatabase option) option" where
  "mgmtdb_one_execute env db_object sql_statement update data_type =
     (case db_object of
        None \<Rightarrow> Some ((- 1, None), None)
      | Some d \<Rightarrow>
          let fetch_type = (if data_type = ''NUMBER'' then [SQL_INTEGER] else if data_type = ''TEXT'' then [SQL_VARCHAR] else [])
          in do { ((ret, exec_value), d) \<leftarrow> Mg_Exec env sql_statement update fetch_type d;
                  Some (if ret = DB_E_OK \<and> fetch_type \<noteq> []
                        then (case exec_value of
                                [[v]] \<Rightarrow> (0, Some (if fetch_type = [SQL_INTEGER] then Inl (v_int v) else Inr (string_val v)))
                              | _ \<Rightarrow> (- 1, None))
                        else (mgmtdb_result ret, None), Some d) })"

end
