(* ===== verification/US_Base.thy ===== *)
theory US_Base
  imports US_Db
begin

text \<open>
  The data of the session manager \<open>usess\<close> (\<open>include/unc/usess_ipc.h\<close>, \<open>ipc/usess.ipct\<close>), its configuration
  (\<open>usess_conf_*.cc\<close>) and the functions on passwords that its classes inherit
  (\<open>usess_base_common.cc\<close>).

  An enumeration that the program fills by casting a number has a last constructor for the numbers outside of
  it. The character arrays of a request are the text up to their terminating zero.
\<close>

section \<open>Enumerations\<close>

datatype usess_ipc_service_id_e =
    kUsessSessAdd | kUsessSessDel | kUsessSessTypeDel | kUsessEnable | kUsessDisable
  | kUsessSessCount | kUsessSessList | kUsessSessDetail | kUserUserPasswd | kUserEnablePasswd

datatype usess_ipc_err_e =
    USESS_E_OK | USESS_E_NG | USESS_E_INVALID_SESSID | USESS_E_NO_SUCH_SESSID | USESS_E_INVALID_PRIVILEGE
  | USESS_E_INVALID_MODE | USESS_E_INVALID_SESSTYPE | USESS_E_INVALID_USER | USESS_E_INVALID_PASSWD
  | USESS_E_SESS_OVER

datatype usess_type_e =
    USESS_TYPE_UNKNOWN | USESS_TYPE_CLI | USESS_TYPE_CLI_DAEMON | USESS_TYPE_WEB_API | USESS_TYPE_WEB_UI
  | USESS_TYPE_OTHER int

datatype user_type_e = USER_TYPE_UNKNOWN | USER_TYPE_OPER | USER_TYPE_ADMIN | USER_TYPE_OTHER int

datatype usess_mode_e = USESS_MODE_UNKNOWN | USESS_MODE_OPER | USESS_MODE_ENABLE | USESS_MODE_DEL

datatype usess_config_mode_e = CONFIG_STATUS_NONE | CONFIG_STATUS_TCLOCK

datatype hash_type_e = HASH_TYPE_UNKNOWN | HASH_TYPE_MD5 | HASH_TYPE_SHA256 | HASH_TYPE_SHA512 | HASH_TYPE_OTHER int

definition hash_type_of :: "int \<Rightarrow> hash_type_e" where
  "hash_type_of n =
     (if n = 0 then HASH_TYPE_UNKNOWN else if n = 1 then HASH_TYPE_MD5 else if n = 5 then HASH_TYPE_SHA256
      else if n = 6 then HASH_TYPE_SHA512 else HASH_TYPE_OTHER n)"

definition hash_type_value :: "hash_type_e \<Rightarrow> int" where
  "hash_type_value t =
     (case t of HASH_TYPE_UNKNOWN \<Rightarrow> 0 | HASH_TYPE_MD5 \<Rightarrow> 1 | HASH_TYPE_SHA256 \<Rightarrow> 5 | HASH_TYPE_SHA512 \<Rightarrow> 6
              | HASH_TYPE_OTHER n \<Rightarrow> n)"

definition user_type_of :: "int \<Rightarrow> user_type_e" where
  "user_type_of n =
     (if n = 0 then USER_TYPE_UNKNOWN else if n = 1 then USER_TYPE_OPER else if n = 2 then USER_TYPE_ADMIN
      else USER_TYPE_OTHER n)"

definition USESS_ID_INVALID :: u32 where "USESS_ID_INVALID = 0"

definition kDefaultUser_CLIAdmin :: string where "kDefaultUser_CLIAdmin = ''UNC_CLI_ADMIN''"
definition kDefaultUser_WebAdmin :: string where "kDefaultUser_WebAdmin = ''UNC_WEB_ADMIN''"

section \<open>Structures of the requests and answers\<close>

type_synonym timespec = "int \<times> int"

record usess_ipc_req_sess_add =
  sa_uname :: string
  sa_passwd :: string
  sa_login_name :: string
  sa_type :: usess_type_e
  sa_ipaddr :: u32
  sa_info :: string

record usess_ipc_res_sess_info =
  si_id :: u32
  si_type :: usess_type_e
  si_mode :: usess_mode_e
  si_user_type :: user_type_e
  si_config_status :: usess_config_mode_e
  si_login_name :: string
  si_uname :: string
  si_ipaddr :: u32
  si_login_time :: timespec
  si_info :: string

section \<open>Configuration\<close>

text \<open>
  A block of the configuration file: what each accessor finds under a name. \<open>None\<close> means that the parameter is not there,
  and the accessor gives the default. The file maps the name of a block, and of an entry of a map, to the block.
\<close>

record conf_block =
  cb_bool :: "string \<Rightarrow> bool option"
  cb_u32 :: "string \<Rightarrow> u32 option"
  cb_i32 :: "string \<Rightarrow> int option"
  cb_i64 :: "string \<Rightarrow> int option"
  cb_string :: "string \<Rightarrow> string option"

type_synonym conf_file = "string \<Rightarrow> string option \<Rightarrow> conf_block option"

definition conf_get :: "(string \<Rightarrow> 'a option) \<Rightarrow> string \<Rightarrow> 'a \<Rightarrow> 'a" where
  "conf_get get name def = (case get name of None \<Rightarrow> def | Some v \<Rightarrow> v)"

subsection \<open>Common\<close>

definition kDefaultConf_common :: timespec where "kDefaultConf_common = (- 1, - 1)"

definition ConfCommon_LoadConf :: "conf_file \<Rightarrow> usess_ipc_err_e \<times> timespec" where
  "ConfCommon_LoadConf file =
     (case file ''usess_conf_common'' None of
        None \<Rightarrow> (USESS_E_NG, kDefaultConf_common)
      | Some b \<Rightarrow> (USESS_E_OK, (conf_get (cb_i64 b) ''lock_timeout_sec'' (- 1),
                                conf_get (cb_i64 b) ''lock_timeout_nsec'' (- 1))))"

subsection \<open>Users and the enable password\<close>

record usess_conf_user =
  cu_hash_type :: hash_type_e
  cu_user_length :: u32
  cu_user_regular :: string
  cu_passwd_length :: u32
  cu_passwd_regular :: string

definition kDefaultConf_user :: usess_conf_user where
  "kDefaultConf_user =
     \<lparr>cu_hash_type = HASH_TYPE_MD5, cu_user_length = 32, cu_user_regular = ''[[:alpha:]_][[:alnum:]_]+'',
      cu_passwd_length = 72, cu_passwd_regular = ''[[:alnum:][:graph:]]+''\<rparr>"

definition ConfUser_LoadConf :: "conf_file \<Rightarrow> usess_ipc_err_e \<times> usess_conf_user" where
  "ConfUser_LoadConf file =
     (case file ''usess_conf_user'' None of
        None \<Rightarrow> (USESS_E_NG, kDefaultConf_user)
      | Some b \<Rightarrow>
          (USESS_E_OK,
           \<lparr>cu_hash_type = hash_type_of (conf_get (cb_i32 b) ''hash'' (hash_type_value (cu_hash_type kDefaultConf_user))),
            cu_user_length = conf_get (cb_u32 b) ''user_length'' (cu_user_length kDefaultConf_user),
            cu_user_regular = conf_get (cb_string b) ''user_regular'' (cu_user_regular kDefaultConf_user),
            cu_passwd_length = conf_get (cb_u32 b) ''passwd_length'' (cu_passwd_length kDefaultConf_user),
            cu_passwd_regular = conf_get (cb_string b) ''passwd_regular'' (cu_passwd_regular kDefaultConf_user)\<rparr>))"

record usess_conf_enable =
  ce_hash_type :: hash_type_e
  ce_passwd_length :: u32
  ce_passwd_regular :: string

definition kDefaultConf_enable :: usess_conf_enable where
  "kDefaultConf_enable =
     \<lparr>ce_hash_type = HASH_TYPE_MD5, ce_passwd_length = 72, ce_passwd_regular = ''[[:alnum:][:graph:]]+''\<rparr>"

definition ConfEnable_LoadConf :: "conf_file \<Rightarrow> usess_ipc_err_e \<times> usess_conf_enable" where
  "ConfEnable_LoadConf file =
     (case file ''usess_conf_enable'' None of
        None \<Rightarrow> (USESS_E_NG, kDefaultConf_enable)
      | Some b \<Rightarrow>
          (USESS_E_OK,
           \<lparr>ce_hash_type = hash_type_of (conf_get (cb_i32 b) ''hash'' (hash_type_value (ce_hash_type kDefaultConf_enable))),
            ce_passwd_length = conf_get (cb_u32 b) ''passwd_length'' (ce_passwd_length kDefaultConf_enable),
            ce_passwd_regular = conf_get (cb_string b) ''passwd_regular'' (ce_passwd_regular kDefaultConf_enable)\<rparr>))"

subsection \<open>Sessions\<close>

datatype usess_conf_session_map_type_e = ID_CLI | ID_WEB_API | ID_WEB_UI | ID_FIXED

record usess_conf_session_connect_num =
  cn_limited :: bool
  cn_max_session :: u32

record usess_conf_session_parameter =
  cp_start :: u32
  cp_end :: u32
  cp_connect :: usess_conf_session_connect_num

record usess_conf_session =
  cs_global :: usess_conf_session_connect_num
  cs_local :: "usess_conf_session_map_type_e \<Rightarrow> usess_conf_session_parameter"

definition connect_num :: "bool \<Rightarrow> u32 \<Rightarrow> usess_conf_session_connect_num" where
  "connect_num l n = \<lparr>cn_limited = l, cn_max_session = n\<rparr>"

definition kDefaultConf_local :: "usess_conf_session_map_type_e \<Rightarrow> usess_conf_session_parameter" where
  "kDefaultConf_local i =
     (case i of
        ID_CLI \<Rightarrow> \<lparr>cp_start = 1, cp_end = 127, cp_connect = connect_num True 16\<rparr>
      | ID_WEB_API \<Rightarrow> \<lparr>cp_start = 1024, cp_end = 65535, cp_connect = connect_num True 64\<rparr>
      | ID_WEB_UI \<Rightarrow> \<lparr>cp_start = 256, cp_end = 511, cp_connect = connect_num True 24\<rparr>
      | ID_FIXED \<Rightarrow> \<lparr>cp_start = 128, cp_end = 255, cp_connect = connect_num False 0\<rparr>)"

definition kDefaultConf_session :: usess_conf_session where
  "kDefaultConf_session = \<lparr>cs_global = connect_num True 64, cs_local = kDefaultConf_local\<rparr>"

definition kConfMapKey :: "usess_conf_session_map_type_e \<Rightarrow> string" where
  "kConfMapKey i = (case i of ID_CLI \<Rightarrow> ''cli'' | ID_WEB_API \<Rightarrow> ''web_api'' | ID_WEB_UI \<Rightarrow> ''web_ui'' | ID_FIXED \<Rightarrow> ''fixed'')"

text \<open>One entry of the map of session parameters, with the correction of the maximum.\<close>

definition load_parameter :: "conf_block \<Rightarrow> usess_conf_session_parameter \<Rightarrow> usess_conf_session_parameter" where
  "load_parameter b def =
     (let start = conf_get (cb_u32 b) ''start_id'' (cp_start def);
          end_id = conf_get (cb_u32 b) ''end_id'' (cp_end def);
          limited = conf_get (cb_bool b) ''limited'' (cn_limited (cp_connect def));
          max = conf_get (cb_u32 b) ''max_session'' (cn_max_session (cp_connect def));
          range_num = end_id - start + 1
      in \<lparr>cp_start = start, cp_end = end_id, cp_connect = connect_num limited (if range_num < max then range_num else max)\<rparr>)"

definition ConfSession_LoadConf :: "conf_file \<Rightarrow> usess_ipc_err_e \<times> usess_conf_session" where
  "ConfSession_LoadConf file =
     (let blk = (\<lambda>i. file ''usess_session_parameter'' (Some (kConfMapKey i)))
      in case (file ''usess_session_info'' None, blk ID_CLI, blk ID_WEB_API, blk ID_WEB_UI, blk ID_FIXED) of
           (Some glob, Some cli, Some web_api, Some web_ui, Some fixed) \<Rightarrow>
             (USESS_E_OK,
              \<lparr>cs_global = connect_num (conf_get (cb_bool glob) ''limited'' (cn_limited (cs_global kDefaultConf_session)))
                                       (conf_get (cb_u32 glob) ''max_session'' (cn_max_session (cs_global kDefaultConf_session))),
               cs_local = (\<lambda>i. load_parameter (case i of ID_CLI \<Rightarrow> cli | ID_WEB_API \<Rightarrow> web_api | ID_WEB_UI \<Rightarrow> web_ui | ID_FIXED \<Rightarrow> fixed)
                                              (kDefaultConf_local i))\<rparr>)
         | _ \<Rightarrow> (USESS_E_NG, kDefaultConf_session))"

section \<open>Passwords\<close>

text \<open>
  The functions of the C library: \<open>crypt\<close>, with \<open>None\<close> for a null pointer, and \<open>regcomp\<close> with \<open>regexec\<close>, which give
  the first match of an extended regular expression, if it compiles and matches.
\<close>

record libc =
  lc_crypt :: "string \<Rightarrow> string \<Rightarrow> string option"
  lc_match :: "string \<Rightarrow> string \<Rightarrow> (nat \<times> nat) option"

text \<open>A null pointer given to a string throws: no result. The empty text stands for a failure.\<close>

definition Hash_salt :: "libc \<Rightarrow> string \<Rightarrow> string \<Rightarrow> string option" where
  "Hash_salt lc str salt = (if salt = [] then Some [] else lc_crypt lc str salt)"

text \<open>Decimal text padded to fourteen digits, as \<open>%014ld\<close> prints it.\<close>

definition print_014ld :: "int \<Rightarrow> string" where
  "print_014ld n =
     (let digits = decimal (nat \<bar>n\<bar>)
      in if n < 0 then CHR ''-'' # replicate (13 - length digits) (CHR ''0'') @ digits
         else replicate (14 - length digits) (CHR ''0'') @ digits)"

definition Hash_time :: "libc \<Rightarrow> string \<Rightarrow> timespec \<Rightarrow> hash_type_e \<Rightarrow> string option" where
  "Hash_time lc str hash_key hash_type =
     (if hash_type \<noteq> HASH_TYPE_MD5 \<and> hash_type \<noteq> HASH_TYPE_SHA256 \<and> hash_type \<noteq> HASH_TYPE_SHA512 then Some []
      else Hash_salt lc str (take 127 (''$'' @ decimal (nat (hash_type_value hash_type)) @ ''$'' @ print_014ld (fst hash_key))))"

definition Hash_key :: "libc \<Rightarrow> string \<Rightarrow> string \<Rightarrow> hash_type_e \<Rightarrow> string option" where
  "Hash_key lc str hash_key hash_type =
     (if hash_key = [] \<or> (hash_type \<noteq> HASH_TYPE_MD5 \<and> hash_type \<noteq> HASH_TYPE_SHA256 \<and> hash_type \<noteq> HASH_TYPE_SHA512) then Some []
      else Hash_salt lc str (take 127 (''$'' @ decimal (nat (hash_type_value hash_type)) @ ''$'' @ hash_key)))"

definition CheckDigest :: "libc \<Rightarrow> string \<Rightarrow> string \<Rightarrow> string \<Rightarrow> bool option" where
  "CheckDigest lc str hash_str salt =
     (if hash_str = [] \<or> salt = [] then Some False
      else do { cmp_str \<leftarrow> Hash_salt lc str salt; Some (cmp_str = hash_str) })"

definition CheckRegular :: "libc \<Rightarrow> string \<Rightarrow> string \<Rightarrow> bool" where
  "CheckRegular lc check_str regular_str =
     (if length check_str = 0 then True
      else if regular_str = [] then False
      else case lc_match lc regular_str check_str of
             None \<Rightarrow> False
           | Some (rm_so, rm_eo) \<Rightarrow> rm_so = 0 \<and> rm_eo = length check_str)"

end
