(* ===== verification/US_Sessions.thy ===== *)
theory US_Sessions
  imports US_Base TC_Module
begin

text \<open>
  The table of user sessions: classes \<open>UsessSession\<close> (\<open>usess_session.cc\<close>) and \<open>UsessSessions\<close>
  (\<open>usess_sessions.cc\<close>).

  The session manager runs in the process of the transaction coordinator and calls its module
  object: to release what a session holds, and to ask for the holder of the configuration. These two calls, on a
  state of the coordinator of any type, and whether there is a module object at all, are the record \<open>tc_iface\<close>.
  \<open>tc_module_iface\<close> is the one of the program.
\<close>

section \<open>The coordinator as seen from here\<close>

record 'tc tc_iface =
  ti_instance :: bool
  ti_release :: "u32 \<Rightarrow> 'tc \<Rightarrow> (TcApiRet \<times> 'tc) option"
  ti_config :: "'tc \<Rightarrow> ((TcApiRet \<times> u32 \<times> u32) \<times> 'tc) option"

definition tc_module_iface :: "tc_env \<Rightarrow> TcModule tc_iface" where
  "tc_module_iface env =
     \<lparr>ti_instance = True, ti_release = TcReleaseSession env, ti_config = TcGetConfigSession env 0 0\<rparr>"

section \<open>One session\<close>

definition TransitMode ::
  "'tc tc_iface \<Rightarrow> usess_mode_e \<Rightarrow> usess_ipc_res_sess_info \<Rightarrow> 'tc \<Rightarrow> (usess_ipc_err_e \<times> usess_ipc_res_sess_info \<times> 'tc) option" where
  "TransitMode ti sess_mode sess tc =
     (if si_mode sess \<noteq> USESS_MODE_OPER \<and> si_mode sess \<noteq> USESS_MODE_ENABLE then Some (USESS_E_NG, sess, tc)
      else if sess_mode = USESS_MODE_OPER then
        if \<not> ti_instance ti then Some (USESS_E_NG, sess, tc)
        else do { (_, tc) \<leftarrow> ti_release ti (si_id sess) tc;
                  Some (USESS_E_OK, sess\<lparr>si_mode := sess_mode\<rparr>, tc) }
      else Some (USESS_E_OK, sess\<lparr>si_mode := sess_mode\<rparr>, tc))"

section \<open>The table\<close>

text \<open>\<open>std::map\<close>, in the order of its keys: insertion keeps what is there.\<close>

type_synonym usess_session_table_t = "(u32 \<times> usess_ipc_res_sess_info) list"

fun table_insert :: "u32 \<Rightarrow> usess_ipc_res_sess_info \<Rightarrow> usess_session_table_t \<Rightarrow> usess_session_table_t" where
  "table_insert k v [] = [(k, v)]"
| "table_insert k v ((a, b) # ps) =
     (if k < a then (k, v) # (a, b) # ps else if k = a then (a, b) # ps else (a, b) # table_insert k v ps)"

definition table_erase :: "u32 \<Rightarrow> usess_session_table_t \<Rightarrow> usess_session_table_t" where
  "table_erase k ps = filter (\<lambda>p. fst p \<noteq> k) ps"

text \<open>Assignment through the pointer that \<open>GetSession\<close> gives.\<close>

fun table_set :: "u32 \<Rightarrow> usess_ipc_res_sess_info \<Rightarrow> usess_session_table_t \<Rightarrow> usess_session_table_t" where
  "table_set k v [] = []"
| "table_set k v ((a, b) # ps) = (if a = k then (k, v) # ps else (a, b) # table_set k v ps)"

record UsessSessions =
  ss_table :: usess_session_table_t
  ss_conf :: usess_conf_session
  ss_allocated :: "usess_conf_session_map_type_e \<Rightarrow> u32"

definition UsessSessions_new :: UsessSessions where
  "UsessSessions_new =
     \<lparr>ss_table = [], ss_conf = kDefaultConf_session, ss_allocated = (\<lambda>_. USESS_ID_INVALID)\<rparr>"

definition Sessions_Init :: "conf_file \<Rightarrow> UsessSessions \<Rightarrow> bool \<times> UsessSessions" where
  "Sessions_Init file s =
     (let (rtn, conf) = ConfSession_LoadConf file; s = s\<lparr>ss_conf := conf\<rparr>
      in if rtn \<noteq> USESS_E_OK then (False, s)
         else (True, s\<lparr>ss_table := [], ss_allocated := (\<lambda>_. USESS_ID_INVALID)\<rparr>))"

definition Sessions_LoadConf :: "conf_file \<Rightarrow> UsessSessions \<Rightarrow> usess_ipc_err_e \<times> UsessSessions" where
  "Sessions_LoadConf file s =
     (let (rtn, conf) = ConfSession_LoadConf file in (rtn, s\<lparr>ss_conf := conf\<rparr>))"

section \<open>Checks and numbering\<close>

definition IsSessType :: "usess_type_e \<Rightarrow> bool" where
  "IsSessType type \<longleftrightarrow>
     type = USESS_TYPE_UNKNOWN \<or> type = USESS_TYPE_CLI \<or> type = USESS_TYPE_CLI_DAEMON \<or>
     type = USESS_TYPE_WEB_API \<or> type = USESS_TYPE_WEB_UI"

definition IsUserType :: "user_type_e \<Rightarrow> bool" where
  "IsUserType type \<longleftrightarrow> type = USER_TYPE_UNKNOWN \<or> type = USER_TYPE_OPER \<or> type = USER_TYPE_ADMIN"

definition CONF_LOCAL_ID :: "usess_type_e \<Rightarrow> usess_conf_session_map_type_e" where
  "CONF_LOCAL_ID type =
     (if type = USESS_TYPE_CLI \<or> type = USESS_TYPE_CLI_DAEMON then ID_CLI
      else if type = USESS_TYPE_WEB_API then ID_WEB_API else ID_WEB_UI)"

definition GetCount :: "UsessSessions \<Rightarrow> u32" where
  "GetCount s = of_nat (length (ss_table s))"

text \<open>
  The sessions between the two bounds are counted by walking from the lower to the upper bound. If the lower bound
  lies behind the upper one, the walk leaves the table: no result.
\<close>

definition count_between :: "u32 \<Rightarrow> u32 \<Rightarrow> usess_session_table_t \<Rightarrow> u32 option" where
  "count_between start end_id table =
     (let lower = length (filter (\<lambda>p. fst p < start) table); upper = length (filter (\<lambda>p. fst p \<le> end_id) table)
      in if upper < lower then None else Some (of_nat (upper - lower)))"

definition CheckSessTypeCount :: "usess_type_e \<Rightarrow> UsessSessions \<Rightarrow> bool option" where
  "CheckSessTypeCount sess_type s =
     (if cn_limited (cs_global (ss_conf s)) \<and> cn_max_session (cs_global (ss_conf s)) \<le> GetCount s then Some False
      else let info = cs_local (ss_conf s) (CONF_LOCAL_ID sess_type)
           in if cn_limited (cp_connect info)
              then do { sess_count \<leftarrow> count_between (cp_start info) (cp_end info) (ss_table s);
                        Some (\<not> cn_max_session (cp_connect info) \<le> sess_count) }
              else Some True)"

text \<open>
  The first search, up to and including the last identifier of the range. The loop variable has 32 bits and
  the loop need not end if the range ends at the largest value.
\<close>

partial_function (option) search_up :: "usess_session_table_t \<Rightarrow> u32 \<Rightarrow> u32 \<Rightarrow> u32 option" where
  "search_up table loop end_id =
     (if end_id < loop then Some USESS_ID_INVALID
      else if map_of table loop = None then Some loop
      else search_up table (loop + 1) end_id)"

text \<open>The second search, from the beginning of the range.\<close>

function search_below :: "usess_session_table_t \<Rightarrow> u32 \<Rightarrow> u32 \<Rightarrow> u32" where
  "search_below table loop bound =
     (if \<not> loop < bound then USESS_ID_INVALID
      else if map_of table loop = None then loop
      else search_below table (loop + 1) bound)"
  by pat_completeness auto
termination
  by (relation "measure (\<lambda>(_, loop, bound). unat bound - unat loop)")
    (auto simp: unat_inc word_less_nat_alt)

declare search_below.simps [simp del] search_up.simps [code]

definition GetNewSessionId :: "usess_type_e \<Rightarrow> UsessSessions \<Rightarrow> (u32 \<times> UsessSessions) option" where
  "GetNewSessionId sess_type s =
     (let i = CONF_LOCAL_ID sess_type; info = cs_local (ss_conf s) i; allocated = ss_allocated s i;
          id_search_start = (if allocated \<noteq> USESS_ID_INVALID \<and> allocated < cp_end info
                             then allocated + 1 else cp_start info)
      in do {
           first \<leftarrow> search_up (ss_table s) id_search_start (cp_end info);
           let sid = (if first = USESS_ID_INVALID then search_below (ss_table s) (cp_start info) id_search_start else first);
           Some (sid, if sid \<noteq> USESS_ID_INVALID then s\<lparr>ss_allocated := (ss_allocated s)(i := sid)\<rparr> else s) })"

section \<open>Adding and deleting\<close>

text \<open>The clock gives an error code and the time.\<close>

definition Sessions_Add ::
  "int \<times> timespec \<Rightarrow> usess_ipc_req_sess_add \<Rightarrow> user_type_e \<Rightarrow> UsessSessions \<Rightarrow> (usess_ipc_err_e \<times> u32 \<times> UsessSessions) option" where
  "Sessions_Add clock add_sess user_type s =
     (if \<not> IsSessType (sa_type add_sess) then Some (USESS_E_INVALID_SESSTYPE, USESS_ID_INVALID, s)
      else if \<not> IsUserType user_type then Some (USESS_E_INVALID_USER, USESS_ID_INVALID, s)
      else do {
        room \<leftarrow> CheckSessTypeCount (sa_type add_sess) s;
        if \<not> room then Some (USESS_E_SESS_OVER, USESS_ID_INVALID, s)
        else if fst clock \<noteq> 0 then Some (USESS_E_NG, USESS_ID_INVALID, s)
        else do {
          (sid, s) \<leftarrow> GetNewSessionId (sa_type add_sess) s;
          if sid = USESS_ID_INVALID then Some (USESS_E_SESS_OVER, USESS_ID_INVALID, s)
          else Some (USESS_E_OK, sid,
                 s\<lparr>ss_table := table_insert sid
                     \<lparr>si_id = sid, si_type = sa_type add_sess, si_mode = USESS_MODE_OPER, si_user_type = user_type,
                      si_config_status = CONFIG_STATUS_NONE, si_login_name = sa_login_name add_sess,
                      si_uname = sa_uname add_sess, si_ipaddr = sa_ipaddr add_sess, si_login_time = snd clock,
                      si_info = sa_info add_sess\<rparr> (ss_table s)\<rparr>) } })"

definition Sessions_Del :: "'tc tc_iface \<Rightarrow> u32 \<Rightarrow> UsessSessions \<Rightarrow> 'tc \<Rightarrow> (usess_ipc_err_e \<times> UsessSessions \<times> 'tc) option" where
  "Sessions_Del ti target s tc =
     (if map_of (ss_table s) target = None then Some (USESS_E_NO_SUCH_SESSID, s, tc)
      else if \<not> ti_instance ti then Some (USESS_E_NG, s, tc)
      else do { (_, tc) \<leftarrow> ti_release ti target tc;
                Some (USESS_E_OK, s\<lparr>ss_table := table_erase target (ss_table s)\<rparr>, tc) })"

fun del_type_loop :: "'tc tc_iface \<Rightarrow> usess_type_e \<Rightarrow> usess_session_table_t \<Rightarrow> 'tc \<Rightarrow> (usess_session_table_t \<times> 'tc) option" where
  "del_type_loop ti type [] tc = Some ([], tc)"
| "del_type_loop ti type ((k, sess) # rest) tc =
     (if si_type sess \<noteq> type
      then do { (rest', tc) \<leftarrow> del_type_loop ti type rest tc; Some ((k, sess) # rest', tc) }
      else do { (_, tc) \<leftarrow> ti_release ti (si_id sess) tc; del_type_loop ti type rest tc })"

definition Sessions_Del_type ::
  "'tc tc_iface \<Rightarrow> usess_type_e \<Rightarrow> UsessSessions \<Rightarrow> 'tc \<Rightarrow> (usess_ipc_err_e \<times> UsessSessions \<times> 'tc) option" where
  "Sessions_Del_type ti target_sess_type s tc =
     (if \<not> IsSessType target_sess_type then Some (USESS_E_INVALID_SESSTYPE, s, tc)
      else if \<not> ti_instance ti then Some (USESS_E_NG, s, tc)
      else do { (table, tc) \<leftarrow> del_type_loop ti target_sess_type (ss_table s) tc;
                Some (USESS_E_OK, s\<lparr>ss_table := table\<rparr>, tc) })"

primrec release_all :: "'tc tc_iface \<Rightarrow> usess_session_table_t \<Rightarrow> 'tc \<Rightarrow> 'tc option" where
  "release_all ti [] tc = Some tc"
| "release_all ti (p # rest) tc = do { (_, tc) \<leftarrow> ti_release ti (si_id (snd p)) tc; release_all ti rest tc }"

definition Sessions_Del_all :: "'tc tc_iface \<Rightarrow> UsessSessions \<Rightarrow> 'tc \<Rightarrow> (usess_ipc_err_e \<times> UsessSessions \<times> 'tc) option" where
  "Sessions_Del_all ti s tc =
     (if \<not> ti_instance ti then Some (USESS_E_NG, s, tc)
      else do { tc \<leftarrow> release_all ti (ss_table s) tc; Some (USESS_E_OK, s\<lparr>ss_table := []\<rparr>, tc) })"

definition Sessions_Fini :: "'tc tc_iface \<Rightarrow> UsessSessions \<Rightarrow> 'tc \<Rightarrow> (bool \<times> UsessSessions \<times> 'tc) option" where
  "Sessions_Fini ti s tc =
     do { (_, s, tc) \<leftarrow> Sessions_Del_all ti s tc; Some (True, s\<lparr>ss_table := []\<rparr>, tc) }"

section \<open>Asking\<close>

definition GetSession :: "u32 \<Rightarrow> UsessSessions \<Rightarrow> usess_ipc_err_e + usess_ipc_res_sess_info" where
  "GetSession target s =
     (case map_of (ss_table s) target of None \<Rightarrow> Inl USESS_E_NO_SUCH_SESSID | Some sess \<Rightarrow> Inr sess)"

text \<open>The answer of the coordinator with which a list goes on, and the mark on its holder.\<close>

definition config_known :: "TcApiRet \<Rightarrow> bool" where
  "config_known r \<longleftrightarrow> r = TC_API_COMMON_SUCCESS \<or> r = TC_NO_CONFIG_SESSION \<or> r = TC_INVALID_UNC_STATE"

definition with_config_status :: "TcApiRet \<Rightarrow> u32 \<Rightarrow> usess_ipc_res_sess_info \<Rightarrow> usess_ipc_res_sess_info" where
  "with_config_status r session_id sess =
     (if r = TC_API_COMMON_SUCCESS \<and> session_id = si_id sess then sess\<lparr>si_config_status := CONFIG_STATUS_TCLOCK\<rparr> else sess)"

definition GetList_one ::
  "'tc tc_iface \<Rightarrow> u32 \<Rightarrow> UsessSessions \<Rightarrow> 'tc \<Rightarrow> ((usess_ipc_err_e + usess_ipc_res_sess_info list) \<times> 'tc) option" where
  "GetList_one ti target s tc =
     (case map_of (ss_table s) target of
        None \<Rightarrow> Some (Inl USESS_E_NO_SUCH_SESSID, tc)
      | Some sess \<Rightarrow>
          if \<not> ti_instance ti then Some (Inl USESS_E_NG, tc)
          else do { ((tc_rtn, session_id, _), tc) \<leftarrow> ti_config ti tc;
                    if \<not> config_known tc_rtn then Some (Inl USESS_E_NG, tc)
                    else Some (Inr [if tc_rtn = TC_API_COMMON_SUCCESS \<and> session_id = target
                                    then sess\<lparr>si_config_status := CONFIG_STATUS_TCLOCK\<rparr> else sess], tc) })"

definition GetList :: "'tc tc_iface \<Rightarrow> UsessSessions \<Rightarrow> 'tc \<Rightarrow> ((usess_ipc_err_e + usess_ipc_res_sess_info list) \<times> 'tc) option" where
  "GetList ti s tc =
     (if \<not> ti_instance ti then Some (Inl USESS_E_NG, tc)
      else do { ((tc_rtn, session_id, _), tc) \<leftarrow> ti_config ti tc;
                if \<not> config_known tc_rtn then Some (Inl USESS_E_NG, tc)
                else Some (Inr (map (\<lambda>p. with_config_status tc_rtn session_id (snd p)) (ss_table s)), tc) })"

datatype session_privilege_e =
    kPrivilegeSessDel | kPrivilegeSessTypeDel | kPrivilegeSessCount | kPrivilegeSessList | kPrivilegeSessDetail

definition is_fixed :: "UsessSessions \<Rightarrow> u32 \<Rightarrow> bool" where
  "is_fixed s current \<longleftrightarrow>
     cp_start (cs_local (ss_conf s) ID_FIXED) \<le> current \<and> current \<le> cp_end (cs_local (ss_conf s) ID_FIXED)"

definition Sessions_Privilege :: "session_privilege_e \<Rightarrow> u32 \<Rightarrow> u32 \<Rightarrow> UsessSessions \<Rightarrow> usess_ipc_err_e" where
  "Sessions_Privilege mode current target s =
     (if \<not> is_fixed s current \<and> map_of (ss_table s) current = None then USESS_E_INVALID_SESSID
      else if current \<noteq> target \<and> map_of (ss_table s) target = None then USESS_E_NO_SUCH_SESSID
      else if is_fixed s current then USESS_E_OK
      else let sess_mode = si_mode (the (map_of (ss_table s) current));
               own_or_enabled = (if sess_mode = USESS_MODE_OPER
                                 then if current = target then USESS_E_OK else USESS_E_INVALID_PRIVILEGE
                                 else if sess_mode = USESS_MODE_ENABLE then USESS_E_OK else USESS_E_INVALID_PRIVILEGE)
           in case mode of
                kPrivilegeSessDel \<Rightarrow> own_or_enabled
              | kPrivilegeSessCount \<Rightarrow> USESS_E_OK
              | kPrivilegeSessList \<Rightarrow> USESS_E_OK
              | kPrivilegeSessDetail \<Rightarrow> own_or_enabled
              | kPrivilegeSessTypeDel \<Rightarrow> USESS_E_NG)"

end
