(* ===== verification/US_Users.thy ===== *)
theory US_Users
  imports US_Base
begin

text \<open>
  Users and the enable password: classes \<open>UsessUser\<close> (\<open>usess_user.cc\<close>), \<open>UsessUsers\<close>
  (\<open>usess_users.cc\<close>) and \<open>UsessEnable\<close> (\<open>usess_enable.cc\<close>), with the text of their statements. A
  call that throws, because \<open>crypt\<close> gave a null pointer or the driver a negative row count, has no result.
\<close>

definition quoted :: "string \<Rightarrow> string" where
  "quoted s = CHR 0x27 # s @ [CHR 0x27]"

definition print_int :: "int \<Rightarrow> string" where
  "print_int n = (if n < 0 then ''-'' @ decimal (nat (- n)) else decimal (nat n))"

section \<open>Users\<close>

record UsessUser =
  uu_name :: string
  uu_passwd_type :: hash_type_e
  uu_passwd_digest :: string
  uu_type :: user_type_e
  uu_conf :: usess_conf_user

definition UsessUser_new :: UsessUser where
  "UsessUser_new =
     \<lparr>uu_name = [], uu_passwd_type = HASH_TYPE_UNKNOWN, uu_passwd_digest = [], uu_type = USER_TYPE_UNKNOWN,
      uu_conf = kDefaultConf_user\<rparr>"

definition User_SetConf :: "usess_conf_user \<Rightarrow> UsessUser \<Rightarrow> UsessUser" where
  "User_SetConf conf u = u\<lparr>uu_conf := conf\<rparr>"

definition CheckUserName :: "libc \<Rightarrow> string \<Rightarrow> UsessUser \<Rightarrow> bool" where
  "CheckUserName lc name u \<longleftrightarrow>
     \<not> length name > unat (cu_user_length (uu_conf u)) \<and> CheckRegular lc name (cu_user_regular (uu_conf u))"

definition User_CheckPassword :: "libc \<Rightarrow> string \<Rightarrow> UsessUser \<Rightarrow> bool" where
  "User_CheckPassword lc passwd u \<longleftrightarrow>
     \<not> length passwd > unat (cu_passwd_length (uu_conf u)) \<and> CheckRegular lc passwd (cu_passwd_regular (uu_conf u))"

definition SetUserData :: "variant_t list list \<Rightarrow> UsessUser \<Rightarrow> usess_ipc_err_e \<times> UsessUser" where
  "SetUserData exec_value u =
     (case exec_value of
        [[c0, c1, c2, c3]] \<Rightarrow>
          (USESS_E_OK, u\<lparr>uu_name := string_val c0, uu_passwd_type := hash_type_of (v_int c1),
                         uu_passwd_digest := string_val c2, uu_type := user_type_of (v_int c3)\<rparr>)
      | _ \<Rightarrow> (USESS_E_NG, u))"

definition user_query :: "string \<Rightarrow> string" where
  "user_query name =
     ''SELECT uname, passwd_hash, passwd, usertype'' @ ''  FROM tbl_unc_usess_user'' @
     ''  WHERE uname = '' @ quoted name @ ''  AND (expiration >= CURRENT_DATE OR expiration IS NULL)''"

definition Retrieve ::
  "mgmt_env \<Rightarrow> libc \<Rightarrow> string \<Rightarrow> UsessUser \<Rightarrow> MgmtDatabase \<Rightarrow> (usess_ipc_err_e \<times> UsessUser \<times> MgmtDatabase) option" where
  "Retrieve env lc name u d =
     (if \<not> CheckUserName lc name u then Some (USESS_E_INVALID_USER, u, d)
      else do {
        ((db_rtn, exec_value), d) \<leftarrow> Mg_Exec env (user_query name) False [SQL_VARCHAR, SQL_INTEGER, SQL_VARCHAR, SQL_INTEGER] d;
        if db_rtn \<noteq> DB_E_OK \<or> length exec_value = 0 then Some (USESS_E_INVALID_USER, u, d)
        else let (func_rtn, u) = SetUserData exec_value u in Some (func_rtn, u, d) })"

definition User_Privilege :: "usess_ipc_res_sess_info \<Rightarrow> UsessUser \<Rightarrow> usess_ipc_err_e" where
  "User_Privilege sess u =
     (if si_mode sess \<noteq> USESS_MODE_ENABLE then USESS_E_INVALID_MODE
      else if uu_name u \<noteq> si_uname sess then USESS_E_INVALID_USER
      else USESS_E_OK)"

definition User_Authenticate :: "libc \<Rightarrow> usess_type_e \<Rightarrow> string \<Rightarrow> UsessUser \<Rightarrow> usess_ipc_err_e option" where
  "User_Authenticate lc sess_type passwd u =
     (if uu_name u = kDefaultUser_CLIAdmin \<or> sess_type = USESS_TYPE_CLI \<or> sess_type = USESS_TYPE_CLI_DAEMON
      then Some USESS_E_OK
      else if \<not> User_CheckPassword lc passwd u then Some USESS_E_INVALID_PASSWD
      else do { ok \<leftarrow> CheckDigest lc passwd (uu_passwd_digest u) (uu_passwd_digest u);
                Some (if ok then USESS_E_OK else USESS_E_INVALID_PASSWD) })"

definition update_user_query :: "string \<Rightarrow> hash_type_e \<Rightarrow> string \<Rightarrow> string" where
  "update_user_query hash_passwd hash_type name =
     ''UPDATE tbl_unc_usess_user'' @ '' SET passwd = '' @ quoted hash_passwd @ '','' @
     ''   passwd_hash = '' @ quoted (take 6 (print_int (hash_type_value hash_type))) @ '','' @
     ''   expiration = NULL,'' @ ''   modified = CURRENT_TIMESTAMP'' @
     ''   WHERE uname = '' @ quoted name"

definition User_ChangePassword ::
  "mgmt_env \<Rightarrow> libc \<Rightarrow> timespec \<Rightarrow> string \<Rightarrow> UsessUser \<Rightarrow> MgmtDatabase \<Rightarrow> (usess_ipc_err_e \<times> MgmtDatabase) option" where
  "User_ChangePassword env lc now_time passwd u d =
     (if \<not> User_CheckPassword lc passwd u then Some (USESS_E_INVALID_PASSWD, d)
      else do {
        hash_passwd \<leftarrow> Hash_time lc passwd now_time (cu_hash_type (uu_conf u));
        if hash_passwd = [] then Some (USESS_E_NG, d)
        else do {
          ((db_rtn, _), d) \<leftarrow> Mg_Exec env (update_user_query hash_passwd (cu_hash_type (uu_conf u)) (uu_name u)) True [] d;
          Some (if db_rtn \<noteq> DB_E_OK then USESS_E_NG else USESS_E_OK, d) } })"

definition GetUser ::
  "mgmt_env \<Rightarrow> libc \<Rightarrow> usess_conf_user \<Rightarrow> string \<Rightarrow> UsessUser \<Rightarrow> MgmtDatabase \<Rightarrow> (usess_ipc_err_e \<times> UsessUser \<times> MgmtDatabase) option" where
  "GetUser env lc conf name u d = Retrieve env lc name (User_SetConf conf u) d"

section \<open>The enable password\<close>

datatype enable_privilege_e = kPrivilegeEnable | kPrivilegeDisable | kPrivilegeEnablePasswd

definition Enable_Privilege :: "enable_privilege_e \<Rightarrow> usess_ipc_res_sess_info \<Rightarrow> usess_ipc_err_e" where
  "Enable_Privilege mode sess =
     (case mode of
        kPrivilegeEnable \<Rightarrow> if si_user_type sess \<noteq> USER_TYPE_ADMIN then USESS_E_INVALID_PRIVILEGE else USESS_E_OK
      | kPrivilegeDisable \<Rightarrow> USESS_E_OK
      | kPrivilegeEnablePasswd \<Rightarrow> if si_mode sess \<noteq> USESS_MODE_ENABLE then USESS_E_INVALID_MODE else USESS_E_OK)"

definition Enable_CheckPassword :: "libc \<Rightarrow> string \<Rightarrow> usess_conf_enable \<Rightarrow> bool" where
  "Enable_CheckPassword lc passwd conf \<longleftrightarrow>
     \<not> length passwd > unat (ce_passwd_length conf) \<and> CheckRegular lc passwd (ce_passwd_regular conf)"

text \<open>\<open>USESS_MODE_ENABLE\<close> is 2.\<close>

definition enable_query :: string where
  "enable_query = ''SELECT passwd_hash, passwd '' @ ''   FROM tbl_unc_usess_enable'' @ ''   WHERE mode ='' @ quoted ''2''"

definition Enable_Authenticate ::
  "mgmt_env \<Rightarrow> libc \<Rightarrow> usess_ipc_res_sess_info \<Rightarrow> string \<Rightarrow> usess_conf_enable \<Rightarrow> MgmtDatabase \<Rightarrow> (usess_ipc_err_e \<times> MgmtDatabase) option" where
  "Enable_Authenticate env lc sess passwd conf d =
     (if si_uname sess = kDefaultUser_WebAdmin \<and> (si_type sess = USESS_TYPE_WEB_API \<or> si_type sess = USESS_TYPE_WEB_UI)
      then Some (USESS_E_OK, d)
      else if \<not> Enable_CheckPassword lc passwd conf then Some (USESS_E_INVALID_PASSWD, d)
      else do {
        ((db_rtn, exec_value), d) \<leftarrow> Mg_Exec env enable_query False [SQL_INTEGER, SQL_VARCHAR] d;
        if db_rtn \<noteq> DB_E_OK \<or> length exec_value = 0 then Some (USESS_E_NG, d)
        else case exec_value of
               [[_, c1]] \<Rightarrow>
                 do { ok \<leftarrow> CheckDigest lc passwd (string_val c1) (string_val c1);
                      Some (if ok then USESS_E_OK else USESS_E_INVALID_PASSWD, d) }
             | _ \<Rightarrow> Some (USESS_E_NG, d) })"

definition update_enable_query :: "string \<Rightarrow> hash_type_e \<Rightarrow> string" where
  "update_enable_query hash_passwd hash_type =
     ''UPDATE tbl_unc_usess_enable'' @ '' SET passwd = '' @ quoted hash_passwd @ '','' @
     ''     passwd_hash = '' @ quoted (take 6 (print_int (hash_type_value hash_type))) @ '','' @
     ''     modified = CURRENT_TIMESTAMP'' @ ''   WHERE mode ='' @ quoted ''2''"

definition Enable_ChangePassword ::
  "mgmt_env \<Rightarrow> libc \<Rightarrow> timespec \<Rightarrow> string \<Rightarrow> usess_conf_enable \<Rightarrow> MgmtDatabase \<Rightarrow> (usess_ipc_err_e \<times> MgmtDatabase) option" where
  "Enable_ChangePassword env lc now_time passwd conf d =
     (if \<not> Enable_CheckPassword lc passwd conf then Some (USESS_E_INVALID_PASSWD, d)
      else do {
        hash_passwd \<leftarrow> Hash_time lc passwd now_time (ce_hash_type conf);
        if hash_passwd = [] then Some (USESS_E_INVALID_PASSWD, d)
        else do {
          ((db_rtn, _), d) \<leftarrow> Mg_Exec env (update_enable_query hash_passwd (ce_hash_type conf)) True [] d;
          Some (if db_rtn \<noteq> DB_E_OK then USESS_E_NG else USESS_E_OK, d) } })"

end
