(* ===== verification/US_Module.thy ===== *)
theory US_Module
  imports US_Sessions US_Users
begin

text \<open>
  Class \<open>Usess\<close> (\<open>modules/usess/usess.cc\<close>): the requests of the session manager. A request is served while the lock of
  the module is held, so that it is one step of the model; only the request for a new session gives the
  lock up in between, while it checks the password, and other requests are served meanwhile (\<open>ue_between\<close>).

  The answers of the surroundings, the timed locks, the clock, the output of the IPC session and the registration of event
  handlers, are functions of a count of these calls.
\<close>

section \<open>State\<close>

record 'tc Usess =
  us_conf :: timespec
  us_db :: MgmtDatabase
  us_sessions :: UsessSessions
  us_users :: usess_conf_user
  us_enable :: usess_conf_enable
  us_reload_handler :: bool
  us_tc :: 'tc
  us_tick :: nat

record 'tc usess_env =
  ue_tc :: "'tc tc_iface"
  ue_db :: mgmt_env
  ue_libc :: libc
  ue_lock :: "nat \<Rightarrow> bool"
  ue_clock :: "nat \<Rightarrow> int \<times> timespec"
  ue_output :: "nat \<Rightarrow> bool"
  ue_event_handler :: "nat \<Rightarrow> bool"
  ue_between :: "'tc Usess \<Rightarrow> 'tc Usess"

datatype usess_output = OutId u32 | OutCount u32 | OutInfo usess_ipc_res_sess_info

type_synonym 'tc us_prog = "'tc Usess \<Rightarrow> ((usess_ipc_err_e \<times> usess_output list) \<times> 'tc Usess) option"

definition Usess_new :: "'tc \<Rightarrow> 'tc Usess" where
  "Usess_new tc =
     \<lparr>us_conf = kDefaultConf_common, us_db = MgmtDatabase_new, us_sessions = UsessSessions_new,
      us_users = kDefaultConf_user, us_enable = kDefaultConf_enable, us_reload_handler = False,
      us_tc = tc, us_tick = 0\<rparr>"

definition tick :: "'tc Usess \<Rightarrow> 'tc Usess" where
  "tick s = s\<lparr>us_tick := Suc (us_tick s)\<rparr>"

text \<open>The macros \<open>USESS_WLOCK\<close> and \<open>USESS_RLOCK\<close>: a request that does not get the lock in time fails.\<close>

definition with_lock :: "'tc usess_env \<Rightarrow> 'tc us_prog \<Rightarrow> 'tc us_prog" where
  "with_lock env body s = (if ue_lock env (us_tick s) then body (tick s) else Some ((USESS_E_NG, []), tick s))"

text \<open>The end of a request that failed: a request that uses the database closes the connection.\<close>

definition us_disconnect :: "'tc usess_env \<Rightarrow> 'tc Usess \<Rightarrow> bool \<times> 'tc Usess" where
  "us_disconnect env s = (let (e, d) = Mg_Disconnect (ue_db env) (us_db s) in (e = DB_E_OK, s\<lparr>us_db := d\<rparr>))"

definition us_fail :: "'tc usess_env \<Rightarrow> usess_ipc_err_e \<Rightarrow> 'tc us_prog" where
  "us_fail env err s = Some ((err, []), snd (us_disconnect env s))"

text \<open>The macros \<open>CONNECT\<close> and \<open>DISCONNECT\<close>.\<close>

definition with_database :: "'tc usess_env \<Rightarrow> 'tc us_prog \<Rightarrow> 'tc us_prog" where
  "with_database env body s =
     (let (e, d) = Mg_Connect (ue_db env) (us_db s); s = s\<lparr>us_db := d\<rparr>
      in if e \<noteq> DB_E_OK then us_fail env USESS_E_NG s else body s)"

definition us_finish :: "'tc usess_env \<Rightarrow> 'tc us_prog" where
  "us_finish env s =
     (let (ok, s) = us_disconnect env s
      in if \<not> ok then us_fail env USESS_E_NG s else Some ((USESS_E_OK, []), s))"

section \<open>A new session\<close>

text \<open>The second half, when the password has been checked.\<close>

definition sess_add_session :: "'tc usess_env \<Rightarrow> usess_ipc_req_sess_add \<Rightarrow> user_type_e \<Rightarrow> 'tc us_prog" where
  "sess_add_session env receive_data user_type s =
     do { (err_code, sid, ss) \<leftarrow> Sessions_Add (ue_clock env (us_tick s)) receive_data user_type (us_sessions s);
          let s = (tick s)\<lparr>us_sessions := ss\<rparr>;
          if err_code \<noteq> USESS_E_OK then us_fail env err_code s
          else if ue_output env (us_tick s) then Some ((USESS_E_OK, [OutId sid]), tick s)
          else do { (_, ss, tc) \<leftarrow> Sessions_Del (ue_tc env) sid (us_sessions s) (us_tc s);
                    us_fail env USESS_E_NG ((tick s)\<lparr>us_sessions := ss, us_tc := tc\<rparr>) } }"

definition UsessSessAddHandler :: "'tc usess_env \<Rightarrow> usess_ipc_req_sess_add \<Rightarrow> 'tc us_prog" where
  "UsessSessAddHandler env receive_data =
     with_lock env (with_database env (\<lambda>s.
       do { (err_code, user, d) \<leftarrow> GetUser (ue_db env) (ue_libc env) (us_users s) (sa_uname receive_data) UsessUser_new (us_db s);
            let s = s\<lparr>us_db := d\<rparr>;
            if err_code \<noteq> USESS_E_OK then us_fail env err_code s
            else let (ok, s) = us_disconnect env s
                 in if \<not> ok then us_fail env USESS_E_NG s
                    else do { err_code \<leftarrow> User_Authenticate (ue_libc env) (sa_type receive_data) (take 72 (sa_passwd receive_data)) user;
                              let s = ue_between env s;
                              if err_code \<noteq> USESS_E_OK then Some ((err_code, []), s)
                              else with_lock env (sess_add_session env receive_data (uu_type user)) s } }))"

section \<open>Deleting sessions\<close>

definition UsessSessDelHandler :: "'tc usess_env \<Rightarrow> u32 \<Rightarrow> u32 \<Rightarrow> 'tc us_prog" where
  "UsessSessDelHandler env current delsess =
     with_lock env (\<lambda>s.
       let err_code = Sessions_Privilege kPrivilegeSessDel current delsess (us_sessions s)
       in if err_code \<noteq> USESS_E_OK then Some ((err_code, []), s)
          else do { (err_code, ss, tc) \<leftarrow> Sessions_Del (ue_tc env) delsess (us_sessions s) (us_tc s);
                    Some ((err_code, []), s\<lparr>us_sessions := ss, us_tc := tc\<rparr>) })"

definition UsessSessTypeDelHandler :: "'tc usess_env \<Rightarrow> usess_type_e \<Rightarrow> 'tc us_prog" where
  "UsessSessTypeDelHandler env sess_type =
     with_lock env (\<lambda>s.
       do { (err_code, ss, tc) \<leftarrow> Sessions_Del_type (ue_tc env) sess_type (us_sessions s) (us_tc s);
            Some ((err_code, []), s\<lparr>us_sessions := ss, us_tc := tc\<rparr>) })"

section \<open>The enable mode\<close>

definition set_session :: "usess_ipc_res_sess_info \<Rightarrow> 'tc \<Rightarrow> u32 \<Rightarrow> 'tc Usess \<Rightarrow> 'tc Usess" where
  "set_session sess tc current s =
     s\<lparr>us_sessions := (us_sessions s)\<lparr>ss_table := table_set current sess (ss_table (us_sessions s))\<rparr>, us_tc := tc\<rparr>"

definition UsessEnableHandler :: "'tc usess_env \<Rightarrow> u32 \<Rightarrow> string \<Rightarrow> 'tc us_prog" where
  "UsessEnableHandler env current enable_passwd =
     with_lock env (with_database env (\<lambda>s.
       case GetSession current (us_sessions s) of
         Inl err_code \<Rightarrow> us_fail env err_code s
       | Inr sess \<Rightarrow>
           let err_code = Enable_Privilege kPrivilegeEnable sess
           in if err_code \<noteq> USESS_E_OK then us_fail env err_code s
              else do {
                (err_code, d) \<leftarrow> Enable_Authenticate (ue_db env) (ue_libc env) sess (take 72 enable_passwd) (us_enable s) (us_db s);
                let s = s\<lparr>us_db := d\<rparr>;
                if err_code \<noteq> USESS_E_OK then us_fail env err_code s
                else do {
                  (err_code, sess, tc) \<leftarrow> TransitMode (ue_tc env) USESS_MODE_ENABLE sess (us_tc s);
                  let s = set_session sess tc current s;
                  if err_code \<noteq> USESS_E_OK then us_fail env err_code s else us_finish env s } }))"

definition UsessDisableHandler :: "'tc usess_env \<Rightarrow> u32 \<Rightarrow> 'tc us_prog" where
  "UsessDisableHandler env current =
     with_lock env (\<lambda>s.
       case GetSession current (us_sessions s) of
         Inl err_code \<Rightarrow> Some ((err_code, []), s)
       | Inr sess \<Rightarrow>
           let err_code = Enable_Privilege kPrivilegeDisable sess
           in if err_code \<noteq> USESS_E_OK then Some ((err_code, []), s)
              else do { (err_code, sess, tc) \<leftarrow> TransitMode (ue_tc env) USESS_MODE_OPER sess (us_tc s);
                        Some ((err_code, []), set_session sess tc current s) })"

section \<open>Asking for sessions\<close>

text \<open>The values added to the answer, one by one, until one cannot be added.\<close>

primrec add_outputs :: "'tc usess_env \<Rightarrow> usess_output list \<Rightarrow> 'tc Usess \<Rightarrow> (usess_ipc_err_e \<times> usess_output list) \<times> 'tc Usess" where
  "add_outputs env [] s = ((USESS_E_OK, []), s)"
| "add_outputs env (v # vs) s =
     (if ue_output env (us_tick s)
      then case add_outputs env vs (tick s) of ((e, outs), s) \<Rightarrow> ((e, v # outs), s)
      else ((USESS_E_NG, []), tick s))"

definition UsessSessCountHandler :: "'tc usess_env \<Rightarrow> u32 \<Rightarrow> 'tc us_prog" where
  "UsessSessCountHandler env current =
     with_lock env (\<lambda>s.
       let err_code = Sessions_Privilege kPrivilegeSessCount current current (us_sessions s)
       in if err_code \<noteq> USESS_E_OK then Some ((err_code, []), s)
          else Some (add_outputs env [OutCount (GetCount (us_sessions s))] s))"

definition UsessSessListHandler :: "'tc usess_env \<Rightarrow> u32 \<Rightarrow> 'tc us_prog" where
  "UsessSessListHandler env current =
     with_lock env (\<lambda>s.
       let err_code = Sessions_Privilege kPrivilegeSessList current current (us_sessions s)
       in if err_code \<noteq> USESS_E_OK then Some ((err_code, []), s)
          else do { (r, tc) \<leftarrow> GetList (ue_tc env) (us_sessions s) (us_tc s);
                    let s = s\<lparr>us_tc := tc\<rparr>;
                    case r of
                      Inl err_code \<Rightarrow> Some ((err_code, []), s)
                    | Inr infos \<Rightarrow> Some (add_outputs env (map OutInfo infos) s) })"

definition UsessSessDetailHandler :: "'tc usess_env \<Rightarrow> u32 \<Rightarrow> u32 \<Rightarrow> 'tc us_prog" where
  "UsessSessDetailHandler env current detail =
     with_lock env (\<lambda>s.
       let err_code = Sessions_Privilege kPrivilegeSessDetail current detail (us_sessions s)
       in if err_code \<noteq> USESS_E_OK then Some ((err_code, []), s)
          else do { (r, tc) \<leftarrow> GetList_one (ue_tc env) detail (us_sessions s) (us_tc s);
                    let s = s\<lparr>us_tc := tc\<rparr>;
                    case r of
                      Inl err_code \<Rightarrow> Some ((err_code, []), s)
                    | Inr infos \<Rightarrow> Some (add_outputs env [OutInfo (hd infos)] s) })"

section \<open>Passwords\<close>

definition UserUserPasswdHandler :: "'tc usess_env \<Rightarrow> u32 \<Rightarrow> string \<Rightarrow> string \<Rightarrow> 'tc us_prog" where
  "UserUserPasswdHandler env current uname passwd =
     with_lock env (with_database env (\<lambda>s.
       case GetSession current (us_sessions s) of
         Inl err_code \<Rightarrow> us_fail env err_code s
       | Inr sess \<Rightarrow>
           do { (err_code, user, d) \<leftarrow> GetUser (ue_db env) (ue_libc env) (us_users s) uname UsessUser_new (us_db s);
                let s = s\<lparr>us_db := d\<rparr>;
                if err_code \<noteq> USESS_E_OK then us_fail env err_code s
                else let err_code = User_Privilege sess user
                     in if err_code \<noteq> USESS_E_OK then us_fail env err_code s
                        else do {
                          (err_code, d) \<leftarrow> User_ChangePassword (ue_db env) (ue_libc env) (snd (ue_clock env (us_tick s)))
                                             (take 72 passwd) user (us_db s);
                          let s = (tick s)\<lparr>us_db := d\<rparr>;
                          if err_code \<noteq> USESS_E_OK then us_fail env err_code s else us_finish env s } }))"

definition UserEnablePasswdHandler :: "'tc usess_env \<Rightarrow> u32 \<Rightarrow> string \<Rightarrow> 'tc us_prog" where
  "UserEnablePasswdHandler env current enable_passwd =
     with_lock env (with_database env (\<lambda>s.
       case GetSession current (us_sessions s) of
         Inl err_code \<Rightarrow> us_fail env err_code s
       | Inr sess \<Rightarrow>
           let err_code = Enable_Privilege kPrivilegeEnablePasswd sess
           in if err_code \<noteq> USESS_E_OK then us_fail env err_code s
              else do {
                (err_code, d) \<leftarrow> Enable_ChangePassword (ue_db env) (ue_libc env) (snd (ue_clock env (us_tick s)))
                                   (take 72 enable_passwd) (us_enable s) (us_db s);
                let s = (tick s)\<lparr>us_db := d\<rparr>;
                if err_code \<noteq> USESS_E_OK then us_fail env err_code s else us_finish env s }))"

section \<open>Dispatch\<close>

text \<open>
  The structure that a request carries; the service that it is sent to reads it, and fails if it is another
  one or there is none.
\<close>

datatype usess_arg =
    ReqSessAdd usess_ipc_req_sess_add
  | ReqSessDel u32 u32
  | ReqSessTypeDel usess_type_e
  | ReqSessEnable u32 string
  | ReqSessId u32
  | ReqSessDetail u32 u32
  | ReqUserPasswd u32 string string
  | ReqEnablePasswd u32 string

definition Usess_ipcService :: "'tc usess_env \<Rightarrow> usess_ipc_service_id_e option \<Rightarrow> usess_arg option \<Rightarrow> 'tc us_prog" where
  "Usess_ipcService env service arg s =
     (case (service, arg) of
        (Some kUsessSessAdd, Some (ReqSessAdd r)) \<Rightarrow> UsessSessAddHandler env r s
      | (Some kUsessSessDel, Some (ReqSessDel current delsess)) \<Rightarrow> UsessSessDelHandler env current delsess s
      | (Some kUsessSessTypeDel, Some (ReqSessTypeDel sess_type)) \<Rightarrow> UsessSessTypeDelHandler env sess_type s
      | (Some kUsessEnable, Some (ReqSessEnable current passwd)) \<Rightarrow> UsessEnableHandler env current passwd s
      | (Some kUsessDisable, Some (ReqSessId current)) \<Rightarrow> UsessDisableHandler env current s
      | (Some kUsessSessCount, Some (ReqSessId current)) \<Rightarrow> UsessSessCountHandler env current s
      | (Some kUsessSessList, Some (ReqSessId current)) \<Rightarrow> UsessSessListHandler env current s
      | (Some kUsessSessDetail, Some (ReqSessDetail current detail)) \<Rightarrow> UsessSessDetailHandler env current detail s
      | (Some kUserUserPasswd, Some (ReqUserPasswd current uname passwd)) \<Rightarrow> UserUserPasswdHandler env current uname passwd s
      | (Some kUserEnablePasswd, Some (ReqEnablePasswd current passwd)) \<Rightarrow> UserEnablePasswdHandler env current passwd s
      | _ \<Rightarrow> Some ((USESS_E_NG, []), s))"

section \<open>Life of the module\<close>

definition Usess_fini :: "'tc usess_env \<Rightarrow> 'tc Usess \<Rightarrow> (bool \<times> 'tc Usess) option" where
  "Usess_fini env s =
     (let s = (if us_reload_handler s
               then (tick s)\<lparr>us_reload_handler := \<not> ue_event_handler env (us_tick s)\<rparr> else s);
          locked = ue_lock env (us_tick s); s = tick s;
          s = s\<lparr>us_db := snd (Mg_Fini (ue_db env) (us_db s))\<rparr>
      in do { (_, ss, tc) \<leftarrow> Sessions_Fini (ue_tc env) (us_sessions s) (us_tc s);
              Some (locked, s\<lparr>us_sessions := ss, us_tc := tc\<rparr>) })"

text \<open>
  The steps of \<open>init\<close> in their order; the first that fails undoes everything with \<open>fini\<close>. When the common
  configuration cannot be loaded the lock is given back though it was not taken, which is left out here.
\<close>

definition Usess_init :: "'tc usess_env \<Rightarrow> conf_file \<Rightarrow> 'tc Usess \<Rightarrow> (bool \<times> 'tc Usess) option" where
  "Usess_init env file s =
     (let undo = (\<lambda>s. do { (_, s) \<leftarrow> Usess_fini env s; Some (False, s) });
          (rtn, conf) = ConfCommon_LoadConf file; s = s\<lparr>us_conf := conf\<rparr>
      in if rtn \<noteq> USESS_E_OK then undo s
         else if \<not> ue_lock env (us_tick s) then undo (tick s)
         else let s = tick s; (ok, d) = Mg_Init (ue_db env) (us_db s); s = s\<lparr>us_db := d\<rparr>
         in if \<not> ok then undo s
         else let (ok, ss) = Sessions_Init file (us_sessions s); s = s\<lparr>us_sessions := ss\<rparr>
         in if \<not> ok then undo s
         else let (rtn, conf) = ConfUser_LoadConf file; s = s\<lparr>us_users := conf\<rparr>
         in if rtn \<noteq> USESS_E_OK then undo s
         else let (rtn, conf) = ConfEnable_LoadConf file; s = s\<lparr>us_enable := conf\<rparr>
         in if rtn \<noteq> USESS_E_OK then undo s
         else if us_reload_handler s then Some (True, s)
         else if ue_event_handler env (us_tick s) then Some (True, (tick s)\<lparr>us_reload_handler := True\<rparr>)
         else undo (tick s))"

text \<open>
  A reload: the new file, if the framework could read it. Every part is loaded, whether or not an earlier one failed; a part that
  fails has its defaults.
\<close>

definition ReloadConfEventHandler :: "'tc usess_env \<Rightarrow> conf_file option \<Rightarrow> 'tc Usess \<Rightarrow> 'tc Usess" where
  "ReloadConfEventHandler env reloaded s =
     (case reloaded of
        None \<Rightarrow> s
      | Some file \<Rightarrow>
          if \<not> ue_lock env (us_tick s) then tick s
          else (tick s)\<lparr>us_conf := snd (ConfCommon_LoadConf file),
                        us_sessions := snd (Sessions_LoadConf file (us_sessions s)),
                        us_users := snd (ConfUser_LoadConf file),
                        us_enable := snd (ConfEnable_LoadConf file)\<rparr>)"

end
