(* ===== verification/US_Frame.thy ===== *)
theory US_Frame
  imports US_Module
begin

text \<open>
  What every request of the session manager leaves alone: the parts of the state that the connection to
  the database, the locks and the coordinator do not touch. An invariant of the table of sessions has to be shown
  for the four changes of the table only (locale \<open>sessions_invariant\<close>); the requests are combinations of them.
\<close>

section \<open>The table as an ordered map\<close>

lemma map_of_table_insert: "map_of (table_insert k v ps) x = (if x = k \<and> map_of ps k = None then Some v else map_of ps x)"
  if "sorted_wrt (<) (map fst ps)"
  using that
proof (induction ps)
  case (Cons p ps)
  obtain a b where p: "p = (a, b)" by (cases p)
  have "map_of ps k = None" if "k < a"
  proof (rule ccontr)
    assume "map_of ps k \<noteq> None"
    then have "k \<in> fst ` set ps" by (auto simp: map_of_eq_None_iff)
    with Cons.prems p that show False by (auto simp: less_asym')
  qed
  with Cons p show ?case by auto
qed simp

lemma keys_table_insert: "fst ` set (table_insert k v ps) = insert k (fst ` set ps)"
  by (induction k v ps rule: table_insert.induct) auto

lemma set_table_insert: "set (table_insert k v ps) \<subseteq> insert (k, v) (set ps)"
  by (induction k v ps rule: table_insert.induct) auto

lemma table_insert_sorted: "sorted_wrt (<) (map fst ps) \<Longrightarrow> sorted_wrt (<) (map fst (table_insert k v ps))"
proof (induction k v ps rule: table_insert.induct)
  case (2 k v a b ps)
  have "fst ` set (table_insert k v ps) = insert k (fst ` set ps)" by (rule keys_table_insert)
  with 2 show ?case by auto
qed simp

lemma length_table_insert: "map_of ps k = None \<Longrightarrow> length (table_insert k v ps) = Suc (length ps)"
  by (induction k v ps rule: table_insert.induct) auto

lemma length_filter_table_insert:
  "map_of ps k = None \<Longrightarrow> length (filter P (table_insert k v ps)) = length (filter P ps) + (if P (k, v) then 1 else 0)"
  by (induction k v ps rule: table_insert.induct) auto

lemma sorted_filter: "sorted_wrt (<) (map fst ps) \<Longrightarrow> sorted_wrt (<) (map fst (filter P ps))" for ps :: "('a :: order \<times> 'b) list"
  by (induction ps) auto

lemma map_fst_table_set [simp]: "map fst (table_set k v ps) = map fst ps"
  by (induction k v ps rule: table_set.induct) auto

lemma map_of_table_set: "map_of (table_set k v ps) x = (if x = k \<and> map_of ps k \<noteq> None then Some v else map_of ps x)"
  by (induction k v ps rule: table_set.induct) auto

lemma set_table_set: "set (table_set k v ps) \<subseteq> insert (k, v) (set ps)"
  by (induction k v ps rule: table_set.induct) auto

lemma table_set_same: "map_of ps k = Some v \<Longrightarrow> table_set k v ps = ps"
  by (induction k v ps rule: table_set.induct) (auto split: if_splits)

lemma map_of_table_erase: "map_of (table_erase k ps) x = (if x = k then None else map_of ps x)"
  by (induction ps) (auto simp: table_erase_def)

lemma del_type_loop_filter:
  "del_type_loop ti type table tc = Some (table', tc') \<Longrightarrow> table' = filter (\<lambda>p. si_type (snd p) \<noteq> type) table"
  by (induction ti type table tc arbitrary: table' tc' rule: del_type_loop.induct)
    (auto simp: bind_eq_Some_conv split: if_splits)

lemma GetNewSessionId_frame:
  "GetNewSessionId type ss = Some (sid, ss') \<Longrightarrow> ss_table ss' = ss_table ss \<and> ss_conf ss' = ss_conf ss"
  by (auto simp: GetNewSessionId_def Let_def bind_eq_Some_conv split: if_splits)

section \<open>Frame of a request\<close>

lemma us_disconnect_frame [simp]:
  "us_sessions (snd (us_disconnect env s)) = us_sessions s" "us_tc (snd (us_disconnect env s)) = us_tc s"
  "us_users (snd (us_disconnect env s)) = us_users s" "us_enable (snd (us_disconnect env s)) = us_enable s"
  by (simp_all add: us_disconnect_def split: prod.split)

lemma us_disconnect_sessions: "us_disconnect env s = (ok, s') \<Longrightarrow> us_sessions s' = us_sessions s"
  by (metis snd_conv us_disconnect_frame(1))

lemma tick_frame [simp]:
  "us_sessions (tick s) = us_sessions s" "us_tc (tick s) = us_tc s" "us_db (tick s) = us_db s"
  "us_users (tick s) = us_users s" "us_enable (tick s) = us_enable s" "us_tick (tick s) = Suc (us_tick s)"
  by (simp_all add: tick_def)

text \<open>Every way a program returns satisfies a condition.\<close>

definition ends :: "(('r \<times> 's) option) \<Rightarrow> ('r \<Rightarrow> 's \<Rightarrow> bool) \<Rightarrow> bool" where
  "ends p Q \<longleftrightarrow> (\<forall>r s. p = Some (r, s) \<longrightarrow> Q r s)"

lemma endsD: "ends p Q \<Longrightarrow> p = Some (r, s) \<Longrightarrow> Q r s"
  by (simp add: ends_def)

named_theorems ends_rules "how the programs of the session manager end"

lemma ends_Some [simp, ends_rules]: "ends (Some (r, s)) Q \<longleftrightarrow> Q r s"
  by (simp add: ends_def)

lemma ends_None [simp]: "ends None Q"
  by (simp add: ends_def)

lemma ends_bind [ends_rules]: "(\<And>x. p = Some x \<Longrightarrow> ends (f x) Q) \<Longrightarrow> ends (p \<bind> f) Q"
  by (auto simp: ends_def bind_eq_Some_conv)

lemma ends_if [ends_rules]: "(b \<Longrightarrow> ends p Q) \<Longrightarrow> (\<not> b \<Longrightarrow> ends q Q) \<Longrightarrow> ends (if b then p else q) Q"
  by simp

lemma ends_prod [ends_rules]: "(\<And>a b. x = (a, b) \<Longrightarrow> ends (f a b) Q) \<Longrightarrow> ends (case x of (a, b) \<Rightarrow> f a b) Q"
  by (cases x) simp

lemma ends_sum [ends_rules]:
  "(\<And>a. x = Inl a \<Longrightarrow> ends (f a) Q) \<Longrightarrow> (\<And>b. x = Inr b \<Longrightarrow> ends (g b) Q) \<Longrightarrow> ends (case x of Inl a \<Rightarrow> f a | Inr b \<Rightarrow> g b) Q"
  by (cases x) simp_all

lemma ends_us_fail [ends_rules]: "ends (us_fail env err s) Q \<longleftrightarrow> Q (err, []) (snd (us_disconnect env s))"
  by (simp add: us_fail_def)

lemma ends_us_finish [ends_rules]:
  "(\<And>d. us_disconnect env s = (True, s\<lparr>us_db := d\<rparr>) \<Longrightarrow> Q (USESS_E_OK, []) (s\<lparr>us_db := d\<rparr>)) \<Longrightarrow>
   (\<And>d. Q (USESS_E_NG, []) (s\<lparr>us_db := d\<rparr>)) \<Longrightarrow> ends (us_finish env s) Q"
  by (auto simp: us_finish_def us_fail_def us_disconnect_def split: prod.split)

lemma ends_disconnect [ends_rules]:
  "(\<And>ok d. us_disconnect env s = (ok, s\<lparr>us_db := d\<rparr>) \<Longrightarrow> ends (f ok (s\<lparr>us_db := d\<rparr>)) Q) \<Longrightarrow>
   ends (case us_disconnect env s of (ok, s') \<Rightarrow> f ok s') Q"
  by (auto simp: us_disconnect_def split: prod.split)

lemma ends_with_lock [ends_rules]:
  "(ue_lock env (us_tick s) \<Longrightarrow> ends (body (tick s)) Q) \<Longrightarrow> Q (USESS_E_NG, []) (tick s) \<Longrightarrow> ends (with_lock env body s) Q"
  by (simp add: with_lock_def)

lemma ends_with_database [ends_rules]:
  "(\<And>d. Mg_Connect (ue_db env) (us_db s) = (DB_E_OK, d) \<Longrightarrow> ends (body (s\<lparr>us_db := d\<rparr>)) Q) \<Longrightarrow>
   (\<And>d. Q (USESS_E_NG, []) (s\<lparr>us_db := d\<rparr>)) \<Longrightarrow> ends (with_database env body s) Q"
  by (auto simp: with_database_def us_fail_def us_disconnect_def Let_def split: prod.split)

lemma add_outputs_frame: "add_outputs env vs s = (r, s') \<Longrightarrow> us_sessions s' = us_sessions s \<and> us_db s' = us_db s \<and> us_tc s' = us_tc s"
  by (induction vs arbitrary: s r s') (auto split: if_splits prod.splits)

end
