(* ===== verification/US_Inv.thy ===== *)
theory US_Inv
  imports US_Frame
begin

text \<open>
  Invariants of the table of sessions over all requests: a predicate of the table that survives adding a session,
  removing sessions and the two changes of mode survives every request. Two predicates are shown to be
  invariant in this way: that the table is well formed, with only administrators in the enable mode, and
  that the limits of the configuration hold.
\<close>

section \<open>Requests and reloads\<close>

definition us_request :: "'tc usess_env \<Rightarrow> 'tc Usess \<Rightarrow> 'tc Usess \<Rightarrow> bool" where
  "us_request env s s' \<longleftrightarrow> (\<exists>service arg r. Usess_ipcService env service arg s = Some (r, s'))"

definition us_step :: "'tc usess_env \<Rightarrow> 'tc Usess \<Rightarrow> 'tc Usess \<Rightarrow> bool" where
  "us_step env s s' \<longleftrightarrow> us_request env s s' \<or> (\<exists>file. s' = ReloadConfEventHandler env file s)"

text \<open>
  What happens while a request for a new session has given up the lock: other steps of the module, which may in turn be
  interleaved, at most \<open>n\<close> deep.
\<close>

primrec interleaved :: "('tc usess_env \<Rightarrow> 'tc Usess \<Rightarrow> 'tc Usess \<Rightarrow> bool) \<Rightarrow> nat \<Rightarrow> 'tc usess_env \<Rightarrow> bool" where
  "interleaved step 0 env \<longleftrightarrow> ue_between env = (\<lambda>s. s)"
| "interleaved step (Suc n) env \<longleftrightarrow>
     (\<forall>s. \<exists>env'. interleaved step n env' \<and> (step env')\<^sup>*\<^sup>* s (ue_between env s))"

section \<open>Invariants of the sessions\<close>

definition set_mode :: "u32 \<Rightarrow> usess_ipc_res_sess_info \<Rightarrow> usess_mode_e \<Rightarrow> UsessSessions \<Rightarrow> UsessSessions" where
  "set_mode k si m ss = ss\<lparr>ss_table := table_set k (si\<lparr>si_mode := m\<rparr>) (ss_table ss)\<rparr>"

locale sessions_invariant =
  fixes I :: "UsessSessions \<Rightarrow> bool"
  assumes add: "I ss \<Longrightarrow> Sessions_Add clock req ut ss = Some (e, sid, ss') \<Longrightarrow> I ss'"
    and drop: "I ss \<Longrightarrow> I (ss\<lparr>ss_table := filter P (ss_table ss)\<rparr>)"
    and enable: "I ss \<Longrightarrow> map_of (ss_table ss) k = Some si \<Longrightarrow> si_user_type si = USER_TYPE_ADMIN \<Longrightarrow>
      I (set_mode k si USESS_MODE_ENABLE ss)"
    and disable: "I ss \<Longrightarrow> map_of (ss_table ss) k = Some si \<Longrightarrow> I (set_mode k si USESS_MODE_OPER ss)"
begin

abbreviation kept :: "(((usess_ipc_err_e \<times> usess_output list) \<times> 'tc Usess) option) \<Rightarrow> bool" where
  "kept p \<equiv> ends p (\<lambda>_ s. I (us_sessions s))"

text \<open>The requests served while a request for a new session has given up the lock keep the predicate.\<close>

definition calm :: "'tc usess_env \<Rightarrow> bool" where
  "calm env \<longleftrightarrow> (\<forall>s. I (us_sessions s) \<longrightarrow> I (us_sessions (ue_between env s)))"

lemma del_keeps: "I ss \<Longrightarrow> Sessions_Del ti k ss tc = Some (e, ss', tc') \<Longrightarrow> I ss'"
  using drop [of ss "\<lambda>p. fst p \<noteq> k"]
  by (auto simp: Sessions_Del_def table_erase_def bind_eq_Some_conv split: if_splits)

lemma del_type_keeps: "I ss \<Longrightarrow> Sessions_Del_type ti type ss tc = Some (e, ss', tc') \<Longrightarrow> I ss'"
  using drop [of ss "\<lambda>p. si_type (snd p) \<noteq> type"]
  by (auto simp: Sessions_Del_type_def bind_eq_Some_conv split: if_splits dest!: del_type_loop_filter)

lemma add_session_keeps: "I (us_sessions s) \<Longrightarrow> kept (sess_add_session env req ut s)"
  unfolding sess_add_session_def Let_def
  by (intro ends_bind ends_prod ends_if) (auto simp: ends_us_fail intro: add del_keeps)

lemma handler_add_keeps: "I (us_sessions s) \<Longrightarrow> calm env \<Longrightarrow> kept (UsessSessAddHandler env req s)"
  unfolding UsessSessAddHandler_def Let_def
  by (intro ends_with_lock ends_with_database ends_bind ends_disconnect ends_prod ends_if)
    (auto simp: ends_us_fail calm_def intro!: ends_with_lock add_session_keeps)

lemma handler_del_keeps: "I (us_sessions s) \<Longrightarrow> kept (UsessSessDelHandler env current delsess s)"
  unfolding UsessSessDelHandler_def Let_def
  by (intro ends_with_lock ends_bind ends_prod ends_if) (auto intro: del_keeps)

lemma handler_type_del_keeps: "I (us_sessions s) \<Longrightarrow> kept (UsessSessTypeDelHandler env type s)"
  unfolding UsessSessTypeDelHandler_def Let_def
  by (intro ends_with_lock ends_bind ends_prod) (auto intro: del_type_keeps)

lemma transit_keeps:
  assumes "I (us_sessions s)" "TransitMode ti m sess tc = Some (e, sess', tc')" "GetSession k (us_sessions s) = Inr sess"
    "m = USESS_MODE_ENABLE \<and> si_user_type sess = USER_TYPE_ADMIN \<or> m = USESS_MODE_OPER"
  shows "I (us_sessions (set_session sess' tc'' k s))"
proof -
  have k: "map_of (ss_table (us_sessions s)) k = Some sess"
    using assms(3) by (simp add: GetSession_def split: option.splits)
  show ?thesis
    using assms(1,2,4) enable [OF assms(1) k] disable [OF assms(1) k] table_set_same [OF k]
    by (auto simp: TransitMode_def set_session_def set_mode_def bind_eq_Some_conv split: if_splits)
qed

lemma handler_enable_keeps: "I (us_sessions s) \<Longrightarrow> kept (UsessEnableHandler env current passwd s)"
  unfolding UsessEnableHandler_def Let_def
  by (intro ends_with_lock ends_with_database ends_bind ends_prod ends_if ends_sum ends_us_finish)
    (auto simp: ends_us_fail Enable_Privilege_def split: if_splits intro!: transit_keeps)

lemma handler_disable_keeps: "I (us_sessions s) \<Longrightarrow> kept (UsessDisableHandler env current s)"
  unfolding UsessDisableHandler_def Let_def
  by (intro ends_with_lock ends_bind ends_prod ends_if ends_sum) (auto intro!: transit_keeps)

lemma handler_asks_keep:
  assumes "I (us_sessions s)"
  shows "kept (UsessSessCountHandler env current s)" "kept (UsessSessListHandler env current s)"
    "kept (UsessSessDetailHandler env current detail s)"
  unfolding UsessSessCountHandler_def UsessSessListHandler_def UsessSessDetailHandler_def Let_def
  by (intro ends_with_lock ends_bind ends_prod ends_if ends_sum;
      use assms in \<open>auto simp: ends_def dest!: add_outputs_frame simp del: add_outputs.simps\<close>)+

lemma handler_passwords_keep:
  assumes "I (us_sessions s)"
  shows "kept (UserUserPasswdHandler env current uname passwd s)" "kept (UserEnablePasswdHandler env current passwd s)"
  unfolding UserUserPasswdHandler_def UserEnablePasswdHandler_def Let_def
  by (intro ends_with_lock ends_with_database ends_bind ends_prod ends_if ends_sum ends_us_finish;
      use assms in \<open>auto simp: ends_us_fail\<close>)+

lemmas handlers_keep =
  handler_add_keeps handler_del_keeps handler_type_del_keeps handler_enable_keeps handler_disable_keeps
  handler_asks_keep handler_passwords_keep

lemma request_keeps:
  assumes "us_request env s s'" "I (us_sessions s)" "calm env"
  shows "I (us_sessions s')"
proof -
  obtain service arg r where "Usess_ipcService env service arg s = Some (r, s')"
    using assms(1) by (auto simp: us_request_def)
  moreover have "kept (Usess_ipcService env service arg s)"
    unfolding Usess_ipcService_def using handlers_keep [OF assms(2)] assms(3)
    by (simp add: assms(2) split: option.split usess_ipc_service_id_e.split usess_arg.split)
  ultimately show ?thesis using endsD by fast
qed

lemma requests_keep: "(us_request env)\<^sup>*\<^sup>* s s' \<Longrightarrow> I (us_sessions s) \<Longrightarrow> calm env \<Longrightarrow> I (us_sessions s')"
  by (induction rule: rtranclp_induct) (auto intro: request_keeps)

lemma interleaved_calm: "interleaved us_request n (env :: 'tc usess_env) \<Longrightarrow> calm env"
proof (induction n arbitrary: env)
  case (Suc n)
  show ?case unfolding calm_def
  proof (intro allI impI)
    fix s :: "'tc Usess" assume "I (us_sessions s)"
    moreover obtain env' where "interleaved us_request n env'" "(us_request env')\<^sup>*\<^sup>* s (ue_between env s)"
      using Suc.prems by auto
    ultimately show "I (us_sessions (ue_between env s))" using Suc.IH requests_keep by blast
  qed
qed (simp add: calm_def)

end

text \<open>A predicate that does not depend on the configuration survives its reload, too.\<close>

locale reload_invariant = sessions_invariant +
  assumes reload: "I ss \<Longrightarrow> I (ss\<lparr>ss_conf := conf\<rparr>)"
begin

lemma step_keeps: "us_step env s s' \<Longrightarrow> I (us_sessions s) \<Longrightarrow> calm env \<Longrightarrow> I (us_sessions s')"
  by (auto simp: us_step_def ReloadConfEventHandler_def Sessions_LoadConf_def reload
      intro: request_keeps split: option.split prod.split)

lemma steps_keep: "(us_step env)\<^sup>*\<^sup>* s s' \<Longrightarrow> I (us_sessions s) \<Longrightarrow> calm env \<Longrightarrow> I (us_sessions s')"
  by (induction rule: rtranclp_induct) (auto intro: step_keeps)

lemma interleaved_steps_calm: "interleaved us_step n (env :: 'tc usess_env) \<Longrightarrow> calm env"
proof (induction n arbitrary: env)
  case (Suc n)
  show ?case unfolding calm_def
  proof (intro allI impI)
    fix s :: "'tc Usess" assume "I (us_sessions s)"
    moreover obtain env' where "interleaved us_step n env'" "(us_step env')\<^sup>*\<^sup>* s (ue_between env s)"
      using Suc.prems by auto
    ultimately show "I (us_sessions (ue_between env s))" using Suc.IH steps_keep by blast
  qed
qed (simp add: calm_def)

end

section \<open>A well-formed table\<close>

text \<open>
  The table is ordered by the numbers of the sessions, every session is filed under its own number, which is
  valid, and only sessions of administrators are in the enable mode.
\<close>

definition session_ok :: "u32 \<Rightarrow> usess_ipc_res_sess_info \<Rightarrow> bool" where
  "session_ok k si \<longleftrightarrow>
     si_id si = k \<and> k \<noteq> USESS_ID_INVALID \<and> IsSessType (si_type si) \<and> IsUserType (si_user_type si) \<and>
     si_config_status si = CONFIG_STATUS_NONE \<and>
     (si_mode si = USESS_MODE_OPER \<or> si_mode si = USESS_MODE_ENABLE \<and> si_user_type si = USER_TYPE_ADMIN)"

definition table_ok :: "UsessSessions \<Rightarrow> bool" where
  "table_ok ss \<longleftrightarrow>
     sorted_wrt (<) (map fst (ss_table ss)) \<and> (\<forall>(k, si)\<in>set (ss_table ss). session_ok k si)"

lemma Sessions_AddE:
  assumes "Sessions_Add clock req ut ss = Some (e, sid, ss')"
  obtains "ss' = ss" "e \<noteq> USESS_E_OK"
  | ss1 where "GetNewSessionId (sa_type req) ss = Some (USESS_ID_INVALID, ss1)" "ss' = ss1" "e = USESS_E_SESS_OVER"
  | ss1 si where "CheckSessTypeCount (sa_type req) ss = Some True" "GetNewSessionId (sa_type req) ss = Some (sid, ss1)"
      "sid \<noteq> USESS_ID_INVALID" "e = USESS_E_OK" "ss' = ss1\<lparr>ss_table := table_insert sid si (ss_table ss1)\<rparr>"
      "si_id si = sid" "si_type si = sa_type req" "si_mode si = USESS_MODE_OPER" "si_user_type si = ut"
      "si_uname si = sa_uname req" "IsSessType (sa_type req)" "IsUserType ut" "si_config_status si = CONFIG_STATUS_NONE"
  using assms
  by (auto simp: Sessions_Add_def bind_eq_Some_conv split: if_splits)

interpretation tbl: reload_invariant table_ok
proof
  fix ss ss' clock req ut e sid
  assume ok: "table_ok ss" and "Sessions_Add clock req ut ss = Some (e, sid, ss')"
  from this(2) show "table_ok ss'"
  proof (cases rule: Sessions_AddE)
    case (3 ss1 si)
    have t: "ss_table ss1 = ss_table ss" using GetNewSessionId_frame [OF 3(2)] by simp
    have "session_ok sid si" using 3 by (simp add: session_ok_def)
    with ok show ?thesis
      using set_table_insert [of sid si "ss_table ss"]
      by (auto simp: 3(5) t table_ok_def intro!: table_insert_sorted)
  qed (use ok in \<open>auto simp: table_ok_def dest!: GetNewSessionId_frame\<close>)
next
  fix ss k si
  assume "table_ok ss" "map_of (ss_table ss) k = Some si"
  then have ok: "table_ok ss" "session_ok k si" by (auto simp: table_ok_def dest: map_of_SomeD)
  show "table_ok (set_mode k si USESS_MODE_OPER ss)"
    using ok set_table_set [of k "si\<lparr>si_mode := USESS_MODE_OPER\<rparr>" "ss_table ss"]
    by (auto simp: table_ok_def set_mode_def session_ok_def)
  show "table_ok (set_mode k si USESS_MODE_ENABLE ss)" if "si_user_type si = USER_TYPE_ADMIN"
    using ok that set_table_set [of k "si\<lparr>si_mode := USESS_MODE_ENABLE\<rparr>" "ss_table ss"]
    by (auto simp: table_ok_def set_mode_def session_ok_def)
qed (auto simp: table_ok_def intro: sorted_filter)

text \<open>A started module has no session, and the configuration of the file.\<close>

lemma init_sessions:
  assumes "Usess_init env file s0 = Some (True, s)"
  shows "us_sessions s =
    \<lparr>ss_table = [], ss_conf = snd (ConfSession_LoadConf file), ss_allocated = (\<lambda>_. USESS_ID_INVALID)\<rparr>"
  using assms
  by (auto simp: Usess_init_def Let_def Sessions_Init_def bind_eq_Some_conv split: if_splits prod.splits)

text \<open>C20: The table of sessions stays well formed. After a start of the module and any requests and reloads of the
  configuration, with other requests served while a new session waits for the check of its password,
  the table is ordered, every session is filed under its own valid number without a mark of the configuration, and
  a session in the enable mode belongs to an administrator.\<close>

theorem session_table_well_formed:
  assumes "Usess_init env file s0 = Some (True, s)" "(us_step env)\<^sup>*\<^sup>* s s'" "interleaved us_step n env"
  shows "table_ok (us_sessions s')"
proof (rule tbl.steps_keep [OF assms(2)])
  show "table_ok (us_sessions s)" by (simp add: init_sessions [OF assms(1)] table_ok_def)
  show "tbl.calm env" by (rule tbl.interleaved_steps_calm [OF assms(3)])
qed

text \<open>A demonstration: a driver that always succeeds and gives one row, a library whose digest of every password is the
  same, and a coordinator that has nothing to release.\<close>

definition demo_file :: conf_file where
  "demo_file name entry =
     Some \<lparr>cb_bool = (\<lambda>_. None), cb_u32 = (\<lambda>_. None), cb_i32 = (\<lambda>_. None), cb_i64 = (\<lambda>_. None), cb_string = (\<lambda>_. None)\<rparr>"

definition demo_mgmt :: mgmt_env where
  "demo_mgmt =
     \<lparr>mg_ret = (\<lambda>_. SQL_SUCCESS), mg_stmt = (\<lambda>_. True), mg_row_count = (\<lambda>_. 1),
      mg_cell = (\<lambda>_ column. if column = 0 then (''admin'', 0) else if column = 1 then (''h'', 6) else if column = 2 then (''h'', 0) else ([], 2))\<rparr>"

definition demo_usess :: "unit usess_env" where
  "demo_usess =
     \<lparr>ue_tc = \<lparr>ti_instance = True, ti_release = (\<lambda>_ tc. Some (TC_API_COMMON_SUCCESS, tc)),
               ti_config = (\<lambda>tc. Some ((TC_NO_CONFIG_SESSION, 0, 0), tc))\<rparr>,
      ue_db = demo_mgmt,
      ue_libc = \<lparr>lc_crypt = (\<lambda>_ _. Some ''h''), lc_match = (\<lambda>_ str. Some (0, length str))\<rparr>,
      ue_lock = (\<lambda>_. True), ue_clock = (\<lambda>_. (0, (0, 0))), ue_output = (\<lambda>_. True), ue_event_handler = (\<lambda>_. True),
      ue_between = (\<lambda>s. s)\<rparr>"

definition demo_add :: usess_ipc_req_sess_add where
  "demo_add = \<lparr>sa_uname = ''admin'', sa_passwd = ''secret'', sa_login_name = [], sa_type = USESS_TYPE_WEB_API, sa_ipaddr = 0, sa_info = []\<rparr>"

definition demo_started :: "unit Usess" where
  "demo_started = snd (the (Usess_init demo_usess demo_file (Usess_new ())))"

lemma demo_init: "Usess_init demo_usess demo_file (Usess_new ()) = Some (True, demo_started)"
proof -
  have "map_option fst (Usess_init demo_usess demo_file (Usess_new ())) = Some True" by code_simp
  then show ?thesis by (auto simp: demo_started_def)
qed

definition demo_two :: "unit Usess" where
  "demo_two =
     snd (the (Usess_ipcService demo_usess (Some kUsessEnable) (Some (ReqSessEnable 1024 ''secret''))
       (snd (the (Usess_ipcService demo_usess (Some kUsessSessAdd) (Some (ReqSessAdd demo_add)) demo_started)))))"

lemma us_request_step:
  "map_option (\<lambda>_. ()) (Usess_ipcService env service arg s) = Some () \<Longrightarrow>
   us_request env s (snd (the (Usess_ipcService env service arg s)))"
  unfolding us_request_def by (intro exI [of _ service] exI [of _ arg]) auto

lemma demo_session_requests: "(us_request demo_usess)\<^sup>*\<^sup>* demo_started demo_two"
proof -
  let ?s = "snd (the (Usess_ipcService demo_usess (Some kUsessSessAdd) (Some (ReqSessAdd demo_add)) demo_started))"
  have "map_option (\<lambda>_. ()) (Usess_ipcService demo_usess (Some kUsessSessAdd) (Some (ReqSessAdd demo_add)) demo_started) = Some ()"
    "map_option (\<lambda>_. ()) (Usess_ipcService demo_usess (Some kUsessEnable) (Some (ReqSessEnable 1024 ''secret'')) ?s) = Some ()"
    by code_simp+
  then have "us_request demo_usess demo_started ?s" "us_request demo_usess ?s demo_two"
    unfolding demo_two_def by - (rule us_request_step, assumption)+
  then show ?thesis by (meson converse_rtranclp_into_rtranclp r_into_rtranclp)
qed

theorem session_table_well_formed_witness:
  "table_ok (us_sessions demo_two) \<and> map_option si_mode (map_of (ss_table (us_sessions demo_two)) 1024) = Some USESS_MODE_ENABLE"
proof
  have "(us_step demo_usess)\<^sup>*\<^sup>* demo_started demo_two"
    using demo_session_requests by (rule rtranclp_mono [THEN predicate2D, rotated]) (auto simp: us_step_def)
  moreover have "interleaved us_step 0 demo_usess" by (simp add: demo_usess_def)
  ultimately show "table_ok (us_sessions demo_two)" by (rule session_table_well_formed [OF demo_init])
  show "map_option si_mode (map_of (ss_table (us_sessions demo_two)) 1024) = Some USESS_MODE_ENABLE" by code_simp
qed

end
