(* ===== verification/US_Number.thy ===== *)
theory US_Number
  imports US_Inv
begin

text \<open>
  The numbers of the sessions: a new session has the next free number of the range of its type, in cyclic order
  after the last number given, and the search for it ends.
\<close>

section \<open>The two searches\<close>

text \<open>The numbers from one to below another, in order, and the first of a list that is not in use.\<close>

definition ids :: "nat \<Rightarrow> nat \<Rightarrow> u32 list" where
  "ids a b = map of_nat [a..<b]"

definition first_free :: "usess_session_table_t \<Rightarrow> u32 list \<Rightarrow> u32" where
  "first_free table is = (case find (\<lambda>i. map_of table i = None) is of None \<Rightarrow> USESS_ID_INVALID | Some i \<Rightarrow> i)"

lemma first_free_simps [simp]:
  "first_free table [] = USESS_ID_INVALID"
  "first_free table (i # is) = (if map_of table i = None then i else first_free table is)"
  by (simp_all add: first_free_def)

lemma first_free_append:
  "0 \<notin> set is \<Longrightarrow> first_free table (is @ js) =
    (if first_free table is = USESS_ID_INVALID then first_free table js else first_free table is)"
  by (induction "is") (auto simp: USESS_ID_INVALID_def)

lemma first_free_invalid: "0 \<notin> set is \<Longrightarrow> first_free table is = USESS_ID_INVALID \<longleftrightarrow> (\<forall>i\<in>set is. map_of table i \<noteq> None)"
  by (induction "is") (auto simp: USESS_ID_INVALID_def)

lemma first_free_valid:
  "first_free table is \<noteq> USESS_ID_INVALID \<Longrightarrow> first_free table is \<in> set is \<and> map_of table (first_free table is) = None"
  by (induction "is") (auto split: if_splits)

lemma ids_Cons: "a < b \<Longrightarrow> ids a b = of_nat a # ids (Suc a) b"
  by (simp add: ids_def upt_conv_Cons del: of_nat_Suc)

lemma ids_empty [simp]: "b \<le> a \<Longrightarrow> ids a b = []"
  by (simp add: ids_def)

lemma set_ids: "b \<le> 2 ^ 32 \<Longrightarrow> set (ids a b) = {i. a \<le> unat i \<and> unat i < b}"
proof
  assume b: "b \<le> 2 ^ 32"
  show "set (ids a b) \<subseteq> {i. a \<le> unat i \<and> unat i < b}"
    using b by (auto simp: ids_def unat_of_nat_small)
  show "{i. a \<le> unat i \<and> unat i < b} \<subseteq> set (ids a b)"
  proof
    fix i :: u32 assume "i \<in> {i. a \<le> unat i \<and> unat i < b}"
    then have "unat i \<in> set [a..<b]" "of_nat (unat i) = i" by simp_all
    then show "i \<in> set (ids a b)" unfolding ids_def by (metis image_eqI list.set_map)
  qed
qed

lemma search_up_first:
  assumes "unat end_id < 2 ^ 32 - 1"
  shows "search_up table loop end_id = Some (first_free table (ids (unat loop) (Suc (unat end_id))))"
proof (induction "Suc (unat end_id) - unat loop" arbitrary: loop)
  case 0
  then show ?case by (simp add: search_up.simps word_less_nat_alt)
next
  case (Suc n)
  have le: "unat loop \<le> unat end_id" using Suc.hyps(2) by simp
  have inc: "unat (loop + 1) = Suc (unat loop)"
    using le assms by (simp add: unat_word_ariths)
  with Suc.hyps(1) [of "loop + 1"] Suc.hyps(2) le show ?case
    by (simp add: search_up.simps [of table loop] word_less_nat_alt ids_Cons)
qed

lemma search_below_first: "search_below table loop bound = first_free table (ids (unat loop) (unat bound))"
proof (induction table loop bound rule: search_below.induct)
  case (1 table loop bound)
  have "unat (loop + 1) = Suc (unat loop)" if "loop < bound" using unat_inc [OF that] by simp
  with 1 show ?case
    by (cases "loop < bound") (simp_all add: search_below.simps [of table loop] ids_Cons word_less_nat_alt)
qed

section \<open>The next number\<close>

text \<open>
  The order in which the numbers of a range are tried: those after the last number given, then those from the beginning of the
  range.
\<close>

definition cyclic_ids :: "usess_conf_session_parameter \<Rightarrow> u32 \<Rightarrow> u32 list" where
  "cyclic_ids info allocated =
     (let from = (if allocated \<noteq> USESS_ID_INVALID \<and> allocated < cp_end info then Suc (unat allocated) else unat (cp_start info))
      in ids from (Suc (unat (cp_end info))) @ ids (unat (cp_start info)) from)"

definition range_ok :: "usess_conf_session_parameter \<Rightarrow> bool" where
  "range_ok info \<longleftrightarrow> 0 < cp_start info \<and> cp_start info \<le> cp_end info \<and> cp_end info < UINT32_MAX"

definition in_range :: "usess_conf_session_parameter \<Rightarrow> u32 \<Rightarrow> bool" where
  "in_range info i \<longleftrightarrow> cp_start info \<le> i \<and> i \<le> cp_end info"

lemma set_cyclic_ids:
  assumes "range_ok info" "allocated = USESS_ID_INVALID \<or> in_range info allocated"
  shows "set (cyclic_ids info allocated) = {i. in_range info i}"
proof -
  have e: "unat (cp_end info) < 2 ^ 32 - 1" "unat (cp_start info) \<le> unat (cp_end info)"
    using assms(1) by (simp_all add: range_ok_def word_less_nat_alt word_le_nat_alt unat_UINT32_MAX)
  have "unat allocated < unat (cp_end info) \<Longrightarrow> Suc (unat allocated) \<le> 2 ^ 32"
    using e by simp
  then show ?thesis
    using assms(2) e
    by (auto simp: cyclic_ids_def Let_def set_ids in_range_def word_le_nat_alt word_less_nat_alt)
qed

lemma GetNewSessionId_first:
  assumes "range_ok (cs_local (ss_conf ss) (CONF_LOCAL_ID type))"
  defines "info \<equiv> cs_local (ss_conf ss) (CONF_LOCAL_ID type)"
  defines "sid \<equiv> first_free (ss_table ss) (cyclic_ids info (ss_allocated ss (CONF_LOCAL_ID type)))"
  shows "GetNewSessionId type ss =
    Some (sid, if sid \<noteq> USESS_ID_INVALID then ss\<lparr>ss_allocated := (ss_allocated ss)(CONF_LOCAL_ID type := sid)\<rparr> else ss)"
proof -
  let ?a = "ss_allocated ss (CONF_LOCAL_ID type)"
  let ?from = "if ?a \<noteq> USESS_ID_INVALID \<and> ?a < cp_end info then ?a + 1 else cp_start info"
  have e: "unat (cp_end info) < 2 ^ 32 - 1"
    using assms(1) by (simp add: range_ok_def word_less_nat_alt unat_UINT32_MAX info_def)
  have fr: "unat ?from = (if ?a \<noteq> USESS_ID_INVALID \<and> ?a < cp_end info then Suc (unat ?a) else unat (cp_start info))"
    using unat_inc [of ?a "cp_end info"] by simp
  have pos: "0 < unat ?from"
    using assms(1) unfolding fr by (simp add: range_ok_def word_less_nat_alt info_def)
  then have nz: "0 \<notin> set (ids (unat ?from) (Suc (unat (cp_end info))))"
    using e by (simp add: set_ids)
  have "(if first_free (ss_table ss) (ids (unat ?from) (Suc (unat (cp_end info)))) = USESS_ID_INVALID
         then first_free (ss_table ss) (ids (unat (cp_start info)) (unat ?from))
         else first_free (ss_table ss) (ids (unat ?from) (Suc (unat (cp_end info))))) = sid"
    unfolding sid_def cyclic_ids_def Let_def fr [symmetric] by (rule first_free_append [OF nz, symmetric])
  then show ?thesis
    by (simp only: GetNewSessionId_def Let_def search_up_first [OF e] search_below_first info_def [symmetric] bind.bind_lunit)
qed

text \<open>C22: A new session gets the next free number. For a range that does not start at 0 or reach the largest
  32-bit value, the search ends and gives the first number not in use, trying those after the last number
  given and then those from the beginning of the range; if the last number given lies in the range, so does the new one, it is
  not in use, and there is none exactly if every number of the range is in use.\<close>

theorem new_session_id_next_free:
  assumes "range_ok (cs_local (ss_conf ss) (CONF_LOCAL_ID type))"
    "ss_allocated ss (CONF_LOCAL_ID type) = USESS_ID_INVALID \<or>
     in_range (cs_local (ss_conf ss) (CONF_LOCAL_ID type)) (ss_allocated ss (CONF_LOCAL_ID type))"
  shows "\<exists>sid ss'. GetNewSessionId type ss = Some (sid, ss') \<and>
    sid = first_free (ss_table ss) (cyclic_ids (cs_local (ss_conf ss) (CONF_LOCAL_ID type)) (ss_allocated ss (CONF_LOCAL_ID type))) \<and>
    (sid \<noteq> USESS_ID_INVALID \<longrightarrow> in_range (cs_local (ss_conf ss) (CONF_LOCAL_ID type)) sid \<and> map_of (ss_table ss) sid = None) \<and>
    (sid = USESS_ID_INVALID \<longleftrightarrow> (\<forall>i. in_range (cs_local (ss_conf ss) (CONF_LOCAL_ID type)) i \<longrightarrow> map_of (ss_table ss) i \<noteq> None))"
proof -
  let ?is = "cyclic_ids (cs_local (ss_conf ss) (CONF_LOCAL_ID type)) (ss_allocated ss (CONF_LOCAL_ID type))"
  have set: "set ?is = {i. in_range (cs_local (ss_conf ss) (CONF_LOCAL_ID type)) i}"
    by (rule set_cyclic_ids [OF assms])
  then have "0 \<notin> set ?is" using assms(1) by (auto simp: in_range_def range_ok_def)
  then show ?thesis
    using set first_free_valid [of "ss_table ss" ?is] first_free_invalid [of ?is "ss_table ss"]
    by (auto simp: GetNewSessionId_first [OF assms(1)])
qed

text \<open>A table with one session of the CLI, whose last number was the last of the range: the next number is 2.\<close>

definition demo_session :: "u32 \<Rightarrow> usess_ipc_res_sess_info" where
  "demo_session i =
     \<lparr>si_id = i, si_type = USESS_TYPE_CLI, si_mode = USESS_MODE_OPER, si_user_type = USER_TYPE_ADMIN,
      si_config_status = CONFIG_STATUS_NONE, si_login_name = ''root'', si_uname = ''admin'', si_ipaddr = 0,
      si_login_time = (0, 0), si_info = []\<rparr>"

definition demo_sessions :: UsessSessions where
  "demo_sessions =
     UsessSessions_new\<lparr>ss_table := [(1, demo_session 1)], ss_allocated := (\<lambda>_. 0)(ID_CLI := 127)\<rparr>"

theorem new_session_id_next_free_witness:
  "\<exists>ss'. GetNewSessionId USESS_TYPE_CLI demo_sessions = Some (2, ss')"
proof -
  have "range_ok (cs_local (ss_conf demo_sessions) (CONF_LOCAL_ID USESS_TYPE_CLI))"
    "in_range (cs_local (ss_conf demo_sessions) (CONF_LOCAL_ID USESS_TYPE_CLI)) (ss_allocated demo_sessions (CONF_LOCAL_ID USESS_TYPE_CLI))"
    by (simp_all add: demo_sessions_def UsessSessions_new_def kDefaultConf_session_def kDefaultConf_local_def CONF_LOCAL_ID_def
        range_ok_def in_range_def UINT32_MAX_def)
  then obtain ss' where "GetNewSessionId USESS_TYPE_CLI demo_sessions =
      Some (first_free (ss_table demo_sessions)
        (cyclic_ids (cs_local (ss_conf demo_sessions) (CONF_LOCAL_ID USESS_TYPE_CLI)) (ss_allocated demo_sessions (CONF_LOCAL_ID USESS_TYPE_CLI))), ss')"
    using new_session_id_next_free [of demo_sessions USESS_TYPE_CLI] by blast
  moreover have "first_free (ss_table demo_sessions)
      (cyclic_ids (cs_local (ss_conf demo_sessions) (CONF_LOCAL_ID USESS_TYPE_CLI)) (ss_allocated demo_sessions (CONF_LOCAL_ID USESS_TYPE_CLI))) = 2"
    by code_simp
  ultimately show ?thesis by auto
qed

section \<open>The limits\<close>

text \<open>
  A configuration whose three ranges are sound and do not overlap, and the state of the sessions under it: every session has
  a number of the range of its type, and no limit is exceeded.
\<close>

definition login_ids :: "usess_conf_session_map_type_e set" where
  "login_ids = {ID_CLI, ID_WEB_API, ID_WEB_UI}"

definition conf_ok :: "usess_conf_session \<Rightarrow> bool" where
  "conf_ok conf \<longleftrightarrow>
     (\<forall>i \<in> login_ids. range_ok (cs_local conf i) \<and>
        (\<forall>j \<in> login_ids. i \<noteq> j \<longrightarrow>
           cp_end (cs_local conf i) < cp_start (cs_local conf j) \<or> cp_end (cs_local conf j) < cp_start (cs_local conf i)))"

definition sessions_in :: "usess_conf_session_parameter \<Rightarrow> usess_session_table_t \<Rightarrow> usess_session_table_t" where
  "sessions_in info table = filter (\<lambda>p. in_range info (fst p)) table"

definition numbers_ok :: "usess_conf_session \<Rightarrow> UsessSessions \<Rightarrow> bool" where
  "numbers_ok conf ss \<longleftrightarrow>
     ss_conf ss = conf \<and> sorted_wrt (<) (map fst (ss_table ss)) \<and>
     (\<forall>i \<in> login_ids. ss_allocated ss i = USESS_ID_INVALID \<or> in_range (cs_local conf i) (ss_allocated ss i)) \<and>
     (\<forall>(k, si)\<in>set (ss_table ss). in_range (cs_local conf (CONF_LOCAL_ID (si_type si))) k)"

definition below_limits :: "usess_conf_session \<Rightarrow> UsessSessions \<Rightarrow> bool" where
  "below_limits conf ss \<longleftrightarrow>
     (cn_limited (cs_global conf) \<longrightarrow> length (ss_table ss) \<le> unat (cn_max_session (cs_global conf))) \<and>
     (\<forall>i \<in> login_ids. cn_limited (cp_connect (cs_local conf i)) \<longrightarrow>
        length (sessions_in (cs_local conf i) (ss_table ss)) \<le> unat (cn_max_session (cp_connect (cs_local conf i))))"

definition limits_ok :: "usess_conf_session \<Rightarrow> UsessSessions \<Rightarrow> bool" where
  "limits_ok conf ss \<longleftrightarrow> conf_ok conf \<and> numbers_ok conf ss \<and> below_limits conf ss"

lemma CONF_LOCAL_ID_range: "CONF_LOCAL_ID type \<in> login_ids"
  by (simp add: CONF_LOCAL_ID_def login_ids_def)

lemma sessions_in_filter: "length (sessions_in info (filter P table)) \<le> length (sessions_in info table)"
  by (induction table) (auto simp: sessions_in_def)

lemma sessions_in_table_set: "length (sessions_in info (table_set k v table)) = length (sessions_in info table)"
  by (induction k v table rule: table_set.induct) (auto simp: sessions_in_def)

lemma count_between_sessions_in:
  assumes "cp_start info \<le> cp_end info"
  shows "count_between (cp_start info) (cp_end info) table = Some (of_nat (length (sessions_in info table)))"
proof -
  have "length (filter (\<lambda>p. fst p \<le> cp_end info) table) =
      length (filter (\<lambda>p. fst p < cp_start info) table) + length (sessions_in info table)"
    using assms by (induction table) (auto simp: sessions_in_def in_range_def)
  then show ?thesis by (simp add: count_between_def)
qed

lemma room_for_one:
  assumes "\<not> m \<le> (of_nat n :: u32)" "n \<le> unat m"
  shows "Suc n \<le> unat m"
proof -
  have "unat m < 2 ^ LENGTH(32)" by (rule unsigned_less)
  with assms(2) have "n < 2 ^ 32" by simp
  with assms(1) show ?thesis by (simp add: word_le_nat_alt unat_of_nat_small)
qed

lemma limits_okD:
  assumes "limits_ok conf ss"
  shows "ss_conf ss = conf" "range_ok (cs_local conf (CONF_LOCAL_ID type))" "below_limits conf ss" "numbers_ok conf ss"
    "ss_allocated ss (CONF_LOCAL_ID type) = USESS_ID_INVALID \<or>
     in_range (cs_local conf (CONF_LOCAL_ID type)) (ss_allocated ss (CONF_LOCAL_ID type))"
    "i \<in> login_ids \<Longrightarrow> i \<noteq> CONF_LOCAL_ID type \<Longrightarrow>
     cp_end (cs_local conf i) < cp_start (cs_local conf (CONF_LOCAL_ID type)) \<or>
     cp_end (cs_local conf (CONF_LOCAL_ID type)) < cp_start (cs_local conf i)"
  using assms CONF_LOCAL_ID_range [of type] unfolding limits_ok_def conf_ok_def numbers_ok_def by blast+

lemma session_admitted:
  assumes "CheckSessTypeCount type ss = Some True" "limits_ok conf ss"
  defines "info \<equiv> cs_local conf (CONF_LOCAL_ID type)"
  shows "cn_limited (cs_global conf) \<Longrightarrow> Suc (length (ss_table ss)) \<le> unat (cn_max_session (cs_global conf))"
    "cn_limited (cp_connect info) \<Longrightarrow> Suc (length (sessions_in info (ss_table ss))) \<le> unat (cn_max_session (cp_connect info))"
proof -
  have conf: "ss_conf ss = conf" "cp_start info \<le> cp_end info" "below_limits conf ss"
    using limits_okD(1,3) [OF assms(2)] limits_okD(2,5) [OF assms(2), of type] by (simp_all add: range_ok_def info_def)
  show "Suc (length (ss_table ss)) \<le> unat (cn_max_session (cs_global conf))" if "cn_limited (cs_global conf)"
    using assms(1) that conf
    by (intro room_for_one) (auto simp: CheckSessTypeCount_def GetCount_def below_limits_def split: if_splits)
  show "Suc (length (sessions_in info (ss_table ss))) \<le> unat (cn_max_session (cp_connect info))" if lim: "cn_limited (cp_connect info)"
  proof (rule room_for_one)
    show "length (sessions_in info (ss_table ss)) \<le> unat (cn_max_session (cp_connect info))"
      using conf(3) lim CONF_LOCAL_ID_range [of type] unfolding below_limits_def info_def by blast
    show "\<not> cn_max_session (cp_connect info) \<le> of_nat (length (sessions_in info (ss_table ss)))"
      using assms(1) lim conf(1) count_between_sessions_in [OF conf(2), of "ss_table ss"]
      by (auto simp: CheckSessTypeCount_def info_def [symmetric] Let_def split: if_splits)
  qed
qed

text \<open>A new number belongs to the range of its type and to no other.\<close>

lemma new_number:
  assumes "GetNewSessionId type ss = Some (sid, ss1)" "limits_ok conf ss" "sid \<noteq> USESS_ID_INVALID"
  shows "in_range (cs_local conf (CONF_LOCAL_ID type)) sid" "map_of (ss_table ss) sid = None"
    "ss_table ss1 = ss_table ss" "ss_conf ss1 = conf"
    "ss_allocated ss1 = (ss_allocated ss)(CONF_LOCAL_ID type := sid)"
    "\<And>i. i \<in> login_ids \<Longrightarrow> i \<noteq> CONF_LOCAL_ID type \<Longrightarrow> \<not> in_range (cs_local conf i) sid"
proof -
  let ?info = "cs_local conf (CONF_LOCAL_ID type)" and ?a = "ss_allocated ss (CONF_LOCAL_ID type)"
  have ok: "ss_conf ss = conf" "range_ok ?info" "?a = USESS_ID_INVALID \<or> in_range ?info ?a"
    using limits_okD(1,3) [OF assms(2)] limits_okD(2,5) [OF assms(2), of type] by simp_all
  have sid: "sid = first_free (ss_table ss) (cyclic_ids ?info ?a)"
    "ss1 = ss\<lparr>ss_allocated := (ss_allocated ss)(CONF_LOCAL_ID type := sid)\<rparr>"
    using GetNewSessionId_first [of ss type] assms(1,3) ok by auto
  show r: "in_range ?info sid" "map_of (ss_table ss) sid = None"
    using first_free_valid [of "ss_table ss" "cyclic_ids ?info ?a"] set_cyclic_ids [OF ok(2,3)] sid(1) assms(3) by auto
  show "ss_table ss1 = ss_table ss" "ss_conf ss1 = conf" "ss_allocated ss1 = (ss_allocated ss)(CONF_LOCAL_ID type := sid)"
    using sid(2) ok(1) by simp_all
  show "\<not> in_range (cs_local conf i) sid" if "i \<in> login_ids" "i \<noteq> CONF_LOCAL_ID type" for i
  proof -
    have "cp_end (cs_local conf i) < cp_start ?info \<or> cp_end ?info < cp_start (cs_local conf i)"
      by (rule limits_okD(6) [OF assms(2) that])
    with r(1) show ?thesis by (auto simp: in_range_def)
  qed
qed

interpretation lim: sessions_invariant "limits_ok conf"
proof
  fix ss ss' clock req ut e sid
  assume ok: "limits_ok conf ss" and "Sessions_Add clock req ut ss = Some (e, sid, ss')"
  from this(2) show "limits_ok conf ss'"
  proof (cases rule: Sessions_AddE)
    case (2 ss1)
    then have "ss1 = ss" using GetNewSessionId_first [of ss "sa_type req"] limits_okD(1,2) [OF ok] by auto
    with ok 2 show ?thesis by simp
  next
    case (3 ss1 si)
    note new = new_number [OF 3(2) ok 3(3)] and room = session_admitted [OF 3(1) ok] and parts = limits_okD(1,3,4) [OF ok]
    have numbers: "numbers_ok conf ss'"
      using parts(3) new(1,3-5) set_table_insert [of sid si "ss_table ss"] table_insert_sorted
      unfolding 3(5) numbers_ok_def by (fastforce simp: 3(7))
    have in_i: "length (sessions_in (cs_local conf i) (ss_table ss')) =
        length (sessions_in (cs_local conf i) (ss_table ss)) + (if i = CONF_LOCAL_ID (sa_type req) then 1 else 0)"
      if "i \<in> login_ids" for i
      using new(1,6) that by (auto simp: 3(5) new(3) sessions_in_def length_filter_table_insert [OF new(2)])
    have "below_limits conf ss'"
      using parts(2) room in_i unfolding below_limits_def
      by (auto simp: 3(5) new(3) length_table_insert [OF new(2)] split: if_splits)
    with numbers ok show ?thesis by (simp add: limits_ok_def)
  qed (use ok in simp)
next
  fix ss P
  assume "limits_ok conf ss"
  then show "limits_ok conf (ss\<lparr>ss_table := filter P (ss_table ss)\<rparr>)"
    by (auto simp: limits_ok_def numbers_ok_def below_limits_def intro: sorted_filter order_trans [OF sessions_in_filter]
        order_trans [OF length_filter_le])
next
  fix ss k si
  assume ok: "limits_ok conf ss" "map_of (ss_table ss) k = Some si"
  have "limits_ok conf (set_mode k si m ss)" for m
    using ok set_table_set [of k "si\<lparr>si_mode := m\<rparr>" "ss_table ss"] map_of_SomeD [OF ok(2)]
    by (fastforce simp: limits_ok_def numbers_ok_def below_limits_def set_mode_def sessions_in_table_set
        simp flip: length_map [of fst "table_set _ _ _"])
  then show "limits_ok conf (set_mode k si USESS_MODE_ENABLE ss)" "limits_ok conf (set_mode k si USESS_MODE_OPER ss)" by simp_all
qed

text \<open>C21: The limits of the configuration hold. After a start of the module with a sound configuration of the
  ranges, and any requests, with other requests served while a new session waits for the check of its
  password, there are never more sessions than the configuration allows, in all and for each
  type, and every session has a number of the range of its type, no two the same.\<close>

theorem session_limits_hold:
  assumes "Usess_init env file s0 = Some (True, s)" "conf_ok (ss_conf (us_sessions s))"
    "(us_request env)\<^sup>*\<^sup>* s s'" "interleaved us_request n env"
  shows "numbers_ok (ss_conf (us_sessions s)) (us_sessions s') \<and> below_limits (ss_conf (us_sessions s)) (us_sessions s')"
proof -
  have "limits_ok (ss_conf (us_sessions s)) (us_sessions s)"
    using assms(2) init_sessions [OF assms(1)]
    by (simp add: limits_ok_def numbers_ok_def below_limits_def sessions_in_def)
  then have "limits_ok (ss_conf (us_sessions s)) (us_sessions s')"
    by (rule lim.requests_keep [OF assms(3)]) (rule lim.interleaved_calm [OF assms(4)])
  then show ?thesis by (simp add: limits_ok_def)
qed

theorem session_limits_hold_witness:
  "length (ss_table (us_sessions demo_two)) \<le> 64"
proof -
  have conf: "ss_conf (us_sessions demo_started) = snd (ConfSession_LoadConf demo_file)"
    by (simp add: init_sessions [OF demo_init])
  have "conf_ok (ss_conf (us_sessions demo_started))"
    unfolding conf
    by (auto simp: conf_ok_def login_ids_def range_ok_def ConfSession_LoadConf_def demo_file_def load_parameter_def
        conf_get_def kDefaultConf_local_def UINT32_MAX_def Let_def)
  then have "below_limits (ss_conf (us_sessions demo_started)) (us_sessions demo_two)"
    using session_limits_hold [OF demo_init _ demo_session_requests, of 0] by (simp add: demo_usess_def)
  then show ?thesis
    unfolding conf
    by (simp add: below_limits_def ConfSession_LoadConf_def demo_file_def conf_get_def kDefaultConf_session_def connect_num_def)
qed

end
