(* ===== verification/US_Auth.thy ===== *)
theory US_Auth
  imports US_Number
begin

text \<open>
  Who may do what: the abstract specification of the session table, in which every change carries the
  credentials that allow it, and the theorem that the requests of the program make only such changes. The rows that the
  database gave for a user and for the enable mode are named by the calls of the driver after which they were fetched.
\<close>

section \<open>Rows of the database\<close>

text \<open>The history at which the single row of a query is fetched, on a connection just opened.\<close>

definition row_at :: "'tc usess_env \<Rightarrow> 'tc Usess \<Rightarrow> string \<Rightarrow> mgmt_history" where
  "row_at env s q = mg_hist (snd (Mg_Connect (ue_db env) (us_db s))) @ [MgCall, MgExec q True, MgCall]"

text \<open>The cell of a column of that row: its text and its number.\<close>

definition cell_of :: "'tc usess_env \<Rightarrow> 'tc Usess \<Rightarrow> string \<Rightarrow> nat \<Rightarrow> string \<times> int" where
  "cell_of env s q column = mg_cell (ue_db env) (row_at env s q) column"

lemma mg_step_hist [simp]: "mg_hist (snd (mg_step env ev d)) = mg_hist d @ [ev (mg_ret env (mg_hist d))]"
  "mg_status (snd (mg_step env ev d)) = mg_status d"
  by (simp_all add: mg_step_def Let_def)

lemma fetch_one:
  assumes "fetch_rows env tys n d = (Some [row], d')"
  shows "row = fetched_row env (mg_hist d) tys"
  using assms by (cases n) (auto simp: Let_def split: if_splits prod.splits)

lemma Mg_Exec_one:
  assumes "Mg_Exec env q upd tys d = Some ((DB_E_OK, [row]), d')" "tys \<noteq> []" "bind_columns tys = Some vts"
  shows "row = fetched_row env (mg_hist d @ [MgCall, MgExec q True, MgCall]) vts"
  using assms
  by (auto simp: Mg_Exec_def DbField2Value_def mg_step_def Let_def bind_eq_Some_conv split: if_splits prod.splits option.splits
      dest!: fetch_one)

section \<open>Credentials\<close>

text \<open>A user who wants a session, with the type that the database gives.\<close>

definition login_credentials :: "'tc usess_env \<Rightarrow> 'tc Usess \<Rightarrow> usess_ipc_req_sess_add \<Rightarrow> user_type_e \<Rightarrow> bool" where
  "login_credentials env s req ut \<longleftrightarrow>
     (let cell = cell_of env s (user_query (sa_uname req)); digest = fst (cell 2)
      in ut = user_type_of (snd (cell 3)) \<and>
         (sa_type req = USESS_TYPE_CLI \<or> sa_type req = USESS_TYPE_CLI_DAEMON \<or> fst (cell 0) = kDefaultUser_CLIAdmin \<or>
          digest \<noteq> [] \<and> lc_crypt (ue_libc env) (take 72 (sa_passwd req)) digest = Some digest))"

text \<open>A session that wants to enter the enable mode.\<close>

definition enable_credentials :: "'tc usess_env \<Rightarrow> 'tc Usess \<Rightarrow> usess_ipc_res_sess_info \<Rightarrow> string \<Rightarrow> bool" where
  "enable_credentials env s si passwd \<longleftrightarrow>
     (let digest = fst (cell_of env s enable_query 1)
      in si_user_type si = USER_TYPE_ADMIN \<and>
         (si_uname si = kDefaultUser_WebAdmin \<and> (si_type si = USESS_TYPE_WEB_API \<or> si_type si = USESS_TYPE_WEB_UI) \<or>
          digest \<noteq> [] \<and> lc_crypt (ue_libc env) (take 72 passwd) digest = Some digest))"

text \<open>A session that wants to delete one.\<close>

definition may_delete :: "UsessSessions \<Rightarrow> u32 \<Rightarrow> u32 \<Rightarrow> bool" where
  "may_delete ss current target \<longleftrightarrow>
     is_fixed ss current \<or>
     (\<exists>si. map_of (ss_table ss) current = Some si \<and> (current = target \<or> si_mode si = USESS_MODE_ENABLE))"

section \<open>Changes of the table\<close>

inductive allowed :: "'tc usess_env \<Rightarrow> 'tc Usess \<Rightarrow> usess_arg option \<Rightarrow> usess_session_table_t \<Rightarrow> bool" for env s where
  nothing: "allowed env s arg (ss_table (us_sessions s))"
| login: "login_credentials env s req ut \<Longrightarrow> map_of (ss_table (us_sessions s)) sid = None \<Longrightarrow>
    si_id si = sid \<Longrightarrow> si_uname si = sa_uname req \<Longrightarrow> si_type si = sa_type req \<Longrightarrow>
    si_user_type si = ut \<Longrightarrow> si_mode si = USESS_MODE_OPER \<Longrightarrow>
    allowed env s (Some (ReqSessAdd req)) (table_insert sid si (ss_table (us_sessions s)))"
| logout: "may_delete (us_sessions s) current target \<Longrightarrow>
    allowed env s (Some (ReqSessDel current target)) (table_erase target (ss_table (us_sessions s)))"
| purge: "allowed env s (Some (ReqSessTypeDel type)) (filter (\<lambda>p. si_type (snd p) \<noteq> type) (ss_table (us_sessions s)))"
| promote: "map_of (ss_table (us_sessions s)) k = Some si \<Longrightarrow> enable_credentials env s si passwd \<Longrightarrow>
    allowed env s (Some (ReqSessEnable k passwd)) (table_set k (si\<lparr>si_mode := USESS_MODE_ENABLE\<rparr>) (ss_table (us_sessions s)))"
| demote: "map_of (ss_table (us_sessions s)) k = Some si \<Longrightarrow>
    allowed env s (Some (ReqSessId k)) (table_set k (si\<lparr>si_mode := USESS_MODE_OPER\<rparr>) (ss_table (us_sessions s)))"

declare allowed.nothing [simp]

abbreviation permitted :: "'tc usess_env \<Rightarrow> 'tc Usess \<Rightarrow> usess_arg \<Rightarrow> (((usess_ipc_err_e \<times> usess_output list) \<times> 'tc Usess) option) \<Rightarrow> bool" where
  "permitted env s arg p \<equiv> ends p (\<lambda>_ s'. allowed env s (Some arg) (ss_table (us_sessions s')))"

lemma table_insert_self: "map_of ps k = None \<Longrightarrow> map_of (table_insert k v ps) k = Some v"
  by (induction k v ps rule: table_insert.induct) (auto split: if_splits)

lemma erase_insert: "map_of ps k = None \<Longrightarrow> table_erase k (table_insert k v ps) = ps"
proof (induction k v ps rule: table_insert.induct)
  case (2 k v a b ps)
  have "table_erase k ps = ps" if "map_of ps k = None" for ps :: usess_session_table_t
    using that unfolding table_erase_def by (induction ps) (auto split: if_splits)
  with 2 show ?case by (auto simp: table_erase_def split: if_splits)
qed (simp add: table_erase_def)

lemma search_up_free:
  assumes "search_up table loop end_id = Some i" "i \<noteq> USESS_ID_INVALID"
  shows "map_of table i = None"
proof -
  have "i \<noteq> USESS_ID_INVALID \<longrightarrow> map_of table i = None"
    by (rule search_up.raw_induct [OF _ assms(1), of "\<lambda>table loop end_id i. i \<noteq> USESS_ID_INVALID \<longrightarrow> map_of table i = None"])
      (auto split: if_splits)
  with assms(2) show ?thesis by simp
qed

lemma GetNewSessionId_free:
  assumes "GetNewSessionId type ss = Some (sid, ss')" "sid \<noteq> USESS_ID_INVALID"
  shows "map_of (ss_table ss) sid = None"
  using assms first_free_valid [of "ss_table ss"]
  by (auto simp: GetNewSessionId_def Let_def bind_eq_Some_conv search_below_first split: if_splits dest: search_up_free)

section \<open>The handlers\<close>

lemma Authenticate_credentials:
  assumes "User_Authenticate lc type passwd u = Some USESS_E_OK"
  shows "type = USESS_TYPE_CLI \<or> type = USESS_TYPE_CLI_DAEMON \<or> uu_name u = kDefaultUser_CLIAdmin \<or>
    uu_passwd_digest u \<noteq> [] \<and> lc_crypt lc passwd (uu_passwd_digest u) = Some (uu_passwd_digest u)"
  using assms by (auto simp: User_Authenticate_def CheckDigest_def Hash_salt_def bind_eq_Some_conv split: if_splits)

lemma GetUser_row:
  assumes "GetUser env lc conf name u0 d = Some (USESS_E_OK, u, d')"
  defines "h \<equiv> mg_hist d @ [MgCall, MgExec (user_query name) True, MgCall]"
  shows "uu_name u = fst (mg_cell env h 0) \<and> uu_passwd_digest u = fst (mg_cell env h 2) \<and>
    uu_type u = user_type_of (snd (mg_cell env h 3))"
proof -
  let ?tys = "[SQL_VARCHAR, SQL_INTEGER, SQL_VARCHAR, SQL_INTEGER]"
  obtain row where exec: "Mg_Exec env (user_query name) False ?tys d = Some ((DB_E_OK, [row]), d')"
    and u: "SetUserData [row] (User_SetConf conf u0) = (USESS_E_OK, u)"
    using assms(1)
    by (auto simp: GetUser_def Retrieve_def bind_eq_Some_conv SetUserData_def Let_def split: if_splits prod.splits list.splits)
  have "row = fetched_row env h [VARIANT_STRING, VARIANT_INT32, VARIANT_STRING, VARIANT_INT32]"
    using Mg_Exec_one [OF exec] by (simp add: SetBindCol_def h_def)
  with u show ?thesis
    by (auto simp: fetched_row_def SetUserData_def enumerate_eq_zip numeral_eq_Suc split: prod.splits)
qed

lemma sess_add_session_permitted:
  assumes "login_credentials env s0 req ut" "us_sessions s0 = us_sessions s"
  shows "permitted env s0 (ReqSessAdd req) (sess_add_session env req ut s)"
  unfolding sess_add_session_def Let_def
proof (intro ends_bind ends_prod)
  fix x e sid ss y
  assume x: "Sessions_Add (ue_clock env (us_tick s)) req ut (us_sessions s) = Some x" "x = (e, y)" "y = (sid, ss)"
  let ?s = "tick s\<lparr>us_sessions := ss\<rparr>"
  have same: "allowed env s0 (Some (ReqSessAdd req)) (ss_table (us_sessions s))"
    using allowed.nothing [of env s0] by (simp add: assms(2))
  show "permitted env s0 (ReqSessAdd req)
     (if e \<noteq> USESS_E_OK then us_fail env e ?s
      else if ue_output env (us_tick ?s) then Some ((USESS_E_OK, [OutId sid]), tick ?s)
      else Sessions_Del (ue_tc env) sid (us_sessions ?s) (us_tc ?s) \<bind>
        (\<lambda>(_, ss, tc). us_fail env USESS_E_NG ((tick ?s)\<lparr>us_sessions := ss, us_tc := tc\<rparr>)))"
    using x(1) unfolding x(2,3)
  proof (cases rule: Sessions_AddE)
    case (3 ss1 si)
    have fresh: "map_of (ss_table (us_sessions s)) sid = None" "ss_table ss1 = ss_table (us_sessions s)"
      using GetNewSessionId_free [OF 3(2,3)] GetNewSessionId_frame [OF 3(2)] by auto
    have added: "allowed env s0 (Some (ReqSessAdd req)) (ss_table ss)"
      using allowed.login [OF assms(1)] fresh 3 by (simp add: assms(2))
    have removed: "allowed env s0 (Some (ReqSessAdd req)) (table_erase sid (ss_table ss))"
      using same by (simp add: 3(5) fresh(2) erase_insert [OF fresh(1)])
    from added removed show ?thesis
      by (auto simp: ends_us_fail Sessions_Del_def bind_eq_Some_conv intro!: ends_bind split: if_splits)
  qed (auto simp: ends_us_fail same dest!: GetNewSessionId_frame)
qed

lemma handler_add_permitted:
  assumes "ue_between env = (\<lambda>s. s)"
  shows "permitted env s (ReqSessAdd req) (UsessSessAddHandler env req s)"
  unfolding UsessSessAddHandler_def Let_def
proof (intro ends_with_lock ends_with_database ends_bind ends_prod ends_if)
  fix d x e y user d1 z ok s1 auth
  assume "Mg_Connect (ue_db env) (us_db (tick s)) = (DB_E_OK, d)"
    and user: "GetUser (ue_db env) (ue_libc env) (us_users (tick s\<lparr>us_db := d\<rparr>)) (sa_uname req) UsessUser_new
      (us_db (tick s\<lparr>us_db := d\<rparr>)) = Some x" "x = (e, y)" "y = (user, d1)" "\<not> e \<noteq> USESS_E_OK"
    and s1: "us_disconnect env (tick s\<lparr>us_db := d, us_db := d1\<rparr>) = (ok, s1)"
    and auth: "User_Authenticate (ue_libc env) (sa_type req) (take 72 (sa_passwd req)) user = Some auth" "\<not> auth \<noteq> USESS_E_OK"
  then have d: "d = snd (Mg_Connect (ue_db env) (us_db s))" by simp
  have "login_credentials env s req (uu_type user)"
    using GetUser_row [of "ue_db env" "ue_libc env" _ "sa_uname req" UsessUser_new d user d1] user auth
      Authenticate_credentials [of "ue_libc env" "sa_type req" "take 72 (sa_passwd req)" user]
    by (auto simp: login_credentials_def cell_of_def row_at_def d Let_def)
  moreover have "us_sessions s = us_sessions (ue_between env s1)"
    using us_disconnect_sessions [OF s1] assms by simp
  ultimately show "permitted env s (ReqSessAdd req) (sess_add_session env req (uu_type user) (tick (ue_between env s1)))"
    by (intro sess_add_session_permitted) simp_all
qed (auto simp: ends_us_fail assms dest!: us_disconnect_sessions)

lemma handler_del_permitted: "permitted env s (ReqSessDel current target) (UsessSessDelHandler env current target s)"
proof -
  have "may_delete (us_sessions s) current target" if "Sessions_Privilege kPrivilegeSessDel current target (us_sessions s) = USESS_E_OK"
    using that by (auto simp: Sessions_Privilege_def may_delete_def Let_def split: if_splits)
  then show ?thesis
    unfolding UsessSessDelHandler_def Let_def
    by (intro ends_with_lock ends_bind ends_prod ends_if)
      (auto simp: Sessions_Del_def bind_eq_Some_conv split: if_splits intro: allowed.logout)
qed

lemma handler_type_del_permitted: "permitted env s (ReqSessTypeDel type) (UsessSessTypeDelHandler env type s)"
  unfolding UsessSessTypeDelHandler_def
  by (intro ends_with_lock ends_bind ends_prod)
    (auto simp: Sessions_Del_type_def bind_eq_Some_conv split: if_splits intro: allowed.purge dest!: del_type_loop_filter)

lemma Enable_Authenticate_credentials:
  assumes "Enable_Authenticate (ue_db env) (ue_libc env) si (take 72 passwd) conf (snd (Mg_Connect (ue_db env) (us_db s))) = Some (USESS_E_OK, d')"
    "si_user_type si = USER_TYPE_ADMIN"
  shows "enable_credentials env s si passwd"
proof (cases "si_uname si = kDefaultUser_WebAdmin \<and> (si_type si = USESS_TYPE_WEB_API \<or> si_type si = USESS_TYPE_WEB_UI)")
  case False
  let ?d = "snd (Mg_Connect (ue_db env) (us_db s))"
  obtain c0 c1 where exec: "Mg_Exec (ue_db env) enable_query False [SQL_INTEGER, SQL_VARCHAR] ?d = Some ((DB_E_OK, [[c0, c1]]), d')"
    and check: "CheckDigest (ue_libc env) (take 72 passwd) (string_val c1) (string_val c1) = Some True"
    using assms(1) False
    by (auto simp: Enable_Authenticate_def bind_eq_Some_conv split: if_splits list.splits)
  have "[c0, c1] = fetched_row (ue_db env) (row_at env s enable_query) [VARIANT_INT32, VARIANT_STRING]"
    using Mg_Exec_one [OF exec] by (simp add: SetBindCol_def row_at_def)
  then have "string_val c1 = fst (cell_of env s enable_query 1)"
    by (auto simp: fetched_row_def cell_of_def enumerate_eq_zip numeral_eq_Suc split: prod.splits)
  with check assms(2) show ?thesis
    by (auto simp: enable_credentials_def CheckDigest_def Hash_salt_def Let_def bind_eq_Some_conv split: if_splits)
qed (use assms(2) in \<open>simp add: enable_credentials_def Let_def\<close>)

lemma handler_enable_permitted: "permitted env s (ReqSessEnable k passwd) (UsessEnableHandler env k passwd s)"
  unfolding UsessEnableHandler_def Let_def
proof (intro ends_with_lock ends_with_database ends_bind ends_prod ends_if ends_sum)
  fix d sess x e d1 y e2 z sess2 tc
  assume d: "Mg_Connect (ue_db env) (us_db (tick s)) = (DB_E_OK, d)"
    and sess: "GetSession k (us_sessions (tick s\<lparr>us_db := d\<rparr>)) = Inr sess"
    and priv: "\<not> Enable_Privilege kPrivilegeEnable sess \<noteq> USESS_E_OK"
    and auth: "Enable_Authenticate (ue_db env) (ue_libc env) sess (take 72 passwd) (us_enable (tick s\<lparr>us_db := d\<rparr>)) (us_db (tick s\<lparr>us_db := d\<rparr>)) = Some x"
      "x = (e, d1)" "\<not> e \<noteq> USESS_E_OK"
    and mode: "TransitMode (ue_tc env) USESS_MODE_ENABLE sess (us_tc (tick s\<lparr>us_db := d, us_db := d1\<rparr>)) = Some y" "y = (e2, z)" "z = (sess2, tc)"
  have k: "map_of (ss_table (us_sessions s)) k = Some sess"
    using sess by (simp add: GetSession_def split: option.splits)
  have "d = snd (Mg_Connect (ue_db env) (us_db s))" using d by simp
  then have "enable_credentials env s sess passwd"
    using auth priv Enable_Authenticate_credentials [of env sess passwd] by (simp add: Enable_Privilege_def split: if_splits)
  then have "allowed env s (Some (ReqSessEnable k passwd)) (table_set k sess2 (ss_table (us_sessions s)))"
    using mode k allowed.promote [OF k] table_set_same [OF k]
    by (auto simp: TransitMode_def split: if_splits)
  then show "permitted env s (ReqSessEnable k passwd) (us_fail env e2 (set_session sess2 tc k (tick s\<lparr>us_db := d, us_db := d1\<rparr>)))"
    "permitted env s (ReqSessEnable k passwd) (us_finish env (set_session sess2 tc k (tick s\<lparr>us_db := d, us_db := d1\<rparr>)))"
    by (auto simp: ends_us_fail set_session_def intro!: ends_us_finish)
qed (auto simp: ends_us_fail)

lemma handler_disable_permitted: "permitted env s (ReqSessId k) (UsessDisableHandler env k s)"
  unfolding UsessDisableHandler_def Let_def
proof (intro ends_with_lock ends_bind ends_prod ends_if ends_sum)
  fix sess x e y sess2 tc
  assume "GetSession k (us_sessions (tick s)) = Inr sess"
    and mode: "TransitMode (ue_tc env) USESS_MODE_OPER sess (us_tc (tick s)) = Some x" "x = (e, y)" "y = (sess2, tc)"
  then have k: "map_of (ss_table (us_sessions s)) k = Some sess" by (simp add: GetSession_def split: option.splits)
  show "permitted env s (ReqSessId k) (Some ((e, []), set_session sess2 tc k (tick s)))"
    using mode allowed.demote [OF k] table_set_same [OF k]
    by (auto simp: TransitMode_def set_session_def bind_eq_Some_conv split: if_splits)
qed simp_all

lemma handler_asks_permitted:
  "permitted env s a (UsessSessCountHandler env current s)" "permitted env s a (UsessSessListHandler env current s)"
  "permitted env s a (UsessSessDetailHandler env current detail s)"
  unfolding UsessSessCountHandler_def UsessSessListHandler_def UsessSessDetailHandler_def Let_def
  by (intro ends_with_lock ends_bind ends_prod ends_if ends_sum;
      auto simp: ends_def dest!: add_outputs_frame simp del: add_outputs.simps)+

lemma handler_passwords_permitted:
  "permitted env s a (UserUserPasswdHandler env current uname passwd s)" "permitted env s a (UserEnablePasswdHandler env current passwd s)"
  unfolding UserUserPasswdHandler_def UserEnablePasswdHandler_def Let_def
  by (intro ends_with_lock ends_with_database ends_bind ends_prod ends_if ends_sum ends_us_finish; auto simp: ends_us_fail)+

text \<open>C18: Every change of the sessions is authorised. A request that is served alone changes the table, if at
  all, in one of these ways: it adds a session in the operator mode for a user whose stored digest fits the
  password, or who needs none; it removes a session at the request of a fixed session, of the session itself or of a session in
  the enable mode; it removes all sessions of a type, for which no right is asked; it puts the session of an
  administrator into the enable mode after the enable password was checked, unless it is a Web session of the Web administrator;
  or it puts a session back into the operator mode.\<close>

theorem requests_are_authorised:
  assumes "Usess_ipcService env service arg s = Some (r, s')" "ue_between env = (\<lambda>s. s)"
  shows "allowed env s arg (ss_table (us_sessions s'))"
proof -
  have "ends (Usess_ipcService env service arg s) (\<lambda>_ s'. allowed env s arg (ss_table (us_sessions s')))"
    unfolding Usess_ipcService_def
    by (simp add: handler_add_permitted [OF assms(2)] handler_del_permitted handler_type_del_permitted handler_enable_permitted
        handler_disable_permitted handler_asks_permitted handler_passwords_permitted
        split: option.split usess_ipc_service_id_e.split usess_arg.split)
  with assms(1) show ?thesis by (rule endsD [rotated])
qed

text \<open>In the demonstration, the request of session 1024 for the enable mode is granted.\<close>

definition demo_logged_in :: "unit Usess" where
  "demo_logged_in = snd (the (Usess_ipcService demo_usess (Some kUsessSessAdd) (Some (ReqSessAdd demo_add)) demo_started))"

theorem requests_are_authorised_witness:
  "allowed demo_usess demo_logged_in (Some (ReqSessEnable 1024 ''secret'')) (ss_table (us_sessions demo_two)) \<and>
   ss_table (us_sessions demo_two) \<noteq> ss_table (us_sessions demo_logged_in)"
proof
  have "map_option (\<lambda>_. ()) (Usess_ipcService demo_usess (Some kUsessEnable) (Some (ReqSessEnable 1024 ''secret'')) demo_logged_in) = Some ()"
    by code_simp
  then obtain r where "Usess_ipcService demo_usess (Some kUsessEnable) (Some (ReqSessEnable 1024 ''secret'')) demo_logged_in = Some (r, demo_two)"
    by (auto simp: demo_two_def demo_logged_in_def)
  then show "allowed demo_usess demo_logged_in (Some (ReqSessEnable 1024 ''secret'')) (ss_table (us_sessions demo_two))"
    by (rule requests_are_authorised) (simp add: demo_usess_def)
  have "map_option si_mode (map_of (ss_table (us_sessions demo_two)) 1024) \<noteq> map_option si_mode (map_of (ss_table (us_sessions demo_logged_in)) 1024)"
    by code_simp
  then show "ss_table (us_sessions demo_two) \<noteq> ss_table (us_sessions demo_logged_in)" by auto
qed

end
