(* ===== verification/US_DbProps.thy ===== *)
theory US_DbProps
  imports US_Auth
begin

text \<open>
  The database under the session manager: how a transaction ends, that no request leaves a connection
  open, and that a changed password is committed and will be accepted.
\<close>

section \<open>Transactions\<close>

text \<open>What is done on an open connection.\<close>

datatype mg_op = DoExec string bool "sql_type list" | DoAbort

fun mg_run :: "mgmt_env \<Rightarrow> mg_op list \<Rightarrow> MgmtDatabase \<Rightarrow> (db_err_e list \<times> MgmtDatabase) option" where
  "mg_run env [] d = Some ([], d)"
| "mg_run env (DoExec q upd tys # ops) d =
     do { ((e, _), d) \<leftarrow> Mg_Exec env q upd tys d; (es, d) \<leftarrow> mg_run env ops d; Some (e # es, d) }"
| "mg_run env (DoAbort # ops) d =
     (let (e, d) = Mg_Abort d in do { (es, d) \<leftarrow> mg_run env ops d; Some (e # es, d) })"

text \<open>Whether one of the statements changed the database.\<close>

fun changed :: "mg_op list \<Rightarrow> db_err_e list \<Rightarrow> bool" where
  "changed (DoExec q upd tys # ops) (e # es) \<longleftrightarrow> upd \<and> e = DB_E_OK \<or> changed ops es"
| "changed (DoAbort # ops) (e # es) \<longleftrightarrow> changed ops es"
| "changed ops es \<longleftrightarrow> False"

lemma fetch_rows_status: "fetch_rows env tys n d = (r, d') \<Longrightarrow> mg_status d' = mg_status d"
  by (induction n arbitrary: d r d') (auto simp: mg_step_def Let_def split: if_splits prod.splits)

lemma DbField2Value_status: "DbField2Value env tys d = Some (r, d') \<Longrightarrow> mg_status d' = mg_status d"
  by (auto simp: DbField2Value_def mg_step_def Let_def split: if_splits prod.splits option.splits dest: fetch_rows_status)

lemma status_update_same: "d\<lparr>mg_status := st, mg_hist := h\<rparr> = d\<lparr>mg_hist := h'\<rparr> \<longleftrightarrow> mg_status d = st \<and> h = h'"
  by (cases d) auto

lemma Mg_Exec_status:
  assumes "Mg_Exec env q upd tys d = Some ((e, rows), d')" "mg_status d \<noteq> STATUS_TRANSACTION_NONE"
  shows "mg_status d' = (if upd \<and> e = DB_E_OK \<and> mg_status d \<noteq> STATUS_TRANSACTION_ABORT then STATUS_TRANSACTION_UPDATE else mg_status d)"
  using assms
  by (auto simp: status_update_same Mg_Exec_def mg_step_def Let_def bind_eq_Some_conv split: if_splits dest!: DbField2Value_status)

lemma mg_run_status:
  assumes "mg_run env ops d = Some (es, d')" "mg_status d \<noteq> STATUS_TRANSACTION_NONE"
  shows "mg_status d' =
    (if mg_status d = STATUS_TRANSACTION_ABORT \<or> DoAbort \<in> set ops then STATUS_TRANSACTION_ABORT
     else if changed ops es then STATUS_TRANSACTION_UPDATE else mg_status d)"
  using assms
proof (induction env ops d arbitrary: es d' rule: mg_run.induct)
  case (2 env q upd tys ops d)
  then obtain e rows d1 es1 where exec: "Mg_Exec env q upd tys d = Some ((e, rows), d1)"
    and rest: "mg_run env ops d1 = Some (es1, d')" "es = e # es1"
    by (auto simp: bind_eq_Some_conv)
  note st = Mg_Exec_status [OF exec "2.prems"(2)]
  then have "mg_status d1 \<noteq> STATUS_TRANSACTION_NONE" using "2.prems"(2) by (simp split: if_splits)
  from "2.IH" [OF exec refl refl rest(1) this] show ?case using st rest(2) by (auto split: if_splits)
next
  case (3 env ops d)
  then show ?case by (fastforce simp: Mg_Abort_def bind_eq_Some_conv)
qed simp

text \<open>C25: A transaction on the management database is committed if a statement changed something and nobody asked for an abort, and
  rolled back otherwise: on a connection just opened, after any statements and requests for an abort, the disconnection ends the transaction in this
  way and closes the connection, and it reports success exactly if both worked.\<close>

theorem transaction_outcome:
  assumes "Mg_Connect env d0 = (DB_E_OK, d1)" "mg_run env ops d1 = Some (es, d2)" "Mg_Disconnect env d2 = (r, d3)"
  shows "\<exists>ended closed.
    mg_hist d3 = mg_hist d2 @ [MgTransact (if changed ops es \<and> DoAbort \<notin> set ops then DB_COMMIT else DB_ROLLBACK) ended, MgDisconnect closed] \<and>
    (r = DB_E_OK \<longleftrightarrow> ended \<and> closed) \<and> (closed \<longrightarrow> mg_status d3 = STATUS_TRANSACTION_NONE)"
proof -
  have "mg_status d1 = STATUS_TRANSACTION_BEGIN"
    using assms(1) by (auto simp: Mg_Connect_def BeginTransaction_def Let_def split: if_splits prod.splits)
  then have "mg_status d2 = (if DoAbort \<in> set ops then STATUS_TRANSACTION_ABORT
      else if changed ops es then STATUS_TRANSACTION_UPDATE else STATUS_TRANSACTION_BEGIN)"
    using mg_run_status [OF assms(2)] by simp
  then show ?thesis
    using assms(3)
    by (auto simp: Mg_Disconnect_def EndTransaction_def mg_step_def ex_bool_eq Let_def split: if_splits)
qed

theorem transaction_outcome_witness:
  "\<exists>d. mg_run demo_mgmt [DoExec ''UPDATE'' True [], DoAbort] (snd (Mg_Connect demo_mgmt MgmtDatabase_new)) = Some ([DB_E_OK, DB_E_OK], d) \<and>
    mg_hist (snd (Mg_Disconnect demo_mgmt d)) = mg_hist d @ [MgTransact DB_ROLLBACK True, MgDisconnect True]"
proof -
  let ?d1 = "snd (Mg_Connect demo_mgmt MgmtDatabase_new)" and ?ops = "[DoExec ''UPDATE'' True [], DoAbort]"
  have 1: "Mg_Connect demo_mgmt MgmtDatabase_new = (DB_E_OK, ?d1)" by (simp add: prod_eq_iff) code_simp
  have "map_option fst (mg_run demo_mgmt ?ops ?d1) = Some [DB_E_OK, DB_E_OK]" by code_simp
  then obtain d2 where 2: "mg_run demo_mgmt ?ops ?d1 = Some ([DB_E_OK, DB_E_OK], d2)" by auto
  obtain ended closed where "mg_hist (snd (Mg_Disconnect demo_mgmt d2)) = mg_hist d2 @ [MgTransact DB_ROLLBACK ended, MgDisconnect closed]"
    "fst (Mg_Disconnect demo_mgmt d2) = DB_E_OK \<longleftrightarrow> ended \<and> closed"
    using transaction_outcome [OF 1 2, of "fst (Mg_Disconnect demo_mgmt d2)" "snd (Mg_Disconnect demo_mgmt d2)"] by auto
  moreover have "map_option (\<lambda>(_, d). fst (Mg_Disconnect demo_mgmt d)) (mg_run demo_mgmt ?ops ?d1) = Some DB_E_OK" by code_simp
  ultimately show ?thesis using 2 by simp
qed

section \<open>Connections\<close>

text \<open>No transaction is open, or the last call of the driver was the attempt to close the connection.\<close>

definition released :: "MgmtDatabase \<Rightarrow> bool" where
  "released d \<longleftrightarrow> mg_status d = STATUS_TRANSACTION_NONE \<or> (mg_hist d \<noteq> [] \<and> last (mg_hist d) = MgDisconnect False)"

lemma disconnect_releases: "released (snd (Mg_Disconnect env d))"
  by (auto simp: released_def Mg_Disconnect_def EndTransaction_def mg_step_def Let_def)

lemma us_disconnect_releases: "us_disconnect env s = (ok, s') \<Longrightarrow> released (us_db s')"
  using disconnect_releases [of "ue_db env" "us_db s"] by (auto simp: us_disconnect_def split: prod.splits)

abbreviation releases :: "(((usess_ipc_err_e \<times> usess_output list) \<times> 'tc Usess) option) \<Rightarrow> bool" where
  "releases p \<equiv> ends p (\<lambda>_ s. released (us_db s))"

lemma us_fail_releases [simp]: "releases (us_fail env e s)"
  using us_disconnect_releases [of env s] by (cases "us_disconnect env s") (simp add: ends_us_fail)

lemma us_finish_releases [simp]: "releases (us_finish env s)"
  by (auto simp: us_finish_def intro!: ends_prod ends_if us_disconnect_releases)

lemma with_database_releases: "(\<And>d. releases (body (s\<lparr>us_db := d\<rparr>))) \<Longrightarrow> releases (with_database env body s)"
  by (auto simp: with_database_def Let_def intro!: ends_prod ends_if)

text \<open>The other requests are served with the connection released, and leave it so.\<close>

definition db_calm :: "'tc usess_env \<Rightarrow> bool" where
  "db_calm env \<longleftrightarrow> (\<forall>s. released (us_db s) \<longrightarrow> released (us_db (ue_between env s)))"

lemma sess_add_session_releases: "released (us_db s) \<Longrightarrow> releases (sess_add_session env req ut s)"
  unfolding sess_add_session_def Let_def by (intro ends_bind ends_prod ends_if) auto

lemma handler_add_releases: "released (us_db s) \<Longrightarrow> db_calm env \<Longrightarrow> releases (UsessSessAddHandler env req s)"
  unfolding UsessSessAddHandler_def Let_def
  by (intro ends_with_lock with_database_releases ends_bind ends_prod ends_if)
    (auto simp: db_calm_def intro!: ends_with_lock sess_add_session_releases dest!: us_disconnect_releases)

lemma handlers_release:
  assumes "released (us_db s)"
  shows "releases (UsessSessDelHandler env current victim s)" "releases (UsessSessTypeDelHandler env type s)"
    "releases (UsessEnableHandler env current passwd s)" "releases (UsessDisableHandler env current s)"
    "releases (UserUserPasswdHandler env current uname passwd s)" "releases (UserEnablePasswdHandler env current passwd s)"
  unfolding UsessSessDelHandler_def UsessSessTypeDelHandler_def UsessEnableHandler_def UsessDisableHandler_def
    UserUserPasswdHandler_def UserEnablePasswdHandler_def Let_def
  by (intro ends_with_lock with_database_releases ends_bind ends_prod ends_if ends_sum; use assms in \<open>simp add: set_session_def\<close>)+

lemma handler_asks_release:
  assumes "released (us_db s)"
  shows "releases (UsessSessCountHandler env current s)" "releases (UsessSessListHandler env current s)"
    "releases (UsessSessDetailHandler env current detail s)"
  unfolding UsessSessCountHandler_def UsessSessListHandler_def UsessSessDetailHandler_def Let_def
  by (intro ends_with_lock ends_bind ends_prod ends_if ends_sum;
      use assms in \<open>auto simp: ends_def dest!: add_outputs_frame simp del: add_outputs.simps\<close>)+

lemma step_releases:
  assumes "us_step env s s'" "released (us_db s)" "db_calm env"
  shows "released (us_db s')"
proof -
  have "releases (Usess_ipcService env service arg s)" for service arg
    unfolding Usess_ipcService_def
    by (simp add: assms(2,3) handler_add_releases handlers_release handler_asks_release
        split: option.split usess_ipc_service_id_e.split usess_arg.split)
  then have "released (us_db s')" if "us_request env s s'"
    using that endsD unfolding us_request_def by fast
  with assms(1,2) show ?thesis
    by (auto simp: us_step_def ReloadConfEventHandler_def split: option.split)
qed

lemma steps_release: "(us_step env)\<^sup>*\<^sup>* s s' \<Longrightarrow> released (us_db s) \<Longrightarrow> db_calm env \<Longrightarrow> released (us_db s')"
  by (induction rule: rtranclp_induct) (auto intro: step_releases)

lemma interleaved_db_calm: "interleaved us_step n env \<Longrightarrow> db_calm env"
proof (induction n arbitrary: env)
  case (Suc n)
  show ?case unfolding db_calm_def
  proof (intro allI impI)
    fix s :: "'a Usess" assume "released (us_db s)"
    moreover obtain env' where "interleaved us_step n env'" "(us_step env')\<^sup>*\<^sup>* s (ue_between env s)"
      using Suc.prems by auto
    ultimately show "released (us_db (ue_between env s))" using Suc.IH steps_release by blast
  qed
qed (simp add: db_calm_def)

text \<open>C24: No request leaves a transaction on the management database open. After the start of the module and any requests and
  reloads, whatever statements failed, no transaction is open, unless the attempt to close the
  connection was the last thing the driver did and it failed.\<close>

theorem connection_released:
  assumes "Usess_init env file (Usess_new tc) = Some (True, s)" "(us_step env)\<^sup>*\<^sup>* s s'" "interleaved us_step n env"
  shows "released (us_db s')"
proof (rule steps_release [OF assms(2) _ interleaved_db_calm [OF assms(3)]])
  have start: "Mg_Init e d = (ok, d') \<Longrightarrow> mg_status d' = STATUS_TRANSACTION_NONE" for e d ok d'
    by (auto simp: Mg_Init_def mg_step_def Let_def split: if_splits)
  then show "released (us_db s)"
    using assms(1) by (auto simp: Usess_init_def released_def bind_eq_Some_conv Let_def split: if_splits prod.splits dest!: start)
qed

theorem connection_released_witness: "released (us_db demo_two) \<and> mg_hist (us_db demo_two) \<noteq> []"
proof
  have "(us_step demo_usess)\<^sup>*\<^sup>* demo_started demo_two"
    using demo_session_requests by (rule rtranclp_mono [THEN predicate2D, rotated]) (auto simp: us_step_def)
  moreover have "interleaved us_step 0 demo_usess" by (simp add: demo_usess_def)
  ultimately show "released (us_db demo_two)" by (rule connection_released [OF demo_init])
  show "mg_hist (us_db demo_two) \<noteq> []" by code_simp
qed

section \<open>Passwords\<close>

lemma Retrieve_conf:
  "GetUser env lc conf name u d = Some (USESS_E_OK, u', d') \<Longrightarrow> uu_conf u' = conf"
  by (auto simp: GetUser_def Retrieve_def SetUserData_def User_SetConf_def bind_eq_Some_conv Let_def split: if_splits list.splits)

lemma GetUser_open:
  assumes "GetUser env lc conf name u d = Some (e, u', d')" "mg_status d = STATUS_TRANSACTION_BEGIN"
  shows "mg_status d' = STATUS_TRANSACTION_BEGIN"
  using assms by (auto simp: GetUser_def Retrieve_def bind_eq_Some_conv split: if_splits prod.splits dest: Mg_Exec_status)

lemma Mg_Exec_update:
  assumes "Mg_Exec env q True [] d = Some ((DB_E_OK, rows), d')" "mg_status d = STATUS_TRANSACTION_BEGIN"
  shows "\<exists>h. mg_hist d' = h @ [MgExec q True, MgCall]" "mg_status d' = STATUS_TRANSACTION_UPDATE"
  using assms by (auto simp: Mg_Exec_def mg_step_def Let_def split: if_splits)

lemma disconnect_commits:
  assumes "us_disconnect env s = (True, s')" "mg_status (us_db s) = STATUS_TRANSACTION_UPDATE"
  shows "mg_hist (us_db s') = mg_hist (us_db s) @ [MgTransact DB_COMMIT True, MgDisconnect True]"
  using assms
  by (auto simp: us_disconnect_def Mg_Disconnect_def EndTransaction_def mg_step_def Let_def split: if_splits)

lemma us_finish_ok:
  assumes "us_finish env s = Some ((USESS_E_OK, out), s')"
  shows "us_disconnect env s = (True, s')"
  using assms by (auto simp: us_finish_def us_fail_def split: if_splits prod.splits)

lemma us_fail_OK: "us_fail env e s = Some ((USESS_E_OK, out), s') \<Longrightarrow> e = USESS_E_OK"
  by (simp add: us_fail_def)

lemma UserUserPasswdHandler_ok:
  assumes "UserUserPasswdHandler env current uname passwd s = Some ((USESS_E_OK, out), s')"
  obtains d sess u d1 d2 where "Mg_Connect (ue_db env) (us_db s) = (DB_E_OK, d)"
    "GetSession current (us_sessions s) = Inr sess"
    "GetUser (ue_db env) (ue_libc env) (us_users s) uname UsessUser_new d = Some (USESS_E_OK, u, d1)"
    "User_Privilege sess u = USESS_E_OK"
    "User_ChangePassword (ue_db env) (ue_libc env) (snd (ue_clock env (Suc (us_tick s)))) (take 72 passwd) u d1 = Some (USESS_E_OK, d2)"
    "us_finish env ((tick (tick s\<lparr>us_db := d1\<rparr>))\<lparr>us_db := d2\<rparr>) = Some ((USESS_E_OK, out), s')"
proof -
  have no: "GetSession current ss = Inl e \<Longrightarrow> e \<noteq> USESS_E_OK" for ss e by (auto simp: GetSession_def split: option.splits)
  show thesis
    using assms that
    by (auto simp: UserUserPasswdHandler_def with_lock_def with_database_def Let_def bind_eq_Some_conv
        split: if_split_asm prod.split_asm sum.split_asm dest!: us_fail_OK no)
qed

text \<open>C23: A changed password is stored and will be accepted. When the request to change the password of a user succeeds, the
  session that asked is in the enable mode and belongs to this user, the new digest has been stored and
  committed by the last statement before the connection was closed, and any login of the user with the new password against
  this digest is granted. The hypothesis on \<open>crypt\<close> is its documented behaviour: a digest can be given
  again as the setting with which it was made.\<close>

theorem password_change_roundtrip:
  assumes "Usess_ipcService env (Some kUserUserPasswd) (Some (ReqUserPasswd current uname passwd)) s = Some ((USESS_E_OK, out), s')"
    "\<forall>phrase setting digest. lc_crypt (ue_libc env) phrase setting = Some digest \<longrightarrow> lc_crypt (ue_libc env) phrase digest = Some digest"
  shows "\<exists>sess digest h. map_of (ss_table (us_sessions s)) current = Some sess \<and> si_mode sess = USESS_MODE_ENABLE \<and>
    mg_hist (us_db s') = h @ [MgExec (update_user_query digest (cu_hash_type (us_users s)) (si_uname sess)) True, MgCall,
      MgTransact DB_COMMIT True, MgDisconnect True] \<and>
    (\<forall>type u. uu_conf u = us_users s \<and> uu_passwd_digest u = digest \<longrightarrow>
       User_Authenticate (ue_libc env) type (take 72 passwd) u = Some USESS_E_OK)"
proof -
  let ?lc = "ue_libc env" and ?pw = "take 72 passwd" and ?now = "snd (ue_clock env (Suc (us_tick s)))"
  obtain d sess u d1 d2 where conn: "Mg_Connect (ue_db env) (us_db s) = (DB_E_OK, d)"
    and sess: "GetSession current (us_sessions s) = Inr sess"
    and user: "GetUser (ue_db env) ?lc (us_users s) uname UsessUser_new d = Some (USESS_E_OK, u, d1)"
    and priv: "User_Privilege sess u = USESS_E_OK"
    and change: "User_ChangePassword (ue_db env) ?lc ?now ?pw u d1 = Some (USESS_E_OK, d2)"
    and fin: "us_finish env ((tick (tick s\<lparr>us_db := d1\<rparr>))\<lparr>us_db := d2\<rparr>) = Some ((USESS_E_OK, out), s')"
  proof (rule UserUserPasswdHandler_ok)
    show "UserUserPasswdHandler env current uname passwd s = Some ((USESS_E_OK, out), s')"
      using assms(1) by (simp add: Usess_ipcService_def)
  qed blast
  have begin': "mg_status d1 = STATUS_TRANSACTION_BEGIN"
    using conn GetUser_open [OF user] by (auto simp: Mg_Connect_def BeginTransaction_def Let_def split: if_splits prod.splits)
  note conf = Retrieve_conf [OF user]
  obtain digest rows where hash: "Hash_time ?lc ?pw ?now (cu_hash_type (us_users s)) = Some digest" "digest \<noteq> []"
    and exec: "Mg_Exec (ue_db env) (update_user_query digest (cu_hash_type (us_users s)) (uu_name u)) True [] d1 = Some ((DB_E_OK, rows), d2)"
    and pw: "User_CheckPassword ?lc ?pw u"
    using change by (auto simp: User_ChangePassword_def conf bind_eq_Some_conv split: if_splits)
  have crypt: "lc_crypt ?lc ?pw digest = Some digest"
    using hash assms(2) by (auto simp: Hash_time_def Hash_salt_def split: if_splits)
  have login: "User_Authenticate ?lc type ?pw v = Some USESS_E_OK" if "uu_conf v = us_users s" "uu_passwd_digest v = digest" for type v
    using pw crypt hash(2) that by (simp add: User_Authenticate_def User_CheckPassword_def conf CheckDigest_def Hash_salt_def)
  have priv': "si_mode sess = USESS_MODE_ENABLE" "uu_name u = si_uname sess"
    using priv by (auto simp: User_Privilege_def split: if_splits)
  obtain h where h: "mg_hist d2 = h @ [MgExec (update_user_query digest (cu_hash_type (us_users s)) (si_uname sess)) True, MgCall]"
    using Mg_Exec_update(1) [OF exec begin'] by (auto simp: priv'(2))
  have "mg_hist (us_db s') = mg_hist d2 @ [MgTransact DB_COMMIT True, MgDisconnect True]"
    using disconnect_commits [OF us_finish_ok [OF fin]] Mg_Exec_update(2) [OF exec begin'] by simp
  then show ?thesis
    using sess priv'(1) h login by (intro exI [of _ sess] exI [of _ digest] exI [of _ h]) (auto simp: GetSession_def split: option.splits)
qed

text \<open>The user of session 1024 in the demonstration changes the password.\<close>

theorem password_change_roundtrip_witness:
  "\<exists>s' digest. Usess_ipcService demo_usess (Some kUserUserPasswd) (Some (ReqUserPasswd 1024 ''admin'' ''other'')) demo_two =
      Some ((USESS_E_OK, []), s') \<and>
    MgExec (update_user_query digest HASH_TYPE_MD5 ''admin'') True \<in> set (mg_hist (us_db s'))"
proof -
  let ?r = "Usess_ipcService demo_usess (Some kUserUserPasswd) (Some (ReqUserPasswd 1024 ''admin'' ''other'')) demo_two"
  have "map_option fst ?r = Some (USESS_E_OK, [])" by code_simp
  then obtain s' where run: "?r = Some ((USESS_E_OK, []), s')" by auto
  have crypt: "\<forall>phrase setting digest. lc_crypt (ue_libc demo_usess) phrase setting = Some digest \<longrightarrow>
    lc_crypt (ue_libc demo_usess) phrase digest = Some digest" by (simp add: demo_usess_def)
  have demo: "map_option si_uname (map_of (ss_table (us_sessions demo_two)) 1024) = Some ''admin''"
    "cu_hash_type (us_users demo_two) = HASH_TYPE_MD5" by code_simp+
  obtain sess digest h where "map_of (ss_table (us_sessions demo_two)) 1024 = Some sess"
    "mg_hist (us_db s') = h @ [MgExec (update_user_query digest (cu_hash_type (us_users demo_two)) (si_uname sess)) True, MgCall,
      MgTransact DB_COMMIT True, MgDisconnect True]"
    using password_change_roundtrip [OF run crypt] by blast
  with run demo show ?thesis by (intro exI [of _ s'] exI [of _ digest]) simp
qed

end
