(* ===== verification/US_Compose.thy ===== *)
theory US_Compose
  imports US_Auth TC_NodeProps
begin

text \<open>
  The session manager together with the coordinator: what happens in the coordinator to a configuration session when its user
  leaves, and that the list of sessions shows its holder. The interface of the coordinator is here the one of the
  program, \<open>tc_module_iface\<close>.
\<close>

section \<open>The holder of the configuration\<close>

text \<open>
  What the list of the sessions relies on: the coordinator answers with the holder of the configuration.
  The holder of a state is given by \<open>holder\<close>.
\<close>

locale config_service =
  fixes ti :: "'tc tc_iface" and holder :: "'tc \<Rightarrow> u32 option"
  assumes answers: "ti_config ti tc = Some ((r, sid, cid), tc') \<Longrightarrow> config_known r \<Longrightarrow>
      holder tc' = (if r = TC_API_COMMON_SUCCESS then Some sid else None)"
begin

lemma GetList_marks:
  assumes "GetList ti ss tc = Some (Inr infos, tc')" "\<And>p. p \<in> set (ss_table ss) \<Longrightarrow> si_config_status (snd p) = CONFIG_STATUS_NONE"
  shows "infos = map (\<lambda>p. if holder tc' = Some (si_id (snd p)) then (snd p)\<lparr>si_config_status := CONFIG_STATUS_TCLOCK\<rparr> else snd p)
    (ss_table ss)"
  using assms answers
  by (fastforce simp: GetList_def with_config_status_def bind_eq_Some_conv split: if_splits)

end

definition module_holder :: "TcModule \<Rightarrow> u32 option" where
  "module_holder m =
     (if GetUncCurrentState (tm_lock m) = TC_ACT \<and> cl_is_taken (tc_config_lock (tm_lock m))
      then Some (cl_session_id (tc_config_lock (tm_lock m))) else None)"

interpretation mod: config_service "tc_module_iface env" module_holder
  by unfold_locales
    (auto simp: tc_module_iface_def TcGetConfigSession_def mod_oper_def op_GetConfigIdSessionId_def
      GetConfigIdSessionId_def module_holder_def GetUncCurrentState_def config_known_def bind_eq_Some_conv Let_def
      split: if_splits prod.splits)

section \<open>Leaving\<close>

text \<open>The session runs a write operation.\<close>

definition writing :: "u32 \<Rightarrow> TcLock \<Rightarrow> bool" where
  "writing sid l \<longleftrightarrow> w_operation (tc_rwlock l) \<noteq> TC_WRITE_NONE \<and> w_session_id (tc_rwlock l) = sid"

lemma module_release_held:
  assumes "idle env" "lock_inv (tm_lock m)" "GetUncCurrentState (tm_lock m) = TC_ACT" "config_held sid cid (tm_lock m)"
  defines "own \<equiv> writing sid (tm_lock m)" and "wop \<equiv> w_operation (tc_rwlock (tm_lock m))"
  shows "\<exists>r m'. TcReleaseSession env sid m = Some (r, m') \<and>
    tm_lock m' = (if \<not> own then lock_released (tm_lock m)
                  else if needs_config wop then snd (TcMarkSessionId sid (tm_lock m)) else tm_lock m)"
proof -
  let ?l = "tm_lock m" and ?s = "\<lambda>m. TcOperations_new (tm_uninit m) (tm_lock m) (tm_stat m) (tm_hist m) None (tm_channels m)"
  have lock: "op_lock (TcOperations_new u l st h ss ch) = l" for u l st h ss ch by (simp add: TcOperations_new_def)
  have step: "\<exists>m1 s1. mod_oper id None (op_lock_step env f) m1' = Some ((fst (f (tm_lock m1')), s1), m1) \<and> tm_lock m1 = snd (f (tm_lock m1'))"
    for f :: "TcLock \<Rightarrow> 'b \<times> TcLock" and m1' :: TcModule
    using assms(1) by (auto simp: mod_oper_def op_lock_step_def lock Let_def split: prod.splits)
  have ask: "\<exists>m1. TcGetConfigSession env 0 0 m1' = Some ((TC_API_COMMON_SUCCESS, sid, cid), m1) \<and> tm_lock m1 = ?l"
    if "tm_lock m1' = ?l" for m1'
    using assms(1,3,4) that
    by (auto simp: TcGetConfigSession_def mod_oper_def op_GetConfigIdSessionId_def GetConfigIdSessionId_def config_held_def
        GetUncCurrentState_def lock Let_def split: prod.splits)
  obtain m1 s1 where 1: "mod_oper id None (op_lock_step env (\<lambda>l. (GetUncCurrentState l, l))) m = Some ((TC_ACT, s1), m1)"
    "tm_lock m1 = ?l" using step [of "\<lambda>l. (GetUncCurrentState l, l)" m] assms(3) by auto
  obtain m2 s2 where 2: "mod_oper id None (op_lock_step env (\<lambda>l. (GetSessionOperation sid l, l))) m1 =
      Some ((GetSessionOperation sid ?l, s2), m2)" "tm_lock m2 = ?l"
    using step [of "\<lambda>l. (GetSessionOperation sid l, l)" m1] 1(2) by auto
  obtain m3 s3 where 3: "mod_oper id None (op_lock_step env (TcMarkSessionId sid)) m2 =
      Some ((fst (TcMarkSessionId sid ?l), s3), m3)" "tm_lock m3 = snd (TcMarkSessionId sid ?l)"
    using step [of "TcMarkSessionId sid" m2] 2(2) by auto
  note start = TcReleaseSession_def 1(1) 2(1)
  show ?thesis
  proof (cases own)
    case True
    then have "isWriteHeld_by sid (tc_rwlock ?l)" "wop \<noteq> TC_WRITE_NONE"
      using lock_inv_writer_held [OF assms(2)] by (auto simp: own_def wop_def writing_def isWriteHeld_by_def)
    then have op: "GetSessionOperation sid ?l = progress_of wop"
      using assms(4) unfolding wop_def by (cases "w_operation (tc_rwlock ?l)")
        (auto simp: GetSessionOperation_def progress_of_def config_held_def Let_def)
    with True \<open>wop \<noteq> TC_WRITE_NONE\<close> show ?thesis
      using 2(2) 3 by (cases wop) (simp_all add: start progress_of_def needs_config_def)
  next
    case False
    then have op: "GetSessionOperation sid ?l = TC_CONFIG_NO_NOTIFY_PROGRESS"
      using assms(2,4)
      by (auto simp: GetSessionOperation_def own_def writing_def isWriteHeld_by_def config_held_def lock_inv_def config_ok_def Let_def)
    have "\<not> committing ?l"
      using False lock_inv_commit [OF assms(2)] assms(4) by (auto simp: committing_def own_def writing_def needs_config_def config_held_def)
    obtain m4 where 4: "TcGetConfigSession env 0 0 m2 = Some ((TC_API_COMMON_SUCCESS, sid, cid), m4)" "tm_lock m4 = ?l"
      using ask [OF 2(2)] by auto
    have "owp (release_config_for env sid cid (?s m4)) (\<lambda>r s'. op_lock s' = lock_released ?l)"
      using release_config_for_releases [OF assms(1), of sid cid "?s m4"] assms(4) \<open>\<not> committing ?l\<close> 4(2) by (simp add: lock)
    from twp_owp [OF release_config_for_returns this] obtain r s5 where
      5: "release_config_for env sid cid (?s m4) = Some (r, s5)" "op_lock s5 = lock_released ?l"
      unfolding twp_def by blast
    have "\<exists>m5. ReleaseConfigSession env m2 = Some (r, m5) \<and> tm_lock m5 = lock_released ?l"
      using 4 5 by (simp add: ReleaseConfigSession_def mod_oper_def)
    with False show ?thesis by (auto simp: start op)
  qed
qed


lemma GetList_error: "GetList ti ss tc = Some (Inl e, tc') \<Longrightarrow> e \<noteq> USESS_E_OK"
  by (auto simp: GetList_def bind_eq_Some_conv split: if_splits)

lemma add_outputs_all: "add_outputs uenv vs s = ((USESS_E_OK, out), s') \<Longrightarrow> out = vs \<and> us_tc s' = us_tc s"
proof (induction vs arbitrary: s out)
  case (Cons v vs)
  then obtain outs where "add_outputs uenv vs (tick s) = ((USESS_E_OK, outs), s')" "out = v # outs"
    by (auto split: if_splits prod.splits)
  with Cons.IH [of "tick s" outs] show ?case by (simp add: tick_def)
qed simp

text \<open>Session 5 holds the configuration and is deleted from the fixed session 128.\<close>

definition demo_manager :: "TcModule usess_env" where
  "demo_manager =
     \<lparr>ue_tc = tc_module_iface (demo_env good_env), ue_db = demo_mgmt, ue_libc = ue_libc demo_usess, ue_lock = (\<lambda>_. True),
      ue_clock = (\<lambda>_. (0, (0, 0))), ue_output = (\<lambda>_. True), ue_event_handler = (\<lambda>_. True), ue_between = (\<lambda>s. s)\<rparr>"

definition demo_holder :: "TcModule Usess" where
  "demo_holder =
     (Usess_new (demo_module\<lparr>tm_lock := demo_lock True [Release 5 0 TC_RELEASE_WRITE_SESSION TC_COMMIT]\<rparr>))
       \<lparr>us_sessions := UsessSessions_new\<lparr>ss_table :=
          [(5, \<lparr>si_id = 5, si_type = USESS_TYPE_CLI, si_mode = USESS_MODE_ENABLE, si_user_type = USER_TYPE_ADMIN,
                si_config_status = CONFIG_STATUS_NONE, si_login_name = ''root'', si_uname = ''admin'', si_ipaddr = 0,
                si_login_time = (0, 0), si_info = []\<rparr>)]\<rparr>\<rparr>"


text \<open>The list of the sessions shows who holds the configuration: when the request for the list succeeds, the
  answer has one entry for every session, in the order of the table, and exactly the session that holds the configuration
  session of the active coordinator is marked in it.\<close>

theorem session_list_shows_holder:
  assumes "table_ok (us_sessions s)" "ue_tc uenv = tc_module_iface env"
    "Usess_ipcService uenv (Some kUsessSessList) (Some (ReqSessId current)) s = Some ((USESS_E_OK, out), s')"
  shows "out = map (\<lambda>(k, si). OutInfo (si\<lparr>si_config_status :=
    if module_holder (us_tc s') = Some k then CONFIG_STATUS_TCLOCK else CONFIG_STATUS_NONE\<rparr>)) (ss_table (us_sessions s))"
proof -
  obtain r tc where r: "GetList (ue_tc uenv) (us_sessions s) (us_tc s) = Some (r, tc)"
    and rest: "(case r of Inl e \<Rightarrow> Some ((e, []), (tick s)\<lparr>us_tc := tc\<rparr>)
      | Inr infos \<Rightarrow> Some (add_outputs uenv (map OutInfo infos) ((tick s)\<lparr>us_tc := tc\<rparr>))) = Some ((USESS_E_OK, out), s')"
    using assms(3)
    by (auto simp: Usess_ipcService_def UsessSessListHandler_def with_lock_def Let_def bind_eq_Some_conv split: if_split_asm)
  then obtain infos where infos: "GetList (ue_tc uenv) (us_sessions s) (us_tc s) = Some (Inr infos, tc)"
    and out: "add_outputs uenv (map OutInfo infos) ((tick s)\<lparr>us_tc := tc\<rparr>) = ((USESS_E_OK, out), s')"
    by (cases r) (auto dest: GetList_error)
  have ok: "si_id si = k \<and> si_config_status si = CONFIG_STATUS_NONE" if "(k, si) \<in> set (ss_table (us_sessions s))" for k si
    using assms(1) that by (auto simp: table_ok_def session_ok_def)
  have "infos = map (\<lambda>p. if module_holder tc = Some (si_id (snd p)) then (snd p)\<lparr>si_config_status := CONFIG_STATUS_TCLOCK\<rparr> else snd p)
      (ss_table (us_sessions s))"
    using infos ok unfolding assms(2) by (intro mod.GetList_marks) auto
  moreover have "us_tc s' = tc" "out = map OutInfo infos"
    using add_outputs_all [OF out] by simp_all
  ultimately show ?thesis using ok by auto
qed

theorem session_list_shows_holder_witness:
  "\<exists>si s'. Usess_ipcService demo_manager (Some kUsessSessList) (Some (ReqSessId 5)) demo_holder = Some ((USESS_E_OK, [OutInfo si]), s') \<and>
    si_id si = 5 \<and> si_config_status si = CONFIG_STATUS_TCLOCK"
proof -
  let ?r = "Usess_ipcService demo_manager (Some kUsessSessList) (Some (ReqSessId 5)) demo_holder"
  have "map_option (\<lambda>((e, _), s'). (e, module_holder (us_tc s'))) ?r = Some (USESS_E_OK, Some 5)" "table_ok (us_sessions demo_holder)"
    by code_simp+
  then obtain out s' where run: "?r = Some ((USESS_E_OK, out), s')" and "module_holder (us_tc s') = Some 5" by auto
  moreover have "out = map (\<lambda>(k, si). OutInfo (si\<lparr>si_config_status :=
    if module_holder (us_tc s') = Some k then CONFIG_STATUS_TCLOCK else CONFIG_STATUS_NONE\<rparr>)) (ss_table (us_sessions demo_holder))"
    using session_list_shows_holder [OF \<open>table_ok (us_sessions demo_holder)\<close> _ run, of "demo_env good_env"]
    by (simp add: demo_manager_def)
  ultimately show ?thesis by (simp add: demo_holder_def)
qed

end
