(* ===== verification/UL_KeyTree.thy ===== *)
theory UL_KeyTree
  imports VTN_Prelude "HOL-Library.Multiset"
begin

text \<open>
  The tree of key types of UPLL (\<open>modules/upll/key_tree.cc\<close>). The nodes are linked by pointers, which are here positions in
  the list of the nodes, and the traversal climbs along them; it is shown to visit the tree in preorder, so that UPLL
  creates parents before their children and deletes them after them.
\<close>

section \<open>Nodes and the tree\<close>

record 'k KeyTreeNode =
  kn_key_type :: 'k
  kn_parent :: "nat option"
  kn_children :: "nat list"

text \<open>\<open>all_kt_map_\<close> may hold a null pointer for a key type: \<open>operator[]\<close> makes an entry when it finds none.\<close>

record 'k KeyTree =
  kt_nodes :: "'k KeyTreeNode list"
  kt_map :: "'k \<Rightarrow> nat option option"
  kt_preorder :: "'k list"
  kt_reverse_preorder :: "'k list"

definition KeyTree_new :: "'k \<Rightarrow> 'k KeyTree" where
  "KeyTree_new root =
     \<lparr>kt_nodes = [\<lparr>kn_key_type = root, kn_parent = None, kn_children = []\<rparr>], kt_map = (\<lambda>_. None)(root \<mapsto> Some 0),
      kt_preorder = [], kt_reverse_preorder = []\<rparr>"

definition GetNode :: "'k KeyTree \<Rightarrow> 'k \<Rightarrow> nat option" where
  "GetNode t key_type = (case kt_map t key_type of None \<Rightarrow> None | Some p \<Rightarrow> p)"

definition AddKeyType :: "'k KeyTree \<Rightarrow> 'k \<Rightarrow> 'k \<Rightarrow> bool \<times> 'k KeyTree" where
  "AddKeyType t parent child =
     (if GetNode t child \<noteq> None then (False, t)
      else let t = t\<lparr>kt_map := (kt_map t)(child \<mapsto> None)\<rparr>
           in case GetNode t parent of
                None \<Rightarrow> (False, t)
              | Some p \<Rightarrow>
                  let a = length (kt_nodes t); n = kt_nodes t ! p
                  in (True, t\<lparr>kt_nodes := (kt_nodes t)[p := n\<lparr>kn_children := kn_children n @ [a]\<rparr>] @
                                            [\<lparr>kn_key_type = child, kn_parent = Some p, kn_children = []\<rparr>],
                              kt_map := (kt_map t)(child \<mapsto> Some a)\<rparr>))"

definition IsValidKeyType :: "'k KeyTree \<Rightarrow> 'k \<Rightarrow> bool" where
  "IsValidKeyType t key_type \<longleftrightarrow> kt_map t key_type \<noteq> None"

definition GetFirstChild :: "'k KeyTree \<Rightarrow> 'k \<Rightarrow> 'k option" where
  "GetFirstChild t parent_kt =
     (case GetNode t parent_kt of
        None \<Rightarrow> None
      | Some p \<Rightarrow> (case kn_children (kt_nodes t ! p) of [] \<Rightarrow> None | c # _ \<Rightarrow> Some (kn_key_type (kt_nodes t ! c))))"

text \<open>The node behind the one with the given key type.\<close>

fun next_in :: "'k KeyTreeNode list \<Rightarrow> 'k \<Rightarrow> nat list \<Rightarrow> nat option" where
  "next_in ns key [] = None"
| "next_in ns key (c # cs) =
     (if kn_key_type (ns ! c) = key then (case cs of [] \<Rightarrow> None | c' # _ \<Rightarrow> Some c') else next_in ns key cs)"

definition GetNextSibling_node :: "'k KeyTree \<Rightarrow> nat option \<Rightarrow> nat option" where
  "GetNextSibling_node t node =
     (case node of
        None \<Rightarrow> None
      | Some a \<Rightarrow>
          (case kn_parent (kt_nodes t ! a) of
             None \<Rightarrow> None
           | Some p \<Rightarrow> next_in (kt_nodes t) (kn_key_type (kt_nodes t ! a)) (kn_children (kt_nodes t ! p))))"

definition GetNextSibling :: "'k KeyTree \<Rightarrow> 'k \<Rightarrow> 'k option" where
  "GetNextSibling t kt = map_option (\<lambda>a. kn_key_type (kt_nodes t ! a)) (GetNextSibling_node t (GetNode t kt))"

definition GetParent :: "'k KeyTree \<Rightarrow> 'k \<Rightarrow> 'k option" where
  "GetParent t kt =
     (case GetNode t kt of
        None \<Rightarrow> None
      | Some a \<Rightarrow> map_option (\<lambda>p. kn_key_type (kt_nodes t ! p)) (kn_parent (kt_nodes t ! a)))"

section \<open>The traversal\<close>

text \<open>The loop that looks for a sibling of the node, of its parent, and so on; it ends if the pointers to the parents do.\<close>

partial_function (option) climb :: "'k KeyTree \<Rightarrow> nat \<Rightarrow> nat option option" where
  "climb t a =
     (case GetNextSibling_node t (Some a) of
        Some s \<Rightarrow> Some (Some s)
      | None \<Rightarrow> (case kn_parent (kt_nodes t ! a) of None \<Rightarrow> Some None | Some p \<Rightarrow> climb t p))"

text \<open>One step of the iterator: the key type that it gives, if any, and its new position.\<close>

definition PreorderIterator_Next :: "'k KeyTree \<Rightarrow> nat option \<Rightarrow> ('k option \<times> nat option) option" where
  "PreorderIterator_Next t next_node =
     (case next_node of
        None \<Rightarrow> Some (None, None)
      | Some a \<Rightarrow>
          do { n \<leftarrow> (case kn_children (kt_nodes t ! a) of c # _ \<Rightarrow> Some (Some c) | [] \<Rightarrow> climb t a);
               Some (map_option (\<lambda>a. kn_key_type (kt_nodes t ! a)) n, n) })"

partial_function (option) prepare_loop :: "'k KeyTree \<Rightarrow> nat option \<Rightarrow> 'k list \<Rightarrow> 'k list \<Rightarrow> ('k list \<times> 'k list) option" where
  "prepare_loop t it pre_list rev_list =
     do { (k, it) \<leftarrow> PreorderIterator_Next t it;
          case k of
            None \<Rightarrow> Some (pre_list, rev_list)
          | Some k \<Rightarrow> prepare_loop t it (pre_list @ [k]) (k # rev_list) }"

definition PrepareOrderedList :: "'k KeyTree \<Rightarrow> 'k KeyTree option" where
  "PrepareOrderedList t =
     do { (pre_list, rev_list) \<leftarrow> prepare_loop t (Some 0) [] [];
          Some (t\<lparr>kt_preorder := pre_list, kt_reverse_preorder := rev_list\<rparr>) }"

section \<open>The abstract tree\<close>

datatype 'k ktree = KT 'k "'k ktree list"

fun pre :: "'k ktree \<Rightarrow> 'k list" where
  "pre (KT k ts) = k # concat (map pre ts)"

fun tree_add :: "'k \<Rightarrow> 'k \<Rightarrow> 'k ktree \<Rightarrow> 'k ktree" where
  "tree_add p c (KT k ts) = KT k (map (tree_add p c) ts @ (if k = p then [KT c []] else []))"

text \<open>A key type is added if its parent is there and it is not.\<close>

definition tree_step :: "'k \<times> 'k \<Rightarrow> 'k ktree \<Rightarrow> 'k ktree" where
  "tree_step pc t = (if fst pc \<in> set (pre t) \<and> snd pc \<notin> set (pre t) then tree_add (fst pc) (snd pc) t else t)"

definition add_step :: "'k \<times> 'k \<Rightarrow> 'k KeyTree \<Rightarrow> 'k KeyTree" where
  "add_step pc t = snd (AddKeyType t (fst pc) (snd pc))"

lemma replicate_mset_add: "replicate_mset (m + n) c = replicate_mset m c + replicate_mset n c"
  by (induction m) simp_all

lemma mset_pre_tree_add: "mset (pre (tree_add p c t)) = mset (pre t) + replicate_mset (count (mset (pre t)) p) c"
proof (induction p c t rule: tree_add.induct)
  case (1 p c k ts)
  have "mset (concat (map (pre \<circ> tree_add p c) us)) =
      mset (concat (map pre us)) + replicate_mset (count (mset (concat (map pre us))) p) c" if "set us \<subseteq> set ts" for us
    using that 1 by (induction us) (simp_all add: replicate_mset_add)
  from this [of ts] show ?case by (auto simp: map_map)
qed

lemma distinct_tree_add:
  assumes "distinct (pre t)" "c \<notin> set (pre t)"
  shows "distinct (pre (tree_add p c t))"
proof -
  have "count (mset (pre t)) p \<le> 1" using assms(1) by (simp add: distinct_count_atmost_1)
  then have "mset (pre (tree_add p c t)) = mset (pre t) \<or> mset (pre (tree_add p c t)) = mset (c # pre t)"
    unfolding mset_pre_tree_add by (cases "count (mset (pre t)) p") auto
  then show ?thesis using assms by (metis distinct.simps(2) mset_eq_imp_distinct_iff)
qed

lemma set_tree_add: "set (pre (tree_add p c t)) = set (pre t) \<union> (if p \<in> set (pre t) then {c} else {})"
proof -
  have "set (pre (tree_add p c t)) = set_mset (mset (pre t) + replicate_mset (count (mset (pre t)) p) c)"
    by (metis mset_pre_tree_add set_mset_mset)
  then show ?thesis by (auto simp: count_mset_0_iff)
qed

section \<open>Representation\<close>

fun rep :: "'k KeyTree \<Rightarrow> nat option \<Rightarrow> nat \<Rightarrow> 'k ktree \<Rightarrow> bool" and reps :: "'k KeyTree \<Rightarrow> nat option \<Rightarrow> nat list \<Rightarrow> 'k ktree list \<Rightarrow> bool" where
  "rep t par a (KT k ts) \<longleftrightarrow>
     a < length (kt_nodes t) \<and> kn_key_type (kt_nodes t ! a) = k \<and> kn_parent (kt_nodes t ! a) = par \<and>
     kt_map t k = Some (Some a) \<and> reps t (Some a) (kn_children (kt_nodes t ! a)) ts"
| "reps t par [] [] \<longleftrightarrow> True"
| "reps t par (c # cs) (u # us) \<longleftrightarrow> rep t par c u \<and> reps t par cs us"
| "reps t par [] (u # us) \<longleftrightarrow> False"
| "reps t par (c # cs) [] \<longleftrightarrow> False"

definition represents :: "'k KeyTree \<Rightarrow> 'k ktree \<Rightarrow> bool" where
  "represents t T \<longleftrightarrow>
     rep t None 0 T \<and> distinct (pre T) \<and>
     (\<forall>k a. kt_map t k = Some (Some a) \<longrightarrow> k \<in> set (pre T) \<and> a < length (kt_nodes t) \<and> kn_key_type (kt_nodes t ! a) = k)"

lemma represents_new: "represents (KeyTree_new r) (KT r [])"
  by (auto simp: represents_def KeyTree_new_def split: if_splits)

lemma reps_append: "length cs = length us \<Longrightarrow> reps t par (cs @ cs') (us @ us') \<longleftrightarrow> reps t par cs us \<and> reps t par cs' us'"
  by (induction cs us rule: list_induct2) auto

lemma reps_length: "reps t par cs us \<Longrightarrow> length cs = length us"
  by (induction us arbitrary: cs) (case_tac cs; simp)+

lemma rep_key: "rep t par a u \<Longrightarrow> kn_key_type (kt_nodes t ! a) = hd (pre u) \<and> kn_parent (kt_nodes t ! a) = par"
  by (cases u) simp

lemma hd_in_pre [simp]: "hd (pre u) \<in> set (pre u)"
  by (cases u) simp

lemma pre_Cons: "pre u = hd (pre u) # tl (pre u)"
  by (cases u) simp

lemma reps_keys: "reps t par cs us \<Longrightarrow> map (\<lambda>c. kn_key_type (kt_nodes t ! c)) cs = map (hd \<circ> pre) us"
proof (induction us arbitrary: cs)
  case (Cons u us)
  then show ?case by (cases cs) (auto simp: rep_key)
qed (case_tac cs; simp)

lemma distinct_roots: "distinct (concat (map pre us)) \<Longrightarrow> distinct (map (hd \<circ> pre) us)"
proof (induction us)
  case (Cons u us)
  have "hd (pre u) \<notin> (hd \<circ> pre) ` set us"
  proof
    assume "hd (pre u) \<in> (hd \<circ> pre) ` set us"
    then obtain v where v: "v \<in> set us" "hd (pre u) = hd (pre v)" by auto
    then have "hd (pre u) \<in> set (pre v)" by simp
    moreover have "set (pre u) \<inter> set (pre v) = {}" using Cons.prems v(1) by auto
    ultimately show False using hd_in_pre [of u] by blast
  qed
  then show ?case using Cons by simp
qed simp

lemma hd_pre_tree_add: "hd (pre (tree_add p c u)) = hd (pre u)"
  by (cases u) simp

section \<open>Adding a key type\<close>

definition added :: "'k KeyTree \<Rightarrow> nat \<Rightarrow> 'k \<Rightarrow> 'k KeyTree" where
  "added t p child =
     t\<lparr>kt_nodes := (kt_nodes t)[p := (kt_nodes t ! p)\<lparr>kn_children := kn_children (kt_nodes t ! p) @ [length (kt_nodes t)]\<rparr>] @
                    [\<lparr>kn_key_type = child, kn_parent = Some p, kn_children = []\<rparr>],
       kt_map := (kt_map t)(child \<mapsto> Some (length (kt_nodes t)))\<rparr>"

lemma AddKeyType_eq:
  "AddKeyType t parent child =
     (if GetNode t child \<noteq> None then (False, t)
      else if parent = child then (False, t\<lparr>kt_map := (kt_map t)(child \<mapsto> None)\<rparr>)
      else case GetNode t parent of
             None \<Rightarrow> (False, t\<lparr>kt_map := (kt_map t)(child \<mapsto> None)\<rparr>)
           | Some p \<Rightarrow> (True, added t p child))"
  by (simp add: AddKeyType_def GetNode_def added_def Let_def split: option.splits)

lemma rep_map_None:
  "rep t par a u \<Longrightarrow> c \<notin> set (pre u) \<Longrightarrow> rep (t\<lparr>kt_map := (kt_map t)(c \<mapsto> None)\<rparr>) par a u"
  "reps t par as us \<Longrightarrow> c \<notin> set (concat (map pre us)) \<Longrightarrow> reps (t\<lparr>kt_map := (kt_map t)(c \<mapsto> None)\<rparr>) par as us"
  by (induction t par a u and t par as us rule: rep_reps.induct) auto

lemma rep_added:
  assumes "kt_map t kp = Some (Some p)" "p < length (kt_nodes t)" "kn_key_type (kt_nodes t ! p) = kp"
  shows "rep t par a u \<Longrightarrow> c \<notin> set (pre u) \<Longrightarrow> rep (added t p c) par a (tree_add kp c u)"
    and "reps t par as us \<Longrightarrow> c \<notin> set (concat (map pre us)) \<Longrightarrow> reps (added t p c) par as (map (tree_add kp c) us)"
  using assms
proof (induction t par a u and t par as us rule: rep_reps.induct)
  case (1 t par a k ts)
  have "reps (added t p c) (Some a) (kn_children (kt_nodes t ! a)) (map (tree_add kp c) ts)"
    using 1 by simp
  then show ?case
    using 1(2-) by (auto simp: added_def nth_append nth_list_update reps_append dest: reps_length)
qed auto

lemma represents_GetNode: "represents t u \<Longrightarrow> GetNode t k \<noteq> None \<longleftrightarrow> k \<in> set (pre u)"
proof -
  have "k \<in> set (pre u) \<Longrightarrow> rep t par a u \<Longrightarrow> \<exists>b. kt_map t k = Some (Some b)"
    and "k \<in> set (concat (map pre us)) \<Longrightarrow> reps t par as us \<Longrightarrow> \<exists>b. kt_map t k = Some (Some b)" for par a as us
    by (induction t par a u and t par as us rule: rep_reps.induct) auto
  then show "represents t u \<Longrightarrow> GetNode t k \<noteq> None \<longleftrightarrow> k \<in> set (pre u)"
    unfolding represents_def GetNode_def by (fastforce split: option.splits)
qed

lemma add_step_represents:
  assumes "represents t u"
  shows "represents (add_step pc t) (tree_step pc u)"
proof (cases "fst pc \<in> set (pre u) \<and> snd pc \<notin> set (pre u)")
  case False
  then show ?thesis
    using assms rep_map_None(1) [of t None 0 u "snd pc"] represents_GetNode [OF assms, of "fst pc"]
      represents_GetNode [OF assms, of "snd pc"]
    by (auto simp: add_step_def tree_step_def AddKeyType_eq represents_def split: option.splits)
next
  case True
  then have "fst pc \<noteq> snd pc" by metis
  with True obtain p where p: "GetNode t (fst pc) = Some p" "GetNode t (snd pc) = None" "fst pc \<noteq> snd pc"
    using represents_GetNode [OF assms, of "fst pc"] represents_GetNode [OF assms, of "snd pc"] by auto
  then have m: "kt_map t (fst pc) = Some (Some p)" by (auto simp: GetNode_def split: option.splits)
  moreover from this have q: "p < length (kt_nodes t)" "kn_key_type (kt_nodes t ! p) = fst pc"
    using assms by (auto simp: represents_def)
  ultimately have "rep (added t p (snd pc)) None 0 (tree_add (fst pc) (snd pc) u)"
    using assms True by (intro rep_added(1)) (auto simp: represents_def)
  then show ?thesis
    using True p q assms unfolding represents_def add_step_def tree_step_def AddKeyType_eq
    by (auto simp: distinct_tree_add set_tree_add added_def nth_append nth_list_update less_Suc_eq split: if_splits)
qed

lemma fold_represents: "represents t u \<Longrightarrow> represents (fold add_step ps t) (fold tree_step ps u)"
  by (induction ps arbitrary: t u) (simp_all add: add_step_represents)

section \<open>The order of the traversal\<close>

text \<open>What the loop does once it has found the next node.\<close>

definition visit :: "'k KeyTree \<Rightarrow> nat option \<Rightarrow> 'k list \<Rightarrow> 'k list \<Rightarrow> ('k list \<times> 'k list) option" where
  "visit t n pl rl =
     (case n of
        None \<Rightarrow> Some (pl, rl)
      | Some b \<Rightarrow> prepare_loop t (Some b) (pl @ [kn_key_type (kt_nodes t ! b)]) (kn_key_type (kt_nodes t ! b) # rl))"

lemma visit_Some:
  "visit t (Some b) pl rl = prepare_loop t (Some b) (pl @ [kn_key_type (kt_nodes t ! b)]) (kn_key_type (kt_nodes t ! b) # rl)"
  by (simp add: visit_def)

definition first_or :: "nat list \<Rightarrow> nat option \<Rightarrow> nat option" where
  "first_or cs n = (case cs of [] \<Rightarrow> n | c # _ \<Rightarrow> Some c)"

lemma first_or_simps [simp]: "first_or [] n = n" "first_or (c # cs) n = Some c"
  by (simp_all add: first_or_def)

lemma prepare_loop_visit:
  "climb t a = Some n \<Longrightarrow> prepare_loop t (Some a) pl rl = visit t (first_or (kn_children (kt_nodes t ! a)) n) pl rl"
  by (subst prepare_loop.simps) (auto simp: PreorderIterator_Next_def visit_def split: list.splits option.splits)

lemma next_in_split:
  "distinct (map (\<lambda>c. kn_key_type (ns ! c)) (ds @ c # cs)) \<Longrightarrow> next_in ns (kn_key_type (ns ! c)) (ds @ c # cs) = first_or cs None"
  by (induction ds) (auto split: list.splits)

lemma climb_child:
  assumes "kn_parent (kt_nodes t ! c) = Some a" "kn_children (kt_nodes t ! a) = ds @ c # cs"
    "distinct (map (\<lambda>c. kn_key_type (kt_nodes t ! c)) (ds @ c # cs))" "climb t a = Some n"
  shows "climb t c = Some (first_or cs n)"
  using assms by (subst climb.simps) (cases cs; simp add: GetNextSibling_node_def next_in_split del: map_append)

lemma prepare_loop_pre:
  "rep t par a u \<Longrightarrow> distinct (pre u) \<Longrightarrow> climb t a = Some n \<Longrightarrow>
   prepare_loop t (Some a) pl rl = visit t n (pl @ tl (pre u)) (rev (tl (pre u)) @ rl)"
proof (induction u arbitrary: par a n pl rl)
  case (KT k ts)
  let ?cs = "kn_children (kt_nodes t ! a)"
  have d: "distinct (map (\<lambda>c. kn_key_type (kt_nodes t ! c)) ?cs)"
    using KT.prems distinct_roots [of ts] reps_keys [of t "Some a" ?cs ts] by simp
  have "visit t (first_or cs n) pl rl = visit t n (pl @ concat (map pre us)) (rev (concat (map pre us)) @ rl)"
    if "reps t (Some a) cs us" "?cs = ds @ cs" "set us \<subseteq> set ts" for ds cs us pl rl
    using that
  proof (induction us arbitrary: ds cs pl rl)
    case (Cons v us)
    then obtain c cs' where c: "cs = c # cs'" "rep t (Some a) c v" "reps t (Some a) cs' us" by (cases cs) auto
    then have cl: "climb t c = Some (first_or cs' n)"
      using climb_child [of t c a ds cs' n] Cons.prems d KT.prems(3) rep_key [OF c(2)] by simp
    have v: "distinct (pre v)" using Cons.prems(3) KT.prems(2) by (auto simp: distinct_concat_iff)
    have "visit t (first_or cs n) pl rl = visit t (first_or cs' n) (pl @ pre v) (rev (pre v) @ rl)"
      using KT.IH [OF _ c(2) v cl] Cons.prems(3) c(1) rep_key [OF c(2)] by (cases v) (simp add: visit_Some)
    then show ?case using Cons.IH [OF c(3), of "ds @ [c]"] Cons.prems c(1) by simp
  qed (case_tac cs; simp)
  from this [of ?cs ts "[]"] show ?case
    using KT.prems by (simp add: prepare_loop_visit)
qed

lemma prepared:
  assumes "represents t u"
  shows "PrepareOrderedList t = Some (t\<lparr>kt_preorder := tl (pre u), kt_reverse_preorder := rev (tl (pre u))\<rparr>)"
proof -
  from assms have r: "rep t None 0 u" "distinct (pre u)" by (auto simp: represents_def)
  have "climb t 0 = Some None"
    using rep_key [OF r(1)] by (subst climb.simps) (simp add: GetNextSibling_node_def)
  from prepare_loop_pre [OF r this, of "[]" "[]"] show ?thesis by (simp add: PrepareOrderedList_def visit_def)
qed

lemma parent_before:
  "rep t par a u \<Longrightarrow> pre u = xs @ k # ys \<Longrightarrow> xs \<noteq> [] \<Longrightarrow> \<exists>p\<in>set xs. GetParent t k = Some p"
proof (induction u arbitrary: par a xs ys)
  case (KT r ts)
  have "\<exists>p\<in>insert r (set xs). GetParent t k = Some p"
    if "reps t (Some a) cs us" "concat (map pre us) = xs @ k # ys" "set us \<subseteq> set ts" for cs us xs
    using that
  proof (induction us arbitrary: cs xs)
    case (Cons v us)
    then obtain c cs' where c: "cs = c # cs'" "rep t (Some a) c v" "reps t (Some a) cs' us" by (cases cs) auto
    consider zs where "pre v = xs @ k # zs" | zs where "xs = pre v @ zs" "concat (map pre us) = zs @ k # ys"
      using Cons.prems(2) by (auto simp: append_eq_append_conv2 append_eq_Cons_conv)
    then show ?case
    proof cases
      case 1
      then show ?thesis
        using KT.IH [OF _ c(2) 1] KT.prems(1) Cons.prems(3) c(2) by (cases v; cases xs) (auto simp: GetParent_def GetNode_def)
    next
      case 2
      then show ?thesis using Cons.IH [OF c(3) 2(2)] Cons.prems(3) by auto
    qed
  qed simp
  with KT.prems show ?case by (cases xs) (auto simp: image_iff)
qed

lemma GetParent_lists: "GetParent (t\<lparr>kt_preorder := pl, kt_reverse_preorder := rl\<rparr>) k = GetParent t k"
  by (simp add: GetParent_def GetNode_def map_option_case split: option.split)

section \<open>Results\<close>

text \<open>C35: the traversal of a tree of key types that was made by any sequence of calls of \<open>AddKeyType\<close> (those that fail
  included) ends, and gives all the key types but the root in the preorder of the abstract tree, to which the same
  additions were made; the second list is its reverse.
\<close>

theorem prepared_lists_are_preorder:
  "map_option (\<lambda>t. (kt_preorder t, kt_reverse_preorder t)) (PrepareOrderedList (fold add_step ps (KeyTree_new r))) =
   (let keys = tl (pre (fold tree_step ps (KT r []))) in Some (keys, rev keys))"
  by (simp add: prepared [OF fold_represents [OF represents_new]] Let_def)

text \<open>C36: in the list of the key types each comes behind its parent, unless that is the root, which is in no list. So UPLL,
  which goes through this list to create and through its reverse to delete, never handles a child without its parent.
\<close>

theorem parents_come_first:
  assumes "PrepareOrderedList (fold add_step ps (KeyTree_new r)) = Some t" "kt_preorder t = xs @ k # ys"
  shows "\<exists>p\<in>insert r (set xs). GetParent t k = Some p"
proof -
  let ?t = "fold add_step ps (KeyTree_new r)" and ?u = "fold tree_step ps (KT r [])"
  have u: "represents ?t ?u" by (rule fold_represents [OF represents_new])
  have h: "hd (pre ?u) = r" by (induction ps rule: rev_induct) (auto simp: tree_step_def hd_pre_tree_add)
  have "pre ?u = (r # xs) @ k # ys"
    using assms(2) assms(1) [unfolded prepared [OF u]] pre_Cons [of ?u] h by auto
  then have "\<exists>p\<in>set (r # xs). GetParent ?t k = Some p"
    using u by (intro parent_before) (auto simp: represents_def)
  moreover have "GetParent t k = GetParent ?t k"
    using assms(1) [unfolded prepared [OF u]] by (auto simp: GetParent_lists)
  ultimately show ?thesis by simp
qed

theorem parents_come_first_witness:
  "\<exists>t. PrepareOrderedList (fold add_step [(0, 1), (1, 2)] (KeyTree_new (0::nat))) = Some t \<and>
       kt_preorder t = [1] @ 2 # [] \<and> (\<exists>p\<in>insert 0 (set [1]). GetParent t 2 = Some p)"
proof -
  obtain t where t: "PrepareOrderedList (fold add_step [(0, 1), (1, 2)] (KeyTree_new (0::nat))) = Some t"
    "kt_preorder t = [1] @ 2 # []"
    unfolding prepared [OF fold_represents [OF represents_new]] by (simp add: tree_step_def)
  from parents_come_first [OF this] t show ?thesis by blast
qed

text \<open>A key type whose parent is missing is not added, but from then on it counts as valid.\<close>

lemma failed_add_is_valid:
  assumes "GetNode t p = None" "kt_map t c = None"
  shows "\<not> fst (AddKeyType t p c)" "GetNode (add_step (p, c) t) c = None" "IsValidKeyType (add_step (p, c) t) c"
    "\<not> IsValidKeyType t c"
  using assms by (auto simp: AddKeyType_eq add_step_def GetNode_def IsValidKeyType_def split: option.splits)

end
