(* ===== verification/UL_Build.thy ===== *)
theory UL_Build
  imports UL_KeyTree
begin

text \<open>
  The two trees of key types that \<open>BuildKeyTree\<close> of \<open>modules/upll/config_mgr.cc\<close> makes, one for the configuration and
  one for the import.
\<close>

section \<open>The trees of UPLL\<close>

datatype (plugins only: code) unc_key_type_t =
      UNC_KT_ROOT | UNC_KT_FLOWLIST | UNC_KT_FLOWLIST_ENTRY | UNC_KT_POLICING_PROFILE | UNC_KT_POLICING_PROFILE_ENTRY
  | UNC_KT_PATHMAP_ENTRY | UNC_KT_PATHMAP_CONTROLLER | UNC_KT_VTNSTATION_CONTROLLER | UNC_KT_VTN
  | UNC_KT_VTN_MAPPING_CONTROLLER | UNC_KT_VTN_DATAFLOW_CONTROLLER | UNC_KT_VBRIDGE | UNC_KT_VBR_VLANMAP
  | UNC_KT_VBR_NWMONITOR | UNC_KT_VBR_NWMONITOR_HOST | UNC_KT_VBR_POLICINGMAP | UNC_KT_VBR_POLICINGMAP_ENTRY
  | UNC_KT_VBR_FLOWFILTER | UNC_KT_VBR_FLOWFILTER_ENTRY | UNC_KT_VBR_IF | UNC_KT_IF_MACENTRY
  | UNC_KT_VBRIF_POLICINGMAP | UNC_KT_VBRIF_POLICINGMAP_ENTRY | UNC_KT_VBRIF_FLOWFILTER
  | UNC_KT_VBRIF_FLOWFILTER_ENTRY | UNC_KT_VROUTER | UNC_KT_VRT_IF | UNC_KT_VRTIF_FLOWFILTER
  | UNC_KT_VRTIF_FLOWFILTER_ENTRY | UNC_KT_VRT_IPROUTE | UNC_KT_DHCPRELAY_SERVER | UNC_KT_DHCPRELAY_IF
  | UNC_KT_IF_ARPENTRY | UNC_KT_VTERMINAL | UNC_KT_VTERM_IF | UNC_KT_VTERMIF_POLICINGMAP
  | UNC_KT_VTERMIF_POLICINGMAP_ENTRY | UNC_KT_VTERMIF_FLOWFILTER | UNC_KT_VTERMIF_FLOWFILTER_ENTRY | UNC_KT_VUNKNOWN
  | UNC_KT_VUNK_IF | UNC_KT_VTEP | UNC_KT_VTEP_IF | UNC_KT_VTEP_GRP | UNC_KT_VTEP_GRP_MEMBER | UNC_KT_VTUNNEL
  | UNC_KT_VTUNNEL_IF | UNC_KT_VLINK | UNC_KT_VTN_POLICINGMAP | UNC_KT_VTN_POLICINGMAP_CONTROLLER
  | UNC_KT_VTN_FLOWFILTER | UNC_KT_VTN_FLOWFILTER_ENTRY | UNC_KT_VTN_FLOWFILTER_CONTROLLER | UNC_KT_VTN_PATHMAP_ENTRY
  | UNC_KT_VTN_PATHMAP_CONTROLLER | UNC_KT_VTN_DATAFLOW | UNC_KT_CONTROLLER | UNC_KT_SWITCH | UNC_KT_PORT
  | UNC_KT_LINK | UNC_KT_CTR_DOMAIN | UNC_KT_LOGICAL_PORT | UNC_KT_LOGICAL_MEMBER_PORT | UNC_KT_BOUNDARY
  | UNC_KT_DATAFLOW | UNC_KT_CTR_DATAFLOW

text \<open>The calls of \<open>AddKeyType\<close>, in the order of the source; the first that fails ends the sequence.\<close>

fun add_keys :: "('k \<times> 'k) list \<Rightarrow> 'k KeyTree \<Rightarrow> bool \<times> 'k KeyTree" where
  "add_keys [] t = (True, t)"
| "add_keys ((p, c) # ps) t = (let (ok, t) = AddKeyType t p c in if ok then add_keys ps t else (False, t))"

definition cktt_keys :: "(unc_key_type_t \<times> unc_key_type_t) list" where
  "cktt_keys =
     [(UNC_KT_ROOT, UNC_KT_FLOWLIST), (UNC_KT_FLOWLIST, UNC_KT_FLOWLIST_ENTRY),
      (UNC_KT_ROOT, UNC_KT_POLICING_PROFILE), (UNC_KT_POLICING_PROFILE, UNC_KT_POLICING_PROFILE_ENTRY),
      (UNC_KT_ROOT, UNC_KT_VTN), (UNC_KT_VTN, UNC_KT_VBRIDGE), (UNC_KT_VBRIDGE, UNC_KT_VBR_VLANMAP),
      (UNC_KT_VBRIDGE, UNC_KT_VBR_NWMONITOR), (UNC_KT_VBR_NWMONITOR, UNC_KT_VBR_NWMONITOR_HOST),
      (UNC_KT_VBRIDGE, UNC_KT_VBR_POLICINGMAP), (UNC_KT_VBRIDGE, UNC_KT_VBR_FLOWFILTER),
      (UNC_KT_VBR_FLOWFILTER, UNC_KT_VBR_FLOWFILTER_ENTRY), (UNC_KT_VBRIDGE, UNC_KT_VBR_IF),
      (UNC_KT_VBR_IF, UNC_KT_VBRIF_POLICINGMAP), (UNC_KT_VBR_IF, UNC_KT_VBRIF_FLOWFILTER),
      (UNC_KT_VBRIF_FLOWFILTER, UNC_KT_VBRIF_FLOWFILTER_ENTRY), (UNC_KT_VTN, UNC_KT_VROUTER),
      (UNC_KT_VROUTER, UNC_KT_VRT_IF), (UNC_KT_VRT_IF, UNC_KT_VRTIF_FLOWFILTER),
      (UNC_KT_VRTIF_FLOWFILTER, UNC_KT_VRTIF_FLOWFILTER_ENTRY), (UNC_KT_VROUTER, UNC_KT_VRT_IPROUTE),
      (UNC_KT_VROUTER, UNC_KT_DHCPRELAY_SERVER), (UNC_KT_VROUTER, UNC_KT_DHCPRELAY_IF),
      (UNC_KT_VTN, UNC_KT_VTERMINAL), (UNC_KT_VTERMINAL, UNC_KT_VTERM_IF),
      (UNC_KT_VTERM_IF, UNC_KT_VTERMIF_POLICINGMAP), (UNC_KT_VTERM_IF, UNC_KT_VTERMIF_FLOWFILTER),
      (UNC_KT_VTERMIF_FLOWFILTER, UNC_KT_VTERMIF_FLOWFILTER_ENTRY), (UNC_KT_VTN, UNC_KT_VUNKNOWN),
      (UNC_KT_VUNKNOWN, UNC_KT_VUNK_IF), (UNC_KT_VTN, UNC_KT_VTEP), (UNC_KT_VTEP, UNC_KT_VTEP_IF),
      (UNC_KT_VTN, UNC_KT_VTEP_GRP), (UNC_KT_VTEP_GRP, UNC_KT_VTEP_GRP_MEMBER), (UNC_KT_VTN, UNC_KT_VTUNNEL),
      (UNC_KT_VTUNNEL, UNC_KT_VTUNNEL_IF), (UNC_KT_VTN, UNC_KT_VLINK), (UNC_KT_VTN, UNC_KT_VTN_POLICINGMAP),
      (UNC_KT_VTN, UNC_KT_VTN_FLOWFILTER), (UNC_KT_VTN_FLOWFILTER, UNC_KT_VTN_FLOWFILTER_ENTRY)]"

definition iktt_keys :: "(unc_key_type_t \<times> unc_key_type_t) list" where
  "iktt_keys =
     [(UNC_KT_ROOT, UNC_KT_FLOWLIST), (UNC_KT_ROOT, UNC_KT_POLICING_PROFILE), (UNC_KT_ROOT, UNC_KT_VTN),
      (UNC_KT_VTN, UNC_KT_VBRIDGE), (UNC_KT_VTN, UNC_KT_VROUTER), (UNC_KT_VTN, UNC_KT_VTERMINAL),
      (UNC_KT_VTN, UNC_KT_VLINK)]"

text \<open>The result is the two trees, or none when a key type could not be added.\<close>

definition BuildKeyTree :: "(unc_key_type_t KeyTree \<times> unc_key_type_t KeyTree) option option" where
  "BuildKeyTree =
     (let (ok, cktt) = add_keys cktt_keys (KeyTree_new UNC_KT_ROOT)
      in if \<not> ok then Some None
         else do { cktt \<leftarrow> PrepareOrderedList cktt;
                   let (ok, iktt) = add_keys iktt_keys (KeyTree_new UNC_KT_ROOT);
                   if \<not> ok then Some None
                   else do { iktt \<leftarrow> PrepareOrderedList iktt; Some (Some (cktt, iktt)) } })"

section \<open>The sequences of key types\<close>

text \<open>A sequence of additions succeeds if every parent is there, and every child is new, when its turn comes.\<close>

fun addable :: "('k \<times> 'k) list \<Rightarrow> 'k list \<Rightarrow> bool" where
  "addable [] ks \<longleftrightarrow> True"
| "addable ((p, c) # ps) ks \<longleftrightarrow> p \<in> set ks \<and> c \<notin> set ks \<and> addable ps (c # ks)"

lemma add_keys_addable:
  "represents t u \<Longrightarrow> set ks = set (pre u) \<Longrightarrow> addable ps ks \<Longrightarrow> add_keys ps t = (True, fold add_step ps t)"
proof (induction ps arbitrary: t u ks)
  case (Cons pc ps)
  obtain p c where pc: "pc = (p, c)" by (cases pc)
  with Cons.prems have k: "p \<in> set (pre u)" "c \<notin> set (pre u)" "addable ps (c # ks)" by auto
  then have "fst (AddKeyType t p c)"
    using represents_GetNode [OF Cons.prems(1), of p] represents_GetNode [OF Cons.prems(1), of c]
    by (auto simp: AddKeyType_eq split: option.splits)
  then have "AddKeyType t p c = (True, add_step pc t)" by (simp add: add_step_def pc prod_eq_iff)
  moreover have "set (c # ks) = set (pre (tree_step pc u))"
    using k Cons.prems(2) by (simp add: pc tree_step_def set_tree_add)
  ultimately show ?case
    using Cons.IH [OF add_step_represents [OF Cons.prems(1), of pc], of "c # ks"] k(3) by (simp add: pc)
qed simp

lemma cktt_addable: "addable cktt_keys [UNC_KT_ROOT]"
  by code_simp

lemma iktt_addable: "addable iktt_keys [UNC_KT_ROOT]"
  by code_simp

lemma cktt_preorder: "pre (fold tree_step cktt_keys (KT UNC_KT_ROOT [])) = UNC_KT_ROOT # map snd cktt_keys"
  by code_simp

lemma iktt_preorder: "pre (fold tree_step iktt_keys (KT UNC_KT_ROOT [])) = UNC_KT_ROOT # map snd iktt_keys"
  by code_simp

lemma new_tree_keys:
  assumes "addable ps [r]" "pre (fold tree_step ps (KT r [])) = r # map snd ps"
  shows "add_keys ps (KeyTree_new r) = (True, fold add_step ps (KeyTree_new r))"
    "PrepareOrderedList (fold add_step ps (KeyTree_new r)) =
       Some ((fold add_step ps (KeyTree_new r))\<lparr>kt_preorder := map snd ps, kt_reverse_preorder := rev (map snd ps)\<rparr>)"
  using add_keys_addable [OF represents_new, of "[r]" r ps] prepared [OF fold_represents [OF represents_new, of ps r]] assms
  by simp_all

text \<open>
  The construction of the two trees of key types succeeds, and the lists from which UPLL takes the order of its work
  are the key types in the very order in which the source adds them, and the reverse of that.
\<close>

theorem build_key_tree_lists:
  "map_option (map_option (map_prod (\<lambda>t. (kt_preorder t, kt_reverse_preorder t)) (\<lambda>t. (kt_preorder t, kt_reverse_preorder t)))) BuildKeyTree =
   Some (Some ((map snd cktt_keys, rev (map snd cktt_keys)), (map snd iktt_keys, rev (map snd iktt_keys))))"
  by (simp add: BuildKeyTree_def new_tree_keys [OF cktt_addable cktt_preorder] new_tree_keys [OF iktt_addable iktt_preorder])

end
