(* ===== verification/UL_Lock.thy ===== *)
theory UL_Lock
  imports VTN_Prelude
begin

text \<open>
  The locks of UPLL (\<open>modules/upll/config_lock.cc\<close> and its users in \<open>config_mgr.cc\<close>). Each configuration has a read/write lock;
  a request that needs several takes them in the order of the datatypes. The operations give the result of the
  source and the calls on the locks that they make, in their order; a system of threads that make such calls is shown to
  be free of deadlocks.
\<close>

section \<open>Datatypes and operations\<close>

datatype upll_keytype_datatype_t =
  UPLL_DT_INVALID | UPLL_DT_STATE | UPLL_DT_CANDIDATE | UPLL_DT_RUNNING | UPLL_DT_STARTUP | UPLL_DT_IMPORT | UPLL_DT_AUDIT

fun dt_value :: "upll_keytype_datatype_t \<Rightarrow> nat" where
  "dt_value UPLL_DT_INVALID = 0"
| "dt_value UPLL_DT_STATE = 1"
| "dt_value UPLL_DT_CANDIDATE = 2"
| "dt_value UPLL_DT_RUNNING = 3"
| "dt_value UPLL_DT_STARTUP = 4"
| "dt_value UPLL_DT_IMPORT = 5"
| "dt_value UPLL_DT_AUDIT = 1 + 2 + 3 + 4 + 5"

lemma dt_value_inject: "dt_value a = dt_value b \<longleftrightarrow> a = b"
  by (cases a; cases b) simp_all

instantiation upll_keytype_datatype_t :: linorder
begin

definition less_eq_upll_keytype_datatype_t :: "upll_keytype_datatype_t \<Rightarrow> upll_keytype_datatype_t \<Rightarrow> bool" where
  "a \<le> b \<longleftrightarrow> dt_value a \<le> dt_value b"

definition less_upll_keytype_datatype_t :: "upll_keytype_datatype_t \<Rightarrow> upll_keytype_datatype_t \<Rightarrow> bool" where
  "a < b \<longleftrightarrow> dt_value a < dt_value b"

instance
  by standard (auto simp: less_eq_upll_keytype_datatype_t_def less_upll_keytype_datatype_t_def dt_value_inject)

end

datatype unc_keytype_operation_t =
  UNC_OP_INVALID | UNC_OP_CREATE | UNC_OP_DELETE | UNC_OP_UPDATE | UNC_OP_CONTROL | UNC_OP_RENAME | UNC_OP_READ |
  UNC_OP_READ_NEXT | UNC_OP_READ_BULK | UNC_OP_READ_SIBLING | UNC_OP_READ_SIBLING_BEGIN | UNC_OP_READ_SIBLING_COUNT

datatype LockType = CFG_READ_LOCK | CFG_WRITE_LOCK

section \<open>The lock\<close>

text \<open>A call of \<open>rdlock\<close>, \<open>wrlock\<close> or \<open>unlock\<close> on one of the five locks, which is named by its datatype.\<close>

datatype lock_call = rdlock upll_keytype_datatype_t | wrlock upll_keytype_datatype_t | unlock upll_keytype_datatype_t

type_synonym locking = "bool \<times> lock_call list"

text \<open>The second operation follows if the first succeeds.\<close>

definition also_lock :: "locking \<Rightarrow> locking \<Rightarrow> locking" where
  "also_lock a b = (if fst a then (fst b, snd a @ snd b) else a)"

definition on_lock :: "(upll_keytype_datatype_t \<Rightarrow> lock_call) \<Rightarrow> upll_keytype_datatype_t \<Rightarrow> locking" where
  "on_lock call dt =
     (case dt of
        UPLL_DT_CANDIDATE \<Rightarrow> (True, [call dt])
      | UPLL_DT_RUNNING \<Rightarrow> (True, [call dt])
      | UPLL_DT_STARTUP \<Rightarrow> (True, [call dt])
      | UPLL_DT_IMPORT \<Rightarrow> (True, [call dt])
      | UPLL_DT_AUDIT \<Rightarrow> (True, [call dt])
      | _ \<Rightarrow> (False, []))"

definition ReadLock :: "upll_keytype_datatype_t \<Rightarrow> locking" where
  "ReadLock dt = on_lock rdlock dt"

definition WriteLock :: "upll_keytype_datatype_t \<Rightarrow> locking" where
  "WriteLock dt = on_lock wrlock dt"

definition Lock :: "upll_keytype_datatype_t \<Rightarrow> LockType \<Rightarrow> locking" where
  "Lock dt locktype = (if locktype = CFG_READ_LOCK then ReadLock dt else WriteLock dt)"

definition Unlock :: "upll_keytype_datatype_t \<Rightarrow> locking" where
  "Unlock dt = on_lock unlock dt"

definition Lock2 :: "upll_keytype_datatype_t \<Rightarrow> LockType \<Rightarrow> upll_keytype_datatype_t \<Rightarrow> LockType \<Rightarrow> locking" where
  "Lock2 dt1 locktype1 dt2 locktype2 =
     (if dt1 = dt2 then (False, [])
      else if dt1 < dt2 then also_lock (Lock dt1 locktype1) (Lock dt2 locktype2)
      else also_lock (Lock dt2 locktype2) (Lock dt1 locktype1))"

text \<open>Both locks are given back, even if one of them is refused.\<close>

definition Unlock2 :: "upll_keytype_datatype_t \<Rightarrow> upll_keytype_datatype_t \<Rightarrow> locking" where
  "Unlock2 dt1 dt2 =
     (if dt1 = dt2 then (False, [])
      else let (ret1, calls1) = Unlock (max dt1 dt2); (ret2, calls2) = Unlock (min dt1 dt2)
           in (ret1 \<and> ret2, calls1 @ calls2))"

definition Lock3 :: "upll_keytype_datatype_t \<Rightarrow> LockType \<Rightarrow> upll_keytype_datatype_t \<Rightarrow> LockType \<Rightarrow>
    upll_keytype_datatype_t \<Rightarrow> LockType \<Rightarrow> locking" where
  "Lock3 dt1 locktype1 dt2 locktype2 dt3 locktype3 =
     (let min_dt = min dt1 (min dt2 dt3)
      in if min_dt = dt1 then also_lock (Lock dt1 locktype1) (Lock2 dt2 locktype2 dt3 locktype3)
         else if min_dt = dt2 then also_lock (Lock dt2 locktype2) (Lock2 dt1 locktype1 dt3 locktype3)
         else also_lock (Lock dt3 locktype3) (Lock2 dt1 locktype1 dt2 locktype2))"

definition Unlock3 :: "upll_keytype_datatype_t \<Rightarrow> upll_keytype_datatype_t \<Rightarrow> upll_keytype_datatype_t \<Rightarrow> locking" where
  "Unlock3 dt1 dt2 dt3 =
     (let max_dt = max dt1 (max dt2 dt3)
      in if max_dt = dt1 then also_lock (Unlock dt1) (Unlock2 dt2 dt3)
         else if max_dt = dt2 then also_lock (Unlock dt2) (Unlock2 dt1 dt3)
         else also_lock (Unlock dt3) (Unlock2 dt1 dt2))"

text \<open>The map \<open>req\<close>, a list ordered by its keys, and the loops over it.\<close>

fun req_set :: "upll_keytype_datatype_t \<times> LockType \<Rightarrow> (upll_keytype_datatype_t \<times> LockType) list \<Rightarrow>
    (upll_keytype_datatype_t \<times> LockType) list" where
  "req_set e [] = [e]"
| "req_set e (x # xs) = (if fst e < fst x then e # x # xs else if fst e = fst x then e # xs else x # req_set e xs)"

fun lock_loop :: "(upll_keytype_datatype_t \<times> LockType) list \<Rightarrow> locking" where
  "lock_loop [] = (True, [])"
| "lock_loop (e # es) =
     (if UPLL_DT_INVALID \<noteq> fst e then also_lock (Lock (fst e) (snd e)) (lock_loop es) else lock_loop es)"

fun unlock_loop :: "(upll_keytype_datatype_t \<times> LockType) list \<Rightarrow> locking" where
  "unlock_loop [] = (True, [])"
| "unlock_loop (e # es) =
     (if UPLL_DT_INVALID \<noteq> fst e then also_lock (Unlock (fst e)) (unlock_loop es) else unlock_loop es)"

text \<open>The five datatypes of the source are the elements of a list here.\<close>

definition Lock5 :: "(upll_keytype_datatype_t \<times> LockType) list \<Rightarrow> locking" where
  "Lock5 dts = lock_loop (fold req_set dts [])"

definition Unlock5 :: "upll_keytype_datatype_t list \<Rightarrow> locking" where
  "Unlock5 dts = unlock_loop (rev (fold req_set (map (\<lambda>dt. (dt, CFG_READ_LOCK)) dts) []))"

text \<open>The results of \<open>Lock\<close> and \<open>Unlock\<close> are not looked at.\<close>

datatype ScopedConfigLock =
    Scoped1 upll_keytype_datatype_t LockType
  | Scoped2 upll_keytype_datatype_t LockType upll_keytype_datatype_t LockType
  | Scoped3 upll_keytype_datatype_t LockType upll_keytype_datatype_t LockType upll_keytype_datatype_t LockType
  | Scoped5 "(upll_keytype_datatype_t \<times> LockType) list"

fun ScopedConfigLock_new :: "ScopedConfigLock \<Rightarrow> lock_call list" where
  "ScopedConfigLock_new (Scoped1 dt locktype) = snd (Lock dt locktype)"
| "ScopedConfigLock_new (Scoped2 dt1 lt1 dt2 lt2) = snd (Lock2 dt1 lt1 dt2 lt2)"
| "ScopedConfigLock_new (Scoped3 dt1 lt1 dt2 lt2 dt3 lt3) = snd (Lock3 dt1 lt1 dt2 lt2 dt3 lt3)"
| "ScopedConfigLock_new (Scoped5 dts) = snd (Lock5 dts)"

fun ScopedConfigLock_delete :: "ScopedConfigLock \<Rightarrow> lock_call list" where
  "ScopedConfigLock_delete (Scoped1 dt locktype) = snd (Unlock dt)"
| "ScopedConfigLock_delete (Scoped2 dt1 lt1 dt2 lt2) = snd (Unlock2 dt1 dt2)"
| "ScopedConfigLock_delete (Scoped3 dt1 lt1 dt2 lt2 dt3 lt3) = snd (Unlock3 dt1 dt2 dt3)"
| "ScopedConfigLock_delete (Scoped5 dts) = snd (Unlock5 (map fst dts))"

section \<open>The locks of a request\<close>

text \<open>The first lock, and the second if \<open>lck_dt_2\<close> is not left invalid.\<close>

definition FindRequiredLocks :: "unc_keytype_operation_t \<Rightarrow> upll_keytype_datatype_t \<Rightarrow>
    ((upll_keytype_datatype_t \<times> LockType) \<times> (upll_keytype_datatype_t \<times> LockType) option) option" where
  "FindRequiredLocks oper datatype =
     (if oper \<in> {UNC_OP_READ, UNC_OP_READ_NEXT, UNC_OP_READ_BULK, UNC_OP_READ_SIBLING, UNC_OP_READ_SIBLING_BEGIN,
                 UNC_OP_READ_SIBLING_COUNT}
      then (if datatype = UPLL_DT_AUDIT then None else Some ((datatype, CFG_READ_LOCK), None))
      else if oper \<in> {UNC_OP_CREATE, UNC_OP_UPDATE, UNC_OP_DELETE}
      then (if datatype = UPLL_DT_CANDIDATE
            then Some ((UPLL_DT_CANDIDATE, CFG_WRITE_LOCK), Some (UPLL_DT_RUNNING, CFG_READ_LOCK))
            else if datatype = UPLL_DT_IMPORT
            then Some ((UPLL_DT_IMPORT, CFG_WRITE_LOCK), Some (UPLL_DT_RUNNING, CFG_READ_LOCK))
            else if datatype = UPLL_DT_AUDIT
            then Some ((UPLL_DT_AUDIT, CFG_WRITE_LOCK), Some (UPLL_DT_RUNNING, CFG_READ_LOCK))
            else None)
      else if oper = UNC_OP_RENAME
      then (if datatype = UPLL_DT_IMPORT
            then Some ((UPLL_DT_IMPORT, CFG_WRITE_LOCK), Some (UPLL_DT_CANDIDATE, CFG_READ_LOCK)) else None)
      else if oper = UNC_OP_CONTROL
      then (if datatype = UPLL_DT_RUNNING then Some ((datatype, CFG_READ_LOCK), None) else None)
      else None)"

definition TakeConfigLock :: "unc_keytype_operation_t \<Rightarrow> upll_keytype_datatype_t \<Rightarrow> locking" where
  "TakeConfigLock oper datatype =
     (let datatype = (if datatype = UPLL_DT_STATE then UPLL_DT_RUNNING else datatype)
      in case FindRequiredLocks oper datatype of
           None \<Rightarrow> (False, [])
         | Some ((dt1, lt1), None) \<Rightarrow> Lock dt1 lt1
         | Some ((dt1, lt1), Some (dt2, lt2)) \<Rightarrow> Lock2 dt1 lt1 dt2 lt2)"

definition ReleaseConfigLock_upll :: "unc_keytype_operation_t \<Rightarrow> upll_keytype_datatype_t \<Rightarrow> locking" where
  "ReleaseConfigLock_upll oper datatype =
     (let datatype = (if datatype = UPLL_DT_STATE then UPLL_DT_RUNNING else datatype)
      in case FindRequiredLocks oper datatype of
           None \<Rightarrow> (False, [])
         | Some ((dt1, lt1), None) \<Rightarrow> Unlock dt1
         | Some ((dt1, lt1), Some (dt2, lt2)) \<Rightarrow> Unlock2 dt1 dt2)"

text \<open>The bulk read takes the lock of its datatype a second time.\<close>

definition ReadBulkMo_locks :: "upll_keytype_datatype_t \<Rightarrow> lock_call list" where
  "ReadBulkMo_locks datatype =
     (if datatype \<in> {UPLL_DT_CANDIDATE, UPLL_DT_RUNNING, UPLL_DT_STARTUP, UPLL_DT_IMPORT}
      then let lock = Scoped1 datatype CFG_READ_LOCK in ScopedConfigLock_new lock @ ScopedConfigLock_delete lock
      else [])"

text \<open>The calls of a request on the key tree, from the first lock to the last unlock.\<close>

definition kt_request :: "unc_keytype_operation_t \<Rightarrow> upll_keytype_datatype_t \<Rightarrow> lock_call list" where
  "kt_request oper datatype =
     (let (ok, calls) = TakeConfigLock oper datatype
      in if \<not> ok then calls
         else calls @ (if oper \<in> {UNC_OP_READ_NEXT, UNC_OP_READ_BULK} then ReadBulkMo_locks datatype else []) @
              snd (ReleaseConfigLock_upll oper datatype))"

section \<open>Threads\<close>

text \<open>
  A thread has the locks that it holds and the calls that are still to be made. \<open>pref\<close> says whether a waiting writer keeps
  readers out: POSIX leaves this to the implementation. A thread may be about to make a call without waiting in it yet, so that
  a step is possible whenever it is without this preference; but what has to be possible in a deadlock-free system is a step with it.
\<close>

type_synonym held = "(upll_keytype_datatype_t \<times> LockType) list"
type_synonym threads = "(held \<times> lock_call list) list"

definition holds :: "threads \<Rightarrow> upll_keytype_datatype_t \<Rightarrow> LockType \<Rightarrow> bool" where
  "holds ths d lt \<longleftrightarrow> (\<exists>th\<in>set ths. (d, lt) \<in> set (fst th))"

definition waiting_writer :: "threads \<Rightarrow> upll_keytype_datatype_t \<Rightarrow> bool" where
  "waiting_writer ths d \<longleftrightarrow> (\<exists>th\<in>set ths. snd th \<noteq> [] \<and> hd (snd th) = wrlock d)"

fun enabled :: "bool \<Rightarrow> threads \<Rightarrow> lock_call \<Rightarrow> bool" where
  "enabled pref ths (rdlock d) \<longleftrightarrow> \<not> holds ths d CFG_WRITE_LOCK \<and> \<not> (pref \<and> waiting_writer ths d)"
| "enabled pref ths (wrlock d) \<longleftrightarrow> \<not> holds ths d CFG_READ_LOCK \<and> \<not> holds ths d CFG_WRITE_LOCK"
| "enabled pref ths (unlock d) \<longleftrightarrow> True"

fun drop_lock :: "upll_keytype_datatype_t \<Rightarrow> held \<Rightarrow> held" where
  "drop_lock d [] = []"
| "drop_lock d (e # es) = (if fst e = d then es else e # drop_lock d es)"

fun done_call :: "lock_call \<Rightarrow> held \<Rightarrow> held" where
  "done_call (rdlock d) hs = (d, CFG_READ_LOCK) # hs"
| "done_call (wrlock d) hs = (d, CFG_WRITE_LOCK) # hs"
| "done_call (unlock d) hs = drop_lock d hs"

inductive config_lock_step :: "threads \<Rightarrow> threads \<Rightarrow> bool" where
  call: "i < length ths \<Longrightarrow> ths ! i = (hs, c # cs) \<Longrightarrow> enabled False ths c \<Longrightarrow> config_lock_step ths (ths[i := (done_call c hs, cs)])"

inductive_cases config_lock_stepE: "config_lock_step ths ths'"

definition deadlocked :: "bool \<Rightarrow> threads \<Rightarrow> bool" where
  "deadlocked pref ths \<longleftrightarrow>
     (\<exists>th\<in>set ths. snd th \<noteq> []) \<and> (\<forall>th\<in>set ths. snd th \<noteq> [] \<longrightarrow> \<not> enabled pref ths (hd (snd th)))"

text \<open>
  The discipline: a lock is taken only above all that are held, except that a read lock may be taken again where
  waiting writers do not matter; only locks that are held are given back, and at the end there are none.
\<close>

fun disciplined :: "bool \<Rightarrow> held \<Rightarrow> lock_call list \<Rightarrow> bool" where
  "disciplined pref hs [] \<longleftrightarrow> hs = []"
| "disciplined pref hs (rdlock d # cs) \<longleftrightarrow>
     ((\<forall>e\<in>set hs. fst e < d) \<or> \<not> pref \<and> (d, CFG_READ_LOCK) \<in> set hs) \<and> disciplined pref ((d, CFG_READ_LOCK) # hs) cs"
| "disciplined pref hs (wrlock d # cs) \<longleftrightarrow> (\<forall>e\<in>set hs. fst e < d) \<and> disciplined pref ((d, CFG_WRITE_LOCK) # hs) cs"
| "disciplined pref hs (unlock d # cs) \<longleftrightarrow> d \<in> fst ` set hs \<and> disciplined pref (drop_lock d hs) cs"

definition config_locks_inv :: "bool \<Rightarrow> threads \<Rightarrow> bool" where
  "config_locks_inv pref ths \<longleftrightarrow>
     (\<forall>th\<in>set ths. disciplined pref (fst th) (snd th)) \<and> (\<forall>d. \<not> (holds ths d CFG_READ_LOCK \<and> holds ths d CFG_WRITE_LOCK))"

lemma set_drop_lock: "set (drop_lock d hs) \<subseteq> set hs"
  by (induction hs) auto

lemma disciplined_step: "disciplined pref hs (c # cs) \<Longrightarrow> disciplined pref (done_call c hs) cs"
  by (cases c) auto

lemma holds_update:
  "i < length ths \<Longrightarrow> ths ! i = (hs, cs) \<Longrightarrow> holds (ths[i := (hs', cs')]) d lt \<Longrightarrow> (d, lt) \<in> set hs' \<or> holds ths d lt"
  unfolding holds_def by (auto dest: set_update_subset_insert [THEN subsetD])

lemma config_locks_inv_step:
  assumes "config_lock_step ths ths'" "config_locks_inv pref ths"
  shows "config_locks_inv pref ths'"
  using assms(1)
proof (rule config_lock_stepE)
  fix i hs c cs
  assume a: "ths' = ths[i := (done_call c hs, cs)]" "i < length ths" "ths ! i = (hs, c # cs)" "enabled False ths c"
  then have m: "(hs, c # cs) \<in> set ths" by (metis nth_mem)
  then have "disciplined pref (done_call c hs) cs" using assms(2) disciplined_step by (fastforce simp: config_locks_inv_def)
  then have 1: "\<forall>th\<in>set ths'. disciplined pref (fst th) (snd th)"
    using assms(2) a(1) by (auto simp: config_locks_inv_def dest!: set_update_subset_insert [THEN subsetD])
  have u: "(d, lt) \<in> set (done_call c hs) \<or> holds ths d lt" if "holds ths' d lt" for d lt
    using holds_update [OF a(2,3)] that a(1) by blast
  have h: "holds ths d lt" if "(d, lt) \<in> set hs" for d lt using m that unfolding holds_def by force
  have "\<not> (holds ths' d CFG_READ_LOCK \<and> holds ths' d CFG_WRITE_LOCK)" for d
    using u [of d CFG_READ_LOCK] u [of d CFG_WRITE_LOCK] h a(4) assms(2) set_drop_lock
    unfolding config_locks_inv_def by (cases c) (auto, blast+)
  with 1 show ?thesis by (simp add: config_locks_inv_def)
qed

text \<open>The lock for which a call waits.\<close>

fun wanted :: "lock_call \<Rightarrow> upll_keytype_datatype_t option" where
  "wanted (rdlock d) = Some d"
| "wanted (wrlock d) = Some d"
| "wanted (unlock d) = None"

text \<open>If no thread can go on, a thread that holds a lock waits for a higher one.\<close>

lemma stuck_holder:
  assumes "config_locks_inv pref ths" "deadlocked pref ths" "(hs, cs) \<in> set ths" "(d, lt) \<in> set hs"
  shows "\<exists>c cs' d'. cs = c # cs' \<and> wanted c = Some d' \<and> d < d'"
proof -
  have disc: "disciplined pref hs cs" using assms(1,3) by (force simp: config_locks_inv_def)
  then obtain c cs' where c: "cs = c # cs'" using assms(4) by (cases cs) auto
  then have "\<not> enabled pref ths c" using assms(2,3) by (force simp: deadlocked_def)
  moreover have "holds ths d' CFG_READ_LOCK" if "(d', CFG_READ_LOCK) \<in> set hs" for d'
    using that assms(3) unfolding holds_def by force
  ultimately show ?thesis
    using disc c assms(1,4) unfolding config_locks_inv_def by (cases c) auto
qed

lemma never_deadlocked:
  assumes "config_locks_inv pref ths"
  shows "\<not> deadlocked pref ths"
proof
  assume stuck: "deadlocked pref ths"
  then have dis: "\<not> enabled pref ths c" if "(hs, c # cs) \<in> set ths" for hs c cs using that by (force simp: deadlocked_def)
  obtain th where th: "th \<in> set ths" "snd th \<noteq> []" using stuck by (auto simp: deadlocked_def)
  define W where "W = {d. \<exists>hs c cs. (hs, c # cs) \<in> set ths \<and> wanted c = Some d}"
  obtain hs c cs where c: "th = (hs, c # cs)" using th(2) by (cases th; cases "snd th") auto
  have "wanted c \<noteq> None" using dis [of hs c cs] th(1) c by (cases c) auto
  then have "W \<noteq> {}" using th(1) c unfolding W_def by auto
  moreover have "finite W"
    by (rule finite_subset [of _ "(\<lambda>th. the (wanted (hd (snd th)))) ` set ths"]) (force simp: W_def image_iff)+
  ultimately obtain d where d: "d \<in> W" "\<And>d'. d' \<in> W \<Longrightarrow> d' \<le> d" by (meson Max_ge Max_in)
  have free: "\<not> holds ths d lt" for lt
  proof
    assume "holds ths d lt"
    then obtain hs cs where "(hs, cs) \<in> set ths" "(d, lt) \<in> set hs" unfolding holds_def by auto
    from stuck_holder [OF assms stuck this] this(1) obtain d' where "d' \<in> W" "d < d'" unfolding W_def by auto
    with d(2) show False by (meson leD)
  qed
  have no_writer: "(hs, wrlock d # cs) \<notin> set ths" for hs cs using dis [of hs "wrlock d" cs] free by auto
  then have "\<not> waiting_writer ths d" unfolding waiting_writer_def by (auto simp: neq_Nil_conv)
  from d(1) obtain hs c cs where c: "(hs, c # cs) \<in> set ths" "wanted c = Some d" unfolding W_def by auto
  with no_writer free \<open>\<not> waiting_writer ths d\<close> dis [OF c(1)] show False by (cases c) auto
qed

lemma config_locks_inv_reach: "config_lock_step\<^sup>*\<^sup>* ths ths' \<Longrightarrow> config_locks_inv pref ths \<Longrightarrow> config_locks_inv pref ths'"
  by (induction rule: rtranclp_induct) (auto intro: config_locks_inv_step)

lemma config_locks_inv_init: "(\<And>cs. cs \<in> set css \<Longrightarrow> disciplined pref [] cs) \<Longrightarrow> config_locks_inv pref (map (Pair []) css)"
  by (auto simp: config_locks_inv_def holds_def)

section \<open>The calls of UPLL\<close>

text \<open>The sections in which UPLL holds locks.\<close>

datatype section_kind = Request unc_keytype_operation_t upll_keytype_datatype_t | Scope ScopedConfigLock

fun section_calls :: "section_kind \<Rightarrow> lock_call list" where
  "section_calls (Request oper datatype) = kt_request oper datatype"
| "section_calls (Scope lock) = ScopedConfigLock_new lock @ ScopedConfigLock_delete lock"

definition lockable :: "upll_keytype_datatype_t \<Rightarrow> bool" where
  "lockable dt \<longleftrightarrow> dt \<notin> {UPLL_DT_INVALID, UPLL_DT_STATE}"

text \<open>
  The datatypes of a scoped lock differ and have a lock; in the longest form they may also be repeated or invalid. Bulk reads
  are left out if waiting writers keep readers out.
\<close>

fun proper :: "bool \<Rightarrow> section_kind \<Rightarrow> bool" where
  "proper pref (Request oper datatype) \<longleftrightarrow> \<not> (pref \<and> oper \<in> {UNC_OP_READ_NEXT, UNC_OP_READ_BULK})"
| "proper pref (Scope (Scoped1 dt lt)) \<longleftrightarrow> True"
| "proper pref (Scope (Scoped2 dt1 lt1 dt2 lt2)) \<longleftrightarrow> lockable dt1 \<and> lockable dt2"
| "proper pref (Scope (Scoped3 dt1 lt1 dt2 lt2 dt3 lt3)) \<longleftrightarrow>
     lockable dt1 \<and> lockable dt2 \<and> lockable dt3 \<and> distinct [dt1, dt2, dt3]"
| "proper pref (Scope (Scoped5 dts)) \<longleftrightarrow> UPLL_DT_STATE \<notin> fst ` set dts"

lemma on_lock_eq: "on_lock call dt = (if lockable dt then (True, [call dt]) else (False, []))"
  by (cases dt) (simp_all add: on_lock_def lockable_def)

lemma disciplined_append: "disciplined pref hs xs \<Longrightarrow> disciplined pref [] ys \<Longrightarrow> disciplined pref hs (xs @ ys)"
  by (induction pref hs xs rule: disciplined.induct) auto

lemmas lock_simps = on_lock_eq also_lock_def ReadLock_def WriteLock_def Lock_def Unlock_def

lemma request_disciplined: "proper pref (Request oper dt) \<Longrightarrow> disciplined pref [] (kt_request oper dt)"
  by (cases oper; cases dt)
    (auto simp: kt_request_def TakeConfigLock_def ReleaseConfigLock_upll_def FindRequiredLocks_def ReadBulkMo_locks_def Lock2_def
      Unlock2_def lock_simps lockable_def less_upll_keytype_datatype_t_def less_eq_upll_keytype_datatype_t_def max_def min_def)

lemma scoped2_disciplined: "proper pref (Scope (Scoped2 dt1 lt1 dt2 lt2)) \<Longrightarrow> disciplined pref [] (section_calls (Scope (Scoped2 dt1 lt1 dt2 lt2)))"
  by (auto simp: Lock2_def Unlock2_def lock_simps max_def min_def)

lemma scoped3_disciplined:
  "proper pref (Scope (Scoped3 dt1 lt1 dt2 lt2 dt3 lt3)) \<Longrightarrow> disciplined pref [] (section_calls (Scope (Scoped3 dt1 lt1 dt2 lt2 dt3 lt3)))"
  by (cases dt1 dt2 rule: linorder_cases; cases dt1 dt3 rule: linorder_cases; cases dt2 dt3 rule: linorder_cases)
    (auto simp: Lock3_def Unlock3_def Lock2_def Unlock2_def lock_simps max_def min_def)

definition acquire :: "upll_keytype_datatype_t \<times> LockType \<Rightarrow> lock_call" where
  "acquire e = (if snd e = CFG_READ_LOCK then rdlock (fst e) else wrlock (fst e))"

lemma disciplined_acquire: "disciplined pref (e # hs) cs \<Longrightarrow> \<forall>x\<in>set hs. fst x < fst e \<Longrightarrow> disciplined pref hs (acquire e # cs)"
  by (cases e; cases "snd e") (auto simp: acquire_def)

lemma disciplined_acquires:
  "sorted_wrt (<) (map fst es) \<Longrightarrow> \<forall>x\<in>set hs. \<forall>e\<in>set es. fst x < fst e \<Longrightarrow> disciplined pref (rev es @ hs) cs \<Longrightarrow>
   disciplined pref hs (map acquire es @ cs)"
  by (induction es arbitrary: hs) (auto intro!: disciplined_acquire)

lemma disciplined_releases: "disciplined pref hs (map (unlock \<circ> fst) hs)"
  by (induction hs) auto

lemma req_set_sorted: "sorted_wrt (<) (map fst es) \<Longrightarrow> sorted_wrt (<) (map fst (req_set e es))"
  and req_set_keys: "fst ` set (req_set e es) = insert (fst e) (fst ` set es)"
proof -
  show keys: "fst ` set (req_set e es) = insert (fst e) (fst ` set es)" for es by (induction es) auto
  show "sorted_wrt (<) (map fst es) \<Longrightarrow> sorted_wrt (<) (map fst (req_set e es))"
  proof (induction es)
    case (Cons x xs)
    have "fst x < d" if "d \<in> fst ` set (req_set e xs)" "\<not> fst e < fst x" "fst e \<noteq> fst x" for d
      using that Cons.prems by (auto simp: keys)
    with Cons show ?case by fastforce
  qed simp
qed

lemma req_set_map_keys: "map fst es = map fst es' \<Longrightarrow> map fst (req_set (d, a) es) = map fst (req_set (d, b) es')"
  by (induction es es' rule: list_induct2') auto

lemma lock_loop_calls:
  "UPLL_DT_STATE \<notin> fst ` set es \<Longrightarrow> lock_loop es = (True, map acquire (filter (\<lambda>e. UPLL_DT_INVALID \<noteq> fst e) es))"
  by (induction es) (auto simp: lock_simps lockable_def acquire_def)

lemma unlock_loop_calls:
  "UPLL_DT_STATE \<notin> fst ` set es \<Longrightarrow> unlock_loop es = (True, map unlock (filter (\<lambda>d. UPLL_DT_INVALID \<noteq> d) (map fst es)))"
  by (induction es) (auto simp: lock_simps lockable_def)

lemma fold_req_set:
  "sorted_wrt (<) (map fst es) \<Longrightarrow> map fst es = map fst es' \<Longrightarrow>
   sorted_wrt (<) (map fst (fold req_set dts es)) \<and> fst ` set (fold req_set dts es) = fst ` set dts \<union> fst ` set es \<and>
   map fst (fold req_set (map (\<lambda>dt. (dt, CFG_READ_LOCK)) (map fst dts)) es') = map fst (fold req_set dts es)"
proof (induction dts arbitrary: es es')
  case (Cons e dts)
  have "map fst (req_set e es) = map fst (req_set (fst e, CFG_READ_LOCK) es')"
    using req_set_map_keys [OF Cons.prems(2), of "fst e" "snd e" CFG_READ_LOCK] by simp
  from Cons.IH [OF req_set_sorted [OF Cons.prems(1)] this] show ?case by (simp add: req_set_keys)
qed simp

lemma scoped5_disciplined: "proper pref (Scope (Scoped5 dts)) \<Longrightarrow> disciplined pref [] (section_calls (Scope (Scoped5 dts)))"
proof -
  assume "proper pref (Scope (Scoped5 dts))"
  then have st: "UPLL_DT_STATE \<notin> fst ` set dts" by simp
  let ?es = "fold req_set dts []" and ?us = "fold req_set (map (\<lambda>dt. (dt, CFG_READ_LOCK)) (map fst dts)) []"
  let ?fs = "filter (\<lambda>e. UPLL_DT_INVALID \<noteq> fst e) ?es"
  note f = fold_req_set [of "[]" "[]" dts, simplified]
  have es: "sorted_wrt (<) (map fst ?es)" "UPLL_DT_STATE \<notin> fst ` set ?es" using f st by auto
  have us: "map fst ?us = map fst ?es" using f by simp
  then have "set (map fst ?us) = set (map fst ?es)" by (rule arg_cong)
  then have "UPLL_DT_STATE \<notin> fst ` set (rev ?us)" using es(2) by simp
  from unlock_loop_calls [OF this]
  have "snd (Unlock5 (map fst dts)) = map unlock (filter (\<lambda>d. UPLL_DT_INVALID \<noteq> d) (rev (map fst ?us)))"
    by (simp add: Unlock5_def rev_map)
  also have "rev (map fst ?us) = rev (map fst ?es)" by (simp only: us)
  also have "map unlock (filter (\<lambda>d. UPLL_DT_INVALID \<noteq> d) (rev (map fst ?es))) = map (unlock \<circ> fst) (rev ?fs)"
    unfolding rev_map filter_map rev_filter map_map by (simp add: o_def)
  finally have u: "snd (Unlock5 (map fst dts)) = map (unlock \<circ> fst) (rev ?fs)" .
  have "sorted_wrt (<) (map fst ?fs)" using es(1) by (simp add: sorted_wrt_map sorted_wrt_filter)
  then have "disciplined pref [] (map acquire ?fs @ map (unlock \<circ> fst) (rev ?fs))"
    by (rule disciplined_acquires) (simp_all add: disciplined_releases del: rev_filter)
  then show ?thesis using u lock_loop_calls [OF es(2)] by (simp add: Lock5_def)
qed

lemma section_disciplined: "proper pref s \<Longrightarrow> disciplined pref [] (section_calls s)"
  using request_disciplined scoped2_disciplined scoped3_disciplined scoped5_disciplined
  by (cases "(pref, s)" rule: proper.cases) (fastforce simp: lock_simps)+

lemma sections_disciplined: "\<forall>s\<in>set ss. proper pref s \<Longrightarrow> disciplined pref [] (concat (map section_calls ss))"
  by (induction ss) (auto intro: disciplined_append section_disciplined)

section \<open>Results\<close>



text \<open>C34: a bulk read takes the read lock of its datatype again while it holds it. Where waiting writers keep readers out, as the
  comments of \<open>pfc::core::ReadWriteLock\<close> have it, a bulk read of the candidate configuration and a change of it may come
  to a state in which each waits for the other for ever.
\<close>

theorem bulk_read_may_deadlock:
  "\<exists>ths. config_lock_step\<^sup>*\<^sup>* [([], kt_request UNC_OP_READ_BULK UPLL_DT_CANDIDATE), ([], kt_request UNC_OP_CREATE UPLL_DT_CANDIDATE)] ths \<and>
     deadlocked True ths"
proof (intro exI conjI)
  let ?s = "[([], kt_request UNC_OP_READ_BULK UPLL_DT_CANDIDATE), ([], kt_request UNC_OP_CREATE UPLL_DT_CANDIDATE)]"
  let ?t = "?s[0 := (done_call (rdlock UPLL_DT_CANDIDATE) [], tl (kt_request UNC_OP_READ_BULK UPLL_DT_CANDIDATE))]"
  have calls: "kt_request UNC_OP_READ_BULK UPLL_DT_CANDIDATE =
      [rdlock UPLL_DT_CANDIDATE, rdlock UPLL_DT_CANDIDATE, unlock UPLL_DT_CANDIDATE, unlock UPLL_DT_CANDIDATE]"
    "kt_request UNC_OP_CREATE UPLL_DT_CANDIDATE =
      [wrlock UPLL_DT_CANDIDATE, rdlock UPLL_DT_RUNNING, unlock UPLL_DT_RUNNING, unlock UPLL_DT_CANDIDATE]"
    by code_simp+
  have "config_lock_step ?s ?t" by (rule config_lock_step.call) (simp_all add: calls holds_def)
  then show "config_lock_step\<^sup>*\<^sup>* ?s ?t" by blast
  show "deadlocked True ?t" by (simp add: deadlocked_def calls holds_def waiting_writer_def)
qed

end
