(* ===== verification/UL_DbConn.thy ===== *)
theory UL_DbConn
  imports VTN_Prelude
begin

text \<open>
  The database connections of UPLL (\<open>modules/upll/dbconn_mgr.cc\<close>): three shared connections for writing, and a pool of
  connections for reading, each of which has one user at a time. A connection is known by the address of its object, which the
  allocation gives; the results of the data access layer below are arguments.
\<close>

section \<open>Result codes\<close>

datatype DalResultCode =
  kDalRcSuccess | kDalRcConnNotEstablished | kDalRcConnNotAvailable | kDalRcNotDisconnected | kDalRcTxnError |
  kDalRcInvalidConnHandle | kDalRcInvalidCursor | kDalRcDataError | kDalRcRecordAlreadyExists | kDalRcParentNotFound |
  kDalRcRecordNotFound | kDalRcRecordNoMore | kDalRcAccessViolation | kDalRcConnTimeOut | kDalRcQueryTimeOut |
  kDalRcMemoryError | kDalRcInternalError | kDalRcGeneralError

datatype (plugins only: code) upll_rc_t =
  UPLL_RC_SUCCESS | UPLL_RC_ERR_GENERIC | UPLL_RC_ERR_BAD_REQUEST | UPLL_RC_ERR_BAD_CONFIG_OR_SESSION_ID |
  UPLL_RC_ERR_NO_SUCH_OPERATION | UPLL_RC_ERR_INVALID_OPTION1 | UPLL_RC_ERR_INVALID_OPTION2 | UPLL_RC_ERR_CFG_SYNTAX |
  UPLL_RC_ERR_CFG_SEMANTIC | UPLL_RC_ERR_RESOURCE_DISCONNECTED | UPLL_RC_ERR_DB_ACCESS | UPLL_RC_ERR_NO_SUCH_INSTANCE |
  UPLL_RC_ERR_NO_SUCH_NAME | UPLL_RC_ERR_NO_SUCH_DATATYPE | UPLL_RC_ERR_NOT_SUPPORTED_BY_CTRLR |
  UPLL_RC_ERR_NOT_SUPPORTED_BY_STANDBY | UPLL_RC_ERR_PARENT_DOES_NOT_EXIST | UPLL_RC_ERR_INSTANCE_EXISTS |
  UPLL_RC_ERR_NOT_ALLOWED_FOR_THIS_DT | UPLL_RC_ERR_NOT_ALLOWED_FOR_THIS_KT | UPLL_RC_ERR_NOT_ALLOWED_AT_THIS_TIME |
  UPLL_RC_ERR_EXCEEDS_RESOURCE_LIMIT | UPLL_RC_ERR_MERGE_CONFLICT | UPLL_RC_ERR_CANDIDATE_IS_DIRTY | UPLL_RC_ERR_SHUTTING_DOWN |
  UPLL_RC_ERR_CTR_DISCONNECTED | UPLL_RC_ERR_DRIVER_NOT_PRESENT

definition ConvertDalResultCode :: "DalResultCode \<Rightarrow> upll_rc_t" where
  "ConvertDalResultCode drc =
     (if drc = kDalRcSuccess then UPLL_RC_SUCCESS
      else if drc \<in> {kDalRcConnNotEstablished, kDalRcConnNotAvailable, kDalRcConnTimeOut, kDalRcQueryTimeOut}
      then UPLL_RC_ERR_RESOURCE_DISCONNECTED
      else if drc \<in> {kDalRcTxnError, kDalRcAccessViolation} then UPLL_RC_ERR_DB_ACCESS
      else UPLL_RC_ERR_GENERIC)"

text \<open>\<open>DalOpen\<close>, with the results of \<open>Init\<close> and \<open>ConnectToDb\<close>.\<close>

definition DalOpen :: "DalResultCode \<times> DalResultCode \<Rightarrow> upll_rc_t" where
  "DalOpen drcs =
     (if fst drcs \<noteq> kDalRcSuccess then ConvertDalResultCode (fst drcs)
      else if snd drcs \<noteq> kDalRcSuccess then ConvertDalResultCode (snd drcs)
      else UPLL_RC_SUCCESS)"

text \<open>Whether the transaction is committed, and the result.\<close>

definition DalTxClose :: "bool \<Rightarrow> bool \<Rightarrow> DalResultCode \<Rightarrow> bool \<times> upll_rc_t" where
  "DalTxClose read_write commit drc = (read_write \<and> commit, ConvertDalResultCode drc)"

section \<open>Connections\<close>

record DbConn =
  dc_dom :: nat
  dc_in_use_cnt :: u32
  dc_close_on_finish :: bool

definition DbConn_new :: "nat \<Rightarrow> DbConn" where
  "DbConn_new addr = \<lparr>dc_dom = addr, dc_in_use_cnt = 0, dc_close_on_finish = False\<rparr>"

record UpllDbConnMgr =
  dm_config_rw_conn :: "DbConn option"
  dm_alarm_rw_conn :: "DbConn option"
  dm_audit_rw_conn :: "DbConn option"
  dm_max_ro_conns :: u64
  dm_active_ro_conns_cnt :: u64
  dm_ro_conn_pool :: "DbConn list"
  dm_stale_rw_conn_pool :: "DbConn list"
  dm_ro_conn_sem :: nat

definition UpllDbConnMgr_new :: "u64 \<Rightarrow> UpllDbConnMgr" where
  "UpllDbConnMgr_new max_ro_conns =
     \<lparr>dm_config_rw_conn = None, dm_alarm_rw_conn = None, dm_audit_rw_conn = None, dm_max_ro_conns = max_ro_conns,
      dm_active_ro_conns_cnt = 0, dm_ro_conn_pool = [], dm_stale_rw_conn_pool = [], dm_ro_conn_sem = unat max_ro_conns\<rparr>"

text \<open>A connection in use is marked; another is disconnected from the database, with or without success.\<close>

definition TerminateDbConn :: "DbConn \<Rightarrow> DbConn" where
  "TerminateDbConn dbc = (if dc_in_use_cnt dbc > 0 then dbc\<lparr>dc_close_on_finish := True\<rparr> else dbc)"

section \<open>Connections for writing\<close>

definition get_rw :: "DbConn option \<Rightarrow> nat option \<times> DbConn option" where
  "get_rw c =
     (case c of
        None \<Rightarrow> (None, None)
      | Some dbc \<Rightarrow> (Some (dc_dom dbc), Some (dbc\<lparr>dc_in_use_cnt := dc_in_use_cnt dbc + 1\<rparr>)))"

definition GetConfigRwConn :: "UpllDbConnMgr \<Rightarrow> nat option \<times> UpllDbConnMgr" where
  "GetConfigRwConn m = (let (dm, c) = get_rw (dm_config_rw_conn m) in (dm, m\<lparr>dm_config_rw_conn := c\<rparr>))"

definition GetAlarmRwConn :: "UpllDbConnMgr \<Rightarrow> nat option \<times> UpllDbConnMgr" where
  "GetAlarmRwConn m = (let (dm, c) = get_rw (dm_alarm_rw_conn m) in (dm, m\<lparr>dm_alarm_rw_conn := c\<rparr>))"

definition GetAuditRwConn :: "UpllDbConnMgr \<Rightarrow> nat option \<times> UpllDbConnMgr" where
  "GetAuditRwConn m = (let (dm, c) = get_rw (dm_audit_rw_conn m) in (dm, m\<lparr>dm_audit_rw_conn := c\<rparr>))"

definition release_rw :: "DbConn \<Rightarrow> DbConn" where
  "release_rw dbc = (if dc_in_use_cnt dbc = 0 then dbc else dbc\<lparr>dc_in_use_cnt := dc_in_use_cnt dbc - 1\<rparr>)"

fun release_stale :: "nat \<Rightarrow> DbConn list \<Rightarrow> DbConn list" where
  "release_stale dm [] = []"
| "release_stale dm (dbc # dbcs) =
     (if dm = dc_dom dbc
      then (if dc_in_use_cnt dbc = 0 then dbc # dbcs
            else if dc_in_use_cnt dbc - 1 = 0 then dbcs
            else dbc\<lparr>dc_in_use_cnt := dc_in_use_cnt dbc - 1\<rparr> # dbcs)
      else dbc # release_stale dm dbcs)"

definition has_dom :: "nat \<Rightarrow> DbConn option \<Rightarrow> bool" where
  "has_dom dm c \<longleftrightarrow> (case c of None \<Rightarrow> False | Some dbc \<Rightarrow> dc_dom dbc = dm)"

definition ReleaseRwConn :: "nat \<Rightarrow> UpllDbConnMgr \<Rightarrow> UpllDbConnMgr" where
  "ReleaseRwConn dm m =
     (if has_dom dm (dm_config_rw_conn m) then m\<lparr>dm_config_rw_conn := map_option release_rw (dm_config_rw_conn m)\<rparr>
      else if has_dom dm (dm_alarm_rw_conn m) then m\<lparr>dm_alarm_rw_conn := map_option release_rw (dm_alarm_rw_conn m)\<rparr>
      else if has_dom dm (dm_audit_rw_conn m) then m\<lparr>dm_audit_rw_conn := map_option release_rw (dm_audit_rw_conn m)\<rparr>
      else m\<lparr>dm_stale_rw_conn_pool := release_stale dm (dm_stale_rw_conn_pool m)\<rparr>)"

text \<open>The objects are made even if the database cannot be reached; the result is that of the last one.\<close>

definition InitializeDbConnectionsNoLock :: "nat \<times> nat \<times> nat \<Rightarrow> DalResultCode \<times> DalResultCode \<Rightarrow> UpllDbConnMgr \<Rightarrow>
    upll_rc_t \<times> UpllDbConnMgr" where
  "InitializeDbConnectionsNoLock addrs drcs m =
     (case addrs of (a1, a2, a3) \<Rightarrow>
        (DalOpen drcs,
         m\<lparr>dm_config_rw_conn := Some (DbConn_new a1), dm_alarm_rw_conn := Some (DbConn_new a2),
           dm_audit_rw_conn := Some (DbConn_new a3)\<rparr>))"

section \<open>Connections for reading\<close>

text \<open>One round of the loop: the connections that stay, and how many were closed.\<close>

fun terminate_loop :: "DbConn list \<Rightarrow> DbConn list \<times> nat" where
  "terminate_loop [] = ([], 0)"
| "terminate_loop (dbc # dbcs) =
     (let dbc = TerminateDbConn dbc; (kept, n) = terminate_loop dbcs
      in if dc_close_on_finish dbc then (dbc # kept, n) else (kept, Suc n))"

definition TerminateAllRoConns_NoLock :: "UpllDbConnMgr \<Rightarrow> UpllDbConnMgr" where
  "TerminateAllRoConns_NoLock m =
     (let (kept, n) = terminate_loop (dm_ro_conn_pool m)
      in m\<lparr>dm_ro_conn_pool := kept, dm_active_ro_conns_cnt := dm_active_ro_conns_cnt m - of_nat n,
           dm_ro_conn_sem := dm_ro_conn_sem m + n\<rparr>)"

definition to_stale :: "DbConn option \<Rightarrow> DbConn list" where
  "to_stale c =
     (case c of None \<Rightarrow> [] | Some dbc \<Rightarrow> (let dbc = TerminateDbConn dbc in if dc_close_on_finish dbc then [dbc] else []))"

definition TerminateAllDbConnsNoLock :: "UpllDbConnMgr \<Rightarrow> UpllDbConnMgr" where
  "TerminateAllDbConnsNoLock m =
     TerminateAllRoConns_NoLock
       (m\<lparr>dm_stale_rw_conn_pool := dm_stale_rw_conn_pool m @ to_stale (dm_config_rw_conn m) @ to_stale (dm_alarm_rw_conn m) @
            to_stale (dm_audit_rw_conn m),
          dm_config_rw_conn := None, dm_alarm_rw_conn := None, dm_audit_rw_conn := None\<rparr>)"

definition TerminateAndInitializeDbConns :: "nat \<times> nat \<times> nat \<Rightarrow> DalResultCode \<times> DalResultCode \<Rightarrow> bool \<Rightarrow> UpllDbConnMgr \<Rightarrow> UpllDbConnMgr" where
  "TerminateAndInitializeDbConns addrs drcs active m =
     (let m = TerminateAllDbConnsNoLock m in if active then snd (InitializeDbConnectionsNoLock addrs drcs m) else m)"

fun take_idle :: "DbConn list \<Rightarrow> (nat \<times> DbConn list) option" where
  "take_idle [] = None"
| "take_idle (dbc # dbcs) =
     (if dc_in_use_cnt dbc = 0 then Some (dc_dom dbc, dbc\<lparr>dc_in_use_cnt := 1\<rparr> # dbcs)
      else map_option (\<lambda>(dm, dbcs). (dm, dbc # dbcs)) (take_idle dbcs))"

text \<open>\<open>AcquireRoConn\<close> before it takes the mutex, where \<open>None\<close> means that it blocks, and behind that.\<close>

definition AcquireRoConn_wait :: "UpllDbConnMgr \<Rightarrow> UpllDbConnMgr option" where
  "AcquireRoConn_wait m = (if dm_ro_conn_sem m = 0 then None else Some (m\<lparr>dm_ro_conn_sem := dm_ro_conn_sem m - 1\<rparr>))"

definition AcquireRoConn_locked :: "nat \<Rightarrow> DalResultCode \<times> DalResultCode \<Rightarrow> UpllDbConnMgr \<Rightarrow> (upll_rc_t \<times> nat option) \<times> UpllDbConnMgr" where
  "AcquireRoConn_locked addr drcs m =
     (case take_idle (dm_ro_conn_pool m) of
        Some (dm, pool) \<Rightarrow> ((UPLL_RC_SUCCESS, Some dm), m\<lparr>dm_ro_conn_pool := pool\<rparr>)
      | None \<Rightarrow>
          if dm_active_ro_conns_cnt m \<ge> dm_max_ro_conns m then ((UPLL_RC_ERR_GENERIC, None), m)
          else if DalOpen drcs \<noteq> UPLL_RC_SUCCESS then ((DalOpen drcs, None), TerminateAllRoConns_NoLock m)
          else ((UPLL_RC_SUCCESS, Some addr),
                m\<lparr>dm_ro_conn_pool := dm_ro_conn_pool m @ [(DbConn_new addr)\<lparr>dc_in_use_cnt := 1\<rparr>],
                  dm_active_ro_conns_cnt := dm_active_ro_conns_cnt m + 1\<rparr>))"

fun set_unused :: "nat \<Rightarrow> DbConn list \<Rightarrow> DbConn list" where
  "set_unused dm [] = []"
| "set_unused dm (dbc # dbcs) = (if dc_dom dbc = dm then dbc\<lparr>dc_in_use_cnt := 0\<rparr> # dbcs else dbc # set_unused dm dbcs)"

fun erase_dom :: "nat \<Rightarrow> DbConn list \<Rightarrow> DbConn list" where
  "erase_dom dm [] = []"
| "erase_dom dm (dbc # dbcs) = (if dc_dom dbc = dm then dbcs else dbc # erase_dom dm dbcs)"

text \<open>\<open>disconnected\<close> is whether the layer below has lost the connection.\<close>

definition ReleaseRoConn :: "nat \<Rightarrow> bool \<Rightarrow> UpllDbConnMgr \<Rightarrow> upll_rc_t \<times> UpllDbConnMgr" where
  "ReleaseRoConn dm disconnected m =
     (case find (\<lambda>dbc. dc_dom dbc = dm) (dm_ro_conn_pool m) of
        None \<Rightarrow> (UPLL_RC_ERR_GENERIC, m)
      | Some dbc \<Rightarrow>
          if dc_close_on_finish dbc then (UPLL_RC_SUCCESS, m\<lparr>dm_ro_conn_pool := erase_dom dm (dm_ro_conn_pool m)\<rparr>)
          else let m = m\<lparr>dm_ro_conn_pool := set_unused dm (dm_ro_conn_pool m)\<rparr>
               in (UPLL_RC_SUCCESS,
                   if disconnected then TerminateAllRoConns_NoLock m else m\<lparr>dm_ro_conn_sem := dm_ro_conn_sem m + 1\<rparr>))"

section \<open>The users of the connections\<close>

text \<open>
  The manager, the number of threads between the semaphore and the mutex, and the connections for reading that are in the hands
  of some thread. A new object has an address that no connection of the pool has.
\<close>

type_synonym pool = "UpllDbConnMgr \<times> nat \<times> nat list"

inductive pool_step :: "pool \<Rightarrow> pool \<Rightarrow> bool" where
  wait: "AcquireRoConn_wait m = Some m' \<Longrightarrow> pool_step (m, w, us) (m', Suc w, us)"
| acquire: "addr \<notin> dc_dom ` set (dm_ro_conn_pool m) \<Longrightarrow> AcquireRoConn_locked addr drcs m = ((rc, dm), m') \<Longrightarrow>
    pool_step (m, Suc w, us) (m', w, (case dm of None \<Rightarrow> us | Some d \<Rightarrow> d # us))"
| release: "d \<in> set us \<Longrightarrow> pool_step (m, w, us) (snd (ReleaseRoConn d disconnected m), w, remove1 d us)"
| reset: "pool_step (m, w, us) (TerminateAndInitializeDbConns addrs drcs active m, w, us)"
| get_config: "pool_step (m, w, us) (snd (GetConfigRwConn m), w, us)"
| get_alarm: "pool_step (m, w, us) (snd (GetAlarmRwConn m), w, us)"
| get_audit: "pool_step (m, w, us) (snd (GetAuditRwConn m), w, us)"
| release_rw: "pool_step (m, w, us) (ReleaseRwConn d m, w, us)"

inductive_cases pool_stepE: "pool_step s s'"

definition pool_start :: "u64 \<Rightarrow> pool" where
  "pool_start n = (UpllDbConnMgr_new n, 0, [])"

definition conns_ok :: "DbConn list \<Rightarrow> nat list \<Rightarrow> bool" where
  "conns_ok cs us \<longleftrightarrow>
     distinct (map dc_dom cs) \<and> distinct us \<and> set us \<subseteq> dc_dom ` set cs \<and>
     (\<forall>c\<in>set cs. dc_in_use_cnt c = (if dc_dom c \<in> set us then 1 else 0) \<and> (dc_close_on_finish c \<longrightarrow> dc_in_use_cnt c = 1))"

definition pool_ok :: "pool \<Rightarrow> bool" where
  "pool_ok s \<longleftrightarrow> (case s of (m, w, us) \<Rightarrow>
     conns_ok (dm_ro_conn_pool m) us \<and> length (dm_ro_conn_pool m) \<le> unat (dm_active_ro_conns_cnt m) \<and>
     dm_active_ro_conns_cnt m \<le> dm_max_ro_conns m)"

section \<open>Properties of the pool\<close>

lemma TerminateDbConn_dom [simp]: "dc_dom (TerminateDbConn c) = dc_dom c"
  by (simp add: TerminateDbConn_def)

lemma TerminateDbConn_cnt [simp]: "dc_in_use_cnt (TerminateDbConn c) = dc_in_use_cnt c"
  by (simp add: TerminateDbConn_def)

lemma TerminateDbConn_close: "dc_close_on_finish (TerminateDbConn c) \<longleftrightarrow> dc_close_on_finish c \<or> dc_in_use_cnt c \<noteq> 0"
  by (simp add: TerminateDbConn_def word_gt_0)

lemma terminate_loop_eq:
  "terminate_loop cs =
     (map TerminateDbConn (filter (dc_close_on_finish \<circ> TerminateDbConn) cs),
      length (filter (\<lambda>c. \<not> dc_close_on_finish (TerminateDbConn c)) cs))"
  by (induction cs) (auto simp: Let_def)

lemma terminate_loop_ok:
  assumes "conns_ok cs us"
  shows "conns_ok (fst (terminate_loop cs)) us" "length (fst (terminate_loop cs)) + snd (terminate_loop cs) = length cs"
proof -
  have "dc_close_on_finish (TerminateDbConn c) \<longleftrightarrow> dc_dom c \<in> set us" if "c \<in> set cs" for c
    using assms that by (auto simp: conns_ok_def TerminateDbConn_close)
  then have "filter (dc_close_on_finish \<circ> TerminateDbConn) cs = filter (\<lambda>c. dc_dom c \<in> set us) cs"
    by (intro filter_cong) auto
  moreover have "distinct (map dc_dom (filter (\<lambda>c. dc_dom c \<in> set us) cs))"
    using assms by (auto simp: conns_ok_def distinct_map_filter)
  ultimately show "conns_ok (fst (terminate_loop cs)) us"
    using assms by (auto simp: conns_ok_def terminate_loop_eq o_def image_image; force)
  show "length (fst (terminate_loop cs)) + snd (terminate_loop cs) = length cs"
    using sum_length_filter_compl [of "\<lambda>c. dc_close_on_finish (TerminateDbConn c)" cs] by (simp add: terminate_loop_eq o_def)
qed

lemma unat_sub_of_nat: "n \<le> unat a \<Longrightarrow> unat (a - of_nat n) = unat a - n" for a :: "'a :: len word"
proof -
  assume n: "n \<le> unat a"
  then have "n < 2 ^ LENGTH('a)" using unsigned_less [of a] by (meson order_le_less_trans)
  with n show ?thesis by (simp add: unat_sub word_le_nat_alt unat_of_nat_small)
qed

lemma terminate_pool_ok:
  assumes "pool_ok (m, w, us)"
  shows "pool_ok (TerminateAllRoConns_NoLock m, w, us)"
proof -
  note t = terminate_loop_ok [of "dm_ro_conn_pool m" us]
  let ?r = "terminate_loop (dm_ro_conn_pool m)"
  have ok: "conns_ok (dm_ro_conn_pool m) us" "length (dm_ro_conn_pool m) \<le> unat (dm_active_ro_conns_cnt m)"
    "unat (dm_active_ro_conns_cnt m) \<le> unat (dm_max_ro_conns m)" using assms by (auto simp: pool_ok_def word_le_nat_alt)
  have "unat (dm_active_ro_conns_cnt m - of_nat (snd ?r)) = unat (dm_active_ro_conns_cnt m) - snd ?r"
    using t(2) ok by (intro unat_sub_of_nat) simp
  then show ?thesis
    using t ok by (auto simp: pool_ok_def TerminateAllRoConns_NoLock_def word_le_nat_alt split: prod.splits)
qed

lemma take_idle_ok:
  "take_idle cs = Some (d, cs') \<Longrightarrow> conns_ok cs us \<Longrightarrow> conns_ok cs' (d # us) \<and> length cs' = length cs \<and> map dc_dom cs' = map dc_dom cs"
proof -
  assume a: "take_idle cs = Some (d, cs')" "conns_ok cs us"
  have "\<exists>xs c ys. cs = xs @ c # ys \<and> cs' = xs @ c\<lparr>dc_in_use_cnt := 1\<rparr> # ys \<and> d = dc_dom c \<and> dc_in_use_cnt c = 0"
    using a(1)
  proof (induction cs arbitrary: cs')
    case (Cons c cs)
    show ?case
    proof (cases "dc_in_use_cnt c = 0")
      case False
      with Cons.prems obtain ds where "take_idle cs = Some (d, ds)" "cs' = c # ds" by auto
      with Cons.IH show ?thesis by (metis append_Cons)
    qed (use Cons.prems in fastforce)
  qed simp
  then obtain xs c ys where e: "cs = xs @ c # ys" "cs' = xs @ c\<lparr>dc_in_use_cnt := 1\<rparr> # ys" "d = dc_dom c" "dc_in_use_cnt c = 0"
    by auto
  with a(2) have "d \<notin> set us" by (auto simp: conns_ok_def split: if_splits)
  with e a(2) show ?thesis by (auto simp: conns_ok_def image_iff)
qed

lemma split_dom:
  assumes "d \<in> dc_dom ` set cs"
  obtains xs c ys where "cs = xs @ c # ys" "dc_dom c = d" "d \<notin> dc_dom ` set xs"
  using split_list_first_prop [of cs "\<lambda>c. dc_dom c = d"] assms by (metis (no_types, lifting) imageE image_iff)

lemma set_unused_split: "d \<notin> dc_dom ` set xs \<Longrightarrow> dc_dom c = d \<Longrightarrow> set_unused d (xs @ c # ys) = xs @ c\<lparr>dc_in_use_cnt := 0\<rparr> # ys"
  by (induction xs) auto

lemma erase_dom_split: "d \<notin> dc_dom ` set xs \<Longrightarrow> dc_dom c = d \<Longrightarrow> erase_dom d (xs @ c # ys) = xs @ ys"
  by (induction xs) auto

lemma set_unused_ok:
  assumes "conns_ok cs us" "d \<in> set us" "\<forall>c\<in>set cs. dc_dom c = d \<longrightarrow> \<not> dc_close_on_finish c"
  shows "conns_ok (set_unused d cs) (remove1 d us) \<and> length (set_unused d cs) = length cs"
proof -
  have "d \<in> dc_dom ` set cs" using assms by (auto simp: conns_ok_def)
  then obtain xs c ys where "cs = xs @ c # ys" "dc_dom c = d" "d \<notin> dc_dom ` set xs" by (rule split_dom)
  with assms show ?thesis by (auto simp: conns_ok_def set_unused_split image_iff)
qed

lemma erase_dom_ok:
  assumes "conns_ok cs us" "d \<in> set us"
  shows "conns_ok (erase_dom d cs) (remove1 d us) \<and> length (erase_dom d cs) \<le> length cs"
proof -
  have "d \<in> dc_dom ` set cs" using assms by (auto simp: conns_ok_def)
  then obtain xs c ys where "cs = xs @ c # ys" "dc_dom c = d" "d \<notin> dc_dom ` set xs" by (rule split_dom)
  with assms show ?thesis by (auto simp: conns_ok_def erase_dom_split image_iff)
qed

lemma release_pool_ok:
  assumes "pool_ok (m, w, us)" "d \<in> set us"
  shows "pool_ok (snd (ReleaseRoConn d disconnected m), w, remove1 d us)"
proof -
  let ?m = "m\<lparr>dm_ro_conn_pool := set_unused d (dm_ro_conn_pool m)\<rparr>"
  have ok: "conns_ok (dm_ro_conn_pool m) us" using assms(1) by (simp add: pool_ok_def)
  then obtain c where c: "find (\<lambda>c. dc_dom c = d) (dm_ro_conn_pool m) = Some c"
    using assms(2) by (cases "find (\<lambda>c. dc_dom c = d) (dm_ro_conn_pool m)") (force simp: conns_ok_def find_None_iff)+
  then have cd: "c \<in> set (dm_ro_conn_pool m)" "dc_dom c = d" by (auto simp: find_Some_iff)
  show ?thesis
  proof (cases "dc_close_on_finish c")
    case True
    then show ?thesis
      using c assms erase_dom_ok [OF ok assms(2)] by (auto simp: ReleaseRoConn_def pool_ok_def)
  next
    case False
    then have "\<forall>c\<in>set (dm_ro_conn_pool m). dc_dom c = d \<longrightarrow> \<not> dc_close_on_finish c"
      using cd ok by (metis conns_ok_def distinct_map inj_on_eq_iff)
    then have "pool_ok (?m, w, remove1 d us)"
      using set_unused_ok [OF ok assms(2)] assms(1) by (simp add: pool_ok_def)
    with terminate_pool_ok [OF this] show ?thesis using c False by (auto simp: ReleaseRoConn_def pool_ok_def Let_def)
  qed
qed

lemma acquire_pool_ok:
  assumes "pool_ok (m, w, us)" "addr \<notin> dc_dom ` set (dm_ro_conn_pool m)" "AcquireRoConn_locked addr drcs m = ((rc, dm), m')"
  shows "pool_ok (m', w', (case dm of None \<Rightarrow> us | Some d \<Rightarrow> d # us))"
proof -
  have ok: "conns_ok (dm_ro_conn_pool m) us" "length (dm_ro_conn_pool m) \<le> unat (dm_active_ro_conns_cnt m)"
    "dm_active_ro_conns_cnt m \<le> dm_max_ro_conns m" using assms(1) by (auto simp: pool_ok_def)
  show ?thesis
  proof (cases "take_idle (dm_ro_conn_pool m)")
    case (Some r)
    then show ?thesis
      using assms(3) ok take_idle_ok [of "dm_ro_conn_pool m" "fst r" "snd r" us]
      by (cases r) (auto simp: AcquireRoConn_locked_def pool_ok_def)
  next
    case None
    have new: "conns_ok (dm_ro_conn_pool m @ [(DbConn_new addr)\<lparr>dc_in_use_cnt := 1\<rparr>]) (addr # us)"
      using ok(1) assms(2) by (auto simp: conns_ok_def DbConn_new_def)
    have "unat (dm_active_ro_conns_cnt m + 1) = Suc (unat (dm_active_ro_conns_cnt m))" "dm_active_ro_conns_cnt m + 1 \<le> dm_max_ro_conns m"
      if "\<not> dm_active_ro_conns_cnt m \<ge> dm_max_ro_conns m"
      using that by (simp_all add: not_le unat_inc inc_le)
    with None assms terminate_pool_ok [of m w' us] new ok show ?thesis
      by (auto simp: AcquireRoConn_locked_def pool_ok_def split: if_splits)
  qed
qed

text \<open>The connections for writing do not touch those for reading.\<close>

definition ro_part :: "UpllDbConnMgr \<Rightarrow> u64 \<times> u64 \<times> DbConn list \<times> nat" where
  "ro_part m = (dm_max_ro_conns m, dm_active_ro_conns_cnt m, dm_ro_conn_pool m, dm_ro_conn_sem m)"

lemma rw_ro_part [simp]:
  "ro_part (snd (GetConfigRwConn m)) = ro_part m" "ro_part (snd (GetAlarmRwConn m)) = ro_part m"
  "ro_part (snd (GetAuditRwConn m)) = ro_part m" "ro_part (ReleaseRwConn d m) = ro_part m"
  "ro_part (TerminateAndInitializeDbConns addrs drcs active m) = ro_part (TerminateAllRoConns_NoLock m)"
  by (auto simp: ro_part_def GetConfigRwConn_def GetAlarmRwConn_def GetAuditRwConn_def ReleaseRwConn_def
      TerminateAndInitializeDbConns_def TerminateAllDbConnsNoLock_def InitializeDbConnectionsNoLock_def TerminateAllRoConns_NoLock_def
      Let_def split: prod.splits)

lemma pool_ok_ro_part: "ro_part m = ro_part m' \<Longrightarrow> pool_ok (m, w, us) = pool_ok (m', w', us)"
  by (simp add: pool_ok_def ro_part_def)

lemma pool_ok_step: "pool_step s s' \<Longrightarrow> pool_ok s \<Longrightarrow> pool_ok s'"
proof (induction rule: pool_step.induct)
  case (wait m m' w us)
  then show ?case by (auto simp: AcquireRoConn_wait_def pool_ok_def split: if_splits)
next
  case (reset m w us addrs drcs active)
  then show ?case using terminate_pool_ok pool_ok_ro_part rw_ro_part(5) by metis
qed (use acquire_pool_ok release_pool_ok pool_ok_ro_part rw_ro_part in \<open>blast | metis\<close>)+

lemma pool_ok_start: "pool_ok (pool_start n)"
  by (simp add: pool_ok_def pool_start_def UpllDbConnMgr_new_def conns_ok_def)

lemma pool_ok_reach: "pool_step\<^sup>*\<^sup>* (pool_start n) s \<Longrightarrow> pool_ok s"
  by (induction rule: rtranclp_induct) (auto intro: pool_ok_step pool_ok_start)

section \<open>Results\<close>

text \<open>C30: a connection for reading is never in the hands of two threads, a connection in use is never closed or freed, and there
  are never more of them than the configured limit, whatever the threads, the database and the cluster do.
\<close>

theorem ro_connections_exclusive:
  assumes "pool_step\<^sup>*\<^sup>* (pool_start n) (m, w, us)"
  shows "distinct us \<and> set us \<subseteq> dc_dom ` set (dm_ro_conn_pool m) \<and> length us \<le> length (dm_ro_conn_pool m) \<and>
    length (dm_ro_conn_pool m) \<le> unat n"
proof -
  have max: "dm_max_ro_conns (fst s) = n" if "pool_step\<^sup>*\<^sup>* (pool_start n) s" for s
    using that
  proof (induction rule: rtranclp_induct)
    case (step s s')
    from step(2) have "dm_max_ro_conns (fst s') = dm_max_ro_conns (fst s)"
      using rw_ro_part unfolding ro_part_def
      by cases (auto simp: AcquireRoConn_wait_def AcquireRoConn_locked_def ReleaseRoConn_def TerminateAllRoConns_NoLock_def Let_def
          split: if_splits option.splits prod.splits)
    with step show ?case by simp
  qed (simp add: pool_start_def UpllDbConnMgr_new_def)
  have ok: "pool_ok (m, w, us)" using assms by (rule pool_ok_reach)
  then have "length us \<le> card (dc_dom ` set (dm_ro_conn_pool m))"
    by (metis (no_types, lifting) card_mono conns_ok_def distinct_card finite_imageI List.finite_set pool_ok_def case_prod_conv)
  also have "\<dots> \<le> length (dm_ro_conn_pool m)" by (metis card_image_le card_length le_trans List.finite_set)
  finally show ?thesis using ok max [OF assms] by (auto simp: pool_ok_def conns_ok_def word_le_nat_alt)
qed

theorem ro_connections_exclusive_witness:
  "length [7::nat] \<le> unat (1::u64) \<and> (\<exists>m. pool_step\<^sup>*\<^sup>* (pool_start 1) (m, 0, [7]))"
proof -
  have 1: "pool_step (pool_start 1) ((UpllDbConnMgr_new 1)\<lparr>dm_ro_conn_sem := 0\<rparr>, Suc 0, [])"
    unfolding pool_start_def by (rule pool_step.wait) (simp add: AcquireRoConn_wait_def UpllDbConnMgr_new_def)
  obtain rc dm m' where a: "AcquireRoConn_locked 7 (kDalRcSuccess, kDalRcSuccess) ((UpllDbConnMgr_new 1)\<lparr>dm_ro_conn_sem := 0\<rparr>) = ((rc, dm), m')"
    "dm = Some 7" by (simp add: AcquireRoConn_locked_def UpllDbConnMgr_new_def DalOpen_def)
  have "pool_step ((UpllDbConnMgr_new 1)\<lparr>dm_ro_conn_sem := 0\<rparr>, Suc 0, []) (m', 0, [7])"
    using pool_step.acquire [OF _ a(1), of 0 "[]"] a(2) by (simp add: UpllDbConnMgr_new_def)
  with 1 have r: "pool_step\<^sup>*\<^sup>* (pool_start 1) (m', 0, [7])" by (meson converse_rtranclp_into_rtranclp r_into_rtranclp)
  with ro_connections_exclusive [OF r] show ?thesis by auto
qed

text \<open>An empty pool whose semaphore is used up stays so.\<close>

lemma exhausted_step:
  assumes "pool_step s s'" "dm_ro_conn_pool (fst s) = []" "dm_ro_conn_sem (fst s) = 0" "snd s = (0, [])"
  shows "dm_ro_conn_pool (fst s') = [] \<and> dm_ro_conn_sem (fst s') = 0 \<and> snd s' = (0, [])"
proof -
  have t: "ro_part (TerminateAllRoConns_NoLock m) = ro_part m" if "dm_ro_conn_pool m = []" for m
    using that by (simp add: TerminateAllRoConns_NoLock_def ro_part_def)
  from assms(1) show ?thesis
  proof cases
    case (reset m w us addrs drcs active)
    then show ?thesis using assms t [of m] rw_ro_part(5) [of addrs drcs active m] by (auto simp: ro_part_def)
  qed (use assms rw_ro_part in \<open>auto simp: ro_part_def AcquireRoConn_wait_def\<close>)
qed

lemma failed_open_step:
  assumes "dm_ro_conn_pool m = []" "dm_active_ro_conns_cnt m = 0" "0 < dm_max_ro_conns m" "dm_ro_conn_sem m = Suc k"
  shows "pool_step\<^sup>*\<^sup>* (m, 0, []) (m\<lparr>dm_ro_conn_sem := k\<rparr>, 0, [])"
proof -
  let ?m = "m\<lparr>dm_ro_conn_sem := k\<rparr>"
  have 1: "pool_step (m, 0, []) (?m, Suc 0, [])" by (rule pool_step.wait) (simp add: AcquireRoConn_wait_def assms(4))
  have "AcquireRoConn_locked 0 (kDalRcSuccess, kDalRcConnNotEstablished) ?m = ((UPLL_RC_ERR_RESOURCE_DISCONNECTED, None), ?m)"
    using assms by (simp add: AcquireRoConn_locked_def TerminateAllRoConns_NoLock_def DalOpen_def ConvertDalResultCode_def not_le)
  from pool_step.acquire [OF _ this, of 0 "[]"] have "pool_step (?m, Suc 0, []) (?m, 0, [])" using assms(1) by simp
  with 1 show ?thesis by (meson converse_rtranclp_into_rtranclp r_into_rtranclp)
qed

lemma failed_opens:
  "dm_ro_conn_pool m = [] \<Longrightarrow> dm_active_ro_conns_cnt m = 0 \<Longrightarrow> 0 < dm_max_ro_conns m \<Longrightarrow> dm_ro_conn_sem m = k \<Longrightarrow>
   pool_step\<^sup>*\<^sup>* (m, 0, []) (m\<lparr>dm_ro_conn_sem := 0\<rparr>, 0, [])"
proof (induction k arbitrary: m)
  case 0
  then have "m\<lparr>dm_ro_conn_sem := 0\<rparr> = m" by (cases m) simp
  then show ?case by simp
next
  case (Suc k)
  from Suc.IH [of "m\<lparr>dm_ro_conn_sem := k\<rparr>"] Suc.prems failed_open_step [of m k] show ?case
    by (auto intro: rtranclp_trans)
qed



end
