(* ===== verification/UL_Ctrlr.thy ===== *)
theory UL_Ctrlr
  imports UL_Lock UL_DbConn "HOL-Library.List_Lexorder" "HOL-Library.Char_ord" "HOL-Library.AList"
begin

text \<open>
  The controllers that UPLL knows (\<open>modules/upll/ctrlr_mgr.cc\<close>): their list, ordered by name, which is shown to refine a map;
  the counters of path faults; the states of the ports of disconnected controllers. A null pointer as argument is
  \<open>None\<close>; the pointers for results are not null. The mutexes make every call one step.
\<close>

section \<open>Controllers\<close>

record Ctrlr =
  ct_name :: string
  ct_type :: u32
  ct_version :: string
  ct_audit_done :: bool
  ct_config_done :: bool
  ct_invalid_config :: bool
  ct_audit_type :: bool
  ct_datatype :: upll_keytype_datatype_t

definition Ctrlr_new :: "string \<Rightarrow> u32 \<Rightarrow> string \<Rightarrow> bool \<Rightarrow> Ctrlr" where
  "Ctrlr_new nm ty version audit_type =
     \<lparr>ct_name = nm, ct_type = ty, ct_version = version, ct_audit_done = False, ct_config_done = False,
      ct_invalid_config = False, ct_audit_type = audit_type, ct_datatype = UPLL_DT_CANDIDATE\<rparr>"

definition Ctrlr_copy :: "Ctrlr \<Rightarrow> upll_keytype_datatype_t \<Rightarrow> Ctrlr" where
  "Ctrlr_copy ctrlr datatype = ctrlr\<lparr>ct_datatype := datatype\<rparr>"

type_synonym ctrlr_key = "string \<times> upll_keytype_datatype_t"

definition ct_key :: "Ctrlr \<Rightarrow> ctrlr_key" where
  "ct_key c = (ct_name c, ct_datatype c)"

record CtrlrMgr =
  cm_ctrlrs :: "Ctrlr list"
  cm_path_fault_map :: "(string \<times> (string \<times> u32) list) list"
  cm_ctr_discon_map :: "(string \<times> (string \<times> u8) list) list"

definition CtrlrMgr_new :: CtrlrMgr where
  "CtrlrMgr_new = \<lparr>cm_ctrlrs = [], cm_path_fault_map = [], cm_ctr_discon_map = []\<rparr>"

text \<open>The loop of \<open>Add\<close>; \<open>None\<close> if the controller is there already.\<close>

fun add_loop :: "Ctrlr \<Rightarrow> Ctrlr list \<Rightarrow> Ctrlr list option" where
  "add_loop c [] = Some [c]"
| "add_loop c (x # xs) =
     (if ct_name x = ct_name c \<and> ct_datatype x = ct_datatype c then None
      else if ct_name x < ct_name c then map_option ((#) x) (add_loop c xs)
      else if ct_name x > ct_name c then Some (c # x # xs)
      else map_option ((#) x) (add_loop c xs))"

definition configurable :: "upll_keytype_datatype_t \<Rightarrow> bool" where
  "configurable datatype \<longleftrightarrow> datatype = UPLL_DT_CANDIDATE \<or> datatype = UPLL_DT_RUNNING"

definition Ctrlr_Add :: "Ctrlr \<Rightarrow> upll_keytype_datatype_t \<Rightarrow> CtrlrMgr \<Rightarrow> upll_rc_t \<times> CtrlrMgr" where
  "Ctrlr_Add ctrlr datatype m =
     (if \<not> configurable datatype then (UPLL_RC_ERR_NOT_ALLOWED_FOR_THIS_DT, m)
      else case add_loop (Ctrlr_copy ctrlr datatype) (cm_ctrlrs m) of
             None \<Rightarrow> (UPLL_RC_ERR_INSTANCE_EXISTS, m)
           | Some cs \<Rightarrow> (UPLL_RC_SUCCESS, m\<lparr>cm_ctrlrs := cs\<rparr>))"

text \<open>The first controller with this name and datatype, and the loops that remove or change it.\<close>

definition find_ctrlr :: "ctrlr_key \<Rightarrow> Ctrlr list \<Rightarrow> Ctrlr option" where
  "find_ctrlr k cs = find (\<lambda>c. ct_name c = fst k \<and> ct_datatype c = snd k) cs"

fun erase_ctrlr :: "ctrlr_key \<Rightarrow> Ctrlr list \<Rightarrow> Ctrlr list" where
  "erase_ctrlr k [] = []"
| "erase_ctrlr k (c # cs) = (if ct_name c = fst k \<and> ct_datatype c = snd k then cs else c # erase_ctrlr k cs)"

fun change_ctrlr :: "ctrlr_key \<Rightarrow> (Ctrlr \<Rightarrow> Ctrlr) \<Rightarrow> Ctrlr list \<Rightarrow> Ctrlr list" where
  "change_ctrlr k f [] = []"
| "change_ctrlr k f (c # cs) = (if ct_name c = fst k \<and> ct_datatype c = snd k then f c # cs else c # change_ctrlr k f cs)"

text \<open>The second result is whether the alarm for an invalid configuration is cleared.\<close>

definition Ctrlr_Delete :: "string \<Rightarrow> upll_keytype_datatype_t \<Rightarrow> CtrlrMgr \<Rightarrow> (upll_rc_t \<times> bool) \<times> CtrlrMgr" where
  "Ctrlr_Delete ctrlr_name datatype m =
     (if \<not> configurable datatype then ((UPLL_RC_ERR_NOT_ALLOWED_FOR_THIS_DT, False), m)
      else case find_ctrlr (ctrlr_name, datatype) (cm_ctrlrs m) of
             None \<Rightarrow> ((UPLL_RC_ERR_NO_SUCH_INSTANCE, False), m)
           | Some c \<Rightarrow>
               ((UPLL_RC_SUCCESS, ct_invalid_config c \<and> datatype = UPLL_DT_RUNNING),
                m\<lparr>cm_ctrlrs := erase_ctrlr (ctrlr_name, datatype) (cm_ctrlrs m)\<rparr>))"

definition update_ctrlr :: "ctrlr_key \<Rightarrow> (Ctrlr \<Rightarrow> Ctrlr) \<Rightarrow> CtrlrMgr \<Rightarrow> upll_rc_t \<times> CtrlrMgr" where
  "update_ctrlr k f m =
     (case find_ctrlr k (cm_ctrlrs m) of
        None \<Rightarrow> (UPLL_RC_ERR_NO_SUCH_INSTANCE, m)
      | Some c \<Rightarrow> (UPLL_RC_SUCCESS, m\<lparr>cm_ctrlrs := change_ctrlr k f (cm_ctrlrs m)\<rparr>))"

definition UpdateVersion :: "string \<Rightarrow> upll_keytype_datatype_t \<Rightarrow> string \<Rightarrow> CtrlrMgr \<Rightarrow> upll_rc_t \<times> CtrlrMgr" where
  "UpdateVersion ctrlr_name datatype ctrlr_version m =
     (if \<not> configurable datatype then (UPLL_RC_ERR_NOT_ALLOWED_FOR_THIS_DT, m)
      else update_ctrlr (ctrlr_name, datatype) (ct_version_update (\<lambda>_. ctrlr_version)) m)"

definition UpdateAuditDone :: "string \<Rightarrow> bool \<Rightarrow> CtrlrMgr \<Rightarrow> upll_rc_t \<times> CtrlrMgr" where
  "UpdateAuditDone ctrlr_name audit_done m =
     update_ctrlr (ctrlr_name, UPLL_DT_RUNNING) (ct_audit_done_update (\<lambda>_. audit_done)) m"

definition UpdateConfigDone :: "string \<Rightarrow> bool \<Rightarrow> CtrlrMgr \<Rightarrow> upll_rc_t \<times> CtrlrMgr" where
  "UpdateConfigDone ctrlr_name config_done m =
     update_ctrlr (ctrlr_name, UPLL_DT_RUNNING) (ct_config_done_update (\<lambda>_. config_done)) m"

definition UpdateInvalidConfig :: "string \<Rightarrow> bool \<Rightarrow> CtrlrMgr \<Rightarrow> upll_rc_t \<times> CtrlrMgr" where
  "UpdateInvalidConfig ctrlr_name invalid_config m =
     update_ctrlr (ctrlr_name, UPLL_DT_RUNNING) (ct_invalid_config_update (\<lambda>_. invalid_config)) m"

definition UpdateAuditType :: "string \<Rightarrow> upll_keytype_datatype_t \<Rightarrow> bool \<Rightarrow> CtrlrMgr \<Rightarrow> upll_rc_t \<times> CtrlrMgr" where
  "UpdateAuditType ctrlr_name datatype audit_type m =
     (if \<not> configurable datatype then (UPLL_RC_ERR_NOT_ALLOWED_FOR_THIS_DT, m)
      else update_ctrlr (ctrlr_name, datatype) (ct_audit_type_update (\<lambda>_. audit_type)) m)"

definition MapDataType :: "upll_keytype_datatype_t \<Rightarrow> upll_keytype_datatype_t" where
  "MapDataType in_dt =
     (case in_dt of
        UPLL_DT_STATE \<Rightarrow> UPLL_DT_RUNNING
      | UPLL_DT_RUNNING \<Rightarrow> UPLL_DT_RUNNING
      | UPLL_DT_AUDIT \<Rightarrow> UPLL_DT_RUNNING
      | UPLL_DT_CANDIDATE \<Rightarrow> UPLL_DT_CANDIDATE
      | UPLL_DT_IMPORT \<Rightarrow> UPLL_DT_CANDIDATE
      | UPLL_DT_STARTUP \<Rightarrow> UPLL_DT_STARTUP
      | _ \<Rightarrow> UPLL_DT_INVALID)"

text \<open>The result of a lookup that found nothing is \<open>None\<close> where the source returns false.\<close>

definition GetCtrlrType :: "string option \<Rightarrow> upll_keytype_datatype_t \<Rightarrow> CtrlrMgr \<Rightarrow> u32 option" where
  "GetCtrlrType ctrlr_name datatype m =
     (case ctrlr_name of
        None \<Rightarrow> None
      | Some nm \<Rightarrow> map_option ct_type (find_ctrlr (nm, MapDataType datatype) (cm_ctrlrs m)))"

definition GetCtrlrTypeAndVersion :: "string option \<Rightarrow> upll_keytype_datatype_t \<Rightarrow> CtrlrMgr \<Rightarrow> (u32 \<times> string) option" where
  "GetCtrlrTypeAndVersion ctrlr_name datatype m =
     (case ctrlr_name of
        None \<Rightarrow> None
      | Some nm \<Rightarrow> map_option (\<lambda>c. (ct_type c, ct_version c)) (find_ctrlr (nm, MapDataType datatype) (cm_ctrlrs m)))"

definition running_flag :: "(Ctrlr \<Rightarrow> bool) \<Rightarrow> string option \<Rightarrow> CtrlrMgr \<Rightarrow> upll_rc_t + bool" where
  "running_flag flag ctrlr_name m =
     (case ctrlr_name of
        None \<Rightarrow> Inl UPLL_RC_ERR_GENERIC
      | Some nm \<Rightarrow>
          (case find_ctrlr (nm, UPLL_DT_RUNNING) (cm_ctrlrs m) of
             None \<Rightarrow> Inl UPLL_RC_ERR_NO_SUCH_INSTANCE
           | Some c \<Rightarrow> Inr (flag c)))"

definition IsConfigInvalid :: "string option \<Rightarrow> CtrlrMgr \<Rightarrow> upll_rc_t + bool" where
  "IsConfigInvalid = running_flag ct_invalid_config"

definition IsConfigDone :: "string option \<Rightarrow> CtrlrMgr \<Rightarrow> upll_rc_t + bool" where
  "IsConfigDone = running_flag ct_config_done"

definition IsAuditDone :: "string option \<Rightarrow> CtrlrMgr \<Rightarrow> upll_rc_t + bool" where
  "IsAuditDone = running_flag ct_audit_done"

definition GetAuditType :: "string \<Rightarrow> upll_keytype_datatype_t \<Rightarrow> CtrlrMgr \<Rightarrow> upll_rc_t + bool" where
  "GetAuditType ctrlr_name datatype m =
     (if \<not> configurable datatype \<and> datatype \<noteq> UPLL_DT_IMPORT then Inl UPLL_RC_ERR_NOT_ALLOWED_FOR_THIS_DT
      else case find_ctrlr (ctrlr_name, datatype) (cm_ctrlrs m) of
             None \<Rightarrow> Inl UPLL_RC_ERR_NO_SUCH_INSTANCE
           | Some c \<Rightarrow> Inr (ct_audit_type c))"

definition GetInvalidConfigList :: "CtrlrMgr \<Rightarrow> string list" where
  "GetInvalidConfigList m = map ct_name (filter (\<lambda>c. ct_datatype c = UPLL_DT_RUNNING \<and> ct_invalid_config c) (cm_ctrlrs m))"

definition CleanUp :: "CtrlrMgr \<Rightarrow> CtrlrMgr" where
  "CleanUp m = m\<lparr>cm_ctrlrs := []\<rparr>"

definition GetFirstCtrlrName :: "upll_keytype_datatype_t \<Rightarrow> CtrlrMgr \<Rightarrow> upll_rc_t + string" where
  "GetFirstCtrlrName datatype m =
     (case find (\<lambda>c. ct_datatype c = MapDataType datatype) (cm_ctrlrs m) of
        None \<Rightarrow> Inl UPLL_RC_ERR_NO_SUCH_INSTANCE
      | Some c \<Rightarrow> Inr (ct_name c))"

definition GetNextCtrlrName :: "string \<Rightarrow> upll_keytype_datatype_t \<Rightarrow> CtrlrMgr \<Rightarrow> upll_rc_t + string" where
  "GetNextCtrlrName in_name datatype m =
     (case find (\<lambda>c. ct_datatype c = MapDataType datatype \<and> ct_name c > in_name) (cm_ctrlrs m) of
        None \<Rightarrow> Inl UPLL_RC_ERR_NO_SUCH_INSTANCE
      | Some c \<Rightarrow> Inr (ct_name c))"

section \<open>Path faults\<close>

definition fault_count :: "string \<Rightarrow> string \<Rightarrow> CtrlrMgr \<Rightarrow> u32 option" where
  "fault_count c d m = (case map_of (cm_path_fault_map m) c of None \<Rightarrow> None | Some ds \<Rightarrow> map_of ds d)"

definition set_fault :: "string \<Rightarrow> string \<Rightarrow> u32 \<Rightarrow> CtrlrMgr \<Rightarrow> CtrlrMgr" where
  "set_fault c d n m =
     m\<lparr>cm_path_fault_map :=
         AList.update c (AList.update d n (case map_of (cm_path_fault_map m) c of None \<Rightarrow> [] | Some ds \<Rightarrow> ds)) (cm_path_fault_map m)\<rparr>"

definition erase_fault :: "string \<Rightarrow> string \<Rightarrow> CtrlrMgr \<Rightarrow> CtrlrMgr" where
  "erase_fault c d m =
     (let ds = AList.delete d (case map_of (cm_path_fault_map m) c of None \<Rightarrow> [] | Some ds \<Rightarrow> ds)
      in m\<lparr>cm_path_fault_map :=
             (if ds = [] then AList.delete c (cm_path_fault_map m) else AList.update c ds (cm_path_fault_map m))\<rparr>)"

definition UpdatePathFault :: "string option \<Rightarrow> string option \<Rightarrow> bool \<Rightarrow> CtrlrMgr \<Rightarrow> bool \<times> CtrlrMgr" where
  "UpdatePathFault ctr_na domain_na assert_alarm m =
     (case (ctr_na, domain_na) of
        (Some c, Some d) \<Rightarrow>
          (if assert_alarm
           then (case fault_count c d m of
                   None \<Rightarrow> (True, set_fault c d 1 m)
                 | Some n \<Rightarrow> (False, set_fault c d (n + 1) m))
           else (case fault_count c d m of
                   None \<Rightarrow> (False, m)
                 | Some n \<Rightarrow> if n - 1 = 0 then (True, erase_fault c d m) else (False, set_fault c d (n - 1) m)))
      | _ \<Rightarrow> (False, m))"

definition IsPathFaultOccured :: "string option \<Rightarrow> string option \<Rightarrow> CtrlrMgr \<Rightarrow> bool" where
  "IsPathFaultOccured ctr_na domain_na m \<longleftrightarrow>
     (case (ctr_na, domain_na) of
        (Some c, Some d) \<Rightarrow>
          cm_path_fault_map m \<noteq> [] \<and>
          (c = ''*'' \<or>
           (case map_of (cm_path_fault_map m) c of
              None \<Rightarrow> False
            | Some ds \<Rightarrow> d = ''*'' \<or> map_of ds d \<noteq> None))
      | _ \<Rightarrow> False)"

definition ClearPathfault :: "string option \<Rightarrow> string option \<Rightarrow> CtrlrMgr \<Rightarrow> CtrlrMgr" where
  "ClearPathfault ctr_na domain_na m =
     (case (ctr_na, domain_na) of
        (Some c, Some d) \<Rightarrow>
          (if c = ''*'' then m\<lparr>cm_path_fault_map := []\<rparr>
           else case map_of (cm_path_fault_map m) c of
                  None \<Rightarrow> m
                | Some ds \<Rightarrow>
                    if d = ''*'' then m\<lparr>cm_path_fault_map := AList.delete c (cm_path_fault_map m)\<rparr>
                    else if map_of ds d \<noteq> None then erase_fault c d m
                    else m)
      | _ \<Rightarrow> m)"

section \<open>Disconnected controllers\<close>

definition IsCtrDisconnected :: "string option \<Rightarrow> CtrlrMgr \<Rightarrow> bool" where
  "IsCtrDisconnected ctr_name m \<longleftrightarrow> (case ctr_name of None \<Rightarrow> False | Some c \<Rightarrow> map_of (cm_ctr_discon_map m) c \<noteq> None)"

definition GetLogicalPortSt :: "string option \<Rightarrow> string option \<Rightarrow> CtrlrMgr \<Rightarrow> u8 option" where
  "GetLogicalPortSt ctr_na logical_port m =
     (case (ctr_na, logical_port) of
        (Some c, Some p) \<Rightarrow> (case map_of (cm_ctr_discon_map m) c of None \<Rightarrow> None | Some ps \<Rightarrow> map_of ps p)
      | _ \<Rightarrow> None)"

definition AddCtrToDisconnectList :: "string option \<Rightarrow> CtrlrMgr \<Rightarrow> CtrlrMgr" where
  "AddCtrToDisconnectList ctr_name m =
     (case ctr_name of None \<Rightarrow> m | Some c \<Rightarrow> m\<lparr>cm_ctr_discon_map := AList.update c [] (cm_ctr_discon_map m)\<rparr>)"

definition AddLogicalPort :: "string option \<Rightarrow> string option \<Rightarrow> u8 \<Rightarrow> CtrlrMgr \<Rightarrow> CtrlrMgr" where
  "AddLogicalPort ctr_na logical_port st m =
     (case (ctr_na, logical_port) of
        (Some c, Some p) \<Rightarrow>
          (case map_of (cm_ctr_discon_map m) c of
             None \<Rightarrow> m
           | Some ps \<Rightarrow> m\<lparr>cm_ctr_discon_map := AList.update c (AList.update p st ps) (cm_ctr_discon_map m)\<rparr>)
      | _ \<Rightarrow> m)"

definition RemoveCtrFromDisconnectList :: "string option \<Rightarrow> CtrlrMgr \<Rightarrow> CtrlrMgr" where
  "RemoveCtrFromDisconnectList ctr_name m =
     (case ctr_name of None \<Rightarrow> m | Some c \<Rightarrow> m\<lparr>cm_ctr_discon_map := AList.delete c (cm_ctr_discon_map m)\<rparr>)"

section \<open>The list of the controllers\<close>

definition ctrlrs_ok :: "Ctrlr list \<Rightarrow> bool" where
  "ctrlrs_ok cs \<longleftrightarrow> sorted (map ct_name cs) \<and> distinct (map ct_key cs) \<and> (\<forall>c\<in>set cs. configurable (ct_datatype c))"

lemma ct_key_eq: "ct_name c = fst k \<and> ct_datatype c = snd k \<longleftrightarrow> ct_key c = k"
  by (cases k) (simp add: ct_key_def)

lemma find_ctrlr_Some: "distinct (map ct_key cs) \<Longrightarrow> find_ctrlr k cs = Some c \<longleftrightarrow> c \<in> set cs \<and> ct_key c = k"
  unfolding find_ctrlr_def ct_key_eq by (induction cs) auto

lemma find_ctrlr_None: "find_ctrlr k cs = None \<longleftrightarrow> k \<notin> ct_key ` set cs"
  unfolding find_ctrlr_def ct_key_eq by (auto simp: find_None_iff)

lemma find_ctrlr_eqI:
  assumes "distinct (map ct_key cs)" "distinct (map ct_key ds)" "set ds = (case v of None \<Rightarrow> id | Some c \<Rightarrow> insert c) {c \<in> set cs. ct_key c \<noteq> k}"
    "\<forall>c. v = Some c \<longrightarrow> ct_key c = k"
  shows "(\<lambda>k. find_ctrlr k ds) = (\<lambda>k. find_ctrlr k cs)(k := v)"
proof
  fix k'
  have "find_ctrlr k' ds = Some c \<longleftrightarrow> ((\<lambda>k. find_ctrlr k cs)(k := v)) k' = Some c" for c
    using assms(3,4) by (cases v) (auto simp: find_ctrlr_Some [OF assms(1)] find_ctrlr_Some [OF assms(2)])
  then show "find_ctrlr k' ds = ((\<lambda>k. find_ctrlr k cs)(k := v)) k'" by (metis option.exhaust)
qed

lemma add_loop_None: "sorted (map ct_name cs) \<Longrightarrow> add_loop c cs = None \<longleftrightarrow> ct_key c \<in> ct_key ` set cs"
  by (induction cs) (auto simp: ct_key_def)

lemma add_loop_set: "add_loop c cs = Some ds \<Longrightarrow> set ds = insert c (set cs) \<and> length ds = Suc (length cs)"
  by (induction cs arbitrary: ds) (auto split: if_splits)

lemma add_loop_sorted: "sorted (map ct_name cs) \<Longrightarrow> add_loop c cs = Some ds \<Longrightarrow> sorted (map ct_name ds)"
proof (induction cs arbitrary: ds)
  case (Cons x xs)
  show ?case
  proof (cases "ct_name x > ct_name c")
    case True
    then have "ct_name c \<le> ct_name y" if "y \<in> set (x # xs)" for y using that Cons.prems(1) by (auto intro: order_trans [of _ "ct_name x"])
    then show ?thesis using Cons.prems True by (auto split: if_splits)
  next
    case False
    with Cons.prems obtain ys where ys: "add_loop c xs = Some ys" "ds = x # ys" by (auto split: if_splits)
    then show ?thesis using Cons False add_loop_set [OF ys(1)] by auto
  qed
qed auto

lemma add_loop_distinct: "sorted (map ct_name cs) \<Longrightarrow> distinct (map ct_key cs) \<Longrightarrow> add_loop c cs = Some ds \<Longrightarrow> distinct (map ct_key ds)"
proof -
  assume a: "sorted (map ct_name cs)" "distinct (map ct_key cs)" "add_loop c cs = Some ds"
  then have "ct_key c \<notin> ct_key ` set cs" using add_loop_None by (metis option.distinct(1))
  then have "card (set (map ct_key ds)) = length (map ct_key ds)"
    using add_loop_set [OF a(3)] distinct_card [OF a(2)] by simp
  then show ?thesis by (rule card_distinct)
qed

lemma split_key:
  assumes "k \<in> ct_key ` set cs"
  obtains xs c ys where "cs = xs @ c # ys" "ct_key c = k" "k \<notin> ct_key ` set xs"
  using split_list_first_prop [of cs "\<lambda>c. ct_key c = k"] assms by (metis (no_types, lifting) imageE image_iff)

lemma erase_ctrlr_split: "k \<notin> ct_key ` set xs \<Longrightarrow> ct_key c = k \<Longrightarrow> erase_ctrlr k (xs @ c # ys) = xs @ ys"
  by (induction xs) (auto simp: ct_key_eq)

lemma change_ctrlr_split: "k \<notin> ct_key ` set xs \<Longrightarrow> ct_key c = k \<Longrightarrow> change_ctrlr k f (xs @ c # ys) = xs @ f c # ys"
  by (induction xs) (auto simp: ct_key_eq)

lemma erase_ctrlr_ok:
  assumes "ctrlrs_ok cs" "k \<in> ct_key ` set cs"
  shows "ctrlrs_ok (erase_ctrlr k cs) \<and> (\<lambda>j. find_ctrlr j (erase_ctrlr k cs)) = (\<lambda>j. find_ctrlr j cs)(k := None)"
proof -
  from assms(2) obtain xs c ys where e: "cs = xs @ c # ys" "ct_key c = k" "k \<notin> ct_key ` set xs" by (rule split_key)
  then have ok: "ctrlrs_ok (erase_ctrlr k cs)" using assms(1) by (auto simp: ctrlrs_ok_def erase_ctrlr_split sorted_append)
  have "set (erase_ctrlr k cs) = {c \<in> set cs. ct_key c \<noteq> k}"
    using e assms(1) by (auto simp: ctrlrs_ok_def erase_ctrlr_split image_iff)
  then have "(\<lambda>j. find_ctrlr j (erase_ctrlr k cs)) = (\<lambda>j. find_ctrlr j cs)(k := None)"
    using assms(1) ok by (intro find_ctrlr_eqI) (auto simp: ctrlrs_ok_def)
  with ok show ?thesis by blast
qed

lemma change_ctrlr_ok:
  assumes "ctrlrs_ok cs" "find_ctrlr k cs = Some c" "\<And>c. ct_key (f c) = ct_key c"
  shows "ctrlrs_ok (change_ctrlr k f cs) \<and> (\<lambda>j. find_ctrlr j (change_ctrlr k f cs)) = (\<lambda>j. find_ctrlr j cs)(k := Some (f c))"
proof -
  have d: "distinct (map ct_key cs)" using assms(1) by (simp add: ctrlrs_ok_def)
  then have c: "c \<in> set cs" "ct_key c = k" using assms(2) by (auto simp: find_ctrlr_Some)
  then have "k \<in> ct_key ` set cs" by auto
  then obtain xs c' ys where e: "cs = xs @ c' # ys" "ct_key c' = k" "k \<notin> ct_key ` set xs" by (rule split_key)
  then have "c' = c" using c d by (metis distinct_map in_set_conv_decomp inj_on_eq_iff)
  note e = e [unfolded this]
  have f: "ct_name (f c) = ct_name c" "ct_datatype (f c) = ct_datatype c" using assms(3) [of c] by (auto simp: ct_key_def)
  then have ok: "ctrlrs_ok (change_ctrlr k f cs)"
    using e assms(1,3) by (auto simp: ctrlrs_ok_def change_ctrlr_split sorted_append)
  have "set (change_ctrlr k f cs) = insert (f c) {c \<in> set cs. ct_key c \<noteq> k}"
    using e assms(1) by (auto simp: ctrlrs_ok_def change_ctrlr_split image_iff)
  then have "(\<lambda>j. find_ctrlr j (change_ctrlr k f cs)) = (\<lambda>j. find_ctrlr j cs)(k := Some (f c))"
    using d ok c assms(3) by (intro find_ctrlr_eqI) (auto simp: ctrlrs_ok_def)
  with ok show ?thesis by blast
qed

section \<open>Refinement of a map\<close>

fun runs :: "('c \<Rightarrow> 's \<Rightarrow> 'r \<times> 's) \<Rightarrow> 'c list \<Rightarrow> 's \<Rightarrow> 'r list \<times> 's" where
  "runs run [] s = ([], s)"
| "runs run (c # cs) s = (let (r, s) = run c s; (rs, s) = runs run cs s in (r # rs, s))"

text \<open>What an implementation with an invariant promises to its clients, and what follows for sequences of calls.\<close>

locale data_refinement =
  fixes run :: "'c \<Rightarrow> 's \<Rightarrow> 'r \<times> 's" and spec :: "'c \<Rightarrow> 'a \<Rightarrow> 'r \<times> 'a" and inv :: "'s \<Rightarrow> bool" and abs :: "'s \<Rightarrow> 'a"
  assumes run_inv: "inv s \<Longrightarrow> inv (snd (run c s))"
    and run_spec: "inv s \<Longrightarrow> (fst (run c s), abs (snd (run c s))) = spec c (abs s)"
begin

lemma runs_inv: "inv s \<Longrightarrow> inv (snd (runs run cs s))"
proof (induction cs arbitrary: s)
  case (Cons c cs)
  then show ?case using run_inv [of s c] by (auto split: prod.splits) (metis snd_conv)
qed simp

lemma runs_spec: "inv s \<Longrightarrow> (fst (runs run cs s), abs (snd (runs run cs s))) = runs spec cs (abs s)"
proof (induction cs arbitrary: s)
  case (Cons c cs)
  from Cons.IH [OF run_inv [OF Cons.prems, of c]] run_spec [OF Cons.prems, of c] show ?case
    by (auto split: prod.splits)
qed simp

end

text \<open>The calls that change the controllers, and the same calls on a map.\<close>

datatype ctrlr_call =
    CallAdd Ctrlr upll_keytype_datatype_t
  | CallDelete string upll_keytype_datatype_t
  | CallUpdateVersion string upll_keytype_datatype_t string
  | CallUpdateAuditDone string bool
  | CallUpdateConfigDone string bool
  | CallUpdateInvalidConfig string bool
  | CallUpdateAuditType string upll_keytype_datatype_t bool

fun run_ctrlr_call :: "ctrlr_call \<Rightarrow> CtrlrMgr \<Rightarrow> upll_rc_t \<times> CtrlrMgr" where
  "run_ctrlr_call (CallAdd c dt) m = Ctrlr_Add c dt m"
| "run_ctrlr_call (CallDelete nm dt) m = apfst fst (Ctrlr_Delete nm dt m)"
| "run_ctrlr_call (CallUpdateVersion nm dt v) m = UpdateVersion nm dt v m"
| "run_ctrlr_call (CallUpdateAuditDone nm b) m = UpdateAuditDone nm b m"
| "run_ctrlr_call (CallUpdateConfigDone nm b) m = UpdateConfigDone nm b m"
| "run_ctrlr_call (CallUpdateInvalidConfig nm b) m = UpdateInvalidConfig nm b m"
| "run_ctrlr_call (CallUpdateAuditType nm dt b) m = UpdateAuditType nm dt b m"

type_synonym ctrlr_map = "ctrlr_key \<Rightarrow> Ctrlr option"

definition map_change :: "ctrlr_key \<Rightarrow> (Ctrlr \<Rightarrow> Ctrlr) \<Rightarrow> ctrlr_map \<Rightarrow> upll_rc_t \<times> ctrlr_map" where
  "map_change k f g = (case g k of None \<Rightarrow> (UPLL_RC_ERR_NO_SUCH_INSTANCE, g) | Some c \<Rightarrow> (UPLL_RC_SUCCESS, g(k \<mapsto> f c)))"

definition only_configurable :: "upll_keytype_datatype_t \<Rightarrow> upll_rc_t \<times> ctrlr_map \<Rightarrow> ctrlr_map \<Rightarrow> upll_rc_t \<times> ctrlr_map" where
  "only_configurable dt r g = (if configurable dt then r else (UPLL_RC_ERR_NOT_ALLOWED_FOR_THIS_DT, g))"

fun spec_ctrlr_call :: "ctrlr_call \<Rightarrow> ctrlr_map \<Rightarrow> upll_rc_t \<times> ctrlr_map" where
  "spec_ctrlr_call (CallAdd c dt) g =
     only_configurable dt
       (if g (ct_name c, dt) \<noteq> None then (UPLL_RC_ERR_INSTANCE_EXISTS, g)
        else (UPLL_RC_SUCCESS, g((ct_name c, dt) \<mapsto> c\<lparr>ct_datatype := dt\<rparr>))) g"
| "spec_ctrlr_call (CallDelete nm dt) g =
     only_configurable dt
       (if g (nm, dt) = None then (UPLL_RC_ERR_NO_SUCH_INSTANCE, g) else (UPLL_RC_SUCCESS, g((nm, dt) := None))) g"
| "spec_ctrlr_call (CallUpdateVersion nm dt v) g = only_configurable dt (map_change (nm, dt) (ct_version_update (\<lambda>_. v)) g) g"
| "spec_ctrlr_call (CallUpdateAuditDone nm b) g = map_change (nm, UPLL_DT_RUNNING) (ct_audit_done_update (\<lambda>_. b)) g"
| "spec_ctrlr_call (CallUpdateConfigDone nm b) g = map_change (nm, UPLL_DT_RUNNING) (ct_config_done_update (\<lambda>_. b)) g"
| "spec_ctrlr_call (CallUpdateInvalidConfig nm b) g = map_change (nm, UPLL_DT_RUNNING) (ct_invalid_config_update (\<lambda>_. b)) g"
| "spec_ctrlr_call (CallUpdateAuditType nm dt b) g = only_configurable dt (map_change (nm, dt) (ct_audit_type_update (\<lambda>_. b)) g) g"

definition ctrlr_abs :: "CtrlrMgr \<Rightarrow> ctrlr_map" where
  "ctrlr_abs m = (\<lambda>k. find_ctrlr k (cm_ctrlrs m))"

definition ctrlr_inv :: "CtrlrMgr \<Rightarrow> bool" where
  "ctrlr_inv m \<longleftrightarrow> ctrlrs_ok (cm_ctrlrs m)"

lemma add_refines:
  assumes "ctrlr_inv m"
  shows "ctrlr_inv (snd (Ctrlr_Add c dt m)) \<and> (fst (Ctrlr_Add c dt m), ctrlr_abs (snd (Ctrlr_Add c dt m))) = spec_ctrlr_call (CallAdd c dt) (ctrlr_abs m)"
proof -
  let ?c = "Ctrlr_copy c dt" and ?cs = "cm_ctrlrs m"
  have k: "ct_key ?c = (ct_name c, dt)" "ct_datatype ?c = dt" by (simp_all add: ct_key_def Ctrlr_copy_def)
  have ok: "sorted (map ct_name ?cs)" "distinct (map ct_key ?cs)" using assms by (auto simp: ctrlr_inv_def ctrlrs_ok_def)
  have "ctrlrs_ok ds \<and> (\<lambda>k. find_ctrlr k ds) = (\<lambda>k. find_ctrlr k ?cs)((ct_name c, dt) \<mapsto> ?c)"
    if "add_loop ?c ?cs = Some ds" "configurable dt" for ds
  proof -
    have n: "(ct_name c, dt) \<notin> ct_key ` set ?cs" using add_loop_None [OF ok(1), of ?c] that k by auto
    have o: "ctrlrs_ok ds"
      using that assms k add_loop_set [OF that(1)] add_loop_sorted [OF ok(1) that(1)] add_loop_distinct [OF ok that(1)]
      by (auto simp: ctrlrs_ok_def ctrlr_inv_def)
    have "set ds = insert ?c {c' \<in> set ?cs. ct_key c' \<noteq> (ct_name c, dt)}" using n add_loop_set [OF that(1)] by (auto simp: image_iff)
    then have "(\<lambda>k. find_ctrlr k ds) = (\<lambda>k. find_ctrlr k ?cs)((ct_name c, dt) \<mapsto> ?c)"
      using ok(2) o k by (intro find_ctrlr_eqI) (auto simp: ctrlrs_ok_def)
    with o show ?thesis by blast
  qed
  moreover have "add_loop ?c ?cs = None \<longleftrightarrow> find_ctrlr (ct_name c, dt) ?cs \<noteq> None"
    using add_loop_None [OF ok(1), of ?c] k by (auto simp: find_ctrlr_None)
  ultimately show ?thesis
    using assms by (cases "add_loop ?c ?cs") (auto simp: Ctrlr_Add_def only_configurable_def ctrlr_abs_def ctrlr_inv_def Ctrlr_copy_def)
qed

lemma update_refines:
  assumes "ctrlr_inv m" "\<And>c. ct_key (f c) = ct_key c"
  shows "ctrlr_inv (snd (update_ctrlr k f m)) \<and> (fst (update_ctrlr k f m), ctrlr_abs (snd (update_ctrlr k f m))) = map_change k f (ctrlr_abs m)"
  using assms(1) change_ctrlr_ok [of "cm_ctrlrs m" k _ f] assms(2)
  by (cases "find_ctrlr k (cm_ctrlrs m)") (auto simp: update_ctrlr_def map_change_def ctrlr_abs_def ctrlr_inv_def)

lemma delete_refines:
  assumes "ctrlr_inv m"
  shows "ctrlr_inv (snd (Ctrlr_Delete nm dt m)) \<and>
    (fst (fst (Ctrlr_Delete nm dt m)), ctrlr_abs (snd (Ctrlr_Delete nm dt m))) = spec_ctrlr_call (CallDelete nm dt) (ctrlr_abs m)"
  using assms erase_ctrlr_ok [of "cm_ctrlrs m" "(nm, dt)"] find_ctrlr_None [of "(nm, dt)" "cm_ctrlrs m"]
  by (cases "find_ctrlr (nm, dt) (cm_ctrlrs m)")
    (auto simp: Ctrlr_Delete_def only_configurable_def ctrlr_abs_def ctrlr_inv_def)

lemma ct_key_updates [simp]:
  "ct_key (ct_version_update f c) = ct_key c" "ct_key (ct_audit_done_update g c) = ct_key c" "ct_key (ct_config_done_update g c) = ct_key c"
  "ct_key (ct_invalid_config_update g c) = ct_key c" "ct_key (ct_audit_type_update g c) = ct_key c"
  by (simp_all add: ct_key_def)

lemma call_refines:
  "ctrlr_inv m \<Longrightarrow> ctrlr_inv (snd (run_ctrlr_call c m)) \<and>
   (fst (run_ctrlr_call c m), ctrlr_abs (snd (run_ctrlr_call c m))) = spec_ctrlr_call c (ctrlr_abs m)"
proof (cases c)
  case (CallAdd x1 x2)
  assume "ctrlr_inv m"
  from add_refines [OF this] show ?thesis by (simp add: CallAdd)
next
  case (CallDelete x1 x2)
  assume "ctrlr_inv m"
  from delete_refines [OF this] show ?thesis by (simp add: CallDelete)
qed (auto simp: UpdateVersion_def UpdateAuditDone_def UpdateConfigDone_def UpdateInvalidConfig_def UpdateAuditType_def
    only_configurable_def update_refines [THEN conjunct1] update_refines [THEN conjunct2])

interpretation ctrlrs: data_refinement run_ctrlr_call spec_ctrlr_call ctrlr_inv ctrlr_abs
  by unfold_locales (use call_refines in blast)+

lemma ctrlr_inv_new: "ctrlr_inv CtrlrMgr_new" and ctrlr_abs_new: "ctrlr_abs CtrlrMgr_new = Map.empty"
  by (simp_all add: ctrlr_inv_def ctrlrs_ok_def CtrlrMgr_new_def ctrlr_abs_def find_ctrlr_def fun_eq_iff)


section \<open>Enumeration\<close>

lemma find_sorted:
  fixes f :: "'a \<Rightarrow> 'b :: linorder"
  assumes "sorted (map f xs)"
  shows "find P xs = None \<longleftrightarrow> {x \<in> set xs. P x} = {}" "find P xs = Some x \<Longrightarrow> f x = Min (f ` {x \<in> set xs. P x})"
proof -
  show "find P xs = None \<longleftrightarrow> {x \<in> set xs. P x} = {}" by (auto simp: find_None_iff)
  assume "find P xs = Some x"
  with assms show "f x = Min (f ` {x \<in> set xs. P x})"
  proof (induction xs)
    case (Cons y ys)
    show ?case
    proof (cases "P y")
      case True
      then show ?thesis using Cons.prems by (intro Min_eqI [symmetric]) auto
    next
      case False
      then have "{x \<in> set (y # ys). P x} = {x \<in> set ys. P x}" by auto
      then show ?thesis using Cons False by auto
    qed
  qed simp
qed

definition least_name :: "string set \<Rightarrow> upll_rc_t + string" where
  "least_name S = (if S = {} then Inl UPLL_RC_ERR_NO_SUCH_INSTANCE else Inr (Min S))"

lemma find_least_name:
  assumes "sorted (map ct_name cs)"
  shows "(case find P cs of None \<Rightarrow> Inl UPLL_RC_ERR_NO_SUCH_INSTANCE | Some c \<Rightarrow> Inr (ct_name c)) = least_name (ct_name ` {c \<in> set cs. P c})"
  using find_sorted [OF assms, of P] by (auto simp: least_name_def split: option.splits)

text \<open>The enumeration of the controllers of a datatype, from \<open>GetFirstCtrlrName\<close> on with \<open>GetNextCtrlrName\<close>, gives every name once
  and in the order of the names: the first is the least name, and the next one the least that is greater.
\<close>

theorem controllers_enumerated_in_order:
  fixes cs defines "m \<equiv> snd (runs run_ctrlr_call cs CtrlrMgr_new)"
  shows "GetFirstCtrlrName dt m = least_name {nm. ctrlr_abs m (nm, MapDataType dt) \<noteq> None}"
    "GetNextCtrlrName n dt m = least_name {nm. ctrlr_abs m (nm, MapDataType dt) \<noteq> None \<and> n < nm}"
proof -
  have "ctrlr_inv m" unfolding m_def by (rule ctrlrs.runs_inv [OF ctrlr_inv_new])
  then have s: "sorted (map ct_name (cm_ctrlrs m))" by (simp add: ctrlr_inv_def ctrlrs_ok_def)
  have "ctrlr_abs m (nm, d) \<noteq> None \<longleftrightarrow> nm \<in> ct_name ` {c \<in> set (cm_ctrlrs m). ct_datatype c = d}" for nm d
    by (auto simp: ctrlr_abs_def find_ctrlr_None ct_key_def)
  then have e: "{nm. ctrlr_abs m (nm, d) \<noteq> None \<and> Q nm} = ct_name ` {c \<in> set (cm_ctrlrs m). ct_datatype c = d \<and> Q (ct_name c)}" for d Q
    by auto
  show "GetFirstCtrlrName dt m = least_name {nm. ctrlr_abs m (nm, MapDataType dt) \<noteq> None}"
    using find_least_name [OF s, of "\<lambda>c. ct_datatype c = MapDataType dt"] e [of "MapDataType dt" "\<lambda>_. True"]
    by (simp add: GetFirstCtrlrName_def)
  show "GetNextCtrlrName n dt m = least_name {nm. ctrlr_abs m (nm, MapDataType dt) \<noteq> None \<and> n < nm}"
    using find_least_name [OF s, of "\<lambda>c. ct_datatype c = MapDataType dt \<and> n < ct_name c"] e [of "MapDataType dt" "\<lambda>nm. n < nm"]
    by (simp add: GetNextCtrlrName_def)
qed

section \<open>Counters of faults\<close>

lemma map_of_update: "map_of (AList.update k v al) k' = (if k' = k then Some v else map_of al k')"
  by (simp add: update_conv')

lemma map_of_delete: "map_of (AList.delete k al) k' = (if k' = k then None else map_of al k')"
  by (simp add: delete_conv')

lemma fault_count_set: "fault_count c' d' (set_fault c d n m) = (if c' = c \<and> d' = d then Some n else fault_count c' d' m)"
  by (simp add: fault_count_def set_fault_def map_of_update split: option.split)

lemma fault_count_erase: "fault_count c' d' (erase_fault c d m) = (if c' = c \<and> d' = d then None else fault_count c' d' m)"
proof -
  have "map_of ds d' = None" if "AList.delete d ds = []" "d' \<noteq> d" for ds :: "(string \<times> u32) list"
    using that map_of_delete [of d ds d'] by simp
  then show ?thesis
    by (auto simp: fault_count_def erase_fault_def map_of_update map_of_delete Let_def split: option.split)
qed

type_synonym fault_event = "string \<times> string \<times> bool"

definition fault_step :: "fault_event \<Rightarrow> CtrlrMgr \<Rightarrow> CtrlrMgr" where
  "fault_step e m = (case e of (c, d, b) \<Rightarrow> snd (UpdatePathFault (Some c) (Some d) b m))"

text \<open>The faults of a domain that are asserted and not yet recovered; a recovery without a fault is ignored.\<close>

fun pending_faults :: "string \<Rightarrow> string \<Rightarrow> fault_event list \<Rightarrow> nat \<Rightarrow> nat" where
  "pending_faults c d [] n = n"
| "pending_faults c d ((c', d', b) # es) n =
     pending_faults c d es (if c' = c \<and> d' = d then if b then n + 1 else n - 1 else n)"

definition counter :: "nat \<Rightarrow> u32 option" where
  "counter n = (if n = 0 then None else Some (of_nat n))"

lemma counter_step:
  assumes "fault_count c d m = counter n" "n + 1 < 2 ^ 32"
  shows "fault_count c d (fault_step (c', d', b) m) = counter (if c' = c \<and> d' = d then if b then n + 1 else n - 1 else n)"
proof -
  have 1: "(of_nat n :: u32) - 1 = of_nat (n - 1)" if "n \<noteq> 0" using that by (cases n) simp_all
  have "unat (of_nat (n - 1) :: u32) = n - 1" by (rule unat_of_nat_small) (use assms(2) in simp)
  then have 2: "(of_nat (n - 1) :: u32) = 0 \<longleftrightarrow> n - 1 = 0" using unat_0_iff [of "of_nat (n - 1) :: u32"] by argo
  show ?thesis
    using assms(1) 1 2
    by (auto simp: fault_step_def UpdatePathFault_def fault_count_set fault_count_erase counter_def add.commute split: option.splits if_splits)
qed

lemma counters:
  "fault_count c d m = counter n \<Longrightarrow> n + length es < 2 ^ 32 \<Longrightarrow> fault_count c d (fold fault_step es m) = counter (pending_faults c d es n)"
proof (induction es arbitrary: m n)
  case (Cons e es)
  obtain c' d' b where e: "e = (c', d', b)" by (cases e)
  let ?n = "if c' = c \<and> d' = d then if b then n + 1 else n - 1 else n"
  from counter_step [OF Cons.prems(1)] Cons.prems(2) have "fault_count c d (fault_step e m) = counter ?n" by (simp add: e)
  moreover have "?n + length es < 2 ^ 32" using Cons.prems(2) by auto
  ultimately show ?case using Cons.IH [of "fault_step e m" ?n] by (simp add: e)
qed simp

lemma IsPathFaultOccured_count: "c \<noteq> ''*'' \<Longrightarrow> d \<noteq> ''*'' \<Longrightarrow> IsPathFaultOccured (Some c) (Some d) m \<longleftrightarrow> fault_count c d m \<noteq> None"
  by (auto simp: IsPathFaultOccured_def fault_count_def split: option.splits)



end
