(* ===== verification/UL_Service.thy ===== *)
theory UL_Service
  imports UL_Build UL_Lock UL_DbConn TL_Module
begin

text \<open>
  The requests of the key tree in UPLL (\<open>KtServiceHandler\<close> and the checks before it, of \<open>modules/upll/config_mgr.cc\<close>): the checks
  with the session that TC has announced, the locks, the choice of the database connection, the end of the transaction. The managed
  objects are an argument, by the result of their call. A request is one step.
\<close>

section \<open>Requests\<close>

datatype upll_service_ids_t = UPLL_EDIT_SVC_ID | UPLL_READ_SVC_ID | UPLL_CONTROL_SVC_ID | UPLL_GLOBAL_CONFIG_SVC_ID

record IpcReqRespHeader =
  ih_clnt_sess_id :: u32
  ih_config_id :: u32
  ih_operation :: unc_keytype_operation_t
  ih_rep_count :: u32
  ih_option1 :: u32
  ih_option2 :: u32
  ih_datatype :: upll_keytype_datatype_t
  ih_result_code :: upll_rc_t

text \<open>The rest of the node: its state, the library of TC if it is loaded, the managed objects and the data access layer.\<close>

record kt_env =
  ke_active :: bool
  ke_tclib :: "TcLibModule option"
  ke_momgr :: "unc_key_type_t \<Rightarrow> bool"
  ke_mo :: upll_rc_t
  ke_write_count :: nat
  ke_config_is_rw :: bool
  ke_end_of_tx :: DalResultCode
  ke_new_addr :: nat
  ke_open :: "DalResultCode \<times> DalResultCode"
  ke_conn_lost :: bool

record UpllConfigMgr =
  uc_dbcm :: UpllDbConnMgr
  uc_batch_mode_in_progress :: bool
  uc_batch_op_cnt :: u32
  uc_batch_commit_limit :: u32
  uc_candidate_dirty_qc :: bool
  uc_import_ctrlr_id :: string

section \<open>Checks\<close>

definition ValidSession :: "TcLibModule option \<Rightarrow> u32 \<Rightarrow> u32 \<Rightarrow> upll_rc_t" where
  "ValidSession tclib clnt_sess_id config_id =
     (case tclib of
        None \<Rightarrow> UPLL_RC_ERR_GENERIC
      | Some t \<Rightarrow>
          if TcLibValidateUpdateMsg clnt_sess_id config_id t = TC_API_COMMON_SUCCESS then UPLL_RC_SUCCESS
          else UPLL_RC_ERR_BAD_CONFIG_OR_SESSION_ID)"

abbreviation UNC_OPT1_NORMAL :: u32 where "UNC_OPT1_NORMAL \<equiv> 0"
abbreviation UNC_OPT1_DETAIL :: u32 where "UNC_OPT1_DETAIL \<equiv> 1"
abbreviation UNC_OPT1_COUNT :: u32 where "UNC_OPT1_COUNT \<equiv> 2"
abbreviation UNC_OPT2_NONE :: u32 where "UNC_OPT2_NONE \<equiv> 0"

definition ValidIpcOption1 :: "u32 \<Rightarrow> upll_rc_t" where
  "ValidIpcOption1 opt1 =
     (if opt1 = UNC_OPT1_NORMAL \<or> opt1 = UNC_OPT1_DETAIL \<or> opt1 = UNC_OPT1_COUNT then UPLL_RC_SUCCESS else UPLL_RC_ERR_INVALID_OPTION1)"

definition ValidIpcDatatype :: "upll_keytype_datatype_t \<Rightarrow> upll_rc_t" where
  "ValidIpcDatatype datatype =
     (if datatype \<in> {UPLL_DT_STATE, UPLL_DT_CANDIDATE, UPLL_DT_RUNNING, UPLL_DT_STARTUP, UPLL_DT_IMPORT} then UPLL_RC_SUCCESS
      else UPLL_RC_ERR_NO_SUCH_DATATYPE)"

definition ValidIpcOperation :: "bool \<Rightarrow> upll_service_ids_t \<Rightarrow> upll_keytype_datatype_t \<Rightarrow> unc_keytype_operation_t \<Rightarrow> upll_rc_t" where
  "ValidIpcOperation active service datatype operation =
     (if service = UPLL_EDIT_SVC_ID
      then (if \<not> active then UPLL_RC_ERR_NOT_SUPPORTED_BY_STANDBY
            else if operation \<in> {UNC_OP_CREATE, UNC_OP_DELETE, UNC_OP_UPDATE}
            then (if datatype = UPLL_DT_CANDIDATE then UPLL_RC_SUCCESS else UPLL_RC_ERR_NOT_ALLOWED_FOR_THIS_DT)
            else if operation = UNC_OP_RENAME
            then (if datatype = UPLL_DT_IMPORT then UPLL_RC_SUCCESS else UPLL_RC_ERR_NOT_ALLOWED_FOR_THIS_DT)
            else UPLL_RC_ERR_NO_SUCH_OPERATION)
      else if service = UPLL_READ_SVC_ID
      then (if \<not> active \<and> datatype = UPLL_DT_STATE then UPLL_RC_ERR_NOT_SUPPORTED_BY_STANDBY
            else if operation \<in> {UNC_OP_READ, UNC_OP_READ_SIBLING, UNC_OP_READ_SIBLING_BEGIN} then UPLL_RC_SUCCESS
            else if operation = UNC_OP_READ_SIBLING_COUNT
            then (if datatype \<in> {UPLL_DT_CANDIDATE, UPLL_DT_RUNNING, UPLL_DT_STARTUP, UPLL_DT_STATE} then UPLL_RC_SUCCESS
                  else UPLL_RC_ERR_NOT_ALLOWED_FOR_THIS_DT)
            else if operation \<in> {UNC_OP_READ_NEXT, UNC_OP_READ_BULK}
            then (if datatype = UPLL_DT_STATE then UPLL_RC_ERR_NOT_ALLOWED_FOR_THIS_DT else UPLL_RC_SUCCESS)
            else UPLL_RC_ERR_NO_SUCH_OPERATION)
      else if service = UPLL_CONTROL_SVC_ID
      then (if \<not> active then UPLL_RC_ERR_NOT_SUPPORTED_BY_STANDBY
            else if operation = UNC_OP_CONTROL then UPLL_RC_SUCCESS
            else UPLL_RC_ERR_NO_SUCH_OPERATION)
      else UPLL_RC_ERR_BAD_REQUEST)"

text \<open>The checks in their order; the first that fails gives the result.\<close>

fun first_failure :: "upll_rc_t list \<Rightarrow> upll_rc_t" where
  "first_failure [] = UPLL_RC_SUCCESS"
| "first_failure (rc # rcs) = (if rc \<noteq> UPLL_RC_SUCCESS then rc else first_failure rcs)"

definition ValidateKtRequest :: "kt_env \<Rightarrow> upll_service_ids_t \<Rightarrow> IpcReqRespHeader \<Rightarrow> upll_rc_t" where
  "ValidateKtRequest env service msghdr =
     first_failure
       [if service = UPLL_EDIT_SVC_ID \<or> service = UPLL_READ_SVC_ID \<and> ih_datatype msghdr = UPLL_DT_CANDIDATE
        then ValidSession (ke_tclib env) (ih_clnt_sess_id msghdr) (ih_config_id msghdr) else UPLL_RC_SUCCESS,
        ValidIpcOperation (ke_active env) service (ih_datatype msghdr) (ih_operation msghdr),
        ValidIpcOption1 (ih_option1 msghdr),
        if service = UPLL_EDIT_SVC_ID \<and> ih_option1 msghdr \<noteq> UNC_OPT1_NORMAL then UPLL_RC_ERR_INVALID_OPTION1 else UPLL_RC_SUCCESS,
        if service = UPLL_EDIT_SVC_ID \<and> ih_option2 msghdr \<noteq> UNC_OPT2_NONE then UPLL_RC_ERR_INVALID_OPTION2 else UPLL_RC_SUCCESS,
        ValidIpcDatatype (ih_datatype msghdr)]"

section \<open>The handler\<close>

text \<open>What a request does to the rest: calls on the locks, the call of a managed object, the end of a transaction with commit or rollback.\<close>

datatype kt_event = EvLock lock_call | EvMo unc_keytype_operation_t | EvTx bool

abbreviation edits :: "unc_keytype_operation_t set" where
  "edits \<equiv> {UNC_OP_CREATE, UNC_OP_UPDATE, UNC_OP_DELETE, UNC_OP_RENAME}"

abbreviation reads :: "unc_keytype_operation_t set" where
  "reads \<equiv> {UNC_OP_READ, UNC_OP_READ_NEXT, UNC_OP_READ_BULK, UNC_OP_READ_SIBLING_BEGIN, UNC_OP_READ_SIBLING, UNC_OP_READ_SIBLING_COUNT}"

definition uses_config_conn :: "IpcReqRespHeader \<Rightarrow> bool" where
  "uses_config_conn h \<longleftrightarrow> ih_operation h \<in> edits \<or> ih_operation h \<in> reads \<and> ih_datatype h = UPLL_DT_CANDIDATE"

text \<open>The connection, or the error; \<open>None\<close> if the request waits for a connection for ever.\<close>

definition kt_open :: "kt_env \<Rightarrow> IpcReqRespHeader \<Rightarrow> UpllDbConnMgr \<Rightarrow> ((upll_rc_t + nat) \<times> UpllDbConnMgr) option" where
  "kt_open env h m =
     (if uses_config_conn h
      then (case GetConfigRwConn m of
              (None, m) \<Rightarrow> Some (Inl UPLL_RC_ERR_GENERIC, m)
            | (Some d, m) \<Rightarrow> Some (Inr d, m))
      else do { m \<leftarrow> AcquireRoConn_wait m;
                case AcquireRoConn_locked (ke_new_addr env) (ke_open env) m of
                  ((rc, None), m) \<Rightarrow> Some (Inl rc, m)
                | ((rc, Some d), m) \<Rightarrow> Some (Inr d, m) })"

definition kt_call :: "kt_env \<Rightarrow> IpcReqRespHeader \<Rightarrow> UpllConfigMgr \<Rightarrow> upll_rc_t \<times> kt_event list" where
  "kt_call env h s =
     (if ih_operation h = UNC_OP_RENAME \<and> uc_import_ctrlr_id s = [] then (UPLL_RC_ERR_NOT_ALLOWED_AT_THIS_TIME, [])
      else if ih_operation h = UNC_OP_READ_SIBLING_COUNT \<and> ke_mo env = UPLL_RC_ERR_NO_SUCH_INSTANCE
      then (UPLL_RC_SUCCESS, [EvMo (ih_operation h)])
      else if ih_operation h \<in> edits \<or> ih_operation h \<in> reads \<or> ih_operation h = UNC_OP_CONTROL then (ke_mo env, [EvMo (ih_operation h)])
      else (UPLL_RC_ERR_NO_SUCH_OPERATION, []))"

text \<open>The end of the transaction of a connection for writing: the result of the database, what was done and the counter of the batch.\<close>

definition tx_close :: "kt_env \<Rightarrow> bool \<Rightarrow> bool \<Rightarrow> upll_rc_t \<times> kt_event list" where
  "tx_close env read_write commit = (let (committed, rc) = DalTxClose read_write commit (ke_end_of_tx env) in (rc, [EvTx committed]))"

definition kt_end_rw :: "kt_env \<Rightarrow> IpcReqRespHeader \<Rightarrow> upll_rc_t \<Rightarrow> UpllConfigMgr \<Rightarrow> (upll_rc_t \<times> kt_event list) \<times> u32" where
  "kt_end_rw env h urc s =
     (let commit = (urc = UPLL_RC_SUCCESS \<and> ih_operation h \<in> edits)
      in if \<not> uc_batch_mode_in_progress s then (tx_close env True commit, uc_batch_op_cnt s)
         else if ih_operation h \<in> edits
         then (if urc \<noteq> UPLL_RC_SUCCESS \<and> ke_write_count env > 0 then (tx_close env True False, uc_batch_op_cnt s)
               else if uc_batch_op_cnt s + 1 \<ge> uc_batch_commit_limit s then (tx_close env True True, 0)
               else ((UPLL_RC_SUCCESS, []), uc_batch_op_cnt s + 1))
         else if ih_datatype h = UPLL_DT_CANDIDATE then ((UPLL_RC_SUCCESS, []), uc_batch_op_cnt s)
         else (tx_close env True commit, uc_batch_op_cnt s))"

text \<open>From the call of the managed object to the release of the connection.\<close>

definition kt_perform :: "kt_env \<Rightarrow> IpcReqRespHeader \<Rightarrow> nat \<Rightarrow> UpllConfigMgr \<Rightarrow> (upll_rc_t \<times> kt_event list) \<times> UpllConfigMgr" where
  "kt_perform env h d s =
     (let (urc, calls) = kt_call env h s
      in if uses_config_conn h \<and> ke_config_is_rw env
         then let ((db_urc, ends), cnt) = kt_end_rw env h urc s
              in ((if urc = UPLL_RC_SUCCESS then db_urc else urc, calls @ ends),
                  s\<lparr>uc_batch_op_cnt := cnt, uc_dbcm := ReleaseRwConn d (uc_dbcm s)\<rparr>)
         else ((urc, calls @ snd (tx_close env False False)),
               s\<lparr>uc_dbcm := snd (ReleaseRoConn d (ke_conn_lost env) (uc_dbcm s))\<rparr>))"

definition kt_locked :: "kt_env \<Rightarrow> IpcReqRespHeader \<Rightarrow> UpllConfigMgr \<Rightarrow> ((upll_rc_t \<times> kt_event list) \<times> UpllConfigMgr) option" where
  "kt_locked env h s =
     do { (r, m) \<leftarrow> kt_open env h (uc_dbcm s);
          let s = s\<lparr>uc_dbcm := m\<rparr>;
          case r of
            Inl rc \<Rightarrow> Some ((rc, []), s)
          | Inr d \<Rightarrow>
              (let ((urc, evs), s) = kt_perform env h d s
               in Some ((urc, evs),
                        if urc = UPLL_RC_SUCCESS \<and> ih_datatype h = UPLL_DT_CANDIDATE \<and>
                           ih_operation h \<in> {UNC_OP_CREATE, UNC_OP_UPDATE, UNC_OP_DELETE}
                        then s\<lparr>uc_candidate_dirty_qc := True\<rparr> else s)) }"

definition kMaxReadBulkCount :: u32 where
  "kMaxReadBulkCount = 10000"

definition momgr_required :: "IpcReqRespHeader \<Rightarrow> unc_key_type_t \<Rightarrow> bool" where
  "momgr_required h kt \<longleftrightarrow> \<not> (ih_operation h \<in> {UNC_OP_READ_NEXT, UNC_OP_READ_BULK} \<and> kt = UNC_KT_ROOT)"

definition KtServiceHandler :: "kt_env \<Rightarrow> upll_service_ids_t \<Rightarrow> IpcReqRespHeader \<Rightarrow> unc_key_type_t \<Rightarrow> UpllConfigMgr \<Rightarrow>
    ((IpcReqRespHeader \<times> kt_event list) \<times> UpllConfigMgr) option" where
  "KtServiceHandler env service h kt s =
     (let urc = ValidateKtRequest env service h; counted = ih_operation h \<in> {UNC_OP_READ_BULK, UNC_OP_READ_SIBLING_BEGIN, UNC_OP_READ_SIBLING}
      in if urc \<noteq> UPLL_RC_SUCCESS then Some ((h\<lparr>ih_result_code := urc\<rparr>, []), s)
         else if momgr_required h kt \<and> \<not> ke_momgr env kt then Some ((h\<lparr>ih_result_code := UPLL_RC_ERR_NO_SUCH_NAME\<rparr>, []), s)
         else if counted \<and> ih_rep_count h = 0 then Some ((h\<lparr>ih_result_code := UPLL_RC_SUCCESS\<rparr>, []), s)
         else let h = (if counted \<and> ih_rep_count h > kMaxReadBulkCount then h\<lparr>ih_rep_count := kMaxReadBulkCount\<rparr> else h);
                  (ok, takes) = TakeConfigLock (ih_operation h) (ih_datatype h)
              in if \<not> ok then Some ((h\<lparr>ih_result_code := UPLL_RC_ERR_GENERIC\<rparr>, map EvLock takes), s)
                 else do { ((urc, evs), s) \<leftarrow> kt_locked env h s;
                           Some ((h\<lparr>ih_result_code := urc\<rparr>,
                                  map EvLock takes @ evs @ map EvLock (snd (ReleaseConfigLock_upll (ih_operation h) (ih_datatype h)))), s) })"

section \<open>Facts about the handler\<close>

lemma validated_session:
  assumes "ValidateKtRequest env service h = UPLL_RC_SUCCESS" "ih_operation h \<in> edits"
  shows "service = UPLL_EDIT_SVC_ID \<and> ke_active env \<and>
    (\<exists>t. ke_tclib env = Some t \<and> tl_session_id t = ih_clnt_sess_id h \<and> tl_config_id t = ih_config_id h \<and> ih_clnt_sess_id h \<noteq> 0 \<and> ih_config_id h \<noteq> 0) \<and>
    ih_datatype h = (if ih_operation h = UNC_OP_RENAME then UPLL_DT_IMPORT else UPLL_DT_CANDIDATE)"
  using assms
  by (auto simp: ValidateKtRequest_def ValidIpcOperation_def ValidSession_def TcLibValidateUpdateMsg_def split: if_splits option.splits)

lemma kt_call_events: "set (snd (kt_call env h s)) \<subseteq> {EvMo (ih_operation h)}"
  by (simp add: kt_call_def)

lemma tx_close_events: "set (snd (tx_close env rw commit)) \<subseteq> range EvTx"
  by (simp add: tx_close_def DalTxClose_def)

lemma kt_end_rw_events: "set (snd (fst (kt_end_rw env h urc s))) \<subseteq> range EvTx"
  using tx_close_events by (auto simp: kt_end_rw_def Let_def split: if_splits)

lemma kt_perform_events: "set (snd (fst (kt_perform env h d s))) \<subseteq> insert (EvMo (ih_operation h)) (range EvTx)"
  using kt_call_events [of env h s] tx_close_events [of env False False] kt_end_rw_events [of env h "fst (kt_call env h s)" s]
  by (auto simp: kt_perform_def split: prod.splits if_splits)

lemma kt_lockedE:
  assumes "kt_locked env h s = Some ((urc, evs), s')"
  obtains m where "kt_open env h (uc_dbcm s) = Some (Inl urc, m)" "evs = []" "s' = s\<lparr>uc_dbcm := m\<rparr>"
  | d m s1 where "kt_open env h (uc_dbcm s) = Some (Inr d, m)" "kt_perform env h d (s\<lparr>uc_dbcm := m\<rparr>) = ((urc, evs), s1)"
      "uc_dbcm s' = uc_dbcm s1"
proof -
  from assms obtain r m where r: "kt_open env h (uc_dbcm s) = Some (r, m)" by (auto simp: kt_locked_def bind_eq_Some_conv)
  show thesis
  proof (cases r)
    case (Inl rc)
    then show thesis using assms r that(1) by (auto simp: kt_locked_def)
  next
    case (Inr d)
    obtain urc1 evs1 s1 where p: "kt_perform env h d (s\<lparr>uc_dbcm := m\<rparr>) = ((urc1, evs1), s1)" by (metis surj_pair)
    then have "urc1 = urc" "evs1 = evs" "uc_dbcm s' = uc_dbcm s1" using assms r Inr by (auto simp: kt_locked_def split: if_splits)
    then show thesis using that(2) r Inr p by blast
  qed
qed

lemma kt_locked_events:
  assumes "kt_locked env h s = Some ((urc, evs), s')"
  shows "set evs \<subseteq> insert (EvMo (ih_operation h)) (range EvTx)"
  using assms
proof (cases rule: kt_lockedE)
  case (2 d m s1)
  then show ?thesis using kt_perform_events [of env h d "s\<lparr>uc_dbcm := m\<rparr>"] by simp
qed simp

text \<open>Either nothing is done, or the work is between the locks.\<close>

lemma TakeConfigLock_refused: "\<not> fst (TakeConfigLock oper dt) \<Longrightarrow> snd (TakeConfigLock oper dt) = []"
  by (cases oper; cases dt)
    (auto simp: TakeConfigLock_def FindRequiredLocks_def Lock2_def lock_simps lockable_def less_upll_keytype_datatype_t_def)

lemma locks_around: "fst (TakeConfigLock oper dt) \<Longrightarrow> disciplined pref [] (snd (TakeConfigLock oper dt) @ snd (ReleaseConfigLock_upll oper dt))"
  by (cases oper; cases dt)
    (auto simp: TakeConfigLock_def ReleaseConfigLock_upll_def FindRequiredLocks_def Lock2_def Unlock2_def lock_simps lockable_def
      less_upll_keytype_datatype_t_def less_eq_upll_keytype_datatype_t_def max_def min_def)

lemma KtServiceHandlerE:
  assumes "KtServiceHandler env service h kt s = Some ((h', evs), s')"
  obtains "s' = s" "evs = []"
  | h1 urc inner where "ValidateKtRequest env service h = UPLL_RC_SUCCESS" "ih_operation h1 = ih_operation h" "ih_datatype h1 = ih_datatype h"
      "fst (TakeConfigLock (ih_operation h) (ih_datatype h))" "kt_locked env h1 s = Some ((urc, inner), s')" "ih_result_code h' = urc"
      "evs = map EvLock (snd (TakeConfigLock (ih_operation h) (ih_datatype h))) @ inner @
         map EvLock (snd (ReleaseConfigLock_upll (ih_operation h) (ih_datatype h)))"
proof -
  let ?h1 = "if ih_operation h \<in> {UNC_OP_READ_BULK, UNC_OP_READ_SIBLING_BEGIN, UNC_OP_READ_SIBLING} \<and> ih_rep_count h > kMaxReadBulkCount
    then h\<lparr>ih_rep_count := kMaxReadBulkCount\<rparr> else h"
  have h1: "ih_operation ?h1 = ih_operation h" "ih_datatype ?h1 = ih_datatype h" by simp_all
  obtain ok takes where t: "TakeConfigLock (ih_operation h) (ih_datatype h) = (ok, takes)" by fastforce
  show thesis
  proof (cases "evs = [] \<and> s' = s")
    case False
    with assms have v: "ValidateKtRequest env service h = UPLL_RC_SUCCESS" by (auto simp: KtServiceHandler_def Let_def split: if_splits)
    have ok: "fst (TakeConfigLock (ih_operation h) (ih_datatype h))"
      using assms False TakeConfigLock_refused [of "ih_operation h" "ih_datatype h"]
      by (auto simp: KtServiceHandler_def Let_def t h1 split: if_splits)
    from assms False v ok have "do { ((urc, inner), s) \<leftarrow> kt_locked env ?h1 s;
        Some ((?h1\<lparr>ih_result_code := urc\<rparr>, map EvLock takes @ inner @
          map EvLock (snd (ReleaseConfigLock_upll (ih_operation h) (ih_datatype h)))), s) } = Some ((h', evs), s')"
      unfolding KtServiceHandler_def Let_def by (simp only: h1 t fst_conv prod.case) (auto split: if_splits)
    then obtain urc inner where "kt_locked env ?h1 s = Some ((urc, inner), s')" "h' = ?h1\<lparr>ih_result_code := urc\<rparr>"
      "evs = map EvLock takes @ inner @ map EvLock (snd (ReleaseConfigLock_upll (ih_operation h) (ih_datatype h)))"
      unfolding bind_eq_Some_conv by auto
    then show thesis using that(2) [OF v h1 ok, of urc inner] t by simp
  qed (use that in blast)
qed

lemma TakeConfigLock_taken: "fst (TakeConfigLock oper dt) \<Longrightarrow> snd (TakeConfigLock oper dt) \<noteq> []"
  by (cases oper; cases dt)
    (auto simp: TakeConfigLock_def FindRequiredLocks_def Lock2_def lock_simps lockable_def less_upll_keytype_datatype_t_def)

lemma refused_edit:
  assumes "KtServiceHandler env service h kt s = Some ((h', []), s')" "ih_operation h \<in> edits"
  shows "ih_result_code h' \<noteq> UPLL_RC_SUCCESS"
  using assms TakeConfigLock_taken [of "ih_operation h" "ih_datatype h"]
  by (auto simp: KtServiceHandler_def bind_eq_Some_conv Let_def split: if_splits prod.splits)

section \<open>The connection of a request\<close>

lemma ro_config_conn [simp]:
  "dm_config_rw_conn (TerminateAllRoConns_NoLock m) = dm_config_rw_conn m"
  "dm_config_rw_conn (snd (ReleaseRoConn d lost m)) = dm_config_rw_conn m"
  "dm_config_rw_conn (snd (AcquireRoConn_locked addr drcs m)) = dm_config_rw_conn m"
  by (auto simp: TerminateAllRoConns_NoLock_def ReleaseRoConn_def AcquireRoConn_locked_def Let_def split: option.splits prod.splits)

lemma wait_ro:
  assumes "AcquireRoConn_wait m = Some m'"
  shows "pool_ok (m', w, us) = pool_ok (m, w', us)" "dm_config_rw_conn m' = dm_config_rw_conn m" "dm_ro_conn_pool m' = dm_ro_conn_pool m"
  using assms by (auto simp: AcquireRoConn_wait_def pool_ok_def split: if_splits)

definition rw_free :: "UpllDbConnMgr \<Rightarrow> bool" where
  "rw_free m \<longleftrightarrow> (\<forall>c. dm_config_rw_conn m = Some c \<longrightarrow> dc_in_use_cnt c \<noteq> UINT32_MAX)"

lemma config_conn_back:
  assumes "GetConfigRwConn m = (Some d, m')" "rw_free m"
  shows "dm_config_rw_conn (ReleaseRwConn d m') = dm_config_rw_conn m"
proof -
  obtain c where c: "dm_config_rw_conn m = Some c" "d = dc_dom c" "m' = m\<lparr>dm_config_rw_conn := Some (c\<lparr>dc_in_use_cnt := dc_in_use_cnt c + 1\<rparr>)\<rparr>"
    using assms(1) by (cases "dm_config_rw_conn m") (auto simp: GetConfigRwConn_def get_rw_def)
  have "dc_in_use_cnt c + 1 \<noteq> 0" using assms(2) c(1) by (metis UINT32_MAX_plus_1 add_right_cancel rw_free_def)
  then show ?thesis using c by (simp add: ReleaseRwConn_def has_dom_def release_rw_def)
qed

lemma kt_open_ro:
  assumes "kt_open env h m = Some (r, m')" "\<not> uses_config_conn h"
  shows "\<exists>m1 rc. AcquireRoConn_wait m = Some m1 \<and>
    AcquireRoConn_locked (ke_new_addr env) (ke_open env) m1 = ((rc, case r of Inl _ \<Rightarrow> None | Inr d \<Rightarrow> Some d), m')"
proof -
  from assms obtain m1 where m1: "AcquireRoConn_wait m = Some m1" by (auto simp: kt_open_def bind_eq_Some_conv)
  obtain rc dm m2 where "AcquireRoConn_locked (ke_new_addr env) (ke_open env) m1 = ((rc, dm), m2)" by (metis surj_pair)
  then show ?thesis using assms m1 by (cases dm) (auto simp: kt_open_def)
qed

lemma open_failed:
  assumes "kt_open env h m = Some (Inl rc, m')" "pool_ok (m, w, us)" "ke_new_addr env \<notin> dc_dom ` set (dm_ro_conn_pool m)"
  shows "pool_ok (m', w, us) \<and> dm_config_rw_conn m' = dm_config_rw_conn m"
proof (cases "uses_config_conn h")
  case True
  then have "dm_config_rw_conn m = None" "m' = m\<lparr>dm_config_rw_conn := None\<rparr>"
    using assms(1) by (auto simp: kt_open_def GetConfigRwConn_def get_rw_def split: option.splits prod.splits)
  then show ?thesis using assms(2) by (auto simp: pool_ok_def)
next
  case False
  then obtain m1 rc1 where m1: "AcquireRoConn_wait m = Some m1" "AcquireRoConn_locked (ke_new_addr env) (ke_open env) m1 = ((rc1, None), m')"
    using kt_open_ro [OF assms(1)] by auto
  have "pool_ok (m1, w, us)" using wait_ro(1) [OF m1(1)] assms(2) by blast
  from acquire_pool_ok [OF this _ m1(2), of w] show ?thesis
    using assms(3) wait_ro [OF m1(1)] ro_config_conn(3) [of "ke_new_addr env" "ke_open env" m1] m1(2) by simp
qed

lemma open_perform:
  assumes "kt_open env h m = Some (Inr d, m')" "pool_ok (m, w, us)" "ke_new_addr env \<notin> dc_dom ` set (dm_ro_conn_pool m)"
    "ke_config_is_rw env" "rw_free m"
  shows "pool_ok (uc_dbcm (snd (kt_perform env h d (s\<lparr>uc_dbcm := m'\<rparr>))), w, us) \<and>
    dm_config_rw_conn (uc_dbcm (snd (kt_perform env h d (s\<lparr>uc_dbcm := m'\<rparr>)))) = dm_config_rw_conn m"
proof (cases "uses_config_conn h")
  case True
  then have g: "GetConfigRwConn m = (Some d, m')" using assms(1) by (auto simp: kt_open_def split: prod.splits option.splits)
  then have "ro_part m' = ro_part m" using rw_ro_part(1) [of m] by simp
  then have "pool_ok (ReleaseRwConn d m', w, us)" using assms(2) pool_ok_ro_part rw_ro_part(4) by metis
  then show ?thesis
    using True assms(4) config_conn_back [OF g assms(5)] by (auto simp: kt_perform_def split: prod.splits)
next
  case False
  then obtain m1 rc where m1: "AcquireRoConn_wait m = Some m1" "AcquireRoConn_locked (ke_new_addr env) (ke_open env) m1 = ((rc, Some d), m')"
    using kt_open_ro [OF assms(1)] by auto
  have "pool_ok (m1, w, us)" using wait_ro(1) [OF m1(1)] assms(2) by blast
  from acquire_pool_ok [OF this _ m1(2), of w] have "pool_ok (m', w, d # us)" using assms(3) wait_ro(3) [OF m1(1)] by simp
  from release_pool_ok [OF this, of d "ke_conn_lost env"] have "pool_ok (snd (ReleaseRoConn d (ke_conn_lost env) m'), w, us)" by simp
  moreover have "dm_config_rw_conn m' = dm_config_rw_conn m"
    using ro_config_conn(3) [of "ke_new_addr env" "ke_open env" m1] m1(2) wait_ro(2) [OF m1(1)] by simp
  ultimately show ?thesis using False by (auto simp: kt_perform_def split: prod.splits)
qed

definition lock_events :: "kt_event list \<Rightarrow> lock_call list" where
  "lock_events evs = [c. EvLock c \<leftarrow> evs]"

lemma lock_events_append: "lock_events (xs @ ys) = lock_events xs @ lock_events ys"
  by (simp add: lock_events_def)

lemma lock_events_EvLock: "lock_events (map EvLock cs) = cs"
  by (induction cs) (simp_all add: lock_events_def)

lemma lock_events_other: "set evs \<subseteq> insert (EvMo oper) (range EvTx) \<Longrightarrow> lock_events evs = []"
  by (auto simp: lock_events_def)

text \<open>A node on which TC has announced the session 5 with the configuration 9, and a request of that session.\<close>

definition example_env :: kt_env where
  "example_env =
     \<lparr>ke_active = True, ke_tclib = Some (TcLibModule_new\<lparr>tl_session_id := 5, tl_config_id := 9\<rparr>), ke_momgr = (\<lambda>_. True),
      ke_mo = UPLL_RC_SUCCESS, ke_write_count = 1, ke_config_is_rw = True, ke_end_of_tx = kDalRcSuccess, ke_new_addr = 8,
      ke_open = (kDalRcSuccess, kDalRcSuccess), ke_conn_lost = False\<rparr>"

definition example_request :: IpcReqRespHeader where
  "example_request =
     \<lparr>ih_clnt_sess_id = 5, ih_config_id = 9, ih_operation = UNC_OP_CREATE, ih_rep_count = 0, ih_option1 = UNC_OPT1_NORMAL,
      ih_option2 = UNC_OPT2_NONE, ih_datatype = UPLL_DT_CANDIDATE, ih_result_code = UPLL_RC_ERR_GENERIC\<rparr>"

definition example_mgr :: UpllConfigMgr where
  "example_mgr =
     \<lparr>uc_dbcm = (UpllDbConnMgr_new 1)\<lparr>dm_config_rw_conn := Some (DbConn_new 3)\<rparr>, uc_batch_mode_in_progress = False, uc_batch_op_cnt = 0,
      uc_batch_commit_limit = 1000, uc_candidate_dirty_qc = False, uc_import_ctrlr_id = []\<rparr>"

lemma example_run:
  obtains h' evs s' where "KtServiceHandler example_env UPLL_EDIT_SVC_ID example_request UNC_KT_VTN example_mgr = Some ((h', evs), s')"
    "EvMo UNC_OP_CREATE \<in> set evs" "EvTx True \<in> set evs"
proof -
  have "map_option (\<lambda>x. snd (fst x)) (KtServiceHandler example_env UPLL_EDIT_SVC_ID example_request UNC_KT_VTN example_mgr) =
     Some [EvLock (wrlock UPLL_DT_CANDIDATE), EvLock (rdlock UPLL_DT_RUNNING), EvMo UNC_OP_CREATE, EvTx True,
        EvLock (unlock UPLL_DT_RUNNING), EvLock (unlock UPLL_DT_CANDIDATE)]"
    by code_simp
  then show thesis using that by (fastforce simp: map_option_eq_Some)
qed

section \<open>Results\<close>

text \<open>C26: UPLL carries out a change of the configuration only on the active node and for the session and configuration identifier that
  TC has announced to it: the candidate is created, updated or deleted in, and the import renamed in, by the holder of the configuration alone.
\<close>

theorem edits_need_config_session:
  assumes "KtServiceHandler env service h kt s = Some ((h', evs), s')" "EvMo oper \<in> set evs" "oper \<in> edits"
  shows "ke_active env \<and> service = UPLL_EDIT_SVC_ID \<and> oper = ih_operation h \<and>
    ih_datatype h = (if oper = UNC_OP_RENAME then UPLL_DT_IMPORT else UPLL_DT_CANDIDATE) \<and>
    (\<exists>t. ke_tclib env = Some t \<and> tl_session_id t = ih_clnt_sess_id h \<and> tl_config_id t = ih_config_id h \<and> ih_clnt_sess_id h \<noteq> 0 \<and> ih_config_id h \<noteq> 0)"
  using assms(1)
proof (cases rule: KtServiceHandlerE)
  case (2 h1 urc inner)
  then have o: "oper = ih_operation h" using assms(2) kt_locked_events [OF 2(5)] by auto
  show ?thesis using validated_session [OF 2(1)] assms(3) unfolding o by auto
qed (use assms(2) in simp)

theorem edits_need_config_session_witness:
  "\<exists>h' evs s'. KtServiceHandler example_env UPLL_EDIT_SVC_ID example_request UNC_KT_VTN example_mgr = Some ((h', evs), s') \<and>
     EvMo UNC_OP_CREATE \<in> set evs \<and> ke_active example_env"
proof (rule example_run)
  fix h' evs s'
  assume a: "KtServiceHandler example_env UPLL_EDIT_SVC_ID example_request UNC_KT_VTN example_mgr = Some ((h', evs), s')" "EvMo UNC_OP_CREATE \<in> set evs"
  from edits_need_config_session [OF this] a show ?thesis by auto
qed



text \<open>C28: outside the batch mode a change is committed exactly if its managed object has succeeded, and it is reported as successful
  exactly if it was committed and the database has confirmed that.
\<close>

theorem edit_success_is_commit:
  assumes "KtServiceHandler env service h kt s = Some ((h', evs), s')" "ih_operation h \<in> edits" "\<not> uc_batch_mode_in_progress s" "ke_config_is_rw env"
  shows "(EvTx True \<in> set evs) = (EvMo (ih_operation h) \<in> set evs \<and> ke_mo env = UPLL_RC_SUCCESS) \<and>
    (ih_result_code h' = UPLL_RC_SUCCESS) = (EvTx True \<in> set evs \<and> ke_end_of_tx env = kDalRcSuccess)"
  using assms(1)
proof (cases rule: KtServiceHandlerE)
  case 1
  then show ?thesis using refused_edit assms(1,2) by auto
next
  case (2 h1 urc inner)
  have conn: "uses_config_conn h1" using assms(2) 2(2) by (simp add: uses_config_conn_def)
  have conv: "ConvertDalResultCode drc = UPLL_RC_SUCCESS \<longleftrightarrow> drc = kDalRcSuccess" for drc by (simp add: ConvertDalResultCode_def)
  have "(EvTx True \<in> set inner) = (EvMo (ih_operation h) \<in> set inner \<and> ke_mo env = UPLL_RC_SUCCESS) \<and>
      (urc = UPLL_RC_SUCCESS) = (EvTx True \<in> set inner \<and> ke_end_of_tx env = kDalRcSuccess)"
    using 2(5)
  proof (cases rule: kt_lockedE)
    case (1 m)
    then show ?thesis using conn by (auto simp: kt_open_def split: prod.splits option.splits)
  next
    case (2 d m s1)
    then show ?thesis
      using conn assms(2-4) \<open>ih_operation h1 = ih_operation h\<close>
      by (auto simp: kt_perform_def kt_call_def kt_end_rw_def tx_close_def DalTxClose_def conv split: if_splits)
  qed
  then show ?thesis using 2(6,7) by auto
qed

theorem edit_success_is_commit_witness:
  "\<exists>h' evs s'. KtServiceHandler example_env UPLL_EDIT_SVC_ID example_request UNC_KT_VTN example_mgr = Some ((h', evs), s') \<and>
     EvTx True \<in> set evs \<and> ih_result_code h' = UPLL_RC_SUCCESS"
proof (rule example_run)
  fix h' evs s'
  assume a: "KtServiceHandler example_env UPLL_EDIT_SVC_ID example_request UNC_KT_VTN example_mgr = Some ((h', evs), s')" "EvTx True \<in> set evs"
  have "ih_operation example_request \<in> edits" "\<not> uc_batch_mode_in_progress example_mgr" "ke_config_is_rw example_env" "ke_end_of_tx example_env = kDalRcSuccess"
    by (simp_all add: example_request_def example_mgr_def example_env_def)
  with edit_success_is_commit [OF a(1)] a show ?thesis by blast
qed

end
