(* ===== verification/Spec2Isabelle.thy ===== *)
theory Spec2Isabelle
  imports TC_NodeProps TC_MsgDecode TC_QueueProps TL_Results US_DbProps US_Compose UL_Build UL_Ctrlr UL_Service
begin

text \<open>
  A verification development of the VTN Coordinator (\<open>src/coordinator\<close>): the transaction coordinator TC
  (\<open>modules/tc\<close>, \<open>libs/libtc_common\<close>), the library that carries its protocol into the other daemons
  (\<open>modules/tclib\<close>), and the session manager (\<open>modules/usess\<close>) with its database library
  (\<open>libs/mgmt/libuncmgmtdb\<close>), and of the daemon UPLL (\<open>modules/upll\<close>) the
  parts below its managed objects: the tree of key types, the locks, the database connections, the controllers and the handler of
  requests on the key tree.

  \<^bold>\<open>The program.\<close> The coordinator keeps the configuration of virtual networks. A user acquires the
  configuration session, changes the candidate configuration and commits it. TC owns the session and
  the lock that excludes commits, audits and reads of the databases from each other; it runs the
  two-phase commit over the daemons UPLL (logical network), UPPL (physical network) and one driver for each
  kind of controller, records the operation in a recovery table while it cannot be undone, and at a switch-over
  lets the daemons audit their databases accordingly. In every daemon \<open>tclib\<close> receives the messages of
  TC, checks their order and calls the handlers of the daemon. The session manager \<open>usess\<close> lives in the process of TC: it
  logs users in and out, keeps their rights and tells TC when a session is gone.

  \<^bold>\<open>Theories and sources.\<close>
  \<^item> \<open>VTN_Prelude\<close>: machine words, collections of rules, facts on options, lists and words.
  \<^item> \<open>TC_Types\<close>, \<open>TC_RWLock\<close>, \<open>TC_Lock\<close>: \<open>tc_module_data.hh\<close> and \<open>tc_lock.cc\<close>. The read/write lock and
    the lock are records; a method is a function from the record to its result and the new record. A
    method that waits on a condition variable takes what the other threads do meanwhile as an argument
    and has the value \<open>None\<close> if it waits for ever.
  \<^item> \<open>TC_Ipc\<close>: \<open>libtc_client_sess_utils.cc\<close>, \<open>libtc_server_sess_utils.cc\<close>; the transport is the parameter
    \<open>ipc_env\<close>, a function of the history of the events so far.
  \<^item> \<open>TC_Msg\<close>, \<open>TC_MsgCommit\<close>, \<open>TC_MsgAudit\<close>: \<open>tcmsg.cc\<close>, \<open>tcmsg_commit.cc\<close>, \<open>tcmsg_audit.cc\<close>. A message
    is a record, its methods are programs of the state monad.
  \<^item> \<open>TC_Db\<close>: \<open>tc_db_handler.cc\<close>, with the text of the statements; the ODBC driver is the parameter \<open>odbc_env\<close>.
  \<^item> \<open>TC_Oper\<close>, \<open>TC_OperConfig\<close>, \<open>TC_OperCand\<close>, \<open>TC_OperSimple\<close>, \<open>TC_OperStartup\<close>, \<open>TC_OperAudit\<close>:
    \<open>tc_operations.cc\<close> and its subclasses. The virtual methods of a class are the record \<open>oper_vt\<close>, over which
    \<open>Dispatch\<close> is defined once. A failed \<open>PFC_VERIFY\<close> is \<open>None\<close>; \<open>PFC_ASSERT\<close> does nothing in a release build.
  \<^item> \<open>TC_Module\<close>: \<open>tc_module.cc\<close>, \<open>tc_unc_states.cc\<close>, \<open>tc_taskq.cc\<close>.
  \<^item> \<open>TL_Msg\<close>, \<open>TL_Module\<close>, \<open>TL_Service\<close>: \<open>tclib_msg_util.cc\<close>, \<open>tclib_module.cc\<close>; the handlers of the
    daemon are the parameter \<open>tclib_env\<close>. A daemon serves one request at a time.
  \<^item> \<open>US_Db\<close>: \<open>mgmt_database.cc\<close>; the ODBC driver is the parameter \<open>mgmt_env\<close>, again a function of its history.
  \<^item> \<open>US_Base\<close>, \<open>US_Sessions\<close>, \<open>US_Users\<close>, \<open>US_Module\<close>: \<open>usess_base_common.cc\<close> and the \<open>usess_conf_*.cc\<close>;
    \<open>usess_session.cc\<close> and \<open>usess_sessions.cc\<close>; \<open>usess_user.cc\<close>, \<open>usess_users.cc\<close> and \<open>usess_enable.cc\<close>; \<open>usess.cc\<close>. The table of sessions is an
    association list ordered by the session number. The C library (\<open>libc\<close>), the locks, the clock and the output of the IPC session
    (\<open>usess_env\<close>) are parameters; the calls into TC are the record \<open>tc_iface\<close>, of which \<open>tc_module_iface\<close> is the one of the program.
    A request is one step, except that a login gives up the lock once: what other requests do then is the argument \<open>ue_between\<close>.
  \<^item> \<open>UL_KeyTree\<close>, \<open>UL_Build\<close>: \<open>key_tree.cc\<close> and \<open>BuildKeyTree\<close> of \<open>config_mgr.cc\<close>. The nodes of the tree are positions in a list
    instead of pointers, and \<open>rep\<close> says which abstract tree they represent.
  \<^item> \<open>UL_Lock\<close>: \<open>config_lock.cc\<close>, and \<open>FindRequiredLocks\<close>, \<open>TakeConfigLock\<close> and \<open>ReleaseConfigLock\<close> of \<open>config_mgr.cc\<close>. An operation gives
    the calls on the read/write locks that it makes; threads that make them are a transition system.
  \<^item> \<open>UL_DbConn\<close>: \<open>dbconn_mgr.cc\<close>; the results of the data access layer and the addresses of new objects are arguments. The users of the
    pool are a transition system, in which the wait for the semaphore and the rest of \<open>AcquireRoConn\<close> are two steps.
  \<^item> \<open>UL_Ctrlr\<close>: \<open>ctrlr_mgr.cc\<close>; the maps of the source are association lists, the list of controllers is a list.
  \<^item> \<open>UL_Service\<close>: \<open>KtServiceHandler\<close> of \<open>config_mgr.cc\<close> with its checks, over the locks and the connections. A request is one step; the
    managed objects are an argument, by the result of the call, and so are the answers of the data access layer.

  \<^bold>\<open>What is shown.\<close>
  \<^item> The lock (\<open>TC_LockSafety\<close>, \<open>TC_LockProps\<close>, \<open>TC_LockClients\<close>, \<open>TC_ConfigProps\<close>): exclusion and ownership
    over all reachable states of the lock as a state machine, the configuration session as a refinement of a
    four-state specification, and that the waiting calls return.
  \<^item> The messages (\<open>TC_MsgLogic\<close>, \<open>TC_MsgTrace\<close>, \<open>TC_MsgAsk\<close>, \<open>TC_MsgVote\<close>, \<open>TC_MsgTrans\<close>, \<open>TC_MsgNotify\<close>,
    \<open>TC_MsgDecode\<close>): a weakest-precondition calculus for message programs; success of a phase is unanimous, an abort
    takes back exactly the votes given, a transaction start is all or nothing, the controller
    information survives the transport.
  \<^item> The operations (\<open>TC_OperFrame\<close>, \<open>TC_OperLogic\<close>, \<open>TC_OperLock\<close>, \<open>TC_OperTotal\<close>, \<open>TC_OperProps\<close>,
    \<open>TC_ConfigFrame\<close>, \<open>TC_SessionProps\<close>, \<open>TC_QueueProps\<close>, \<open>TC_StartProps\<close>, \<open>TC_DbProps\<close>, \<open>TC_NodeProps\<close>): what a
    successful commit means, when the recovery table is written and cleared, that the lock is given back
    and that requests return, the queue of waiting requests, take-over after a switch of the nodes, and the states of the node.
  \<^item> The daemons (\<open>TL_Props\<close>, \<open>TL_Results\<close>): the daemon implements the automaton of the commit protocol, and
    the results of the drivers are read as they were written.
  \<^item> The session manager (\<open>US_Frame\<close>, \<open>US_Inv\<close>, \<open>US_Number\<close>, \<open>US_Auth\<close>, \<open>US_DbProps\<close>): the table of sessions is well formed and
    within its limits after any requests, reloads and interleavings, numbers are given out cyclically, every change of the table is
    authorised according to an abstract specification, transactions end as they should and are never left open, and a changed
    password is stored and accepted.
  \<^item> Session manager and TC together (\<open>US_Compose\<close>): a logout releases the configuration session, and the list of the sessions shows its holder.
  \<^item> UPLL (\<open>UL_KeyTree\<close>, \<open>UL_Build\<close>): the iterator visits every tree of key types in preorder, so that parents come before their children
    (and behind them in the reverse list); the two trees of the program can be built. Threads cannot deadlock on the locks of the
    configurations (\<open>UL_Lock\<close>), unless bulk reads meet locks that prefer writers. A connection for reading has one user at a time and is not
    closed under it, but the pool can be used up for good by failures (\<open>UL_DbConn\<close>). The ordered list of controllers refines a map and is
    enumerated in order, and the counters of path faults are right below their wrap (\<open>UL_Ctrlr\<close>). A change of the configuration is made
    only for the session that TC announced, a request gives back its locks and its connection, and an edit outside the batch mode is
    reported as successful exactly if its transaction was committed (\<open>UL_Service\<close>).

  \<^bold>\<open>Interfaces.\<close> The locales \<open>write_lock\<close> (provided by the read/write lock and by \<open>TcLock\<close>),
  \<open>notification\<close> (the simple messages), \<open>operation\<close> and \<open>exclusive_operation\<close> (the classes of operations),
  \<open>config_invariant\<close> (what a configuration request leaves alone), \<open>waiting_queue\<close> (the queue of configuration
  requests), \<open>sessions_invariant\<close> and \<open>reload_invariant\<close> (invariants of the table of sessions, for the well-formed table and for the
  limits), \<open>config_service\<close> (what the session manager asks of TC) and \<open>data_refinement\<close> (an implementation with an invariant
  and its specification, for the controllers) are interpreted on the model in the theory of the component that provides them.

  \<^bold>\<open>Hypotheses about code outside the model.\<close> The other threads keep what only their owner may change
  (\<open>others_keep\<close> and its variants), a database returns what was committed (\<open>recovery_store\<close>), and daemons
  answer with success or failure (\<open>plain_answers\<close>); what happens during a login are requests and reloads again
  (\<open>interleaved\<close>), and \<open>crypt\<close> accepts a digest as its own setting. Uninitialised variables are arguments.

  \<^bold>\<open>Fuel.\<close> The loop over the results of the drivers in \<open>TL_Module\<close> has the number of arguments as fuel: every
  round moves the index forward. The search for a session number is a partial function, since it need not end when a range ends at
  the largest number; that it ends otherwise is part of its theorem.
  So is the traversal of the key types, along pointers that could form a cycle; it is shown to end on every tree that can be built. The other loops are structural, or have a termination proof.

  \<^bold>\<open>Not modelled.\<close> The managed objects of UPLL and the other handlers of \<open>config_mgr.cc\<close>, UPPL and the drivers behind their handlers (managed objects over a
  relational database and REST conversions), the PFC core below IPC, events and timers, the launcher interface,
  the cluster, alarm and capability modules, and the Java front end.
\<close>

end
